(* ===== verification/Prelude.thy ===== *)
theory Prelude
  imports Complex_Main "HOL-Library.AList" "HOL-Library.Sublist"
begin

text \<open>
  Shared vocabulary of the Kalyx development: how a Python call that may raise, a Python
  dictionary, \<open>x or y\<close>, \<open>uuid4()\<close>, \<open>utcnow()\<close>, and the hash functions are modelled, with
  the lemmas every component uses.

  \<^item> A call returns \<open>Inl (Exc k m)\<close> where the source raises an exception of class \<open>k\<close>, and
    \<open>Inr v\<close> where it returns \<open>v\<close>.  \<open>m\<close> is the fixed text of the message; the values an
    f-string interpolates into a message are not kept.
  \<^item> A dictionary is an association list updated with \<open>AList.update\<close>, which replaces in
    place or appends, as Python's insertion-ordered \<open>dict\<close> does.
  \<^item> \<open>env\<close> gives the values a call reads from outside: the results of \<open>uuid.uuid4()\<close> and of
    \<open>datetime.utcnow()\<close>, numbered by the place in the call that asks for them.
  \<^item> \<open>prims\<close> holds \<open>hashlib.sha256(..).hexdigest()\<close>, \<open>hmac.new(..).hexdigest()\<close> and
    \<open>json.dumps(..)\<close> (\<open>canonical_json\<close> with sorted keys and compact separators, \<open>json_dumps\<close> with
    sorted keys), the url-safe base64 codec, \<open>str(..)\<close> and the decimal notations of floats as
    uninterpreted functions, so that each theorem holds for whatever
    functions these are.
\<close>

named_theorems inv_intros \<open>an operation keeps its component's invariant\<close>
named_theorems frame_simps \<open>what an operation leaves unchanged\<close>

section \<open>Exceptions\<close>

datatype exc_kind =
    ValueError | KeyError | TypeError | PermissionError | RuntimeError | IntegrityError
  | ValidationError | NotImplementedError | AttributeError
  | InsufficientCreditsError | InvalidStateTransitionError | PolicyViolationError
  | UnauthorizedActionError | TamperedAuditLogError | ExternalExecutionError
  | ReconciliationError | IdempotencyConflict | IdempotencyInProgress
  | TokenAlreadyConsumed | AuditVerificationError | CollateralTransitionError
  | NoEligibleAgentException | AssertionError | AgentBudgetExceeded
  | MainnetActivationConfigError | ReadTimeout

datatype exc = Exc (exc_kind: exc_kind) (exc_msg: string)

type_synonym 'a result = "exc + 'a"

abbreviation raise :: "exc_kind \<Rightarrow> string \<Rightarrow> 'a result" where
  "raise k m \<equiv> Inl (Exc k m)"

definition bind_result :: "'a result \<Rightarrow> ('a \<Rightarrow> 'b result) \<Rightarrow> 'b result" where
  "bind_result r f = (case r of Inl e \<Rightarrow> Inl e | Inr a \<Rightarrow> f a)"

lemma bind_result_Inl [simp]: "bind_result (Inl e) f = Inl e"
  by (simp add: bind_result_def)

lemma bind_result_Inr [simp]: "bind_result (Inr a) f = f a"
  by (simp add: bind_result_def)

lemma bind_result_eq_Inr [simp]:
  "bind_result r f = Inr b \<longleftrightarrow> (\<exists>a. r = Inr a \<and> f a = Inr b)"
  by (cases r) auto

text \<open>
  A method that changes state and may raise is a function from the state to the outcome and
  the state it leaves; an exception keeps the changes made before it.
\<close>

type_synonym ('s, 'a) act = "'s \<Rightarrow> 'a result \<times> 's"

definition act_return :: "'a \<Rightarrow> ('s, 'a) act" where
  "act_return a s = (Inr a, s)"

definition act_raise :: "exc_kind \<Rightarrow> string \<Rightarrow> ('s, 'a) act" where
  "act_raise k m s = (raise k m, s)"

definition act_bind :: "('s, 'a) act \<Rightarrow> ('a \<Rightarrow> ('s, 'b) act) \<Rightarrow> ('s, 'b) act" where
  "act_bind f g s = (case f s of (Inl x, s') \<Rightarrow> (Inl x, s') | (Inr a, s') \<Rightarrow> g a s')"

text \<open>A pure check, and a check with a message.\<close>

definition act_lift :: "'a result \<Rightarrow> ('s, 'a) act" where
  "act_lift r s = (r, s)"

definition act_guard :: "bool \<Rightarrow> exc_kind \<Rightarrow> string \<Rightarrow> ('s, unit) act" where
  "act_guard b k m s = (if b then Inr () else raise k m, s)"

lemmas act_simps = act_return_def act_raise_def act_lift_def act_guard_def

lemma act_bind_Inl: "f s = (Inl x, s') \<Longrightarrow> act_bind f g s = (Inl x, s')"
  by (simp add: act_bind_def)

lemma act_bind_Inr: "f s = (Inr a, s') \<Longrightarrow> act_bind f g s = g a s'"
  by (simp add: act_bind_def)

lemma act_bind_eq_Inr:
  "act_bind f g s = (Inr b, s2) \<longleftrightarrow> (\<exists>a s1. f s = (Inr a, s1) \<and> g a s1 = (Inr b, s2))"
  by (auto simp: act_bind_def split: prod.splits sum.splits)

lemma act_bind_eq_Inl:
  "act_bind f g s = (Inl x, s2) \<longleftrightarrow>
     f s = (Inl x, s2) \<or> (\<exists>a s1. f s = (Inr a, s1) \<and> g a s1 = (Inl x, s2))"
  by (auto simp: act_bind_def split: prod.splits sum.splits)

lemma act_bind_return [simp]: "act_bind (act_return a) g = g a"
  by (simp add: fun_eq_iff act_bind_def act_return_def)

lemma act_bind_raise [simp]: "act_bind (act_raise k m) g = act_raise k m"
  by (simp add: fun_eq_iff act_bind_def act_raise_def)

section \<open>The outside world\<close>

record env =
  e_now :: "nat \<Rightarrow> string"
  e_uuid :: "nat \<Rightarrow> string"

definition env_skip :: "nat \<Rightarrow> env \<Rightarrow> env" where
  "env_skip k e = \<lparr>e_now = (\<lambda>i. e_now e (i + k)), e_uuid = (\<lambda>i. e_uuid e (i + k))\<rparr>"

lemma env_skip_simps [simp]:
  "e_now (env_skip k e) i = e_now e (i + k)" "e_uuid (env_skip k e) i = e_uuid e (i + k)"
  by (simp_all add: env_skip_def)

section \<open>Python values\<close>

text \<open>\<open>x or y\<close> on an optional string: \<open>None\<close> and the empty string are false.\<close>

fun py_or :: "string option \<Rightarrow> string \<Rightarrow> string" where
  "py_or None d = d"
| "py_or (Some x) d = (if x = [] then d else x)"

fun py_truthy :: "string option \<Rightarrow> bool" where
  "py_truthy None = False"
| "py_truthy (Some x) = (x \<noteq> [])"

lemma py_or_nonempty [simp]: "x \<noteq> [] \<Longrightarrow> py_or (Some x) d = x"
  by simp

text \<open>\<open>d.get(k, default)\<close>.\<close>

definition dict_get :: "('k \<times> 'v) list \<Rightarrow> 'k \<Rightarrow> 'v \<Rightarrow> 'v" where
  "dict_get d k v = (case map_of d k of None \<Rightarrow> v | Some x \<Rightarrow> x)"

lemma dict_get_Nil [simp]: "dict_get [] k v = v"
  by (simp add: dict_get_def)

lemma dict_get_Cons [simp]:
  "dict_get ((a, b) # d) k v = (if a = k then b else dict_get d k v)"
  by (simp add: dict_get_def)

lemma dict_get_update [simp]:
  "dict_get (AList.update a b d) k v = (if k = a then b else dict_get d k v)"
  by (simp add: dict_get_def update_conv)

lemma dict_get_absent [simp]: "k \<notin> fst ` set d \<Longrightarrow> dict_get d k v = v"
  using map_of_eq_None_iff [of d k] by (simp add: dict_get_def)

section \<open>Python string operations\<close>

text \<open>\<open>s.split(c)\<close>, \<open>c.join(parts)\<close>, \<open>s.startswith(p)\<close> (\<open>prefix p s\<close>) and
  \<open>s.removeprefix(p)\<close>.\<close>

fun py_split :: "char \<Rightarrow> string \<Rightarrow> string list" where
  "py_split c [] = [[]]"
| "py_split c (x # xs) =
     (if x = c then [] # py_split c xs
      else case py_split c xs of [] \<Rightarrow> [[x]] | p # ps \<Rightarrow> (x # p) # ps)"

fun py_join :: "string \<Rightarrow> string list \<Rightarrow> string" where
  "py_join c [] = []"
| "py_join c [p] = p"
| "py_join c (p # ps) = p @ c @ py_join c ps"

definition removeprefix :: "string \<Rightarrow> string \<Rightarrow> string" where
  "removeprefix p s = (if prefix p s then drop (length p) s else s)"

lemma py_split_nonempty [simp]: "py_split c xs \<noteq> []"
  by (cases xs) (auto split: list.split)

lemma py_split_none [simp]: "c \<notin> set xs \<Longrightarrow> py_split c xs = [xs]"
  by (induction xs) auto

lemma py_split_append [simp]:
  "c \<notin> set xs \<Longrightarrow> py_split c (xs @ c # ys) = xs # py_split c ys"
  by (induction xs) auto

lemma py_join_split: "py_join [c] (py_split c xs) = xs"
proof (induction xs)
  case (Cons x xs)
  then show ?case
    by (cases "py_split c xs"; cases "tl (py_split c xs)") (auto simp: neq_Nil_conv)
qed simp

lemma removeprefix_append [simp]: "removeprefix p (p @ s) = s"
  by (simp add: removeprefix_def)

text \<open>Fields joined by a separator can be read back when the leading ones do not contain it.\<close>

lemma sep_inject:
  assumes "c \<notin> set a" "c \<notin> set a'" "a @ c # b = a' @ c # b'"
  shows "a = a' \<and> b = b'"
  using assms
proof (induction a arbitrary: a')
  case Nil
  then show ?case by (cases a') auto
next
  case (Cons x a)
  then show ?case by (cases a') auto
qed

lemma sep_inject_iff:
  "c \<notin> set a \<Longrightarrow> c \<notin> set a' \<Longrightarrow> (a @ c # b = a' @ c # b') = (a = a' \<and> b = b')"
  using sep_inject [of c a a' b b'] by auto

section \<open>Sums over dictionaries\<close>

definition dict_sum :: "('k \<times> int) list \<Rightarrow> int" where
  "dict_sum d = sum_list (map snd d)"

lemma dict_sum_simps [simp]:
  "dict_sum [] = 0" "dict_sum (p # d) = snd p + dict_sum d"
  by (simp_all add: dict_sum_def)

lemma dict_sum_update:
  "distinct (map fst d) \<Longrightarrow>
     dict_sum (AList.update k v d) = dict_sum d + v - dict_get d k 0"
  by (induction d) auto

lemma dict_sum_filter_out:
  "distinct (map fst d) \<Longrightarrow>
     sum_list (map snd (filter (\<lambda>p. fst p \<noteq> k) d)) = dict_sum d - dict_get d k 0"
  by (induction d) (auto simp: dict_sum_def)

section \<open>Lists of records\<close>

text \<open>Generic sum of a filtered projection; the balances of the SQL ledgers are of this form.\<close>

definition sum_where :: "('a \<Rightarrow> bool) \<Rightarrow> ('a \<Rightarrow> int) \<Rightarrow> 'a list \<Rightarrow> int" where
  "sum_where P f xs = sum_list (map f (filter P xs))"

lemma sum_where_simps [simp]:
  "sum_where P f [] = 0"
  "sum_where P f (x # xs) = (if P x then f x else 0) + sum_where P f xs"
  "sum_where P f (xs @ ys) = sum_where P f xs + sum_where P f ys"
  by (simp_all add: sum_where_def)

lemma sum_where_nonneg: "(\<And>x. x \<in> set xs \<Longrightarrow> 0 \<le> f x) \<Longrightarrow> 0 \<le> sum_where P f xs"
  by (induction xs) auto

lemma sum_where_cong:
  "(\<And>x. x \<in> set xs \<Longrightarrow> P x = Q x) \<Longrightarrow> (\<And>x. x \<in> set xs \<Longrightarrow> P x \<Longrightarrow> f x = g x) \<Longrightarrow>
     sum_where P f xs = sum_where Q g xs"
  by (induction xs) auto

lemma sum_where_filter:
  "sum_where P f (filter Q xs) = sum_where (\<lambda>x. P x \<and> Q x) f xs"
  by (induction xs) auto

section \<open>Uninterpreted primitives\<close>

text \<open>JSON values as \<open>json.dumps\<close> sees them.  Floats are exact rationals.\<close>

datatype json =
    JNull | JBool bool | JInt int | JFloat rat | JStr string
  | JList "json list" | JObj "(string \<times> json) list"

definition opt_json :: "string option \<Rightarrow> json" where
  "opt_json x = (case x of None \<Rightarrow> JNull | Some s \<Rightarrow> JStr s)"

record prims =
  sha256 :: "string \<Rightarrow> string"
  hmac_sha256 :: "string \<Rightarrow> string \<Rightarrow> string"
  canonical_json :: "json \<Rightarrow> string"
  str_int :: "int \<Rightarrow> string"
  str_float :: "rat \<Rightarrow> string"
  format_4f :: "rat \<Rightarrow> string"
  format_2f :: "rat \<Rightarrow> string"
  json_dumps :: "json \<Rightarrow> string"
  py_str :: "json \<Rightarrow> string"
  b64_encode :: "string \<Rightarrow> string"
  b64_decode :: "string \<Rightarrow> string option"
  parse_float :: "string \<Rightarrow> rat option"

section \<open>Tables searched by key\<close>

lemma find_map_same:
  assumes "\<And>x. P (f x) = P x"
  shows "find P (map f xs) = map_option f (find P xs)"
  by (induction xs) (simp_all add: assms)

lemma find_append [simp]:
  "find P (xs @ ys) = (case find P xs of None \<Rightarrow> find P ys | Some x \<Rightarrow> Some x)"
  by (induction xs) simp_all

lemma find_replace_same:
  "\<exists>x \<in> set xs. P x \<Longrightarrow> P r \<Longrightarrow> find P (map (\<lambda>x. if P x then r else x) xs) = Some r"
  by (induction xs) auto

lemma find_replace_other:
  "\<not> Q r \<Longrightarrow> (\<And>x. P x \<Longrightarrow> \<not> Q x) \<Longrightarrow> find Q (map (\<lambda>x. if P x then r else x) xs) = find Q xs"
  by (induction xs) auto

lemma find_NoneD: "find P xs = None \<Longrightarrow> x \<in> set xs \<Longrightarrow> \<not> P x"
  by (auto simp: find_None_iff)

lemma find_SomeD: "find P xs = Some x \<Longrightarrow> P x \<and> x \<in> set xs"
  by (auto simp: find_Some_iff in_set_conv_nth)

lemma ball_map: "(\<forall>x \<in> set (map f xs). P x) \<longleftrightarrow> (\<forall>x \<in> set xs. P (f x))"
  by simp

lemma bex_map: "(\<exists>x \<in> set (map f xs). P x) \<longleftrightarrow> (\<exists>x \<in> set xs. P (f x))"
  by simp

section \<open>Concrete environments\<close>

text \<open>Two concrete environments, used where a theorem is instantiated.\<close>

definition demo_env :: env where
  "demo_env = \<lparr>e_now = (\<lambda>i. ''2026-01-01T00:00:00''), e_uuid = (\<lambda>i. replicate (i + 1) (CHR ''u''))\<rparr>"

definition demo_env2 :: env where
  "demo_env2 = \<lparr>e_now = (\<lambda>i. ''2026-01-02T00:00:00''), e_uuid = (\<lambda>i. replicate (i + 1) (CHR ''v''))\<rparr>"

end
