(* ===== verification/Ledger.thy ===== *)
theory Ledger
  imports Prelude
begin

text \<open>
  The in-memory double-entry ledger of \<open>src/economy/ledger.py\<close> (\<open>DoubleEntryLedger\<close>), the
  entry type of \<open>src/domain/entities.py\<close>, and the ledger interface every settlement
  component relies on (locale \<open>ledger_api\<close>), which the SQL and scoped ledgers also provide.
\<close>

section \<open>Entries\<close>

record ledger_entry =
  le_id :: string
  le_timestamp :: string
  le_transaction_id :: string
  le_from_account :: string
  le_to_account :: string
  le_amount :: int
  le_memo :: string

definition SYSTEM_MINT :: string where "SYSTEM_MINT = ''SYSTEM_MINT''"
definition TREASURY :: string where "TREASURY = ''TREASURY''"
definition ESCROW :: string where "ESCROW = ''ESCROW''"
definition EXTERNAL_SINK :: string where "EXTERNAL_SINK = ''EXTERNAL_SINK''"
definition REVENUE :: string where "REVENUE = ''REVENUE''"
definition SURPLUS_RESERVE :: string where "SURPLUS_RESERVE = ''SURPLUS_RESERVE''"

lemmas account_defs =
  SYSTEM_MINT_def TREASURY_def ESCROW_def EXTERNAL_SINK_def REVENUE_def SURPLUS_RESERVE_def

lemma accounts_distinct [simp]:
  "TREASURY \<noteq> ESCROW" "ESCROW \<noteq> TREASURY" "TREASURY \<noteq> EXTERNAL_SINK" "EXTERNAL_SINK \<noteq> TREASURY"
  "ESCROW \<noteq> EXTERNAL_SINK" "EXTERNAL_SINK \<noteq> ESCROW" "REVENUE \<noteq> TREASURY" "TREASURY \<noteq> REVENUE"
  "REVENUE \<noteq> SURPLUS_RESERVE" "SURPLUS_RESERVE \<noteq> REVENUE" "TREASURY \<noteq> SURPLUS_RESERVE"
  "SURPLUS_RESERVE \<noteq> TREASURY" "REVENUE \<noteq> ESCROW" "ESCROW \<noteq> REVENUE"
  "REVENUE \<noteq> EXTERNAL_SINK" "EXTERNAL_SINK \<noteq> REVENUE"
  "TREASURY \<noteq> SYSTEM_MINT" "ESCROW \<noteq> SYSTEM_MINT" "EXTERNAL_SINK \<noteq> SYSTEM_MINT"
  "REVENUE \<noteq> SYSTEM_MINT" "SURPLUS_RESERVE \<noteq> SYSTEM_MINT"
  "SYSTEM_MINT \<noteq> TREASURY" "SYSTEM_MINT \<noteq> ESCROW" "SYSTEM_MINT \<noteq> EXTERNAL_SINK"
  "SYSTEM_MINT \<noteq> REVENUE" "SYSTEM_MINT \<noteq> SURPLUS_RESERVE"
  by (simp_all add: account_defs)

text \<open>The pydantic model checks \<open>amount > 0\<close> on construction.\<close>

definition mk_ledger_entry ::
  "string \<Rightarrow> string \<Rightarrow> string \<Rightarrow> string \<Rightarrow> string \<Rightarrow> int \<Rightarrow> string \<Rightarrow> ledger_entry result" where
  "mk_ledger_entry eid ts tx frm t n memo =
     (if n > 0
      then Inr \<lparr>le_id = eid, le_timestamp = ts, le_transaction_id = tx, le_from_account = frm,
                le_to_account = t, le_amount = n, le_memo = memo\<rparr>
      else raise ValidationError ''amount must be greater than 0'')"

section \<open>The in-memory ledger\<close>

record ledger =
  lg_balances :: "(string \<times> int) list"
  lg_entries :: "ledger_entry list"
  lg_recorded_tx_ids :: "string set"
  lg_total_minted :: int

definition empty_ledger :: ledger where
  "empty_ledger = \<lparr>lg_balances = [], lg_entries = [], lg_recorded_tx_ids = {}, lg_total_minted = 0\<rparr>"

definition get_balance :: "ledger \<Rightarrow> string \<Rightarrow> int" where
  "get_balance L a = dict_get (lg_balances L) a 0"

text \<open>What \<open>_mint\<close> and \<open>deposit_revenue\<close> do once the entry is built.\<close>

definition credit_minted :: "ledger \<Rightarrow> ledger_entry \<Rightarrow> ledger" where
  "credit_minted L e = L\<lparr>
     lg_entries := lg_entries L @ [e],
     lg_recorded_tx_ids := insert (le_transaction_id e) (lg_recorded_tx_ids L),
     lg_balances := AList.update (le_to_account e)
        (dict_get (lg_balances L) (le_to_account e) 0 + le_amount e) (lg_balances L),
     lg_total_minted := lg_total_minted L + le_amount e\<rparr>"

definition mint :: "env \<Rightarrow> ledger \<Rightarrow> string \<Rightarrow> int \<Rightarrow> string \<Rightarrow> (ledger_entry \<times> ledger) result" where
  "mint E L t n memo =
     (let tx = ''mint-'' @ e_uuid E 0 in
      bind_result (mk_ledger_entry (e_uuid E 1) (e_now E 0) tx SYSTEM_MINT t n memo)
        (\<lambda>e. Inr (e, credit_minted L e)))"

definition init_ledger :: "env \<Rightarrow> int \<Rightarrow> ledger result" where
  "init_ledger E n =
     (if n > 0
      then bind_result (mint E empty_ledger TREASURY n ''Initial Organisation Treasury Allocation'')
             (\<lambda>(e, L). Inr L)
      else Inr empty_ledger)"

definition deposit_revenue ::
  "env \<Rightarrow> ledger \<Rightarrow> int \<Rightarrow> string \<Rightarrow> string option \<Rightarrow> (ledger_entry \<times> ledger) result" where
  "deposit_revenue E L n memo txid =
     (if n \<le> 0 then raise ValueError ''Deposit amount must be positive''
      else let tx = py_or txid (''deposit-'' @ e_uuid E 0) in
        if tx \<in> lg_recorded_tx_ids L then raise ValueError ''Duplicate transaction_id''
        else bind_result (mk_ledger_entry (e_uuid E 1) (e_now E 0) tx SYSTEM_MINT REVENUE n memo)
               (\<lambda>e. Inr (e, credit_minted L e)))"

definition transfer ::
  "env \<Rightarrow> ledger \<Rightarrow> string \<Rightarrow> string \<Rightarrow> int \<Rightarrow> string \<Rightarrow> string option \<Rightarrow>
     (ledger_entry \<times> ledger) result" where
  "transfer E L frm t n memo txid =
     (let tx = py_or txid (e_uuid E 0) in
      if tx \<in> lg_recorded_tx_ids L then raise ValueError ''Duplicate transaction ID''
      else if n \<le> 0 then raise ValueError ''Transfer amount must be positive''
      else if frm = t then raise ValueError ''Cannot transfer credits to the same account''
      else let cur = get_balance L frm in
        if cur < n then raise InsufficientCreditsError ''Account has too few credits''
        else bind_result (mk_ledger_entry (e_uuid E 1) (e_now E 0) tx frm t n memo)
          (\<lambda>e. let b1 = AList.update frm (cur - n) (lg_balances L);
                   b2 = AList.update t (dict_get b1 t 0 + n) b1
               in Inr (e, L\<lparr>lg_entries := lg_entries L @ [e],
                            lg_recorded_tx_ids := insert tx (lg_recorded_tx_ids L),
                            lg_balances := b2\<rparr>)))"

definition get_entries :: "ledger \<Rightarrow> string option \<Rightarrow> ledger_entry list" where
  "get_entries L acct =
     (case acct of None \<Rightarrow> lg_entries L
      | Some a \<Rightarrow> filter (\<lambda>e. le_from_account e = a \<or> le_to_account e = a) (lg_entries L))"

definition verify_conservation :: "ledger \<Rightarrow> bool" where
  "verify_conservation L \<longleftrightarrow>
     sum_list (map snd (filter (\<lambda>p. fst p \<noteq> SYSTEM_MINT) (lg_balances L))) = lg_total_minted L"

section \<open>The interface of a ledger\<close>

text \<open>
  What escrow and settlement code assumes of a ledger: a posted transfer passed the guards,
  moves exactly its amount, records its transaction id, and a transfer that satisfies the
  guards under a fresh transaction id is accepted (\<open>new_ids\<close>: where the ledger stores rows under
  a unique key, the uuids drawn for them are new).
\<close>

type_synonym 's post_fun =
  "env \<Rightarrow> 's \<Rightarrow> string \<Rightarrow> string \<Rightarrow> int \<Rightarrow> string \<Rightarrow> string option \<Rightarrow> (ledger_entry \<times> 's) result"

locale ledger_api =
  fixes inv :: "'s \<Rightarrow> bool"
    and bal :: "'s \<Rightarrow> string \<Rightarrow> int"
    and known :: "'s \<Rightarrow> string \<Rightarrow> bool"
    and post :: "'s post_fun"
    and new_ids :: "'s \<Rightarrow> env \<Rightarrow> bool"
  assumes post_guards:
      "inv s \<Longrightarrow> post E s f t n m tx = Inr (e, s') \<Longrightarrow> 0 < n \<and> f \<noteq> t \<and> n \<le> bal s f"
    and post_bal:
      "inv s \<Longrightarrow> post E s f t n m tx = Inr (e, s') \<Longrightarrow>
         bal s' a = bal s a + (if a = t then n else 0) - (if a = f then n else 0)"
    and post_inv: "inv s \<Longrightarrow> post E s f t n m tx = Inr (e, s') \<Longrightarrow> inv s'"
    and post_fresh:
      "inv s \<Longrightarrow> post E s f t n m tx = Inr (e, s') \<Longrightarrow> \<not> known s (le_transaction_id e)"
    and post_known:
      "inv s \<Longrightarrow> post E s f t n m tx = Inr (e, s') \<Longrightarrow>
         known s' x \<longleftrightarrow> x = le_transaction_id e \<or> known s x"
    and post_tx:
      "inv s \<Longrightarrow> post E s f t n m (Some x) = Inr (e, s') \<Longrightarrow> x \<noteq> [] \<Longrightarrow> le_transaction_id e = x"
    and post_accepts:
      "inv s \<Longrightarrow> new_ids s E \<Longrightarrow> x \<noteq> [] \<Longrightarrow> \<not> known s x \<Longrightarrow> 0 < n \<Longrightarrow> f \<noteq> t \<Longrightarrow> n \<le> bal s f \<Longrightarrow>
         \<exists>e s'. post E s f t n m (Some x) = Inr (e, s')"
begin

lemma no_replay:
  assumes "inv s" "post E s f t n m (Some x) = Inr (e, s')" "x \<noteq> []"
    and "post E' s' f' t' n' m' (Some x) = Inr r"
  shows False
proof -
  obtain e2 s2 where r: "r = (e2, s2)" by (cases r)
  have "known s' x" using assms(1-3) post_known post_tx by blast
  moreover have "inv s'" using assms(1,2) by (rule post_inv)
  ultimately show False using assms(3,4) r post_fresh post_tx by metis
qed

lemma known_mono:
  "inv s \<Longrightarrow> post E s f t n m tx = Inr (e, s') \<Longrightarrow> known s x \<Longrightarrow> known s' x"
  by (simp add: post_known)

lemma bal_nonneg:
  "inv s \<Longrightarrow> post E s f t n m tx = Inr (e, s') \<Longrightarrow> 0 \<le> bal s a \<Longrightarrow> 0 \<le> bal s' a"
  using post_guards post_bal by fastforce

lemma sum_preserved:
  assumes "inv s" "post E s f t n m tx = Inr (e, s')" "finite A" "f \<in> A" "t \<in> A"
  shows "(\<Sum>a\<in>A. bal s' a) = (\<Sum>a\<in>A. bal s a)"
  using assms by (simp add: post_bal sum.distrib sum_subtractf)

lemma there_and_back:
  assumes "inv s" "post E s f t n m tx = Inr (e, s')" "post E' s' t f n m' tx' = Inr (e', s'')"
  shows "bal s'' a = bal s a"
proof -
  have "inv s'" using assms(1,2) by (rule post_inv)
  then show ?thesis using assms by (simp add: post_bal)
qed

lemma rejected_overdraft:
  "inv s \<Longrightarrow> bal s f < n \<Longrightarrow> \<exists>x. post E s f t n m tx = Inl x"
  using post_guards by (cases "post E s f t n m tx") fastforce+

end

section \<open>Invariant of the in-memory ledger\<close>

definition net :: "string \<Rightarrow> 'a ledger_entry_scheme list \<Rightarrow> int" where
  "net a es = sum_where (\<lambda>e. le_to_account e = a) le_amount es
            - sum_where (\<lambda>e. le_from_account e = a) le_amount es"

lemma net_simps [simp]:
  "net a [] = 0"
  "net a (es @ [e]) = net a es + (if le_to_account e = a then le_amount e else 0)
     - (if le_from_account e = a then le_amount e else 0)"
  by (simp_all add: net_def)

definition ledger_inv :: "ledger \<Rightarrow> bool" where
  "ledger_inv L \<longleftrightarrow>
     distinct (map fst (lg_balances L)) \<and>
     (\<forall>a. 0 \<le> get_balance L a) \<and>
     dict_sum (lg_balances L) = lg_total_minted L \<and>
     lg_recorded_tx_ids L = le_transaction_id ` set (lg_entries L) \<and>
     distinct (map le_transaction_id (lg_entries L)) \<and>
     (\<forall>e \<in> set (lg_entries L). 0 < le_amount e) \<and>
     (\<forall>a. a \<noteq> SYSTEM_MINT \<longrightarrow> get_balance L a = net a (lg_entries L)) \<and>
     get_balance L SYSTEM_MINT
       \<le> sum_where (\<lambda>e. le_to_account e = SYSTEM_MINT) le_amount (lg_entries L)"

lemma mk_ledger_entry_Inr:
  "mk_ledger_entry i ts tx f t n m = Inr e \<longleftrightarrow>
     n > 0 \<and> e = \<lparr>le_id = i, le_timestamp = ts, le_transaction_id = tx, le_from_account = f,
                 le_to_account = t, le_amount = n, le_memo = m\<rparr>"
  by (auto simp: mk_ledger_entry_def)

lemma transfer_Inr:
  "transfer E L f t n m txid = Inr (e, L') \<longleftrightarrow>
     py_or txid (e_uuid E 0) \<notin> lg_recorded_tx_ids L \<and> n > 0 \<and> f \<noteq> t \<and> n \<le> get_balance L f \<and>
     e = \<lparr>le_id = e_uuid E 1, le_timestamp = e_now E 0,
          le_transaction_id = py_or txid (e_uuid E 0), le_from_account = f,
          le_to_account = t, le_amount = n, le_memo = m\<rparr> \<and>
     L' = L\<lparr>lg_entries := lg_entries L @ [e],
            lg_recorded_tx_ids := insert (le_transaction_id e) (lg_recorded_tx_ids L),
            lg_balances := AList.update t (get_balance L t + n)
              (AList.update f (get_balance L f - n) (lg_balances L))\<rparr>"
  by (auto simp: transfer_def Let_def mk_ledger_entry_Inr get_balance_def)

lemma ledger_inv_append:
  assumes inv: "ledger_inv L" and pos: "0 < le_amount e"
    and fresh: "le_transaction_id e \<notin> lg_recorded_tx_ids L"
    and es: "lg_entries L' = lg_entries L @ [e]"
    and tx: "lg_recorded_tx_ids L' = insert (le_transaction_id e) (lg_recorded_tx_ids L)"
    and keys: "distinct (map fst (lg_balances L'))"
    and total: "dict_sum (lg_balances L') = lg_total_minted L'"
    and nonneg: "\<And>a. 0 \<le> get_balance L' a"
    and bal: "\<And>a. a \<noteq> SYSTEM_MINT \<Longrightarrow> get_balance L' a = get_balance L a
        + (if le_to_account e = a then le_amount e else 0)
        - (if le_from_account e = a then le_amount e else 0)"
    and sink: "get_balance L' SYSTEM_MINT \<le> get_balance L SYSTEM_MINT
        + (if le_to_account e = SYSTEM_MINT then le_amount e else 0)"
  shows "ledger_inv L'"
proof -
  have "\<forall>a. a \<noteq> SYSTEM_MINT \<longrightarrow> get_balance L' a = net a (lg_entries L')"
    using inv by (simp add: bal es ledger_inv_def)
  moreover have "get_balance L' SYSTEM_MINT
      \<le> sum_where (\<lambda>e. le_to_account e = SYSTEM_MINT) le_amount (lg_entries L')"
    using inv sink by (simp add: es ledger_inv_def)
  ultimately show ?thesis
    using inv pos fresh es tx keys total nonneg by (auto simp: ledger_inv_def)
qed

lemma credit_minted_inv [inv_intros]:
  assumes inv: "ledger_inv L" and "0 < le_amount e" and "le_from_account e = SYSTEM_MINT"
    and "le_transaction_id e \<notin> lg_recorded_tx_ids L"
  shows "ledger_inv (credit_minted L e)"
proof (rule ledger_inv_append [OF assms(1,2,4)])
  fix a
  have "0 \<le> get_balance L a" using inv by (simp add: ledger_inv_def)
  then show "0 \<le> get_balance (credit_minted L e) a"
    using assms by (auto simp: credit_minted_def get_balance_def)
qed (use assms in \<open>auto simp: credit_minted_def get_balance_def ledger_inv_def distinct_update
       dict_sum_update\<close>)

lemma transfer_inv [inv_intros]:
  assumes inv: "ledger_inv L" and ok: "transfer E L f t n m txid = Inr (e, L')"
  shows "ledger_inv L'"
proof (rule ledger_inv_append [OF inv])
  fix a
  have "0 \<le> get_balance L a" using inv by (simp add: ledger_inv_def)
  then show "0 \<le> get_balance L' a"
    using ok by (auto simp: transfer_Inr get_balance_def)
  show "get_balance L' a = get_balance L a + (if le_to_account e = a then le_amount e else 0)
     - (if le_from_account e = a then le_amount e else 0)"
    using ok by (auto simp: transfer_Inr get_balance_def)
next
  show "dict_sum (lg_balances L') = lg_total_minted L'"
    using inv ok
    by (auto simp: transfer_Inr ledger_inv_def get_balance_def distinct_update dict_sum_update)
qed (use inv ok in \<open>auto simp: transfer_Inr get_balance_def ledger_inv_def distinct_update\<close>)

lemma empty_ledger_inv [simp, inv_intros]: "ledger_inv empty_ledger"
  by (simp add: ledger_inv_def empty_ledger_def get_balance_def)

lemma mint_Inr:
  "mint E L t n m = Inr (e, L') \<longleftrightarrow>
     n > 0 \<and> L' = credit_minted L e \<and>
     e = \<lparr>le_id = e_uuid E 1, le_timestamp = e_now E 0, le_transaction_id = ''mint-'' @ e_uuid E 0,
          le_from_account = SYSTEM_MINT, le_to_account = t, le_amount = n, le_memo = m\<rparr>"
  by (auto simp: mint_def Let_def mk_ledger_entry_Inr)

lemma deposit_revenue_Inr:
  "deposit_revenue E L n m txid = Inr (e, L') \<longleftrightarrow>
     n > 0 \<and> py_or txid (''deposit-'' @ e_uuid E 0) \<notin> lg_recorded_tx_ids L \<and>
     L' = credit_minted L e \<and>
     e = \<lparr>le_id = e_uuid E 1, le_timestamp = e_now E 0,
          le_transaction_id = py_or txid (''deposit-'' @ e_uuid E 0),
          le_from_account = SYSTEM_MINT, le_to_account = REVENUE, le_amount = n, le_memo = m\<rparr>"
  by (auto simp: deposit_revenue_def Let_def mk_ledger_entry_Inr)

lemma deposit_revenue_inv [inv_intros]:
  "ledger_inv L \<Longrightarrow> deposit_revenue E L n m txid = Inr (e, L') \<Longrightarrow> ledger_inv L'"
  by (auto simp: deposit_revenue_Inr intro!: credit_minted_inv)

lemma mint_inv [inv_intros]:
  "ledger_inv L \<Longrightarrow> mint E L t n m = Inr (e, L') \<Longrightarrow>
     ''mint-'' @ e_uuid E 0 \<notin> lg_recorded_tx_ids L \<Longrightarrow> ledger_inv L'"
  by (auto simp: mint_Inr intro!: credit_minted_inv)

lemma empty_ledger_tx [simp]: "lg_recorded_tx_ids empty_ledger = {}"
  by (simp add: empty_ledger_def)

lemma init_ledger_inv [inv_intros]:
  assumes "init_ledger E n = Inr L"
  shows "ledger_inv L"
proof (cases "n > 0")
  case True
  with assms obtain e where "mint E empty_ledger TREASURY n
      ''Initial Organisation Treasury Allocation'' = Inr (e, L)"
    by (auto simp: init_ledger_def)
  then show ?thesis by (rule mint_inv [OF empty_ledger_inv]) simp
next
  case False
  with assms show ?thesis by (simp add: init_ledger_def)
qed

interpretation mem: ledger_api ledger_inv get_balance "\<lambda>L x. x \<in> lg_recorded_tx_ids L" transfer
  "\<lambda>L E. True"
proof unfold_locales
  fix s E x and n :: int and f t m :: string
  assume "ledger_inv s" "x \<noteq> []" "x \<notin> lg_recorded_tx_ids s" "0 < n" "f \<noteq> t" "n \<le> get_balance s f"
  then show "\<exists>e s'. transfer E s f t n m (Some x) = Inr (e, s')"
    by (auto simp: transfer_Inr)
next
  fix s E f t n m tx e s'
  assume "ledger_inv s" "transfer E s f t n m tx = Inr (e, s')"
  then show "ledger_inv s'" by (rule transfer_inv)
qed (auto simp: transfer_Inr get_balance_def)

section \<open>Reachable ledgers\<close>

text \<open>
  The ledgers a program can build: start with an initial treasury, then mint, deposit and
  transfer in any order.  A mint carries a transaction id made from a fresh uuid, which is
  the premise of its rule; deposits and transfers check their id themselves.
\<close>

inductive ledger_step :: "ledger \<Rightarrow> ledger \<Rightarrow> bool" where
  step_mint: "mint E L t n m = Inr (e, L') \<Longrightarrow> ''mint-'' @ e_uuid E 0 \<notin> lg_recorded_tx_ids L \<Longrightarrow>
     ledger_step L L'"
| step_deposit: "deposit_revenue E L n m tx = Inr (e, L') \<Longrightarrow> ledger_step L L'"
| step_transfer: "transfer E L f t n m tx = Inr (e, L') \<Longrightarrow> ledger_step L L'"

inductive ledger_reach :: "ledger \<Rightarrow> bool" where
  reach_init: "init_ledger E n = Inr L \<Longrightarrow> ledger_reach L"
| reach_step: "ledger_reach L \<Longrightarrow> ledger_step L L' \<Longrightarrow> ledger_reach L'"

lemma ledger_step_inv: "ledger_step L L' \<Longrightarrow> ledger_inv L \<Longrightarrow> ledger_inv L'"
  by (induction rule: ledger_step.induct) (auto intro: inv_intros)

lemma ledger_reach_inv: "ledger_reach L \<Longrightarrow> ledger_inv L"
  by (induction rule: ledger_reach.induct) (auto intro: ledger_step_inv init_ledger_inv)

lemma verify_conservation_iff:
  "ledger_inv L \<Longrightarrow> verify_conservation L \<longleftrightarrow> get_balance L SYSTEM_MINT = 0"
  by (auto simp: ledger_inv_def verify_conservation_def dict_sum_filter_out get_balance_def)

lemma sum_where_none: "(\<And>x. x \<in> set xs \<Longrightarrow> \<not> P x) \<Longrightarrow> sum_where P f xs = 0"
  by (induction xs) auto

lemma ledger_inv_nonneg: "ledger_inv L \<Longrightarrow> 0 \<le> get_balance L a"
  by (simp add: ledger_inv_def)

lemma ledger_inv_mint_zero:
  assumes "ledger_inv L" "\<forall>e \<in> set (lg_entries L). le_to_account e \<noteq> SYSTEM_MINT"
  shows "get_balance L SYSTEM_MINT = 0"
proof (rule antisym)
  show "get_balance L SYSTEM_MINT \<le> 0" using assms by (simp add: ledger_inv_def sum_where_none)
qed (use assms(1) in \<open>rule ledger_inv_nonneg\<close>)


definition demo_ledger :: ledger where
  "demo_ledger = \<lparr>lg_balances = [(TREASURY, 100)],
     lg_entries = [\<lparr>le_id = ''uu'', le_timestamp = ''2026-01-01T00:00:00'',
        le_transaction_id = ''mint-u'', le_from_account = SYSTEM_MINT, le_to_account = TREASURY,
        le_amount = 100, le_memo = ''Initial Organisation Treasury Allocation''\<rparr>],
     lg_recorded_tx_ids = {''mint-u''}, lg_total_minted = 100\<rparr>"

lemma demo_ledger_init: "init_ledger demo_env 100 = Inr demo_ledger"
  by (simp add: init_ledger_def demo_ledger_def demo_env_def mint_def mk_ledger_entry_def
      credit_minted_def empty_ledger_def Let_def)

lemma demo_ledger_reach: "ledger_reach demo_ledger"
  by (rule reach_init [OF demo_ledger_init])


text \<open>
  The check fails exactly when credits sit on the mint account.  \<open>transfer\<close> has no guard
  on its destination, so a transfer into \<open>SYSTEM_MINT\<close> on a reachable, conserving ledger
  always leaves a ledger that \<open>verify_conservation\<close> rejects.
\<close>

theorem transfer_to_mint_breaks_conservation:
  assumes "ledger_reach L" "transfer E L f SYSTEM_MINT n m tx = Inr (e, L')"
  shows "\<not> verify_conservation L'"
proof -
  have inv: "ledger_inv L" using assms(1) by (rule ledger_reach_inv)
  then have "0 \<le> get_balance L SYSTEM_MINT" by (rule ledger_inv_nonneg)
  moreover have "get_balance L' SYSTEM_MINT = get_balance L SYSTEM_MINT + n" and "0 < n"
    using assms(2) by (auto simp: transfer_Inr get_balance_def)
  moreover have "ledger_inv L'" using inv assms(2) by (rule transfer_inv)
  ultimately show ?thesis by (simp add: verify_conservation_iff)
qed

theorem transfer_to_mint_breaks_conservation_witness:
  "\<exists>e L'. transfer demo_env demo_ledger TREASURY SYSTEM_MINT 10 [] None = Inr (e, L')
     \<and> \<not> verify_conservation L'"
proof -
  obtain e L' where "transfer demo_env demo_ledger TREASURY SYSTEM_MINT 10 [] None = Inr (e, L')"
    by (simp add: transfer_def mk_ledger_entry_def demo_ledger_def demo_env_def get_balance_def Let_def)
  with transfer_to_mint_breaks_conservation [OF demo_ledger_reach] show ?thesis by blast
qed

lemma ledger_step_known:
  "ledger_step L L' \<Longrightarrow> lg_recorded_tx_ids L \<subseteq> lg_recorded_tx_ids L'"
  by (induction rule: ledger_step.induct)
     (auto simp: mint_Inr deposit_revenue_Inr transfer_Inr credit_minted_def)

lemma ledger_steps_known:
  "ledger_step\<^sup>*\<^sup>* L L' \<Longrightarrow> lg_recorded_tx_ids L \<subseteq> lg_recorded_tx_ids L'"
  by (induction rule: rtranclp_induct) (use ledger_step_known in blast)+

text \<open>
  No double spend.  Once a transfer under a caller-supplied transaction id has been
  accepted, every later attempt under the same id, with any amount and accounts and after
  any further activity, raises \<open>ValueError\<close>.
\<close>

theorem transfer_no_double_spend:
  assumes "transfer E L f t n m (Some x) = Inr (e, L1)" "x \<noteq> []" "ledger_step\<^sup>*\<^sup>* L1 L2"
  shows "transfer E' L2 f' t' n' m' (Some x) = raise ValueError ''Duplicate transaction ID''"
proof -
  have "x \<in> lg_recorded_tx_ids L1" using assms(1,2) by (auto simp: transfer_Inr)
  with ledger_steps_known [OF assms(3)] assms(2) show ?thesis
    by (auto simp: transfer_def)
qed

theorem transfer_no_double_spend_witness:
  "\<exists>e L1. transfer demo_env demo_ledger TREASURY ESCROW 10 [] (Some ''res-1'') = Inr (e, L1)
     \<and> transfer demo_env L1 TREASURY ESCROW 10 [] (Some ''res-1'')
        = raise ValueError ''Duplicate transaction ID''"
proof -
  obtain e L1 where ok: "transfer demo_env demo_ledger TREASURY ESCROW 10 [] (Some ''res-1'') = Inr (e, L1)"
    by (simp add: transfer_def mk_ledger_entry_def demo_ledger_def demo_env_def get_balance_def Let_def)
  from transfer_no_double_spend [OF this _ rtranclp.rtrancl_refl] ok show ?thesis by simp
qed

end
