(* ===== verification/SqlLedger.thy ===== *)
theory SqlLedger
  imports Ledger
begin

text \<open>
  The SQL ledgers: \<open>SqliteLedger\<close> (\<open>src/persistence/repositories.py\<close>), its serialized
  variant \<open>AtomicSqliteLedger\<close> (\<open>src/security/atomic_ledger.py\<close>) and \<open>PostgresLedger\<close>
  (\<open>src/persistence/postgres_ledger.py\<close>).  The state is the table \<open>ledger_entries\<close> in
  \<open>sequence_num\<close> order; its columns \<open>id\<close> and \<open>transaction_id\<close> are \<open>UNIQUE\<close>.  Each
  operation is one transaction: a failing one leaves the table as it was.
\<close>

section \<open>The table\<close>

record ledger_row = ledger_entry +
  lr_tenant_id :: string

type_synonym ledger_table = "ledger_row list"

definition row_entry :: "ledger_row \<Rightarrow> ledger_entry" where
  "row_entry r = ledger_entry.truncate r"

lemma row_entry_simps [simp]:
  "le_id (row_entry r) = le_id r" "le_timestamp (row_entry r) = le_timestamp r"
  "le_transaction_id (row_entry r) = le_transaction_id r"
  "le_from_account (row_entry r) = le_from_account r"
  "le_to_account (row_entry r) = le_to_account r" "le_amount (row_entry r) = le_amount r"
  "le_memo (row_entry r) = le_memo r"
  by (simp_all add: row_entry_def ledger_entry.truncate_def)

definition mk_row ::
  "string \<Rightarrow> string \<Rightarrow> string \<Rightarrow> string \<Rightarrow> string \<Rightarrow> int \<Rightarrow> string \<Rightarrow> string \<Rightarrow> ledger_row" where
  "mk_row i ts tx f t n m ten = \<lparr>le_id = i, le_timestamp = ts, le_transaction_id = tx,
     le_from_account = f, le_to_account = t, le_amount = n, le_memo = m, lr_tenant_id = ten\<rparr>"

lemma mk_row_simps [simp]:
  "le_id (mk_row i ts tx f t n m ten) = i" "le_timestamp (mk_row i ts tx f t n m ten) = ts"
  "le_transaction_id (mk_row i ts tx f t n m ten) = tx"
  "le_from_account (mk_row i ts tx f t n m ten) = f" "le_to_account (mk_row i ts tx f t n m ten) = t"
  "le_amount (mk_row i ts tx f t n m ten) = n" "le_memo (mk_row i ts tx f t n m ten) = m"
  "lr_tenant_id (mk_row i ts tx f t n m ten) = ten"
  by (simp_all add: mk_row_def)

definition default_tenant :: string where "default_tenant = ''tenant-demo''"

definition insert_row :: "ledger_row \<Rightarrow> ledger_table \<Rightarrow> ledger_table result" where
  "insert_row r T =
     (if le_id r \<in> le_id ` set T then raise IntegrityError ''UNIQUE constraint failed: id''
      else if le_transaction_id r \<in> le_transaction_id ` set T
      then raise IntegrityError ''UNIQUE constraint failed: transaction_id''
      else Inr (T @ [r]))"

lemma insert_row_Inr:
  "insert_row r T = Inr T' \<longleftrightarrow> le_id r \<notin> le_id ` set T \<and>
     le_transaction_id r \<notin> le_transaction_id ` set T \<and> T' = T @ [r]"
  by (auto simp: insert_row_def)

text \<open>\<open>SELECT SUM(to) - SUM(from)\<close>; the shared balance query.\<close>

definition sqlite_get_balance :: "ledger_table \<Rightarrow> string \<Rightarrow> int" where
  "sqlite_get_balance T a = sum_where (\<lambda>r. le_to_account r = a) le_amount T
     - sum_where (\<lambda>r. le_from_account r = a) le_amount T"

section \<open>SqliteLedger\<close>

text \<open>\<open>_mint\<close> has no guard: a non-positive amount is stored before the entry model rejects it.\<close>

definition store_mint :: "ledger_row \<Rightarrow> ledger_table \<Rightarrow> ledger_entry result \<times> ledger_table" where
  "store_mint r T =
     (case insert_row r T of
        Inl x \<Rightarrow> (Inl x, T)
      | Inr T' \<Rightarrow> (mk_ledger_entry (le_id r) (le_timestamp r) (le_transaction_id r) (le_from_account r)
                     (le_to_account r) (le_amount r) (le_memo r), T'))"

definition sqlite_mint ::
  "env \<Rightarrow> ledger_table \<Rightarrow> string \<Rightarrow> int \<Rightarrow> string \<Rightarrow> ledger_entry result \<times> ledger_table"
where
  "sqlite_mint E T t n m =
     store_mint (mk_row (e_uuid E 1) (e_now E 0) (''mint-'' @ e_uuid E 0) SYSTEM_MINT t n m
       default_tenant) T"

definition sqlite_init_treasury :: "env \<Rightarrow> ledger_table \<Rightarrow> int \<Rightarrow> ledger_table result" where
  "sqlite_init_treasury E T n =
     (if length T = 0 \<and> n > 0
      then (case sqlite_mint E T TREASURY n ''Initial Organisation Treasury Allocation'' of
              (Inl x, T') \<Rightarrow> Inl x | (Inr e, T') \<Rightarrow> Inr T')
      else Inr T)"

definition sqlite_deposit_revenue ::
  "env \<Rightarrow> ledger_table \<Rightarrow> int \<Rightarrow> string \<Rightarrow> string option \<Rightarrow> string \<Rightarrow> (ledger_entry \<times> ledger_table) result"
where
  "sqlite_deposit_revenue E T n m tx to_account =
     (if n \<le> 0 then raise ValueError ''Deposit amount must be positive''
      else let r = mk_row (e_uuid E 1) (e_now E 0) (py_or tx (''deposit-'' @ e_uuid E 0)) SYSTEM_MINT
                     to_account n m default_tenant
        in bind_result (insert_row r T) (\<lambda>T'. Inr (row_entry r, T')))"

definition sqlite_transfer :: "ledger_table post_fun" where
  "sqlite_transfer E T f t n m txid =
     (if n \<le> 0 then raise ValueError ''Transfer amount must be positive''
      else if f = t then raise ValueError ''Cannot transfer credits to the same account''
      else let tx = py_or txid (e_uuid E 0) in
        if tx \<in> le_transaction_id ` set T then raise ValueError ''Duplicate transaction ID''
        else if sqlite_get_balance T f < n
        then raise InsufficientCreditsError ''Account has too few credits''
        else let r = mk_row (e_uuid E 1) (e_now E 0) tx f t n m default_tenant in
          bind_result (insert_row r T) (\<lambda>T'. Inr (row_entry r, T')))"

definition sqlite_get_entries :: "ledger_table \<Rightarrow> string option \<Rightarrow> ledger_entry list" where
  "sqlite_get_entries T acct = map row_entry
     (if py_truthy acct
      then filter (\<lambda>r. le_from_account r = the acct \<or> le_to_account r = the acct) T else T)"

definition sqlite_verify_conservation :: "ledger_table \<Rightarrow> bool" where
  "sqlite_verify_conservation T =
     (let total_minted = sum_where (\<lambda>r. le_from_account r = SYSTEM_MINT) le_amount T;
          accounts = remdups (filter (\<lambda>a. a \<noteq> SYSTEM_MINT)
            (map le_from_account T @ map le_to_account T));
          net_balance = sum_list (map (\<lambda>a. sum_where (\<lambda>r. le_to_account r = a) le_amount T
            - sum_where (\<lambda>r. le_from_account r = a) le_amount T) accounts)
      in net_balance = total_minted)"

section \<open>AtomicSqliteLedger\<close>

definition atomic_transfer :: "string option \<Rightarrow> ledger_table post_fun" where
  "atomic_transfer ten E T f t n m txid =
     (if n \<le> 0 then raise ValueError ''Transfer amount must be positive''
      else if f = t then raise ValueError ''Cannot transfer credits to the same account''
      else if (case ten of None \<Rightarrow> False | Some i \<Rightarrow> i = [] \<or> CHR '':'' \<in> set i)
      then raise ValueError ''tenant_id must be a non-empty identifier''
      else let tx = py_or txid (e_uuid E 0) in
        if tx \<in> le_transaction_id ` set T then raise ValueError ''Duplicate transaction ID''
        else if sqlite_get_balance T f < n
        then raise InsufficientCreditsError ''Account has too few credits''
        else let r = mk_row (e_uuid E 1) (e_now E 0) tx f t n m
                       (case ten of None \<Rightarrow> default_tenant | Some i \<Rightarrow> i) in
          bind_result (insert_row r T) (\<lambda>T'. Inr (row_entry r, T')))"

section \<open>PostgresLedger\<close>

definition pg_get_balance :: "string \<Rightarrow> ledger_table \<Rightarrow> string \<Rightarrow> int" where
  "pg_get_balance tid T a = sqlite_get_balance (filter (\<lambda>r. lr_tenant_id r = tid) T) a"

definition pg_mint ::
  "string \<Rightarrow> env \<Rightarrow> ledger_table \<Rightarrow> string \<Rightarrow> int \<Rightarrow> string \<Rightarrow> ledger_entry result \<times> ledger_table"
where
  "pg_mint tid E T t n m =
     store_mint (mk_row (e_uuid E 1) (e_now E 0) (''mint-'' @ e_uuid E 0) SYSTEM_MINT t n m tid) T"

definition pg_init :: "string \<Rightarrow> env \<Rightarrow> ledger_table \<Rightarrow> int \<Rightarrow> ledger_table result" where
  "pg_init tid E T n =
     (if n > 0 \<and> pg_get_balance tid T TREASURY = 0
      then (case pg_mint tid E T TREASURY n ''Initial treasury allocation'' of
              (Inl x, T') \<Rightarrow> Inl x | (Inr e, T') \<Rightarrow> Inr T')
      else Inr T)"

definition pg_deposit_revenue ::
  "string \<Rightarrow> env \<Rightarrow> ledger_table \<Rightarrow> int \<Rightarrow> string \<Rightarrow> string option \<Rightarrow> string \<Rightarrow>
     (ledger_entry \<times> ledger_table) result" where
  "pg_deposit_revenue tid E T n m tx to_account =
     (if n \<le> 0 then raise ValueError ''Deposit amount must be positive''
      else let r = mk_row (e_uuid E 1) (e_now E 0) (py_or tx (''deposit-'' @ e_uuid E 0)) SYSTEM_MINT
                     to_account n m tid
        in bind_result (insert_row r T) (\<lambda>T'. Inr (row_entry r, T')))"

text \<open>The duplicate test looks at the tenant's rows only; the \<open>UNIQUE\<close> constraint at all rows.\<close>

definition pg_transfer :: "string \<Rightarrow> string option \<Rightarrow> ledger_table post_fun" where
  "pg_transfer self_tid tid_arg E T f t n m txid =
     (if n \<le> 0 then raise ValueError ''Transfer amount must be positive''
      else if f = t then raise ValueError ''Cannot transfer credits to the same account''
      else let tid = py_or tid_arg self_tid; tx = py_or txid (e_uuid E 0);
               own = filter (\<lambda>r. lr_tenant_id r = tid) T in
        if tx \<in> le_transaction_id ` set own then raise ValueError ''Duplicate transaction ID''
        else if sqlite_get_balance own f < n
        then raise InsufficientCreditsError ''Account has too few credits''
        else let r = mk_row (e_uuid E 1) (e_now E 0) tx f t n m tid in
          bind_result (insert_row r T) (\<lambda>T'. Inr (row_entry r, T')))"

definition pg_get_entries :: "string \<Rightarrow> ledger_table \<Rightarrow> string option \<Rightarrow> ledger_entry list" where
  "pg_get_entries tid T acct = sqlite_get_entries (filter (\<lambda>r. lr_tenant_id r = tid) T) acct"

text \<open>The Python loop that nets entries into a dictionary, shared by the Postgres, tenant and
  organisation ledgers.\<close>

fun net_dict :: "(string \<times> int) list \<Rightarrow> ledger_entry list \<Rightarrow> (string \<times> int) list" where
  "net_dict d [] = d"
| "net_dict d (e # es) =
     (let d1 = (if le_from_account e \<noteq> SYSTEM_MINT
                then AList.update (le_from_account e)
                       (dict_get d (le_from_account e) 0 - le_amount e) d else d)
      in net_dict (AList.update (le_to_account e)
                     (dict_get d1 (le_to_account e) 0 + le_amount e) d1) es)"

definition entries_conserve :: "ledger_entry list \<Rightarrow> bool" where
  "entries_conserve es \<longleftrightarrow>
     dict_sum (net_dict [] es) = sum_where (\<lambda>e. le_from_account e = SYSTEM_MINT) le_amount es"

definition pg_verify_conservation :: "string \<Rightarrow> ledger_table \<Rightarrow> bool" where
  "pg_verify_conservation tid T = entries_conserve (pg_get_entries tid T None)"

section \<open>Laws of the table\<close>

definition table_inv :: "ledger_table \<Rightarrow> bool" where
  "table_inv T \<longleftrightarrow> distinct (map le_id T) \<and> distinct (map le_transaction_id T)
     \<and> (\<forall>r \<in> set T. 0 < le_amount r)"

lemma table_inv_snoc:
  "table_inv (T @ [r]) \<longleftrightarrow> table_inv T \<and> le_id r \<notin> le_id ` set T \<and>
     le_transaction_id r \<notin> le_transaction_id ` set T \<and> 0 < le_amount r"
  by (auto simp: table_inv_def)

lemma sqlite_get_balance_snoc [simp]:
  "sqlite_get_balance (T @ [r]) a = sqlite_get_balance T a
     + (if le_to_account r = a then le_amount r else 0)
     - (if le_from_account r = a then le_amount r else 0)"
  by (simp add: sqlite_get_balance_def)

lemma sqlite_transfer_Inr:
  "sqlite_transfer E T f t n m txid = Inr (e, T') \<longleftrightarrow>
     0 < n \<and> f \<noteq> t \<and> n \<le> sqlite_get_balance T f \<and> e_uuid E 1 \<notin> le_id ` set T \<and>
     py_or txid (e_uuid E 0) \<notin> le_transaction_id ` set T \<and>
     e = row_entry (mk_row (e_uuid E 1) (e_now E 0) (py_or txid (e_uuid E 0)) f t n m default_tenant) \<and>
     T' = T @ [mk_row (e_uuid E 1) (e_now E 0) (py_or txid (e_uuid E 0)) f t n m default_tenant]"
  by (auto simp: sqlite_transfer_def Let_def insert_row_Inr not_le not_less)

lemma atomic_transfer_Inr:
  "atomic_transfer ten E T f t n m txid = Inr (e, T') \<longleftrightarrow>
     0 < n \<and> f \<noteq> t \<and> (\<forall>i. ten = Some i \<longrightarrow> i \<noteq> [] \<and> CHR '':'' \<notin> set i) \<and>
     n \<le> sqlite_get_balance T f \<and> e_uuid E 1 \<notin> le_id ` set T \<and>
     py_or txid (e_uuid E 0) \<notin> le_transaction_id ` set T \<and>
     e = row_entry (mk_row (e_uuid E 1) (e_now E 0) (py_or txid (e_uuid E 0)) f t n m
           (case ten of None \<Rightarrow> default_tenant | Some i \<Rightarrow> i)) \<and>
     T' = T @ [mk_row (e_uuid E 1) (e_now E 0) (py_or txid (e_uuid E 0)) f t n m
           (case ten of None \<Rightarrow> default_tenant | Some i \<Rightarrow> i)]"
  by (cases ten) (auto simp: atomic_transfer_def Let_def insert_row_Inr not_le not_less)

interpretation sqlite: ledger_api table_inv sqlite_get_balance
  "\<lambda>T x. x \<in> le_transaction_id ` set T" sqlite_transfer "\<lambda>T E. e_uuid E 1 \<notin> le_id ` set T"
  by unfold_locales (auto simp: sqlite_transfer_Inr table_inv_snoc)

interpretation atomic: ledger_api table_inv sqlite_get_balance
  "\<lambda>T x. x \<in> le_transaction_id ` set T" "atomic_transfer None" "\<lambda>T E. e_uuid E 1 \<notin> le_id ` set T"
  by unfold_locales (auto simp: atomic_transfer_Inr table_inv_snoc)

lemma net_row_entry: "net a (map row_entry T) = sqlite_get_balance T a"
  by (induction T rule: rev_induct) (auto simp: sqlite_get_balance_def net_def)

section \<open>The conservation checks\<close>

lemma sum_list_over_accounts:
  assumes "distinct A"
  shows "sum_list (map (\<lambda>a. sum_where (\<lambda>r. k r = a) g T) A) = sum_where (\<lambda>r. k r \<in> set A) g T"
  using assms
proof (induction A)
  case Nil
  then show ?case by (simp add: sum_where_none)
next
  case (Cons b A)
  have "sum_where (\<lambda>r. k r = b) g T + sum_where (\<lambda>r. k r \<in> set A) g T
      = sum_where (\<lambda>r. k r = b \<or> k r \<in> set A) g T"
    using Cons.prems by (induction T) auto
  then show ?case using Cons by simp
qed

lemma sum_where_split:
  fixes f :: "'a \<Rightarrow> int"
  shows "sum_where P f xs + sum_where (\<lambda>x. \<not> P x) f xs = sum_list (map f xs)"
  by (induction xs) auto

lemma sqlite_verify_conservation_eq:
  "sqlite_verify_conservation T \<longleftrightarrow> sum_where (\<lambda>r. le_to_account r = SYSTEM_MINT) le_amount T = 0"
proof -
  define A where "A = remdups (filter (\<lambda>a. a \<noteq> SYSTEM_MINT)
      (map le_from_account T @ map le_to_account T))"
  have A: "distinct A" "set A = (le_from_account ` set T \<union> le_to_account ` set T) - {SYSTEM_MINT}"
    by (auto simp: A_def)
  have "sum_list (map (\<lambda>a. sum_where (\<lambda>r. le_to_account r = a) le_amount T
          - sum_where (\<lambda>r. le_from_account r = a) le_amount T) A)
      = sum_where (\<lambda>r. le_to_account r \<in> set A) le_amount T
        - sum_where (\<lambda>r. le_from_account r \<in> set A) le_amount T"
    by (simp add: sum_list_subtractf sum_list_over_accounts A(1))
  also have "sum_where (\<lambda>r. le_to_account r \<in> set A) le_amount T
      = sum_where (\<lambda>r. \<not> le_to_account r = SYSTEM_MINT) le_amount T"
    by (rule sum_where_cong) (use A in auto)
  also have "sum_where (\<lambda>r. le_from_account r \<in> set A) le_amount T
      = sum_where (\<lambda>r. \<not> le_from_account r = SYSTEM_MINT) le_amount T"
    by (rule sum_where_cong) (use A in auto)
  finally show ?thesis
    using sum_where_split [of "\<lambda>r. le_to_account r = SYSTEM_MINT" le_amount T]
      sum_where_split [of "\<lambda>r. le_from_account r = SYSTEM_MINT" le_amount T]
    unfolding sqlite_verify_conservation_def Let_def A_def [symmetric] by linarith
qed

text \<open>
  What the SQLite audit check decides.  On a table whose amounts are positive, the
  double sum over all accounts that \<open>verify_conservation\<close> computes agrees with the minted
  total exactly when no entry credits \<open>SYSTEM_MINT\<close>.
\<close>

theorem sqlite_conservation_check:
  assumes "table_inv T"
  shows "sqlite_verify_conservation T \<longleftrightarrow> (\<forall>r \<in> set T. le_to_account r \<noteq> SYSTEM_MINT)"
proof -
  have "sum_where P le_amount T = 0 \<longleftrightarrow> (\<forall>r \<in> set T. \<not> P r)"
    if "\<forall>r \<in> set T. 0 < le_amount r" for P and T :: ledger_table
    using that
  proof (induction T)
    case (Cons r T)
    moreover have "0 \<le> sum_where P le_amount T" using Cons.prems by (intro sum_where_nonneg) auto
    ultimately show ?case by auto
  qed simp
  with assms show ?thesis by (simp add: sqlite_verify_conservation_eq table_inv_def)
qed

definition demo_table :: ledger_table where
  "demo_table = [mk_row ''uu'' ''2026-01-01T00:00:00'' ''mint-u'' SYSTEM_MINT TREASURY 100
     ''Initial Organisation Treasury Allocation'' default_tenant]"

lemma demo_table_inv: "table_inv demo_table"
  by (simp add: demo_table_def table_inv_def)

theorem sqlite_conservation_check_witness: "sqlite_verify_conservation demo_table"
  using sqlite_conservation_check [OF demo_table_inv] by (simp add: demo_table_def)

lemma net_dict_distinct: "distinct (map fst d) \<Longrightarrow> distinct (map fst (net_dict d es))"
  by (induction d es rule: net_dict.induct) (simp_all add: Let_def distinct_update)

lemma net_dict_total:
  "distinct (map fst d) \<Longrightarrow> dict_sum (net_dict d es) =
     dict_sum d + sum_where (\<lambda>e. le_from_account e = SYSTEM_MINT) le_amount es"
  by (induction d es rule: net_dict.induct) (simp_all add: Let_def distinct_update dict_sum_update)

text \<open>
  The conservation check of the Postgres ledger, which the tenant and organisation
  ledgers share, cannot fail: the loop credits \<open>to_account\<close> even when it is the mint account,
  so its total equals the minted total on every list of entries whatsoever, corrupt ones
  included.
\<close>

theorem entries_conserve_vacuous: "entries_conserve es \<and> pg_verify_conservation tid T"
  by (simp add: entries_conserve_def pg_verify_conservation_def net_dict_total)

section \<open>The SQL ledger implements the in-memory ledger\<close>

definition same_ledger :: "ledger \<Rightarrow> ledger_table \<Rightarrow> bool" where
  "same_ledger L T \<longleftrightarrow> ledger_inv L \<and> table_inv T \<and> lg_entries L = map row_entry T"

lemma same_ledger_facts:
  assumes "same_ledger L T"
  shows "lg_recorded_tx_ids L = le_transaction_id ` set T"
    and "a \<noteq> SYSTEM_MINT \<Longrightarrow> get_balance L a = sqlite_get_balance T a"
proof -
  show "lg_recorded_tx_ids L = le_transaction_id ` set T"
    using assms by (simp add: same_ledger_def ledger_inv_def image_image)
  show "get_balance L a = sqlite_get_balance T a" if "a \<noteq> SYSTEM_MINT"
  proof -
    have "get_balance L a = net a (lg_entries L)"
      using assms that by (simp add: same_ledger_def ledger_inv_def)
    with assms show ?thesis by (simp add: same_ledger_def net_row_entry)
  qed
qed

lemma same_ledger_snoc:
  assumes "same_ledger L T" "ledger_inv L'" "lg_entries L' = lg_entries L @ [row_entry r]"
    and "le_id r \<notin> le_id ` set T" "le_transaction_id r \<notin> le_transaction_id ` set T" "0 < le_amount r"
  shows "same_ledger L' (T @ [r])"
  using assms by (simp add: same_ledger_def table_inv_snoc)

lemma sqlite_transfer_Inl:
  "sqlite_transfer E T f t n m txid = Inl x \<Longrightarrow>
     exc_kind x = (if n \<le> 0 \<or> f = t \<or> py_or txid (e_uuid E 0) \<in> le_transaction_id ` set T
       then ValueError else if sqlite_get_balance T f < n then InsufficientCreditsError
       else IntegrityError)"
  by (auto simp: sqlite_transfer_def insert_row_def Let_def split: if_splits)

lemma transfer_Inl:
  "transfer E L f t n m txid = Inl x \<Longrightarrow>
     (n \<le> 0 \<or> f = t \<or> py_or txid (e_uuid E 0) \<in> lg_recorded_tx_ids L \<or> get_balance L f < n) \<and>
     exc_kind x = (if n \<le> 0 \<or> f = t \<or> py_or txid (e_uuid E 0) \<in> lg_recorded_tx_ids L
       then ValueError else InsufficientCreditsError)"
  by (auto simp: transfer_def mk_ledger_entry_def Let_def split: if_splits)

text \<open>
  C39: the two ledgers agree.  When the in-memory ledger and the SQLite table hold the same
  entries, a transfer out of any account but the mint under a fresh row id has the same
  outcome in both: the same exception class, or the same entry and states that hold the
  same entries again.
\<close>

theorem sqlite_transfer_refines:
  assumes "same_ledger L T" "f \<noteq> SYSTEM_MINT" "e_uuid E 1 \<notin> le_id ` set T"
  shows "case transfer E L f t n m tx of
      Inl x \<Rightarrow> \<exists>y. sqlite_transfer E T f t n m tx = Inl y \<and> exc_kind y = exc_kind x
    | Inr (e, L') \<Rightarrow> \<exists>T'. sqlite_transfer E T f t n m tx = Inr (e, T') \<and> same_ledger L' T'"
proof (cases "transfer E L f t n m tx")
  case (Inl x)
  have "\<exists>y. sqlite_transfer E T f t n m tx = Inl y"
    using transfer_Inl [OF Inl] assms
    by (cases "sqlite_transfer E T f t n m tx")
       (auto simp: sqlite_transfer_Inr same_ledger_facts(1) same_ledger_facts(2) [OF assms(1,2)])
  then show ?thesis
    using Inl transfer_Inl [OF Inl] sqlite_transfer_Inl [of E T f t n m tx] assms
    by (auto simp: same_ledger_facts(1) same_ledger_facts(2) [OF assms(1,2)])
next
  case (Inr r)
  obtain e L' where r: "r = (e, L')" by (cases r)
  define w where "w = mk_row (e_uuid E 1) (e_now E 0) (py_or tx (e_uuid E 0)) f t n m default_tenant"
  have e: "e = row_entry w" and ok: "n > 0" "f \<noteq> t" "n \<le> get_balance L f"
      "py_or tx (e_uuid E 0) \<notin> lg_recorded_tx_ids L" "lg_entries L' = lg_entries L @ [e]"
    using Inr r by (auto simp: transfer_Inr w_def row_entry_def mk_row_def ledger_entry.truncate_def)
  have "sqlite_transfer E T f t n m tx = Inr (e, T @ [w])"
    using ok e assms
    by (auto simp: sqlite_transfer_Inr w_def same_ledger_facts(1) same_ledger_facts(2) [OF assms(1,2)])
  moreover have "same_ledger L' (T @ [w])"
  proof (rule same_ledger_snoc [OF assms(1)])
    show "ledger_inv L'" using assms(1) Inr r transfer_inv by (auto simp: same_ledger_def)
  qed (use ok e assms in \<open>auto simp: w_def same_ledger_facts(1)\<close>)
  ultimately show ?thesis using Inr r by auto
qed

lemma demo_same_ledger: "same_ledger demo_ledger demo_table"
  using ledger_reach_inv [OF demo_ledger_reach] demo_table_inv
  by (simp add: same_ledger_def demo_ledger_def demo_table_def row_entry_def mk_row_def
      ledger_entry.truncate_def)

theorem sqlite_transfer_refines_witness:
  "\<exists>y. sqlite_transfer demo_env2 demo_table TREASURY ESCROW 500 [] None = Inl y
     \<and> exc_kind y = InsufficientCreditsError"
proof -
  have "e_uuid demo_env2 1 \<notin> le_id ` set demo_table" by (simp add: demo_env2_def demo_table_def)
  from sqlite_transfer_refines [OF demo_same_ledger _ this, of TREASURY ESCROW 500 "[]" None]
  show ?thesis by (simp add: transfer_def demo_ledger_def demo_env2_def get_balance_def)
qed

end
