(* ===== verification/Domain.thy ===== *)
theory Domain
  imports Prelude
begin

text \<open>
  The domain model: the enumerations of \<open>src/domain/enums.py\<close>, the entities of
  \<open>src/domain/entities.py\<close>, the hash functions of \<open>src/domain/events.py\<close> and the two
  lifecycle tables (consequential operations, and organisations and tasks of
  \<open>src/orchestration/state_machine.py\<close>) with their guarded transition functions.
\<close>

section \<open>Enumerations\<close>

datatype org_state = Org_INITIALIZING | Org_PLANNING | Org_EXECUTING | Org_PAUSED | Org_FAILED
  | Org_COMPLETED

datatype agent_role = Role_CEO | Role_RESEARCHER | Role_STRATEGIST | Role_FINANCIAL_ANALYST

datatype agent_status = Agent_ACTIVE | Agent_PROBATION | Agent_RESTRICTED | Agent_SUSPENDED
  | Agent_RETIRED

datatype task_status = Task_PENDING | Task_ASSIGNED | Task_IN_PROGRESS | Task_SUBMITTED
  | Task_APPROVED | Task_REJECTED | Task_COMPLETED | Task_FAILED

datatype policy_result = Policy_APPROVED | Policy_REJECTED | Policy_ESCALATE_TO_HUMAN

datatype action_type = INTERNAL_ANALYSIS | DATA_FETCH | EXTERNAL_API_CALL | SIMULATED_ALLOCATION
  | REPLAN | BLOCKCHAIN_TRANSACTION | ORBIO_KEY_LIFECYCLE | EXTERNAL_INFERENCE
  | ORBIO_CREDIT_PURCHASE | ORBIO_CREDIT_ACTIVATION | EXECUTE_WORK_ORDER | COLLECT_REVENUE
  | PROPOSE_CAPABILITY_EXPANSION | PUBLISH_MARKETPLACE_ORDER | CLAIM_MARKETPLACE_ORDER
  | RELEASE_MARKETPLACE_ESCROW

datatype operation_state = Op_CREATED | Op_AUTHORIZED | Op_ESCROWED | Op_SUBMITTED | Op_SUCCEEDED
  | Op_FAILED | Op_UNKNOWN | Op_RECONCILING | Op_RECONCILED

datatype provider_outcome = Outcome_SUCCESS | Outcome_FAILURE | Outcome_TIMEOUT | Outcome_UNKNOWN

fun action_value :: "action_type \<Rightarrow> string" where
  "action_value INTERNAL_ANALYSIS = ''INTERNAL_ANALYSIS''"
| "action_value DATA_FETCH = ''DATA_FETCH''"
| "action_value EXTERNAL_API_CALL = ''EXTERNAL_API_CALL''"
| "action_value SIMULATED_ALLOCATION = ''SIMULATED_ALLOCATION''"
| "action_value REPLAN = ''REPLAN''"
| "action_value BLOCKCHAIN_TRANSACTION = ''BLOCKCHAIN_TRANSACTION''"
| "action_value ORBIO_KEY_LIFECYCLE = ''ORBIO_KEY_LIFECYCLE''"
| "action_value EXTERNAL_INFERENCE = ''EXTERNAL_INFERENCE''"
| "action_value ORBIO_CREDIT_PURCHASE = ''ORBIO_CREDIT_PURCHASE''"
| "action_value ORBIO_CREDIT_ACTIVATION = ''ORBIO_CREDIT_ACTIVATION''"
| "action_value EXECUTE_WORK_ORDER = ''EXECUTE_WORK_ORDER''"
| "action_value COLLECT_REVENUE = ''COLLECT_REVENUE''"
| "action_value PROPOSE_CAPABILITY_EXPANSION = ''PROPOSE_CAPABILITY_EXPANSION''"
| "action_value PUBLISH_MARKETPLACE_ORDER = ''PUBLISH_MARKETPLACE_ORDER''"
| "action_value CLAIM_MARKETPLACE_ORDER = ''CLAIM_MARKETPLACE_ORDER''"
| "action_value RELEASE_MARKETPLACE_ESCROW = ''RELEASE_MARKETPLACE_ESCROW''"

lemma action_value_inject: "action_value a = action_value b \<longleftrightarrow> a = b"
  by (cases a; cases b) simp_all

fun operation_state_value :: "operation_state \<Rightarrow> string" where
  "operation_state_value Op_CREATED = ''created''"
| "operation_state_value Op_AUTHORIZED = ''authorized''"
| "operation_state_value Op_ESCROWED = ''escrowed''"
| "operation_state_value Op_SUBMITTED = ''submitted''"
| "operation_state_value Op_SUCCEEDED = ''succeeded''"
| "operation_state_value Op_FAILED = ''failed''"
| "operation_state_value Op_UNKNOWN = ''unknown''"
| "operation_state_value Op_RECONCILING = ''reconciling''"
| "operation_state_value Op_RECONCILED = ''reconciled''"

section \<open>Payload hashes\<close>

definition compute_payload_hash :: "prims \<Rightarrow> (string \<times> json) list \<Rightarrow> string" where
  "compute_payload_hash P d = sha256 P (canonical_json P (JObj d))"

section \<open>Entities\<close>

record agent_record =
  ag_id :: string
  ag_role :: agent_role
  ag_model_name :: string
  ag_credit_balance :: int
  ag_reputation_score :: rat
  ag_authority_ceiling :: int
  ag_allowed_action_types :: "action_type list"
  ag_status :: agent_status
  ag_successful_tasks :: int
  ag_failed_tasks :: int
  ag_policy_violations :: int
  ag_performance_score :: rat
  ag_risk_score :: rat
  ag_resource_efficiency :: rat
  ag_reliability_score :: rat
  ag_task_history :: "string list"

record action_proposal =
  pr_id :: string
  pr_task_id :: string
  pr_proposing_agent_id :: string
  pr_action_type :: action_type
  pr_target :: string
  pr_parameters :: "(string \<times> json) list"
  pr_requested_credits :: int
  pr_expected_value_score :: rat
  pr_risk_assessment :: string
  pr_rationale :: string
  pr_evidence_hashes :: "string list"
  pr_created_at :: string

definition bar :: string where "bar = ''|''"

definition get_content_hash :: "prims \<Rightarrow> action_proposal \<Rightarrow> string" where
  "get_content_hash P p = sha256 P
     (pr_id p @ bar @ pr_task_id p @ bar @ pr_proposing_agent_id p @ bar @
      action_value (pr_action_type p) @ bar @ pr_target p @ bar @
      str_int P (pr_requested_credits p) @ bar @ compute_payload_hash P (pr_parameters p))"

record policy_decision =
  pd_id :: string
  pd_proposal_id :: string
  pd_result :: policy_result
  pd_violated_rule_id :: "string option"
  pd_violated_rule_description :: "string option"
  pd_evaluated_rules :: "string list"
  pd_authorization_token :: "string option"
  pd_timestamp :: string

record execution_receipt =
  rc_id :: string
  rc_proposal_id :: string
  rc_authorization_token :: string
  rc_action_type :: action_type
  rc_target :: string
  rc_http_status :: "int option"
  rc_raw_response_hash :: string
  rc_raw_output :: "(string \<times> json) list"
  rc_cost_credits :: int
  rc_executed_at :: string

record task =
  tk_id :: string
  tk_mission_id :: string
  tk_assigned_agent_id :: "string option"
  tk_objective :: string
  tk_allocated_credits :: int
  tk_status :: task_status
  tk_proposals :: "action_proposal list"
  tk_output_evidence :: "json option"
  tk_created_at :: string

record organisation =
  og_id :: string
  og_mission :: string
  og_tenant_id :: string
  og_treasury_balance :: int
  og_state :: org_state
  og_agents :: "(string \<times> agent_record) list"
  og_active_policy_ids :: "string list"
  og_created_at :: string

record consequential_operation =
  op_id :: string
  op_tenant_id :: string
  op_organisation_id :: string
  op_proposal_id :: string
  op_decision_id :: string
  op_idempotency_key :: string
  op_action_type :: action_type
  op_target :: string
  op_parameters :: "(string \<times> json) list"
  op_amount :: int
  op_provider_name :: string
  op_provider_reference :: "string option"
  op_state :: operation_state
  op_error_message :: "string option"
  op_created_at :: string
  op_updated_at :: string

section \<open>Lifecycle of a consequential operation\<close>

fun VALID_OPERATION_TRANSITIONS :: "operation_state \<Rightarrow> operation_state list" where
  "VALID_OPERATION_TRANSITIONS Op_CREATED = [Op_AUTHORIZED, Op_FAILED]"
| "VALID_OPERATION_TRANSITIONS Op_AUTHORIZED = [Op_ESCROWED, Op_FAILED]"
| "VALID_OPERATION_TRANSITIONS Op_ESCROWED = [Op_SUBMITTED, Op_FAILED]"
| "VALID_OPERATION_TRANSITIONS Op_SUBMITTED = [Op_SUCCEEDED, Op_FAILED, Op_UNKNOWN, Op_RECONCILING]"
| "VALID_OPERATION_TRANSITIONS Op_UNKNOWN = [Op_RECONCILING]"
| "VALID_OPERATION_TRANSITIONS Op_RECONCILING = [Op_RECONCILED, Op_UNKNOWN]"
| "VALID_OPERATION_TRANSITIONS Op_SUCCEEDED = []"
| "VALID_OPERATION_TRANSITIONS Op_FAILED = []"
| "VALID_OPERATION_TRANSITIONS Op_RECONCILED = []"

definition opt_override :: "'a option \<Rightarrow> 'a option \<Rightarrow> 'a option" where
  "opt_override new old = (case new of None \<Rightarrow> old | Some x \<Rightarrow> Some x)"

lemma opt_override_simps [simp]: "opt_override None y = y" "opt_override (Some x) y = Some x"
  by (simp_all add: opt_override_def)

definition transition_to ::
  "string \<Rightarrow> consequential_operation \<Rightarrow> operation_state \<Rightarrow> string option \<Rightarrow> string option \<Rightarrow>
     consequential_operation result" where
  "transition_to now op new err ref =
     (if new \<notin> set (VALID_OPERATION_TRANSITIONS (op_state op))
      then raise InvalidStateTransitionError ''Invalid operation state transition''
      else Inr (op\<lparr>op_state := new,
                   op_error_message := opt_override err (op_error_message op),
                   op_provider_reference := opt_override ref (op_provider_reference op),
                   op_updated_at := now\<rparr>))"

definition operation_fingerprint_json ::
  "string \<Rightarrow> string \<Rightarrow> string \<Rightarrow> string \<Rightarrow> string \<Rightarrow> action_type \<Rightarrow> string \<Rightarrow>
     (string \<times> json) list \<Rightarrow> int \<Rightarrow> string \<Rightarrow> json" where
  "operation_fingerprint_json ten org prop dec key act tgt params amt prov = JObj
     [(''tenant_id'', JStr ten), (''organisation_id'', JStr org), (''proposal_id'', JStr prop),
      (''decision_id'', JStr dec), (''idempotency_key'', JStr key),
      (''action_type'', JStr (action_value act)), (''target'', JStr tgt),
      (''parameters'', JObj params), (''amount'', JInt amt), (''provider_name'', JStr prov)]"

definition get_fingerprint :: "prims \<Rightarrow> consequential_operation \<Rightarrow> string" where
  "get_fingerprint P op = sha256 P (canonical_json P (operation_fingerprint_json
     (op_tenant_id op) (op_organisation_id op) (op_proposal_id op) (op_decision_id op)
     (op_idempotency_key op) (op_action_type op) (op_target op) (op_parameters op)
     (op_amount op) (op_provider_name op)))"

lemma transition_to_Inr:
  "transition_to now op new err ref = Inr op' \<longleftrightarrow>
     new \<in> set (VALID_OPERATION_TRANSITIONS (op_state op)) \<and>
     op' = op\<lparr>op_state := new, op_error_message := opt_override err (op_error_message op),
              op_provider_reference := opt_override ref (op_provider_reference op),
              op_updated_at := now\<rparr>"
  by (auto simp: transition_to_def)

lemma transition_to_Inl:
  "transition_to now op new err ref = Inl x \<longleftrightarrow>
     new \<notin> set (VALID_OPERATION_TRANSITIONS (op_state op)) \<and>
     x = Exc InvalidStateTransitionError ''Invalid operation state transition''"
  by (auto simp: transition_to_def)

text \<open>The identity of an operation: everything its fingerprint binds, and its id.\<close>

definition same_identity :: "consequential_operation \<Rightarrow> consequential_operation \<Rightarrow> bool" where
  "same_identity a b \<longleftrightarrow>
     op_id a = op_id b \<and> op_tenant_id a = op_tenant_id b \<and>
     op_organisation_id a = op_organisation_id b \<and> op_proposal_id a = op_proposal_id b \<and>
     op_decision_id a = op_decision_id b \<and> op_idempotency_key a = op_idempotency_key b \<and>
     op_action_type a = op_action_type b \<and> op_target a = op_target b \<and>
     op_parameters a = op_parameters b \<and> op_amount a = op_amount b \<and>
     op_provider_name a = op_provider_name b"

lemma same_identity_refl [simp]: "same_identity a a"
  by (simp add: same_identity_def)

lemma same_identity_trans: "same_identity a b \<Longrightarrow> same_identity b c \<Longrightarrow> same_identity a c"
  by (simp add: same_identity_def)

lemma same_identity_fingerprint: "same_identity a b \<Longrightarrow> get_fingerprint P a = get_fingerprint P b"
  by (simp add: same_identity_def get_fingerprint_def)

lemma transition_to_identity:
  "transition_to now op new err ref = Inr op' \<Longrightarrow> same_identity op op'"
  by (auto simp: transition_to_Inr same_identity_def)

inductive op_step :: "consequential_operation \<Rightarrow> consequential_operation \<Rightarrow> bool" where
  op_stepI: "transition_to now op new err ref = Inr op' \<Longrightarrow> op_step op op'"

inductive_cases op_stepE: "op_step op op'"

lemma op_steps_identity: "op_step\<^sup>*\<^sup>* a b \<Longrightarrow> same_identity a b"
  by (induction rule: rtranclp_induct)
     (auto elim!: op_stepE intro: same_identity_trans dest: transition_to_identity)

definition terminal_state :: "operation_state \<Rightarrow> bool" where
  "terminal_state s \<longleftrightarrow> VALID_OPERATION_TRANSITIONS s = []"

text \<open>
  States in which the outcome of the external effect is settled one way or the other, and the
  states from which only reconciliation can move on.
\<close>

lemma terminal_no_step: "terminal_state (op_state a) \<Longrightarrow> \<not> op_step a b"
  by (auto elim!: op_stepE simp: transition_to_Inr terminal_state_def)

lemma op_steps_from_terminal: "op_step\<^sup>*\<^sup>* a b \<Longrightarrow> terminal_state (op_state a) \<Longrightarrow> b = a"
  by (induction rule: converse_rtranclp_induct) (auto dest: terminal_no_step)

definition ambiguous_state :: "operation_state \<Rightarrow> bool" where
  "ambiguous_state s \<longleftrightarrow> s \<in> {Op_UNKNOWN, Op_RECONCILING, Op_RECONCILED}"

lemma ambiguous_closed: "op_step a b \<Longrightarrow> ambiguous_state (op_state a) \<Longrightarrow> ambiguous_state (op_state b)"
  by (auto elim!: op_stepE simp: transition_to_Inr ambiguous_state_def)

text \<open>
  UNKNOWN is never promoted.  Whatever sequence of accepted transitions follows, an
  operation that once was UNKNOWN (or RECONCILING) can only be UNKNOWN, RECONCILING or
  RECONCILED: it never becomes SUCCEEDED or FAILED, and its fingerprint never changes.
\<close>

theorem unknown_never_promoted:
  assumes "op_step\<^sup>*\<^sup>* a b" "op_state a \<in> {Op_UNKNOWN, Op_RECONCILING}"
  shows "op_state b \<in> {Op_UNKNOWN, Op_RECONCILING, Op_RECONCILED}
     \<and> get_fingerprint P b = get_fingerprint P a"
proof -
  have "ambiguous_state (op_state a)" using assms(2) by (auto simp: ambiguous_state_def)
  with assms(1) have "ambiguous_state (op_state b)"
    by (induction rule: rtranclp_induct) (auto intro: ambiguous_closed)
  moreover have "same_identity a b" using assms(1) by (rule op_steps_identity)
  ultimately show ?thesis
    by (auto simp: ambiguous_state_def dest: same_identity_fingerprint [of _ _ P])
qed

definition demo_op :: consequential_operation where
  "demo_op = \<lparr>op_id = ''cop-1'', op_tenant_id = ''t'', op_organisation_id = ''o'',
     op_proposal_id = ''p'', op_decision_id = ''d'', op_idempotency_key = ''o:p'',
     op_action_type = DATA_FETCH, op_target = ''sandbox://x'', op_parameters = [], op_amount = 10,
     op_provider_name = ''simulated'', op_provider_reference = None, op_state = Op_CREATED,
     op_error_message = None, op_created_at = ''now'', op_updated_at = ''now''\<rparr>"

definition demo_prims :: prims where
  "demo_prims = \<lparr>sha256 = (\<lambda>s. CHR ''h'' # s), hmac_sha256 = (\<lambda>k s. k @ ''#'' @ s),
     canonical_json = (\<lambda>j. ''{}''), str_int = (\<lambda>i. if i < 0 then CHR ''-'' # replicate (nat (- i)) (CHR ''1'')
       else replicate (nat i) (CHR ''1'')),
     str_float = (\<lambda>r. ''0.0''), format_4f = (\<lambda>r. ''0.0000''), format_2f = (\<lambda>r. ''0.00''), json_dumps = (\<lambda>j. ''{}''),
     py_str = (\<lambda>j. case j of JStr s \<Rightarrow> s | _ \<Rightarrow> ''?''), b64_encode = id, b64_decode = Some, parse_float = (\<lambda>s. None)\<rparr>"

lemma demo_op_reconciles:
  "op_step (demo_op\<lparr>op_state := Op_UNKNOWN\<rparr>) (demo_op\<lparr>op_state := Op_RECONCILING\<rparr>)"
  by (rule op_stepI [where now = "''now''" and err = None and ref = None])
     (simp add: transition_to_def demo_op_def)

theorem unknown_never_promoted_witness:
  "op_state (demo_op\<lparr>op_state := Op_RECONCILING\<rparr>) \<in> {Op_UNKNOWN, Op_RECONCILING, Op_RECONCILED}"
  using unknown_never_promoted [OF r_into_rtranclp [of op_step, OF demo_op_reconciles], of demo_prims]
  by simp

text \<open>
  Terminal states are final.  SUCCEEDED, FAILED and RECONCILED are exactly the states
  in which \<open>transition_to\<close> refuses every target, so no accepted transition leaves them.
\<close>

theorem terminal_states_final:
  "(\<forall>now new err ref. \<exists>x. transition_to now op new err ref = Inl x)
     \<longleftrightarrow> op_state op \<in> {Op_SUCCEEDED, Op_FAILED, Op_RECONCILED}"
proof -
  have "(\<forall>now new err ref. \<exists>x. transition_to now op new err ref = Inl x)
     \<longleftrightarrow> VALID_OPERATION_TRANSITIONS (op_state op) = []"
    by (auto simp: transition_to_Inl)
  also have "\<dots> \<longleftrightarrow> op_state op \<in> {Op_SUCCEEDED, Op_FAILED, Op_RECONCILED}"
    by (cases "op_state op") auto
  finally show ?thesis .
qed

section \<open>Organisation and task lifecycles\<close>

fun ORG_TRANSITIONS :: "org_state \<Rightarrow> org_state list" where
  "ORG_TRANSITIONS Org_INITIALIZING = [Org_PLANNING, Org_FAILED]"
| "ORG_TRANSITIONS Org_PLANNING = [Org_EXECUTING, Org_PAUSED, Org_FAILED]"
| "ORG_TRANSITIONS Org_EXECUTING = [Org_PLANNING, Org_PAUSED, Org_COMPLETED, Org_FAILED]"
| "ORG_TRANSITIONS Org_PAUSED = [Org_EXECUTING, Org_FAILED]"
| "ORG_TRANSITIONS Org_COMPLETED = [Org_PLANNING]"
| "ORG_TRANSITIONS Org_FAILED = []"

fun TASK_TRANSITIONS :: "task_status \<Rightarrow> task_status list" where
  "TASK_TRANSITIONS Task_PENDING = [Task_ASSIGNED, Task_FAILED]"
| "TASK_TRANSITIONS Task_ASSIGNED = [Task_IN_PROGRESS, Task_FAILED]"
| "TASK_TRANSITIONS Task_IN_PROGRESS = [Task_SUBMITTED, Task_COMPLETED, Task_FAILED]"
| "TASK_TRANSITIONS Task_SUBMITTED = [Task_APPROVED, Task_REJECTED, Task_COMPLETED, Task_FAILED]"
| "TASK_TRANSITIONS Task_APPROVED = [Task_COMPLETED, Task_FAILED]"
| "TASK_TRANSITIONS Task_REJECTED = [Task_IN_PROGRESS, Task_FAILED]"
| "TASK_TRANSITIONS Task_COMPLETED = []"
| "TASK_TRANSITIONS Task_FAILED = []"

definition transition_org :: "organisation \<Rightarrow> org_state \<Rightarrow> organisation result" where
  "transition_org org to_state =
     (if to_state \<notin> set (ORG_TRANSITIONS (og_state org))
      then raise InvalidStateTransitionError ''Illegal organisation transition''
      else Inr (org\<lparr>og_state := to_state\<rparr>))"

definition transition_task :: "task \<Rightarrow> task_status \<Rightarrow> task result" where
  "transition_task t to_status =
     (if to_status \<notin> set (TASK_TRANSITIONS (tk_status t))
      then raise InvalidStateTransitionError ''Illegal task transition''
      else Inr (t\<lparr>tk_status := to_status\<rparr>))"

lemma transition_org_Inr:
  "transition_org org s = Inr org' \<longleftrightarrow>
     s \<in> set (ORG_TRANSITIONS (og_state org)) \<and> org' = org\<lparr>og_state := s\<rparr>"
  by (auto simp: transition_org_def)

lemma transition_task_Inr:
  "transition_task t s = Inr t' \<longleftrightarrow>
     s \<in> set (TASK_TRANSITIONS (tk_status t)) \<and> t' = t\<lparr>tk_status := s\<rparr>"
  by (auto simp: transition_task_def)

inductive task_step :: "task \<Rightarrow> task \<Rightarrow> bool" where
  task_stepI: "transition_task t s = Inr t' \<Longrightarrow> task_step t t'"

inductive_cases task_stepE: "task_step t t'"

text \<open>The last status a task had before it was approved is always SUBMITTED.\<close>

lemma approved_from_submitted:
  "transition_task t Task_APPROVED = Inr t' \<Longrightarrow> tk_status t = Task_SUBMITTED"
  by (cases "tk_status t") (auto simp: transition_task_Inr)

text \<open>
  No task is approved without review.  Along any sequence of accepted task transitions
  from PENDING to APPROVED the task has been SUBMITTED in between.
\<close>

theorem approved_was_submitted:
  assumes "task_step\<^sup>*\<^sup>* t t'" "tk_status t = Task_PENDING" "tk_status t' = Task_APPROVED"
  shows "\<exists>u. task_step\<^sup>*\<^sup>* t u \<and> tk_status u = Task_SUBMITTED \<and> task_step u t'"
  using assms
proof (induction rule: rtranclp_induct)
  case base
  then show ?case by simp
next
  case (step u v)
  from step.hyps(2) step.prems(2) have "tk_status u = Task_SUBMITTED"
    by (auto elim!: task_stepE simp: transition_task_Inr) (metis approved_from_submitted transition_task_Inr)
  with step.hyps show ?case by blast
qed

definition demo_task :: task where
  "demo_task = \<lparr>tk_id = ''task-01'', tk_mission_id = ''m'', tk_assigned_agent_id = None,
     tk_objective = ''o'', tk_allocated_credits = 10, tk_status = Task_PENDING, tk_proposals = [],
     tk_output_evidence = None, tk_created_at = ''now''\<rparr>"

lemma task_stepI2:
  "s' \<in> set (TASK_TRANSITIONS (tk_status t)) \<Longrightarrow> task_step t (t\<lparr>tk_status := s'\<rparr>)"
  by (rule task_stepI [of _ s']) (simp add: transition_task_def)

lemma demo_task_approved: "task_step\<^sup>*\<^sup>* demo_task (demo_task\<lparr>tk_status := Task_APPROVED\<rparr>)"
proof -
  let ?t = "\<lambda>s. demo_task\<lparr>tk_status := s\<rparr>"
  have "task_step demo_task (?t Task_ASSIGNED)"
    by (rule task_stepI2) (simp add: demo_task_def)
  moreover have "task_step (?t Task_ASSIGNED) (?t Task_IN_PROGRESS)"
    using task_stepI2 [of Task_IN_PROGRESS "?t Task_ASSIGNED"] by simp
  moreover have "task_step (?t Task_IN_PROGRESS) (?t Task_SUBMITTED)"
    using task_stepI2 [of Task_SUBMITTED "?t Task_IN_PROGRESS"] by simp
  moreover have "task_step (?t Task_SUBMITTED) (?t Task_APPROVED)"
    using task_stepI2 [of Task_APPROVED "?t Task_SUBMITTED"] by simp
  ultimately show ?thesis by (meson converse_rtranclp_into_rtranclp rtranclp.rtrancl_refl)
qed

theorem approved_was_submitted_witness:
  "\<exists>u. tk_status u = Task_SUBMITTED \<and> task_step u (demo_task\<lparr>tk_status := Task_APPROVED\<rparr>)"
  using approved_was_submitted [OF demo_task_approved] by (auto simp: demo_task_def)

end
