(* ===== verification/Python.thy ===== *)
theory Python
  imports Prelude
begin

text \<open>
  The Python conversions the policy rules apply to untyped proposal parameters: truth value,
  equality, \<open>int(..)\<close> and \<open>float(..)\<close> of a JSON value, and the \<open>str\<close> methods \<open>strip\<close>,
  \<open>lower\<close>, \<open>replace\<close> and the address pattern of \<open>src/domain/blockchain.py\<close>.  Characters are
  the code points below 256.
\<close>

section \<open>Strings\<close>

definition is_space :: "char \<Rightarrow> bool" where
  "is_space c = (let n = of_char c :: nat in
     (9 \<le> n \<and> n \<le> 13) \<or> (28 \<le> n \<and> n \<le> 32) \<or> n = 133 \<or> n = 160)"

definition py_strip :: "string \<Rightarrow> string" where
  "py_strip s = rev (dropWhile is_space (rev (dropWhile is_space s)))"

definition lower_char :: "char \<Rightarrow> char" where
  "lower_char c = (let n = of_char c :: nat in
     if (65 \<le> n \<and> n \<le> 90) \<or> (192 \<le> n \<and> n \<le> 222 \<and> n \<noteq> 215) then char_of (n + 32) else c)"

definition py_lower :: "string \<Rightarrow> string" where
  "py_lower s = map lower_char s"

definition upper_char :: "char \<Rightarrow> char" where
  "upper_char c = (let n = of_char c :: nat in
     if (97 \<le> n \<and> n \<le> 122) \<or> (224 \<le> n \<and> n \<le> 254 \<and> n \<noteq> 247) then char_of (n - 32) else c)"

definition py_upper :: "string \<Rightarrow> string" where
  "py_upper s = map upper_char s"

text \<open>\<open>s.replace(sub, "")\<close> for a non-empty \<open>sub\<close>.\<close>

fun py_remove :: "string \<Rightarrow> string \<Rightarrow> string" where
  "py_remove sub [] = []"
| "py_remove sub (x # xs) =
     (if prefix sub (x # xs) then py_remove sub (drop (length sub - 1) xs) else x # py_remove sub xs)"

definition starts_with_any :: "string list \<Rightarrow> string \<Rightarrow> bool" where
  "starts_with_any ps s \<longleftrightarrow> list_ex (\<lambda>p. prefix p s) ps"

definition digit_value :: "char \<Rightarrow> int option" where
  "digit_value c = (let n = of_char c :: nat in
     if 48 \<le> n \<and> n \<le> 57 then Some (int n - 48) else None)"

definition is_hex_char :: "char \<Rightarrow> bool" where
  "is_hex_char c = (let n = of_char c :: nat in
     (48 \<le> n \<and> n \<le> 57) \<or> (65 \<le> n \<and> n \<le> 70) \<or> (97 \<le> n \<and> n \<le> 102))"

text \<open>\<open>^0x[0-9a-fA-F]{n}$\<close>: \<open>$\<close> also matches before a final newline.\<close>

definition hex_pattern :: "nat \<Rightarrow> string \<Rightarrow> bool" where
  "hex_pattern n s = (let t = (if s \<noteq> [] \<and> last s = CHR 0x0A then butlast s else s) in
     prefix ''0x'' t \<and> length t = n + 2 \<and> list_all is_hex_char (drop 2 t))"

definition ETH_ADDRESS_PATTERN :: "string \<Rightarrow> bool" where
  "ETH_ADDRESS_PATTERN s = hex_pattern 40 s"

text \<open>The character tests again, over binary integers, for evaluation in the kernel.\<close>

lemma char_int: "(of_char c :: int) = int (of_char c)"
  by (simp add: of_nat_of_char)

lemma char_of_int: "0 \<le> n \<Longrightarrow> char_of (n :: int) = char_of (nat n)"
  using char_of_nat [of "nat n", where 'a = int] by simp

lemma lower_char_code [code]:
  "lower_char c = (let n = of_char c :: int in
     if (65 \<le> n \<and> n \<le> 90) \<or> (192 \<le> n \<and> n \<le> 222 \<and> n \<noteq> 215) then char_of (n + 32) else c)"
proof -
  let ?n = "of_char c :: nat"
  have c: "char_of (int ?n + 32) = (char_of (?n + 32) :: char)" using char_of_int [of "int ?n + 32"] by (simp add: nat_add_distrib)
  have "(65 \<le> int ?n) = (65 \<le> ?n)" "(int ?n \<le> 90) = (?n \<le> 90)" "(192 \<le> int ?n) = (192 \<le> ?n)" "(int ?n \<le> 222) = (?n \<le> 222)"
    "(int ?n = 215) = (?n = 215)" by linarith+
  then show ?thesis unfolding lower_char_def Let_def char_int c by simp
qed

lemma is_hex_char_code [code]:
  "is_hex_char c = (let n = of_char c :: int in
     (48 \<le> n \<and> n \<le> 57) \<or> (65 \<le> n \<and> n \<le> 70) \<or> (97 \<le> n \<and> n \<le> 102))"
  unfolding is_hex_char_def Let_def char_int by linarith

lemma is_space_code [code]:
  "is_space c = (let n = of_char c :: int in (9 \<le> n \<and> n \<le> 13) \<or> (28 \<le> n \<and> n \<le> 32) \<or> n = 133 \<or> n = 160)"
  unfolding is_space_def Let_def char_int by linarith

section \<open>JSON values\<close>

fun json_truthy :: "json \<Rightarrow> bool" where
  "json_truthy JNull = False"
| "json_truthy (JBool b) = b"
| "json_truthy (JInt n) = (n \<noteq> 0)"
| "json_truthy (JFloat r) = (r \<noteq> 0)"
| "json_truthy (JStr s) = (s \<noteq> [])"
| "json_truthy (JList xs) = (xs \<noteq> [])"
| "json_truthy (JObj d) = (d \<noteq> [])"

fun json_num :: "json \<Rightarrow> rat option" where
  "json_num (JBool b) = Some (if b then 1 else 0)"
| "json_num (JInt n) = Some (of_int n)"
| "json_num (JFloat r) = Some r"
| "json_num v = None"

text \<open>\<open>a == b\<close>: numbers and booleans by value.\<close>

definition py_eq :: "json \<Rightarrow> json \<Rightarrow> bool" where
  "py_eq a b = (case (json_num a, json_num b) of (Some x, Some y) \<Rightarrow> x = y | _ \<Rightarrow> a = b)"

lemma py_eq_str [simp]: "py_eq (JStr a) (JStr b) \<longleftrightarrow> a = b"
  by (simp add: py_eq_def)

lemma py_eq_int [simp]: "py_eq (JInt a) (JInt b) \<longleftrightarrow> a = b"
  by (simp add: py_eq_def)

text \<open>Decimal digits, single underscores between them; \<open>acc\<close> is \<open>None\<close> before the first.\<close>

fun parse_digits :: "int option \<Rightarrow> string \<Rightarrow> int option" where
  "parse_digits acc [] = acc"
| "parse_digits acc (c # cs) =
     (case digit_value c of
        Some d \<Rightarrow> parse_digits (Some ((case acc of None \<Rightarrow> 0 | Some a \<Rightarrow> a) * 10 + d)) cs
      | None \<Rightarrow> if c = CHR ''_'' \<and> acc \<noteq> None \<and> cs \<noteq> [] \<and> digit_value (hd cs) \<noteq> None
                then parse_digits acc cs else None)"

definition int_of_str :: "string \<Rightarrow> int option" where
  "int_of_str s = (case py_strip s of
       [] \<Rightarrow> None
     | c # cs \<Rightarrow> if c = CHR ''-'' then map_option uminus (parse_digits None cs)
                else if c = CHR ''+'' then parse_digits None cs else parse_digits None (c # cs))"

text \<open>\<open>int(v)\<close>: floats are truncated towards zero.\<close>

fun py_int :: "json \<Rightarrow> int result" where
  "py_int (JInt n) = Inr n"
| "py_int (JBool b) = Inr (if b then 1 else 0)"
| "py_int (JFloat r) = Inr (if r < 0 then \<lceil>r\<rceil> else \<lfloor>r\<rfloor>)"
| "py_int (JStr s) = (case int_of_str s of Some n \<Rightarrow> Inr n
     | None \<Rightarrow> raise ValueError ''invalid literal for int()'')"
| "py_int v = raise TypeError ''int() argument must be a string or a number''"

fun py_float :: "prims \<Rightarrow> json \<Rightarrow> rat result" where
  "py_float P (JInt n) = Inr (of_int n)"
| "py_float P (JBool b) = Inr (if b then 1 else 0)"
| "py_float P (JFloat r) = Inr r"
| "py_float P (JStr s) = (case parse_float P s of Some r \<Rightarrow> Inr r
     | None \<Rightarrow> raise ValueError ''could not convert string to float'')"
| "py_float P v = raise TypeError ''float() argument must be a string or a number''"

definition param_get :: "(string \<times> json) list \<Rightarrow> string \<Rightarrow> json" where
  "param_get d k = dict_get d k JNull"

text \<open>\<open>round(x, 3)\<close>: half to even.\<close>

definition round_half_even :: "rat \<Rightarrow> int" where
  "round_half_even x = (let f = \<lfloor>x\<rfloor>; d = x - of_int f in
     if d < 1/2 then f else if d > 1/2 then f + 1 else if even f then f else f + 1)"

definition py_round3 :: "rat \<Rightarrow> rat" where
  "py_round3 x = of_int (round_half_even (x * 1000)) / 1000"

definition py_round2 :: "rat \<Rightarrow> rat" where
  "py_round2 x = of_int (round_half_even (x * 100)) / 100"

lemma py_round3_bounds: "\<bar>py_round3 x - x\<bar> \<le> 1 / 2000"
proof -
  let ?y = "x * 1000"
  have "of_int \<lfloor>?y\<rfloor> \<le> ?y" "?y < of_int \<lfloor>?y\<rfloor> + 1" by linarith+
  then have "\<bar>of_int (round_half_even ?y) - ?y\<bar> \<le> 1 / 2"
    by (auto simp: round_half_even_def Let_def)
  then show ?thesis unfolding py_round3_def by linarith
qed

end
