(* ===== verification/Rules.thy ===== *)
theory Rules
  imports Domain Python
begin

text \<open>
  The policy rules: \<open>src/governance/rules.py\<close>, \<open>blockchain_rules.py\<close>, \<open>capability_policy.py\<close>
  and \<open>external_economy_rules.py\<close>.  A rule object is a record of its id, description and
  \<open>evaluate\<close> method; \<open>evaluate\<close> is given the treasury balance of the ledger, if one was passed,
  and the ids of the registered rules, if they were passed, and returns \<open>None\<close> or the
  violation.
\<close>

type_synonym violation = "string option"

record policy_rule =
  rl_id :: string
  rl_description :: string
  rl_evaluate :: "action_proposal \<Rightarrow> agent_record \<Rightarrow> organisation \<Rightarrow> int option \<Rightarrow>
     string list option \<Rightarrow> violation result"

definition pass :: "violation result" where "pass = Inr None"
definition violates :: "string \<Rightarrow> violation result" where "violates m = Inr (Some m)"

lemma pass_simps [simp]: "pass = Inr None" "violates m = Inr (Some m)"
  by (simp_all add: pass_def violates_def)

section \<open>rules.py\<close>

definition SpendLimitRule :: policy_rule where
  "SpendLimitRule = \<lparr>rl_id = ''RULE-01'',
     rl_description = ''Requested credits cannot exceed agent authority ceiling'',
     rl_evaluate = (\<lambda>p a o' led rules.
       if pr_requested_credits p > ag_authority_ceiling a
       then violates ''Requested credits exceed authority ceiling'' else pass)\<rparr>"

definition TreasuryBalanceRule :: policy_rule where
  "TreasuryBalanceRule = \<lparr>rl_id = ''RULE-02'',
     rl_description = ''Requested credits cannot exceed organisation treasury balance'',
     rl_evaluate = (\<lambda>p a o' led rules.
       let available = (case led of Some b \<Rightarrow> b | None \<Rightarrow> og_treasury_balance o') in
       if pr_requested_credits p > available
       then violates ''Requested credits exceed available treasury'' else pass)\<rparr>"

definition RolePermissionRule :: policy_rule where
  "RolePermissionRule = \<lparr>rl_id = ''RULE-03'',
     rl_description = ''Action type must be in agent allowed action types'',
     rl_evaluate = (\<lambda>p a o' led rules.
       if pr_action_type p \<notin> set (ag_allowed_action_types a)
       then violates ''Action type is not permitted for role'' else pass)\<rparr>"

definition default_approved_targets :: "string list" where
  "default_approved_targets = [''sandbox://market_index_fund'', ''sandbox://verified_bonds'',
     ''api://market_data/v1/summary'', ''internal://research_synthesis'']"

definition PURCHASE_RULE_ID :: string where "PURCHASE_RULE_ID = ''RULE-ORBIO-PURCHASE-01''"

definition target_allowlist_evaluate ::
  "string list \<Rightarrow> action_proposal \<Rightarrow> string list option \<Rightarrow> violation result" where
  "target_allowlist_evaluate targets p rules =
     (if pr_action_type p = BLOCKCHAIN_TRANSACTION \<or>
         starts_with_any [''blockchain://'', ''evm://'', ''sepolia://''] (pr_target p)
      then pass
      else if pr_action_type p \<in> {EXTERNAL_INFERENCE, ORBIO_KEY_LIFECYCLE} then pass
      else if pr_action_type p = ORBIO_CREDIT_PURCHASE
      then if PURCHASE_RULE_ID \<notin> set (case rules of None \<Rightarrow> [] | Some r \<Rightarrow> r)
           then violates ''ORBIO_CREDIT_PURCHASE not authorized: dedicated OrbioPurchaseGovernanceRule is required but not registered in PolicyEngine''
           else pass
      else if starts_with_any [''orbio://'', ''marketplace://'', ''capability://''] (pr_target p) then pass
      else if pr_action_type p \<in> {PROPOSE_CAPABILITY_EXPANSION, PUBLISH_MARKETPLACE_ORDER,
          CLAIM_MARKETPLACE_ORDER, RELEASE_MARKETPLACE_ESCROW, EXECUTE_WORK_ORDER, COLLECT_REVENUE}
      then pass
      else if pr_target p \<notin> set targets
      then violates ''Target is not on the approved destination allowlist'' else pass)"

definition TargetAllowlistRule :: "string list option \<Rightarrow> policy_rule" where
  "TargetAllowlistRule approved = \<lparr>rl_id = ''RULE-04'',
     rl_description = ''Target endpoint must be on the approved allowlist'',
     rl_evaluate = (\<lambda>p a o' led rules. target_allowlist_evaluate
       (case approved of Some (t # ts) \<Rightarrow> t # ts | _ \<Rightarrow> default_approved_targets) p rules)\<rparr>"

definition OrgPauseRule :: policy_rule where
  "OrgPauseRule = \<lparr>rl_id = ''RULE-06'',
     rl_description = ''No actions may execute when organisation is paused'',
     rl_evaluate = (\<lambda>p a o' led rules. if og_state o' = Org_PAUSED
       then violates ''Organisation is PAUSED by emergency kill switch'' else pass)\<rparr>"

definition AgentStatusRule :: policy_rule where
  "AgentStatusRule = \<lparr>rl_id = ''RULE-07'',
     rl_description = ''Suspended or retired agents cannot propose actions; restricted agents can only propose internal analysis with zero credits'',
     rl_evaluate = (\<lambda>p a o' led rules.
       if ag_status a \<in> {Agent_SUSPENDED, Agent_RETIRED}
       then violates ''Agent cannot propose actions''
       else if ag_status a = Agent_RESTRICTED
       then if pr_action_type p \<noteq> INTERNAL_ANALYSIS
            then violates ''Agent is RESTRICTED and can only perform INTERNAL_ANALYSIS''
            else if pr_requested_credits p > 0
            then violates ''Agent is RESTRICTED and cannot request credits (>0)'' else pass
       else pass)\<rparr>"

section \<open>blockchain\_rules.py\<close>

definition is_blockchain_action :: "action_proposal \<Rightarrow> bool" where
  "is_blockchain_action p \<longleftrightarrow> pr_action_type p = BLOCKCHAIN_TRANSACTION \<or>
     starts_with_any [''blockchain://'', ''evm://'', ''sepolia://''] (pr_target p) \<or>
     ''chain_id'' \<in> fst ` set (pr_parameters p)"

text \<open>\<open>try: int(v) except (ValueError, TypeError)\<close>: \<open>py_int\<close> raises nothing else.\<close>

definition SEPOLIA :: int where "SEPOLIA = 11155111"

definition allowed_chain_evaluate :: "int list \<Rightarrow> action_proposal \<Rightarrow> violation result" where
  "allowed_chain_evaluate cids p =
     (if \<not> is_blockchain_action p then pass
      else let chain_id = param_get (pr_parameters p) ''chain_id'' in
        if chain_id = JNull then violates ''Blockchain proposal must specify a target 'chain_id' ''
        else case py_int chain_id of
            Inl _ \<Rightarrow> violates ''Invalid chain_id; must be an integer''
          | Inr cid \<Rightarrow> if cid \<notin> set cids
              then violates ''Chain ID is not in the allowed network list; mainnet and unapproved chains are strictly prohibited''
              else pass)"

definition AllowedChainRule :: "int list option \<Rightarrow> policy_rule" where
  "AllowedChainRule allowed = \<lparr>rl_id = ''RULE-BC-01'',
     rl_description = ''Only configured EVM networks and chain IDs may be targeted'',
     rl_evaluate = (\<lambda>p a o' led rules. allowed_chain_evaluate
       (case allowed of Some (c # cs) \<Rightarrow> c # cs | _ \<Rightarrow> [SEPOLIA]) p)\<rparr>"

text \<open>
  A recipient that is not a string is rejected below: no \<open>str(..)\<close> of a number, boolean,
  list or object is an address.
\<close>

definition recipient_text :: "action_proposal \<Rightarrow> string" where
  "recipient_text p = (let r = param_get (pr_parameters p) ''recipient'' in
     if json_truthy r then (case r of JStr s \<Rightarrow> s | _ \<Rightarrow> ''non-string'')
     else py_remove ''sepolia://'' (py_remove ''blockchain://'' (py_remove ''evm://'' (pr_target p))))"

definition recipient_evaluate :: "string list \<Rightarrow> bool \<Rightarrow> action_proposal \<Rightarrow> violation result" where
  "recipient_evaluate approved allow_any p =
     (if \<not> is_blockchain_action p then pass
      else let raw = recipient_text p in
        if raw = [] then violates ''Blockchain proposal must specify a 'recipient' address''
        else let recipient = py_lower (py_strip raw) in
          if \<not> ETH_ADDRESS_PATTERN recipient
          then violates ''Invalid EVM recipient address; must be a 42-char 0x-prefixed hex address''
          else if approved \<noteq> [] \<and> recipient \<notin> set approved
          then violates ''Recipient address is not on the approved destination allowlist''
          else if approved = [] \<and> \<not> allow_any
          then violates ''No approved recipient allowlist configured for blockchain actions''
          else pass)"

definition RecipientAllowlistRule :: "string list option \<Rightarrow> bool \<Rightarrow> policy_rule" where
  "RecipientAllowlistRule approved allow_any = \<lparr>rl_id = ''RULE-BC-02'',
     rl_description = ''Recipient address must be a valid EVM address on the approved allowlist'',
     rl_evaluate = (\<lambda>p a o' led rules. recipient_evaluate
       (case approved of Some rs \<Rightarrow> map py_lower rs | None \<Rightarrow> []) allow_any p)\<rparr>"

definition amount_ceiling_evaluate :: "int \<Rightarrow> int \<Rightarrow> action_proposal \<Rightarrow> violation result" where
  "amount_ceiling_evaluate max_credits max_wei p =
     (if \<not> is_blockchain_action p then pass
      else if pr_requested_credits p > max_credits
      then violates ''Requested credits exceed blockchain action ceiling''
      else let amount_wei = param_get (pr_parameters p) ''amount_wei'' in
        if amount_wei = JNull then pass
        else case py_int amount_wei of
            Inl _ \<Rightarrow> violates ''Invalid amount_wei''
          | Inr wei \<Rightarrow> if wei > max_wei
              then violates ''Transaction value exceeds maximum allowable ceiling''
              else if wei < 0 then violates ''Transaction value cannot be negative'' else pass)"

definition TransactionAmountCeilingRule :: "int \<Rightarrow> int \<Rightarrow> policy_rule" where
  "TransactionAmountCeilingRule max_credits max_wei = \<lparr>rl_id = ''RULE-BC-03'',
     rl_description = ''Transaction credit and value amount must not exceed the policy ceiling'',
     rl_evaluate = (\<lambda>p a o' led rules. amount_ceiling_evaluate max_credits max_wei p)\<rparr>"

definition gas_exposure_evaluate :: "int \<Rightarrow> int \<Rightarrow> action_proposal \<Rightarrow> violation result" where
  "gas_exposure_evaluate max_fee max_gas p =
     (if \<not> is_blockchain_action p then pass
      else let fee = param_get (pr_parameters p) ''max_fee_per_gas'';
               gas = param_get (pr_parameters p) ''gas_limit'';
               check_gas = (if gas = JNull then pass else
                 case py_int gas of
                     Inl _ \<Rightarrow> violates ''Invalid gas_limit''
                   | Inr n \<Rightarrow> if n > max_gas
                       then violates ''Gas limit exceeds maximum allowable ceiling'' else pass)
        in if fee = JNull then check_gas else
           case py_int fee of
               Inl _ \<Rightarrow> violates ''Invalid max_fee_per_gas''
             | Inr n \<Rightarrow> if n > max_fee
                 then violates ''Max fee per gas exceeds maximum allowable ceiling'' else check_gas)"

definition GasExposureRule :: "int \<Rightarrow> int \<Rightarrow> policy_rule" where
  "GasExposureRule max_fee max_gas = \<lparr>rl_id = ''RULE-BC-04'',
     rl_description = ''Gas price and gas limit must not exceed safe exposure thresholds'',
     rl_evaluate = (\<lambda>p a o' led rules. gas_exposure_evaluate max_fee max_gas p)\<rparr>"

definition IntentMatchRule :: policy_rule where
  "IntentMatchRule = \<lparr>rl_id = ''RULE-BC-05'',
     rl_description = ''Transaction intent parameters must match proposal specifications'',
     rl_evaluate = (\<lambda>p a o' led rules.
       if \<not> is_blockchain_action p then pass
       else case map_of (pr_parameters p) ''amount_credits'' of
           Some v \<Rightarrow> if \<not> py_eq v (JInt (pr_requested_credits p))
             then violates ''Parameter amount_credits does not match proposal requested_credits'' else pass
         | None \<Rightarrow> pass)\<rparr>"

section \<open>capability\_policy.py\<close>

definition json_or :: "json \<Rightarrow> json \<Rightarrow> json" where
  "json_or a b = (if json_truthy a then a else b)"

definition scale_score :: "rat \<Rightarrow> rat" where
  "scale_score s = (if s > 1 then s / 100 else s)"

definition capability_evaluate ::
  "prims \<Rightarrow> rat \<Rightarrow> action_proposal \<Rightarrow> organisation \<Rightarrow> violation result" where
  "capability_evaluate P min_threshold p o' =
     (if pr_action_type p \<noteq> PROPOSE_CAPABILITY_EXPANSION then pass
      else let target = json_or (param_get (pr_parameters p) ''target_agent_id'') (JStr (pr_proposing_agent_id p));
               proposer = json_or (param_get (pr_parameters p) ''proposer_agent_id'') (JStr (pr_proposing_agent_id p))
        in if py_eq target proposer
           then violates ''Agent cannot self-grant capabilities. Expansion proposals must originate from an independent supervisor.''
           else case target of
               JList _ \<Rightarrow> raise TypeError ''unhashable type''
             | JObj _ \<Rightarrow> raise TypeError ''unhashable type''
             | JStr tid \<Rightarrow>
                 (case map_of (og_agents o') tid of
                    None \<Rightarrow> violates ''Target agent does not belong to organisation''
                  | Some ag \<Rightarrow>
                      let param_score = param_get (pr_parameters p) ''performance_score'';
                          score = (if param_score \<noteq> JNull
                             then bind_result (py_float P param_score)
                                    (\<lambda>x. Inr (min x (ag_performance_score ag)))
                             else Inr (ag_performance_score ag))
                      in bind_result score (\<lambda>s.
                           if scale_score s < (if min_threshold \<le> 1 then min_threshold else min_threshold / 100)
                           then violates ''Agent performance score is below the required capability promotion threshold''
                           else pass))
             | _ \<Rightarrow> violates ''Target agent does not belong to organisation'')"

definition CapabilityEvolutionRule :: "prims \<Rightarrow> rat \<Rightarrow> policy_rule" where
  "CapabilityEvolutionRule P min_threshold = \<lparr>rl_id = ''RULE-CAPABILITY-01'',
     rl_description = ''Governed capability expansion requires proven empirical track record and anti-self-granting validation'',
     rl_evaluate = (\<lambda>p a o' led rules. capability_evaluate P min_threshold p o')\<rparr>"

section \<open>external\_economy\_rules.py\<close>

definition ExternalInferenceTargetRule :: "string list option \<Rightarrow> policy_rule" where
  "ExternalInferenceTargetRule approved = \<lparr>rl_id = ''RULE-ORBIO-01'',
     rl_description = ''EXTERNAL_INFERENCE targets must be on the Orbio gateway allowlist'',
     rl_evaluate = (\<lambda>p a o' led rules.
       if pr_action_type p \<noteq> EXTERNAL_INFERENCE then pass
       else if pr_target p \<notin> set (case approved of Some (t # ts) \<Rightarrow> t # ts
            | _ \<Rightarrow> [''orbio://inference'', ''orbio://gateway/chat'',
                ''https://www.orbio.so/api/v1/chat/completions'', ''https://api.orbio.so/api/v1/chat/completions''])
       then violates ''EXTERNAL_INFERENCE target is not on the Orbio allowlist'' else pass)\<rparr>"

definition OrbioKeyLifecycleAuthorityRule :: policy_rule where
  "OrbioKeyLifecycleAuthorityRule = \<lparr>rl_id = ''RULE-ORBIO-02'',
     rl_description = ''ORBIO_KEY_LIFECYCLE requires explicit credential-management authority; reputation alone is insufficient'',
     rl_evaluate = (\<lambda>p a o' led rules.
       if pr_action_type p \<noteq> ORBIO_KEY_LIFECYCLE then pass
       else if ORBIO_KEY_LIFECYCLE \<notin> set (ag_allowed_action_types a)
       then violates ''Agent lacks ORBIO_KEY_LIFECYCLE authority'' else pass)\<rparr>"

definition ExternalInferenceAuthorityRule :: policy_rule where
  "ExternalInferenceAuthorityRule = \<lparr>rl_id = ''RULE-ORBIO-03'',
     rl_description = ''EXTERNAL_INFERENCE requires the action type to be explicitly allowed for the agent'',
     rl_evaluate = (\<lambda>p a o' led rules.
       if pr_action_type p \<noteq> EXTERNAL_INFERENCE then pass
       else if EXTERNAL_INFERENCE \<notin> set (ag_allowed_action_types a)
       then violates ''Agent is not permitted to propose EXTERNAL_INFERENCE'' else pass)\<rparr>"

section \<open>What a passed rule guarantees\<close>

lemmas rule_defs = SpendLimitRule_def TreasuryBalanceRule_def RolePermissionRule_def
  TargetAllowlistRule_def OrgPauseRule_def AgentStatusRule_def AllowedChainRule_def
  RecipientAllowlistRule_def TransactionAmountCeilingRule_def GasExposureRule_def IntentMatchRule_def
  CapabilityEvolutionRule_def ExternalInferenceTargetRule_def OrbioKeyLifecycleAuthorityRule_def
  ExternalInferenceAuthorityRule_def

lemma spend_limit_pass:
  "rl_evaluate SpendLimitRule p a g led rs = Inr None \<longleftrightarrow> pr_requested_credits p \<le> ag_authority_ceiling a"
  by (auto simp: rule_defs)

lemma treasury_pass:
  "rl_evaluate TreasuryBalanceRule p a g (Some b) rs = Inr None \<longleftrightarrow> pr_requested_credits p \<le> b"
  by (auto simp: rule_defs Let_def)

lemma role_pass:
  "rl_evaluate RolePermissionRule p a g led rs = Inr None \<longleftrightarrow>
     pr_action_type p \<in> set (ag_allowed_action_types a)"
  by (auto simp: rule_defs)

lemma pause_pass:
  "rl_evaluate OrgPauseRule p a g led rs = Inr None \<longleftrightarrow> og_state g \<noteq> Org_PAUSED"
  by (auto simp: rule_defs)

lemma status_pass:
  "rl_evaluate AgentStatusRule p a g led rs = Inr None \<longleftrightarrow>
     ag_status a \<notin> {Agent_SUSPENDED, Agent_RETIRED} \<and>
     (ag_status a = Agent_RESTRICTED \<longrightarrow>
        pr_action_type p = INTERNAL_ANALYSIS \<and> pr_requested_credits p \<le> 0)"
  by (auto simp: rule_defs)

lemma chain_pass:
  "rl_evaluate (AllowedChainRule None) p a g led rs = Inr None \<longleftrightarrow>
     (is_blockchain_action p \<longrightarrow> param_get (pr_parameters p) ''chain_id'' \<noteq> JNull \<and>
        py_int (param_get (pr_parameters p) ''chain_id'') = Inr SEPOLIA)"
  by (auto simp: rule_defs allowed_chain_evaluate_def Let_def split: sum.splits)

lemma ceiling_pass:
  "rl_evaluate (TransactionAmountCeilingRule c w) p a g led rs = Inr None \<longleftrightarrow>
     (is_blockchain_action p \<longrightarrow> pr_requested_credits p \<le> c \<and>
        (param_get (pr_parameters p) ''amount_wei'' \<noteq> JNull \<longrightarrow>
           (\<exists>n. py_int (param_get (pr_parameters p) ''amount_wei'') = Inr n \<and> 0 \<le> n \<and> n \<le> w)))"
  by (auto simp: rule_defs amount_ceiling_evaluate_def Let_def split: sum.splits)

lemma recipient_pass:
  "rl_evaluate (RecipientAllowlistRule None True) p a g led rs = Inr None \<longleftrightarrow>
     (is_blockchain_action p \<longrightarrow> recipient_text p \<noteq> [] \<and>
        ETH_ADDRESS_PATTERN (py_lower (py_strip (recipient_text p))))"
  by (auto simp: rule_defs recipient_evaluate_def Let_def)

lemma target_pass:
  "rl_evaluate (TargetAllowlistRule None) p a g led (Some ids) = Inr None \<Longrightarrow>
     pr_action_type p = ORBIO_CREDIT_PURCHASE \<Longrightarrow>
     starts_with_any [''blockchain://'', ''evm://'', ''sepolia://''] (pr_target p) \<or>
     PURCHASE_RULE_ID \<in> set ids"
  by (auto simp: rule_defs target_allowlist_evaluate_def split: if_splits)

lemma target_pass_listed:
  "rl_evaluate (TargetAllowlistRule None) p a g led rs = Inr None \<Longrightarrow>
     pr_action_type p \<in> {INTERNAL_ANALYSIS, DATA_FETCH, EXTERNAL_API_CALL, SIMULATED_ALLOCATION, REPLAN} \<Longrightarrow>
     starts_with_any [''blockchain://'', ''evm://'', ''sepolia://'', ''orbio://'', ''marketplace://'',
       ''capability://''] (pr_target p) \<or> pr_target p \<in> set default_approved_targets"
  by (auto simp: rule_defs target_allowlist_evaluate_def starts_with_any_def split: if_splits)

definition cap_target :: "action_proposal \<Rightarrow> json" where
  "cap_target p = json_or (param_get (pr_parameters p) ''target_agent_id'') (JStr (pr_proposing_agent_id p))"

definition cap_proposer :: "action_proposal \<Rightarrow> json" where
  "cap_proposer p = json_or (param_get (pr_parameters p) ''proposer_agent_id'') (JStr (pr_proposing_agent_id p))"

lemma capability_pass:
  assumes "rl_evaluate (CapabilityEvolutionRule P t) p a g led rs = Inr None"
    and "pr_action_type p = PROPOSE_CAPABILITY_EXPANSION"
  shows "\<exists>tid ag. cap_target p = JStr tid \<and> \<not> py_eq (JStr tid) (cap_proposer p) \<and>
     map_of (og_agents g) tid = Some ag \<and>
     (param_get (pr_parameters p) ''performance_score'' = JNull \<longrightarrow>
        (if t \<le> 1 then t else t / 100) \<le> scale_score (ag_performance_score ag))"
  using assms unfolding rule_defs policy_rule.simps capability_evaluate_def Let_def
    cap_target_def [symmetric] cap_proposer_def [symmetric]
  by (cases "cap_target p")
     (auto simp: bind_result_def split: if_splits option.splits sum.splits)

text \<open>
  Anti-self-granting.  A capability expansion the rule passes names a target that is an
  agent of this organisation and is not its proposer, and when the proposal brings no score of
  its own the target's recorded score reaches the threshold (80 percent by default).
\<close>

theorem capability_rule_sound:
  assumes "rl_evaluate (CapabilityEvolutionRule P (4/5)) p a g led rs = Inr None"
    and "pr_action_type p = PROPOSE_CAPABILITY_EXPANSION"
    and "param_get (pr_parameters p) ''performance_score'' = JNull"
  shows "\<exists>tid ag. cap_target p = JStr tid \<and> cap_proposer p \<noteq> JStr tid \<and>
     map_of (og_agents g) tid = Some ag \<and> 4/5 \<le> scale_score (ag_performance_score ag)"
proof -
  obtain tid ag where "cap_target p = JStr tid" "\<not> py_eq (JStr tid) (cap_proposer p)"
      "map_of (og_agents g) tid = Some ag" "4/5 \<le> scale_score (ag_performance_score ag)"
    using capability_pass [OF assms(1,2)] assms(3) by fastforce
  moreover from this(2) have "cap_proposer p \<noteq> JStr tid" by auto
  ultimately show ?thesis by blast
qed

definition demo_agent :: agent_record where
  "demo_agent = \<lparr>ag_id = ''agent-1'', ag_role = Role_CEO, ag_model_name = ''m'', ag_credit_balance = 0,
     ag_reputation_score = 100, ag_authority_ceiling = 25,
     ag_allowed_action_types = [INTERNAL_ANALYSIS, DATA_FETCH, PROPOSE_CAPABILITY_EXPANSION,
       ORBIO_CREDIT_PURCHASE], ag_status = Agent_ACTIVE, ag_successful_tasks = 0, ag_failed_tasks = 0,
     ag_policy_violations = 0, ag_performance_score = 100, ag_risk_score = 0,
     ag_resource_efficiency = 1, ag_reliability_score = 100, ag_task_history = []\<rparr>"

definition demo_org :: organisation where
  "demo_org = \<lparr>og_id = ''org-1'', og_mission = ''m'', og_tenant_id = ''acme'', og_treasury_balance = 100,
     og_state = Org_EXECUTING, og_agents = [(''agent-1'', demo_agent),
       (''agent-2'', demo_agent\<lparr>ag_id := ''agent-2'', ag_performance_score := 5\<rparr>),
       (''agent-3'', demo_agent\<lparr>ag_id := ''agent-3''\<rparr>)],
     og_active_policy_ids = [], og_created_at = ''now''\<rparr>"

definition demo_proposal :: action_proposal where
  "demo_proposal = \<lparr>pr_id = ''prop-0001'', pr_task_id = ''task-1'', pr_proposing_agent_id = ''agent-1'',
     pr_action_type = DATA_FETCH, pr_target = ''api://market_data/v1/summary'', pr_parameters = [],
     pr_requested_credits = 10, pr_expected_value_score = 1, pr_risk_assessment = ''low'',
     pr_rationale = ''r'', pr_evidence_hashes = [], pr_created_at = ''now''\<rparr>"

definition demo_expansion :: "(string \<times> json) list \<Rightarrow> action_proposal" where
  "demo_expansion params = demo_proposal\<lparr>pr_action_type := PROPOSE_CAPABILITY_EXPANSION,
     pr_parameters := params\<rparr>"

theorem capability_rule_sound_witness:
  "\<exists>ag. map_of (og_agents demo_org) ''agent-3'' = Some ag \<and> 4/5 \<le> scale_score (ag_performance_score ag)"
proof -
  let ?p = "demo_expansion [(''target_agent_id'', JStr ''agent-3'')]"
  have eval: "rl_evaluate (CapabilityEvolutionRule demo_prims (4/5)) ?p demo_agent demo_org None None = Inr None"
    by (simp add: rule_defs capability_evaluate_def demo_expansion_def demo_proposal_def param_get_def
        json_or_def demo_org_def demo_agent_def scale_score_def Let_def)
  have "pr_action_type ?p = PROPOSE_CAPABILITY_EXPANSION"
    "param_get (pr_parameters ?p) ''performance_score'' = JNull" "cap_target ?p = JStr ''agent-3''"
    by (simp_all add: demo_expansion_def demo_proposal_def cap_target_def param_get_def json_or_def)
  with capability_rule_sound [OF eval] show ?thesis by auto
qed

text \<open>
  A proposer can inflate the score.  The rule takes the smaller of the proposal's and the
  recorded score before it decides on which scale they are, so a claimed score between the
  threshold and 1 beats every recorded score from 1 to 100, however bad.
\<close>

theorem capability_score_inflation:
  assumes "pr_action_type p = PROPOSE_CAPABILITY_EXPANSION" "cap_target p = JStr tid"
    and "\<not> py_eq (JStr tid) (cap_proposer p)" "map_of (og_agents g) tid = Some ag"
    and "param_get (pr_parameters p) ''performance_score'' = JFloat claimed"
    and "4/5 \<le> claimed" "claimed \<le> 1" "1 \<le> ag_performance_score ag"
  shows "rl_evaluate (CapabilityEvolutionRule P (4/5)) p a g led rs = Inr None"
proof -
  have "min claimed (ag_performance_score ag) = claimed" using assms(7,8) by simp
  moreover have "scale_score claimed = claimed" using assms(7) by (simp add: scale_score_def)
  ultimately show ?thesis using assms(1,3-7)
    unfolding rule_defs policy_rule.simps capability_evaluate_def Let_def
      cap_target_def [symmetric] cap_proposer_def [symmetric] assms(2)
    by simp
qed

theorem capability_score_inflation_witness:
  "rl_evaluate (CapabilityEvolutionRule demo_prims (4/5))
     (demo_expansion [(''target_agent_id'', JStr ''agent-2''), (''performance_score'', JFloat (9/10))])
     demo_agent demo_org None None = Inr None"
  by (rule capability_score_inflation [where tid = "''agent-2''" and claimed = "9/10"
        and ag = "demo_agent\<lparr>ag_id := ''agent-2'', ag_performance_score := 5\<rparr>"])
     (simp_all add: demo_expansion_def demo_proposal_def cap_target_def cap_proposer_def param_get_def
        json_or_def demo_org_def demo_agent_def)

end
