(* ===== verification/PolicyEngine.thy ===== *)
theory PolicyEngine
  imports Rules "HOL-Library.Countable" "HOL-Library.List_Lexorder" "HOL-Library.Char_ord"
begin

text \<open>
  \<open>src/governance/policy_engine.py\<close>, \<open>src/governance/crypto.py\<close> and the token claims of
  \<open>src/domain/entities.py\<close>: evaluation of a proposal against the registered rules, and the
  signed authorization tokens an approval carries.  Times (\<open>time.time()\<close>) are rationals.
\<close>

section \<open>Token claims\<close>

record token_claims =
  tc_org_id :: string
  tc_proposal_id :: string
  tc_proposal_content_hash :: string
  tc_decision_id :: string
  tc_policy_version_hash :: string
  tc_issued_at :: rat
  tc_expires_at :: rat
  tc_nonce :: string

definition claims_json :: "token_claims \<Rightarrow> (string \<times> json) list" where
  "claims_json c = [(''org_id'', JStr (tc_org_id c)), (''proposal_id'', JStr (tc_proposal_id c)),
     (''proposal_content_hash'', JStr (tc_proposal_content_hash c)),
     (''decision_id'', JStr (tc_decision_id c)),
     (''policy_version_hash'', JStr (tc_policy_version_hash c)),
     (''issued_at'', JFloat (py_round3 (tc_issued_at c))),
     (''expires_at'', JFloat (py_round3 (tc_expires_at c))), (''nonce'', JStr (tc_nonce c))]"

definition claims_to_b64 :: "prims \<Rightarrow> token_claims \<Rightarrow> string" where
  "claims_to_b64 P c = b64_encode P (canonical_json P (JObj (claims_json c)))"

text \<open>\<open>cls(**data)\<close>: pydantic requires strings and numbers in the respective fields.\<close>

definition field_str :: "(string \<times> json) list \<Rightarrow> string \<Rightarrow> string result" where
  "field_str d k = (case map_of d k of Some (JStr s) \<Rightarrow> Inr s
     | _ \<Rightarrow> raise ValidationError ''string field required'')"

definition field_float :: "prims \<Rightarrow> (string \<times> json) list \<Rightarrow> string \<Rightarrow> rat result" where
  "field_float P d k = (case map_of d k of
       None \<Rightarrow> raise ValidationError ''float field required''
     | Some v \<Rightarrow> (case py_float P v of Inr r \<Rightarrow> Inr r
         | Inl x \<Rightarrow> raise ValidationError ''float field required''))"

definition claims_of_dict :: "prims \<Rightarrow> (string \<times> json) list \<Rightarrow> token_claims result" where
  "claims_of_dict P d =
     bind_result (field_str d ''org_id'') (\<lambda>org. bind_result (field_str d ''proposal_id'') (\<lambda>prop.
     bind_result (field_str d ''proposal_content_hash'') (\<lambda>h.
     bind_result (field_str d ''decision_id'') (\<lambda>dec.
     bind_result (field_str d ''policy_version_hash'') (\<lambda>v.
     bind_result (field_float P d ''issued_at'') (\<lambda>ia.
     bind_result (field_float P d ''expires_at'') (\<lambda>ea.
     bind_result (field_str d ''nonce'') (\<lambda>n.
       Inr \<lparr>tc_org_id = org, tc_proposal_id = prop, tc_proposal_content_hash = h,
            tc_decision_id = dec, tc_policy_version_hash = v, tc_issued_at = ia,
            tc_expires_at = ea, tc_nonce = n\<rparr>))))))))"

type_synonym json_loads_fun = "string \<Rightarrow> (string \<times> json) list option"

definition claims_from_b64 :: "prims \<Rightarrow> json_loads_fun \<Rightarrow> string \<Rightarrow> token_claims result" where
  "claims_from_b64 P loads s =
     (case b64_decode P s of
        None \<Rightarrow> raise ValueError ''Invalid base64''
      | Some raw \<Rightarrow> (case loads raw of
            None \<Rightarrow> raise ValueError ''Invalid JSON''
          | Some d \<Rightarrow> claims_of_dict P d))"

section \<open>Signer and verifier\<close>

definition hmac_sign :: "prims \<Rightarrow> string \<Rightarrow> string \<Rightarrow> string" where
  "hmac_sign P secret data = hmac_sha256 P secret data"

definition hmac_verify :: "prims \<Rightarrow> string \<Rightarrow> string \<Rightarrow> string \<Rightarrow> bool" where
  "hmac_verify P secret data signature \<longleftrightarrow> signature = hmac_sha256 P secret data"

section \<open>The engine\<close>

record policy_engine =
  pe_rules :: "policy_rule list"
  pe_human_approval_threshold :: int
  pe_token_ttl_seconds :: rat
  pe_sign :: "string \<Rightarrow> string"
  pe_verify :: "string \<Rightarrow> string \<Rightarrow> bool"

definition default_rules :: "prims \<Rightarrow> policy_rule list" where
  "default_rules P = [OrgPauseRule, AgentStatusRule, TreasuryBalanceRule, SpendLimitRule,
     RolePermissionRule, TargetAllowlistRule None, AllowedChainRule None,
     RecipientAllowlistRule None True, TransactionAmountCeilingRule 50 50000000000000000,
     GasExposureRule 100000000000 200000, IntentMatchRule, CapabilityEvolutionRule P (4/5)]"

definition mk_policy_engine ::
  "prims \<Rightarrow> policy_rule list option \<Rightarrow> int \<Rightarrow> string option \<Rightarrow> rat \<Rightarrow> env \<Rightarrow> policy_engine" where
  "mk_policy_engine P rules threshold secret ttl E =
     (let s = py_or secret (e_uuid E 0) in
      \<lparr>pe_rules = (case rules of Some rs \<Rightarrow> rs | None \<Rightarrow> default_rules P),
       pe_human_approval_threshold = threshold, pe_token_ttl_seconds = ttl,
       pe_sign = hmac_sign P s, pe_verify = hmac_verify P s\<rparr>)"

definition get_policy_version_hash :: "prims \<Rightarrow> policy_engine \<Rightarrow> string" where
  "get_policy_version_hash P eng = sha256 P (canonical_json P (JObj
     [(''rules'', JList (map (\<lambda>r. JObj [(''rule_id'', JStr (rl_id r)), (''description'', JStr (rl_description r))])
         (sort_key rl_id (pe_rules eng)))),
      (''human_approval_threshold'', JInt (pe_human_approval_threshold eng))]))"

text \<open>The claims and the text of a token; \<open>uuid4\<close> 0 is the default decision id, 1 the nonce.\<close>

definition token_claims_for ::
  "prims \<Rightarrow> env \<Rightarrow> rat \<Rightarrow> policy_engine \<Rightarrow> action_proposal \<Rightarrow> organisation \<Rightarrow> string option \<Rightarrow> rat option \<Rightarrow>
     token_claims" where
  "token_claims_for P E now eng p g decision_id ttl_seconds =
     (let ttl = (case ttl_seconds of Some t \<Rightarrow> t | None \<Rightarrow> pe_token_ttl_seconds eng) in
      \<lparr>tc_org_id = og_id g, tc_proposal_id = pr_id p, tc_proposal_content_hash = get_content_hash P p,
       tc_decision_id = py_or decision_id (e_uuid E 0),
       tc_policy_version_hash = get_policy_version_hash P eng,
       tc_issued_at = now, tc_expires_at = now + ttl, tc_nonce = e_uuid E 1\<rparr>)"

definition generate_token ::
  "prims \<Rightarrow> env \<Rightarrow> rat \<Rightarrow> policy_engine \<Rightarrow> action_proposal \<Rightarrow> organisation \<Rightarrow> string option \<Rightarrow> rat option \<Rightarrow> string"
where
  "generate_token P E now eng p g decision_id ttl_seconds =
     (let b64 = claims_to_b64 P (token_claims_for P E now eng p g decision_id ttl_seconds)
      in ''AUTH-'' @ take 8 (pr_id p) @ ''.'' @ b64 @ ''.'' @ pe_sign eng b64)"

definition verify_token ::
  "prims \<Rightarrow> json_loads_fun \<Rightarrow> policy_engine \<Rightarrow> string \<Rightarrow> action_proposal \<Rightarrow> organisation \<Rightarrow>
     policy_decision option \<Rightarrow> rat \<Rightarrow> bool \<times> string option" where
  "verify_token P loads eng token p g decision now =
     (if token = [] then (False, Some ''Empty or missing authorization token'')
      else if og_state g = Org_PAUSED then (False, Some ''Organisation is PAUSED by emergency kill switch'')
      else case py_split (CHR ''.'') token of
        [hd', b64, signature] \<Rightarrow>
          if \<not> prefix ''AUTH-'' hd'
          then (False, Some ''Invalid token: format does not match authorization schema'')
          else if \<not> pe_verify eng b64 signature
          then (False, Some ''Invalid token: signature does not match proposal content or was forged/modified'')
          else (case claims_from_b64 P loads b64 of
              Inl x \<Rightarrow> (False, Some ''Invalid token: failed to parse claims'')
            | Inr c \<Rightarrow>
                if now > tc_expires_at c then (False, Some ''Authorization token expired'')
                else if tc_org_id c \<noteq> og_id g then (False, Some ''Token organisation mismatch'')
                else if tc_proposal_id c \<noteq> pr_id p then (False, Some ''Token proposal ID mismatch'')
                else if tc_proposal_content_hash c \<noteq> get_content_hash P p
                then (False, Some ''Token proposal content hash mismatch'')
                else if (case decision of None \<Rightarrow> False | Some d \<Rightarrow> tc_decision_id c \<noteq> pd_id d)
                then (False, Some ''Token decision ID mismatch'')
                else if tc_policy_version_hash c \<noteq> get_policy_version_hash P eng
                then (False, Some ''Policy version mismatch'')
                else (True, None))
      | _ \<Rightarrow> (False, Some ''Invalid token: format does not match authorization schema''))"

text \<open>One rule, called with every keyword first and with fewer after a \<open>TypeError\<close>.\<close>

definition eval_rule ::
  "string list \<Rightarrow> policy_rule \<Rightarrow> action_proposal \<Rightarrow> agent_record \<Rightarrow> organisation \<Rightarrow> int option \<Rightarrow> violation result"
where
  "eval_rule ids r p a g led =
     (case rl_evaluate r p a g led (Some ids) of
        Inl x \<Rightarrow> if exc_kind x \<noteq> TypeError then Inl x
          else (case rl_evaluate r p a g led None of
              Inl y \<Rightarrow> if exc_kind y \<noteq> TypeError then Inl y else rl_evaluate r p a g None None
            | Inr v \<Rightarrow> Inr v)
      | Inr v \<Rightarrow> Inr v)"

text \<open>The loop over the rules: the first violation with the ids evaluated so far, or all ids.\<close>

fun eval_rules ::
  "string list \<Rightarrow> string list \<Rightarrow> policy_rule list \<Rightarrow> action_proposal \<Rightarrow> agent_record \<Rightarrow> organisation \<Rightarrow>
     int option \<Rightarrow> (string list \<times> (string \<times> string) option) result" where
  "eval_rules ids done [] p a g led = Inr (done, None)"
| "eval_rules ids done (r # rs) p a g led =
     (case eval_rule ids r p a g led of
        Inl x \<Rightarrow> Inl x
      | Inr (Some v) \<Rightarrow> Inr (done @ [rl_id r], Some (rl_id r, v))
      | Inr None \<Rightarrow> eval_rules ids (done @ [rl_id r]) rs p a g led)"

definition evaluate ::
  "prims \<Rightarrow> env \<Rightarrow> rat \<Rightarrow> policy_engine \<Rightarrow> action_proposal \<Rightarrow> organisation \<Rightarrow> int option \<Rightarrow> policy_decision result"
where
  "evaluate P E now eng p g led =
     (let mk = (\<lambda>res rid descr rules tok. \<lparr>pd_id = e_uuid E 0, pd_proposal_id = pr_id p, pd_result = res,
            pd_violated_rule_id = rid, pd_violated_rule_description = descr, pd_evaluated_rules = rules,
            pd_authorization_token = tok, pd_timestamp = e_now E 0\<rparr>) in
      case map_of (og_agents g) (pr_proposing_agent_id p) of
        None \<Rightarrow> Inr (mk Policy_REJECTED (Some ''RULE-AUTH'') (Some ''Agent does not exist in organisation'')
                  [''RULE-AUTH''] None)
      | Some a \<Rightarrow>
          (case eval_rules (map rl_id (pe_rules eng)) [] (pe_rules eng) p a g led of
             Inl x \<Rightarrow> Inl x
           | Inr (rules, Some (rid, v)) \<Rightarrow> Inr (mk Policy_REJECTED (Some rid) (Some v) rules None)
           | Inr (rules, None) \<Rightarrow>
               if pr_requested_credits p \<ge> pe_human_approval_threshold eng
               then Inr (mk Policy_ESCALATE_TO_HUMAN (Some ''RULE-05'')
                      (Some ''Requested credits require explicit human approval'') (rules @ [''RULE-05'']) None)
               else Inr (mk Policy_APPROVED None None rules
                      (Some (generate_token P E now eng p g (Some (e_uuid E 0)) None)))))"

section \<open>Evaluation\<close>

lemma eval_rules_pass:
  "eval_rules ids done rs p a g led = Inr (l, None) \<longleftrightarrow>
     (\<forall>r \<in> set rs. eval_rule ids r p a g led = Inr None) \<and> l = done @ map rl_id rs"
  by (induction ids "done" rs p a g led rule: eval_rules.induct) (auto split: sum.splits option.splits)

lemma eval_rule_pass:
  "eval_rule ids r p a g led = Inr None \<Longrightarrow>
     rl_evaluate r p a g led (Some ids) = Inr None \<or>
     (\<exists>m. rl_evaluate r p a g led (Some ids) = Inl m \<and> exc_kind m = TypeError)"
  by (auto simp: eval_rule_def split: sum.splits if_splits)

text \<open>The engine's verdict on a proposal of an agent of the organisation.\<close>

definition rules_pass :: "policy_engine \<Rightarrow> action_proposal \<Rightarrow> agent_record \<Rightarrow> organisation \<Rightarrow> int option \<Rightarrow> bool" where
  "rules_pass eng p a g led \<longleftrightarrow>
     (\<forall>r \<in> set (pe_rules eng). eval_rule (map rl_id (pe_rules eng)) r p a g led = Inr None)"

lemma evaluate_cases:
  assumes "evaluate P E now eng p g led = Inr d"
  shows "(pd_result d = Policy_APPROVED \<longleftrightarrow>
       (\<exists>a. map_of (og_agents g) (pr_proposing_agent_id p) = Some a \<and> rules_pass eng p a g led) \<and>
       pr_requested_credits p < pe_human_approval_threshold eng)
     \<and> pd_authorization_token d = (if pd_result d = Policy_APPROVED
         then Some (generate_token P E now eng p g (Some (pd_id d)) None) else None)
     \<and> pd_proposal_id d = pr_id p \<and> pd_id d = e_uuid E 0"
proof (cases "map_of (og_agents g) (pr_proposing_agent_id p)")
  case None
  then show ?thesis using assms by (auto simp: evaluate_def Let_def)
next
  case (Some a)
  then show ?thesis
  proof (cases "eval_rules (map rl_id (pe_rules eng)) [] (pe_rules eng) p a g led")
    case (Inr res)
    obtain l v where res: "res = (l, v)" by (cases res)
    have "v = None \<longleftrightarrow> rules_pass eng p a g led"
      using Inr res eval_rules_pass [of "map rl_id (pe_rules eng)" "[]" "pe_rules eng" p a g led l]
        eval_rules_pass [of "map rl_id (pe_rules eng)" "[]" "pe_rules eng" p a g led "map rl_id (pe_rules eng)"]
      by (cases v) (auto simp: rules_pass_def)
    then show ?thesis using assms Some Inr res
      by (cases v) (auto simp: evaluate_def Let_def not_le split: if_splits)
  qed (use assms Some in \<open>simp add: evaluate_def Let_def\<close>)
qed

lemma evaluate_approves:
  assumes "map_of (og_agents g) (pr_proposing_agent_id p) = Some a" "rules_pass eng p a g led"
    and "pr_requested_credits p < pe_human_approval_threshold eng"
  shows "\<exists>d. evaluate P E now eng p g led = Inr d \<and> pd_result d = Policy_APPROVED"
proof -
  have "eval_rules (map rl_id (pe_rules eng)) [] (pe_rules eng) p a g led
      = Inr (map rl_id (pe_rules eng), None)"
    using assms(2) by (simp add: eval_rules_pass rules_pass_def)
  with assms(1,3) show ?thesis by (simp add: evaluate_def Let_def)
qed

text \<open>
  C29: what an approval means.  \<open>evaluate\<close> approves exactly when the proposing agent belongs
  to the organisation, every registered rule passes and the request stays below the human
  approval threshold; and a decision carries a token exactly when it is an approval, the
  token being the one generated for this proposal and decision id.
\<close>

theorem approval_iff:
  assumes "evaluate P E now eng p g led = Inr d"
  shows "(pd_result d = Policy_APPROVED \<longleftrightarrow>
       (\<exists>a. map_of (og_agents g) (pr_proposing_agent_id p) = Some a \<and> rules_pass eng p a g led) \<and>
       pr_requested_credits p < pe_human_approval_threshold eng)
     \<and> pd_authorization_token d = (if pd_result d = Policy_APPROVED
         then Some (generate_token P E now eng p g (Some (pd_id d)) None) else None)"
  using evaluate_cases [OF assms] by blast

section \<open>The default engine\<close>

definition default_engine :: "prims \<Rightarrow> int \<Rightarrow> string option \<Rightarrow> rat \<Rightarrow> env \<Rightarrow> policy_engine" where
  "default_engine P threshold secret ttl E = mk_policy_engine P None threshold secret ttl E"

lemma default_engine_rules [simp]:
  "pe_rules (default_engine P th s ttl E) = default_rules P"
  "pe_human_approval_threshold (default_engine P th s ttl E) = th"
  by (simp_all add: default_engine_def mk_policy_engine_def Let_def)

lemma no_type_error:
  assumes "r \<in> set (default_rules P)" "rl_id r \<noteq> ''RULE-CAPABILITY-01''"
  shows "\<exists>v. rl_evaluate r p a g led rs = Inr v"
  using assms unfolding default_rules_def
  by (auto simp: rule_defs Let_def target_allowlist_evaluate_def allowed_chain_evaluate_def
      recipient_evaluate_def amount_ceiling_evaluate_def gas_exposure_evaluate_def
      split: option.splits sum.splits)

lemma default_rule_pass:
  assumes "rules_pass (default_engine P th s ttl E) p a g led" "r \<in> set (default_rules P)"
    and "rl_id r \<noteq> ''RULE-CAPABILITY-01''"
  shows "rl_evaluate r p a g led (Some (map rl_id (default_rules P))) = Inr None"
proof -
  have "eval_rule (map rl_id (default_rules P)) r p a g led = Inr None"
    using assms(1,2) by (simp add: rules_pass_def)
  from eval_rule_pass [OF this]
    no_type_error [OF assms(2,3), of p a g led "Some (map rl_id (default_rules P))"]
  show ?thesis by auto
qed

lemma default_rules_mem:
  "OrgPauseRule \<in> set (default_rules P)" "AgentStatusRule \<in> set (default_rules P)"
  "TreasuryBalanceRule \<in> set (default_rules P)" "SpendLimitRule \<in> set (default_rules P)"
  "RolePermissionRule \<in> set (default_rules P)" "AllowedChainRule None \<in> set (default_rules P)"
  "TargetAllowlistRule None \<in> set (default_rules P)"
  "RecipientAllowlistRule None True \<in> set (default_rules P)"
  "TransactionAmountCeilingRule 50 50000000000000000 \<in> set (default_rules P)"
  by (simp_all add: default_rules_def)

lemma default_rules_id:
  "rl_id OrgPauseRule \<noteq> ''RULE-CAPABILITY-01''" "rl_id AgentStatusRule \<noteq> ''RULE-CAPABILITY-01''"
  "rl_id TreasuryBalanceRule \<noteq> ''RULE-CAPABILITY-01''" "rl_id SpendLimitRule \<noteq> ''RULE-CAPABILITY-01''"
  "rl_id RolePermissionRule \<noteq> ''RULE-CAPABILITY-01''"
  "rl_id (AllowedChainRule x) \<noteq> ''RULE-CAPABILITY-01''"
  "rl_id (TargetAllowlistRule y) \<noteq> ''RULE-CAPABILITY-01''"
  "rl_id (RecipientAllowlistRule z b) \<noteq> ''RULE-CAPABILITY-01''"
  "rl_id (TransactionAmountCeilingRule c w) \<noteq> ''RULE-CAPABILITY-01''"
  by (simp_all add: rule_defs)

text \<open>
  What the default policy guarantees.  Every proposal the default engine approves comes
  from an active agent of an organisation that is not paused, stays within the agent's
  ceiling, the ledger's treasury and the approval threshold, uses an action type
  the agent holds, and, when it touches a chain, targets Sepolia with a valid address and at most 50
  credits.
\<close>

theorem default_policy_safe:
  assumes "evaluate P E now (default_engine P th s ttl E0) p g (Some treasury) = Inr d"
    and "pd_result d = Policy_APPROVED"
  shows "\<exists>a. map_of (og_agents g) (pr_proposing_agent_id p) = Some a \<and>
     og_state g \<noteq> Org_PAUSED \<and> ag_status a \<notin> {Agent_SUSPENDED, Agent_RETIRED} \<and>
     pr_requested_credits p \<le> ag_authority_ceiling a \<and> pr_requested_credits p \<le> treasury \<and>
     pr_requested_credits p < th \<and> pr_action_type p \<in> set (ag_allowed_action_types a) \<and>
     (is_blockchain_action p \<longrightarrow> pr_requested_credits p \<le> 50 \<and>
        py_int (param_get (pr_parameters p) ''chain_id'') = Inr SEPOLIA \<and>
        ETH_ADDRESS_PATTERN (py_lower (py_strip (recipient_text p))))"
proof -
  obtain a where a: "map_of (og_agents g) (pr_proposing_agent_id p) = Some a"
      "rules_pass (default_engine P th s ttl E0) p a g (Some treasury)"
    and th: "pr_requested_credits p < th"
    using evaluate_cases [OF assms(1)] assms(2) by auto
  note pass = default_rule_pass [OF a(2)]
  have "og_state g \<noteq> Org_PAUSED"
    using pass [OF default_rules_mem(1) default_rules_id(1)] by (simp add: pause_pass)
  moreover have "ag_status a \<notin> {Agent_SUSPENDED, Agent_RETIRED}"
    using pass [OF default_rules_mem(2) default_rules_id(2)] by (simp add: status_pass)
  moreover have "pr_requested_credits p \<le> treasury"
    using pass [OF default_rules_mem(3) default_rules_id(3)] by (simp add: treasury_pass)
  moreover have "pr_requested_credits p \<le> ag_authority_ceiling a"
    using pass [OF default_rules_mem(4) default_rules_id(4)] by (simp add: spend_limit_pass)
  moreover have "pr_action_type p \<in> set (ag_allowed_action_types a)"
    using pass [OF default_rules_mem(5) default_rules_id(5)] by (simp add: role_pass)
  moreover have "is_blockchain_action p \<longrightarrow> py_int (param_get (pr_parameters p) ''chain_id'') = Inr SEPOLIA"
    using pass [OF default_rules_mem(6) default_rules_id(6)] by (simp add: chain_pass)
  moreover have "is_blockchain_action p \<longrightarrow> ETH_ADDRESS_PATTERN (py_lower (py_strip (recipient_text p)))"
    using pass [OF default_rules_mem(8) default_rules_id(8)] by (simp add: recipient_pass)
  moreover have "is_blockchain_action p \<longrightarrow> pr_requested_credits p \<le> 50"
    using pass [OF default_rules_mem(9) default_rules_id(9)] by (simp add: ceiling_pass)
  ultimately show ?thesis using a(1) th by blast
qed

definition demo_engine :: policy_engine where
  "demo_engine = default_engine demo_prims 40 (Some ''secret'') 60 demo_env"

lemma demo_rules_pass:
  "rules_pass (default_engine P th s ttl E) demo_proposal demo_agent demo_org (Some 100)"
  by (simp add: rules_pass_def default_rules_def eval_rule_def rule_defs Let_def
      target_allowlist_evaluate_def allowed_chain_evaluate_def recipient_evaluate_def
      amount_ceiling_evaluate_def gas_exposure_evaluate_def capability_evaluate_def
      is_blockchain_action_def starts_with_any_def default_approved_targets_def
      demo_proposal_def demo_org_def demo_agent_def)

lemma demo_approves:
  "\<exists>d. evaluate P E now (default_engine P 40 s ttl E0) demo_proposal demo_org (Some 100) = Inr d
     \<and> pd_result d = Policy_APPROVED"
  by (rule evaluate_approves [OF _ demo_rules_pass])
     (simp_all add: demo_proposal_def demo_org_def)

lemma demo_engine_approves:
  "\<exists>d. evaluate demo_prims demo_env 0 demo_engine demo_proposal demo_org (Some 100) = Inr d
     \<and> pd_result d = Policy_APPROVED"
  unfolding demo_engine_def by (rule demo_approves)

theorem approval_iff_witness:
  "\<exists>d. evaluate demo_prims demo_env 0 demo_engine demo_proposal demo_org (Some 100) = Inr d
     \<and> (\<exists>t. pd_authorization_token d = Some t)"
proof -
  obtain d where d: "evaluate demo_prims demo_env 0 demo_engine demo_proposal demo_org (Some 100) = Inr d"
      "pd_result d = Policy_APPROVED"
    using demo_engine_approves by blast
  with approval_iff [OF d(1)] show ?thesis by simp
qed

theorem default_policy_safe_witness: "og_state demo_org \<noteq> Org_PAUSED"
proof -
  obtain d where "evaluate demo_prims demo_env 0 demo_engine demo_proposal demo_org (Some 100) = Inr d"
      "pd_result d = Policy_APPROVED"
    using demo_engine_approves by blast
  from default_policy_safe [OF this [unfolded demo_engine_def]] show ?thesis by blast
qed

definition demo_purchase :: action_proposal where
  "demo_purchase = demo_proposal\<lparr>pr_action_type := ORBIO_CREDIT_PURCHASE,
     pr_target := ''evm://0x1111111111111111111111111111111111111111'',
     pr_parameters := [(''chain_id'', JInt SEPOLIA)]\<rparr>"

lemma demo_address_ok:
  "ETH_ADDRESS_PATTERN (py_lower (py_strip (recipient_text demo_purchase)))"
  by code_simp

lemma demo_recipient_nonempty: "recipient_text demo_purchase \<noteq> []"
  by code_simp

text \<open>
  A purchase can be approved without its rule.  \<open>TargetAllowlistRule\<close> is meant to refuse every
  \<open>ORBIO_CREDIT_PURCHASE\<close> while the dedicated purchase rule is not registered, but it returns
  early for any target that starts like a chain address: the default engine, which has no
  such rule, approves this purchase on Sepolia.
\<close>

theorem purchase_approved_without_rule:
  "PURCHASE_RULE_ID \<notin> rl_id ` set (pe_rules demo_engine) \<and>
     pr_action_type demo_purchase = ORBIO_CREDIT_PURCHASE \<and>
     (\<exists>d. evaluate demo_prims demo_env 0 demo_engine demo_purchase demo_org (Some 100) = Inr d
        \<and> pd_result d = Policy_APPROVED)"
proof -
  have chain: "is_blockchain_action demo_purchase"
    by (simp add: is_blockchain_action_def demo_purchase_def)
  have rcp: "recipient_evaluate [] True demo_purchase = Inr None"
    using demo_address_ok demo_recipient_nonempty by (simp add: recipient_evaluate_def Let_def)
  have fields: "pr_action_type demo_purchase = ORBIO_CREDIT_PURCHASE"
      "pr_target demo_purchase = ''evm://0x1111111111111111111111111111111111111111''"
      "pr_parameters demo_purchase = [(''chain_id'', JInt SEPOLIA)]" "pr_requested_credits demo_purchase = 10"
      "pr_proposing_agent_id demo_purchase = ''agent-1''"
    by (simp_all add: demo_purchase_def demo_proposal_def)
  have "rules_pass demo_engine demo_purchase demo_agent demo_org (Some 100)"
    using chain rcp
    by (simp add: rules_pass_def demo_engine_def default_rules_def eval_rule_def rule_defs fields
        target_allowlist_evaluate_def allowed_chain_evaluate_def amount_ceiling_evaluate_def
        gas_exposure_evaluate_def capability_evaluate_def starts_with_any_def param_get_def)
       (simp add: demo_org_def demo_agent_def)
  from evaluate_approves [OF _ this] show ?thesis
    by (simp add: fields demo_org_def demo_engine_def default_rules_def rule_defs PURCHASE_RULE_ID_def)
qed

section \<open>Tokens\<close>

text \<open>
  What the token code relies on: base64 decodes what it encodes and its output contains no
  dot; a digest contains no dot; \<open>json.loads\<close> reads back the strings and numbers of a flat object
  that \<open>json.dumps\<close> wrote.
\<close>

fun flat_value :: "json \<Rightarrow> bool" where
  "flat_value (JStr s) = True" | "flat_value (JInt n) = True" | "flat_value (JFloat r) = True"
| "flat_value v = False"

definition token_codec :: "prims \<Rightarrow> json_loads_fun \<Rightarrow> bool" where
  "token_codec P loads \<longleftrightarrow>
     (\<forall>s. b64_decode P (b64_encode P s) = Some s) \<and> (\<forall>s. CHR ''.'' \<notin> set (b64_encode P s)) \<and>
     (\<forall>k s. CHR ''.'' \<notin> set (hmac_sha256 P k s)) \<and>
     (\<forall>d. distinct (map fst d) \<longrightarrow> list_all (\<lambda>kv. flat_value (snd kv)) d \<longrightarrow>
        (\<exists>d'. loads (canonical_json P (JObj d)) = Some d' \<and> map_of d' = map_of d))"

definition stored_claims :: "token_claims \<Rightarrow> token_claims" where
  "stored_claims c = c\<lparr>tc_issued_at := py_round3 (tc_issued_at c), tc_expires_at := py_round3 (tc_expires_at c)\<rparr>"

lemma token_codec_json:
  "token_codec P loads \<Longrightarrow> distinct (map fst d) \<Longrightarrow> list_all (\<lambda>kv. flat_value (snd kv)) d \<Longrightarrow>
     \<exists>d'. loads (canonical_json P (JObj d)) = Some d' \<and> map_of d' = map_of d"
  unfolding token_codec_def by blast

lemma claims_roundtrip:
  assumes "token_codec P loads"
  shows "claims_from_b64 P loads (claims_to_b64 P c) = Inr (stored_claims c)"
proof -
  obtain d' where d': "loads (canonical_json P (JObj (claims_json c))) = Some d'"
      "map_of d' = map_of (claims_json c)"
    using token_codec_json [OF assms, of "claims_json c"] by (auto simp: claims_json_def)
  have "claims_of_dict P d' = Inr (stored_claims c)"
    by (simp add: claims_of_dict_def field_str_def field_float_def d'(2))
       (simp add: claims_json_def stored_claims_def)
  then show ?thesis
    using assms d'(1) by (simp add: claims_from_b64_def claims_to_b64_def token_codec_def)
qed

lemma token_split:
  assumes "token_codec P loads" "CHR ''.'' \<notin> set (take 8 (pr_id p))"
    and "pe_sign eng = hmac_sign P key"
  shows "py_split (CHR ''.'') (generate_token P E now eng p g dec ttl)
     = [''AUTH-'' @ take 8 (pr_id p), claims_to_b64 P (token_claims_for P E now eng p g dec ttl),
        hmac_sha256 P key (claims_to_b64 P (token_claims_for P E now eng p g dec ttl))]"
proof -
  have "CHR ''.'' \<notin> set (claims_to_b64 P c)" "CHR ''.'' \<notin> set (hmac_sha256 P key s)" for c s
    using assms(1) by (simp_all add: token_codec_def claims_to_b64_def)
  moreover have "CHR ''.'' \<notin> set (''AUTH-'' @ take 8 (pr_id p))" using assms(2) by simp
  ultimately show ?thesis
    using py_split_append [of "CHR ''.''" "''AUTH-'' @ take 8 (pr_id p)"]
    by (simp add: generate_token_def Let_def assms(3) hmac_sign_def)
qed

text \<open>The check of a parsed token against a proposal, an organisation and a decision.\<close>

lemma verify_generated:
  assumes "token_codec P loads" "CHR ''.'' \<notin> set (take 8 (pr_id p))"
    and "pe_sign eng = hmac_sign P key" "pe_verify eng' = hmac_verify P key"
  shows "fst (verify_token P loads eng' (generate_token P E now eng p g dec ttl) p' g' decision later) \<longleftrightarrow>
     og_state g' \<noteq> Org_PAUSED \<and>
     later \<le> py_round3 (now + (case ttl of Some t \<Rightarrow> t | None \<Rightarrow> pe_token_ttl_seconds eng)) \<and>
     og_id g = og_id g' \<and> pr_id p = pr_id p' \<and> get_content_hash P p = get_content_hash P p' \<and>
     (\<forall>d. decision = Some d \<longrightarrow> py_or dec (e_uuid E 0) = pd_id d) \<and>
     get_policy_version_hash P eng = get_policy_version_hash P eng'"
proof -
  have "generate_token P E now eng p g dec ttl \<noteq> []"
    by (simp add: generate_token_def Let_def)
  then show ?thesis
    unfolding verify_token_def token_split [OF assms(1-3)]
    by (cases decision)
       (auto simp: assms(4) hmac_verify_def claims_roundtrip [OF assms(1)] stored_claims_def
         token_claims_for_def Let_def not_less)
qed

text \<open>
  C28: an approval's token works, and only for what was approved.  A token issued by an engine
  verifies, under an engine with the same secret, for exactly the presentations that agree with the approval: same
  organisation, proposal id, proposal content hash, decision and
  policy version, before the (rounded) expiry, while the organisation is not paused.
\<close>

theorem token_binds_approval:
  assumes "token_codec P loads" "CHR ''.'' \<notin> set (take 8 (pr_id p))"
    and "pe_sign eng = hmac_sign P key" "pe_verify eng' = hmac_verify P key"
    and "evaluate P E now eng p g led = Inr d" "pd_authorization_token d = Some token"
  shows "fst (verify_token P loads eng' token p' g' (Some d') later) \<longleftrightarrow>
     og_state g' \<noteq> Org_PAUSED \<and> later \<le> py_round3 (now + pe_token_ttl_seconds eng) \<and>
     og_id g = og_id g' \<and> pr_id p = pr_id p' \<and> get_content_hash P p = get_content_hash P p' \<and>
     pd_id d = pd_id d' \<and> get_policy_version_hash P eng = get_policy_version_hash P eng'"
proof -
  have "token = generate_token P E now eng p g (Some (pd_id d)) None" "pd_id d = e_uuid E 0"
    using evaluate_cases [OF assms(5)] assms(6) by (auto split: if_splits)
  then show ?thesis using verify_generated [OF assms(1-4)] by simp
qed

text \<open>A codec with these properties, through the countability of JSON values and strings.\<close>

instance json :: countable by countable_datatype

definition codec_prims :: prims where
  "codec_prims = demo_prims\<lparr>canonical_json := (\<lambda>j. replicate (to_nat j) (CHR ''x'')),
     b64_encode := (\<lambda>s. replicate (to_nat s) (CHR ''x'')), b64_decode := (\<lambda>s. Some (from_nat (length s))),
     hmac_sha256 := (\<lambda>k s. filter (\<lambda>c. c \<noteq> CHR ''.'') (k @ s))\<rparr>"

definition codec_loads :: json_loads_fun where
  "codec_loads s = (case from_nat (length s) of JObj d \<Rightarrow> Some d | _ \<Rightarrow> None)"

lemma codec_prims_ok: "token_codec codec_prims codec_loads"
  by (simp add: token_codec_def codec_prims_def codec_loads_def)

theorem token_binds_approval_witness:
  "\<exists>d token. evaluate codec_prims demo_env 0 (default_engine codec_prims 40 (Some ''secret'') 60 demo_env)
       demo_proposal demo_org (Some 100) = Inr d \<and> pd_authorization_token d = Some token \<and>
     fst (verify_token codec_prims codec_loads (default_engine codec_prims 40 (Some ''secret'') 60 demo_env)
       token demo_proposal demo_org (Some d) 30) \<and>
     \<not> fst (verify_token codec_prims codec_loads (default_engine codec_prims 40 (Some ''secret'') 60 demo_env)
       token demo_proposal (demo_org\<lparr>og_state := Org_PAUSED\<rparr>) (Some d) 30)"
proof -
  let ?eng = "default_engine codec_prims 40 (Some ''secret'') 60 demo_env"
  have keys: "pe_sign ?eng = hmac_sign codec_prims ''secret''"
      "pe_verify ?eng = hmac_verify codec_prims ''secret''" "pe_token_ttl_seconds ?eng = 60"
    by (simp_all add: default_engine_def mk_policy_engine_def Let_def)
  have id: "CHR ''.'' \<notin> set (take 8 (pr_id demo_proposal))" by (simp add: demo_proposal_def)
  obtain d where d: "evaluate codec_prims demo_env 0 ?eng demo_proposal demo_org (Some 100) = Inr d"
      "pd_result d = Policy_APPROVED"
    using demo_approves by blast
  obtain token where t: "pd_authorization_token d = Some token"
    using evaluate_cases [OF d(1)] d(2) by auto
  note binds = token_binds_approval [OF codec_prims_ok id keys(1,2) d(1) t]
  have "(30::rat) \<le> py_round3 60" by (simp add: py_round3_def round_half_even_def Let_def)
  then show ?thesis
    using d t binds [of demo_proposal demo_org d 30]
      binds [of demo_proposal "demo_org\<lparr>og_state := Org_PAUSED\<rparr>" d 30] keys(3)
    by (auto simp: demo_org_def)
qed

end
