(* ===== verification/Journals.thy ===== *)
theory Journals
  imports Prelude
begin

text \<open>
  The durable journals of \<open>src/security\<close>: single-use authorization tokens
  (\<open>token_consumption.py\<close>) and the idempotency journal of external operations
  (\<open>idempotency.py\<close>), with the interface of a consume-once registry, which the executors'
  caches and the approval stores provide as well.
\<close>

section \<open>Consume-once registries\<close>

text \<open>Attempts in order; a rejected attempt leaves the registry as it was.\<close>

fun claim_run :: "('a \<Rightarrow> 's \<Rightarrow> 'k \<Rightarrow> 's result) \<Rightarrow> ('a \<times> 'k) list \<Rightarrow> 's \<Rightarrow> ('k \<times> bool) list" where
  "claim_run f [] s = []"
| "claim_run f ((a, k) # xs) s =
     (case f a s k of Inl x \<Rightarrow> (k, False) # claim_run f xs s
      | Inr s' \<Rightarrow> (k, True) # claim_run f xs s')"

definition claim_count :: "('a \<Rightarrow> 's \<Rightarrow> 'k \<Rightarrow> 's result) \<Rightarrow> ('a \<times> 'k) list \<Rightarrow> 's \<Rightarrow> 'k \<Rightarrow> nat" where
  "claim_count f xs s k = length (filter (\<lambda>r. r = (k, True)) (claim_run f xs s))"

lemma claim_count_simps [simp]:
  "claim_count f [] s k = 0"
  "claim_count f ((a, j) # xs) s k =
     (case f a s j of Inl x \<Rightarrow> claim_count f xs s k
      | Inr s' \<Rightarrow> (if j = k then 1 else 0) + claim_count f xs s' k)"
  by (auto simp: claim_count_def split: sum.splits)

locale consume_once =
  fixes used :: "'s \<Rightarrow> 'k \<Rightarrow> bool"
    and claim :: "'a \<Rightarrow> 's \<Rightarrow> 'k \<Rightarrow> 's result"
  assumes claim_fresh: "claim a s k = Inr s' \<Longrightarrow> \<not> used s k"
    and claim_marks: "claim a s k = Inr s' \<Longrightarrow> used s' k"
    and claim_keeps: "claim a s k = Inr s' \<Longrightarrow> used s j \<Longrightarrow> used s' j"
begin

lemma used_never_again: "used s k \<Longrightarrow> claim_count claim xs s k = 0"
proof (induction xs arbitrary: s)
  case (Cons x xs)
  obtain a j where x: "x = (a, j)" by (cases x)
  show ?case
  proof (cases "claim a s j")
    case (Inr s')
    then have "j \<noteq> k" "used s' k" using Cons.prems claim_fresh claim_keeps by blast+
    with Inr x Cons.IH show ?thesis by simp
  qed (use Cons x in simp)
qed simp

lemma at_most_once: "claim_count claim xs s k \<le> 1"
proof (induction xs arbitrary: s)
  case (Cons x xs)
  obtain a j where x: "x = (a, j)" by (cases x)
  show ?case
  proof (cases "claim a s j")
    case (Inr s')
    have "j = k \<Longrightarrow> claim_count claim xs s' k = 0"
      using claim_marks [OF Inr] used_never_again by blast
    with Inr x Cons.IH [of s'] show ?thesis by simp
  qed (use Cons x in simp)
qed simp

end

section \<open>Authorization tokens\<close>

record token_row =
  tr_nonce :: string
  tr_org_id :: string
  tr_proposal_id :: string
  tr_proposal_content_hash :: string
  tr_decision_id :: string
  tr_policy_version_hash :: string
  tr_token_fingerprint :: string
  tr_consumed_at :: string

type_synonym token_table = "token_row list"

definition is_consumed :: "token_table \<Rightarrow> string \<Rightarrow> bool" where
  "is_consumed T nonce \<longleftrightarrow> nonce \<in> tr_nonce ` set T"

definition consume_token ::
  "env \<Rightarrow> token_table \<Rightarrow> string \<Rightarrow> string \<Rightarrow> string \<Rightarrow> string \<Rightarrow> string \<Rightarrow> string \<Rightarrow> string \<Rightarrow> token_table result"
where
  "consume_token E T nonce org prop h dec ver fp =
     (if nonce = [] then raise ValueError ''nonce is required''
      else if nonce \<in> tr_nonce ` set T
      then raise TokenAlreadyConsumed ''Authorization token nonce already consumed''
      else Inr (T @ [\<lparr>tr_nonce = nonce, tr_org_id = org, tr_proposal_id = prop,
             tr_proposal_content_hash = h, tr_decision_id = dec, tr_policy_version_hash = ver,
             tr_token_fingerprint = fp, tr_consumed_at = e_now E 0\<rparr>]))"

type_synonym token_claim = "env \<times> string \<times> string \<times> string \<times> string \<times> string \<times> string"

definition claim_token :: "token_claim \<Rightarrow> token_table \<Rightarrow> string \<Rightarrow> token_table result" where
  "claim_token c T nonce =
     (case c of (E, org, prop, h, dec, ver, fp) \<Rightarrow> consume_token E T nonce org prop h dec ver fp)"

interpretation tokens: consume_once is_consumed claim_token
  by unfold_locales
     (auto simp: is_consumed_def claim_token_def consume_token_def split: prod.splits if_splits)

text \<open>
  A token nonce is spent once.  In any sequence of \<open>consume\<close> calls, whatever they bind
  the nonce to and whatever the journal held before, at most one call with a given nonce succeeds.
\<close>

theorem token_nonce_consumed_once: "claim_count claim_token attempts T nonce \<le> 1"
  by (rule tokens.at_most_once)

section \<open>The idempotency journal\<close>

datatype idem_state = Started | Succeeded | Failed

record idem_row =
  ir_operation_key :: string
  ir_fingerprint :: string
  ir_state :: idem_state
  ir_receipt_id :: "string option"
  ir_created_at :: string
  ir_updated_at :: string

type_synonym idem_table = "idem_row list"

definition idem_get :: "idem_table \<Rightarrow> string \<Rightarrow> idem_row option" where
  "idem_get T key = find (\<lambda>r. ir_operation_key r = key) T"

text \<open>\<open>UPDATE .. WHERE operation_key = key\<close>.\<close>

definition idem_update :: "string \<Rightarrow> (idem_row \<Rightarrow> idem_row) \<Rightarrow> idem_table \<Rightarrow> idem_table" where
  "idem_update key f T = map (\<lambda>r. if ir_operation_key r = key then f r else r) T"

text \<open>\<open>begin\<close>: the receipt of a completed operation, or \<open>None\<close> when the caller may proceed.\<close>

definition idem_begin :: "env \<Rightarrow> idem_table \<Rightarrow> string \<Rightarrow> string \<Rightarrow> (string option \<times> idem_table) result" where
  "idem_begin E T key fp =
     (if key = [] \<or> fp = [] then raise ValueError ''operation_key and fingerprint are required''
      else case idem_get T key of
        None \<Rightarrow> Inr (None, T @ [\<lparr>ir_operation_key = key, ir_fingerprint = fp, ir_state = Started,
                  ir_receipt_id = None, ir_created_at = e_now E 0, ir_updated_at = e_now E 0\<rparr>])
      | Some r \<Rightarrow>
          if ir_fingerprint r \<noteq> fp
          then raise IdempotencyConflict ''Operation key was already bound to different content''
          else (case ir_state r of
              Succeeded \<Rightarrow> Inr (ir_receipt_id r, T)
            | Started \<Rightarrow> raise IdempotencyInProgress ''Operation key is already in progress''
            | Failed \<Rightarrow> Inr (None, T)))"

definition idem_succeed :: "env \<Rightarrow> idem_table \<Rightarrow> string \<Rightarrow> string \<Rightarrow> string \<Rightarrow> idem_table result" where
  "idem_succeed E T key fp receipt =
     (if receipt = [] then raise ValueError ''receipt_id is required''
      else case idem_get T key of
        None \<Rightarrow> raise IdempotencyConflict ''Unknown or mismatched idempotency operation''
      | Some r \<Rightarrow> if ir_fingerprint r \<noteq> fp
          then raise IdempotencyConflict ''Unknown or mismatched idempotency operation''
          else Inr (idem_update key (\<lambda>r. r\<lparr>ir_state := Succeeded, ir_receipt_id := Some receipt,
                 ir_updated_at := e_now E 0\<rparr>) T))"

definition idem_fail :: "env \<Rightarrow> idem_table \<Rightarrow> string \<Rightarrow> string \<Rightarrow> idem_table result" where
  "idem_fail E T key fp =
     (case idem_get T key of
        None \<Rightarrow> raise IdempotencyConflict ''Unknown or mismatched idempotency operation''
      | Some r \<Rightarrow> if ir_fingerprint r \<noteq> fp
          then raise IdempotencyConflict ''Unknown or mismatched idempotency operation''
          else if ir_state r \<noteq> Succeeded
          then Inr (idem_update key (\<lambda>r. r\<lparr>ir_state := Failed, ir_updated_at := e_now E 0\<rparr>) T)
          else Inr T)"

lemma idem_get_append [simp]:
  "idem_get (T @ [r]) key = (case idem_get T key of Some x \<Rightarrow> Some x
     | None \<Rightarrow> if ir_operation_key r = key then Some r else None)"
  by (induction T) (auto simp: idem_get_def)

lemma idem_get_key: "idem_get T key = Some r \<Longrightarrow> ir_operation_key r = key"
  by (auto simp: idem_get_def find_Some_iff)

lemma idem_get_update:
  assumes "\<And>r. ir_operation_key (f r) = ir_operation_key r"
  shows "idem_get (idem_update key f T) k =
    (case idem_get T k of None \<Rightarrow> None | Some r \<Rightarrow> Some (if k = key then f r else r))"
proof -
  have "idem_get (idem_update key f T) k
      = map_option (\<lambda>r. if ir_operation_key r = key then f r else r) (idem_get T k)"
    unfolding idem_get_def idem_update_def by (rule find_map_same) (simp add: assms)
  then show ?thesis using idem_get_key by (auto split: option.splits)
qed

text \<open>Any activity of other callers: \<open>begin\<close> and \<open>fail\<close> on any key, \<open>succeed\<close> on other keys.\<close>

inductive idem_step :: "string \<Rightarrow> idem_table \<Rightarrow> idem_table \<Rightarrow> bool" for key where
  is_begin: "idem_begin E T k fp = Inr (v, T') \<Longrightarrow> idem_step key T T'"
| is_fail: "idem_fail E T k fp = Inr T' \<Longrightarrow> idem_step key T T'"
| is_succeed: "idem_succeed E T k fp rid = Inr T' \<Longrightarrow> k \<noteq> key \<Longrightarrow> idem_step key T T'"

definition idem_completed :: "idem_table \<Rightarrow> string \<Rightarrow> string \<Rightarrow> string \<Rightarrow> bool" where
  "idem_completed T key fp rid \<longleftrightarrow> (\<exists>r. idem_get T key = Some r \<and> ir_fingerprint r = fp \<and>
     ir_state r = Succeeded \<and> ir_receipt_id r = Some rid)"

lemma idem_completed_step:
  assumes "idem_step key T T'" "idem_completed T key fp rid"
  shows "idem_completed T' key fp rid"
  using assms
proof (induction rule: idem_step.induct)
  case (is_begin E T k f v T')
  then show ?case
    by (auto simp: idem_begin_def idem_completed_def split: if_splits option.splits idem_state.splits)
next
  case (is_fail E T k f T')
  then show ?case
    by (cases "k = key") (auto simp: idem_fail_def idem_completed_def idem_get_update split: if_splits option.splits)
next
  case (is_succeed E T k f r T')
  then show ?case
    by (auto simp: idem_succeed_def idem_completed_def idem_get_update split: if_splits option.splits)
qed

text \<open>
  A completed operation stays completed.  After \<open>succeed\<close> recorded a receipt, and after
  any further journal activity, \<open>begin\<close> with the same fingerprint returns that receipt and changes
  nothing, and \<open>begin\<close> with any other fingerprint raises \<open>IdempotencyConflict\<close>.
\<close>

theorem completed_operation_replays:
  assumes "idem_succeed E T key fp rid = Inr T1" "(idem_step key)\<^sup>*\<^sup>* T1 T2" "key \<noteq> []" "fp \<noteq> []" "fp' \<noteq> []"
  shows "idem_begin E' T2 key fp = Inr (Some rid, T2) \<and>
     (fp' \<noteq> fp \<longrightarrow> (\<exists>m. idem_begin E' T2 key fp' = raise IdempotencyConflict m))"
proof -
  have "idem_completed T1 key fp rid"
    using assms(1)
    by (auto simp: idem_succeed_def idem_completed_def idem_get_update split: if_splits option.splits)
  with assms(2) have "idem_completed T2 key fp rid"
    by (induction rule: rtranclp_induct) (auto intro: idem_completed_step)
  then show ?thesis using assms(3-5) by (auto simp: idem_completed_def idem_begin_def)
qed

definition demo_journal :: "idem_state \<Rightarrow> idem_table" where
  "demo_journal s = [\<lparr>ir_operation_key = ''o:p'', ir_fingerprint = ''f'', ir_state = s,
     ir_receipt_id = None, ir_created_at = ''now'', ir_updated_at = ''now''\<rparr>]"

lemma demo_journal_succeeds:
  "\<exists>T1. idem_succeed demo_env (demo_journal Started) ''o:p'' ''f'' ''rec-1'' = Inr T1"
  by (simp add: idem_succeed_def demo_journal_def idem_get_def)

theorem completed_operation_replays_witness:
  "\<exists>T1. idem_succeed demo_env (demo_journal Started) ''o:p'' ''f'' ''rec-1'' = Inr T1
     \<and> idem_begin demo_env T1 ''o:p'' ''f'' = Inr (Some ''rec-1'', T1)"
proof -
  obtain T1 where "idem_succeed demo_env (demo_journal Started) ''o:p'' ''f'' ''rec-1'' = Inr T1"
    using demo_journal_succeeds by blast
  with completed_operation_replays [OF this rtranclp.rtrancl_refl, of "''f''" demo_env] show ?thesis by simp
qed

text \<open>
  Exclusivity, and where it stops.  While an operation is STARTED every other \<open>begin\<close> is
  refused; but a FAILED one is handed to every caller that asks: \<open>begin\<close> returns \<open>None\<close> and
  leaves the row FAILED, so concurrent retries all proceed.
\<close>

theorem begin_exclusive_unless_failed:
  assumes "idem_get T key = Some r" "ir_fingerprint r = fp" "key \<noteq> []" "fp \<noteq> []"
  shows "(ir_state r = Started \<longrightarrow> (\<exists>m. idem_begin E T key fp = raise IdempotencyInProgress m)) \<and>
     (ir_state r = Failed \<longrightarrow> idem_begin E T key fp = Inr (None, T))"
  using assms by (auto simp: idem_begin_def)

theorem begin_exclusive_unless_failed_witness:
  "idem_begin demo_env (demo_journal Failed) ''o:p'' ''f'' = Inr (None, demo_journal Failed)"
proof -
  have "idem_get (demo_journal Failed) ''o:p'' = Some (hd (demo_journal Failed))"
    by (simp add: idem_get_def demo_journal_def)
  from begin_exclusive_unless_failed [OF this, of "''f''" demo_env] show ?thesis
    by (simp add: demo_journal_def)
qed

end
