(* ===== verification/Executor.thy ===== *)
theory Executor
  imports SqlLedger PolicyEngine Journals
begin

text \<open>
  The trusted execution boundary: \<open>src/execution/base.py\<close> (\<open>BaseExecutor\<close>),
  \<open>src/execution/executor.py\<close> (\<open>SandboxExecutor\<close>, \<open>ControlledExternalExecutor\<close>),
  \<open>src/security/capabilities.py\<close> and \<open>src/security/durable_executor.py\<close>.  Executors run on any
  ledger that offers \<open>get_balance\<close> and \<open>transfer\<close>; DNS, URL parsing and the HTTP client are
  parameters.
\<close>

section \<open>State and configuration\<close>

record 'l ledger_ops =
  lo_get_balance :: "'l \<Rightarrow> string \<Rightarrow> int"
  lo_transfer :: "'l post_fun"

text \<open>The objects an execution touches: the ledger, the executor's token cache and journal, and the
  organisation object whose \<open>treasury_balance\<close> is refreshed.\<close>

record 'l exec_state =
  xs_ledger :: 'l
  xs_consumed_tokens :: "string set"
  xs_token_journal :: "token_table option"
  xs_org :: organisation

record exec_config =
  xc_prims :: prims
  xc_loads :: json_loads_fun
  xc_engine :: policy_engine

section \<open>capabilities.py\<close>

definition enforce_agent_capability :: "action_proposal \<Rightarrow> organisation \<Rightarrow> unit result" where
  "enforce_agent_capability p g =
     (case map_of (og_agents g) (pr_proposing_agent_id p) of
        None \<Rightarrow> raise UnauthorizedActionError ''Unknown proposing agent''
      | Some a \<Rightarrow>
          if ag_status a \<noteq> Agent_ACTIVE then raise UnauthorizedActionError ''Agent is not active''
          else if pr_action_type p \<notin> set (ag_allowed_action_types a)
          then raise UnauthorizedActionError ''Agent is not authorized for action type''
          else if pr_requested_credits p > ag_authority_ceiling a
          then raise UnauthorizedActionError ''Proposal requests credits above agent authority ceiling''
          else Inr ())"

section \<open>base.py\<close>

definition verify_preconditions ::
  "exec_config \<Rightarrow> rat \<Rightarrow> action_proposal \<Rightarrow> policy_decision \<Rightarrow> ('l exec_state, string) act" where
  "verify_preconditions C now p d s =
     (if pd_result d \<noteq> Policy_APPROVED
      then (raise PolicyViolationError ''Execution rejected: decision is not APPROVED'', s)
      else case pd_authorization_token d of
        None \<Rightarrow> (raise UnauthorizedActionError ''Execution rejected: Missing authorization token'', s)
      | Some token \<Rightarrow>
          if token = [] then (raise UnauthorizedActionError ''Execution rejected: Missing authorization token'', s)
          else if token \<in> xs_consumed_tokens s
          then (raise UnauthorizedActionError ''Execution rejected: Token has already been consumed (replay attack detected)'', s)
          else if \<not> fst (verify_token (xc_prims C) (xc_loads C) (xc_engine C) token p (xs_org s) (Some d) now)
          then (raise UnauthorizedActionError ''Execution rejected'', s)
          else (case enforce_agent_capability p (xs_org s) of Inl x \<Rightarrow> (Inl x, s) | Inr _ \<Rightarrow> (Inr token, s)))"

definition journal_consume ::
  "exec_config \<Rightarrow> env \<Rightarrow> string \<Rightarrow> action_proposal \<Rightarrow> policy_decision \<Rightarrow> organisation \<Rightarrow> token_table \<Rightarrow>
     token_table result" where
  "journal_consume C E token p d g T =
     bind_result (claims_from_b64 (xc_prims C) (xc_loads C) (py_split (CHR ''.'') token ! 1)) (\<lambda>c.
       case consume_token E T (tc_nonce c) (og_id g) (pr_id p) (get_content_hash (xc_prims C) p) (pd_id d)
              (tc_policy_version_hash c) (sha256 (xc_prims C) token) of
         Inl x \<Rightarrow> if exc_kind x = TokenAlreadyConsumed
           then raise UnauthorizedActionError ''Execution rejected: Token has already been consumed (durable replay barrier)''
           else Inl x
       | Inr T' \<Rightarrow> Inr T')"

definition mark_token_consumed ::
  "exec_config \<Rightarrow> env \<Rightarrow> string \<Rightarrow> action_proposal \<Rightarrow> policy_decision \<Rightarrow> ('l exec_state, unit) act" where
  "mark_token_consumed C E token p d s =
     (if token \<in> xs_consumed_tokens s
      then (raise UnauthorizedActionError ''Execution rejected: Token has already been consumed (replay attack detected)'', s)
      else case xs_token_journal s of
        None \<Rightarrow> (Inr (), s\<lparr>xs_consumed_tokens := insert token (xs_consumed_tokens s)\<rparr>)
      | Some T \<Rightarrow> (case journal_consume C E token p d (xs_org s) T of
            Inl x \<Rightarrow> (Inl x, s)
          | Inr T' \<Rightarrow> (Inr (), s\<lparr>xs_token_journal := Some T',
                          xs_consumed_tokens := insert token (xs_consumed_tokens s)\<rparr>)))"

text \<open>\<open>self.ledger.transfer(..)\<close> followed by the refresh of \<open>org.treasury_balance\<close>.\<close>

definition ledger_move ::
  "'l ledger_ops \<Rightarrow> env \<Rightarrow> string \<Rightarrow> string \<Rightarrow> int \<Rightarrow> string \<Rightarrow> string \<Rightarrow> ('l exec_state, unit) act" where
  "ledger_move ops E f t n memo tx s =
     (case lo_transfer ops E (xs_ledger s) f t n memo (Some tx) of
        Inl x \<Rightarrow> (Inl x, s)
      | Inr (e, L) \<Rightarrow> (Inr (), s\<lparr>xs_ledger := L,
            xs_org := (xs_org s)\<lparr>og_treasury_balance := lo_get_balance ops L TREASURY\<rparr>\<rparr>))"

definition token_tx :: "prims \<Rightarrow> string \<Rightarrow> string \<Rightarrow> string" where
  "token_tx P pre token = pre @ take 16 (sha256 P token)"

definition settle_ledger_fee ::
  "'l ledger_ops \<Rightarrow> prims \<Rightarrow> env \<Rightarrow> action_proposal \<Rightarrow> string \<Rightarrow> ('l exec_state, unit) act" where
  "settle_ledger_fee ops P E p token =
     (if pr_requested_credits p > 0
      then ledger_move ops E TREASURY EXTERNAL_SINK (pr_requested_credits p) ''Execution fee for proposal''
             (token_tx P ''tx-'' token)
      else act_return ())"

definition reserve_credits ::
  "'l ledger_ops \<Rightarrow> prims \<Rightarrow> env \<Rightarrow> action_proposal \<Rightarrow> string \<Rightarrow> ('l exec_state, unit) act" where
  "reserve_credits ops P E p token =
     (if pr_requested_credits p > 0
      then ledger_move ops E TREASURY ESCROW (pr_requested_credits p) ''Escrow reservation for proposal''
             (token_tx P ''res-'' token)
      else act_return ())"

definition commit_reservation ::
  "'l ledger_ops \<Rightarrow> prims \<Rightarrow> env \<Rightarrow> action_proposal \<Rightarrow> string \<Rightarrow> ('l exec_state, unit) act" where
  "commit_reservation ops P E p token =
     (if pr_requested_credits p > 0
      then ledger_move ops E ESCROW EXTERNAL_SINK (pr_requested_credits p) ''Settlement commit for proposal''
             (token_tx P ''tx-'' token)
      else act_return ())"

definition rollback_reservation ::
  "'l ledger_ops \<Rightarrow> prims \<Rightarrow> env \<Rightarrow> action_proposal \<Rightarrow> string \<Rightarrow> ('l exec_state, unit) act" where
  "rollback_reservation ops P E p token =
     (if pr_requested_credits p > 0
      then ledger_move ops E ESCROW TREASURY (pr_requested_credits p) ''Escrow rollback for failed proposal''
             (token_tx P ''rollback-'' token)
      else act_return ())"

section \<open>SandboxExecutor\<close>

definition mk_receipt ::
  "prims \<Rightarrow> env \<Rightarrow> action_proposal \<Rightarrow> string \<Rightarrow> int \<Rightarrow> (string \<times> json) list \<Rightarrow> execution_receipt" where
  "mk_receipt P E p token status output = \<lparr>rc_id = e_uuid E 0, rc_proposal_id = pr_id p,
     rc_authorization_token = token, rc_action_type = pr_action_type p, rc_target = pr_target p,
     rc_http_status = Some status, rc_raw_response_hash = sha256 P (canonical_json P (JObj output)),
     rc_raw_output = output, rc_cost_credits = pr_requested_credits p, rc_executed_at = e_now E 0\<rparr>"

definition sandbox_execute ::
  "'l ledger_ops \<Rightarrow> exec_config \<Rightarrow> env \<Rightarrow> rat \<Rightarrow> action_proposal \<Rightarrow> policy_decision \<Rightarrow>
     ('l exec_state, execution_receipt) act" where
  "sandbox_execute ops C E now p d =
     act_bind (verify_preconditions C now p d) (\<lambda>token.
     act_bind (mark_token_consumed C (env_skip 1 E) token p d) (\<lambda>_.
     act_bind (settle_ledger_fee ops (xc_prims C) (env_skip 2 E) p token) (\<lambda>_.
       act_return (mk_receipt (xc_prims C) E p token 200
         [(''status'', JStr ''SUCCESS''), (''target'', JStr (pr_target p)),
          (''action_type'', JStr (action_value (pr_action_type p))),
          (''simulated_value'', JFloat (py_round2
             (of_int (pr_requested_credits p) * pr_expected_value_score p * (3/2)))),
          (''executed_parameters'', JObj (pr_parameters p))]))))"

section \<open>ControlledExternalExecutor\<close>

text \<open>The network as the executor sees it: URL parsing, address classification, DNS, HTTP.\<close>

datatype http_result =
    Http_timeout
  | Http_request_error
  | Http_response (hr_status: int) (hr_is_redirect: bool) (hr_location: "string option")
      (hr_content_length: int) (hr_json: "(string \<times> json) list option") (hr_text: string)

record net_env =
  ne_scheme :: "string \<Rightarrow> string"
  ne_hostname :: "string \<Rightarrow> string option"
  ne_urljoin :: "string \<Rightarrow> string \<Rightarrow> string"
  ne_ip_address :: "string \<Rightarrow> string option"
  ne_ip_restricted :: "string \<Rightarrow> bool"
  ne_getaddrinfo :: "string \<Rightarrow> string list option"
  ne_http :: "string \<Rightarrow> string \<Rightarrow> (string \<times> json) list \<Rightarrow> http_result"
  ne_json_size :: "(string \<times> json) list \<Rightarrow> int"

type_synonym mock_handler = "string \<Rightarrow> (string \<times> json) list \<Rightarrow> (int \<times> (string \<times> json) list) result"

record external_config = exec_config +
  xe_allowlist :: "string list"
  xe_max_payload_bytes :: int
  xe_mock_handler :: "mock_handler option"
  xe_allow_redirects :: bool

definition DEFAULT_ALLOWLIST :: "string list" where
  "DEFAULT_ALLOWLIST = [''api://market_data/v1/summary'', ''sandbox://market_index_fund'',
     ''sandbox://verified_bonds'', ''https://api.github.com/repos/'', ''https://httpbin.org/get'',
     ''https://api.coingecko.com/api/v3/simple/price'']"

definition strip_brackets :: "string \<Rightarrow> string" where
  "strip_brackets s = (let b = (\<lambda>c. c = CHR ''['' \<or> c = CHR '']'') in
     rev (dropWhile b (rev (dropWhile b s))))"

definition resolve_and_validate_host :: "net_env \<Rightarrow> string \<Rightarrow> string list result" where
  "resolve_and_validate_host N host =
     (case ne_ip_address N (strip_brackets host) of
        Some ip \<Rightarrow> if ne_ip_restricted N ip
          then raise UnauthorizedActionError ''SSRF blocked: Direct IP is in a restricted/private network range''
          else Inr [ip]
      | None \<Rightarrow> (case ne_getaddrinfo N host of
            None \<Rightarrow> raise UnauthorizedActionError ''SSRF check failed: DNS resolution error''
          | Some ips \<Rightarrow>
              if list_ex (ne_ip_restricted N) ips
              then raise UnauthorizedActionError ''SSRF blocked: Host resolved to restricted IP''
              else if ips = [] then raise UnauthorizedActionError ''SSRF check failed: No valid IP addresses resolved''
              else Inr ips))"

definition validate_outbound_target :: "net_env \<Rightarrow> string list \<Rightarrow> string \<Rightarrow> unit result" where
  "validate_outbound_target N allowlist target =
     (if \<not> list_ex (\<lambda>item. target = item \<or> prefix item target) allowlist
      then raise UnauthorizedActionError ''External execution rejected: Target is not in the outbound allowlist''
      else if ne_scheme N target \<in> {''http'', ''https''}
      then let host = (case ne_hostname N target of None \<Rightarrow> [] | Some h \<Rightarrow> h) in
        if host = [] then raise UnauthorizedActionError ''External execution rejected: Target has no hostname''
        else if py_lower host \<in> {''localhost'', ''0.0.0.0'', ''127.0.0.1'', ''::1''}
        then raise UnauthorizedActionError ''External execution rejected: Target points to forbidden loopback/localhost''
        else bind_result (resolve_and_validate_host N host) (\<lambda>_. Inr ())
      else Inr ())"

definition validate_request_payload :: "net_env \<Rightarrow> int \<Rightarrow> action_proposal \<Rightarrow> string result" where
  "validate_request_payload N max_bytes p =
     (if ne_json_size N (pr_parameters p) > max_bytes
      then raise UnauthorizedActionError ''Request payload size exceeds limit''
      else if pr_action_type p = EXTERNAL_API_CALL
      then (case dict_get (pr_parameters p) ''method'' (JStr ''POST'') of
          JStr m \<Rightarrow> if py_upper m \<notin> {''GET'', ''POST''}
            then raise UnauthorizedActionError ''HTTP method is not permitted for external execution (only GET, POST allowed)''
            else Inr (py_upper m)
        | _ \<Rightarrow> raise AttributeError ''object has no attribute 'upper' '')
      else Inr ''GET'')"

definition gateway_response :: "action_proposal \<Rightarrow> (string \<times> json) list" where
  "gateway_response p = [(''source'', JStr ''controlled_gateway''), (''route'', JStr (pr_target p)),
     (''data'', JObj [(''status'', JStr ''SUCCESS''), (''parameters'', JObj (pr_parameters p))]),
     (''value_metric'', JFloat (py_round2
        (of_int (pr_requested_credits p) * pr_expected_value_score p * (9/5))))]"

text \<open>
  \<open>_dispatch\<close>; each followed redirect is one more Python call, \<open>fuel\<close> the recursion limit of the
  interpreter.
\<close>

fun dispatch ::
  "nat \<Rightarrow> net_env \<Rightarrow> 'a external_config_scheme \<Rightarrow> action_proposal \<Rightarrow> string \<Rightarrow> (int \<times> (string \<times> json) list) result"
where
  "dispatch 0 N C p meth = raise RuntimeError ''maximum recursion depth exceeded''"
| "dispatch (Suc fuel) N C p meth =
     (case xe_mock_handler C of
        Some h \<Rightarrow> h (pr_target p) (pr_parameters p)
      | None \<Rightarrow>
          if starts_with_any [''api://'', ''sandbox://''] (pr_target p) then Inr (200, gateway_response p)
          else if meth \<notin> {''GET'', ''POST''}
          then raise UnauthorizedActionError ''Unsupported HTTP method''
          else (case ne_http N meth (pr_target p) (pr_parameters p) of
              Http_timeout \<Rightarrow> raise ExternalExecutionError ''External call timed out''
            | Http_request_error \<Rightarrow> raise ExternalExecutionError ''External connection failure''
            | Http_response status redirect loc len body text \<Rightarrow>
                let plain = (if len > xe_max_payload_bytes C
                  then raise ExternalExecutionError ''Response body length exceeds payload limit''
                  else Inr (status, case body of Some d \<Rightarrow> d | None \<Rightarrow> [(''raw_text'', JStr (take 2000 text))]))
                in if redirect \<and> py_truthy loc
                   then let target = ne_urljoin N (pr_target p) (the loc) in
                     bind_result (validate_outbound_target N (xe_allowlist C) target) (\<lambda>_.
                       if xe_allow_redirects C
                       then dispatch fuel N C (p\<lparr>pr_target := target\<rparr>) ''GET''
                       else raise UnauthorizedActionError ''SSRF boundary blocked redirect (allow_redirects=False)'')
                   else plain))"

text \<open>
  The part of \<open>execute\<close> inside \<open>try\<close>, given the outcome of \<open>_dispatch\<close>: size check, commit,
  receipt; and the handler, which rolls back and re-raises.
\<close>

definition external_settle ::
  "'l ledger_ops \<Rightarrow> 'a external_config_scheme \<Rightarrow> env \<Rightarrow> action_proposal \<Rightarrow> string \<Rightarrow>
     (int \<times> (string \<times> json) list) result \<Rightarrow> ('l exec_state, execution_receipt) act" where
  "external_settle ops C E p token outcome =
     (case outcome of
        Inl x \<Rightarrow> (\<lambda>s. (Inl x, s))
      | Inr (status, output) \<Rightarrow>
          if status \<ge> 400 then act_raise ExternalExecutionError ''External execution failed with HTTP error status''
          else if int (length (canonical_json (xc_prims C) (JObj output))) > xe_max_payload_bytes C
          then act_raise ExternalExecutionError ''Response payload size exceeds limit''
          else act_bind (commit_reservation ops (xc_prims C) (env_skip 4 E) p token) (\<lambda>_.
            act_return (mk_receipt (xc_prims C) E p token status output)))"

definition external_rollback ::
  "'l ledger_ops \<Rightarrow> 'a external_config_scheme \<Rightarrow> env \<Rightarrow> action_proposal \<Rightarrow> string \<Rightarrow> exc \<Rightarrow>
     ('l exec_state, execution_receipt) act" where
  "external_rollback ops C E p token x =
     act_bind (rollback_reservation ops (xc_prims C) (env_skip 6 E) p token) (\<lambda>_.
       if exc_kind x \<in> {UnauthorizedActionError, ExternalExecutionError} then (\<lambda>s. (Inl x, s))
       else act_raise ExternalExecutionError ''External execution dispatch failed'')"

definition external_try ::
  "'l ledger_ops \<Rightarrow> 'a external_config_scheme \<Rightarrow> env \<Rightarrow> action_proposal \<Rightarrow> string \<Rightarrow>
     (int \<times> (string \<times> json) list) result \<Rightarrow> ('l exec_state, execution_receipt) act" where
  "external_try ops C E p token outcome s =
     (case external_settle ops C E p token outcome s of
        (Inr r, s') \<Rightarrow> (Inr r, s')
      | (Inl x, s') \<Rightarrow> external_rollback ops C E p token x s')"

definition external_execute_with ::
  "'l ledger_ops \<Rightarrow> net_env \<Rightarrow> external_config \<Rightarrow>
     (action_proposal \<Rightarrow> string \<Rightarrow> (int \<times> (string \<times> json) list) result) \<Rightarrow>
     env \<Rightarrow> rat \<Rightarrow> action_proposal \<Rightarrow> policy_decision \<Rightarrow> ('l exec_state, execution_receipt) act" where
  "external_execute_with ops N C disp E now p d =
     act_bind (verify_preconditions (exec_config.truncate C) now p d) (\<lambda>token.
     act_bind (act_lift (validate_outbound_target N (xe_allowlist C) (pr_target p))) (\<lambda>_.
     act_bind (act_guard (pr_action_type p \<in> {EXTERNAL_API_CALL, DATA_FETCH, SIMULATED_ALLOCATION})
       UnauthorizedActionError ''External execution rejected: ActionType not allowed for external adapter'') (\<lambda>_.
     act_bind (act_lift (validate_request_payload N (xe_max_payload_bytes C) p)) (\<lambda>meth.
     act_bind (mark_token_consumed (exec_config.truncate C) (env_skip 1 E) token p d) (\<lambda>_.
     act_bind (reserve_credits ops (xc_prims C) (env_skip 2 E) p token) (\<lambda>_.
       external_try ops C E p token (disp p meth)))))))"

definition external_execute ::
  "'l ledger_ops \<Rightarrow> nat \<Rightarrow> net_env \<Rightarrow> external_config \<Rightarrow> env \<Rightarrow> rat \<Rightarrow> action_proposal \<Rightarrow> policy_decision \<Rightarrow>
     ('l exec_state, execution_receipt) act" where
  "external_execute ops fuel N C = external_execute_with ops N C (dispatch fuel N C)"

section \<open>durable\_executor.py\<close>

record 'l durable_state =
  ds_exec :: "'l exec_state"
  ds_journal :: "idem_table option"
  ds_receipts :: "execution_receipt list"

definition durable_dispatch ::
  "net_env \<Rightarrow> 'a external_config_scheme \<Rightarrow> action_proposal \<Rightarrow> string \<Rightarrow> (int \<times> (string \<times> json) list) result"
where
  "durable_dispatch N C p meth =
     (if xe_mock_handler C \<noteq> None \<or> starts_with_any [''api://'', ''sandbox://''] (pr_target p)
      then dispatch 1 N C p meth
      else if meth \<notin> {''GET'', ''POST''} then raise ExternalExecutionError ''Unsupported HTTP method''
      else (case ne_http N meth (pr_target p) (pr_parameters p) of
          Http_timeout \<Rightarrow> raise ExternalExecutionError ''External call timed out''
        | Http_request_error \<Rightarrow> raise ExternalExecutionError ''External connection failure''
        | Http_response status redirect loc len body text \<Rightarrow>
            if redirect then raise ExternalExecutionError ''Redirects are not permitted by the durable executor''
            else if len > xe_max_payload_bytes C
            then raise ExternalExecutionError ''External response exceeds configured payload limit''
            else Inr (status, case body of Some d \<Rightarrow> d | None \<Rightarrow> [(''raw_text'', JStr (take 2000 text))])))"

definition operation_key :: "action_proposal \<Rightarrow> organisation \<Rightarrow> string" where
  "operation_key p g = og_id g @ '':'' @ pr_id p"

definition durable_fingerprint :: "prims \<Rightarrow> action_proposal \<Rightarrow> organisation \<Rightarrow> string" where
  "durable_fingerprint P p g = sha256 P (canonical_json P (JObj
     [(''org_id'', JStr (og_id g)), (''proposal_id'', JStr (pr_id p)),
      (''action_type'', JStr (action_value (pr_action_type p))), (''target'', JStr (pr_target p)),
      (''parameters'', JObj (pr_parameters p)), (''requested_credits'', JInt (pr_requested_credits p))]))"

definition durable_execute ::
  "'l ledger_ops \<Rightarrow> net_env \<Rightarrow> external_config \<Rightarrow> env \<Rightarrow> rat \<Rightarrow> action_proposal \<Rightarrow> policy_decision \<Rightarrow>
     ('l durable_state, execution_receipt) act" where
  "durable_execute ops N C E now p d s =
     (let run = (\<lambda>st. external_execute_with ops N C (durable_dispatch N C) (env_skip 3 E) now p d st) in
      case ds_journal s of
        None \<Rightarrow> (case run (ds_exec s) of (r, st) \<Rightarrow> (r, s\<lparr>ds_exec := st\<rparr>))
      | Some J \<Rightarrow>
          let key = operation_key p (xs_org (ds_exec s));
              fp = durable_fingerprint (xc_prims C) p (xs_org (ds_exec s)) in
          (case idem_begin E J key fp of
             Inl x \<Rightarrow> if exc_kind x = IdempotencyInProgress
               then (raise ExternalExecutionError ''Operation is unresolved (STARTED); reconcile the external provider before retrying'', s)
               else (Inl x, s)
           | Inr (prior, J1) \<Rightarrow>
               if py_truthy prior
               then (case find (\<lambda>r. rc_id r = the prior) (ds_receipts s) of
                   None \<Rightarrow> (raise ExternalExecutionError ''Idempotency journal references a missing execution receipt'',
                              s\<lparr>ds_journal := Some J1\<rparr>)
                 | Some rc \<Rightarrow> (Inr rc, s\<lparr>ds_journal := Some J1\<rparr>))
               else (case run (ds_exec s) of
                   (Inr rc, st) \<Rightarrow>
                     (case idem_succeed (env_skip 1 E) J1 key fp (rc_id rc) of
                        Inr J2 \<Rightarrow> (Inr rc, s\<lparr>ds_exec := st, ds_journal := Some J2\<rparr>)
                      | Inl x \<Rightarrow> (case idem_fail (env_skip 2 E) J1 key fp of
                            Inr J3 \<Rightarrow> (Inl x, s\<lparr>ds_exec := st, ds_journal := Some J3\<rparr>)
                          | Inl y \<Rightarrow> (Inl y, s\<lparr>ds_exec := st, ds_journal := Some J1\<rparr>)))
                 | (Inl x, st) \<Rightarrow>
                     (case idem_fail (env_skip 2 E) J1 key fp of
                        Inr J3 \<Rightarrow> (Inl x, s\<lparr>ds_exec := st, ds_journal := Some J3\<rparr>)
                      | Inl y \<Rightarrow> (Inl y, s\<lparr>ds_exec := st, ds_journal := Some J1\<rparr>)))))"

section \<open>Ledger moves of an execution\<close>

definition ops_of :: "('l \<Rightarrow> string \<Rightarrow> int) \<Rightarrow> 'l post_fun \<Rightarrow> 'l ledger_ops" where
  "ops_of b t = \<lparr>lo_get_balance = b, lo_transfer = t\<rparr>"

lemma ledger_move_Inl: "ledger_move ops E f t n m tx s = (Inl x, s') \<Longrightarrow> s' = s"
  by (auto simp: ledger_move_def split: sum.splits)

lemma ledger_move_frame [frame_simps]:
  "ledger_move ops E f t n m tx s = (r, s') \<Longrightarrow> xs_consumed_tokens s' = xs_consumed_tokens s \<and>
     xs_token_journal s' = xs_token_journal s"
  by (auto simp: ledger_move_def split: sum.splits)

lemma token_tx_distinct [simp]:
  "token_tx P ''res-'' t \<noteq> token_tx P ''tx-'' t" "token_tx P ''tx-'' t \<noteq> token_tx P ''res-'' t"
  "token_tx P ''res-'' t \<noteq> token_tx P ''rollback-'' t" "token_tx P ''rollback-'' t \<noteq> token_tx P ''res-'' t"
  "token_tx P ''tx-'' t \<noteq> token_tx P ''rollback-'' t" "token_tx P ''rollback-'' t \<noteq> token_tx P ''tx-'' t"
  by (simp_all add: token_tx_def)

lemma token_tx_nonempty [simp]: "token_tx P (c # cs) t \<noteq> []"
  by (simp add: token_tx_def)

lemma mark_token_ledger:
  "mark_token_consumed C E token p d s = (r, s') \<Longrightarrow> xs_ledger s' = xs_ledger s \<and> xs_org s' = xs_org s"
  by (auto simp: mark_token_consumed_def split: if_splits option.splits sum.splits)

lemma verify_preconditions_state: "verify_preconditions C now p d s = (r, s') \<Longrightarrow> s' = s"
  by (auto simp: verify_preconditions_def split: if_splits option.splits sum.splits)

lemma verify_preconditions_Inr:
  "verify_preconditions C now p d s = (Inr token, s') \<Longrightarrow>
     pd_result d = Policy_APPROVED \<and> pd_authorization_token d = Some token \<and> token \<noteq> [] \<and>
     token \<notin> xs_consumed_tokens s \<and>
     fst (verify_token (xc_prims C) (xc_loads C) (xc_engine C) token p (xs_org s) (Some d) now) \<and>
     enforce_agent_capability p (xs_org s) = Inr ()"
  by (auto simp: verify_preconditions_def split: if_splits option.splits sum.splits)

lemma mark_token_Inl: "mark_token_consumed C E token p d s = (Inl x, s') \<Longrightarrow> s' = s"
  by (auto simp: mark_token_consumed_def split: if_splits option.splits sum.splits)

lemma reserve_credits_Inl: "reserve_credits ops P E p token s = (Inl x, s') \<Longrightarrow> s' = s"
  by (auto simp: reserve_credits_def act_return_def dest: ledger_move_Inl split: if_splits)

text \<open>An execution that changes the ledger, or succeeds, went through every stage.\<close>

lemma external_execute_stages:
  assumes "external_execute_with ops N C disp E now p d s = (res, s')"
    and "pd_authorization_token d = Some token"
  shows "(xs_ledger s' = xs_ledger s \<and> isl res) \<or>
     (\<exists>s1 s2 meth. mark_token_consumed (exec_config.truncate C) (env_skip 1 E) token p d s = (Inr (), s1) \<and>
        reserve_credits ops (xc_prims C) (env_skip 2 E) p token s1 = (Inr (), s2) \<and>
        external_try ops C E p token (disp p meth) s2 = (res, s'))"
proof (cases "verify_preconditions (exec_config.truncate C) now p d s")
  case (Pair r0 s0)
  have s0: "s0 = s" using verify_preconditions_state [OF Pair] .
  show ?thesis
  proof (cases r0)
    case (Inr t)
    have t: "t = token" using verify_preconditions_Inr Pair Inr assms(2) by fastforce
    show ?thesis
      using assms(1) Pair Inr s0 t unfolding external_execute_with_def
      by (auto simp: act_bind_def act_simps dest!: mark_token_Inl reserve_credits_Inl
          dest: mark_token_ledger split: prod.splits sum.splits if_splits)
  qed (use assms(1) Pair s0 in \<open>auto simp: external_execute_with_def act_bind_def\<close>)
qed

text \<open>A ledger whose guarded transfers are always accepted (no unique row ids to collide with).\<close>

locale total_ledger = ledger_api +
  assumes ids_fresh: "new_ids s E"
begin

lemma move_Inr:
  assumes "inv (xs_ledger s)" "tx \<noteq> []" "ledger_move (ops_of bal post) E f t n m tx s = (Inr (), s')"
  shows "inv (xs_ledger s') \<and> 0 < n \<and> f \<noteq> t \<and> n \<le> bal (xs_ledger s) f \<and>
     (\<forall>a. bal (xs_ledger s') a = bal (xs_ledger s) a + (if a = t then n else 0) - (if a = f then n else 0)) \<and>
     (\<forall>x. known (xs_ledger s') x \<longleftrightarrow> x = tx \<or> known (xs_ledger s) x) \<and>
     og_treasury_balance (xs_org s') = bal (xs_ledger s') TREASURY"
proof -
  obtain e L where run: "post E (xs_ledger s) f t n m (Some tx) = Inr (e, L)" and s': "xs_ledger s' = L"
      "og_treasury_balance (xs_org s') = bal L TREASURY"
    using assms(3) by (auto simp: ledger_move_def ops_of_def split: sum.splits)
  have "le_transaction_id e = tx" using post_tx [OF assms(1) run assms(2)] .
  then show ?thesis
    using post_guards [OF assms(1) run] post_bal [OF assms(1) run] post_inv [OF assms(1) run]
      post_known [OF assms(1) run] s' by simp
qed

lemma move_accepts:
  assumes "inv (xs_ledger s)" "tx \<noteq> []" "\<not> known (xs_ledger s) tx" "0 < n" "f \<noteq> t"
    and "n \<le> bal (xs_ledger s) f"
  shows "\<exists>s'. ledger_move (ops_of bal post) E f t n m tx s = (Inr (), s')"
proof -
  obtain e L where "post E (xs_ledger s) f t n m (Some tx) = Inr (e, L)"
    using post_accepts [OF assms(1) ids_fresh assms(2-6)] by blast
  then show ?thesis by (simp add: ledger_move_def ops_of_def)
qed

text \<open>What is left of an execution after its reservation succeeded.\<close>

lemma settle_or_rollback:
  assumes "inv (xs_ledger s)" "0 < pr_requested_credits p" "pr_requested_credits p \<le> bal (xs_ledger s) ESCROW"
    and "\<not> known (xs_ledger s) (token_tx (xc_prims C) ''tx-'' token)"
    and "\<not> known (xs_ledger s) (token_tx (xc_prims C) ''rollback-'' token)"
    and "external_try (ops_of bal post) C E p token out s = (res, s')"
  shows "inv (xs_ledger s') \<and> (\<forall>a. bal (xs_ledger s') a = bal (xs_ledger s) a
     - (if a = ESCROW then pr_requested_credits p else 0)
     + (if a = (if isl res then TREASURY else EXTERNAL_SINK) then pr_requested_credits p else 0))"
proof (cases "external_settle (ops_of bal post) C E p token out s")
  case (Pair r s1)
  let ?n = "pr_requested_credits p"
  show ?thesis
  proof (cases r)
    case (Inr rc)
    have "ledger_move (ops_of bal post) (env_skip 4 E) ESCROW EXTERNAL_SINK ?n
        ''Settlement commit for proposal'' (token_tx (xc_prims C) ''tx-'' token) s = (Inr (), s1)"
      using Pair Inr assms(2)
      by (auto simp: external_settle_def commit_reservation_def act_bind_eq_Inr act_simps
          split: sum.splits if_splits)
    from move_Inr [OF assms(1) _ this] show ?thesis using assms(6) Pair Inr by (auto simp: external_try_def)
  next
    case (Inl x)
    have s1: "s1 = s"
    proof -
      have "\<And>s2 y. ledger_move (ops_of bal post) (env_skip 4 E) ESCROW EXTERNAL_SINK ?n
        ''Settlement commit for proposal'' (token_tx (xc_prims C) ''tx-'' token) s = (Inl y, s2) \<Longrightarrow> s2 = s"
        by (rule ledger_move_Inl)
      then show ?thesis using Pair Inl assms(2)
        by (auto simp: external_settle_def commit_reservation_def act_bind_eq_Inl act_simps
            split: sum.splits if_splits)
    qed
    obtain s2 where mv: "ledger_move (ops_of bal post) (env_skip 6 E) ESCROW TREASURY ?n
        ''Escrow rollback for failed proposal'' (token_tx (xc_prims C) ''rollback-'' token) s = (Inr (), s2)"
      using move_accepts assms(1,2,3,5) by (metis accounts_distinct(2) token_tx_nonempty)
    then have "external_rollback (ops_of bal post) C E p token x s = (res, s')"
      using assms(6) Pair Inl s1 by (simp add: external_try_def)
    then have "s' = s2 \<and> isl res" using mv assms(2)
      by (auto simp: external_rollback_def rollback_reservation_def act_bind_def act_simps
          split: if_splits)
    then show ?thesis using move_Inr [OF assms(1) _ mv] by auto
  qed
qed

lemma free_settle:
  assumes "\<not> 0 < pr_requested_credits p"
    and "external_try ops C E p token out s = (res, s')"
  shows "s' = s"
  using assms
  by (auto simp: external_try_def external_settle_def external_rollback_def commit_reservation_def
      rollback_reservation_def act_simps act_bind_def split: sum.splits if_splits prod.splits)

lemma external_all_or_nothing:
  assumes "inv (xs_ledger s)" "0 \<le> bal (xs_ledger s) ESCROW"
    and "pd_authorization_token d = Some token"
    and "\<And>pre. pre \<in> {''res-'', ''tx-'', ''rollback-''} \<Longrightarrow>
           \<not> known (xs_ledger s) (token_tx (xc_prims C) pre token)"
    and run: "external_execute_with (ops_of bal post) N C disp E now p d s = (res, s')"
  defines "n \<equiv> (if isl res then 0 else max 0 (pr_requested_credits p))"
  shows "inv (xs_ledger s') \<and> (\<forall>a. bal (xs_ledger s') a = bal (xs_ledger s) a
     + (if a = EXTERNAL_SINK then n else 0) - (if a = TREASURY then n else 0))"
proof (cases "xs_ledger s' = xs_ledger s \<and> isl res")
  case True
  then show ?thesis using assms(1) by (simp add: n_def)
next
  case False
  let ?P = "xc_prims C" and ?k = "pr_requested_credits p"
  obtain s1 s2 meth where mark: "mark_token_consumed (exec_config.truncate C) (env_skip 1 E) token p d s = (Inr (), s1)"
    and res: "reserve_credits (ops_of bal post) ?P (env_skip 2 E) p token s1 = (Inr (), s2)"
    and fin: "external_try (ops_of bal post) C E p token (disp p meth) s2 = (res, s')"
    using external_execute_stages [OF run assms(3)] False by blast
  have s1: "xs_ledger s1 = xs_ledger s" using mark_token_ledger [OF mark] by simp
  show ?thesis
  proof (cases "0 < ?k")
    case True
    then have mv: "ledger_move (ops_of bal post) (env_skip 2 E) TREASURY ESCROW ?k
        ''Escrow reservation for proposal'' (token_tx ?P ''res-'' token) s1 = (Inr (), s2)"
      using res by (simp add: reserve_credits_def)
    note m = move_Inr [OF _ _ mv, unfolded s1, OF assms(1)]
    have "?k \<le> bal (xs_ledger s2) ESCROW" using m assms(2) by simp
    moreover have "\<not> known (xs_ledger s2) (token_tx ?P ''tx-'' token)"
        "\<not> known (xs_ledger s2) (token_tx ?P ''rollback-'' token)"
      using m assms(4) by simp_all
    ultimately have "inv (xs_ledger s') \<and> (\<forall>a. bal (xs_ledger s') a = bal (xs_ledger s2) a
       - (if a = ESCROW then ?k else 0) + (if a = (if isl res then TREASURY else EXTERNAL_SINK) then ?k else 0))"
      using settle_or_rollback [OF _ True _ _ _ fin] m by simp
    then show ?thesis using m True by (auto simp: n_def)
  next
    case False
    then have "s2 = s1" using res by (simp add: reserve_credits_def act_return_def)
    moreover have "s' = s2" using free_settle [OF False fin] .
    ultimately show ?thesis using s1 assms(1) False by (simp add: n_def)
  qed
qed

end

interpretation mem_total: total_ledger ledger_inv get_balance "\<lambda>L x. x \<in> lg_recorded_tx_ids L" transfer
  "\<lambda>L E. True"
  by unfold_locales simp

definition mem_ops :: "ledger ledger_ops" where
  "mem_ops = ops_of get_balance transfer"


definition demo_net :: net_env where
  "demo_net = \<lparr>ne_scheme = (\<lambda>u. ''api''), ne_hostname = (\<lambda>u. None), ne_urljoin = (\<lambda>b u. u),
     ne_ip_address = (\<lambda>h. None), ne_ip_restricted = (\<lambda>i. False), ne_getaddrinfo = (\<lambda>h. None),
     ne_http = (\<lambda>m u p. Http_timeout), ne_json_size = (\<lambda>p. 2)\<rparr>"

definition codec_engine :: policy_engine where
  "codec_engine = default_engine codec_prims 40 (Some ''secret'') 60 demo_env"

definition demo_external_config :: external_config where
  "demo_external_config = \<lparr>xc_prims = codec_prims, xc_loads = codec_loads, xc_engine = codec_engine,
     xe_allowlist = DEFAULT_ALLOWLIST, xe_max_payload_bytes = 65536,
     xe_mock_handler = Some (\<lambda>t p. Inr (503, [])), xe_allow_redirects = False\<rparr>"

definition demo_exec_state :: "token_table option \<Rightarrow> ledger exec_state" where
  "demo_exec_state J = \<lparr>xs_ledger = demo_ledger, xs_consumed_tokens = {}, xs_token_journal = J,
     xs_org = demo_org\<rparr>"

text \<open>The approved demonstration proposal, with its token, passes the preconditions.\<close>

lemma demo_decision:
  "\<exists>d token. evaluate codec_prims demo_env 0 codec_engine demo_proposal demo_org (Some 100) = Inr d \<and>
     pd_result d = Policy_APPROVED \<and> pd_authorization_token d = Some token \<and> token \<noteq> [] \<and>
     token = generate_token codec_prims demo_env 0 codec_engine demo_proposal demo_org (Some (pd_id d)) None \<and>
     (\<forall>J. verify_preconditions (exec_config.truncate demo_external_config) 30 demo_proposal d (demo_exec_state J)
        = (Inr token, demo_exec_state J))"
proof -
  have keys: "pe_sign codec_engine = hmac_sign codec_prims ''secret''"
      "pe_verify codec_engine = hmac_verify codec_prims ''secret''" "pe_token_ttl_seconds codec_engine = 60"
    by (simp_all add: codec_engine_def default_engine_def mk_policy_engine_def Let_def)
  have id: "CHR ''.'' \<notin> set (take 8 (pr_id demo_proposal))" by (simp add: demo_proposal_def)
  obtain d where d: "evaluate codec_prims demo_env 0 codec_engine demo_proposal demo_org (Some 100) = Inr d"
      "pd_result d = Policy_APPROVED"
    unfolding codec_engine_def using demo_approves by blast
  note facts = evaluate_cases [OF d(1)]
  define token where "token = generate_token codec_prims demo_env 0 codec_engine demo_proposal demo_org
    (Some (pd_id d)) None"
  have t: "pd_authorization_token d = Some token" using facts d(2) by (simp add: token_def)
  have ne: "token \<noteq> []" by (simp add: token_def generate_token_def Let_def)
  have "(30::rat) \<le> py_round3 60" by (simp add: py_round3_def round_half_even_def Let_def)
  then have "fst (verify_token codec_prims codec_loads codec_engine token demo_proposal demo_org (Some d) 30)"
    using verify_generated [OF codec_prims_ok id keys(1,2)] facts keys(3)
    by (simp add: token_def demo_org_def)
  moreover have "enforce_agent_capability demo_proposal demo_org = Inr ()"
    by (simp add: enforce_agent_capability_def demo_proposal_def demo_org_def demo_agent_def)
  ultimately have "verify_preconditions (exec_config.truncate demo_external_config) 30 demo_proposal d
      (demo_exec_state J) = (Inr token, demo_exec_state J)" for J
    using d(2) t ne by (simp add: verify_preconditions_def demo_exec_state_def demo_external_config_def
        exec_config.truncate_def)
  then show ?thesis using d t ne token_def by blast
qed


section \<open>Single use\<close>

text \<open>The signed part of a token, and the executions an executor performs.\<close>

definition token_claims_part :: "string \<Rightarrow> string" where
  "token_claims_part token = py_split (CHR ''.'') token ! 1"

inductive execution ::
  "'l ledger_ops \<Rightarrow> external_config \<Rightarrow> string \<Rightarrow> 'l exec_state \<Rightarrow> execution_receipt result \<Rightarrow> 'l exec_state \<Rightarrow> bool"
  for ops C token where
  exec_sandbox: "pd_authorization_token d = Some token \<Longrightarrow>
     sandbox_execute ops (exec_config.truncate C) E now p d s = (r, s') \<Longrightarrow> execution ops C token s r s'"
| exec_external: "pd_authorization_token d = Some token \<Longrightarrow>
     external_execute ops fuel N C E now p d s = (r, s') \<Longrightarrow> execution ops C token s r s'"

inductive executions :: "'l ledger_ops \<Rightarrow> external_config \<Rightarrow> 'l exec_state \<Rightarrow> 'l exec_state \<Rightarrow> bool"
  for ops C where
  execs_refl: "executions ops C s s"
| execs_step: "executions ops C s s1 \<Longrightarrow> execution ops C token s1 r s2 \<Longrightarrow> executions ops C s s2"

text \<open>What \<open>mark_token_consumed\<close> does to the journal.\<close>

definition journal_has :: "exec_config \<Rightarrow> string \<Rightarrow> 'l exec_state \<Rightarrow> bool" where
  "journal_has C token s \<longleftrightarrow> (\<exists>T c. xs_token_journal s = Some T \<and>
     claims_from_b64 (xc_prims C) (xc_loads C) (token_claims_part token) = Inr c \<and> is_consumed T (tc_nonce c))"

definition journal_le :: "'l exec_state \<Rightarrow> 'l exec_state \<Rightarrow> bool" where
  "journal_le s s' \<longleftrightarrow> (\<forall>T. xs_token_journal s = Some T \<longrightarrow>
     (\<exists>T'. xs_token_journal s' = Some T' \<and> set T \<subseteq> set T'))"

lemma journal_le_refl [simp]: "journal_le s s"
  by (simp add: journal_le_def)

lemma journal_le_same: "xs_token_journal s' = xs_token_journal s \<Longrightarrow> journal_le s s'"
  by (simp add: journal_le_def)

lemma journal_le_trans: "journal_le s s' \<Longrightarrow> journal_le s' s'' \<Longrightarrow> journal_le s s''"
  by (fastforce simp: journal_le_def)

lemma journal_has_mono: "journal_has C token s \<Longrightarrow> journal_le s s' \<Longrightarrow> journal_has C token s'"
  by (fastforce simp: journal_has_def journal_le_def is_consumed_def)

lemma mark_token_journal:
  assumes "mark_token_consumed C E token p d s = (r, s')"
  shows "journal_le s s' \<and> (r = Inr () \<longrightarrow> xs_token_journal s \<noteq> None \<longrightarrow>
     \<not> journal_has C token s \<and> journal_has C token s')"
  using assms
  by (auto simp: mark_token_consumed_def journal_consume_def journal_le_def journal_has_def
      consume_token_def is_consumed_def token_claims_part_def bind_result_def
      split: if_splits option.splits sum.splits)

lemma moves_journal:
  "settle_ledger_fee ops P E p token s = (r, s') \<Longrightarrow> xs_token_journal s' = xs_token_journal s"
  "reserve_credits ops P E p token s = (r, s') \<Longrightarrow> xs_token_journal s' = xs_token_journal s"
  "commit_reservation ops P E p token s = (r, s') \<Longrightarrow> xs_token_journal s' = xs_token_journal s"
  "rollback_reservation ops P E p token s = (r, s') \<Longrightarrow> xs_token_journal s' = xs_token_journal s"
  using ledger_move_frame
  by (fastforce simp: settle_ledger_fee_def reserve_credits_def commit_reservation_def
      rollback_reservation_def act_return_def split: if_splits)+

lemma external_try_journal:
  "external_try ops C E p token out s = (r, s') \<Longrightarrow> xs_token_journal s' = xs_token_journal s"
  by (auto simp: external_try_def external_settle_def external_rollback_def act_bind_def act_simps
      dest!: moves_journal split: sum.splits prod.splits if_splits)

lemma sandbox_stages:
  assumes "sandbox_execute ops C E now p d s = (r, s')" "pd_authorization_token d = Some token"
  shows "(s' = s \<and> isl r) \<or> (\<exists>s1. mark_token_consumed C (env_skip 1 E) token p d s = (Inr (), s1) \<and>
     xs_token_journal s' = xs_token_journal s1)"
proof (cases "verify_preconditions C now p d s")
  case (Pair r0 s0)
  have s0: "s0 = s" using verify_preconditions_state [OF Pair] .
  show ?thesis
  proof (cases r0)
    case (Inr t)
    have t: "t = token" using verify_preconditions_Inr Pair Inr assms(2) by fastforce
    show ?thesis
      using assms(1) Pair Inr s0 t unfolding sandbox_execute_def
      by (auto simp: act_bind_def act_simps dest!: mark_token_Inl moves_journal
          split: prod.splits sum.splits)
  qed (use assms(1) Pair s0 in \<open>auto simp: sandbox_execute_def act_bind_def\<close>)
qed

lemma external_stages_journal:
  assumes "external_execute_with ops N C disp E now p d s = (r, s')"
    and "pd_authorization_token d = Some token"
  shows "(xs_token_journal s' = xs_token_journal s \<and> isl r) \<or>
     (\<exists>s1. mark_token_consumed (exec_config.truncate C) (env_skip 1 E) token p d s = (Inr (), s1) \<and>
        xs_token_journal s' = xs_token_journal s1)"
proof (cases "verify_preconditions (exec_config.truncate C) now p d s")
  case (Pair r0 s0)
  have s0: "s0 = s" using verify_preconditions_state [OF Pair] .
  show ?thesis
  proof (cases r0)
    case (Inr t)
    have t: "t = token" using verify_preconditions_Inr Pair Inr assms(2) by fastforce
    show ?thesis
      using assms(1) Pair Inr s0 t unfolding external_execute_with_def
      by (auto simp: act_bind_def act_simps dest!: mark_token_Inl
          moves_journal external_try_journal split: prod.splits sum.splits if_splits)
  qed (use assms(1) Pair s0 in \<open>auto simp: external_execute_with_def act_bind_def\<close>)
qed

lemma execution_journal:
  assumes "execution ops C token s r s'"
  shows "journal_le s s' \<and> (\<not> isl r \<longrightarrow> xs_token_journal s \<noteq> None \<longrightarrow>
     \<not> journal_has (exec_config.truncate C) token s \<and> journal_has (exec_config.truncate C) token s')"
proof -
  have "(xs_token_journal s' = xs_token_journal s \<and> isl r) \<or>
     (\<exists>E p d s1. mark_token_consumed (exec_config.truncate C) (env_skip 1 E) token p d s = (Inr (), s1) \<and>
        xs_token_journal s' = xs_token_journal s1)"
    using assms
  proof cases
    case (exec_sandbox d E now p)
    from sandbox_stages [OF this(2,1)] show ?thesis by blast
  next
    case (exec_external d fuel N E now p)
    from external_stages_journal [OF this(2) [unfolded external_execute_def] this(1)] show ?thesis by blast
  qed
  then show ?thesis
  proof (elim disjE exE conjE)
    fix E p d s1
    assume m: "mark_token_consumed (exec_config.truncate C) (env_skip 1 E) token p d s = (Inr (), s1)"
      "xs_token_journal s' = xs_token_journal s1"
    with mark_token_journal [OF m(1)] show ?thesis
      by (simp add: journal_le_def journal_has_def)
  qed (simp add: journal_le_same)
qed

lemma executions_journal: "executions ops C s s' \<Longrightarrow> journal_le s s'"
proof (induction rule: executions.induct)
  case (execs_step s s1 token r s2)
  from execution_journal [OF execs_step.hyps(2)] have "journal_le s1 s2" by blast
  with execs_step.IH show ?case by (rule journal_le_trans)
qed simp

text \<open>
  C24: an authorization executes at most once.  With the durable journal, once an execution (sandbox or
  external) under a token succeeded, every later execution under a token with the same signed
  part fails, whatever its unsigned prefix, proposal, time or network, and after any
  executions in between.
\<close>

theorem authorization_single_use:
  assumes "execution ops C token s r s1" "\<not> isl r" "xs_token_journal s \<noteq> None"
    and "executions ops C s1 s2" "execution ops C token' s2 r' s3"
    and "token_claims_part token' = token_claims_part token"
  shows "isl r'"
proof (rule ccontr)
  assume "\<not> isl r'"
  have "journal_has (exec_config.truncate C) token s1" using execution_journal [OF assms(1)] assms(2,3) by blast
  then have "journal_has (exec_config.truncate C) token s2"
    using executions_journal [OF assms(4)] journal_has_mono by blast
  then have "journal_has (exec_config.truncate C) token' s2" "xs_token_journal s2 \<noteq> None"
    using assms(6) by (auto simp: journal_has_def)
  with execution_journal [OF assms(5)] \<open>\<not> isl r'\<close> show False by blast
qed

lemma demo_sandbox_runs:
  "\<exists>d token rc s1. pd_authorization_token d = Some token \<and>
     (\<exists>b64 sg. token = ''AUTH-prop-000'' @ ''.'' @ b64 @ ''.'' @ sg) \<and>
     sandbox_execute mem_ops (exec_config.truncate demo_external_config) demo_env 30 demo_proposal d
       (demo_exec_state J) = (Inr rc, s1)"
  if "J \<in> {None, Some []}"
proof -
  obtain d token where d: "pd_authorization_token d = Some token"
    and t: "token = generate_token codec_prims demo_env 0 codec_engine demo_proposal demo_org (Some (pd_id d)) None"
    and pre: "\<And>J. verify_preconditions (exec_config.truncate demo_external_config) 30 demo_proposal d
        (demo_exec_state J) = (Inr token, demo_exec_state J)"
    using demo_decision by blast
  have keys: "pe_sign codec_engine = hmac_sign codec_prims ''secret''"
    by (simp add: codec_engine_def default_engine_def mk_policy_engine_def Let_def)
  have form: "\<exists>b64 sg. token = ''AUTH-prop-000'' @ ''.'' @ b64 @ ''.'' @ sg"
    by (auto simp: t generate_token_def Let_def demo_proposal_def)
  have split: "py_split (CHR ''.'') token ! 1 = claims_to_b64 codec_prims
      (token_claims_for codec_prims demo_env 0 codec_engine demo_proposal demo_org (Some (pd_id d)) None)"
    using token_split [OF codec_prims_ok _ keys, of demo_proposal demo_env 0 demo_org "Some (pd_id d)" None]
    by (simp_all add: t demo_proposal_def)
  have nonce: "tc_nonce (stored_claims (token_claims_for codec_prims demo_env 0 codec_engine demo_proposal
      demo_org (Some (pd_id d)) None)) = ''uu''"
    by (simp add: stored_claims_def token_claims_for_def Let_def demo_env_def numeral_2_eq_2)
  have "\<exists>J'. mark_token_consumed (exec_config.truncate demo_external_config) (env_skip 1 demo_env) token
      demo_proposal d (demo_exec_state J) = (Inr (), (demo_exec_state J')\<lparr>xs_consumed_tokens := {token}\<rparr>)"
    using that
    by (auto simp: mark_token_consumed_def journal_consume_def split [unfolded One_nat_def]
        claims_roundtrip [OF codec_prims_ok]
        demo_external_config_def exec_config.truncate_def demo_exec_state_def consume_token_def nonce)
  then obtain J' where mark: "mark_token_consumed (exec_config.truncate demo_external_config)
      (env_skip 1 demo_env) token demo_proposal d (demo_exec_state J)
      = (Inr (), (demo_exec_state J')\<lparr>xs_consumed_tokens := {token}\<rparr>)" by blast
  have "\<exists>s2. settle_ledger_fee mem_ops (xc_prims (exec_config.truncate demo_external_config))
      (env_skip 2 demo_env) demo_proposal token ((demo_exec_state J')\<lparr>xs_consumed_tokens := {token}\<rparr>) = (Inr (), s2)"
    by (simp add: settle_ledger_fee_def ledger_move_def mem_ops_def ops_of_def transfer_def token_tx_def
        mk_ledger_entry_def get_balance_def demo_exec_state_def demo_ledger_def demo_proposal_def Let_def
        account_defs)
  then have "\<exists>rc s1. sandbox_execute mem_ops (exec_config.truncate demo_external_config) demo_env 30
      demo_proposal d (demo_exec_state J) = (Inr rc, s1)"
    by (auto simp: sandbox_execute_def act_bind_def pre mark [unfolded One_nat_def] act_return_def)
  then show ?thesis using d form by blast
qed

theorem authorization_single_use_witness:
  "\<exists>token rc s1 r s2. execution mem_ops demo_external_config token (demo_exec_state (Some [])) (Inr rc) s1 \<and>
     execution mem_ops demo_external_config token s1 r s2 \<and> isl r"
proof -
  obtain d token rc s1 where d: "pd_authorization_token d = Some token"
    and run: "sandbox_execute mem_ops (exec_config.truncate demo_external_config) demo_env 30 demo_proposal d
       (demo_exec_state (Some [])) = (Inr rc, s1)"
    using demo_sandbox_runs [of "Some []"] by blast
  have first: "execution mem_ops demo_external_config token (demo_exec_state (Some [])) (Inr rc) s1"
    using d run by (rule exec_sandbox)
  obtain r s2 where "sandbox_execute mem_ops (exec_config.truncate demo_external_config) demo_env 30
      demo_proposal d s1 = (r, s2)" by fastforce
  with d have again: "execution mem_ops demo_external_config token s1 r s2" by (rule exec_sandbox)
  have "isl r"
    by (rule authorization_single_use [OF first _ _ execs_refl again refl]) (simp_all add: demo_exec_state_def)
  then show ?thesis using first again by blast
qed

lemma sandbox_consumes:
  assumes "sandbox_execute ops C E now p d s = (Inr rc, s1)" "pd_authorization_token d = Some t"
  shows "t \<in> xs_consumed_tokens s1"
proof -
  obtain t0 s0 s2 where pre: "verify_preconditions C now p d s = (Inr t0, s0)"
    and mark: "mark_token_consumed C (env_skip 1 E) t0 p d s0 = (Inr (), s2)"
    and fee: "settle_ledger_fee ops (xc_prims C) (env_skip 2 E) p t0 s2 = (Inr (), s1)"
    using assms(1) by (auto simp: sandbox_execute_def act_bind_eq_Inr act_return_def)
  have "t0 = t" using verify_preconditions_Inr [OF pre] assms(2) by simp
  moreover have "t0 \<in> xs_consumed_tokens s2"
    using mark by (auto simp: mark_token_consumed_def split: if_splits option.splits sum.splits)
  moreover have "xs_consumed_tokens s1 = xs_consumed_tokens s2"
    using fee ledger_move_frame
    by (fastforce simp: settle_ledger_fee_def act_return_def split: if_splits)
  ultimately show ?thesis by simp
qed

text \<open>
  Without the journal a token can be replayed.  The prefix of a token is not signed and the
  process-local cache compares whole strings: after a successful sandbox execution of an
  executor built without a database, the same signed claims under any other prefix pass
  every precondition again.
\<close>

theorem replay_without_journal:
  assumes "sandbox_execute ops C E now p d s = (Inr rc, s1)"
    and "pd_authorization_token d = Some (h @ ''.'' @ b64 @ ''.'' @ sg)"
    and "CHR ''.'' \<notin> set h" "CHR ''.'' \<notin> set h'" "prefix ''AUTH-'' h'" "h' \<noteq> h"
    and "xs_token_journal s = None" "h' @ ''.'' @ b64 @ ''.'' @ sg \<notin> xs_consumed_tokens s"
  shows "verify_preconditions C now p
       (d\<lparr>pd_authorization_token := Some (h' @ ''.'' @ b64 @ ''.'' @ sg)\<rparr>) s1
     = (Inr (h' @ ''.'' @ b64 @ ''.'' @ sg), s1)"
proof -
  let ?t = "h @ ''.'' @ b64 @ ''.'' @ sg" and ?t' = "h' @ ''.'' @ b64 @ ''.'' @ sg"
  obtain t0 s0 where pre: "verify_preconditions C now p d s = (Inr t0, s0)"
    using assms(1) by (auto simp: sandbox_execute_def act_bind_eq_Inr)
  have ok: "pd_result d = Policy_APPROVED" "enforce_agent_capability p (xs_org s) = Inr ()" "t0 = ?t" "s0 = s"
    and ver: "fst (verify_token (xc_prims C) (xc_loads C) (xc_engine C) ?t p (xs_org s) (Some d) now)"
    using verify_preconditions_Inr [OF pre] verify_preconditions_state [OF pre] assms(2) by auto
  obtain s2 where mark: "mark_token_consumed C (env_skip 1 E) ?t p d s = (Inr (), s2)"
    and fee: "settle_ledger_fee ops (xc_prims C) (env_skip 2 E) p ?t s2 = (Inr (), s1)"
    using assms(1) pre ok by (auto simp: sandbox_execute_def act_bind_def act_return_def
        split: prod.splits sum.splits)
  have s2: "s2 = s\<lparr>xs_consumed_tokens := insert ?t (xs_consumed_tokens s)\<rparr>"
    using mark assms(7) by (simp add: mark_token_consumed_def split: if_splits)
  have s1: "xs_consumed_tokens s1 = insert ?t (xs_consumed_tokens s)"
      "og_state (xs_org s1) = og_state (xs_org s)" "og_id (xs_org s1) = og_id (xs_org s)"
      "og_agents (xs_org s1) = og_agents (xs_org s)"
    using fee s2
    by (auto simp: settle_ledger_fee_def ledger_move_def act_return_def split: if_splits sum.splits)
  have split: "py_split (CHR ''.'') ?t = h # py_split (CHR ''.'') (b64 @ ''.'' @ sg)"
      "py_split (CHR ''.'') ?t' = h' # py_split (CHR ''.'') (b64 @ ''.'' @ sg)"
    using assms(3,4) by simp_all
  have "verify_token (xc_prims C) (xc_loads C) (xc_engine C) ?t' p (xs_org s1)
      (Some (d\<lparr>pd_authorization_token := Some ?t'\<rparr>)) now
     = verify_token (xc_prims C) (xc_loads C) (xc_engine C) ?t p (xs_org s) (Some d) now"
    using ver assms(5) unfolding verify_token_def split
    by (auto simp: s1 split: list.splits if_splits sum.splits)
  moreover have "?t' \<notin> xs_consumed_tokens s1" using s1(1) assms(6,8) by simp
  moreover have "enforce_agent_capability p (xs_org s1) = Inr ()"
    using ok(2) by (simp add: enforce_agent_capability_def s1)
  ultimately show ?thesis using ok(1) ver by (simp add: verify_preconditions_def)
qed

theorem replay_without_journal_witness:
  "\<exists>d t rc s1. sandbox_execute mem_ops (exec_config.truncate demo_external_config) demo_env 30 demo_proposal d
       (demo_exec_state None) = (Inr rc, s1) \<and>
     verify_preconditions (exec_config.truncate demo_external_config) 30 demo_proposal
       (d\<lparr>pd_authorization_token := Some (''AUTH-again'' @ t)\<rparr>) s1 = (Inr (''AUTH-again'' @ t), s1) \<and>
     pd_authorization_token d = Some (''AUTH-prop-000'' @ t) \<and> ''AUTH-prop-000'' @ t \<in> xs_consumed_tokens s1"
proof -
  obtain d rc s1 b64 sg where d: "pd_authorization_token d = Some (''AUTH-prop-000'' @ ''.'' @ b64 @ ''.'' @ sg)"
    and run: "sandbox_execute mem_ops (exec_config.truncate demo_external_config) demo_env 30 demo_proposal d
       (demo_exec_state None) = (Inr rc, s1)"
    using demo_sandbox_runs [of None] by blast
  define t where "t = ''.'' @ b64 @ ''.'' @ sg"
  have "verify_preconditions (exec_config.truncate demo_external_config) 30 demo_proposal
       (d\<lparr>pd_authorization_token := Some (''AUTH-again'' @ t)\<rparr>) s1 = (Inr (''AUTH-again'' @ t), s1)"
    unfolding t_def by (rule replay_without_journal [OF run d]) (simp_all add: demo_exec_state_def)
  moreover have "''AUTH-prop-000'' @ t \<in> xs_consumed_tokens s1"
    unfolding t_def using sandbox_consumes [OF run d] .
  moreover have "pd_authorization_token d = Some (''AUTH-prop-000'' @ t)" unfolding t_def by (rule d)
  ultimately show ?thesis using run by blast
qed

end
