(* ===== verification/EventStore.thy ===== *)
theory EventStore
  imports Domain
begin

text \<open>
  The hash-chained audit log: \<open>AuditEvent\<close> and the hash functions of
  \<open>src/domain/events.py\<close>, the in-memory \<open>AppendOnlyEventStore\<close> of
  \<open>src/audit/event_store.py\<close>, and \<open>SqliteEventStore\<close> of \<open>src/persistence/repositories.py\<close>.
  The locale \<open>event_log\<close> is the interface the recording components use.
\<close>

section \<open>Events\<close>

record audit_event =
  ae_sequence_id :: int
  ae_timestamp :: string
  ae_actor_id :: string
  ae_event_type :: string
  ae_entity_id :: string
  ae_payload :: "(string \<times> json) list"
  ae_payload_hash :: string
  ae_previous_event_hash :: string
  ae_event_hash :: string

definition GENESIS_PREVIOUS_HASH :: string where
  "GENESIS_PREVIOUS_HASH = replicate 64 (CHR ''0'')"

definition event_serialized ::
  "prims \<Rightarrow> int \<Rightarrow> string \<Rightarrow> string \<Rightarrow> string \<Rightarrow> string \<Rightarrow> string \<Rightarrow> string \<Rightarrow> string" where
  "event_serialized P n ts actor ty ent ph prev =
     str_int P n @ bar @ ts @ bar @ actor @ bar @ ty @ bar @ ent @ bar @ ph @ bar @ prev"

definition compute_event_hash ::
  "prims \<Rightarrow> int \<Rightarrow> string \<Rightarrow> string \<Rightarrow> string \<Rightarrow> string \<Rightarrow> string \<Rightarrow> string \<Rightarrow> string" where
  "compute_event_hash P n ts actor ty ent ph prev =
     sha256 P (event_serialized P n ts actor ty ent ph prev)"

section \<open>The in-memory store\<close>

type_synonym event_store = "audit_event list"

definition append_event ::
  "prims \<Rightarrow> env \<Rightarrow> event_store \<Rightarrow> string \<Rightarrow> string \<Rightarrow> string \<Rightarrow> (string \<times> json) list \<Rightarrow>
     audit_event \<times> event_store" where
  "append_event P E S actor ty ent payload =
     (let seq = int (length S) + 1;
          ts = e_now E 0;
          prev = (if S \<noteq> [] then ae_event_hash (last S) else GENESIS_PREVIOUS_HASH);
          ph = compute_payload_hash P payload;
          ev = \<lparr>ae_sequence_id = seq, ae_timestamp = ts, ae_actor_id = actor, ae_event_type = ty,
            ae_entity_id = ent, ae_payload = payload, ae_payload_hash = ph,
            ae_previous_event_hash = prev,
            ae_event_hash = compute_event_hash P seq ts actor ty ent ph prev\<rparr>
      in (ev, S @ [ev]))"

definition get_events :: "event_store \<Rightarrow> audit_event list" where
  "get_events S = S"

text \<open>The loop of \<open>verify_integrity\<close> at index \<open>idx\<close>; \<open>prev\<close> is the expected previous hash.\<close>

fun verify_from :: "prims \<Rightarrow> int \<Rightarrow> string \<Rightarrow> audit_event list \<Rightarrow> bool \<times> string option" where
  "verify_from P idx prev [] = (True, None)"
| "verify_from P idx prev (e # es) =
     (if ae_sequence_id e \<noteq> idx + 1 then (False, Some ''Sequence mismatch'')
      else if ae_previous_event_hash e \<noteq> prev
      then (False, Some ''Hash chain broken: previous_event_hash does not match'')
      else if ae_payload_hash e \<noteq> compute_payload_hash P (ae_payload e)
      then (False, Some ''Payload hash corrupted'')
      else if ae_event_hash e \<noteq> compute_event_hash P (ae_sequence_id e) (ae_timestamp e)
        (ae_actor_id e) (ae_event_type e) (ae_entity_id e) (ae_payload_hash e) (ae_previous_event_hash e)
      then (False, Some ''Event hash mismatch'')
      else verify_from P (idx + 1) (ae_event_hash e) es)"

definition verify_integrity :: "prims \<Rightarrow> event_store \<Rightarrow> bool \<times> string option" where
  "verify_integrity P S = verify_from P 0 GENESIS_PREVIOUS_HASH S"

section \<open>The SQLite store\<close>

text \<open>
  A row stores the payload as canonical JSON text, with two scope columns beside the hashed
  ones.  \<open>loads\<close> is \<open>json.loads\<close>: \<open>None\<close> where it raises.  Scope values in a payload are
  read when they are strings.
\<close>

record event_row =
  er_sequence_id :: int
  er_timestamp :: string
  er_actor_id :: string
  er_event_type :: string
  er_entity_id :: string
  er_payload :: string
  er_payload_hash :: string
  er_previous_event_hash :: string
  er_event_hash :: string
  er_tenant_id :: string
  er_organisation_id :: "string option"

type_synonym event_table = "event_row list"
type_synonym json_loads = "string \<Rightarrow> (string \<times> json) list option"

definition payload_str :: "(string \<times> json) list \<Rightarrow> string \<Rightarrow> string option" where
  "payload_str d k = (case map_of d k of Some (JStr s) \<Rightarrow> Some s | _ \<Rightarrow> None)"

definition str_or :: "string option \<Rightarrow> string option \<Rightarrow> string option" where
  "str_or a b = (if py_truthy a then a else b)"

definition sqlite_append_event ::
  "prims \<Rightarrow> env \<Rightarrow> event_table \<Rightarrow> string \<Rightarrow> string \<Rightarrow> string \<Rightarrow> (string \<times> json) list \<Rightarrow>
     string option \<Rightarrow> string option \<Rightarrow> (audit_event \<times> event_table) result" where
  "sqlite_append_event P E T actor ty ent payload ten org =
     (let seq = (if T \<noteq> [] then er_sequence_id (last T) + 1 else 1);
          prev = (if T \<noteq> [] then er_event_hash (last T) else GENESIS_PREVIOUS_HASH);
          ts = e_now E 0;
          ph = compute_payload_hash P payload;
          eh = compute_event_hash P seq ts actor ty ent ph prev;
          eff_tenant = py_or (str_or ten (payload_str payload ''tenant_id'')) ''tenant-demo'';
          org1 = str_or org (str_or (payload_str payload ''org_id'') (payload_str payload ''organisation_id''));
          eff_org = (if \<not> py_truthy org1 \<and> prefix ''mao-'' ent then Some ent else org1)
      in if seq \<in> er_sequence_id ` set T
         then raise IntegrityError ''UNIQUE constraint failed: sequence_id''
         else Inr (\<lparr>ae_sequence_id = seq, ae_timestamp = ts, ae_actor_id = actor, ae_event_type = ty,
                ae_entity_id = ent, ae_payload = payload, ae_payload_hash = ph,
                ae_previous_event_hash = prev, ae_event_hash = eh\<rparr>,
              T @ [\<lparr>er_sequence_id = seq, er_timestamp = ts, er_actor_id = actor, er_event_type = ty,
                er_entity_id = ent, er_payload = canonical_json P (JObj payload), er_payload_hash = ph,
                er_previous_event_hash = prev, er_event_hash = eh, er_tenant_id = eff_tenant,
                er_organisation_id = eff_org\<rparr>]))"

definition row_event :: "json_loads \<Rightarrow> event_row \<Rightarrow> audit_event result" where
  "row_event loads r =
     (case loads (er_payload r) of
        None \<Rightarrow> raise ValueError ''payload is not JSON''
      | Some d \<Rightarrow> Inr \<lparr>ae_sequence_id = er_sequence_id r, ae_timestamp = er_timestamp r,
          ae_actor_id = er_actor_id r, ae_event_type = er_event_type r, ae_entity_id = er_entity_id r,
          ae_payload = d, ae_payload_hash = er_payload_hash r,
          ae_previous_event_hash = er_previous_event_hash r, ae_event_hash = er_event_hash r\<rparr>)"

fun rows_events :: "json_loads \<Rightarrow> event_row list \<Rightarrow> audit_event list result" where
  "rows_events loads [] = Inr []"
| "rows_events loads (r # rs) =
     bind_result (row_event loads r) (\<lambda>e. bind_result (rows_events loads rs) (\<lambda>es. Inr (e # es)))"

definition sqlite_get_events ::
  "json_loads \<Rightarrow> event_table \<Rightarrow> string option \<Rightarrow> string option \<Rightarrow> int option \<Rightarrow> audit_event list result"
where
  "sqlite_get_events loads T ten org lmt =
     (let rows = filter (\<lambda>r. (case ten of None \<Rightarrow> True | Some t \<Rightarrow> er_tenant_id r = t) \<and>
             (case org of None \<Rightarrow> True
              | Some o' \<Rightarrow> er_organisation_id r = Some o' \<or> er_entity_id r = o')) T
      in rows_events loads
           (case lmt of None \<Rightarrow> rows | Some n \<Rightarrow> if n > 0 then take (nat n) rows else rows))"

definition sqlite_verify_integrity ::
  "prims \<Rightarrow> json_loads \<Rightarrow> event_table \<Rightarrow> (bool \<times> string option) result" where
  "sqlite_verify_integrity P loads T =
     bind_result (sqlite_get_events loads T None None None) (\<lambda>es. Inr (verify_integrity P es))"

definition on_startup_verify :: "prims \<Rightarrow> json_loads \<Rightarrow> event_table \<Rightarrow> unit result" where
  "on_startup_verify P loads T =
     (case sqlite_verify_integrity P loads T of
        Inl x \<Rightarrow> raise TamperedAuditLogError ''Audit log corruption detected on startup''
      | Inr (valid, err) \<Rightarrow>
          if \<not> valid then raise TamperedAuditLogError ''Audit log corruption detected on startup''
          else Inr ())"

section \<open>The interface of an event log\<close>

type_synonym 's append_fun =
  "env \<Rightarrow> 's \<Rightarrow> string \<Rightarrow> string \<Rightarrow> string \<Rightarrow> (string \<times> json) list \<Rightarrow> (audit_event \<times> 's) result"

locale event_log =
  fixes ok :: "'s \<Rightarrow> bool"
    and len :: "'s \<Rightarrow> nat"
    and append :: "'s append_fun"
  assumes append_accepts: "ok s \<Longrightarrow> \<exists>e s'. append E s actor ty ent pl = Inr (e, s')"
    and append_ok: "ok s \<Longrightarrow> append E s actor ty ent pl = Inr (e, s') \<Longrightarrow> ok s'"
    and append_len: "ok s \<Longrightarrow> append E s actor ty ent pl = Inr (e, s') \<Longrightarrow> len s' = Suc (len s)"
    and append_seq: "ok s \<Longrightarrow> append E s actor ty ent pl = Inr (e, s') \<Longrightarrow>
      ae_sequence_id e = int (len s') \<and> ae_event_type e = ty \<and> ae_entity_id e = ent"
begin

inductive logged :: "'s \<Rightarrow> 's \<Rightarrow> bool" where
  logged_refl: "logged s s"
| logged_append: "logged s s1 \<Longrightarrow> append E s1 actor ty ent pl = Inr (e, s2) \<Longrightarrow> logged s s2"

lemma logged_ok: "logged s s' \<Longrightarrow> ok s \<Longrightarrow> ok s'"
  by (induction rule: logged.induct) (auto intro: append_ok)

lemma logged_len: "logged s s' \<Longrightarrow> ok s \<Longrightarrow> len s \<le> len s'"
proof (induction rule: logged.induct)
  case (logged_append s s1 E actor ty ent pl e s2)
  have "ok s1" by (rule logged_ok) fact+
  from append_len [OF this logged_append.hyps(2)] logged_append show ?case by linarith
qed simp

lemma fresh_sequence:
  assumes "ok s" "append E s a t n p = Inr (e, s1)" "logged s1 s2" "append E' s2 a' t' n' p' = Inr (e', s3)"
  shows "ae_sequence_id e < ae_sequence_id e'"
proof -
  have "ok s1" using assms(1,2) by (rule append_ok)
  then have "ok s2" "len s1 \<le> len s2" using assms(3) by (auto intro: logged_ok logged_len)
  moreover have "ae_sequence_id e = int (len s1)" using append_seq [OF assms(1,2)] by simp
  moreover have "ae_sequence_id e' = int (len s3)" "len s3 = Suc (len s2)"
    using append_seq append_len \<open>ok s2\<close> assms(4) by blast+
  ultimately show ?thesis by simp
qed

end

section \<open>The chain invariant\<close>

definition event_sealed :: "prims \<Rightarrow> int \<Rightarrow> string \<Rightarrow> audit_event \<Rightarrow> bool" where
  "event_sealed P seq prev e \<longleftrightarrow> ae_sequence_id e = seq \<and> ae_previous_event_hash e = prev \<and>
     ae_payload_hash e = compute_payload_hash P (ae_payload e) \<and>
     ae_event_hash e = compute_event_hash P (ae_sequence_id e) (ae_timestamp e) (ae_actor_id e)
       (ae_event_type e) (ae_entity_id e) (ae_payload_hash e) (ae_previous_event_hash e)"

definition head_hash :: "audit_event list \<Rightarrow> string" where
  "head_hash S = (if S \<noteq> [] then ae_event_hash (last S) else GENESIS_PREVIOUS_HASH)"

lemma head_hash_snoc [simp]: "head_hash (S @ [e]) = ae_event_hash e"
  by (simp add: head_hash_def)

lemma verify_from_ok:
  "fst (verify_from P n prev es) \<longleftrightarrow> verify_from P n prev es = (True, None)"
  by (induction P n prev es rule: verify_from.induct) simp_all

lemma verify_from_snoc:
  "fst (verify_from P n prev (es @ [e])) \<longleftrightarrow> fst (verify_from P n prev es) \<and>
     event_sealed P (n + int (length es) + 1) (if es = [] then prev else ae_event_hash (last es)) e"
  by (induction P n prev es rule: verify_from.induct) (auto simp: event_sealed_def algebra_simps)

lemma verify_snoc:
  "fst (verify_integrity P (S @ [e])) \<longleftrightarrow>
     fst (verify_integrity P S) \<and> event_sealed P (int (length S) + 1) (head_hash S) e"
  by (simp add: verify_integrity_def verify_from_snoc head_hash_def)

lemma verify_Nil [simp]: "fst (verify_integrity P [])"
  by (simp add: verify_integrity_def)

lemma append_event_sealed:
  "append_event P E S actor ty ent pl = (e, S') \<Longrightarrow>
     S' = S @ [e] \<and> event_sealed P (int (length S) + 1) (head_hash S) e \<and>
     ae_event_type e = ty \<and> ae_entity_id e = ent"
  by (auto simp: append_event_def Let_def event_sealed_def head_hash_def)

lemma mem_append:
  assumes "fst (verify_integrity P S)" "Inr (append_event P E S actor ty ent pl) = Inr (e, S')"
  shows "fst (verify_integrity P S') \<and> length S' = Suc (length S) \<and>
     ae_sequence_id e = int (length S') \<and> ae_event_type e = ty \<and> ae_entity_id e = ent"
  using append_event_sealed [of P E S actor ty ent pl e S'] assms
  by (simp add: verify_snoc) (simp add: event_sealed_def)

interpretation mem_log: event_log "\<lambda>S. fst (verify_integrity P S)" length
  "\<lambda>E S a t n p. Inr (append_event P E S a t n p)" for P
proof unfold_locales
  show "\<exists>e s'. Inr (append_event P E s a t n p) = Inr (e, s')" for E s a t n p
    by (cases "append_event P E s a t n p") simp
qed (drule (1) mem_append, simp)+

section \<open>Correctness of the in-memory log\<close>

type_synonym append_call = "env \<times> string \<times> string \<times> string \<times> (string \<times> json) list"

fun append_all :: "prims \<Rightarrow> append_call list \<Rightarrow> event_store \<Rightarrow> event_store" where
  "append_all P [] S = S"
| "append_all P ((E, a, t, n, p) # cs) S = append_all P cs (snd (append_event P E S a t n p))"

lemma append_all_logged:
  "mem_log.logged P S0 S \<Longrightarrow> mem_log.logged P S0 (append_all P cs S)"
proof (induction P cs S rule: append_all.induct)
  case (2 P E a t n p cs S)
  obtain e S1 where "append_event P E S a t n p = (e, S1)" by fastforce
  with 2 show ?case by (auto intro: mem_log.logged_append)
qed simp

lemma verify_take: "fst (verify_integrity P S) \<Longrightarrow> fst (verify_integrity P (take k S))"
proof (induction S rule: rev_induct)
  case (snoc e S)
  then show ?case by (cases "k \<le> length S") (simp_all add: verify_snoc)
qed simp

lemma verify_integrity_ok: "fst (verify_integrity P S) \<longleftrightarrow> verify_integrity P S = (True, None)"
  by (simp add: verify_integrity_def verify_from_ok)

lemma appended_log_facts: "verify_integrity P (append_all P calls []) = (True, None)"
proof -
  have "mem_log.logged P [] (append_all P calls [])"
    by (rule append_all_logged) (rule mem_log.logged_refl)
  then have "fst (verify_integrity P (append_all P calls []))"
    by (rule mem_log.logged_ok) simp
  then show ?thesis by (simp add: verify_integrity_ok)
qed

text \<open>
  Recorded logs verify.  Whatever is appended, in whatever order, \<open>verify_integrity\<close>
  accepts the log, numbered from 1; and it accepts every truncation of it too, so dropping
  the newest events is not something this check can notice.
\<close>

theorem appended_log_verifies:
  "verify_integrity P (append_all P calls []) = (True, None)
     \<and> verify_integrity P (take k (append_all P calls [])) = (True, None)"
  using verify_take [of P "append_all P calls []" k] appended_log_facts
  by (simp add: verify_integrity_ok)

text \<open>What each event feeds to the hash function.\<close>

definition event_preimage :: "prims \<Rightarrow> audit_event \<Rightarrow> string" where
  "event_preimage P e = event_serialized P (ae_sequence_id e) (ae_timestamp e) (ae_actor_id e)
     (ae_event_type e) (ae_entity_id e) (ae_payload_hash e) (ae_previous_event_hash e)"

definition hashed_strings :: "prims \<Rightarrow> audit_event list \<Rightarrow> string set" where
  "hashed_strings P S = event_preimage P ` set S \<union> (\<lambda>e. canonical_json P (JObj (ae_payload e))) ` set S"

definition bar_free :: "audit_event \<Rightarrow> bool" where
  "bar_free e \<longleftrightarrow> CHR ''|'' \<notin> set (ae_timestamp e) \<and> CHR ''|'' \<notin> set (ae_actor_id e) \<and>
     CHR ''|'' \<notin> set (ae_event_type e) \<and> CHR ''|'' \<notin> set (ae_entity_id e)"

text \<open>What the source relies on: decimal numerals and hexadecimal digests contain no bar.\<close>

definition text_prims :: "prims \<Rightarrow> bool" where
  "text_prims P \<longleftrightarrow> inj (str_int P) \<and> (\<forall>i. CHR ''|'' \<notin> set (str_int P i))
     \<and> (\<forall>s. CHR ''|'' \<notin> set (sha256 P s))"

text \<open>Everything an event records, its payload by its canonical JSON text.\<close>

definition same_record :: "prims \<Rightarrow> audit_event \<Rightarrow> audit_event \<Rightarrow> bool" where
  "same_record P a b \<longleftrightarrow> a\<lparr>ae_payload := []\<rparr> = b\<lparr>ae_payload := []\<rparr> \<and>
     canonical_json P (JObj (ae_payload a)) = canonical_json P (JObj (ae_payload b))"

lemma seven_fields:
  assumes "a1 @ c # a2 @ c # a3 @ c # a4 @ c # a5 @ c # a6 @ c # a7
      = b1 @ c # b2 @ c # b3 @ c # b4 @ c # b5 @ c # b6 @ c # b7"
    and "c \<notin> set a1" "c \<notin> set a2" "c \<notin> set a3" "c \<notin> set a4" "c \<notin> set a5" "c \<notin> set a6"
    and "c \<notin> set b1" "c \<notin> set b2" "c \<notin> set b3" "c \<notin> set b4" "c \<notin> set b5" "c \<notin> set b6"
  shows "a1 = b1 \<and> a2 = b2 \<and> a3 = b3 \<and> a4 = b4 \<and> a5 = b5 \<and> a6 = b6 \<and> a7 = b7"
  using assms by (simp add: sep_inject_iff)

lemma event_preimage_inject:
  assumes "text_prims P" "bar_free a" "bar_free b" "event_preimage P a = event_preimage P b"
    and "CHR ''|'' \<notin> set (ae_payload_hash a)" "CHR ''|'' \<notin> set (ae_payload_hash b)"
  shows "ae_sequence_id a = ae_sequence_id b \<and> ae_timestamp a = ae_timestamp b \<and>
     ae_actor_id a = ae_actor_id b \<and> ae_event_type a = ae_event_type b \<and>
     ae_entity_id a = ae_entity_id b \<and> ae_payload_hash a = ae_payload_hash b \<and>
     ae_previous_event_hash a = ae_previous_event_hash b"
proof -
  have nums: "CHR ''|'' \<notin> set (str_int P i)" for i using assms(1) by (simp add: text_prims_def)
  have "str_int P (ae_sequence_id a) = str_int P (ae_sequence_id b) \<and> ae_timestamp a = ae_timestamp b \<and>
     ae_actor_id a = ae_actor_id b \<and> ae_event_type a = ae_event_type b \<and>
     ae_entity_id a = ae_entity_id b \<and> ae_payload_hash a = ae_payload_hash b \<and>
     ae_previous_event_hash a = ae_previous_event_hash b"
    by (rule seven_fields [OF assms(4) [unfolded event_preimage_def event_serialized_def bar_def
            append_Cons append_Nil]])
       (use assms(2,3,5,6) nums in \<open>simp_all add: bar_free_def\<close>)
  then show ?thesis using assms(1) by (simp add: text_prims_def inj_eq)
qed

definition collision_free :: "prims \<Rightarrow> audit_event list \<Rightarrow> audit_event list \<Rightarrow> bool" where
  "collision_free P S S' \<longleftrightarrow> (\<forall>x \<in> hashed_strings P S. \<forall>y \<in> hashed_strings P S'.
     sha256 P x = sha256 P y \<longrightarrow> x = y)"

lemma collision_freeD:
  "collision_free P S S' \<Longrightarrow> sha256 P x = sha256 P y \<Longrightarrow> x \<in> hashed_strings P S \<Longrightarrow>
     y \<in> hashed_strings P S' \<Longrightarrow> x = y"
  unfolding collision_free_def by blast

lemma hashed_strings_mono: "set S \<subseteq> set T \<Longrightarrow> hashed_strings P S \<subseteq> hashed_strings P T"
  by (auto simp: hashed_strings_def)

lemma collision_free_mono:
  "collision_free P S S' \<Longrightarrow> set T \<subseteq> set S \<Longrightarrow> set T' \<subseteq> set S' \<Longrightarrow> collision_free P T T'"
  unfolding collision_free_def using hashed_strings_mono by blast

lemma sealed_same_record:
  assumes "text_prims P" "bar_free a" "bar_free b"
    and "event_sealed P n pa a" "event_sealed P m pb b" "ae_event_hash a = ae_event_hash b"
    and "collision_free P [a] [b]"
  shows "n = m \<and> pa = pb \<and> same_record P a b"
proof -
  have "sha256 P (event_preimage P a) = sha256 P (event_preimage P b)"
    using assms(4-6) by (simp add: event_sealed_def compute_event_hash_def event_preimage_def)
  then have "event_preimage P a = event_preimage P b"
    by (rule collision_freeD [OF assms(7)]) (simp_all add: hashed_strings_def)
  moreover have "CHR ''|'' \<notin> set (ae_payload_hash a)" "CHR ''|'' \<notin> set (ae_payload_hash b)"
    using assms(1,4,5) by (simp_all add: event_sealed_def compute_payload_hash_def text_prims_def)
  ultimately have eq: "ae_sequence_id a = ae_sequence_id b \<and> ae_timestamp a = ae_timestamp b \<and>
     ae_actor_id a = ae_actor_id b \<and> ae_event_type a = ae_event_type b \<and>
     ae_entity_id a = ae_entity_id b \<and> ae_payload_hash a = ae_payload_hash b \<and>
     ae_previous_event_hash a = ae_previous_event_hash b"
    using event_preimage_inject assms(1-3) by blast
  then have "sha256 P (canonical_json P (JObj (ae_payload a)))
      = sha256 P (canonical_json P (JObj (ae_payload b)))"
    using assms(4,5) by (simp add: event_sealed_def compute_payload_hash_def)
  then have "canonical_json P (JObj (ae_payload a)) = canonical_json P (JObj (ae_payload b))"
    by (rule collision_freeD [OF assms(7)]) (simp_all add: hashed_strings_def)
  then show ?thesis using eq assms(4-6) by (simp add: event_sealed_def same_record_def)
qed

lemma chains_agree:
  assumes "text_prims P" "length S = length S'" "head_hash S = head_hash S'"
    and "fst (verify_integrity P S)" "fst (verify_integrity P S')"
    and "list_all bar_free S" "list_all bar_free S'" "collision_free P S S'"
  shows "list_all2 (same_record P) S S'"
  using assms(2-)
proof (induction S arbitrary: S' rule: rev_induct)
  case (snoc a S)
  then obtain T b where S': "S' = T @ [b]" by (cases S' rule: rev_cases) auto
  have seals: "event_sealed P (int (length S) + 1) (head_hash S) a"
      "event_sealed P (int (length T) + 1) (head_hash T) b"
    using snoc.prems(3,4) by (simp_all add: verify_snoc S')
  have ab: "ae_event_hash a = ae_event_hash b" "bar_free a" "bar_free b"
    using snoc.prems(2,5,6) by (simp_all add: S')
  have coll: "collision_free P S T" "collision_free P [a] [b]"
    by (rule collision_free_mono [OF snoc.prems(7)]; force simp: S')+
  have eq: "head_hash S = head_hash T" "same_record P a b"
    using sealed_same_record [OF assms(1) ab(2,3) seals ab(1) coll(2)] by blast+
  have "list_all2 (same_record P) S T"
    by (rule snoc.IH) (use snoc.prems S' eq coll in \<open>simp_all add: verify_snoc\<close>)
  with eq show ?case by (simp add: S' list_all2_appendI)
qed simp

lemma sealed_head_length:
  assumes "fst (verify_integrity P S)" "S \<noteq> []"
  shows "event_sealed P (int (length S)) (head_hash (butlast S)) (last S)"
  using assms by (cases S rule: rev_cases) (simp_all add: verify_snoc add.commute)


text \<open>A hash function without any collision resistance shows that both outcomes occur.\<close>

definition const_prims :: prims where
  "const_prims = demo_prims\<lparr>sha256 := (\<lambda>s. ''h'')\<rparr>"

definition unary_int :: "int \<Rightarrow> string" where
  "unary_int i = (if i < 0 then CHR ''-'' # replicate (nat (- i)) (CHR ''1'')
                  else replicate (nat i) (CHR ''1''))"

lemma unary_int_inject: "unary_int i = unary_int j \<Longrightarrow> i = j"
proof -
  assume eq: "unary_int i = unary_int j"
  have "(CHR ''-'' \<in> set (unary_int k)) = (k < 0)" for k
    by (simp add: unary_int_def)
  then have "(i < 0) = (j < 0)" using eq by metis
  moreover have "length (unary_int i) = length (unary_int j)" using eq by simp
  ultimately show "i = j" by (simp add: unary_int_def split: if_splits)
qed

lemma const_prims_text: "text_prims const_prims"
proof -
  have "str_int const_prims = unary_int" by (simp add: const_prims_def demo_prims_def unary_int_def fun_eq_iff)
  moreover have "CHR ''|'' \<notin> set (unary_int i)" for i by (simp add: unary_int_def)
  moreover have "inj unary_int" by (rule injI) (rule unary_int_inject)
  moreover have "CHR ''|'' \<notin> set (sha256 const_prims s)" for s by (simp add: const_prims_def)
  ultimately show ?thesis unfolding text_prims_def by metis
qed

definition demo_log :: "string \<Rightarrow> event_store" where
  "demo_log actor = append_all const_prims [(demo_env, actor, ''PROPOSED'', ''p-1'', [])] []"

lemma demo_log_facts:
  "demo_log actor \<noteq> []" "ae_event_hash (last (demo_log actor)) = ''h''"
  "ae_actor_id (hd (demo_log actor)) = actor" "length (demo_log actor) = 1"
  "CHR ''|'' \<notin> set actor \<Longrightarrow> list_all bar_free (demo_log actor)"
  by (simp_all add: demo_log_def append_event_def Let_def compute_event_hash_def const_prims_def
      bar_free_def demo_env_def)


text \<open>
  What the chain does not bind.  The hashed text joins the fields with \<open>|\<close> and escapes
  nothing, so moving text across the boundary of actor and event type in the newest event
  leaves every check satisfied.
\<close>

theorem event_fields_ambiguous:
  assumes "verify_integrity P (S @ [e\<lparr>ae_actor_id := a @ bar @ b, ae_event_type := t\<rparr>]) = (True, None)"
  shows "verify_integrity P (S @ [e\<lparr>ae_actor_id := a, ae_event_type := b @ bar @ t\<rparr>]) = (True, None)"
proof -
  have "compute_event_hash P n ts (a @ bar @ b) t ent ph prev
      = compute_event_hash P n ts a (b @ bar @ t) ent ph prev" for n ts ent ph prev
    by (simp add: compute_event_hash_def event_serialized_def)
  with assms show ?thesis
    by (simp add: verify_integrity_ok [symmetric] verify_snoc event_sealed_def)
qed

theorem event_fields_ambiguous_witness:
  "verify_integrity demo_prims ([] @ [(fst (append_event demo_prims demo_env [] ''a|b'' ''T'' ''p'' []))
     \<lparr>ae_actor_id := ''a'', ae_event_type := ''b'' @ bar @ ''T''\<rparr>]) = (True, None)"
proof (rule event_fields_ambiguous)
  show "verify_integrity demo_prims ([] @ [(fst (append_event demo_prims demo_env [] ''a|b'' ''T'' ''p'' []))
     \<lparr>ae_actor_id := ''a'' @ bar @ ''b'', ae_event_type := ''T''\<rparr>]) = (True, None)"
    by (simp add: append_event_def Let_def verify_integrity_def bar_def)
qed

section \<open>The SQLite log\<close>

text \<open>
  What the store relies on of \<open>json\<close>: \<open>loads\<close> accepts what \<open>dumps\<close> wrote, and dumping
  the result again gives the same text.
\<close>

definition json_stable :: "prims \<Rightarrow> json_loads \<Rightarrow> bool" where
  "json_stable P loads \<longleftrightarrow> (\<forall>d. \<exists>d'. loads (canonical_json P (JObj d)) = Some d' \<and>
     canonical_json P (JObj d') = canonical_json P (JObj d))"

definition sqlite_log_ok :: "prims \<Rightarrow> json_loads \<Rightarrow> event_table \<Rightarrow> bool" where
  "sqlite_log_ok P loads T \<longleftrightarrow> json_stable P loads \<and>
     (\<exists>es. rows_events loads T = Inr es \<and> fst (verify_integrity P es))"

lemma rows_events_snoc:
  "rows_events loads (T @ [r]) = Inr es \<longleftrightarrow>
     (\<exists>es0 e. rows_events loads T = Inr es0 \<and> row_event loads r = Inr e \<and> es = es0 @ [e])"
  by (induction T arbitrary: es) (auto simp: Bex_def)

lemma rows_events_length: "rows_events loads T = Inr es \<Longrightarrow> length es = length T"
  by (induction T arbitrary: es) auto

lemma row_event_Inr:
  "row_event loads r = Inr e \<Longrightarrow> ae_sequence_id e = er_sequence_id r \<and> ae_event_hash e = er_event_hash r"
  by (auto simp: row_event_def split: option.splits)

lemma sqlite_chain_facts:
  assumes "rows_events loads T = Inr es" "fst (verify_integrity P es)"
  shows "(if T \<noteq> [] then er_sequence_id (last T) + 1 else 1) = int (length T) + 1"
    and "(if T \<noteq> [] then er_event_hash (last T) else GENESIS_PREVIOUS_HASH) = head_hash es"
    and "\<forall>r \<in> set T. er_sequence_id r \<le> int (length T)"
proof -
  have "(\<forall>r \<in> set T. er_sequence_id r \<le> int (length T)) \<and>
     (T \<noteq> [] \<longrightarrow> er_sequence_id (last T) = int (length T) \<and> er_event_hash (last T) = head_hash es)"
    using assms
  proof (induction T arbitrary: es rule: rev_induct)
    case (snoc r T)
    then obtain es0 e where es: "rows_events loads T = Inr es0" "row_event loads r = Inr e" "es = es0 @ [e]"
      by (auto simp: rows_events_snoc)
    have "ae_sequence_id e = int (length T) + 1" "fst (verify_integrity P es0)"
      using snoc.prems(2) es rows_events_length [OF es(1)] by (auto simp: verify_snoc event_sealed_def)
    with snoc.IH [OF es(1)] row_event_Inr [OF es(2)] es(3) show ?case by fastforce
  qed simp
  moreover have "T = [] \<Longrightarrow> head_hash es = GENESIS_PREVIOUS_HASH"
    using assms(1) by (simp add: head_hash_def)
  ultimately show "(if T \<noteq> [] then er_sequence_id (last T) + 1 else 1) = int (length T) + 1"
    "(if T \<noteq> [] then er_event_hash (last T) else GENESIS_PREVIOUS_HASH) = head_hash es"
    "\<forall>r \<in> set T. er_sequence_id r \<le> int (length T)"
    by auto
qed

lemma sqlite_append_step:
  assumes "sqlite_log_ok P loads T"
  shows "\<exists>e r. sqlite_append_event P E T actor ty ent pl ten org = Inr (e, T @ [r]) \<and>
     sqlite_log_ok P loads (T @ [r]) \<and> ae_sequence_id e = int (length T) + 1 \<and>
     ae_event_type e = ty \<and> ae_entity_id e = ent"
proof -
  obtain es where es: "rows_events loads T = Inr es" "fst (verify_integrity P es)"
    and js: "json_stable P loads" using assms by (auto simp: sqlite_log_ok_def)
  note facts = sqlite_chain_facts [OF es]
  have "int (length T) + 1 \<notin> er_sequence_id ` set T" using facts(3) by force
  then obtain e r where run: "sqlite_append_event P E T actor ty ent pl ten org = Inr (e, T @ [r])"
    and e: "event_sealed P (int (length es) + 1) (head_hash es) e" "ae_payload e = pl"
      "ae_event_type e = ty" "ae_entity_id e = ent"
    and r: "er_payload r = canonical_json P (JObj pl)"
      "\<And>d. loads (er_payload r) = Some d \<Longrightarrow> row_event loads r = Inr (e\<lparr>ae_payload := d\<rparr>)"
    using rows_events_length [OF es(1)]
    unfolding sqlite_append_event_def facts(1,2) Let_def
    by (simp add: event_sealed_def row_event_def)
  obtain d where d: "loads (er_payload r) = Some d" "canonical_json P (JObj d) = canonical_json P (JObj pl)"
    using js r(1) by (auto simp: json_stable_def)
  have "event_sealed P (int (length es) + 1) (head_hash es) (e\<lparr>ae_payload := d\<rparr>)"
    using e d(2) by (simp add: event_sealed_def compute_payload_hash_def)
  then have "sqlite_log_ok P loads (T @ [r])"
    using js es r(2) [OF d(1)] by (auto simp: sqlite_log_ok_def rows_events_snoc verify_snoc)
  moreover have "ae_sequence_id e = int (length T) + 1"
    using e rows_events_length [OF es(1)] by (simp add: event_sealed_def)
  ultimately show ?thesis using run e by blast
qed

interpretation sql_log: event_log "sqlite_log_ok P loads" length
  "\<lambda>E T a t n p. sqlite_append_event P E T a t n p ten org" for P loads ten org
proof unfold_locales
  fix T E a t n p
  assume ok: "sqlite_log_ok P loads T"
  show "\<exists>e T'. sqlite_append_event P E T a t n p ten org = Inr (e, T')"
    using sqlite_append_step [OF ok] by blast
  fix e T'
  assume run: "sqlite_append_event P E T a t n p ten org = Inr (e, T')"
  obtain r where "T' = T @ [r]" "sqlite_log_ok P loads (T @ [r])"
      "ae_sequence_id e = int (length T) + 1 \<and> ae_event_type e = t \<and> ae_entity_id e = n"
    using sqlite_append_step [OF ok, of E a t n p ten org] run by auto
  then show "sqlite_log_ok P loads T'" "length T' = Suc (length T)"
    "ae_sequence_id e = int (length T') \<and> ae_event_type e = t \<and> ae_entity_id e = n"
    by simp_all
qed

lemma sqlite_log_ok_verifies:
  "sqlite_log_ok P loads T \<Longrightarrow> sqlite_verify_integrity P loads T = Inr (True, None)
     \<and> on_startup_verify P loads T = Inr ()"
  by (auto simp: sqlite_log_ok_def on_startup_verify_def sqlite_verify_integrity_def
      sqlite_get_events_def verify_integrity_ok)

type_synonym sql_append_call = "append_call \<times> string option \<times> string option"

fun sqlite_append_all :: "prims \<Rightarrow> sql_append_call list \<Rightarrow> event_table \<Rightarrow> event_table result" where
  "sqlite_append_all P [] T = Inr T"
| "sqlite_append_all P (((E, a, t, n, p), ten, org) # cs) T =
     bind_result (sqlite_append_event P E T a t n p ten org) (\<lambda>(e, T'). sqlite_append_all P cs T')"

lemma sqlite_append_all_ok:
  "sqlite_log_ok P loads T \<Longrightarrow> \<exists>T'. sqlite_append_all P cs T = Inr T' \<and> sqlite_log_ok P loads T'
     \<and> length T' = length T + length cs"
proof (induction P cs T rule: sqlite_append_all.induct)
  case (2 P E a t n p ten org cs T)
  then obtain e r where run: "sqlite_append_event P E T a t n p ten org = Inr (e, T @ [r])"
    and ok: "sqlite_log_ok P loads (T @ [r])"
    using sqlite_append_step by blast
  from 2(1) [OF ok] run show ?case by auto
qed simp

text \<open>
  Recording in SQLite never fails and never breaks the chain.  From an empty table any
  sequence of \<open>append_event\<close> calls, for any tenants and organisations, succeeds, and a restart afterwards
  (\<open>on_startup_verify\<close>) accepts the table.
\<close>

theorem sqlite_log_restarts:
  assumes "json_stable P loads"
  shows "\<exists>T. sqlite_append_all P calls [] = Inr T \<and> length T = length calls
     \<and> on_startup_verify P loads T = Inr ()"
proof -
  have "sqlite_log_ok P loads []" using assms by (simp add: sqlite_log_ok_def)
  from sqlite_append_all_ok [OF this, of calls] show ?thesis
    using sqlite_log_ok_verifies by fastforce
qed

definition demo_loads :: json_loads where "demo_loads s = Some []"

lemma demo_json_stable: "json_stable demo_prims demo_loads"
  by (simp add: json_stable_def demo_loads_def demo_prims_def)

theorem sqlite_log_restarts_witness:
  "\<exists>T. sqlite_append_all demo_prims
     [((demo_env, ''a'', ''T'', ''mao-1'', []), Some ''acme'', None),
      ((demo_env, ''b'', ''T'', ''e'', [(''org_id'', JStr ''o'')]), None, None)] [] = Inr T
     \<and> length T = 2 \<and> on_startup_verify demo_prims demo_loads T = Inr ()"
  using sqlite_log_restarts [OF demo_json_stable] by fastforce

text \<open>An edit of the two scope columns.\<close>

definition rescope :: "(event_row \<Rightarrow> string) \<Rightarrow> (event_row \<Rightarrow> string option) \<Rightarrow> event_table \<Rightarrow> event_table" where
  "rescope f g T = map (\<lambda>r. r\<lparr>er_tenant_id := f r, er_organisation_id := g r\<rparr>) T"

lemma rows_events_rescope: "rows_events loads (rescope f g T) = rows_events loads T"
  by (induction T) (simp_all add: rescope_def row_event_def split: option.split)

text \<open>
  Scope is outside the seal.  Rewriting the tenant and organisation columns of any rows,
  which moves events between the tenants' views, is invisible to \<open>verify_integrity\<close> and to
  the startup check.
\<close>

theorem log_scope_unprotected:
  "sqlite_verify_integrity P loads (rescope f g T) = sqlite_verify_integrity P loads T
     \<and> on_startup_verify P loads (rescope f g T) = on_startup_verify P loads T"
  by (simp add: on_startup_verify_def sqlite_verify_integrity_def sqlite_get_events_def
      rows_events_rescope)

end
