(* ===== verification/Consequential.thy ===== *)
theory Consequential
  imports Executor EventStore
begin

text \<open>
  Consequential operations: \<open>src/execution/consequential.py\<close> (repository and execution
  manager), the provider interface of \<open>src/settlement/adapter.py\<close>, and
  \<open>src/settlement/reconciliation.py\<close>.  The state is everything an operation can change: the ledger,
  the operations table, the token journal, the event store, the provider and the organisation
  object.  Operation parameters are JSON values, which \<open>json.dumps\<close> and \<open>json.loads\<close> preserve.
\<close>

section \<open>The repository\<close>

type_synonym op_table = "consequential_operation list"

definition repo_get :: "op_table \<Rightarrow> string \<Rightarrow> consequential_operation option" where
  "repo_get R i = find (\<lambda>op. op_id op = i) R"

definition repo_get_by_key :: "op_table \<Rightarrow> string \<Rightarrow> consequential_operation option" where
  "repo_get_by_key R k = find (\<lambda>op. op_idempotency_key op = k) R"

text \<open>\<open>save\<close>: the update leaves \<open>created_at\<close>; \<open>idempotency_key\<close> is \<open>UNIQUE\<close>.\<close>

definition repo_save :: "op_table \<Rightarrow> consequential_operation \<Rightarrow> op_table result" where
  "repo_save R op =
     (if \<exists>x \<in> set R. op_idempotency_key x = op_idempotency_key op \<and> op_id x \<noteq> op_id op
      then raise IntegrityError ''UNIQUE constraint failed: idempotency_key''
      else case repo_get R (op_id op) of
        None \<Rightarrow> Inr (R @ [op])
      | Some old \<Rightarrow> Inr (map (\<lambda>x. if op_id x = op_id op then op\<lparr>op_created_at := op_created_at x\<rparr> else x) R))"

definition repo_list_for_org :: "op_table \<Rightarrow> string \<Rightarrow> operation_state option \<Rightarrow> consequential_operation list" where
  "repo_list_for_org R org st = rev (sort_key op_created_at (filter (\<lambda>op. op_organisation_id op = org \<and>
     (case st of None \<Rightarrow> True | Some x \<Rightarrow> op_state op = x)) R))"

section \<open>Providers, ledger and state\<close>

record provider_result =
  px_outcome :: provider_outcome
  px_reference :: "string option"
  px_raw :: "(string \<times> json) list"
  px_error :: "string option"
  px_evidence :: "string option"

record 'p provider_ops =
  po_name :: string
  po_execute :: "consequential_operation \<Rightarrow> ('p, provider_result) act"
  po_status :: "string \<Rightarrow> string \<Rightarrow> string option \<Rightarrow> ('p, provider_result) act"

record 'l entry_ops = "'l ledger_ops" +
  lo_get_entries :: "'l \<Rightarrow> ledger_entry list"

record ('l, 'p) cons_state =
  cs_ledger :: 'l
  cs_repo :: "op_table option"
  cs_tokens :: "token_table option"
  cs_events :: "event_store option"
  cs_provider :: 'p
  cs_org :: organisation

definition save_op :: "consequential_operation \<Rightarrow> (('l, 'p) cons_state, unit) act" where
  "save_op op s =
     (case cs_repo s of
        None \<Rightarrow> (Inr (), s)
      | Some R \<Rightarrow> (case repo_save R op of
            Inl x \<Rightarrow> (Inl x, s) | Inr R' \<Rightarrow> (Inr (), s\<lparr>cs_repo := Some R'\<rparr>)))"

definition log_event ::
  "prims \<Rightarrow> env \<Rightarrow> string \<Rightarrow> string \<Rightarrow> string \<Rightarrow> (string \<times> json) list \<Rightarrow> (('l, 'p) cons_state, unit) act"
where
  "log_event P E actor ty ent payload s =
     (case cs_events s of
        None \<Rightarrow> (Inr (), s)
      | Some S \<Rightarrow> (Inr (), s\<lparr>cs_events := Some (snd (append_event P E S actor ty ent payload))\<rparr>))"

definition cons_move ::
  "'l entry_ops \<Rightarrow> env \<Rightarrow> string \<Rightarrow> string \<Rightarrow> int \<Rightarrow> string \<Rightarrow> string \<Rightarrow> (('l, 'p) cons_state, unit) act" where
  "cons_move ops E f t n memo tx s =
     (case lo_transfer ops E (cs_ledger s) f t n memo (Some tx) of
        Inl x \<Rightarrow> (Inl x, s)
      | Inr (e, L) \<Rightarrow> (Inr (), s\<lparr>cs_ledger := L\<rparr>))"

definition refresh_treasury :: "'l entry_ops \<Rightarrow> (('l, 'p) cons_state, unit) act" where
  "refresh_treasury ops s =
     (Inr (), s\<lparr>cs_org := (cs_org s)\<lparr>og_treasury_balance := lo_get_balance ops (cs_ledger s) TREASURY\<rparr>\<rparr>)"

definition call_provider :: "('p, 'a) act \<Rightarrow> (('l, 'p) cons_state, 'a) act" where
  "call_provider f s = (case f (cs_provider s) of (r, pv) \<Rightarrow> (r, s\<lparr>cs_provider := pv\<rparr>))"

definition OP_ACTOR :: string where "OP_ACTOR = ''CONSEQUENTIAL_EXECUTOR''"

definition op_dump :: "consequential_operation \<Rightarrow> (string \<times> json) list" where
  "op_dump op = [(''id'', JStr (op_id op)), (''tenant_id'', JStr (op_tenant_id op)),
     (''organisation_id'', JStr (op_organisation_id op)), (''proposal_id'', JStr (op_proposal_id op)),
     (''decision_id'', JStr (op_decision_id op)), (''idempotency_key'', JStr (op_idempotency_key op)),
     (''action_type'', JStr (action_value (op_action_type op))), (''target'', JStr (op_target op)),
     (''parameters'', JObj (op_parameters op)), (''amount'', JInt (op_amount op)),
     (''provider_name'', JStr (op_provider_name op)),
     (''provider_reference'', opt_json (op_provider_reference op)),
     (''state'', JStr (operation_state_value (op_state op))),
     (''error_message'', opt_json (op_error_message op)), (''created_at'', JStr (op_created_at op)),
     (''updated_at'', JStr (op_updated_at op))]"

section \<open>The execution manager\<close>

definition new_operation ::
  "string \<Rightarrow> env \<Rightarrow> action_proposal \<Rightarrow> policy_decision \<Rightarrow> organisation \<Rightarrow> string \<Rightarrow> consequential_operation"
where
  "new_operation pname E p d g key = \<lparr>op_id = ''cop-'' @ take 12 (e_uuid E 0), op_tenant_id = og_tenant_id g,
     op_organisation_id = og_id g, op_proposal_id = pr_id p, op_decision_id = pd_id d,
     op_idempotency_key = key, op_action_type = pr_action_type p, op_target = pr_target p,
     op_parameters = pr_parameters p, op_amount = pr_requested_credits p,
     op_provider_name = pname, op_provider_reference = None, op_state = Op_CREATED,
     op_error_message = None, op_created_at = e_now E 0, op_updated_at = e_now E 1\<rparr>"

definition register_operation ::
  "prims \<Rightarrow> env \<Rightarrow> consequential_operation \<Rightarrow> (('l, 'p) cons_state, consequential_operation) act" where
  "register_operation P E op =
     act_bind (save_op op) (\<lambda>_.
     act_bind (log_event P (env_skip 2 E) OP_ACTOR ''CONSEQUENTIAL_OPERATION_CREATED'' (op_id op) (op_dump op)) (\<lambda>_.
       act_return op))"

definition create_operation ::
  "exec_config \<Rightarrow> string \<Rightarrow> env \<Rightarrow> rat \<Rightarrow> action_proposal \<Rightarrow> policy_decision \<Rightarrow> string option \<Rightarrow>
     (('l, 'p) cons_state, consequential_operation) act" where
  "create_operation C pname E now p d idem s =
     (if pd_result d \<noteq> Policy_APPROVED
      then (raise PolicyViolationError ''Execution rejected: decision is not APPROVED'', s)
      else if \<not> py_truthy (pd_authorization_token d)
      then (raise UnauthorizedActionError ''Execution rejected: Missing authorization token'', s)
      else if \<not> fst (verify_token (xc_prims C) (xc_loads C) (xc_engine C) (the (pd_authorization_token d)) p
                (cs_org s) (Some d) now)
      then (raise UnauthorizedActionError ''Execution rejected'', s)
      else case enforce_agent_capability p (cs_org s) of
        Inl x \<Rightarrow> (Inl x, s)
      | Inr _ \<Rightarrow>
          let g = cs_org s; key = py_or idem (og_id g @ '':'' @ pr_id p); ten = og_tenant_id g in
          (case (case cs_repo s of None \<Rightarrow> None | Some R \<Rightarrow> repo_get_by_key R key) of
             Some existing \<Rightarrow>
               if op_tenant_id existing \<noteq> ten \<or> op_organisation_id existing \<noteq> og_id g
               then (raise UnauthorizedActionError ''Cross-tenant or cross-organisation operation key conflict'', s)
               else if get_fingerprint (xc_prims C) existing \<noteq> sha256 (xc_prims C) (canonical_json (xc_prims C)
                      (operation_fingerprint_json ten (og_id g) (pr_id p) (pd_id d) key (pr_action_type p)
                         (pr_target p) (pr_parameters p) (pr_requested_credits p) pname))
               then (raise IdempotencyConflict ''Operation key was already registered with different parameters'', s)
               else (Inr existing, s)
           | None \<Rightarrow>
               if pr_requested_credits p < 0
               then (raise ValidationError ''amount must be greater than or equal to 0'', s)
               else register_operation (xc_prims C) E (new_operation pname E p d g key) s))"

text \<open>A transition, the save that follows it, and the event.\<close>

definition op_advance ::
  "prims \<Rightarrow> env \<Rightarrow> consequential_operation \<Rightarrow> operation_state \<Rightarrow> string option \<Rightarrow> string option \<Rightarrow> string \<Rightarrow>
     string \<Rightarrow> (string \<times> json) list \<Rightarrow> (('l, 'p) cons_state, consequential_operation) act" where
  "op_advance P E op new err ref actor ty extra =
     act_bind (act_lift (transition_to (e_now E 0) op new err ref)) (\<lambda>op'.
     act_bind (save_op op') (\<lambda>_.
     act_bind (log_event P (env_skip 1 E) actor ty (op_id op')
       ((''operation_id'', JStr (op_id op')) # extra)) (\<lambda>_.
       act_return op')))"

definition authorize_operation ::
  "exec_config \<Rightarrow> env \<Rightarrow> consequential_operation \<Rightarrow> action_proposal \<Rightarrow> policy_decision \<Rightarrow>
     (('l, 'p) cons_state, consequential_operation) act" where
  "authorize_operation C E op p d s =
     (if \<not> py_truthy (pd_authorization_token d)
      then (raise UnauthorizedActionError ''Missing authorization token'', s)
      else let token = the (pd_authorization_token d);
               go = op_advance (xc_prims C) (env_skip 1 E) op Op_AUTHORIZED None None OP_ACTOR
                 ''CONSEQUENTIAL_OPERATION_AUTHORIZED'' [(''state'', JStr ''authorized'')]
        in case cs_tokens s of
             None \<Rightarrow> go s
           | Some T \<Rightarrow>
               (case claims_from_b64 (xc_prims C) (xc_loads C) (py_split (CHR ''.'') token ! 1) of
                  Inl x \<Rightarrow> (Inl x, s)
                | Inr c \<Rightarrow>
                    (case consume_token E T (tc_nonce c) (og_id (cs_org s)) (pr_id p)
                            (get_content_hash (xc_prims C) p) (pd_id d) (tc_policy_version_hash c)
                            (sha256 (xc_prims C) token) of
                       Inr T' \<Rightarrow> go (s\<lparr>cs_tokens := Some T'\<rparr>)
                     | Inl x \<Rightarrow>
                         if exc_kind x \<noteq> TokenAlreadyConsumed then (Inl x, s)
                         else act_bind (act_lift (transition_to (e_now E 1) op Op_FAILED
                                  (Some ''Authorization token already consumed'') None)) (\<lambda>op'.
                              act_bind (save_op op') (\<lambda>_.
                              act_raise UnauthorizedActionError
                                ''Execution rejected: Token has already been consumed (replay barrier)'')) s)))"

definition escrow_tx :: "prims \<Rightarrow> consequential_operation \<Rightarrow> string" where
  "escrow_tx P op = ''res-'' @ take 16 (sha256 P (op_id op))"

definition escrow_memo :: "consequential_operation \<Rightarrow> string" where
  "escrow_memo op = ''Escrow lock for consequential operation '' @ op_id op"

definition escrow_operation ::
  "'l entry_ops \<Rightarrow> prims \<Rightarrow> env \<Rightarrow> consequential_operation \<Rightarrow>
     (('l, 'p) cons_state, consequential_operation) act" where
  "escrow_operation ops P E op =
     (if op_state op \<noteq> Op_AUTHORIZED
      then act_raise InvalidStateTransitionError ''Cannot escrow operation (must be AUTHORIZED)''
      else act_bind
        (if op_amount op > 0
         then act_bind (\<lambda>s.
             case find (\<lambda>e. le_transaction_id e = escrow_tx P op) (lo_get_entries ops (cs_ledger s)) of
               Some e \<Rightarrow>
                 if le_from_account e \<noteq> TREASURY \<or> le_to_account e \<noteq> ESCROW \<or> le_amount e \<noteq> op_amount op \<or>
                    \<not> sublist (op_id op) (le_memo e)
                 then (raise InvalidStateTransitionError ''Escrow transaction exists with unexpected contents'', s)
                 else (Inr (), s)
             | None \<Rightarrow> cons_move ops E TREASURY ESCROW (op_amount op) (escrow_memo op) (escrow_tx P op) s)
           (\<lambda>_. refresh_treasury ops)
         else act_return ())
        (\<lambda>_. op_advance P (env_skip 2 E) op Op_ESCROWED None None OP_ACTOR ''CONSEQUENTIAL_OPERATION_ESCROWED''
           [(''amount'', JInt (op_amount op)), (''state'', JStr ''escrowed'')]))"

text \<open>The transaction id of a direct settlement is derived from the token.\<close>

definition settle_tx :: "prims \<Rightarrow> string \<Rightarrow> policy_decision \<Rightarrow> consequential_operation \<Rightarrow> string" where
  "settle_tx P pre d op = pre @ take 16 (sha256 P (py_or (pd_authorization_token d) (op_id op)))"

definition settle_escrow ::
  "'l entry_ops \<Rightarrow> env \<Rightarrow> consequential_operation \<Rightarrow> string \<Rightarrow> string \<Rightarrow> string \<Rightarrow>
     (('l, 'p) cons_state, unit) act" where
  "settle_escrow ops E op dest memo tx =
     (if op_amount op > 0
      then act_bind (cons_move ops E ESCROW dest (op_amount op) memo tx) (\<lambda>_. refresh_treasury ops)
      else act_return ())"

definition cons_receipt ::
  "env \<Rightarrow> action_proposal \<Rightarrow> policy_decision \<Rightarrow> int \<Rightarrow> string \<Rightarrow> (string \<times> json) list \<Rightarrow> execution_receipt" where
  "cons_receipt E p d amount hash raw = \<lparr>rc_id = e_uuid E 0, rc_proposal_id = pr_id p,
     rc_authorization_token = py_or (pd_authorization_token d) ''TOKEN-MOCK'',
     rc_action_type = pr_action_type p, rc_target = pr_target p, rc_http_status = Some 200,
     rc_raw_response_hash = hash, rc_raw_output = raw, rc_cost_credits = amount, rc_executed_at = e_now E 0\<rparr>"

text \<open>
  \<open>submit_operation\<close>, in its four outcomes: a transport exception, SUCCESS, FAILURE, and
  TIMEOUT or UNKNOWN.
\<close>

definition submit_exception ::
  "exec_config \<Rightarrow> env \<Rightarrow> consequential_operation \<Rightarrow> (('l, 'p) cons_state, execution_receipt) act" where
  "submit_exception C E op =
     act_bind (op_advance (xc_prims C) E op Op_UNKNOWN (Some ''Transport exception during dispatch'') None
       OP_ACTOR ''CONSEQUENTIAL_OPERATION_UNKNOWN''
       [(''error'', JStr ''transport exception''), (''escrow_locked'', JBool True)])
     (\<lambda>_. act_raise ExternalExecutionError ''Consequential execution outcome is UNKNOWN; escrow remains locked pending reconciliation'')"

definition submit_success ::
  "'l entry_ops \<Rightarrow> exec_config \<Rightarrow> env \<Rightarrow> consequential_operation \<Rightarrow> action_proposal \<Rightarrow> policy_decision \<Rightarrow>
     provider_result \<Rightarrow> (('l, 'p) cons_state, execution_receipt) act" where
  "submit_success ops C E op p d r =
     act_bind (settle_escrow ops E op EXTERNAL_SINK
       (''Settlement commit for consequential operation '' @ op_id op) (settle_tx (xc_prims C) ''tx-'' d op)) (\<lambda>_.
     act_bind (op_advance (xc_prims C) (env_skip 2 E) op Op_SUCCEEDED None (px_reference r) OP_ACTOR
       ''CONSEQUENTIAL_OPERATION_SUCCEEDED'' [(''reference'', opt_json (px_reference r)),
         (''amount'', JInt (op_amount op)), (''evidence_hash'', opt_json (px_evidence r))]) (\<lambda>op'.
       act_return (cons_receipt (env_skip 4 E) p d (op_amount op)
         (py_or (px_evidence r) (sha256 (xc_prims C) (canonical_json (xc_prims C) (JObj (px_raw r))))) (px_raw r))))"

definition submit_failure ::
  "'l entry_ops \<Rightarrow> exec_config \<Rightarrow> env \<Rightarrow> consequential_operation \<Rightarrow> policy_decision \<Rightarrow>
     provider_result \<Rightarrow> (('l, 'p) cons_state, execution_receipt) act" where
  "submit_failure ops C E op d r =
     act_bind (settle_escrow ops E op TREASURY
       (''Escrow rollback for failed consequential operation '' @ op_id op)
       (settle_tx (xc_prims C) ''rollback-'' d op)) (\<lambda>_.
     act_bind (op_advance (xc_prims C) (env_skip 2 E) op Op_FAILED (px_error r) None OP_ACTOR
       ''CONSEQUENTIAL_OPERATION_FAILED'' [(''reason'', opt_json (px_error r)), (''escrow_refunded'', JBool True)]) (\<lambda>op'.
       act_raise ExternalExecutionError ''External execution rejected by provider''))"

definition submit_unknown ::
  "exec_config \<Rightarrow> env \<Rightarrow> consequential_operation \<Rightarrow> provider_result \<Rightarrow> (('l, 'p) cons_state, execution_receipt) act"
where
  "submit_unknown C E op r =
     act_bind (op_advance (xc_prims C) E op Op_UNKNOWN
       (Some (py_or (px_error r) ''Provider returned timeout/unknown outcome'')) (px_reference r) OP_ACTOR
       ''CONSEQUENTIAL_OPERATION_UNKNOWN'' [(''error'', opt_json (px_error r)), (''escrow_locked'', JBool True)]) (\<lambda>_.
       act_raise ExternalExecutionError ''External execution outcome is UNKNOWN; escrow remains locked pending reconciliation'')"

definition submit_result ::
  "'l entry_ops \<Rightarrow> exec_config \<Rightarrow> env \<Rightarrow> consequential_operation \<Rightarrow> action_proposal \<Rightarrow> policy_decision \<Rightarrow>
     provider_result result \<Rightarrow> (('l, 'p) cons_state, execution_receipt) act" where
  "submit_result ops C E op p d res =
     (case res of
        Inl x \<Rightarrow> submit_exception C E op
      | Inr r \<Rightarrow> (case px_outcome r of
            Outcome_SUCCESS \<Rightarrow> submit_success ops C E op p d r
          | Outcome_FAILURE \<Rightarrow> submit_failure ops C E op d r
          | _ \<Rightarrow> submit_unknown C E op r))"

definition submit_operation ::
  "'l entry_ops \<Rightarrow> 'p provider_ops \<Rightarrow> exec_config \<Rightarrow> env \<Rightarrow> consequential_operation \<Rightarrow> action_proposal \<Rightarrow>
     policy_decision \<Rightarrow> (('l, 'p) cons_state, execution_receipt) act" where
  "submit_operation ops pv C E op p d =
     (if op_state op \<noteq> Op_ESCROWED
      then act_raise InvalidStateTransitionError ''Cannot submit operation (must be ESCROWED)''
      else act_bind (op_advance (xc_prims C) E op Op_SUBMITTED None None OP_ACTOR
             ''CONSEQUENTIAL_OPERATION_SUBMITTED'' [(''target'', JStr (op_target op)), (''state'', JStr ''submitted'')]) (\<lambda>op1.
           \<lambda>s. case call_provider (po_execute pv op1) s of
                 (res, s1) \<Rightarrow> submit_result ops C (env_skip 2 E) op1 p d res s1))"

definition execute_proposal ::
  "'l entry_ops \<Rightarrow> 'p provider_ops \<Rightarrow> exec_config \<Rightarrow> env \<Rightarrow> rat \<Rightarrow> action_proposal \<Rightarrow> policy_decision \<Rightarrow>
     string option \<Rightarrow> (('l, 'p) cons_state, execution_receipt) act" where
  "execute_proposal ops pv C E now p d idem =
     act_bind (create_operation C (po_name pv) E now p d idem) (\<lambda>op.
       if op_state op = Op_SUCCEEDED
       then act_return (cons_receipt (env_skip 3 E) p d (op_amount op) (sha256 (xc_prims C) (op_idempotency_key op))
              [(''idempotent_replay'', JBool True), (''reference'', opt_json (op_provider_reference op))])
       else if op_state op \<in> {Op_UNKNOWN, Op_RECONCILING, Op_SUBMITTED}
       then act_raise ExternalExecutionError ''Operation is unresolved; must be reconciled before retry''
       else if op_state op = Op_FAILED
       then act_raise ExternalExecutionError ''Operation previously failed''
       else
         act_bind (if op_state op = Op_CREATED then authorize_operation C (env_skip 3 E) op p d else act_return op) (\<lambda>op1.
         act_bind (if op_state op1 = Op_AUTHORIZED then escrow_operation ops (xc_prims C) (env_skip 6 E) op1
                   else act_return op1) (\<lambda>op2.
           if op_state op2 = Op_ESCROWED then submit_operation ops pv C (env_skip 10 E) op2 p d
           else act_raise InvalidStateTransitionError ''Unexpected operation state'')))"

section \<open>Reconciliation\<close>

definition REC_ACTOR :: string where "REC_ACTOR = ''RECONCILIATION_SERVICE''"

definition rec_tx :: "prims \<Rightarrow> string \<Rightarrow> consequential_operation \<Rightarrow> string" where
  "rec_tx P pre op = pre @ take 16 (sha256 P (op_id op))"

definition already_settled :: "prims \<Rightarrow> consequential_operation \<Rightarrow> ledger_entry list \<Rightarrow> bool" where
  "already_settled P op es \<longleftrightarrow>
     (\<exists>e \<in> set es. le_transaction_id e = rec_tx P ''tx-rec-'' op \<and> le_from_account e = ESCROW \<and>
        le_to_account e = EXTERNAL_SINK \<and> le_amount e = op_amount op) \<or>
     (\<exists>e \<in> set es. sublist (op_id op) (le_memo e) \<and> le_to_account e = EXTERNAL_SINK \<and> le_amount e = op_amount op)"

definition already_refunded :: "prims \<Rightarrow> consequential_operation \<Rightarrow> ledger_entry list \<Rightarrow> bool" where
  "already_refunded P op es \<longleftrightarrow>
     (\<exists>e \<in> set es. le_transaction_id e = rec_tx P ''rollback-rec-'' op \<and> le_from_account e = ESCROW \<and>
        le_to_account e = TREASURY \<and> le_amount e = op_amount op) \<or>
     (\<exists>e \<in> set es. sublist (op_id op) (le_memo e) \<and> le_to_account e = TREASURY \<and>
        le_from_account e = ESCROW \<and> le_amount e = op_amount op)"

definition is_duplicate_error :: "exc \<Rightarrow> bool" where
  "is_duplicate_error x \<longleftrightarrow> sublist ''Duplicate transaction ID'' (exc_msg x) \<or>
     sublist ''UNIQUE constraint failed'' (exc_msg x)"

text \<open>Move the escrow once; a duplicate of the deterministic transaction id is not an error.\<close>

definition rec_settle ::
  "'l entry_ops \<Rightarrow> env \<Rightarrow> consequential_operation \<Rightarrow> bool \<Rightarrow> string \<Rightarrow> string \<Rightarrow> string \<Rightarrow>
     (('l, 'p) cons_state, unit) act" where
  "rec_settle ops E op done_before dest memo tx s =
     (if op_amount op > 0 \<and> \<not> done_before \<and> lo_get_balance ops (cs_ledger s) ESCROW \<ge> op_amount op
      then case act_bind (cons_move ops E ESCROW dest (op_amount op) memo tx) (\<lambda>_. refresh_treasury ops) s of
             (Inr u, s') \<Rightarrow> (Inr u, s')
           | (Inl x, s') \<Rightarrow> if is_duplicate_error x then (Inr (), s') else (Inl x, s')
      else (Inr (), s))"

definition fresh_reconciled :: "consequential_operation \<Rightarrow> ('l, 'p) cons_state \<Rightarrow> consequential_operation option" where
  "fresh_reconciled op s = (case cs_repo s of
       None \<Rightarrow> None
     | Some R \<Rightarrow> (case repo_get R (op_id op) of
           Some x \<Rightarrow> if op_state x = Op_RECONCILED then Some x else None | None \<Rightarrow> None))"

definition rec_finish ::
  "prims \<Rightarrow> env \<Rightarrow> consequential_operation \<Rightarrow> string option \<Rightarrow> string option \<Rightarrow> string \<Rightarrow> (string \<times> json) list \<Rightarrow>
     (('l, 'p) cons_state, consequential_operation) act" where
  "rec_finish P E op err ref ty extra s =
     (case fresh_reconciled op s of
        Some x \<Rightarrow> (Inr x, s)
      | None \<Rightarrow> op_advance P E op Op_RECONCILED err ref REC_ACTOR ty extra s)"

definition rec_outcome ::
  "'l entry_ops \<Rightarrow> prims \<Rightarrow> env \<Rightarrow> consequential_operation \<Rightarrow> provider_result \<Rightarrow>
     (('l, 'p) cons_state, consequential_operation) act" where
  "rec_outcome ops P E op st =
     (case px_outcome st of
        Outcome_SUCCESS \<Rightarrow> act_bind (\<lambda>s. rec_settle ops E op
            (already_settled P op (lo_get_entries ops (cs_ledger s))) EXTERNAL_SINK
            (''Reconciliation settlement for operation '' @ op_id op) (rec_tx P ''tx-rec-'' op) s) (\<lambda>_.
          rec_finish P (env_skip 2 E) op None (px_reference st) ''CONSEQUENTIAL_OPERATION_RECONCILED_SUCCESS''
            [(''reference'', opt_json (px_reference st)), (''evidence_hash'', opt_json (px_evidence st)),
             (''settled_amount'', JInt (op_amount op))])
      | Outcome_FAILURE \<Rightarrow> act_bind (\<lambda>s. rec_settle ops E op
            (already_refunded P op (lo_get_entries ops (cs_ledger s))) TREASURY
            (''Reconciliation escrow release for failed operation '' @ op_id op) (rec_tx P ''rollback-rec-'' op) s) (\<lambda>_.
          rec_finish P (env_skip 2 E) op (Some (py_or (px_error st) ''Provider confirmed failure''))
            (px_reference st) ''CONSEQUENTIAL_OPERATION_RECONCILED_FAILURE''
            [(''reason'', opt_json (px_error st)), (''refunded_amount'', JInt (op_amount op))])
      | _ \<Rightarrow> op_advance P (env_skip 2 E) op Op_UNKNOWN
            (Some ''Provider status remains unresolved; escrow preserved'') None REC_ACTOR
            ''CONSEQUENTIAL_OPERATION_RECONCILIATION_UNRESOLVED''
            [(''state'', JStr ''unknown''), (''escrow_locked'', JBool True)])"

definition reconcile_operation ::
  "'l entry_ops \<Rightarrow> 'p provider_ops \<Rightarrow> prims \<Rightarrow> env \<Rightarrow> string \<Rightarrow> (('l, 'p) cons_state, consequential_operation) act"
where
  "reconcile_operation ops pv P E operation_id s =
     (case (case cs_repo s of None \<Rightarrow> None | Some R \<Rightarrow> repo_get R operation_id) of
        None \<Rightarrow> (raise ReconciliationError ''Consequential operation not found'', s)
      | Some op \<Rightarrow>
          if op_tenant_id op \<noteq> og_tenant_id (cs_org s) \<or> op_organisation_id op \<noteq> og_id (cs_org s)
          then (raise UnauthorizedActionError ''Isolation violation: Cannot reconcile operation belonging to a different tenant or organisation'', s)
          else if op_state op \<in> {Op_SUCCEEDED, Op_FAILED, Op_RECONCILED} then (Inr op, s)
          else if op_state op \<notin> {Op_UNKNOWN, Op_RECONCILING, Op_SUBMITTED}
          then (raise ReconciliationError ''Cannot reconcile operation (must be UNKNOWN, RECONCILING, or SUBMITTED)'', s)
          else act_bind
            (if op_state op \<noteq> Op_RECONCILING
             then op_advance P E op Op_RECONCILING None None REC_ACTOR ''CONSEQUENTIAL_OPERATION_RECONCILING''
                    [(''state'', JStr ''reconciling'')]
             else act_return op)
            (\<lambda>op1. act_bind (call_provider (po_status pv (op_id op1) (op_idempotency_key op1)
                (op_provider_reference op1))) (\<lambda>st.
              rec_outcome ops P (env_skip 2 E) op1 st)) s)"

end
