(* ===== verification/Provider.thy ===== *)
theory Provider
  imports Consequential
begin

text \<open>
  The provider side of a settlement: \<open>SimulatedConsequentialProvider\<close>
  (\<open>src/settlement/simulated_provider.py\<close>), \<open>SimulatedSettlementAdapter\<close>
  (\<open>src/settlement/adapter.py\<close>), and the interface \<open>honest_provider\<close> of providers that keep one
  outcome per idempotency key.
\<close>

section \<open>The simulated provider\<close>

record provider_record =
  vr_operation_id :: string
  vr_idempotency_key :: string
  vr_target :: string
  vr_amount :: int
  vr_outcome :: provider_outcome
  vr_provider_reference :: string
  vr_evidence_hash :: string
  vr_submission_count :: int

record sim_provider =
  sv_records :: "(string \<times> provider_record) list"
  sv_timeout_keys :: "string set"
  sv_timeout_success :: "string set"
  sv_timeout_failure :: "string set"
  sv_failure_rules :: "(string \<times> string) list"
  sv_attempts :: "(string \<times> int) list"

definition empty_provider :: sim_provider where
  "empty_provider = \<lparr>sv_records = [], sv_timeout_keys = {}, sv_timeout_success = {},
     sv_timeout_failure = {}, sv_failure_rules = [], sv_attempts = []\<rparr>"

fun outcome_value :: "provider_outcome \<Rightarrow> string" where
  "outcome_value Outcome_SUCCESS = ''SUCCESS''"
| "outcome_value Outcome_FAILURE = ''FAILURE''"
| "outcome_value Outcome_TIMEOUT = ''TIMEOUT''"
| "outcome_value Outcome_UNKNOWN = ''UNKNOWN''"

definition set_timeout_rule ::
  "string \<Rightarrow> bool \<Rightarrow> bool \<Rightarrow> string option \<Rightarrow> sim_provider \<Rightarrow> sim_provider" where
  "set_timeout_rule key bg_success bg_failure reason V = V\<lparr>
     sv_timeout_keys := insert key (sv_timeout_keys V),
     sv_timeout_success := (if bg_success then insert key (sv_timeout_success V) else sv_timeout_success V),
     sv_timeout_failure := (if bg_failure then insert key (sv_timeout_failure V) else sv_timeout_failure V),
     sv_failure_rules := (if bg_failure \<and> py_truthy reason
       then AList.update key (the reason) (sv_failure_rules V) else sv_failure_rules V)\<rparr>"

definition set_failure_rule :: "string \<Rightarrow> string \<Rightarrow> sim_provider \<Rightarrow> sim_provider" where
  "set_failure_rule key reason V = V\<lparr>sv_failure_rules := AList.update key reason (sv_failure_rules V)\<rparr>"

definition sim_prepare :: "consequential_operation \<Rightarrow> bool" where
  "sim_prepare op \<longleftrightarrow> \<not> op_amount op < 0"

definition compute_reference :: "prims \<Rightarrow> consequential_operation \<Rightarrow> string" where
  "compute_reference P op = ''ext-ref-'' @ take 20 (sha256 P
     (op_organisation_id op @ bar @ op_id op @ bar @ op_idempotency_key op @ bar @ str_int P (op_amount op)))"

definition compute_evidence :: "prims \<Rightarrow> string \<Rightarrow> consequential_operation \<Rightarrow> string" where
  "compute_evidence P ref op = sha256 P (canonical_json P (JObj [(''ref'', JStr ref),
     (''op_id'', JStr (op_id op)), (''idem_key'', JStr (op_idempotency_key op)),
     (''amount'', JInt (op_amount op)), (''target'', JStr (op_target op))]))"

definition new_record :: "prims \<Rightarrow> consequential_operation \<Rightarrow> provider_outcome \<Rightarrow> provider_record" where
  "new_record P op out = \<lparr>vr_operation_id = op_id op, vr_idempotency_key = op_idempotency_key op,
     vr_target = op_target op, vr_amount = op_amount op, vr_outcome = out,
     vr_provider_reference = compute_reference P op,
     vr_evidence_hash = compute_evidence P (compute_reference P op) op, vr_submission_count = 1\<rparr>"

definition put_record :: "prims \<Rightarrow> consequential_operation \<Rightarrow> provider_outcome \<Rightarrow> sim_provider \<Rightarrow> sim_provider" where
  "put_record P op out V =
     V\<lparr>sv_records := AList.update (op_idempotency_key op) (new_record P op out) (sv_records V)\<rparr>"

definition keyed :: "consequential_operation \<Rightarrow> string set \<Rightarrow> bool" where
  "keyed op K \<longleftrightarrow> op_idempotency_key op \<in> K \<or> op_id op \<in> K"

definition sim_execute :: "prims \<Rightarrow> consequential_operation \<Rightarrow> (sim_provider, provider_result) act" where
  "sim_execute P op V0 =
     (let key = op_idempotency_key op;
          V = V0\<lparr>sv_attempts := AList.update key (dict_get (sv_attempts V0) key 0 + 1) (sv_attempts V0)\<rparr>;
          ref = compute_reference P op; ev = compute_evidence P ref op in
      case map_of (sv_records V) key of
        Some r \<Rightarrow>
          let r' = r\<lparr>vr_submission_count := vr_submission_count r + 1\<rparr> in
          (Inr \<lparr>px_outcome = vr_outcome r, px_reference = Some (vr_provider_reference r),
             px_raw = [(''status'', JStr (outcome_value (vr_outcome r))),
               (''reference'', JStr (vr_provider_reference r)), (''duplicate_submission'', JBool True),
               (''submission_count'', JInt (vr_submission_count r'))],
             px_error = None, px_evidence = Some (vr_evidence_hash r)\<rparr>,
           V\<lparr>sv_records := AList.update key r' (sv_records V)\<rparr>)
      | None \<Rightarrow>
          if keyed op (sv_timeout_keys V)
          then (Inr \<lparr>px_outcome = Outcome_TIMEOUT, px_reference = None,
                  px_raw = [(''error'', JStr ''Simulated upstream transport timeout'')],
                  px_error = Some ''Simulated upstream transport timeout'', px_evidence = None\<rparr>,
                if keyed op (sv_timeout_success V) then put_record P op Outcome_SUCCESS V
                else if keyed op (sv_timeout_failure V) then put_record P op Outcome_FAILURE V
                else V)
          else let reason = py_or (map_of (sv_failure_rules V) key)
                              (py_or (map_of (sv_failure_rules V) (op_id op)) []) in
            if reason \<noteq> []
            then (Inr \<lparr>px_outcome = Outcome_FAILURE, px_reference = Some ref,
                    px_raw = [(''error'', JStr reason), (''status'', JStr ''REJECTED'')],
                    px_error = Some reason, px_evidence = Some ev\<rparr>,
                  put_record P op Outcome_FAILURE V)
            else (Inr \<lparr>px_outcome = Outcome_SUCCESS, px_reference = Some ref,
                    px_raw = [(''status'', JStr ''ACCEPTED''), (''reference'', JStr ref),
                      (''target'', JStr (op_target op)), (''amount'', JInt (op_amount op))],
                    px_error = None, px_evidence = Some ev\<rparr>,
                  put_record P op Outcome_SUCCESS V))"

definition sim_lookup :: "sim_provider \<Rightarrow> string \<Rightarrow> string \<Rightarrow> provider_record option" where
  "sim_lookup V operation_id key =
     (if key \<noteq> [] \<and> map_of (sv_records V) key \<noteq> None then map_of (sv_records V) key
      else find (\<lambda>r. vr_operation_id r = operation_id) (map snd (sv_records V)))"

definition sim_status :: "string \<Rightarrow> string \<Rightarrow> string option \<Rightarrow> (sim_provider, provider_result) act" where
  "sim_status operation_id key ref V =
     (Inr (case sim_lookup V operation_id key of
        None \<Rightarrow> \<lparr>px_outcome = Outcome_UNKNOWN, px_reference = None,
            px_raw = [(''error'', JStr ''Operation unknown to external provider'')],
            px_error = Some ''Operation not found in external provider records'', px_evidence = None\<rparr>
      | Some r \<Rightarrow> \<lparr>px_outcome = vr_outcome r, px_reference = Some (vr_provider_reference r),
            px_raw = [(''status'', JStr (outcome_value (vr_outcome r))),
              (''reference'', JStr (vr_provider_reference r)),
              (''submission_count'', JInt (vr_submission_count r))],
            px_error = None, px_evidence = Some (vr_evidence_hash r)\<rparr>), V)"

definition record_external_execution ::
  "prims \<Rightarrow> string \<Rightarrow> string \<Rightarrow> provider_outcome \<Rightarrow> string \<Rightarrow> int \<Rightarrow> string option \<Rightarrow> string option \<Rightarrow>
     sim_provider \<Rightarrow> provider_record \<times> sim_provider" where
  "record_external_execution P key op out target amount reference evidence V =
     (let ref = py_or reference (''ext-ref-'' @ take 16 (sha256 P key));
          ev = py_or evidence (sha256 P (ref @ bar @ str_int P amount));
          r = \<lparr>vr_operation_id = op, vr_idempotency_key = key, vr_target = target, vr_amount = amount,
            vr_outcome = out, vr_provider_reference = ref, vr_evidence_hash = ev, vr_submission_count = 1\<rparr>
      in (r, V\<lparr>sv_records := AList.update key r (sv_records V)\<rparr>))"

definition sim_ops :: "prims \<Rightarrow> sim_provider provider_ops" where
  "sim_ops P = \<lparr>po_name = ''simulated'', po_execute = sim_execute P, po_status = sim_status\<rparr>"

section \<open>The settlement adapter\<close>

record settlement_intent =
  si_organization_id :: string
  si_proposal_id :: string
  si_from_account :: string
  si_destination :: string
  si_amount :: int
  si_authorization_token :: string

record settlement_receipt =
  sr_adapter :: string
  sr_proposal_id :: string
  sr_destination :: string
  sr_amount :: int
  sr_external_reference :: string
  sr_success :: bool
  sr_evidence_hash :: string

definition adapter_settle :: "prims \<Rightarrow> int \<Rightarrow> settlement_intent \<Rightarrow> settlement_receipt result" where
  "adapter_settle P time_ns i =
     (if si_amount i \<le> 0 then raise ValueError ''Settlement amount must be positive''
      else if si_authorization_token i = [] then raise ValueError ''Settlement requires an authorization token''
      else let ref = ''sim-'' @ take 24 (sha256 P (si_organization_id i @ bar @ si_proposal_id i @ bar @
                 si_destination i @ bar @ str_int P (si_amount i))) in
        Inr \<lparr>sr_adapter = ''simulated'', sr_proposal_id = si_proposal_id i,
             sr_destination = si_destination i, sr_amount = si_amount i, sr_external_reference = ref,
             sr_success = True, sr_evidence_hash = sha256 P (ref @ bar @ str_int P time_ns)\<rparr>)"

section \<open>Honest providers\<close>

text \<open>
  What settlement relies on: the provider decides each idempotency key at most once
  (\<open>effect\<close>), reports SUCCESS or FAILURE only for what it decided, and its status query reports
  the decision.
\<close>

definition decided :: "provider_outcome \<Rightarrow> bool" where
  "decided out \<longleftrightarrow> out = Outcome_SUCCESS \<or> out = Outcome_FAILURE"

locale honest_provider =
  fixes effect :: "'p \<Rightarrow> string \<Rightarrow> provider_outcome option"
    and exec :: "consequential_operation \<Rightarrow> ('p, provider_result) act"
    and status :: "string \<Rightarrow> string \<Rightarrow> string option \<Rightarrow> ('p, provider_result) act"
  assumes exec_stable: "exec op v = (r, v') \<Longrightarrow> effect v k = Some out \<Longrightarrow> effect v' k = Some out"
    and exec_only: "exec op v = (r, v') \<Longrightarrow> k \<noteq> op_idempotency_key op \<Longrightarrow> effect v' k = effect v k"
    and exec_reports: "exec op v = (Inr x, v') \<Longrightarrow> decided (px_outcome x) \<Longrightarrow>
      effect v' (op_idempotency_key op) = Some (px_outcome x)"
    and status_pure: "status i k ref v = (r, v') \<Longrightarrow> v' = v"
    and status_reports: "k \<noteq> [] \<Longrightarrow> effect v k = Some out \<Longrightarrow>
      \<exists>x. status i k ref v = (Inr x, v) \<and> px_outcome x = out"
begin

inductive provider_calls :: "'p \<Rightarrow> 'p \<Rightarrow> bool" where
  calls_refl: "provider_calls v v"
| calls_exec: "provider_calls v v1 \<Longrightarrow> exec op v1 = (r, v2) \<Longrightarrow> provider_calls v v2"

lemma calls_stable: "provider_calls v v' \<Longrightarrow> effect v k = Some out \<Longrightarrow> effect v' k = Some out"
  by (induction rule: provider_calls.induct) (auto intro: exec_stable)

text \<open>A reported outcome is what every later status query reports.\<close>

lemma report_is_final:
  assumes "exec op v = (Inr x, v1)" "decided (px_outcome x)" "provider_calls v1 v2"
    and "op_idempotency_key op \<noteq> []"
  shows "\<exists>y. status i (op_idempotency_key op) ref v2 = (Inr y, v2) \<and> px_outcome y = px_outcome x"
proof -
  have "effect v1 (op_idempotency_key op) = Some (px_outcome x)"
    using assms(1,2) by (rule exec_reports)
  then have "effect v2 (op_idempotency_key op) = Some (px_outcome x)"
    by (rule calls_stable [OF assms(3)])
  then show ?thesis by (rule status_reports [OF assms(4)])
qed

end

definition sim_effect :: "sim_provider \<Rightarrow> string \<Rightarrow> provider_outcome option" where
  "sim_effect V k = map_option vr_outcome (map_of (sv_records V) k)"

lemma sim_put_effect [simp]:
  "sim_effect (put_record P op out V) k = (if k = op_idempotency_key op then Some out else sim_effect V k)"
  by (simp add: sim_effect_def put_record_def new_record_def update_conv)

lemma sim_attempts_effect [simp]: "sim_effect (V\<lparr>sv_attempts := a\<rparr>) k = sim_effect V k"
  by (simp add: sim_effect_def)

lemma sim_recount_effect:
  "map_of (sv_records V) key = Some r \<Longrightarrow>
     sim_effect (V\<lparr>sv_records := AList.update key (r\<lparr>vr_submission_count := n\<rparr>) (sv_records V)\<rparr>) k = sim_effect V k"
  by (simp add: sim_effect_def update_conv)

text \<open>Either the key was decided before, and its outcome is repeated, or it may be decided now.\<close>

lemma sim_execute_known:
  assumes "map_of (sv_records V) (op_idempotency_key op) = Some rec"
  shows "\<exists>x V'. sim_execute P op V = (Inr x, V') \<and> px_outcome x = vr_outcome rec \<and>
     (\<forall>k. sim_effect V' k = sim_effect V k)"
proof -
  let ?V = "V\<lparr>sv_attempts := AList.update (op_idempotency_key op)
    (dict_get (sv_attempts V) (op_idempotency_key op) 0 + 1) (sv_attempts V)\<rparr>"
  have "sim_effect (?V\<lparr>sv_records := AList.update (op_idempotency_key op)
      (rec\<lparr>vr_submission_count := n\<rparr>) (sv_records ?V)\<rparr>) k = sim_effect V k" for n k
    using assms by (subst sim_recount_effect) simp_all
  then show ?thesis using assms by (simp add: sim_execute_def Let_def)
qed

lemma sim_execute_new:
  assumes "map_of (sv_records V) (op_idempotency_key op) = None"
  shows "\<exists>x V' out. sim_execute P op V = (Inr x, V') \<and>
     (\<forall>k. sim_effect V' k = (if k = op_idempotency_key op then out else sim_effect V k)) \<and>
     (decided (px_outcome x) \<longrightarrow> out = Some (px_outcome x))"
  using assms by (simp add: sim_execute_def Let_def decided_def)

lemma sim_execute_effect:
  assumes "sim_execute P op V = (r, V')"
  shows "(\<forall>k. k \<noteq> op_idempotency_key op \<longrightarrow> sim_effect V' k = sim_effect V k) \<and>
     (\<forall>out. sim_effect V (op_idempotency_key op) = Some out \<longrightarrow> sim_effect V' (op_idempotency_key op) = Some out) \<and>
     (\<forall>x. r = Inr x \<longrightarrow> decided (px_outcome x) \<longrightarrow> sim_effect V' (op_idempotency_key op) = Some (px_outcome x))"
proof (cases "map_of (sv_records V) (op_idempotency_key op)")
  case None
  then have "sim_effect V (op_idempotency_key op) = None" by (simp add: sim_effect_def)
  with sim_execute_new [OF None, of P] assms show ?thesis by auto
next
  case (Some rec)
  then have "sim_effect V (op_idempotency_key op) = Some (vr_outcome rec)" by (simp add: sim_effect_def)
  with sim_execute_known [OF Some, of P] assms show ?thesis by auto
qed

lemma sim_status_state: "sim_status i k ref V = (r, V') \<Longrightarrow> V' = V"
  by (simp add: sim_status_def)

lemma sim_status_reports:
  "k \<noteq> [] \<Longrightarrow> sim_effect V k = Some out \<Longrightarrow> \<exists>x. sim_status i k ref V = (Inr x, V) \<and> px_outcome x = out"
  by (auto simp: sim_effect_def sim_status_def sim_lookup_def)

interpretation sim: honest_provider sim_effect "sim_execute P" sim_status for P
proof unfold_locales
  fix op V r V' k out x
  assume run: "sim_execute P op V = (r, V')"
  note facts = sim_execute_effect [OF run]
  show "sim_effect V k = Some out \<Longrightarrow> sim_effect V' k = Some out"
    using facts by (cases "k = op_idempotency_key op") auto
  show "k \<noteq> op_idempotency_key op \<Longrightarrow> sim_effect V' k = sim_effect V k" using facts by simp
qed (use sim_execute_effect in blast, rule sim_status_state, assumption, rule sim_status_reports)

section \<open>Finality of the simulated provider\<close>

text \<open>Any further submissions, for any operations.\<close>

inductive sim_calls :: "prims \<Rightarrow> sim_provider \<Rightarrow> sim_provider \<Rightarrow> bool" for P :: prims where
  sim_calls_refl: "sim_calls P V V"
| sim_calls_step: "sim_calls P V V1 \<Longrightarrow> sim_execute P op V1 = (r, V2) \<Longrightarrow> sim_calls P V V2"

lemma sim_calls_provider: "sim_calls P V V' \<Longrightarrow> sim.provider_calls P V V'"
  by (induction rule: sim_calls.induct) (auto intro: sim.provider_calls.intros)

text \<open>
  C6: the simulated provider decides a key once.  After it reported SUCCESS or FAILURE for an
  operation, and after any further submissions, a status query for its key and a resubmission
  under the same key both report that same outcome.
\<close>

theorem provider_decision_final:
  assumes "sim_execute P op V = (Inr x, V1)" "decided (px_outcome x)" "sim_calls P V1 V2"
    and "op_idempotency_key op \<noteq> []" "op_idempotency_key op2 = op_idempotency_key op"
  shows "(\<exists>y. sim_status i (op_idempotency_key op) ref V2 = (Inr y, V2) \<and> px_outcome y = px_outcome x) \<and>
     (\<exists>z V3. sim_execute P op2 V2 = (Inr z, V3) \<and> px_outcome z = px_outcome x)"
proof -
  have "sim_effect V2 (op_idempotency_key op) = Some (px_outcome x)"
    using sim.calls_stable [OF sim_calls_provider [OF assms(3)] sim.exec_reports [OF assms(1,2)]] .
  then obtain rec where "map_of (sv_records V2) (op_idempotency_key op2) = Some rec" "vr_outcome rec = px_outcome x"
    using assms(5) by (auto simp: sim_effect_def)
  then have "\<exists>z V3. sim_execute P op2 V2 = (Inr z, V3) \<and> px_outcome z = px_outcome x"
    using sim_execute_known [of V2 op2 rec P] by auto
  then show ?thesis
    using sim.report_is_final [OF assms(1,2) sim_calls_provider [OF assms(3)] assms(4)] by blast
qed

theorem provider_decision_final_witness:
  "\<exists>x V1 z V3. sim_execute demo_prims demo_op empty_provider = (Inr x, V1) \<and> px_outcome x = Outcome_SUCCESS \<and>
     sim_execute demo_prims (demo_op\<lparr>op_amount := 99\<rparr>) V1 = (Inr z, V3) \<and> px_outcome z = Outcome_SUCCESS"
proof -
  obtain x V1 where run: "sim_execute demo_prims demo_op empty_provider = (Inr x, V1)" "px_outcome x = Outcome_SUCCESS"
    by (simp add: sim_execute_def empty_provider_def Let_def keyed_def)
  have k: "op_idempotency_key demo_op \<noteq> []" "op_idempotency_key (demo_op\<lparr>op_amount := 99\<rparr>) = op_idempotency_key demo_op"
    by (simp_all add: demo_op_def)
  have dec: "decided (px_outcome x)" using run(2) by (simp add: decided_def)
  from provider_decision_final [OF run(1) dec sim_calls_refl k] run show ?thesis by auto
qed

end
