(* ===== verification/Settlement.thy ===== *)
theory Settlement
  imports Provider
begin

text \<open>
  Correctness of consequential execution and reconciliation: what each provider outcome does to
  the escrow, that unresolved operations are never retried, and that settlement happens once.
  The lemmas hold for every ledger with the interface \<open>total_ledger\<close>; the properties are stated on
  the in-memory ledger and the simulated provider.
\<close>

section \<open>The repository\<close>

definition repo_ok :: "op_table \<Rightarrow> bool" where
  "repo_ok R \<longleftrightarrow> distinct (map op_id R) \<and> distinct (map op_idempotency_key R)"

text \<open>The operation is stored under its id and key.\<close>

definition stored :: "consequential_operation \<Rightarrow> ('l, 'p) cons_state \<Rightarrow> bool" where
  "stored op s \<longleftrightarrow> (\<exists>R x. cs_repo s = Some R \<and> repo_ok R \<and> x \<in> set R \<and> op_id x = op_id op \<and>
     op_idempotency_key x = op_idempotency_key op)"

lemma repo_get_mem:
  assumes "repo_ok R" "x \<in> set R"
  shows "repo_get R (op_id x) = Some x"
  using assms by (induction R) (auto simp: repo_get_def repo_ok_def)

lemma repo_get_Some: "repo_get R i = Some x \<Longrightarrow> x \<in> set R \<and> op_id x = i"
  by (auto simp: repo_get_def find_Some_iff in_set_conv_nth)

lemma distinct_map_eq:
  "distinct (map f xs) \<Longrightarrow> a \<in> set xs \<Longrightarrow> b \<in> set xs \<Longrightarrow> f a = f b \<Longrightarrow> a = b"
  by (auto simp: distinct_map inj_on_def)

lemma repo_save_stored:
  assumes "repo_ok R" "x \<in> set R" "op_id x = op_id op" "op_idempotency_key x = op_idempotency_key op"
  shows "\<exists>R' y. repo_save R op = Inr R' \<and> repo_ok R' \<and> repo_get R' (op_id op) = Some y \<and>
     y = op\<lparr>op_created_at := op_created_at x\<rparr>"
proof -
  let ?f = "\<lambda>z. if op_id z = op_id op then op\<lparr>op_created_at := op_created_at z\<rparr> else z"
  have keys: "op_id z = op_id op \<longleftrightarrow> op_idempotency_key z = op_idempotency_key op" if "z \<in> set R" for z
    using assms that distinct_map_eq [of op_id R z x] distinct_map_eq [of op_idempotency_key R z x]
    by (auto simp: repo_ok_def)
  have "map op_id (map ?f R) = map op_id R" by simp
  moreover have "map op_idempotency_key (map ?f R) = map op_idempotency_key R"
    using keys by (auto simp: map_eq_conv)
  ultimately have ok: "repo_ok (map ?f R)" using assms(1) by (simp only: repo_ok_def)
  have mem: "op\<lparr>op_created_at := op_created_at x\<rparr> \<in> set (map ?f R)"
    using assms(2,3) by force
  have "repo_save R op = Inr (map ?f R)"
    using keys repo_get_mem [OF assms(1,2)] assms(3) by (auto simp: repo_save_def)
  then show ?thesis using ok repo_get_mem [OF ok mem] by simp
qed

section \<open>Frames\<close>

definition same_money :: "('l, 'p) cons_state \<Rightarrow> ('l, 'p) cons_state \<Rightarrow> bool" where
  "same_money s s' \<longleftrightarrow> cs_ledger s' = cs_ledger s \<and> cs_provider s' = cs_provider s \<and>
     cs_tokens s' = cs_tokens s \<and> cs_org s' = cs_org s"

lemma same_money_refl [simp]: "same_money s s"
  by (simp add: same_money_def)

lemma save_op_money [frame_simps]: "save_op op s = (r, s') \<Longrightarrow> same_money s s'"
  by (auto simp: save_op_def same_money_def split: option.splits sum.splits)

lemma log_event_ok: "\<exists>s'. log_event P E a t n p s = (Inr (), s') \<and> same_money s s' \<and> cs_repo s' = cs_repo s"
  by (auto simp: log_event_def same_money_def split: option.splits)

lemma same_money_trans: "same_money s s1 \<Longrightarrow> same_money s1 s2 \<Longrightarrow> same_money s s2"
  by (simp add: same_money_def)

lemma log_event_money: "log_event P E a t n p s = (r, s') \<Longrightarrow> same_money s s'"
  by (auto simp: log_event_def same_money_def split: option.splits)

lemma op_advance_money:
  assumes "op_advance P E op new err ref a t ex s = (r, s')"
  shows "same_money s s'"
proof (cases "transition_to (e_now E 0) op new err ref")
  case (Inr op')
  obtain r1 s1 where save: "save_op op' s = (r1, s1)" by fastforce
  obtain r2 s2 where log: "log_event P (env_skip 1 E) a t (op_id op') ((''operation_id'', JStr (op_id op')) # ex) s1
      = (r2, s2)" by fastforce
  have "s' = s1 \<or> s' = s2"
    using assms Inr save log
    by (cases r1; cases r2) (simp_all add: op_advance_def act_bind_def act_lift_def act_return_def)
  then show ?thesis
    using save_op_money [OF save] same_money_trans log_event_money [OF log] by blast
qed (use assms in \<open>simp add: op_advance_def act_bind_def act_lift_def\<close>)

text \<open>A valid transition of a stored operation always succeeds, and is stored.\<close>

lemma op_advance_stored:
  assumes "stored op s" "new \<in> set (VALID_OPERATION_TRANSITIONS (op_state op))"
  shows "\<exists>op' s'. op_advance P E op new err ref a t ex s = (Inr op', s') \<and> same_money s s' \<and>
     op_state op' = new \<and> same_identity op op' \<and> stored op' s' \<and>
     (\<exists>R y. cs_repo s' = Some R \<and> repo_get R (op_id op) = Some y \<and> op_state y = new)"
proof -
  obtain R x where R: "cs_repo s = Some R" "repo_ok R" "x \<in> set R" "op_id x = op_id op"
      "op_idempotency_key x = op_idempotency_key op"
    using assms(1) by (auto simp: stored_def)
  obtain op' where tr: "transition_to (e_now E 0) op new err ref = Inr op'" and op': "op_state op' = new"
      "same_identity op op'"
    using assms(2) by (simp add: transition_to_def same_identity_def)
  have ids: "op_id x = op_id op'" "op_idempotency_key x = op_idempotency_key op'"
    using R op'(2) by (auto simp: same_identity_def)
  obtain R' y where save: "repo_save R op' = Inr R'" "repo_ok R'" "repo_get R' (op_id op') = Some y"
      "y = op'\<lparr>op_created_at := op_created_at x\<rparr>"
    using repo_save_stored [OF R(2,3) ids] by blast
  let ?s1 = "s\<lparr>cs_repo := Some R'\<rparr>"
  obtain s' where log: "log_event P (env_skip 1 E) a t (op_id op') ((''operation_id'', JStr (op_id op')) # ex) ?s1
      = (Inr (), s')" and s': "same_money ?s1 s'" "cs_repo s' = Some R'"
    using log_event_ok by fastforce
  have "op_advance P E op new err ref a t ex s = (Inr op', s')"
    using tr save R(1) log by (simp add: op_advance_def act_bind_def act_lift_def act_return_def save_op_def)
  moreover have "stored op' s'"
    using save s' repo_get_Some [OF save(3)] by (auto simp: stored_def)
  moreover have "same_money s s'" using s'(1) by (simp add: same_money_def)
  moreover have "repo_get R' (op_id op) = Some y" "op_state y = new"
    using save op' by (auto simp: same_identity_def)
  ultimately show ?thesis using op' s' by blast
qed

section \<open>Escrow moves\<close>

definition entry_ops_of ::
  "('l \<Rightarrow> string \<Rightarrow> int) \<Rightarrow> 'l post_fun \<Rightarrow> ('l \<Rightarrow> ledger_entry list) \<Rightarrow> 'l entry_ops" where
  "entry_ops_of b t g = \<lparr>lo_get_balance = b, lo_transfer = t, lo_get_entries = g\<rparr>"

lemma entry_ops_of_simps [simp]:
  "lo_get_balance (entry_ops_of b t g) = b" "lo_transfer (entry_ops_of b t g) = t"
  "lo_get_entries (entry_ops_of b t g) = g"
  by (simp_all add: entry_ops_of_def)

text \<open>\<open>n\<close> credits moved from the escrow to \<open>dest\<close>, and nothing else.\<close>

definition escrow_moved ::
  "('l \<Rightarrow> string \<Rightarrow> int) \<Rightarrow> int \<Rightarrow> string \<Rightarrow> 'l \<Rightarrow> 'l \<Rightarrow> bool" where
  "escrow_moved b n dest L L' \<longleftrightarrow> (\<forall>a. b L' a = b L a + (if a = dest then n else 0) - (if a = ESCROW then n else 0))"

definition stored_state :: "string \<Rightarrow> ('l, 'p) cons_state \<Rightarrow> operation_state option" where
  "stored_state i s = (case cs_repo s of None \<Rightarrow> None | Some R \<Rightarrow> map_option op_state (repo_get R i))"

text \<open>The three ways a dispatch is settled.\<close>

definition dispatch_settled ::
  "('l \<Rightarrow> string \<Rightarrow> int) \<Rightarrow> consequential_operation \<Rightarrow> provider_outcome option \<Rightarrow> 'a result \<Rightarrow>
     ('l, 'p) cons_state \<Rightarrow> ('l, 'p) cons_state \<Rightarrow> bool" where
  "dispatch_settled b op out res s s' \<longleftrightarrow>
     (if out = Some Outcome_SUCCESS
      then \<not> isl res \<and> escrow_moved b (op_amount op) EXTERNAL_SINK (cs_ledger s) (cs_ledger s') \<and>
        stored_state (op_id op) s' = Some Op_SUCCEEDED
      else if out = Some Outcome_FAILURE
      then isl res \<and> escrow_moved b (op_amount op) TREASURY (cs_ledger s) (cs_ledger s') \<and>
        stored_state (op_id op) s' = Some Op_FAILED
      else isl res \<and> cs_ledger s' = cs_ledger s \<and> stored_state (op_id op) s' = Some Op_UNKNOWN)"

definition reported :: "provider_result result \<Rightarrow> provider_outcome option" where
  "reported r = (case r of Inl x \<Rightarrow> None | Inr x \<Rightarrow> Some (px_outcome x))"

lemma cs_frame:
  "s' = s\<lparr>cs_ledger := L\<rparr> \<Longrightarrow> cs_repo s' = cs_repo s"
  "s' = s\<lparr>cs_ledger := L\<rparr> \<Longrightarrow> cs_provider s' = cs_provider s"
  "s' = s\<lparr>cs_ledger := L\<rparr> \<Longrightarrow> cs_org s' = cs_org s"
  by simp_all

text \<open>
  What a reconciliation does for the status \<open>out\<close>: a decided outcome settles the escrow, but only
  when the entries do not show a settlement already and the escrow holds the amount.
\<close>

definition already_done ::
  "prims \<Rightarrow> consequential_operation \<Rightarrow> provider_outcome \<Rightarrow> ledger_entry list \<Rightarrow> bool" where
  "already_done P op out es \<longleftrightarrow>
     (if out = Outcome_SUCCESS then already_settled P op es else already_refunded P op es)"

definition rec_dest :: "provider_outcome \<Rightarrow> string" where
  "rec_dest out = (if out = Outcome_SUCCESS then EXTERNAL_SINK else TREASURY)"

definition rec_moves ::
  "prims \<Rightarrow> ('l \<Rightarrow> string \<Rightarrow> int) \<Rightarrow> ('l \<Rightarrow> ledger_entry list) \<Rightarrow> consequential_operation \<Rightarrow> provider_outcome \<Rightarrow> 'l \<Rightarrow> bool"
where
  "rec_moves P b g op out L \<longleftrightarrow>
     0 < op_amount op \<and> \<not> already_done P op out (g L) \<and> op_amount op \<le> b L ESCROW"

definition reconciled ::
  "prims \<Rightarrow> ('l \<Rightarrow> string \<Rightarrow> int) \<Rightarrow> ('l \<Rightarrow> ledger_entry list) \<Rightarrow> consequential_operation \<Rightarrow> provider_outcome \<Rightarrow>
     consequential_operation result \<Rightarrow> ('l, 'p) cons_state \<Rightarrow> ('l, 'p) cons_state \<Rightarrow> bool" where
  "reconciled P b g op out res s s' \<longleftrightarrow>
     (\<exists>op'. res = Inr op' \<and> same_identity op op' \<and> stored_state (op_id op) s' = Some (op_state op') \<and>
        op_state op' = (if decided out then Op_RECONCILED else Op_UNKNOWN)) \<and>
     (if decided out \<and> rec_moves P b g op out (cs_ledger s)
      then escrow_moved b (op_amount op) (rec_dest out) (cs_ledger s) (cs_ledger s')
      else cs_ledger s' = cs_ledger s)"

lemma reconciled_start:
  "cs_ledger s1 = cs_ledger s \<Longrightarrow> reconciled P b g op out res s1 s' = reconciled P b g op out res s s'"
  by (simp only: reconciled_def)

definition rec_answered ::
  "prims \<Rightarrow> ('l \<Rightarrow> string \<Rightarrow> int) \<Rightarrow> ('l \<Rightarrow> ledger_entry list) \<Rightarrow> consequential_operation \<Rightarrow>
     provider_result result \<Rightarrow> consequential_operation result \<Rightarrow> ('l, 'p) cons_state \<Rightarrow> ('l, 'p) cons_state \<Rightarrow> bool"
where
  "rec_answered P b g op answer res s s' \<longleftrightarrow> (case answer of
       Inl x \<Rightarrow> res = Inl x \<and> cs_ledger s' = cs_ledger s \<and> stored_state (op_id op) s' = Some Op_RECONCILING
     | Inr r \<Rightarrow> reconciled P b g op (px_outcome r) res s s')"

text \<open>The operation table holds \<open>op\<close>, in a state reconciliation accepts, within the caller's scope.\<close>

definition reconcilable :: "consequential_operation \<Rightarrow> ('l, 'p) cons_state \<Rightarrow> bool" where
  "reconcilable op s \<longleftrightarrow> (\<exists>R. cs_repo s = Some R \<and> repo_ok R \<and> repo_get R (op_id op) = Some op) \<and>
     op_state op \<in> {Op_UNKNOWN, Op_RECONCILING, Op_SUBMITTED} \<and>
     op_tenant_id op = og_tenant_id (cs_org s) \<and> op_organisation_id op = og_id (cs_org s)"

lemma reconcilable_stored:
  "reconcilable op s \<Longrightarrow> stored op s \<and> stored_state (op_id op) s = Some (op_state op)"
  by (auto simp: reconcilable_def stored_def stored_state_def dest: repo_get_Some)

context total_ledger
begin

lemma cons_move_accepts:
  assumes "inv (cs_ledger s)" "tx \<noteq> []" "\<not> known (cs_ledger s) tx" "0 < n" "f \<noteq> t" "n \<le> bal (cs_ledger s) f"
  shows "\<exists>s'. cons_move (entry_ops_of bal post g) E f t n m tx s = (Inr (), s') \<and> inv (cs_ledger s') \<and>
     s' = s\<lparr>cs_ledger := cs_ledger s'\<rparr> \<and>
     (\<forall>a. bal (cs_ledger s') a = bal (cs_ledger s) a + (if a = t then n else 0) - (if a = f then n else 0)) \<and>
     (\<forall>x. known (cs_ledger s') x \<longleftrightarrow> x = tx \<or> known (cs_ledger s) x)"
proof -
  obtain e L where run: "post E (cs_ledger s) f t n m (Some tx) = Inr (e, L)"
    using post_accepts [OF assms(1) ids_fresh assms(2-6)] by blast
  then have "cons_move (entry_ops_of bal post g) E f t n m tx s = (Inr (), s\<lparr>cs_ledger := L\<rparr>)"
    by (simp add: cons_move_def)
  moreover have "le_transaction_id e = tx" using post_tx [OF assms(1) run assms(2)] .
  ultimately show ?thesis
    using post_inv [OF assms(1) run] post_bal [OF assms(1) run] post_known [OF assms(1) run]
    by (intro exI [of _ "s\<lparr>cs_ledger := L\<rparr>"]) simp
qed

lemma settle_escrow_moves:
  assumes "inv (cs_ledger s)" "tx \<noteq> []" "\<not> known (cs_ledger s) tx" "0 \<le> op_amount op"
    and "op_amount op \<le> bal (cs_ledger s) ESCROW" "dest \<noteq> ESCROW"
  shows "\<exists>s'. settle_escrow (entry_ops_of bal post g) E op dest m tx s = (Inr (), s') \<and> inv (cs_ledger s') \<and>
     escrow_moved bal (op_amount op) dest (cs_ledger s) (cs_ledger s') \<and>
     cs_repo s' = cs_repo s \<and> cs_provider s' = cs_provider s"
proof (cases "0 < op_amount op")
  case True
  obtain s1 where mv: "cons_move (entry_ops_of bal post g) E ESCROW dest (op_amount op) m tx s = (Inr (), s1)"
      "inv (cs_ledger s1)" and eq: "s1 = s\<lparr>cs_ledger := cs_ledger s1\<rparr>" and bal:
      "\<forall>a. bal (cs_ledger s1) a = bal (cs_ledger s) a + (if a = dest then op_amount op else 0)
        - (if a = ESCROW then op_amount op else 0)"
    using cons_move_accepts [OF assms(1-3) True assms(6) [symmetric] assms(5), of g E m] by blast
  note frame = cs_frame(1,2) [OF eq]
  show ?thesis using True mv bal frame
    by (simp add: settle_escrow_def act_bind_def refresh_treasury_def escrow_moved_def)
next
  case False
  then show ?thesis using assms(1,4)
    by (simp add: settle_escrow_def act_return_def escrow_moved_def)
qed

lemma submit_result_settles:
  assumes inv: "inv (cs_ledger s)" and st: "stored op s" "op_state op = Op_SUBMITTED"
    and am: "0 \<le> op_amount op" "op_amount op \<le> bal (cs_ledger s) ESCROW"
    and tx: "\<not> known (cs_ledger s) (settle_tx (xc_prims C) ''tx-'' d op)"
      "\<not> known (cs_ledger s) (settle_tx (xc_prims C) ''rollback-'' d op)"
    and run: "submit_result (entry_ops_of bal post g) C E op p d pr s = (res, s')"
  shows "inv (cs_ledger s') \<and> cs_provider s' = cs_provider s \<and> dispatch_settled bal op (reported pr) res s s'"
proof (cases "\<exists>dest. (dest = EXTERNAL_SINK \<and> reported pr = Some Outcome_SUCCESS) \<or>
    (dest = TREASURY \<and> reported pr = Some Outcome_FAILURE)")
  case True
  then obtain r where pr: "pr = Inr r" "px_outcome r = Outcome_SUCCESS \<or> px_outcome r = Outcome_FAILURE"
    by (auto simp: reported_def split: sum.splits)
  let ?suc = "px_outcome r = Outcome_SUCCESS"
  let ?dest = "if ?suc then EXTERNAL_SINK else TREASURY"
  let ?m = "if ?suc then ''Settlement commit for consequential operation '' @ op_id op
    else ''Escrow rollback for failed consequential operation '' @ op_id op"
  let ?tx = "settle_tx (xc_prims C) (if ?suc then ''tx-'' else ''rollback-'') d op"
  have ne: "?tx \<noteq> []" by (simp add: settle_tx_def)
  have nk: "\<not> known (cs_ledger s) ?tx" using tx by simp
  have dest: "?dest \<noteq> ESCROW" by (simp add: ESCROW_def EXTERNAL_SINK_def TREASURY_def)
  obtain s1 where
    mv: "settle_escrow (entry_ops_of bal post g) E op ?dest ?m ?tx s = (Inr (), s1)" "inv (cs_ledger s1)"
      "escrow_moved bal (op_amount op) ?dest (cs_ledger s) (cs_ledger s1)"
      "cs_repo s1 = cs_repo s" "cs_provider s1 = cs_provider s"
    using settle_escrow_moves [OF inv ne nk am dest, of g E ?m] by blast
  have "stored op s1" using st(1) mv(4) by (simp add: stored_def)
  note adv = op_advance_stored [OF this, of _ "xc_prims C" "env_skip 2 E"]
  show ?thesis
  proof (cases ?suc)
    case True
    obtain op' s2 where a: "op_advance (xc_prims C) (env_skip 2 E) op Op_SUCCEEDED None (px_reference r) OP_ACTOR
       ''CONSEQUENTIAL_OPERATION_SUCCEEDED'' [(''reference'', opt_json (px_reference r)),
         (''amount'', JInt (op_amount op)), (''evidence_hash'', opt_json (px_evidence r))] s1 = (Inr op', s2)"
      "same_money s1 s2" "\<exists>R y. cs_repo s2 = Some R \<and> repo_get R (op_id op) = Some y \<and> op_state y = Op_SUCCEEDED"
      using adv [of Op_SUCCEEDED] st(2) by fastforce
    have "s' = s2 \<and> \<not> isl res"
      using run pr(1) True mv(1) a(1)
      by (auto simp: submit_result_def submit_success_def act_bind_def act_return_def)
    then show ?thesis using a(2,3) mv True pr(1)
      by (auto simp: same_money_def dispatch_settled_def reported_def stored_state_def)
  next
    case False
    then have fl: "px_outcome r = Outcome_FAILURE" using pr(2) by simp
    obtain op' s2 where a: "op_advance (xc_prims C) (env_skip 2 E) op Op_FAILED (px_error r) None OP_ACTOR
       ''CONSEQUENTIAL_OPERATION_FAILED'' [(''reason'', opt_json (px_error r)), (''escrow_refunded'', JBool True)] s1
         = (Inr op', s2)"
      "same_money s1 s2" "\<exists>R y. cs_repo s2 = Some R \<and> repo_get R (op_id op) = Some y \<and> op_state y = Op_FAILED"
      using adv [of Op_FAILED] st(2) by fastforce
    have "s' = s2 \<and> isl res"
      using run pr(1) fl mv(1) a(1)
      by (auto simp: submit_result_def submit_failure_def act_bind_def act_raise_def)
    then show ?thesis using a(2,3) mv fl pr(1)
      by (auto simp: same_money_def dispatch_settled_def reported_def stored_state_def)
  qed
next
  case False
  obtain err ref ex where sub: "submit_result (entry_ops_of bal post g) C E op p d pr s
      = act_bind (op_advance (xc_prims C) E op Op_UNKNOWN err ref OP_ACTOR ''CONSEQUENTIAL_OPERATION_UNKNOWN'' ex)
          (\<lambda>_. act_raise ExternalExecutionError (if isl pr
            then ''Consequential execution outcome is UNKNOWN; escrow remains locked pending reconciliation''
            else ''External execution outcome is UNKNOWN; escrow remains locked pending reconciliation'')) s"
  proof (cases pr)
    case (Inl x)
    then show ?thesis using that by (simp add: submit_result_def submit_exception_def)
  next
    case (Inr r)
    then have "px_outcome r = Outcome_TIMEOUT \<or> px_outcome r = Outcome_UNKNOWN"
      using False by (cases "px_outcome r") (auto simp: reported_def)
    then have "submit_result (entry_ops_of bal post g) C E op p d pr s = submit_unknown C E op r s"
      using Inr by (auto simp: submit_result_def)
    then show ?thesis using that Inr by (simp add: submit_unknown_def)
  qed
  obtain op' s2 where a: "op_advance (xc_prims C) E op Op_UNKNOWN err ref OP_ACTOR
      ''CONSEQUENTIAL_OPERATION_UNKNOWN'' ex s = (Inr op', s2)"
    "same_money s s2" "\<exists>R y. cs_repo s2 = Some R \<and> repo_get R (op_id op) = Some y \<and> op_state y = Op_UNKNOWN"
    using op_advance_stored [OF st(1), of Op_UNKNOWN] st(2) by fastforce
  have "s' = s2 \<and> isl res" using run sub a(1) by (auto simp: act_bind_def act_raise_def)
  then show ?thesis using a(2,3) False inv
    by (auto simp: same_money_def dispatch_settled_def stored_state_def)
qed

lemma submit_operation_settles:
  assumes inv: "inv (cs_ledger s)" and st: "stored op s" "op_state op = Op_ESCROWED"
    and am: "0 \<le> op_amount op" "op_amount op \<le> bal (cs_ledger s) ESCROW"
    and tx: "\<not> known (cs_ledger s) (settle_tx (xc_prims C) ''tx-'' d op)"
      "\<not> known (cs_ledger s) (settle_tx (xc_prims C) ''rollback-'' d op)"
    and run: "submit_operation (entry_ops_of bal post g) pv C E op p d s = (res, s')"
  shows "\<exists>op1 pr. same_identity op op1 \<and> op_state op1 = Op_SUBMITTED \<and>
     po_execute pv op1 (cs_provider s) = (pr, cs_provider s') \<and> inv (cs_ledger s') \<and>
     dispatch_settled bal op (reported pr) res s s'"
proof -
  obtain op1 s1 where a: "op_advance (xc_prims C) E op Op_SUBMITTED None None OP_ACTOR
      ''CONSEQUENTIAL_OPERATION_SUBMITTED'' [(''target'', JStr (op_target op)), (''state'', JStr ''submitted'')] s
        = (Inr op1, s1)" "same_money s s1" "op_state op1 = Op_SUBMITTED" "same_identity op op1" "stored op1 s1"
    using op_advance_stored [OF st(1), of Op_SUBMITTED] st(2) by fastforce
  have ids: "op_id op1 = op_id op" "op_amount op1 = op_amount op"
    using a(4) by (auto simp: same_identity_def)
  have L: "cs_ledger s1 = cs_ledger s" "cs_provider s1 = cs_provider s" using a(2) by (auto simp: same_money_def)
  obtain pr pv' where ex: "po_execute pv op1 (cs_provider s) = (pr, pv')" by fastforce
  let ?s2 = "s1\<lparr>cs_provider := pv'\<rparr>"
  have r2: "submit_result (entry_ops_of bal post g) C (env_skip 2 E) op1 p d pr ?s2 = (res, s')"
    using run st(2) a(1) ex L by (simp add: submit_operation_def act_bind_def call_provider_def)
  have st2: "stored op1 ?s2" using a(5) by (simp add: stored_def)
  have tx2: "settle_tx (xc_prims C) x d op1 = settle_tx (xc_prims C) x d op" for x
    using ids by (simp add: settle_tx_def)
  have "inv (cs_ledger s') \<and> cs_provider s' = cs_provider ?s2 \<and> dispatch_settled bal op1 (reported pr) res ?s2 s'"
    using submit_result_settles [OF _ st2 a(3) _ _ _ _ r2] inv am tx ids L tx2 by simp
  then show ?thesis using a(3,4) ex ids L by (intro exI [of _ op1] exI [of _ pr]) (auto simp: dispatch_settled_def)
qed

lemma rec_settle_moves:
  assumes "inv (cs_ledger s)" "tx \<noteq> []" "\<not> known (cs_ledger s) tx" "0 \<le> op_amount op" "dest \<noteq> ESCROW"
  shows "\<exists>s'. rec_settle (entry_ops_of bal post g) E op don dest m tx s = (Inr (), s') \<and> inv (cs_ledger s') \<and>
     (if 0 < op_amount op \<and> \<not> don \<and> op_amount op \<le> bal (cs_ledger s) ESCROW
      then escrow_moved bal (op_amount op) dest (cs_ledger s) (cs_ledger s') else cs_ledger s' = cs_ledger s) \<and>
     cs_repo s' = cs_repo s \<and> cs_provider s' = cs_provider s"
proof (cases "0 < op_amount op \<and> \<not> don \<and> op_amount op \<le> bal (cs_ledger s) ESCROW")
  case True
  then have le: "op_amount op \<le> bal (cs_ledger s) ESCROW" by simp
  obtain s' where "settle_escrow (entry_ops_of bal post g) E op dest m tx s = (Inr (), s')" "inv (cs_ledger s')"
      "escrow_moved bal (op_amount op) dest (cs_ledger s) (cs_ledger s')" "cs_repo s' = cs_repo s"
      "cs_provider s' = cs_provider s"
    using settle_escrow_moves [OF assms(1-4) le assms(5), of g E m] by blast
  with True show ?thesis by (simp add: rec_settle_def settle_escrow_def)
next
  case False
  then show ?thesis using assms(1) by (auto simp: rec_settle_def)
qed

lemma rec_finish_done:
  assumes "stored op s" "op_state op = Op_RECONCILING" "stored_state (op_id op) s = Some Op_RECONCILING"
  shows "\<exists>op' s'. rec_finish P E op err ref ty extra s = (Inr op', s') \<and> same_money s s' \<and>
     op_state op' = Op_RECONCILED \<and> same_identity op op' \<and> stored_state (op_id op) s' = Some Op_RECONCILED"
proof -
  have "fresh_reconciled op s = None"
    using assms(3) by (auto simp: fresh_reconciled_def stored_state_def split: option.splits)
  then have "rec_finish P E op err ref ty extra s = op_advance P E op Op_RECONCILED err ref REC_ACTOR ty extra s"
    by (simp add: rec_finish_def)
  then show ?thesis
    using op_advance_stored [OF assms(1), of Op_RECONCILED P E err ref REC_ACTOR ty extra] assms(2)
    by (force simp: stored_state_def)
qed

lemma rec_outcome_effect:
  assumes inv: "inv (cs_ledger s)" and st: "stored op s" "op_state op = Op_RECONCILING"
      "stored_state (op_id op) s = Some Op_RECONCILING"
    and am: "0 \<le> op_amount op"
    and tx: "\<not> known (cs_ledger s) (rec_tx P ''tx-rec-'' op)" "\<not> known (cs_ledger s) (rec_tx P ''rollback-rec-'' op)"
    and run: "rec_outcome (entry_ops_of bal post g) P E op x s = (res, s')"
  shows "inv (cs_ledger s') \<and> cs_provider s' = cs_provider s \<and> reconciled P bal g op (px_outcome x) res s s'"
proof (cases "decided (px_outcome x)")
  case True
  let ?suc = "px_outcome x = Outcome_SUCCESS"
  let ?tx = "rec_tx P (if ?suc then ''tx-rec-'' else ''rollback-rec-'') op"
  let ?m = "(if ?suc then ''Reconciliation settlement for operation ''
    else ''Reconciliation escrow release for failed operation '') @ op_id op"
  have ne: "?tx \<noteq> []" by (simp add: rec_tx_def)
  have nk: "\<not> known (cs_ledger s) ?tx" using tx by simp
  have dest: "rec_dest (px_outcome x) \<noteq> ESCROW"
    by (simp add: rec_dest_def ESCROW_def EXTERNAL_SINK_def TREASURY_def)
  obtain s1 where mv: "rec_settle (entry_ops_of bal post g) E op
       (already_done P op (px_outcome x) (g (cs_ledger s))) (rec_dest (px_outcome x)) ?m ?tx s = (Inr (), s1)"
     "inv (cs_ledger s1)" "if rec_moves P bal g op (px_outcome x) (cs_ledger s)
      then escrow_moved bal (op_amount op) (rec_dest (px_outcome x)) (cs_ledger s) (cs_ledger s1)
      else cs_ledger s1 = cs_ledger s" "cs_repo s1 = cs_repo s" "cs_provider s1 = cs_provider s"
    unfolding rec_moves_def using rec_settle_moves [OF inv ne nk am dest] by blast
  have st1: "stored op s1" "stored_state (op_id op) s1 = Some Op_RECONCILING"
    using st(1,3) mv(4) by (simp_all add: stored_def stored_state_def)
  obtain err ref ty ex where sub: "rec_outcome (entry_ops_of bal post g) P E op x s =
      act_bind (\<lambda>s. rec_settle (entry_ops_of bal post g) E op
       (already_done P op (px_outcome x) (g (cs_ledger s))) (rec_dest (px_outcome x)) ?m ?tx s)
       (\<lambda>_. rec_finish P (env_skip 2 E) op err ref ty ex) s"
  proof (cases ?suc)
    case True
    then show ?thesis using that by (simp add: rec_outcome_def already_done_def rec_dest_def)
  next
    case False
    then have "px_outcome x = Outcome_FAILURE" using \<open>decided (px_outcome x)\<close> by (simp add: decided_def)
    then show ?thesis using that by (simp add: rec_outcome_def already_done_def rec_dest_def)
  qed
  obtain op' s2 where fin: "rec_finish P (env_skip 2 E) op err ref ty ex s1 = (Inr op', s2)" "same_money s1 s2"
      "op_state op' = Op_RECONCILED" "same_identity op op'" "stored_state (op_id op) s2 = Some Op_RECONCILED"
    using rec_finish_done [OF st1(1) st(2) st1(2)] by blast
  have "res = Inr op' \<and> s' = s2" using run sub mv(1) fin(1) by (simp add: act_bind_def)
  then show ?thesis using fin(2-5) mv(2-5) True by (simp add: same_money_def reconciled_def)
next
  case False
  then have sub: "rec_outcome (entry_ops_of bal post g) P E op x s =
      op_advance P (env_skip 2 E) op Op_UNKNOWN (Some ''Provider status remains unresolved; escrow preserved'') None
        REC_ACTOR ''CONSEQUENTIAL_OPERATION_RECONCILIATION_UNRESOLVED''
        [(''state'', JStr ''unknown''), (''escrow_locked'', JBool True)] s"
    by (cases "px_outcome x") (simp_all add: rec_outcome_def decided_def)
  obtain op' s2 where adv: "op_advance P (env_skip 2 E) op Op_UNKNOWN
        (Some ''Provider status remains unresolved; escrow preserved'') None
        REC_ACTOR ''CONSEQUENTIAL_OPERATION_RECONCILIATION_UNRESOLVED''
        [(''state'', JStr ''unknown''), (''escrow_locked'', JBool True)] s = (Inr op', s2)"
      "same_money s s2" "op_state op' = Op_UNKNOWN" "same_identity op op'"
      "\<exists>R y. cs_repo s2 = Some R \<and> repo_get R (op_id op) = Some y \<and> op_state y = Op_UNKNOWN"
    using op_advance_stored [OF st(1), of Op_UNKNOWN] st(2) by fastforce
  have "res = Inr op' \<and> s' = s2" using run sub adv(1) by simp
  moreover have "stored_state (op_id op) s2 = Some Op_UNKNOWN" using adv(5) by (auto simp: stored_state_def)
  moreover note adv(2-4)
  ultimately show ?thesis using False inv by (simp add: same_money_def reconciled_def)
qed

lemma reconcile_answer:
  assumes inv: "inv (cs_ledger s)" and st: "stored op1 s" "op_state op1 = Op_RECONCILING"
      "stored_state (op_id op1) s = Some Op_RECONCILING"
    and am: "0 \<le> op_amount op1"
    and tx: "\<not> known (cs_ledger s) (rec_tx P ''tx-rec-'' op1)" "\<not> known (cs_ledger s) (rec_tx P ''rollback-rec-'' op1)"
    and run: "act_bind (call_provider (po_status pv (op_id op1) (op_idempotency_key op1) (op_provider_reference op1)))
        (rec_outcome (entry_ops_of bal post g) P E op1) s = (res, s')"
  shows "\<exists>answer. po_status pv (op_id op1) (op_idempotency_key op1) (op_provider_reference op1) (cs_provider s)
        = (answer, cs_provider s') \<and> inv (cs_ledger s') \<and> rec_answered P bal g op1 answer res s s'"
proof -
  obtain answer v where q: "po_status pv (op_id op1) (op_idempotency_key op1) (op_provider_reference op1)
      (cs_provider s) = (answer, v)" by fastforce
  let ?s = "s\<lparr>cs_provider := v\<rparr>"
  show ?thesis
  proof (cases answer)
    case (Inl x)
    then have "res = Inl x" "s' = ?s" using run q by (simp_all add: act_bind_def call_provider_def)
    then show ?thesis using q Inl inv st(3) by (simp add: rec_answered_def stored_state_def)
  next
    case (Inr r)
    then have r2: "rec_outcome (entry_ops_of bal post g) P E op1 r ?s = (res, s')"
      using run q by (simp add: act_bind_def call_provider_def)
    have st2: "stored op1 ?s" "stored_state (op_id op1) ?s = Some Op_RECONCILING"
      using st(1,3) by (simp_all add: stored_def stored_state_def)
    have "inv (cs_ledger s') \<and> cs_provider s' = cs_provider ?s \<and> reconciled P bal g op1 (px_outcome r) res ?s s'"
      using rec_outcome_effect [OF _ st2(1) st(2) st2(2) am _ _ r2] inv tx by simp
    moreover have "reconciled P bal g op1 (px_outcome r) res ?s s' = reconciled P bal g op1 (px_outcome r) res s s'"
      by (rule reconciled_start) simp
    ultimately show ?thesis using q Inr by (simp add: rec_answered_def)
  qed
qed

lemma reconcile_effect:
  assumes inv: "inv (cs_ledger s)" and rec: "reconcilable op s" and am: "0 \<le> op_amount op"
    and tx: "\<not> known (cs_ledger s) (rec_tx P ''tx-rec-'' op)" "\<not> known (cs_ledger s) (rec_tx P ''rollback-rec-'' op)"
    and run: "reconcile_operation (entry_ops_of bal post g) pv P E (op_id op) s = (res, s')"
  shows "\<exists>ref answer. po_status pv (op_id op) (op_idempotency_key op) ref (cs_provider s) = (answer, cs_provider s') \<and>
     inv (cs_ledger s') \<and> rec_answered P bal g op answer res s s'"
proof (cases "op_state op = Op_RECONCILING")
  case True
  have "act_bind (call_provider (po_status pv (op_id op) (op_idempotency_key op) (op_provider_reference op)))
        (rec_outcome (entry_ops_of bal post g) P (env_skip 2 E) op) s = (res, s')"
    using run rec True by (auto simp: reconcile_operation_def reconcilable_def act_bind_def act_return_def)
  then show ?thesis
    using reconcile_answer [OF inv _ True _ am tx] reconcilable_stored [OF rec] True by fastforce
next
  case False
  have S: "stored op s" using reconcilable_stored [OF rec] by simp
  have "Op_RECONCILING \<in> set (VALID_OPERATION_TRANSITIONS (op_state op))"
    using rec False by (auto simp: reconcilable_def)
  from op_advance_stored [OF S this] obtain op1 s1 where
    adv: "op_advance P E op Op_RECONCILING None None REC_ACTOR ''CONSEQUENTIAL_OPERATION_RECONCILING''
      [(''state'', JStr ''reconciling'')] s = (Inr op1, s1)" "same_money s s1" "op_state op1 = Op_RECONCILING"
      "same_identity op op1" "stored op1 s1"
      "\<exists>R y. cs_repo s1 = Some R \<and> repo_get R (op_id op) = Some y \<and> op_state y = Op_RECONCILING"
    by fastforce
  have ids: "op_id op1 = op_id op" "op_amount op1 = op_amount op" "op_idempotency_key op1 = op_idempotency_key op"
    using adv(4) by (simp_all add: same_identity_def)
  have L: "cs_ledger s1 = cs_ledger s" "cs_provider s1 = cs_provider s" using adv(2) by (simp_all add: same_money_def)
  have S1: "stored_state (op_id op1) s1 = Some Op_RECONCILING" using adv(6) ids by (auto simp: stored_state_def)
  have tx1: "rec_tx P pre op1 = rec_tx P pre op" for pre using ids by (simp add: rec_tx_def)
  have "act_bind (call_provider (po_status pv (op_id op1) (op_idempotency_key op1) (op_provider_reference op1)))
        (rec_outcome (entry_ops_of bal post g) P (env_skip 2 E) op1) s1 = (res, s')"
    using run rec False adv(1) by (auto simp: reconcile_operation_def reconcilable_def act_bind_def)
  from reconcile_answer [OF _ adv(5) adv(3) S1 _ _ _ this, unfolded tx1 ids L]
  obtain answer where "po_status pv (op_id op) (op_idempotency_key op) (op_provider_reference op1) (cs_provider s)
      = (answer, cs_provider s')" "inv (cs_ledger s')" "rec_answered P bal g op1 answer res s1 s'"
    using inv am tx by blast
  moreover
  have "already_done P op1 out es = already_done P op out es" for out es
    using ids tx1 by (simp add: already_done_def already_settled_def already_refunded_def)
  then have "rec_moves P bal g op1 out L = rec_moves P bal g op out L" for out L
    using ids by (simp add: rec_moves_def)
  then have "reconciled P bal g op1 out res s1 s' \<Longrightarrow> reconciled P bal g op out res s s'" for out
    using adv(4) ids L same_identity_trans by (simp add: reconciled_def split: if_splits) blast+
  ultimately show ?thesis using ids L by (force simp: rec_answered_def split: sum.splits)
qed

end

end
