(* ===== verification/Outcomes.thy ===== *)
theory Outcomes
  imports Settlement
begin

text \<open>
  What \<open>execute_proposal\<close> and \<open>reconcile_operation\<close> do end to end: the three stages of a new
  operation (create, authorize, escrow) leave the money alone or lock it, and the submission
  settles it.  The properties are stated on the in-memory ledger, for every provider.
\<close>

section \<open>The stages before submission\<close>

definition same_funds :: "('l, 'p) cons_state \<Rightarrow> ('l, 'p) cons_state \<Rightarrow> bool" where
  "same_funds s s' \<longleftrightarrow> cs_ledger s' = cs_ledger s \<and> cs_provider s' = cs_provider s"

lemma same_money_funds: "same_money s s' \<Longrightarrow> same_funds s s'"
  by (simp add: same_money_def same_funds_def)

lemma same_funds_refl [simp]: "same_funds s s"
  by (simp add: same_funds_def)

lemma same_funds_trans: "same_funds s s1 \<Longrightarrow> same_funds s1 s2 \<Longrightarrow> same_funds s s2"
  by (simp add: same_funds_def)

definition new_operation_id :: "env \<Rightarrow> string" where
  "new_operation_id E = ''cop-'' @ take 12 (e_uuid E 0)"

text \<open>The key is not registered and the fresh id is not in the table.\<close>

definition unregistered :: "string \<Rightarrow> string \<Rightarrow> ('l, 'p) cons_state \<Rightarrow> bool" where
  "unregistered key i s \<longleftrightarrow>
     (\<exists>R. cs_repo s = Some R \<and> repo_ok R \<and> repo_get_by_key R key = None \<and> i \<notin> op_id ` set R)"

lemma repo_save_new:
  assumes "repo_ok R" "repo_get_by_key R (op_idempotency_key op) = None" "op_id op \<notin> op_id ` set R"
  shows "repo_save R op = Inr (R @ [op]) \<and> repo_ok (R @ [op])"
proof -
  have k: "\<forall>x \<in> set R. op_idempotency_key x \<noteq> op_idempotency_key op"
    using assms(2) by (auto simp: repo_get_by_key_def find_None_iff)
  moreover have "repo_get R (op_id op) = None"
    using assms(3) by (metis imageI repo_get_Some not_None_eq)
  ultimately show ?thesis using assms(1,3) by (auto simp: repo_save_def repo_ok_def)
qed

lemma create_new:
  assumes "unregistered (py_or idem (og_id (cs_org s) @ '':'' @ pr_id p)) (new_operation_id E) s"
    and "create_operation C pn E now p d idem s = (r, s1)"
  shows "same_money s s1 \<and> (case r of Inl x \<Rightarrow> s1 = s
     | Inr op \<Rightarrow> stored op s1 \<and> op_state op = Op_CREATED \<and> op_amount op = pr_requested_credits p \<and>
         0 \<le> op_amount op \<and> op_id op = new_operation_id E)"
proof -
  obtain R where R: "cs_repo s = Some R" "repo_ok R"
      "repo_get_by_key R (py_or idem (og_id (cs_org s) @ '':'' @ pr_id p)) = None"
      "new_operation_id E \<notin> op_id ` set R"
    using assms(1) by (auto simp: unregistered_def)
  define op where "op = new_operation pn E p d (cs_org s) (py_or idem (og_id (cs_org s) @ '':'' @ pr_id p))"
  have facts: "op_id op = new_operation_id E" "op_state op = Op_CREATED" "op_amount op = pr_requested_credits p"
      "op_idempotency_key op = py_or idem (og_id (cs_org s) @ '':'' @ pr_id p)"
    by (simp_all add: op_def new_operation_def new_operation_id_def)
  have save: "repo_save R op = Inr (R @ [op])" "repo_ok (R @ [op])"
    using repo_save_new [of R op] R facts by simp_all
  obtain s2 where log: "log_event (xc_prims C) (env_skip 2 E) OP_ACTOR ''CONSEQUENTIAL_OPERATION_CREATED''
      (op_id op) (op_dump op) (s\<lparr>cs_repo := Some (R @ [op])\<rparr>) = (Inr (), s2)"
    and s2: "same_money (s\<lparr>cs_repo := Some (R @ [op])\<rparr>) s2" "cs_repo s2 = Some (R @ [op])"
    using log_event_ok by fastforce
  have reg: "register_operation (xc_prims C) E op s = (Inr op, s2)"
    using R(1) save(1) log by (simp add: register_operation_def act_bind_def act_return_def save_op_def)
  have "(\<exists>x. r = Inl x) \<and> s1 = s \<or> (r = Inr op \<and> s1 = s2 \<and> 0 \<le> pr_requested_credits p)"
    using assms(2) R(1,3) reg [unfolded op_def]
    by (auto simp: create_operation_def Let_def op_def split: if_splits sum.splits)
  moreover have "stored op s2" using s2(2) save(2) by (auto simp: stored_def)
  ultimately show ?thesis using facts s2(1) by (auto simp: same_money_def)
qed

lemma authorize_created:
  assumes "stored op s" "op_state op = Op_CREATED" "authorize_operation C E op p d s = (r, s1)"
  shows "same_funds s s1 \<and> (case r of
      Inl x \<Rightarrow> stored_state (op_id op) s1 \<in> {stored_state (op_id op) s, Some Op_FAILED}
    | Inr op1 \<Rightarrow> stored op1 s1 \<and> op_state op1 = Op_AUTHORIZED \<and> same_identity op op1)"
proof -
  define go where "go = (op_advance (xc_prims C) (env_skip 1 E) op Op_AUTHORIZED None None OP_ACTOR
      ''CONSEQUENTIAL_OPERATION_AUTHORIZED'' [(''state'', JStr ''authorized'')]
        :: (('a, 'b) cons_state, consequential_operation) act)"
  have go: "\<exists>op1 u'. go u = (Inr op1, u') \<and> same_money u u' \<and> op_state op1 = Op_AUTHORIZED \<and>
      same_identity op op1 \<and> stored op1 u'" if "stored op u" for u
    using op_advance_stored [OF that, of Op_AUTHORIZED "xc_prims C" "env_skip 1 E" None None OP_ACTOR
      "''CONSEQUENTIAL_OPERATION_AUTHORIZED''" "[(''state'', JStr ''authorized'')]"] assms(2)
    unfolding go_def by fastforce
  have tok: "stored op (s\<lparr>cs_tokens := T\<rparr>)" for T using assms(1) by (simp add: stored_def)
  obtain opf where tr: "transition_to (e_now E 1) op Op_FAILED (Some ''Authorization token already consumed'') None
      = Inr opf" and opf: "op_state opf = Op_FAILED" "same_identity op opf"
    using assms(2) by (simp add: transition_to_def same_identity_def)
  obtain R x where R: "cs_repo s = Some R" "repo_ok R" "x \<in> set R" "op_id x = op_id op"
      "op_idempotency_key x = op_idempotency_key op"
    using assms(1) by (auto simp: stored_def)
  have "\<exists>R' y. repo_save R opf = Inr R' \<and> repo_ok R' \<and> repo_get R' (op_id opf) = Some y \<and>
     y = opf\<lparr>op_created_at := op_created_at x\<rparr>"
    using repo_save_stored [OF R(2,3), of opf] R opf by (auto simp: same_identity_def)
  then obtain R' where save: "repo_save R opf = Inr R'" "map_option op_state (repo_get R' (op_id op)) = Some Op_FAILED"
    using opf by (auto simp: same_identity_def)
  have "(\<exists>x. r = Inl x \<and> (s1 = s \<or> s1 = s\<lparr>cs_repo := Some R'\<rparr>)) \<or> go s = (r, s1) \<or>
      (\<exists>T. go (s\<lparr>cs_tokens := T\<rparr>) = (r, s1))"
    using assms(3) R(1) save(1) tr
    by (auto simp: authorize_operation_def go_def Let_def act_bind_def act_lift_def act_raise_def
        save_op_def split: option.splits sum.splits if_splits)
  then consider x where "r = Inl x" "s1 = s \<or> s1 = s\<lparr>cs_repo := Some R'\<rparr>" | T where "go (s\<lparr>cs_tokens := T\<rparr>) = (r, s1)"
    | "go s = (r, s1)" by blast
  then show ?thesis
  proof cases
    case 1
    then show ?thesis using save(2) by (auto simp: same_funds_def stored_state_def)
  next
    case 2
    then show ?thesis using go [OF tok [of T]] by (auto simp: same_money_def same_funds_def)
  next
    case 3
    then show ?thesis using go [OF assms(1)] by (auto dest: same_money_funds)
  qed
qed

section \<open>Locking the escrow\<close>

text \<open>\<open>n\<close> credits moved from \<open>f\<close> to \<open>t\<close>, and nothing else.\<close>

definition moved ::
  "('l \<Rightarrow> string \<Rightarrow> int) \<Rightarrow> int \<Rightarrow> string \<Rightarrow> string \<Rightarrow> 'l \<Rightarrow> 'l \<Rightarrow> bool" where
  "moved b n f t L L' \<longleftrightarrow> (\<forall>a. b L' a = b L a + (if a = t then n else 0) - (if a = f then n else 0))"

lemma moved_zero [simp]: "moved b 0 f t L L"
  by (simp add: moved_def)

lemma moved_then_escrow:
  "moved b n TREASURY ESCROW L L1 \<Longrightarrow> escrow_moved b n dest L1 L2 \<Longrightarrow> moved b n TREASURY dest L L2"
  by (simp add: moved_def escrow_moved_def)

text \<open>The transaction ids a new operation may use.\<close>

definition operation_txs :: "prims \<Rightarrow> policy_decision \<Rightarrow> consequential_operation \<Rightarrow> string set" where
  "operation_txs P d op = {escrow_tx P op, settle_tx P ''tx-'' d op, settle_tx P ''rollback-'' d op}"

lemma settle_not_escrow [simp]:
  "settle_tx P ''tx-'' d op \<noteq> escrow_tx P op'" "settle_tx P ''rollback-'' d op \<noteq> escrow_tx P op'"
  by (simp_all add: settle_tx_def escrow_tx_def)

text \<open>How a new operation of \<open>n\<close> credits ends, by what the provider reported.\<close>

definition dispatched ::
  "('l \<Rightarrow> string \<Rightarrow> int) \<Rightarrow> int \<Rightarrow> provider_outcome option \<Rightarrow> 'a result \<Rightarrow> operation_state option \<Rightarrow> 'l \<Rightarrow> 'l \<Rightarrow> bool"
where
  "dispatched b n out res st L L' \<longleftrightarrow>
     (if out = Some Outcome_SUCCESS
      then \<not> isl res \<and> st = Some Op_SUCCEEDED \<and> moved b n TREASURY EXTERNAL_SINK L L'
      else if out = Some Outcome_FAILURE
      then isl res \<and> st = Some Op_FAILED \<and> moved b n TREASURY TREASURY L L'
      else isl res \<and> st = Some Op_UNKNOWN \<and> moved b n TREASURY ESCROW L L')"

lemma dispatch_settled_dispatched:
  assumes "dispatch_settled b op out res s1 s2" "moved b (op_amount op) TREASURY ESCROW L (cs_ledger s1)"
  shows "dispatched b (op_amount op) out res (stored_state (op_id op) s2) L (cs_ledger s2)"
  using assms moved_then_escrow [OF assms(2)]
  by (auto simp: dispatch_settled_def dispatched_def split: if_splits)

definition proposal_ends ::
  "('l \<Rightarrow> string \<Rightarrow> int) \<Rightarrow> 'p provider_ops \<Rightarrow> int \<Rightarrow> string \<Rightarrow> 'a result \<Rightarrow>
     ('l, 'p) cons_state \<Rightarrow> ('l, 'p) cons_state \<Rightarrow> bool" where
  "proposal_ends b pv n i res s s' \<longleftrightarrow>
     (isl res \<and> same_funds s s') \<or>
     (\<exists>op pr. op_id op = i \<and> op_amount op = n \<and> op_state op = Op_SUBMITTED \<and>
        po_execute pv op (cs_provider s) = (pr, cs_provider s') \<and>
        dispatched b n (reported pr) res (stored_state i s') (cs_ledger s) (cs_ledger s'))"

context total_ledger
begin

lemma escrow_authorized:
  assumes inv: "inv (cs_ledger s)" and st: "stored op s" "op_state op = Op_AUTHORIZED" and am: "0 \<le> op_amount op"
    and nk: "\<not> known (cs_ledger s) (escrow_tx P op)"
    and ne: "\<forall>e \<in> set (g (cs_ledger s)). le_transaction_id e \<noteq> escrow_tx P op"
    and run: "escrow_operation (entry_ops_of bal post g) P E op s = (r, s1)"
  shows "inv (cs_ledger s1) \<and> cs_provider s1 = cs_provider s \<and> (case r of
      Inl x \<Rightarrow> s1 = s
    | Inr op1 \<Rightarrow> stored op1 s1 \<and> op_state op1 = Op_ESCROWED \<and> same_identity op op1 \<and>
        moved bal (op_amount op) TREASURY ESCROW (cs_ledger s) (cs_ledger s1) \<and>
        (\<forall>x. known (cs_ledger s1) x \<longrightarrow> x = escrow_tx P op \<or> known (cs_ledger s) x))"
proof -
  have adv: "\<exists>op1 u'. op_advance P (env_skip 2 E) op Op_ESCROWED None None OP_ACTOR ''CONSEQUENTIAL_OPERATION_ESCROWED''
      [(''amount'', JInt (op_amount op)), (''state'', JStr ''escrowed'')] u = (Inr op1, u') \<and> same_money u u' \<and>
      stored op1 u' \<and> op_state op1 = Op_ESCROWED \<and> same_identity op op1" if "stored op u" for u
    using op_advance_stored [OF that, of Op_ESCROWED P "env_skip 2 E"] st(2) by fastforce
  show ?thesis
  proof (cases "0 < op_amount op")
    case False
    then show ?thesis using run adv [OF st(1)] st(2) am inv
      by (auto simp: escrow_operation_def same_money_def)
  next
    case True
    have none: "find (\<lambda>e. le_transaction_id e = escrow_tx P op) (g (cs_ledger s)) = None"
      using ne by (auto simp: find_None_iff)
    have tx: "escrow_tx P op \<noteq> []" by (simp add: escrow_tx_def)
    show ?thesis
    proof (cases "op_amount op \<le> bal (cs_ledger s) TREASURY")
      case afford: True
      obtain s2 where mv: "cons_move (entry_ops_of bal post g) E TREASURY ESCROW (op_amount op) (escrow_memo op)
          (escrow_tx P op) s = (Inr (), s2)" "inv (cs_ledger s2)" and eq: "s2 = s\<lparr>cs_ledger := cs_ledger s2\<rparr>"
        and eff: "moved bal (op_amount op) TREASURY ESCROW (cs_ledger s) (cs_ledger s2)"
          "\<forall>x. known (cs_ledger s2) x \<longleftrightarrow> x = escrow_tx P op \<or> known (cs_ledger s) x"
        using cons_move_accepts [OF inv tx nk True, of TREASURY ESCROW g E "escrow_memo op"] afford
        by (auto simp: moved_def)
      obtain s3 where s3: "refresh_treasury (entry_ops_of bal post g) s2 = (Inr (), s3)" "cs_ledger s3 = cs_ledger s2"
          "cs_repo s3 = cs_repo s2" "cs_provider s3 = cs_provider s2"
        by (simp add: refresh_treasury_def)
      have "stored op s3" using st(1) s3(3) cs_frame(1) [OF eq] by (simp add: stored_def)
      from adv [OF this] obtain op1 s4 where a: "op_advance P (env_skip 2 E) op Op_ESCROWED None None OP_ACTOR
          ''CONSEQUENTIAL_OPERATION_ESCROWED'' [(''amount'', JInt (op_amount op)), (''state'', JStr ''escrowed'')] s3
            = (Inr op1, s4)" "same_money s3 s4" "stored op1 s4" "op_state op1 = Op_ESCROWED" "same_identity op op1"
        by blast
      have "r = Inr op1 \<and> s1 = s4"
        using run st(2) True none mv(1) s3(1) a(1) by (simp add: escrow_operation_def act_bind_def)
      then show ?thesis using a(2-5) mv(2) eff s3 cs_frame(2) [OF eq] by (simp add: same_money_def)
    next
      case False
      then obtain x where "post E (cs_ledger s) TREASURY ESCROW (op_amount op) (escrow_memo op) (Some (escrow_tx P op))
          = Inl x" using rejected_overdraft [OF inv] by (meson not_le)
      then have "(r, s1) = (Inl x, s)"
        using run st(2) True none by (simp add: escrow_operation_def act_bind_def cons_move_def)
      then show ?thesis using inv by simp
    qed
  qed
qed

lemma submit_escrowed:
  assumes inv: "inv (cs_ledger s1)" and st: "stored op s1" "op_state op = Op_ESCROWED"
    and am: "0 \<le> op_amount op" "0 \<le> bal L ESCROW"
    and mv: "moved bal (op_amount op) TREASURY ESCROW L (cs_ledger s1)"
    and tx: "\<forall>tx \<in> operation_txs (xc_prims C) d op. \<not> known L tx"
    and kn: "\<forall>x. known (cs_ledger s1) x \<longrightarrow> x = escrow_tx (xc_prims C) op \<or> known L x"
    and run: "submit_operation (entry_ops_of bal post g) pv C E op p d s1 = (res, s2)"
  shows "\<exists>op1 pr. op_id op1 = op_id op \<and> op_amount op1 = op_amount op \<and> op_state op1 = Op_SUBMITTED \<and>
     po_execute pv op1 (cs_provider s1) = (pr, cs_provider s2) \<and>
     dispatched bal (op_amount op) (reported pr) res (stored_state (op_id op) s2) L (cs_ledger s2)"
proof -
  have le: "op_amount op \<le> bal (cs_ledger s1) ESCROW" using mv am(2) by (simp add: moved_def)
  have "\<not> known (cs_ledger s1) (settle_tx (xc_prims C) ''tx-'' d op)"
      "\<not> known (cs_ledger s1) (settle_tx (xc_prims C) ''rollback-'' d op)"
    using tx kn by (auto simp: operation_txs_def)
  from submit_operation_settles [OF inv st am(1) le this run] obtain op1 pr where
    "same_identity op op1" "op_state op1 = Op_SUBMITTED" "po_execute pv op1 (cs_provider s1) = (pr, cs_provider s2)"
    "dispatch_settled bal op (reported pr) res s1 s2" by blast
  then show ?thesis using dispatch_settled_dispatched [OF _ mv]
    by (intro exI [of _ op1] exI [of _ pr]) (simp add: same_identity_def)
qed

lemma escrow_and_submit:
  assumes inv: "inv (cs_ledger s)" and st: "stored op s" "op_state op = Op_AUTHORIZED"
    and am: "0 \<le> op_amount op" "0 \<le> bal (cs_ledger s) ESCROW"
    and tx: "\<forall>tx \<in> operation_txs (xc_prims C) d op. \<not> known (cs_ledger s) tx"
    and ne: "\<forall>e \<in> set (g (cs_ledger s)). le_transaction_id e \<noteq> escrow_tx (xc_prims C) op"
    and run: "act_bind (escrow_operation (entry_ops_of bal post g) (xc_prims C) E op)
       (\<lambda>op2. if op_state op2 = Op_ESCROWED then submit_operation (entry_ops_of bal post g) pv C E2 op2 p d
          else act_raise InvalidStateTransitionError ''Unexpected operation state'') s = (res, s')"
  shows "proposal_ends bal pv (op_amount op) (op_id op) res s s'"
proof -
  obtain r s1 where esc: "escrow_operation (entry_ops_of bal post g) (xc_prims C) E op s = (r, s1)" by fastforce
  have nk: "\<not> known (cs_ledger s) (escrow_tx (xc_prims C) op)" using tx by (simp add: operation_txs_def)
  note facts = escrow_authorized [OF inv st am(1) nk ne esc]
  show ?thesis
  proof (cases r)
    case (Inl x)
    then show ?thesis using run esc facts by (auto simp: act_bind_def proposal_ends_def)
  next
    case (Inr op2)
    then have ok: "stored op2 s1" "op_state op2 = Op_ESCROWED" "same_identity op op2"
        "moved bal (op_amount op) TREASURY ESCROW (cs_ledger s) (cs_ledger s1)"
        "\<forall>x. known (cs_ledger s1) x \<longrightarrow> x = escrow_tx (xc_prims C) op \<or> known (cs_ledger s) x"
        "inv (cs_ledger s1)" "cs_provider s1 = cs_provider s"
      using facts by simp_all
    have ids: "op_id op2 = op_id op" "op_amount op2 = op_amount op" using ok(3) by (simp_all add: same_identity_def)
    have txs: "operation_txs (xc_prims C) d op2 = operation_txs (xc_prims C) d op"
        "escrow_tx (xc_prims C) op2 = escrow_tx (xc_prims C) op"
      using ids by (simp_all add: operation_txs_def escrow_tx_def settle_tx_def)
    have sub: "submit_operation (entry_ops_of bal post g) pv C E2 op2 p d s1 = (res, s')"
      using run esc Inr ok(2) by (simp add: act_bind_def)
    have 1: "0 \<le> op_amount op2" using am ids by simp
    have 2: "moved bal (op_amount op2) TREASURY ESCROW (cs_ledger s) (cs_ledger s1)" using ok(4) ids by simp
    have 3: "\<forall>tx \<in> operation_txs (xc_prims C) d op2. \<not> known (cs_ledger s) tx" using tx txs by simp
    have 4: "\<forall>x. known (cs_ledger s1) x \<longrightarrow> x = escrow_tx (xc_prims C) op2 \<or> known (cs_ledger s) x"
      using ok(5) txs by simp
    from submit_escrowed [OF ok(6) ok(1,2) 1 am(2) 2 3 4 sub, unfolded ids ok(7)]
    show ?thesis unfolding proposal_ends_def by blast
  qed
qed

lemma execute_new:
  assumes inv: "inv (cs_ledger s)" and esc: "0 \<le> bal (cs_ledger s) ESCROW"
    and new: "unregistered (py_or idem (og_id (cs_org s) @ '':'' @ pr_id p)) (new_operation_id E) s"
    and tx: "\<forall>tx \<in> operation_txs (xc_prims C) d op0. \<not> known (cs_ledger s) tx" "op_id op0 = new_operation_id E"
    and ne: "\<forall>e \<in> set (g (cs_ledger s)). le_transaction_id e \<noteq> escrow_tx (xc_prims C) op0"
    and run: "execute_proposal (entry_ops_of bal post g) pv C E now p d idem s = (res, s')"
  shows "proposal_ends bal pv (pr_requested_credits p) (new_operation_id E) res s s'"
proof -
  obtain r s1 where cr: "create_operation C (po_name pv) E now p d idem s = (r, s1)" by fastforce
  note c = create_new [OF new cr]
  show ?thesis
  proof (cases r)
    case (Inl x)
    then show ?thesis using run cr c by (auto simp: execute_proposal_def act_bind_def proposal_ends_def)
  next
    case (Inr op)
    then have op: "same_money s s1" "stored op s1" "op_state op = Op_CREATED" "op_amount op = pr_requested_credits p"
        "0 \<le> op_amount op" "op_id op = new_operation_id E" using c by simp_all
    obtain r2 s2 where au: "authorize_operation C (env_skip 3 E) op p d s1 = (r2, s2)" by fastforce
    note a = authorize_created [OF op(2,3) au]
    have f: "same_funds s s2" using a same_funds_trans [OF same_money_funds [OF op(1)]] by blast
    show ?thesis
    proof (cases r2)
      case (Inl x)
      then show ?thesis using run cr \<open>r = Inr op\<close> Inl op(3) au f
        by (auto simp: execute_proposal_def act_bind_def proposal_ends_def)
    next
      case (Inr op1)
      then have op1: "stored op1 s2" "op_state op1 = Op_AUTHORIZED" "op_id op1 = new_operation_id E"
          "op_amount op1 = pr_requested_credits p" using a op by (simp_all add: same_identity_def)
      have L: "cs_ledger s2 = cs_ledger s" "cs_provider s2 = cs_provider s" using f by (simp_all add: same_funds_def)
      have txs: "operation_txs (xc_prims C) d op1 = operation_txs (xc_prims C) d op0"
          "escrow_tx (xc_prims C) op1 = escrow_tx (xc_prims C) op0"
        using op1(3) tx(2) by (simp_all add: operation_txs_def escrow_tx_def settle_tx_def)
      have "act_bind (escrow_operation (entry_ops_of bal post g) (xc_prims C) (env_skip 6 E) op1)
         (\<lambda>op2. if op_state op2 = Op_ESCROWED
            then submit_operation (entry_ops_of bal post g) pv C (env_skip 10 E) op2 p d
            else act_raise InvalidStateTransitionError ''Unexpected operation state'') s2 = (res, s')"
        using run cr \<open>r = Inr op\<close> op(3) au Inr op1(2) by (simp add: execute_proposal_def act_bind_Inr)
      note stages = this
      have 1: "inv (cs_ledger s2)" "0 \<le> op_amount op1" "0 \<le> bal (cs_ledger s2) ESCROW"
        using inv esc L op(4,5) op1(4) by simp_all
      have 2: "\<forall>tx \<in> operation_txs (xc_prims C) d op1. \<not> known (cs_ledger s2) tx"
          "\<forall>e \<in> set (g (cs_ledger s2)). le_transaction_id e \<noteq> escrow_tx (xc_prims C) op1"
        using tx ne L txs by simp_all
      from escrow_and_submit [OF 1(1) op1(1,2) 1(2,3) 2 stages]
      show ?thesis using op1 L by (simp add: proposal_ends_def same_funds_def)
    qed
  qed
qed

end

section \<open>The in-memory ledger\<close>

definition mem_entry_ops :: "ledger entry_ops" where
  "mem_entry_ops = entry_ops_of get_balance transfer (\<lambda>L. get_entries L None)"

lemma mem_escrow_nonneg: "ledger_inv L \<Longrightarrow> 0 \<le> get_balance L a"
  by (simp add: ledger_inv_def)

lemma mem_entries_known:
  "ledger_inv L \<Longrightarrow> e \<in> set (get_entries L None) \<Longrightarrow> le_transaction_id e \<in> lg_recorded_tx_ids L"
  by (simp add: ledger_inv_def get_entries_def)


text \<open>
  C5: an operation that left the local stages is never executed again.  When the key is registered
  and the operation is past ESCROWED, \<open>execute_proposal\<close> changes nothing at all, calls no provider,
  and returns a receipt only for SUCCEEDED.
\<close>

theorem unresolved_never_retried:
  assumes "cs_repo s = Some R" "repo_get_by_key R (py_or idem (og_id (cs_org s) @ '':'' @ pr_id p)) = Some op"
    and "op_state op \<notin> {Op_CREATED, Op_AUTHORIZED, Op_ESCROWED}"
    and "execute_proposal ops pv C E now p d idem s = (res, s')"
  shows "s' = s \<and> (\<not> isl res \<longrightarrow> op_state op = Op_SUCCEEDED)"
proof -
  have "snd (create_operation C (po_name pv) E now p d idem s) = s \<and>
      (fst (create_operation C (po_name pv) E now p d idem s) = Inr op \<or>
       isl (fst (create_operation C (po_name pv) E now p d idem s)))"
    using assms(1,2) by (simp add: create_operation_def Let_def split: sum.split)
  then obtain r where cr: "create_operation C (po_name pv) E now p d idem s = (r, s)" "r = Inr op \<or> isl r"
    by (metis prod.collapse)
  show ?thesis
  proof (cases r)
    case (Inl x)
    then show ?thesis using assms(4) cr(1) by (auto simp: execute_proposal_def act_bind_def)
  next
    case (Inr op')
    then show ?thesis using assms(3,4) cr
      by (cases "op_state op") (auto simp: execute_proposal_def act_bind_def act_return_def act_raise_def)
  qed
qed

lemma reconciled_stays:
  "stored_state i s = Some Op_RECONCILED \<Longrightarrow> snd (reconcile_operation ops pv P E i s) = s"
  by (auto simp: stored_state_def reconcile_operation_def split: option.splits)

text \<open>
  C2: reconciliation settles by the provider's answer, once.  For an unresolved operation of the
  caller's scope, a decided answer marks it RECONCILED and moves the escrow to EXTERNAL_SINK or back to
  TREASURY exactly when the entries do not show that settlement yet and the escrow
  holds the amount; an undecided answer keeps the escrow.  Once RECONCILED, reconciling again
  with any provider changes nothing.
\<close>

theorem reconciliation_settles_once:
  assumes "ledger_inv (cs_ledger s)" "reconcilable op s" "0 \<le> op_amount op"
    and "rec_tx P ''tx-rec-'' op \<notin> lg_recorded_tx_ids (cs_ledger s)"
    and "rec_tx P ''rollback-rec-'' op \<notin> lg_recorded_tx_ids (cs_ledger s)"
    and "reconcile_operation mem_entry_ops pv P E (op_id op) s = (res, s')"
  shows "(\<exists>ref answer. po_status pv (op_id op) (op_idempotency_key op) ref (cs_provider s) = (answer, cs_provider s') \<and>
     rec_answered P get_balance (\<lambda>L. get_entries L None) op answer res s s') \<and>
     (\<forall>op' pv' E'. res = Inr op' \<longrightarrow> op_state op' = Op_RECONCILED \<longrightarrow>
        snd (reconcile_operation mem_entry_ops pv' P E' (op_id op) s') = s')"
proof -
  obtain ref answer where a: "po_status pv (op_id op) (op_idempotency_key op) ref (cs_provider s) = (answer, cs_provider s')"
      "rec_answered P get_balance (\<lambda>L. get_entries L None) op answer res s s'"
    using mem_total.reconcile_effect [OF assms(1,2,3), of P "\<lambda>L. get_entries L None" pv E res s'] assms(4-6)
    unfolding mem_entry_ops_def by blast
  have "stored_state (op_id op) s' = Some Op_RECONCILED" if "res = Inr op'" "op_state op' = Op_RECONCILED" for op'
    using a(2) that by (auto simp: rec_answered_def reconciled_def split: sum.splits if_splits)
  then show ?thesis using a reconciled_stays by blast
qed

section \<open>Demonstrations\<close>

definition demo_cons_state :: "ledger \<Rightarrow> op_table \<Rightarrow> (ledger, sim_provider) cons_state" where
  "demo_cons_state L R = \<lparr>cs_ledger = L, cs_repo = Some R, cs_tokens = None, cs_events = None,
     cs_provider = empty_provider, cs_org = demo_org\<rparr>"

lemma demo_ledger_ok: "ledger_inv demo_ledger"
  using ledger_reach_inv [OF demo_ledger_reach] .

definition demo_refused :: policy_decision where
  "demo_refused = \<lparr>pd_id = ''d'', pd_proposal_id = ''prop-0001'', pd_result = Policy_REJECTED,
     pd_violated_rule_id = Some ''RULE-01'', pd_violated_rule_description = None, pd_evaluated_rules = [],
     pd_authorization_token = None, pd_timestamp = ''now''\<rparr>"

theorem unresolved_never_retried_witness:
  "\<exists>res s'. execute_proposal mem_entry_ops (sim_ops codec_prims) (exec_config.truncate demo_external_config) demo_env 30
      demo_proposal demo_refused (Some ''o:p'')
      (demo_cons_state demo_ledger [demo_op\<lparr>op_state := Op_UNKNOWN\<rparr>]) = (res, s') \<and> isl res \<and>
     s' = demo_cons_state demo_ledger [demo_op\<lparr>op_state := Op_UNKNOWN\<rparr>]"
proof -
  let ?s = "demo_cons_state demo_ledger [demo_op\<lparr>op_state := Op_UNKNOWN\<rparr>]"
  obtain res s' where run: "execute_proposal mem_entry_ops (sim_ops codec_prims)
      (exec_config.truncate demo_external_config) demo_env 30 demo_proposal demo_refused (Some ''o:p'') ?s = (res, s')"
    by fastforce
  have key: "repo_get_by_key [demo_op\<lparr>op_state := Op_UNKNOWN\<rparr>] (py_or (Some ''o:p'') (og_id (cs_org ?s) @ '':'' @ pr_id demo_proposal))
      = Some (demo_op\<lparr>op_state := Op_UNKNOWN\<rparr>)"
    by (simp add: repo_get_by_key_def demo_op_def)
  from unresolved_never_retried [OF _ key _ run] run show ?thesis
    by (auto simp: demo_cons_state_def)
qed

abbreviation demo_cons_config :: exec_config where
  "demo_cons_config \<equiv> exec_config.truncate demo_external_config"

lemma demo_proposal_runs:
  assumes "pd_result d = Policy_APPROVED" "pd_authorization_token d = Some token" "token \<noteq> []"
    and "fst (verify_token codec_prims codec_loads codec_engine token demo_proposal demo_org (Some d) 30)"
  shows "\<exists>rc s'. execute_proposal mem_entry_ops (sim_ops codec_prims) demo_cons_config demo_env 30 demo_proposal d
      None (demo_cons_state demo_ledger []) = (Inr rc, s')"
  using assms
  by (simp add: execute_proposal_def create_operation_def demo_cons_state_def repo_get_by_key_def
      demo_external_config_def exec_config.truncate_def enforce_agent_capability_def demo_org_def demo_agent_def
      demo_proposal_def register_operation_def new_operation_def act_bind_def act_simps save_op_def repo_save_def
      repo_get_def log_event_def authorize_operation_def op_advance_def transition_to_def escrow_operation_def
      mem_entry_ops_def demo_ledger_def get_entries_def Let_def)
     (simp add: act_bind_def act_simps cons_move_def transfer_def mk_ledger_entry_def get_balance_def Let_def
      escrow_tx_def codec_prims_def demo_prims_def demo_env_def env_skip_def refresh_treasury_def save_op_def repo_save_def
      repo_get_def log_event_def op_advance_def transition_to_def submit_operation_def call_provider_def
      sim_ops_def sim_execute_def empty_provider_def submit_result_def submit_success_def settle_escrow_def
      settle_tx_def put_record_def keyed_def account_defs)


definition demo_locked_ledger :: ledger where
  "demo_locked_ledger = (case transfer demo_env2 demo_ledger TREASURY ESCROW 10 ''lock'' (Some ''res-1'') of
     Inl x \<Rightarrow> demo_ledger | Inr (e, L) \<Rightarrow> L)"

lemma demo_locked_ok:
  "ledger_inv demo_locked_ledger" "lg_recorded_tx_ids demo_locked_ledger = {''res-1'', ''mint-u''}"
  "get_balance demo_locked_ledger ESCROW = 10" "get_balance demo_locked_ledger EXTERNAL_SINK = 0"
  "\<forall>e \<in> set (get_entries demo_locked_ledger None). le_to_account e \<noteq> EXTERNAL_SINK"
proof -
  obtain e L where run: "transfer demo_env2 demo_ledger TREASURY ESCROW 10 ''lock'' (Some ''res-1'') = Inr (e, L)"
    by (simp add: transfer_def demo_ledger_def mk_ledger_entry_def get_balance_def account_defs Let_def)
  then have L: "demo_locked_ledger = L" by (simp add: demo_locked_ledger_def)
  show "ledger_inv demo_locked_ledger" using transfer_inv [OF demo_ledger_ok run] L by simp
  show "lg_recorded_tx_ids demo_locked_ledger = {''res-1'', ''mint-u''}"
    "get_balance demo_locked_ledger ESCROW = 10" "get_balance demo_locked_ledger EXTERNAL_SINK = 0"
    "\<forall>e \<in> set (get_entries demo_locked_ledger None). le_to_account e \<noteq> EXTERNAL_SINK"
    using run unfolding L
    by (auto simp: transfer_Inr demo_ledger_def get_balance_def get_entries_def account_defs)
qed

theorem reconciliation_settles_once_witness:
  "\<exists>V op' s'. reconcile_operation mem_entry_ops (sim_ops codec_prims) codec_prims demo_env ''cop-1''
       ((demo_cons_state demo_locked_ledger [demo_op\<lparr>op_state := Op_UNKNOWN, op_tenant_id := ''acme'',
          op_organisation_id := ''org-1''\<rparr>])\<lparr>cs_provider := V\<rparr>) = (Inr op', s') \<and>
     op_state op' = Op_RECONCILED \<and> get_balance (cs_ledger s') ESCROW = 0 \<and>
     get_balance (cs_ledger s') EXTERNAL_SINK = 10"
proof -
  define op where "op = demo_op\<lparr>op_state := Op_UNKNOWN, op_tenant_id := ''acme'', op_organisation_id := ''org-1''\<rparr>"
  define V where "V = snd (record_external_execution codec_prims ''o:p'' ''cop-1'' Outcome_SUCCESS ''x'' 10 None None empty_provider)"
  define s where "s = (demo_cons_state demo_locked_ledger [op])\<lparr>cs_provider := V\<rparr>"
  have f: "cs_ledger s = demo_locked_ledger" "cs_provider s = V" by (simp_all add: s_def demo_cons_state_def)
  have o: "op_id op = ''cop-1''" "op_amount op = 10" "op_idempotency_key op = ''o:p''"
    by (simp_all add: op_def demo_op_def)
  obtain res s' where run: "reconcile_operation mem_entry_ops (sim_ops codec_prims) codec_prims demo_env (op_id op) s
      = (res, s')" by fastforce
  have rec: "reconcilable op s"
    by (simp add: reconcilable_def s_def demo_cons_state_def repo_ok_def repo_get_def op_def demo_op_def demo_org_def)
  have fresh: "rec_tx codec_prims ''tx-rec-'' op \<notin> lg_recorded_tx_ids (cs_ledger s)"
      "rec_tx codec_prims ''rollback-rec-'' op \<notin> lg_recorded_tx_ids (cs_ledger s)"
    using demo_locked_ok(2) by (simp_all add: f rec_tx_def)
  have inv: "ledger_inv (cs_ledger s)" "0 \<le> op_amount op" using demo_locked_ok(1) f o by simp_all
  from reconciliation_settles_once [OF inv(1) rec inv(2) fresh run] obtain ref answer where
    q: "sim_status ''cop-1'' ''o:p'' ref V = (answer, cs_provider s')" and
    a: "rec_answered codec_prims get_balance (\<lambda>L. get_entries L None) op answer res s s'"
    unfolding o f by (auto simp: sim_ops_def)
  have "\<exists>r. answer = Inr r \<and> px_outcome r = Outcome_SUCCESS"
    using q by (auto simp: V_def record_external_execution_def Let_def sim_status_def sim_lookup_def empty_provider_def)
  then obtain r where r: "answer = Inr r" "px_outcome r = Outcome_SUCCESS" by blast
  have "rec_moves codec_prims get_balance (\<lambda>L. get_entries L None) op Outcome_SUCCESS demo_locked_ledger"
    using demo_locked_ok(3,5) by (auto simp: rec_moves_def o already_done_def already_settled_def)
  then obtain op' where op': "res = Inr op'" "op_state op' = Op_RECONCILED"
    and mv: "escrow_moved get_balance 10 EXTERNAL_SINK demo_locked_ledger (cs_ledger s')"
    using a r by (auto simp: rec_answered_def reconciled_def decided_def f o rec_dest_def)
  have "get_balance (cs_ledger s') ESCROW = 0" "get_balance (cs_ledger s') EXTERNAL_SINK = 10"
    using mv demo_locked_ok(3,4) by (simp_all add: escrow_moved_def)
  with run op' show ?thesis unfolding s_def op_def [symmetric] o by blast
qed

end
