(* ===== verification/Tenancy.thy ===== *)
theory Tenancy
  imports SqlLedger
begin

text \<open>
  Tenant and organisation isolation (\<open>src/tenancy\<close>): the tenant context, the canonical account
  names (\<open>account_namespace.py\<close>), the tenant facade over the SQL ledger (\<open>ledger.py\<close>) and the
  organisation facade over that (\<open>organisation_ledger.py\<close>).  The state is the pair of tables
  \<open>tenants\<close> and \<open>ledger_entries\<close>.
\<close>

section \<open>Identifiers and account names\<close>

definition valid_scope_id :: "string \<Rightarrow> bool" where
  "valid_scope_id i \<longleftrightarrow> \<not> (i = [] \<or> CHR '':'' \<in> set i)"

lemma valid_scope_idD [simp]: "valid_scope_id i \<Longrightarrow> CHR '':'' \<notin> set i"
  by (simp add: valid_scope_id_def)

text \<open>\<open>TenantContext.require\<close>.\<close>

definition context_require :: "string \<Rightarrow> string \<Rightarrow> unit result" where
  "context_require tid resource_tid =
     (if resource_tid \<noteq> tid then raise PermissionError ''Tenant boundary violation'' else Inr ())"

record account_namespace =
  ns_tenant_id :: string
  ns_organisation_id :: string

definition mk_namespace :: "string \<Rightarrow> string \<Rightarrow> account_namespace result" where
  "mk_namespace tid oid =
     (if tid = [] \<or> CHR '':'' \<in> set tid
      then raise ValueError ''tenant_id must be a non-empty identifier without ':' ''
      else if oid = [] \<or> CHR '':'' \<in> set oid
      then raise ValueError ''organisation_id must be a non-empty identifier without ':' ''
      else Inr \<lparr>ns_tenant_id = tid, ns_organisation_id = oid\<rparr>)"

definition physical :: "account_namespace \<Rightarrow> string \<Rightarrow> string result" where
  "physical N logical =
     (if logical = SYSTEM_MINT then Inr SYSTEM_MINT
      else if CHR '':'' \<in> set logical
      then raise ValueError ''Callers must not supply physical account strings; use logical names only''
      else Inr (ns_tenant_id N @ '':'' @ ns_organisation_id N @ '':'' @ logical))"

definition org_relative :: "account_namespace \<Rightarrow> string \<Rightarrow> string result" where
  "org_relative N logical =
     (if logical = SYSTEM_MINT then Inr SYSTEM_MINT
      else if CHR '':'' \<in> set logical
      then raise ValueError ''Callers must not supply physical account strings''
      else Inr (ns_organisation_id N @ '':'' @ logical))"

definition parse_physical :: "string \<Rightarrow> (string \<times> string \<times> string) option" where
  "parse_physical account =
     (if account = SYSTEM_MINT then None
      else let parts = py_split (CHR '':'') account in
        if length parts < 3 then None
        else Some (parts ! 0, parts ! 1, py_join '':'' (drop 2 parts)))"

text \<open>\<open>TenantScopedLedger._account\<close> and \<open>OrganisationScopedLedger._account\<close>.\<close>

definition tenant_account :: "string \<Rightarrow> string \<Rightarrow> string" where
  "tenant_account tid a = (if prefix (tid @ '':'') a then a else tid @ '':'' @ a)"

definition org_account :: "string \<Rightarrow> string \<Rightarrow> string" where
  "org_account oid a = oid @ '':'' @ a"

section \<open>The tenant ledger\<close>

record tenancy_db =
  td_tenants :: "(string \<times> string) list"
  td_entries :: ledger_table

text \<open>
  The ledger a tenant facade wraps: \<open>SqliteLedger\<close>, whose \<open>transfer\<close> has no \<open>tenant_id\<close>
  parameter (so the first call raises \<open>TypeError\<close>), or \<open>AtomicSqliteLedger\<close>, which has one.
\<close>

datatype backend = Plain_backend | Atomic_backend

definition ensure_tenant :: "env \<Rightarrow> tenancy_db \<Rightarrow> string \<Rightarrow> tenancy_db" where
  "ensure_tenant E D tid =
     (if tid \<in> fst ` set (td_tenants D) then D
      else D\<lparr>td_tenants := td_tenants D @ [(tid, e_now E 0)]\<rparr>)"

definition tenant_get_balance :: "string \<Rightarrow> ledger_table \<Rightarrow> string \<Rightarrow> int" where
  "tenant_get_balance tid T a = sqlite_get_balance T (tenant_account tid a)"

definition mint_scoped ::
  "string \<Rightarrow> env \<Rightarrow> ledger_table \<Rightarrow> int \<Rightarrow> string \<Rightarrow> (ledger_entry \<times> ledger_table) result" where
  "mint_scoped tid E T n memo =
     (if n \<le> 0 then raise ValueError ''Mint amount must be positive''
      else let r = mk_row (e_uuid E 0) (e_now E 0) (tid @ '':mint-'' @ e_uuid E 1) SYSTEM_MINT
                     (tenant_account tid TREASURY) n memo tid
        in bind_result (insert_row r T) (\<lambda>T'. Inr (row_entry r, T')))"

definition tenant_deposit_revenue ::
  "string \<Rightarrow> env \<Rightarrow> ledger_table \<Rightarrow> int \<Rightarrow> string \<Rightarrow> string option \<Rightarrow> string \<Rightarrow>
     (ledger_entry \<times> ledger_table) result" where
  "tenant_deposit_revenue tid E T n memo txid to_account =
     (if n \<le> 0 then raise ValueError ''Deposit amount must be positive''
      else let r = mk_row (e_uuid E 0) (e_now E 0) (py_or txid (tid @ '':deposit-'' @ e_uuid E 1))
                     SYSTEM_MINT (tenant_account tid to_account) n memo tid
        in bind_result (insert_row r T) (\<lambda>T'. Inr (row_entry r, T')))"

definition mark_tenant :: "string \<Rightarrow> string \<Rightarrow> ledger_table \<Rightarrow> ledger_table" where
  "mark_tenant tid entry_id T =
     map (\<lambda>r. if le_id r = entry_id then r\<lparr>lr_tenant_id := tid\<rparr> else r) T"

definition tenant_transfer :: "backend \<Rightarrow> string \<Rightarrow> ledger_table post_fun" where
  "tenant_transfer B tid E T f t n m txid =
     (case B of
        Atomic_backend \<Rightarrow>
          atomic_transfer (Some tid) E T (tenant_account tid f) (tenant_account tid t) n m txid
      | Plain_backend \<Rightarrow>
          bind_result (sqlite_transfer E T (tenant_account tid f) (tenant_account tid t) n m txid)
            (\<lambda>(e, T'). Inr (e, mark_tenant tid (le_id e) T')))"

definition tenant_init :: "env \<Rightarrow> tenancy_db \<Rightarrow> string \<Rightarrow> int \<Rightarrow> tenancy_db result" where
  "tenant_init E D tid initial =
     (if tid = [] \<or> CHR '':'' \<in> set tid
      then raise ValueError ''tenant_id must be a non-empty identifier without ':' ''
      else let D1 = ensure_tenant E D tid in
        if initial > 0 \<and> tenant_get_balance tid (td_entries D1) TREASURY = 0
        then bind_result (mint_scoped tid (env_skip 1 E) (td_entries D1) initial
                            ''Initial treasury for tenant'')
               (\<lambda>(e, T). Inr (D1\<lparr>td_entries := T\<rparr>))
        else Inr D1)"

text \<open>The filter and renaming shared by both \<open>get_entries\<close>; \<open>p\<close> is the scope's prefix.\<close>

definition in_scope :: "string \<Rightarrow> ledger_entry \<Rightarrow> bool" where
  "in_scope p e \<longleftrightarrow> \<not> (le_from_account e \<noteq> SYSTEM_MINT \<and> \<not> prefix p (le_from_account e))
     \<and> prefix p (le_to_account e)"

definition unscope :: "string \<Rightarrow> ledger_entry \<Rightarrow> ledger_entry" where
  "unscope p e = e\<lparr>le_from_account := (if le_from_account e = SYSTEM_MINT then le_from_account e
                      else removeprefix p (le_from_account e)),
                   le_to_account := removeprefix p (le_to_account e)\<rparr>"

definition tenant_get_entries :: "string \<Rightarrow> ledger_table \<Rightarrow> string option \<Rightarrow> ledger_entry list" where
  "tenant_get_entries tid T acct =
     (let entries = sqlite_get_entries T
            (if py_truthy acct then Some (tenant_account tid (the acct)) else None)
      in map (unscope (tid @ '':'')) (filter (in_scope (tid @ '':'')) entries))"

definition tenant_verify_conservation :: "string \<Rightarrow> ledger_table \<Rightarrow> bool" where
  "tenant_verify_conservation tid T = entries_conserve (tenant_get_entries tid T None)"

section \<open>The organisation ledger\<close>

definition org_get_balance :: "string \<Rightarrow> string \<Rightarrow> ledger_table \<Rightarrow> string \<Rightarrow> int" where
  "org_get_balance tid oid T a = tenant_get_balance tid T (org_account oid a)"

definition org_init :: "string \<Rightarrow> string \<Rightarrow> env \<Rightarrow> ledger_table \<Rightarrow> int \<Rightarrow> ledger_table result" where
  "org_init tid oid E T initial =
     (if oid = [] \<or> CHR '':'' \<in> set oid
      then raise ValueError ''organisation_id must be a non-empty identifier without ':' ''
      else if initial > 0 \<and> org_get_balance tid oid T TREASURY = 0
      then insert_row (mk_row (e_uuid E 0) (e_now E 0)
             (tid @ '':org-'' @ oid @ '':mint-'' @ e_uuid E 1) SYSTEM_MINT
             (tid @ '':'' @ org_account oid TREASURY) initial
             ''Initial organisation treasury'' tid) T
      else Inr T)"

definition org_transfer :: "backend \<Rightarrow> string \<Rightarrow> string \<Rightarrow> ledger_table post_fun" where
  "org_transfer B tid oid E T f t n m txid =
     tenant_transfer B tid E T (org_account oid f) (org_account oid t) n m txid"

definition org_deposit_revenue ::
  "string \<Rightarrow> string \<Rightarrow> env \<Rightarrow> ledger_table \<Rightarrow> int \<Rightarrow> string \<Rightarrow> string option \<Rightarrow>
     (ledger_entry \<times> ledger_table) result" where
  "org_deposit_revenue tid oid E T n memo txid =
     (if n \<le> 0 then raise ValueError ''Deposit amount must be positive''
      else let target = org_account oid REVENUE;
               tx = py_or txid (tid @ '':org-'' @ oid @ '':deposit-'' @ e_uuid E 1);
               r = mk_row (e_uuid E 0) (e_now E 0) tx SYSTEM_MINT (tid @ '':'' @ target) n memo tid
        in bind_result (insert_row r T)
             (\<lambda>T'. Inr ((row_entry r)\<lparr>le_to_account := target\<rparr>, T')))"

definition org_mint ::
  "string \<Rightarrow> string \<Rightarrow> env \<Rightarrow> ledger_table \<Rightarrow> string \<Rightarrow> int \<Rightarrow> string \<Rightarrow>
     (ledger_entry \<times> ledger_table) result" where
  "org_mint tid oid E T to_account n memo =
     (if to_account = REVENUE then org_deposit_revenue tid oid E T n memo None
      else raise NotImplementedError ''Minting is not supported on OrganisationScopedLedger'')"

definition org_get_entries ::
  "string \<Rightarrow> string \<Rightarrow> ledger_table \<Rightarrow> string option \<Rightarrow> ledger_entry list" where
  "org_get_entries tid oid T acct =
     (let entries = tenant_get_entries tid T
            (if py_truthy acct then Some (org_account oid (the acct)) else None)
      in map (unscope (oid @ '':'')) (filter (in_scope (oid @ '':'')) entries))"

definition org_verify_conservation :: "string \<Rightarrow> string \<Rightarrow> ledger_table \<Rightarrow> bool" where
  "org_verify_conservation tid oid T = entries_conserve (org_get_entries tid oid T None)"

section \<open>Account names keep scopes apart\<close>

lemma scope_inject:
  "s @ CHR '':'' # a = s' @ CHR '':'' # b \<Longrightarrow> valid_scope_id s \<Longrightarrow> valid_scope_id s' \<Longrightarrow> s = s'"
  using sep_inject [of "CHR '':''" s s' a b] by simp

lemma tenant_account_inject:
  "valid_scope_id s \<Longrightarrow> valid_scope_id s' \<Longrightarrow> tenant_account s a = tenant_account s' b \<Longrightarrow> s = s'"
  by (auto simp: tenant_account_def prefix_def dest: scope_inject split: if_splits)

lemma prefix_scope [simp]:
  "valid_scope_id s \<Longrightarrow> valid_scope_id s' \<Longrightarrow> prefix (s @ '':'') (s' @ CHR '':'' # b) \<longleftrightarrow> s = s'"
  by (auto simp: prefix_def dest: scope_inject)

lemma tenant_account_no_mint: "tenant_account s a \<noteq> SYSTEM_MINT"
proof -
  have "CHR '':'' \<in> set (tenant_account s a)"
    by (auto simp: tenant_account_def prefix_def)
  moreover have "CHR '':'' \<notin> set SYSTEM_MINT" by (simp add: SYSTEM_MINT_def)
  ultimately show ?thesis by metis
qed

lemma org_physical [simp]:
  "valid_scope_id tid \<Longrightarrow> valid_scope_id oid \<Longrightarrow>
     tenant_account tid (org_account oid a)
       = (if tid = oid then tid @ '':'' @ a else tid @ '':'' @ oid @ '':'' @ a)"
  by (auto simp: tenant_account_def org_account_def)

lemma mk_namespace_Inr:
  "mk_namespace tid oid = Inr N \<longleftrightarrow> valid_scope_id tid \<and> valid_scope_id oid \<and>
     N = \<lparr>ns_tenant_id = tid, ns_organisation_id = oid\<rparr>"
  by (auto simp: mk_namespace_def valid_scope_id_def)

text \<open>
  Canonical names round-trip.  What \<open>AccountNamespace.physical\<close> builds,
  \<open>parse_physical\<close> takes apart into the same tenant, organisation and logical account.
\<close>

theorem physical_roundtrip:
  assumes "mk_namespace tid oid = Inr N" "physical N logical = Inr acct" "logical \<noteq> SYSTEM_MINT"
  shows "parse_physical acct = Some (tid, oid, logical)"
proof -
  have ids: "CHR '':'' \<notin> set tid" "CHR '':'' \<notin> set oid" "CHR '':'' \<notin> set logical"
    and acct: "acct = tid @ CHR '':'' # oid @ CHR '':'' # logical"
    using assms by (auto simp: mk_namespace_Inr physical_def split: if_splits)
  have "CHR '':'' \<in> set acct" by (simp add: acct)
  moreover have "CHR '':'' \<notin> set SYSTEM_MINT" by (simp add: SYSTEM_MINT_def)
  ultimately have "acct \<noteq> SYSTEM_MINT" by metis
  then show ?thesis using ids by (simp add: parse_physical_def Let_def acct)
qed

definition demo_namespace :: account_namespace where
  "demo_namespace = \<lparr>ns_tenant_id = ''acme'', ns_organisation_id = ''labs''\<rparr>"

theorem physical_roundtrip_witness:
  "parse_physical ''acme:labs:TREASURY'' = Some (''acme'', ''labs'', ''TREASURY'')"
  by (rule physical_roundtrip [of "''acme''" "''labs''" demo_namespace])
     (simp_all add: mk_namespace_def demo_namespace_def physical_def SYSTEM_MINT_def)

text \<open>
  The scoped ledgers agree with the canonical names.  For an organisation whose id differs from
  its tenant's, the account an organisation ledger reads and writes is the
  physical account \<open>AccountNamespace\<close> derives.
\<close>

theorem org_ledger_uses_canonical_names:
  assumes "mk_namespace tid oid = Inr N" "tid \<noteq> oid" "physical N logical = Inr acct"
    and "logical \<noteq> SYSTEM_MINT"
  shows "tenant_account tid (org_account oid logical) = acct"
  using assms by (auto simp: mk_namespace_Inr physical_def split: if_splits)

theorem org_ledger_uses_canonical_names_witness:
  "tenant_account ''acme'' (org_account ''labs'' ''ESCROW'') = ''acme:labs:ESCROW''"
  by (rule org_ledger_uses_canonical_names [of _ _ demo_namespace])
     (simp_all add: mk_namespace_def demo_namespace_def physical_def SYSTEM_MINT_def)

section \<open>Balances under the scoped operations\<close>

lemma mark_tenant_map:
  "(\<And>r. g (r\<lparr>lr_tenant_id := tid\<rparr>) = g r) \<Longrightarrow> map g (mark_tenant tid i T) = map g T"
  by (simp add: mark_tenant_def)

lemma mark_tenant_row [simp]: "map row_entry (mark_tenant tid i T) = map row_entry T"
  by (rule mark_tenant_map) (simp add: row_entry_def ledger_entry.truncate_def)

lemma table_inv_entries:
  "table_inv T \<longleftrightarrow> distinct (map le_id (map row_entry T)) \<and>
     distinct (map le_transaction_id (map row_entry T)) \<and> (\<forall>e \<in> set (map row_entry T). 0 < le_amount e)"
  by (simp add: table_inv_def comp_def)

lemma row_entry_images:
  "le_id ` set T = le_id ` set (map row_entry T)"
  "le_transaction_id ` set T = le_transaction_id ` set (map row_entry T)"
  by (simp_all add: image_image)

lemma tenant_transfer_Inr:
  assumes "tenant_transfer B tid E T f t n m txid = Inr (e, T')"
  shows "0 < n \<and> tenant_account tid f \<noteq> tenant_account tid t \<and> n \<le> tenant_get_balance tid T f \<and>
     e_uuid E 1 \<notin> le_id ` set T \<and> py_or txid (e_uuid E 0) \<notin> le_transaction_id ` set T \<and>
     le_transaction_id e = py_or txid (e_uuid E 0) \<and> le_id e = e_uuid E 1 \<and> le_amount e = n \<and>
     map row_entry T' = map row_entry T @ [e] \<and>
     le_from_account e = tenant_account tid f \<and> le_to_account e = tenant_account tid t"
  using assms
  by (cases B)
     (auto simp: tenant_transfer_def atomic_transfer_Inr sqlite_transfer_Inr tenant_get_balance_def)

lemma row_entry_eq_balance:
  assumes "map row_entry T' = map row_entry T @ [e]"
  shows "sqlite_get_balance T' a = sqlite_get_balance T a
     + (if le_to_account e = a then le_amount e else 0)
     - (if le_from_account e = a then le_amount e else 0)"
  using assms net_row_entry [of a T'] net_row_entry [of a T] by simp

lemma row_entry_eq_inv:
  assumes "map row_entry T' = map row_entry T @ [e]" "table_inv T" "le_id e \<notin> le_id ` set T"
    and "le_transaction_id e \<notin> le_transaction_id ` set T" "0 < le_amount e"
  shows "table_inv T'"
  using assms unfolding table_inv_entries row_entry_images by (auto simp: image_image)

text \<open>
  The organisation ledger provides the ledger interface, so settlement code may run on it:
  its account names are injective when the organisation's id differs from its tenant's.
\<close>

definition org_ledger_inv :: "string \<Rightarrow> string \<Rightarrow> ledger_table \<Rightarrow> bool" where
  "org_ledger_inv tid oid T \<longleftrightarrow> table_inv T \<and> valid_scope_id tid \<and> valid_scope_id oid \<and> tid \<noteq> oid"

lemma org_transfer_Inr:
  assumes "org_transfer B tid oid E T f t n m txid = Inr (e, T')"
    and "org_ledger_inv tid oid T"
  shows "0 < n \<and> f \<noteq> t \<and> n \<le> org_get_balance tid oid T f \<and>
     le_transaction_id e = py_or txid (e_uuid E 0) \<and>
     le_transaction_id e \<notin> le_transaction_id ` set T \<and>
     map row_entry T' = map row_entry T @ [e] \<and> table_inv T' \<and> le_amount e = n \<and>
     le_from_account e = tid @ '':'' @ oid @ '':'' @ f \<and> le_to_account e = tid @ '':'' @ oid @ '':'' @ t"
  using tenant_transfer_Inr [OF assms(1) [unfolded org_transfer_def]] assms(2)
    row_entry_eq_inv [of T' T e]
  by (auto simp: org_ledger_inv_def org_get_balance_def)

lemma org_transfer_accepts:
  assumes "org_ledger_inv tid oid T" "e_uuid E 1 \<notin> le_id ` set T" "x \<noteq> []"
    and "x \<notin> le_transaction_id ` set T" "0 < n" "f \<noteq> t" "n \<le> org_get_balance tid oid T f"
  shows "\<exists>e T'. org_transfer B tid oid E T f t n m (Some x) = Inr (e, T')"
  using assms
  by (cases B) (auto simp: org_transfer_def tenant_transfer_def atomic_transfer_Inr
      sqlite_transfer_Inr org_ledger_inv_def org_get_balance_def tenant_get_balance_def valid_scope_id_def)

interpretation org: ledger_api "org_ledger_inv tid oid" "org_get_balance tid oid"
  "\<lambda>T x. x \<in> le_transaction_id ` set T" "org_transfer B tid oid" "\<lambda>T E. e_uuid E 1 \<notin> le_id ` set T"
  for B tid oid
proof unfold_locales
  fix T E f t n m tx e T' a
  assume *: "org_ledger_inv tid oid T" "org_transfer B tid oid E T f t n m tx = Inr (e, T')"
  note facts = org_transfer_Inr [OF *(2,1)]
  show "0 < n \<and> f \<noteq> t \<and> n \<le> org_get_balance tid oid T f"
    and "le_transaction_id e \<notin> le_transaction_id ` set T"
    using facts by blast+
  show "org_ledger_inv tid oid T'" using facts *(1) by (simp add: org_ledger_inv_def)
  show "org_get_balance tid oid T' a
      = org_get_balance tid oid T a + (if a = t then n else 0) - (if a = f then n else 0)"
    using facts *(1)
    by (auto simp: org_get_balance_def tenant_get_balance_def org_ledger_inv_def
        row_entry_eq_balance [of T' T e])
  fix x
  show "x \<in> le_transaction_id ` set T' \<longleftrightarrow> x = le_transaction_id e \<or> x \<in> le_transaction_id ` set T"
    using facts unfolding row_entry_images by auto
next
  fix T E f t n m x e T'
  assume "org_ledger_inv tid oid T" "org_transfer B tid oid E T f t n m (Some x) = Inr (e, T')" "x \<noteq> []"
  then show "le_transaction_id e = x" using org_transfer_Inr by fastforce
qed (rule org_transfer_accepts)

section \<open>Isolation\<close>

text \<open>What the code of one tenant, or of one of its organisations, can do to the table.\<close>

inductive tenant_step :: "string \<Rightarrow> ledger_table \<Rightarrow> ledger_table \<Rightarrow> bool" for tid where
  ts_mint: "mint_scoped tid E T n m = Inr (e, T') \<Longrightarrow> tenant_step tid T T'"
| ts_deposit: "tenant_deposit_revenue tid E T n m tx acct = Inr (e, T') \<Longrightarrow> tenant_step tid T T'"
| ts_transfer: "tenant_transfer B tid E T f t n m tx = Inr (e, T') \<Longrightarrow> tenant_step tid T T'"

inductive org_step :: "string \<Rightarrow> string \<Rightarrow> ledger_table \<Rightarrow> ledger_table \<Rightarrow> bool" for tid oid where
  os_init: "org_init tid oid E T n = Inr T' \<Longrightarrow> org_step tid oid T T'"
| os_mint: "org_mint tid oid E T acct n m = Inr (e, T') \<Longrightarrow> org_step tid oid T T'"
| os_deposit: "org_deposit_revenue tid oid E T n m tx = Inr (e, T') \<Longrightarrow> org_step tid oid T T'"
| os_transfer: "org_transfer B tid oid E T f t n m tx = Inr (e, T') \<Longrightarrow> org_step tid oid T T'"

text \<open>Every step appends entries between accounts of its scope (or from the mint).\<close>

definition entry_within :: "(string \<Rightarrow> bool) \<Rightarrow> ledger_entry \<Rightarrow> bool" where
  "entry_within A e \<longleftrightarrow> (le_from_account e = SYSTEM_MINT \<or> A (le_from_account e)) \<and> A (le_to_account e)"

lemma tenant_step_appends:
  "tenant_step tid T T' \<Longrightarrow>
     \<exists>es. map row_entry T' = map row_entry T @ es \<and>
       (\<forall>e \<in> set es. entry_within (\<lambda>a. \<exists>b. a = tenant_account tid b) e)"
proof (induction rule: tenant_step.induct)
  case (ts_transfer B E T f t n m tx e T')
  from tenant_transfer_Inr [OF this] show ?case by (intro exI [of _ "[e]"]) (auto simp: entry_within_def)
qed (auto simp: mint_scoped_def tenant_deposit_revenue_def Let_def insert_row_Inr entry_within_def
    split: if_splits)

lemma org_step_appends:
  assumes "org_step tid oid T T'" "valid_scope_id tid" "valid_scope_id oid" "tid \<noteq> oid"
  shows "\<exists>es. map row_entry T' = map row_entry T @ es \<and>
       (\<forall>e \<in> set es. entry_within (\<lambda>a. \<exists>b. a = tid @ '':'' @ oid @ '':'' @ b) e)"
  using assms(1)
proof cases
  case (os_transfer B E f t n m tx e)
  from tenant_transfer_Inr [OF this [unfolded org_transfer_def]] assms(2-) show ?thesis
    by (intro exI [of _ "[e]"]) (auto simp: entry_within_def)
qed (auto simp: org_init_def org_mint_def org_deposit_revenue_def Let_def insert_row_Inr
    entry_within_def org_account_def split: if_splits)

lemma appended_balance:
  assumes "map row_entry T' = map row_entry T @ es" "\<forall>e \<in> set es. entry_within A e" "\<not> A a"
    and "a \<noteq> SYSTEM_MINT"
  shows "sqlite_get_balance T' a = sqlite_get_balance T a"
proof -
  have "sum_where (\<lambda>e. le_to_account e = a) le_amount es = 0"
    "sum_where (\<lambda>e. le_from_account e = a) le_amount es = 0"
    using assms(2-) by (auto intro!: sum_where_none simp: entry_within_def)
  then show ?thesis
    using assms(1) net_row_entry [of a T'] net_row_entry [of a T] by (simp add: net_def)
qed

text \<open>
  C37: tenant isolation.  Whatever sequence of mints, deposits and transfers one tenant's
  ledger performs, with account names chosen freely, no balance and no entry another tenant
  sees changes.
\<close>

theorem tenant_isolation:
  assumes "(tenant_step tid)\<^sup>*\<^sup>* T T'" "valid_scope_id tid" "valid_scope_id other" "tid \<noteq> other"
  shows "tenant_get_balance other T' a = tenant_get_balance other T a
     \<and> tenant_get_entries other T' None = tenant_get_entries other T None"
  using assms(1)
proof induction
  case (step T1 T2)
  obtain es where es: "map row_entry T2 = map row_entry T1 @ es"
      "\<forall>e \<in> set es. entry_within (\<lambda>a. \<exists>b. a = tenant_account tid b) e"
    using tenant_step_appends [OF step.hyps(2)] by blast
  have "tenant_account other a \<noteq> tenant_account tid b" for b
    using tenant_account_inject assms(2-) by metis
  then have "tenant_get_balance other T2 a = tenant_get_balance other T1 a"
    using appended_balance [OF es, of "tenant_account other a"] tenant_account_no_mint
    by (auto simp: tenant_get_balance_def)
  moreover have "\<not> prefix (other @ '':'') (tenant_account tid b)" for b
    using assms(2-) by (auto simp: tenant_account_def prefix_def dest: scope_inject)
  then have "filter (in_scope (other @ '':'')) es = []"
    using es(2) by (auto simp: filter_empty_conv in_scope_def entry_within_def)
  then have "tenant_get_entries other T2 None = tenant_get_entries other T1 None"
    by (simp add: tenant_get_entries_def sqlite_get_entries_def es(1))
  ultimately show ?case using step.IH by simp
qed simp

text \<open>
  Organisation isolation.  Two organisations, of one tenant or of two, whose ids differ
  from their tenants' ids: nothing one does through its ledger changes a balance of the other.
\<close>

theorem organisation_isolation:
  assumes "(org_step tid oid)\<^sup>*\<^sup>* T T'" "(tid, oid) \<noteq> (tid', oid')" "tid \<noteq> oid" "tid' \<noteq> oid'"
    and "valid_scope_id tid" "valid_scope_id oid" "valid_scope_id tid'" "valid_scope_id oid'"
  shows "org_get_balance tid' oid' T' a = org_get_balance tid' oid' T a"
  using assms(1)
proof induction
  case (step T1 T2)
  obtain es where es: "map row_entry T2 = map row_entry T1 @ es"
      "\<forall>e \<in> set es. entry_within (\<lambda>a. \<exists>b. a = tid @ '':'' @ oid @ '':'' @ b) e"
    using org_step_appends [OF step.hyps(2)] assms by blast
  have "tid' @ '':'' @ oid' @ '':'' @ a \<noteq> tid @ '':'' @ oid @ '':'' @ b" for b
    using assms(2,5-) by (auto dest!: sep_inject [rotated 2])
  moreover have "tid' @ '':'' @ oid' @ '':'' @ a \<noteq> SYSTEM_MINT"
    using tenant_account_no_mint [of tid' "org_account oid' a"] assms by simp
  ultimately show ?case
    using appended_balance [OF es, of "tid' @ '':'' @ oid' @ '':'' @ a"] assms step.IH
    by (simp add: org_get_balance_def tenant_get_balance_def)
qed simp

text \<open>The demonstration tenants: \<open>acme\<close> with organisations \<open>labs\<close> and \<open>ops\<close>, and \<open>zeta\<close>.\<close>

definition demo_tenant_table :: ledger_table where
  "demo_tenant_table = [mk_row ''u'' ''2026-01-01T00:00:00'' ''acme:mint-uu'' SYSTEM_MINT
     ''acme:TREASURY'' 50 ''Initial treasury for tenant'' ''acme'']"

lemma demo_tenant_mint:
  "mint_scoped ''acme'' demo_env [] 50 ''Initial treasury for tenant''
     = Inr (row_entry (hd demo_tenant_table), demo_tenant_table)"
  by (simp add: mint_scoped_def demo_tenant_table_def insert_row_def demo_env_def tenant_account_def
      TREASURY_def numeral_2_eq_2 Let_def)

lemma demo_tenant_step: "(tenant_step ''acme'')\<^sup>*\<^sup>* [] demo_tenant_table"
  by (rule r_into_rtranclp, rule ts_mint, rule demo_tenant_mint)

theorem tenant_isolation_witness:
  "tenant_get_balance ''zeta'' demo_tenant_table TREASURY = 0
     \<and> tenant_get_entries ''zeta'' demo_tenant_table None = []"
  using tenant_isolation [OF demo_tenant_step, of "''zeta''" TREASURY]
  by (simp add: valid_scope_id_def tenant_get_balance_def tenant_get_entries_def
      sqlite_get_balance_def sqlite_get_entries_def)

theorem organisation_isolation_witness:
  "\<exists>T'. org_init ''acme'' ''labs'' demo_env2 demo_tenant_table 30 = Inr T'
       \<and> org_get_balance ''acme'' ''ops'' T' TREASURY = 0"
proof -
  obtain T' where T': "org_init ''acme'' ''labs'' demo_env2 demo_tenant_table 30 = Inr T'"
    by (simp add: org_init_def demo_tenant_table_def insert_row_def demo_env2_def valid_scope_id_def
        org_get_balance_def tenant_get_balance_def sqlite_get_balance_def tenant_account_def
        org_account_def TREASURY_def SYSTEM_MINT_def)
  have "(org_step ''acme'' ''labs'')\<^sup>*\<^sup>* demo_tenant_table T'"
    by (rule r_into_rtranclp, rule os_init, rule T')
  from organisation_isolation [OF this, of "''acme''" "''ops''" TREASURY] T' show ?thesis
    by (auto simp: valid_scope_id_def org_get_balance_def tenant_get_balance_def demo_tenant_table_def
        sqlite_get_balance_def tenant_account_def org_account_def TREASURY_def SYSTEM_MINT_def)
qed

text \<open>
  An organisation named like its tenant.  \<open>_account\<close> takes the organisation prefix for the tenant
  prefix: the initial treasury is minted to an account no ledger reads, the
  organisation's treasury stays empty, and its accounts are the tenant's own.
\<close>

theorem org_named_like_tenant:
  assumes "valid_scope_id t" "org_init t t E T n = Inr T'" "0 < n" "org_get_balance t t T TREASURY = 0"
    and "CHR '':'' \<notin> set a"
  shows "org_get_balance t t T' TREASURY = 0 \<and> length T' = Suc (length T)
     \<and> org_get_balance t t T' a = tenant_get_balance t T' a"
proof -
  have "\<not> prefix (t @ '':'') a" using assms(5) by (auto simp: prefix_def)
  moreover have "CHR '':'' \<notin> set t" "CHR '':'' \<notin> set TREASURY" "CHR '':'' \<notin> set SYSTEM_MINT"
    using assms(1) by (simp_all add: account_defs)
  moreover from this have "t @ CHR '':'' # t @ CHR '':'' # TREASURY \<noteq> t @ CHR '':'' # TREASURY"
      "SYSTEM_MINT \<noteq> t @ CHR '':'' # TREASURY"
    by (auto dest: arg_cong [of _ _ set])
  moreover have "tenant_account t (org_account t b) = t @ '':'' @ b" for b
    using assms(1) by simp
  ultimately show ?thesis using assms(1-4)
    by (auto simp: org_init_def insert_row_Inr org_get_balance_def tenant_get_balance_def
        valid_scope_id_def org_account_def tenant_account_def split: if_splits)
qed

theorem org_named_like_tenant_witness:
  "\<exists>T'. org_init ''acme'' ''acme'' demo_env [] 30 = Inr T' \<and> org_get_balance ''acme'' ''acme'' T' TREASURY = 0"
proof -
  obtain T' where T': "org_init ''acme'' ''acme'' demo_env [] 30 = Inr T'"
    by (simp add: org_init_def insert_row_def org_get_balance_def tenant_get_balance_def
        sqlite_get_balance_def)
  from org_named_like_tenant [OF _ this, of "''x''"] T' show ?thesis
    by (simp add: valid_scope_id_def org_get_balance_def tenant_get_balance_def sqlite_get_balance_def)
qed

end
