(* ===== verification/Governance.thy ===== *)
theory Governance
  imports PolicyEngine Journals
begin

text \<open>
  Human and administrative control (\<open>src/governance\<close>): signed administrative approvals and
  their quorum (\<open>admin_governance.py\<close>), the circuit breaker (\<open>circuit_breaker.py\<close>), execution approvals
  bound to an authority (\<open>execution_approval.py\<close>) and the escalation gate (\<open>human_gate.py\<close>).  The tables
  are lists of rows; the rows of tenants and organisations that foreign keys refer to are taken to exist.
\<close>

section \<open>Administrative approvals\<close>

record admin_approval =
  aa_approval_id :: string
  aa_tenant_id :: string
  aa_action_type :: string
  aa_target_id :: string
  aa_payload_hash :: string
  aa_approver_id :: string
  aa_expires_at :: rat
  aa_signature :: string

record admin_row = admin_approval +
  ar_consumed :: bool
  ar_created_at :: string

type_synonym admin_table = "admin_row list"

definition admin_canonical_string :: "prims \<Rightarrow> 'a admin_approval_scheme \<Rightarrow> string" where
  "admin_canonical_string P a = py_join '':'' [aa_approval_id a, aa_tenant_id a, aa_action_type a,
     aa_target_id a, aa_payload_hash a, aa_approver_id a, format_4f P (aa_expires_at a)]"

definition admin_payload_hash :: "prims \<Rightarrow> json \<Rightarrow> string" where
  "admin_payload_hash P payload =
     sha256 P (case payload of JStr s \<Rightarrow> s | _ \<Rightarrow> json_dumps P payload)"

definition create_approval ::
  "prims \<Rightarrow> string \<Rightarrow> env \<Rightarrow> rat \<Rightarrow> string \<Rightarrow> string \<Rightarrow> string \<Rightarrow> json \<Rightarrow> string \<Rightarrow> rat \<Rightarrow> admin_approval" where
  "create_approval P key E now tid action target payload approver ttl =
     (let a = \<lparr>aa_approval_id = ''appr-'' @ take 12 (e_uuid E 0), aa_tenant_id = tid, aa_action_type = action,
            aa_target_id = target, aa_payload_hash = admin_payload_hash P payload, aa_approver_id = approver,
            aa_expires_at = now + ttl, aa_signature = []\<rparr>
      in a\<lparr>aa_signature := hmac_sha256 P key (admin_canonical_string P a)\<rparr>)"

definition admin_consumed :: "admin_table \<Rightarrow> string \<Rightarrow> bool" where
  "admin_consumed T i = (case find (\<lambda>r. aa_approval_id r = i) T of None \<Rightarrow> False | Some r \<Rightarrow> ar_consumed r)"

definition verify_single_approval ::
  "prims \<Rightarrow> string \<Rightarrow> admin_table \<Rightarrow> admin_approval \<Rightarrow> string \<Rightarrow> string \<Rightarrow> string \<Rightarrow> json \<Rightarrow> rat \<Rightarrow>
     bool \<times> string option" where
  "verify_single_approval P key T a tid action target payload now =
     (if aa_tenant_id a \<noteq> tid then (False, Some ''Approval tenant_id does not match expected'')
      else if aa_action_type a \<noteq> action then (False, Some ''Approval action_type does not match expected'')
      else if aa_target_id a \<noteq> target then (False, Some ''Approval target_id does not match expected'')
      else if aa_expires_at a < now then (False, Some ''Approval has expired'')
      else if aa_payload_hash a \<noteq> admin_payload_hash P payload then (False, Some ''Payload hash mismatch'')
      else if aa_signature a \<noteq> hmac_sha256 P key (admin_canonical_string P a)
      then (False, Some ''Cryptographic signature verification failed (forged or tampered approval)'')
      else if admin_consumed T (aa_approval_id a)
      then (False, Some ''Approval has already been consumed (replay attempt)'')
      else (True, None))"

definition consume_approval :: "env \<Rightarrow> admin_approval \<Rightarrow> admin_table \<Rightarrow> admin_table" where
  "consume_approval E a T =
     (if \<exists>r \<in> set T. aa_approval_id r = aa_approval_id a
      then map (\<lambda>r. if aa_approval_id r = aa_approval_id a then r\<lparr>ar_consumed := True\<rparr> else r) T
      else T @ [admin_approval.extend a \<lparr>ar_consumed = True, ar_created_at = e_now E 0\<rparr>])"

fun first_invalid ::
  "prims \<Rightarrow> string \<Rightarrow> admin_table \<Rightarrow> admin_approval list \<Rightarrow> string \<Rightarrow> string \<Rightarrow> string \<Rightarrow> json \<Rightarrow> rat \<Rightarrow>
     (string option) option" where
  "first_invalid P key T [] tid action target payload now = None"
| "first_invalid P key T (a # as) tid action target payload now =
     (case verify_single_approval P key T a tid action target payload now of
        (True, _) \<Rightarrow> first_invalid P key T as tid action target payload now
      | (False, reason) \<Rightarrow> Some reason)"

definition verify_and_consume_quorum ::
  "prims \<Rightarrow> string \<Rightarrow> env \<Rightarrow> admin_table \<Rightarrow> admin_approval list \<Rightarrow> nat \<Rightarrow> string \<Rightarrow> string \<Rightarrow> string \<Rightarrow> json \<Rightarrow>
     rat \<Rightarrow> (bool \<times> string option) \<times> admin_table" where
  "verify_and_consume_quorum P key E T as required tid action target payload now =
     (if length as < required then ((False, Some ''Insufficient approvals''), T)
      else if card (set (map aa_approver_id as)) < length as
      then ((False, Some ''Duplicate approver detected: approvers must be unique distinct identities''), T)
      else case first_invalid P key T as tid action target payload now of
        Some reason \<Rightarrow> ((False, reason), T)
      | None \<Rightarrow> ((True, None), fold (consume_approval E) as T))"

lemma verify_single_True:
  "fst (verify_single_approval P key T a tid action target payload now) \<longleftrightarrow>
     aa_tenant_id a = tid \<and> aa_action_type a = action \<and> aa_target_id a = target \<and> now \<le> aa_expires_at a \<and>
     aa_payload_hash a = admin_payload_hash P payload \<and>
     aa_signature a = hmac_sha256 P key (admin_canonical_string P a) \<and> \<not> admin_consumed T (aa_approval_id a)"
  by (simp add: verify_single_approval_def not_less)

lemma first_invalid_None:
  "first_invalid P key T as tid action target payload now = None \<longleftrightarrow>
     (\<forall>a \<in> set as. fst (verify_single_approval P key T a tid action target payload now))"
  by (induction as) (auto split: prod.splits bool.splits)

lemma consume_find:
  "find (\<lambda>r. aa_approval_id r = i) (consume_approval E a T) =
     (case find (\<lambda>r. aa_approval_id r = i) T of
        Some r \<Rightarrow> Some (if i = aa_approval_id a then r\<lparr>ar_consumed := True\<rparr> else r)
      | None \<Rightarrow> if i = aa_approval_id a
          then Some (admin_approval.extend a \<lparr>ar_consumed = True, ar_created_at = e_now E 0\<rparr>) else None)"
proof (cases "\<exists>r \<in> set T. aa_approval_id r = aa_approval_id a")
  case True
  let ?f = "\<lambda>r. if aa_approval_id r = aa_approval_id a then r\<lparr>ar_consumed := True\<rparr> else r"
  have "find (\<lambda>r. aa_approval_id r = i) (map ?f T) = map_option ?f (find (\<lambda>r. aa_approval_id r = i) T)"
    by (rule find_map_same) simp
  moreover have "find (\<lambda>r. aa_approval_id r = i) T \<noteq> None" if "i = aa_approval_id a"
    using True that find_NoneD by fastforce
  ultimately show ?thesis
    using True by (auto simp: consume_approval_def dest: find_SomeD split: option.splits)
next
  case False
  then have "find (\<lambda>r. aa_approval_id r = aa_approval_id a) T = None" by (auto simp: find_None_iff)
  then show ?thesis using False
    by (auto simp: consume_approval_def admin_approval.defs split: option.splits)
qed

lemma consume_consumed:
  "admin_consumed (consume_approval E a T) i \<longleftrightarrow> i = aa_approval_id a \<or> admin_consumed T i"
  by (auto simp: admin_consumed_def consume_find admin_approval.defs split: option.splits)

lemma fold_consumed:
  "admin_consumed (fold (consume_approval E) as T) i \<longleftrightarrow> i \<in> aa_approval_id ` set as \<or> admin_consumed T i"
  by (induction as arbitrary: T) (auto simp: consume_consumed)

lemma quorum_accepts:
  "fst (fst (verify_and_consume_quorum P key E T as required tid action target payload now)) \<longleftrightarrow>
     required \<le> length as \<and> distinct (map aa_approver_id as) \<and>
     (\<forall>a \<in> set as. fst (verify_single_approval P key T a tid action target payload now))"
proof -
  have "card (set xs) < length xs \<longleftrightarrow> \<not> distinct xs" for xs :: "string list"
    using card_distinct card_length distinct_card by (metis le_neq_implies_less nat_less_le)
  from this [of "map aa_approver_id as"]
  show ?thesis
    by (auto simp: verify_and_consume_quorum_def first_invalid_None [symmetric] not_less split: option.splits)
qed

lemma quorum_table:
  "snd (verify_and_consume_quorum P key E T as required tid action target payload now) =
     (if fst (fst (verify_and_consume_quorum P key E T as required tid action target payload now))
      then fold (consume_approval E) as T else T)"
  by (simp add: verify_and_consume_quorum_def split: option.split)

text \<open>One approval of a quorum, with the others and the call's arguments.\<close>

type_synonym quorum_call =
  "(prims \<times> string \<times> env \<times> nat \<times> string \<times> string \<times> string \<times> json \<times> rat) \<times>
     admin_approval list \<times> admin_approval \<times> admin_approval list"

definition claim_quorum :: "quorum_call \<Rightarrow> admin_table \<Rightarrow> string \<Rightarrow> admin_table result" where
  "claim_quorum c T i = (case c of ((P, key, E, required, tid, action, target, payload, now), before, a, after) \<Rightarrow>
     (case verify_and_consume_quorum P key E T (before @ a\<lparr>aa_approval_id := i\<rparr> # after) required tid action target
        payload now of
        ((True, _), T') \<Rightarrow> Inr T' | ((False, _), _) \<Rightarrow> raise ValueError ''quorum rejected''))"

lemma claim_quorum_Inr:
  assumes "claim_quorum c T i = Inr T'"
  shows "\<not> admin_consumed T i \<and> (\<exists>as. i \<in> aa_approval_id ` set as \<and> (\<exists>E. T' = fold (consume_approval E) as T))"
proof -
  obtain P key E required tid action target payload now before a after where
    c: "c = ((P, key, E, required, tid, action, target, payload, now), before, a, after)" by (metis prod.exhaust)
  let ?as = "before @ a\<lparr>aa_approval_id := i\<rparr> # after"
  let ?q = "verify_and_consume_quorum P key E T ?as required tid action target payload now"
  have q: "fst (fst ?q)" "T' = snd ?q"
    using assms by (auto simp: c claim_quorum_def split: prod.splits bool.splits)
  then have "T' = fold (consume_approval E) ?as T" by (simp add: quorum_table)
  moreover have "\<not> admin_consumed T i"
    using q(1) by (auto simp: quorum_accepts verify_single_True)
  moreover have "i \<in> aa_approval_id ` set ?as" by simp
  ultimately show ?thesis by blast
qed

interpretation admin_quorum: consume_once admin_consumed claim_quorum
proof
  fix c T i T' j
  assume "claim_quorum c T i = Inr T'"
  then show "\<not> admin_consumed T i" "admin_consumed T' i" "admin_consumed T j \<Longrightarrow> admin_consumed T' j"
    using claim_quorum_Inr fold_consumed by blast+
qed

section \<open>The circuit breaker\<close>

record breaker_row =
  cb_tenant_id :: string
  cb_organisation_id :: string
  cb_state :: string
  cb_paused_by :: "string option"
  cb_paused_reason :: "string option"
  cb_paused_at :: "string option"
  cb_updated_at :: string

record breaker_audit =
  ca_id :: string
  ca_tenant_id :: string
  ca_organisation_id :: string
  ca_action :: string
  ca_actor_id :: string
  ca_reason :: string
  ca_state_before :: string
  ca_state_after :: string
  ca_approvals_json :: string
  ca_created_at :: string

record breaker_db =
  br_rows :: "breaker_row list"
  br_audit :: "breaker_audit list"
  br_admin :: admin_table

datatype breaker_state = Breaker_NORMAL | Breaker_PAUSED

fun breaker_value :: "breaker_state \<Rightarrow> string" where
  "breaker_value Breaker_NORMAL = ''NORMAL''"
| "breaker_value Breaker_PAUSED = ''PAUSED''"

definition breaker_find :: "breaker_db \<Rightarrow> string \<Rightarrow> string \<Rightarrow> breaker_row option" where
  "breaker_find B t g = find (\<lambda>r. cb_tenant_id r = t \<and> cb_organisation_id r = g) (br_rows B)"

definition is_paused :: "breaker_db \<Rightarrow> string \<Rightarrow> string \<Rightarrow> bool" where
  "is_paused B t g = (case breaker_find B t g of None \<Rightarrow> False | Some r \<Rightarrow> py_upper (cb_state r) = ''PAUSED'')"

definition breaker_get_state :: "breaker_db \<Rightarrow> string \<Rightarrow> string \<Rightarrow> breaker_state" where
  "breaker_get_state B t g = (case breaker_find B t g of None \<Rightarrow> Breaker_NORMAL
     | Some r \<Rightarrow> if py_upper (cb_state r) = ''PAUSED'' then Breaker_PAUSED else Breaker_NORMAL)"

definition breaker_put :: "breaker_row \<Rightarrow> breaker_row list \<Rightarrow> breaker_row list" where
  "breaker_put r R =
     (if \<exists>x \<in> set R. cb_tenant_id x = cb_tenant_id r \<and> cb_organisation_id x = cb_organisation_id r
      then map (\<lambda>x. if cb_tenant_id x = cb_tenant_id r \<and> cb_organisation_id x = cb_organisation_id r then r else x) R
      else R @ [r])"

text \<open>The state row and the audit row are written in one transaction; the audit id is a primary key.\<close>

definition breaker_write ::
  "breaker_row \<Rightarrow> breaker_audit \<Rightarrow> breaker_db \<Rightarrow> string result \<times> breaker_db" where
  "breaker_write r a B =
     (if ca_id a \<in> ca_id ` set (br_audit B)
      then (raise IntegrityError ''UNIQUE constraint failed: circuit_breaker_audit.id'', B)
      else (Inr (ca_id a), B\<lparr>br_rows := breaker_put r (br_rows B), br_audit := br_audit B @ [a]\<rparr>))"

definition pause :: "env \<Rightarrow> string \<Rightarrow> string \<Rightarrow> string \<Rightarrow> string \<Rightarrow> breaker_db \<Rightarrow> string result \<times> breaker_db" where
  "pause E t g operator reason B =
     breaker_write \<lparr>cb_tenant_id = t, cb_organisation_id = g, cb_state = ''PAUSED'', cb_paused_by = Some operator,
         cb_paused_reason = Some reason, cb_paused_at = Some (e_now E 0), cb_updated_at = e_now E 0\<rparr>
       \<lparr>ca_id = ''cb-audit-'' @ take 12 (e_uuid E 0), ca_tenant_id = t, ca_organisation_id = g,
         ca_action = ''PAUSE'', ca_actor_id = operator, ca_reason = reason,
         ca_state_before = breaker_value (breaker_get_state B t g), ca_state_after = ''PAUSED'',
         ca_approvals_json = ''[]'', ca_created_at = e_now E 0\<rparr> B"

datatype raw_approval = Record admin_approval | Raw "(string \<times> json) list"

definition raw_text :: "prims \<Rightarrow> (string \<times> json) list \<Rightarrow> string \<Rightarrow> string result" where
  "raw_text P d k = (case map_of d k of None \<Rightarrow> raise KeyError k | Some v \<Rightarrow> Inr (py_str P v))"

fun parse_approval :: "prims \<Rightarrow> raw_approval \<Rightarrow> admin_approval result" where
  "parse_approval P (Record a) = Inr a"
| "parse_approval P (Raw d) =
     bind_result (raw_text P d ''approval_id'') (\<lambda>i.
     bind_result (raw_text P d ''tenant_id'') (\<lambda>t.
     bind_result (raw_text P d ''action_type'') (\<lambda>act.
     bind_result (raw_text P d ''target_id'') (\<lambda>tgt.
     bind_result (raw_text P d ''payload_hash'') (\<lambda>h.
     bind_result (raw_text P d ''approver_id'') (\<lambda>app.
     bind_result (case map_of d ''expires_at'' of None \<Rightarrow> raise KeyError ''expires_at'' | Some v \<Rightarrow> py_float P v) (\<lambda>e.
     bind_result (raw_text P d ''signature'') (\<lambda>sg.
       Inr \<lparr>aa_approval_id = i, aa_tenant_id = t, aa_action_type = act, aa_target_id = tgt,
         aa_payload_hash = h, aa_approver_id = app, aa_expires_at = e, aa_signature = sg\<rparr>))))))))"

fun parse_approvals :: "prims \<Rightarrow> raw_approval list \<Rightarrow> admin_approval list result" where
  "parse_approvals P [] = Inr []"
| "parse_approvals P (x # xs) =
     bind_result (parse_approval P x) (\<lambda>a. bind_result (parse_approvals P xs) (\<lambda>as. Inr (a # as)))"

definition approval_json :: "admin_approval \<Rightarrow> json" where
  "approval_json a = JObj [(''approval_id'', JStr (aa_approval_id a)), (''tenant_id'', JStr (aa_tenant_id a)),
     (''action_type'', JStr (aa_action_type a)), (''target_id'', JStr (aa_target_id a)),
     (''payload_hash'', JStr (aa_payload_hash a)), (''approver_id'', JStr (aa_approver_id a)),
     (''expires_at'', JFloat (aa_expires_at a)), (''signature'', JStr (aa_signature a))]"

definition breaker_resume ::
  "prims \<Rightarrow> string option \<Rightarrow> env \<Rightarrow> rat \<Rightarrow> string \<Rightarrow> string \<Rightarrow> string list \<Rightarrow> raw_approval list option \<Rightarrow> string \<Rightarrow>
     breaker_db \<Rightarrow> string result \<times> breaker_db" where
  "breaker_resume P manager E now t g approver_ids raws reason B =
     (case manager of
        None \<Rightarrow> (raise ValueError ''AdminGovernanceManager is required for circuit breaker resumption'', B)
      | Some key \<Rightarrow>
        if card (set approver_ids) < 2
        then (raise ValueError ''Resumption requires at least 2 distinct administrative approvers'', B)
        else if (case raws of None \<Rightarrow> True | Some rs \<Rightarrow> length rs < 2)
        then (raise ValueError ''Resumption requires at least 2 cryptographically signed approval records'', B)
        else case parse_approvals P (the raws) of
          Inl x \<Rightarrow> (raise ValueError ''Malformed administrative approval record'', B)
        | Inr as \<Rightarrow>
          if map aa_approver_id as \<noteq> approver_ids
          then (raise ValueError ''Approval identities do not match the supplied approver_ids'', B)
          else case verify_and_consume_quorum P key E (br_admin B) as 2 t ''CIRCUIT_BREAKER_RESUME'' g
              (JObj [(''organisation_id'', JStr g)]) now of
            ((False, why), T) \<Rightarrow> (raise ValueError ''Circuit breaker resumption governance rejected'', B\<lparr>br_admin := T\<rparr>)
          | ((True, why), T) \<Rightarrow>
            breaker_write \<lparr>cb_tenant_id = t, cb_organisation_id = g, cb_state = ''NORMAL'', cb_paused_by = None,
                cb_paused_reason = None, cb_paused_at = None, cb_updated_at = e_now E 1\<rparr>
              \<lparr>ca_id = ''cb-audit-'' @ take 12 (e_uuid E 0), ca_tenant_id = t, ca_organisation_id = g,
                ca_action = ''RESUME'', ca_actor_id = ''multi-sig:'' @ py_join '','' approver_ids, ca_reason = reason,
                ca_state_before = breaker_value (breaker_get_state B t g), ca_state_after = ''NORMAL'',
                ca_approvals_json = json_dumps P (JList (map approval_json as)), ca_created_at = e_now E 1\<rparr>
              (B\<lparr>br_admin := T\<rparr>))"

definition list_audit_history :: "breaker_db \<Rightarrow> string \<Rightarrow> string \<Rightarrow> breaker_audit list" where
  "list_audit_history B t g = rev (sort_key ca_created_at
     (filter (\<lambda>a. ca_tenant_id a = t \<and> ca_organisation_id a = g) (br_audit B)))"

section \<open>What the breaker guarantees\<close>

lemma upper_values [simp]: "py_upper ''PAUSED'' = ''PAUSED''" "py_upper ''NORMAL'' = ''NORMAL''"
  by code_simp+

lemma breaker_put_find:
  "find (\<lambda>x. cb_tenant_id x = t \<and> cb_organisation_id x = g) (breaker_put r R) =
     (if cb_tenant_id r = t \<and> cb_organisation_id r = g then Some r
      else find (\<lambda>x. cb_tenant_id x = t \<and> cb_organisation_id x = g) R)"
proof -
  let ?P = "\<lambda>t g x. cb_tenant_id x = t \<and> cb_organisation_id x = g"
  let ?K = "?P (cb_tenant_id r) (cb_organisation_id r)"
  show ?thesis
  proof (cases "\<exists>x \<in> set R. ?K x")
    case True
    have same: "find ?K (map (\<lambda>x. if ?K x then r else x) R) = Some r"
      by (rule find_replace_same [OF True]) simp
    have other: "find (?P t g) (map (\<lambda>x. if ?K x then r else x) R) = find (?P t g) R" if "\<not> ?P t g r"
      by (rule find_replace_other) (use that in auto)
    show ?thesis
    proof (cases "?P t g r")
      case P: True
      then show ?thesis using True same by (auto simp: breaker_put_def)
    next
      case False
      then show ?thesis using True other [OF False] by (auto simp: breaker_put_def)
    qed
  next
    case False
    then have "find ?K R = None" by (auto simp: find_None_iff)
    then show ?thesis using False by (auto simp: breaker_put_def split: option.split)
  qed
qed

lemma breaker_write_paused:
  assumes "breaker_write r a B = (res, B')"
  shows "br_admin B' = br_admin B \<and>
     (is_paused B' t g \<longleftrightarrow> (if \<not> isl res \<and> cb_tenant_id r = t \<and> cb_organisation_id r = g
        then py_upper (cb_state r) = ''PAUSED'' else is_paused B t g))"
  using assms by (auto simp: breaker_write_def is_paused_def breaker_find_def breaker_put_find split: if_splits)

lemma pause_paused:
  assumes "pause E t' g' operator reason B = (res, B')"
  shows "br_admin B' = br_admin B \<and>
     (is_paused B' t g \<longleftrightarrow> (\<not> isl res \<and> t' = t \<and> g' = g) \<or> is_paused B t g)"
  using breaker_write_paused [OF assms [unfolded pause_def], of t g] by auto

text \<open>What an accepted quorum of approvals is.\<close>

definition resume_quorum :: "prims \<Rightarrow> string \<Rightarrow> string \<Rightarrow> string \<Rightarrow> admin_approval list \<Rightarrow> bool" where
  "resume_quorum P key t g as \<longleftrightarrow> 2 \<le> length as \<and> distinct (map aa_approver_id as) \<and>
     (\<forall>a \<in> set as. aa_tenant_id a = t \<and> aa_action_type a = ''CIRCUIT_BREAKER_RESUME'' \<and> aa_target_id a = g \<and>
        aa_signature a = hmac_sha256 P key (admin_canonical_string P a))"

lemma resume_effect:
  assumes "breaker_resume P (Some key) E now t' g' ids raws reason B = (res, B')"
  shows "(\<forall>i. admin_consumed (br_admin B) i \<longrightarrow> admin_consumed (br_admin B') i) \<and>
     (is_paused B t g \<longrightarrow> is_paused B' t g \<or> (\<exists>as. resume_quorum P key t g as \<and>
        (\<forall>a \<in> set as. \<not> admin_consumed (br_admin B) (aa_approval_id a) \<and> now \<le> aa_expires_at a \<and>
           admin_consumed (br_admin B') (aa_approval_id a))))"
proof (cases "B' = B")
  case False
  then obtain as where q: "breaker_resume P (Some key) E now t' g' ids raws reason B = (res, B')"
      "parse_approvals P (the raws) = Inr as"
    using assms by (auto simp: breaker_resume_def split: if_splits sum.splits)
  let ?q = "verify_and_consume_quorum P key E (br_admin B) as 2 t' ''CIRCUIT_BREAKER_RESUME'' g'
      (JObj [(''organisation_id'', JStr g')]) now"
  show ?thesis
  proof (cases "fst (fst ?q)")
    case True
    then have table: "snd ?q = fold (consume_approval E) as (br_admin B)" by (simp add: quorum_table)
    obtain r a where w: "breaker_write r a (B\<lparr>br_admin := snd ?q\<rparr>) = (res, B')" "cb_tenant_id r = t'" "cb_organisation_id r = g'"
      using q False True by (auto simp: breaker_resume_def split: if_splits prod.splits bool.splits)
    have adm: "br_admin B' = fold (consume_approval E) as (br_admin B)"
      using breaker_write_paused [OF w(1)] table by simp
    have pz: "is_paused (B\<lparr>br_admin := snd ?q\<rparr>) t g = is_paused B t g"
      by (simp add: is_paused_def breaker_find_def)
    have quo: "resume_quorum P key t' g' as" "\<forall>a \<in> set as. \<not> admin_consumed (br_admin B) (aa_approval_id a) \<and> now \<le> aa_expires_at a"
      using True by (auto simp: quorum_accepts verify_single_True resume_quorum_def)
    have mono: "\<forall>i. admin_consumed (br_admin B) i \<longrightarrow> admin_consumed (br_admin B') i"
      by (simp add: adm fold_consumed)
    show ?thesis
    proof (cases "t' = t \<and> g' = g")
      case True
      then show ?thesis using quo mono by (auto simp: adm fold_consumed)
    next
      case False
      then have "is_paused B' t g = is_paused B t g" using breaker_write_paused [OF w(1), of t g] w(2,3) pz by auto
      then show ?thesis using mono by blast
    qed
  next
    case False
    then have "snd ?q = br_admin B" by (simp add: quorum_table)
    then show ?thesis using q \<open>B' \<noteq> B\<close> False
      by (auto simp: breaker_resume_def split: if_splits prod.splits bool.splits)
  qed
qed simp

inductive breaker_step :: "prims \<Rightarrow> string \<Rightarrow> breaker_db \<Rightarrow> breaker_db \<Rightarrow> bool" for P key where
  step_pause: "pause E t g operator reason B = (res, B') \<Longrightarrow> breaker_step P key B B'"
| step_resume: "breaker_resume P (Some key) E now t g ids raws reason B = (res, B') \<Longrightarrow> breaker_step P key B B'"

inductive_cases breaker_stepE: "breaker_step P key B B'"

lemma breaker_step_effect:
  assumes "breaker_step P key B B'"
  shows "(\<forall>i. admin_consumed (br_admin B) i \<longrightarrow> admin_consumed (br_admin B') i) \<and>
     (is_paused B t g \<longrightarrow> is_paused B' t g \<or> (\<exists>as. resume_quorum P key t g as \<and>
        (\<forall>a \<in> set as. \<not> admin_consumed (br_admin B) (aa_approval_id a) \<and>
           admin_consumed (br_admin B') (aa_approval_id a))))"
  using assms
proof (cases rule: breaker_step.cases)
  case (step_pause E t' g' operator reason res)
  then show ?thesis using pause_paused by simp
next
  case (step_resume E now t' g' ids raws reason res)
  from resume_effect [OF this, of t g] show ?thesis by blast
qed

text \<open>
  C25: A pause holds until two administrators lift it.  Whatever pauses and resumptions of any
  organisations are attempted, an organisation that was paused and no longer is has been resumed
  by a quorum: at least two approvals of distinct approvers, signed with the system secret for
  this tenant, organisation and action, all unused before and all consumed since.
\<close>

theorem pause_holds_until_quorum:
  assumes "(breaker_step P key)\<^sup>*\<^sup>* B B'" "is_paused B t g" "\<not> is_paused B' t g"
  shows "\<exists>as. resume_quorum P key t g as \<and> (\<forall>a \<in> set as.
     \<not> admin_consumed (br_admin B) (aa_approval_id a) \<and> admin_consumed (br_admin B') (aa_approval_id a))"
proof -
  let ?lifted = "\<lambda>B'. \<exists>as. resume_quorum P key t g as \<and> (\<forall>a \<in> set as.
     \<not> admin_consumed (br_admin B) (aa_approval_id a) \<and> admin_consumed (br_admin B') (aa_approval_id a))"
  have "(\<forall>i. admin_consumed (br_admin B) i \<longrightarrow> admin_consumed (br_admin B') i) \<and> (is_paused B' t g \<or> ?lifted B')"
    using assms(1)
  proof (induction rule: rtranclp_induct)
    case base
    then show ?case using assms(2) by simp
  next
    case (step B1 B2)
    note mono = breaker_step_effect [OF step.hyps(2), THEN conjunct1]
    note lift = breaker_step_effect [OF step.hyps(2), of t g, THEN conjunct2]
    from step.IH mono have "\<forall>i. admin_consumed (br_admin B) i \<longrightarrow> admin_consumed (br_admin B2) i" by blast
    moreover have "is_paused B2 t g \<or> ?lifted B2"
      using step.IH mono lift by (meson)
    ultimately show ?case by blast
  qed
  with assms(3) show ?thesis by blast
qed

section \<open>Execution approvals\<close>

record execution_approval =
  ea_approval_id :: string
  ea_tenant_id :: string
  ea_organisation_id :: string
  ea_principal_id :: string
  ea_authority_id :: string
  ea_intent_hash :: string
  ea_policy_decision_id :: string
  ea_policy_decision_hash :: string
  ea_issued_at :: rat
  ea_expires_at :: rat
  ea_signature :: string

type_synonym approval_table = "(execution_approval \<times> bool) list"

definition execution_canonical_string :: "prims \<Rightarrow> execution_approval \<Rightarrow> string" where
  "execution_canonical_string P a = py_join '':'' [ea_approval_id a, ea_tenant_id a, ea_organisation_id a,
     ea_principal_id a, ea_authority_id a, ea_intent_hash a, ea_policy_decision_id a, ea_policy_decision_hash a,
     format_4f P (ea_issued_at a), format_4f P (ea_expires_at a)]"

text \<open>A decision is given as a string or as the JSON value its \<open>to_audit_dict\<close> or \<open>model_dump\<close> gives.\<close>

definition decision_hash :: "prims \<Rightarrow> json \<Rightarrow> string" where
  "decision_hash P d = sha256 P (case d of JStr s \<Rightarrow> s | _ \<Rightarrow> canonical_json P d)"

record approval_scope =
  as_tenant_id :: string
  as_organisation_id :: string
  as_principal_id :: string
  as_authority_id :: string
  as_intent_hash :: string
  as_policy_decision_id :: string

definition issue_approval ::
  "prims \<Rightarrow> string \<Rightarrow> env \<Rightarrow> rat \<Rightarrow> rat \<Rightarrow> approval_scope \<Rightarrow> json \<Rightarrow> approval_table \<Rightarrow>
     execution_approval result \<times> approval_table" where
  "issue_approval P key E now ttl S d T =
     (if ttl \<le> 0 then (raise ValueError ''ttl_seconds must be positive'', T)
      else let a = \<lparr>ea_approval_id = ''exec-appr-'' @ take 16 (e_uuid E 0), ea_tenant_id = as_tenant_id S,
              ea_organisation_id = as_organisation_id S, ea_principal_id = as_principal_id S,
              ea_authority_id = as_authority_id S, ea_intent_hash = as_intent_hash S,
              ea_policy_decision_id = as_policy_decision_id S, ea_policy_decision_hash = decision_hash P d,
              ea_issued_at = now, ea_expires_at = now + ttl, ea_signature = []\<rparr>;
            signed = a\<lparr>ea_signature := hmac_sha256 P key (execution_canonical_string P a)\<rparr>
        in if \<exists>r \<in> set T. ea_approval_id (fst r) = ea_approval_id a
           then (raise IntegrityError ''UNIQUE constraint failed: execution_approvals.approval_id'', T)
           else (Inr signed, T @ [(signed, False)]))"

definition approval_row :: "approval_table \<Rightarrow> string \<Rightarrow> (execution_approval \<times> bool) option" where
  "approval_row T i = find (\<lambda>r. ea_approval_id (fst r) = i) T"

definition verify_and_consume ::
  "prims \<Rightarrow> string \<Rightarrow> rat \<Rightarrow> execution_approval \<Rightarrow> approval_scope \<Rightarrow> json \<Rightarrow> approval_table \<Rightarrow>
     (bool \<times> string option) \<times> approval_table" where
  "verify_and_consume P key now a S d T =
     (if ea_tenant_id a \<noteq> as_tenant_id S \<or> ea_organisation_id a \<noteq> as_organisation_id S
      then ((False, Some ''approval scope mismatch''), T)
      else if ea_principal_id a \<noteq> as_principal_id S then ((False, Some ''approval principal mismatch''), T)
      else if ea_authority_id a \<noteq> as_authority_id S
      then ((False, Some ''approval execution authority mismatch''), T)
      else if ea_intent_hash a \<noteq> as_intent_hash S then ((False, Some ''approval intent hash mismatch''), T)
      else if ea_policy_decision_id a \<noteq> as_policy_decision_id S
      then ((False, Some ''approval policy decision mismatch''), T)
      else if now > ea_expires_at a then ((False, Some ''approval expired''), T)
      else if ea_policy_decision_hash a \<noteq> decision_hash P d
      then ((False, Some ''approval policy decision hash mismatch''), T)
      else if ea_signature a \<noteq> hmac_sha256 P key (execution_canonical_string P a)
      then ((False, Some ''approval signature invalid''), T)
      else case approval_row T (ea_approval_id a) of
        None \<Rightarrow> ((False, Some ''approval is not durable''), T)
      | Some (row, consumed) \<Rightarrow>
          if consumed then ((False, Some ''approval already consumed''), T)
          else let hits = length (filter (\<lambda>r. ea_approval_id (fst r) = ea_approval_id a \<and> \<not> snd r) T);
                   T' = map (\<lambda>r. if ea_approval_id (fst r) = ea_approval_id a then (fst r, True) else r) T
            in if hits \<noteq> 1 then ((False, Some ''approval replay detected''), T') else ((True, None), T'))"

definition approval_used :: "approval_table \<Rightarrow> string \<Rightarrow> bool" where
  "approval_used T i = (case approval_row T i of None \<Rightarrow> False | Some r \<Rightarrow> snd r)"

type_synonym approval_claim = "prims \<times> string \<times> rat \<times> execution_approval \<times> approval_scope \<times> json"

definition claim_approval :: "approval_claim \<Rightarrow> approval_table \<Rightarrow> string \<Rightarrow> approval_table result" where
  "claim_approval c T i = (case c of (P, key, now, a, S, d) \<Rightarrow>
     (case verify_and_consume P key now (a\<lparr>ea_approval_id := i\<rparr>) S d T of
        ((True, _), T') \<Rightarrow> Inr T' | ((False, _), _) \<Rightarrow> raise ValueError ''rejected''))"

lemma approval_row_mark:
  "approval_row (map (\<lambda>r. if ea_approval_id (fst r) = i then (fst r, True) else r) T) j =
     map_option (\<lambda>r. if ea_approval_id (fst r) = i then (fst r, True) else r) (approval_row T j)"
  unfolding approval_row_def by (rule find_map_same) simp

lemma claim_approval_Inr:
  assumes "claim_approval c T i = Inr T'"
  shows "(\<exists>row. approval_row T i = Some (row, False)) \<and>
     T' = map (\<lambda>r. if ea_approval_id (fst r) = i then (fst r, True) else r) T"
  using assms
  by (auto simp: claim_approval_def verify_and_consume_def Let_def split: prod.splits if_splits option.splits)

lemma approval_row_id: "approval_row T i = Some r \<Longrightarrow> ea_approval_id (fst r) = i"
  unfolding approval_row_def by (drule find_SomeD) simp

interpretation approvals: consume_once approval_used claim_approval
proof
  fix c T i T' j
  assume claim: "claim_approval c T i = Inr T'"
  note facts = claim_approval_Inr [OF this]
  show "\<not> approval_used T i" using facts by (auto simp: approval_used_def)
  obtain row where "approval_row T i = Some (row, False)" using facts by blast
  moreover from approval_row_id [OF this] have "ea_approval_id row = i" by simp
  ultimately show "approval_used T' i" using facts by (simp add: approval_used_def approval_row_mark)
  show "approval_used T j \<Longrightarrow> approval_used T' j" using facts
    by (auto simp: approval_used_def approval_row_mark split: option.splits)
qed

definition filtered_rows :: "approval_table \<Rightarrow> string \<Rightarrow> nat" where
  "filtered_rows T i = length (filter (\<lambda>r. ea_approval_id (fst r) = i \<and> \<not> snd r) T)"

lemma filtered_none: "\<forall>r \<in> set T. ea_approval_id (fst r) \<noteq> i \<Longrightarrow> filtered_rows T i = 0"
  by (induction T) (auto simp: filtered_rows_def)

lemma approval_row_none: "\<forall>r \<in> set T. ea_approval_id (fst r) \<noteq> i \<Longrightarrow> approval_row T i = None"
  by (auto simp: approval_row_def find_None_iff)

text \<open>
  C30: An execution approval is good for exactly what it was issued for, once.  A freshly issued
  approval is accepted for a scope, decision and time exactly when the scope is the issued
  one, the decision has the same hash and the approval has not expired; and over any sequence of
  further attempts, with whatever arguments, an approval id is accepted at most once.
\<close>

theorem execution_approval_binding:
  assumes "issue_approval P key E now ttl S d T = (Inr a, T1)"
  shows "(fst (fst (verify_and_consume P key now' a S' d' T1)) \<longleftrightarrow>
       approval_scope.truncate S' = approval_scope.truncate S \<and> decision_hash P d' = decision_hash P d \<and> now' \<le> now + ttl) \<and>
     claim_count claim_approval attempts T1 (ea_approval_id a) \<le> 1"
proof
  have new: "\<forall>r \<in> set T. ea_approval_id (fst r) \<noteq> ea_approval_id a" and T1: "T1 = T @ [(a, False)]"
    and f: "ea_tenant_id a = as_tenant_id S" "ea_organisation_id a = as_organisation_id S"
      "ea_principal_id a = as_principal_id S" "ea_authority_id a = as_authority_id S"
      "ea_intent_hash a = as_intent_hash S" "ea_policy_decision_id a = as_policy_decision_id S"
      "ea_policy_decision_hash a = decision_hash P d" "ea_expires_at a = now + ttl"
      "ea_signature a = hmac_sha256 P key (execution_canonical_string P a)"
    using assms by (auto simp: issue_approval_def Let_def execution_canonical_string_def split: if_splits)
  have row: "approval_row T1 (ea_approval_id a) = Some (a, False)"
    using approval_row_none [OF new] by (simp add: approval_row_def T1)
  have hits: "length (filter (\<lambda>r. ea_approval_id (fst r) = ea_approval_id a \<and> \<not> snd r) T1) = 1"
    using filtered_none [OF new] by (simp add: filtered_rows_def T1)
  show "fst (fst (verify_and_consume P key now' a S' d' T1)) \<longleftrightarrow>
       approval_scope.truncate S' = approval_scope.truncate S \<and> decision_hash P d' = decision_hash P d \<and> now' \<le> now + ttl"
    using f row hits by (auto simp: verify_and_consume_def Let_def approval_scope.truncate_def)
  show "claim_count claim_approval attempts T1 (ea_approval_id a) \<le> 1" by (rule approvals.at_most_once)
qed

section \<open>The escalation gate\<close>

type_synonym human_gate = "(string \<times> action_proposal) list"

definition trigger_kill_switch :: "organisation \<Rightarrow> organisation" where
  "trigger_kill_switch g = g\<lparr>og_state := Org_PAUSED\<rparr>"

definition resume_from_pause :: "organisation \<Rightarrow> organisation" where
  "resume_from_pause g = (if og_state g = Org_PAUSED then g\<lparr>og_state := Org_EXECUTING\<rparr> else g)"

definition submit_for_human_review :: "action_proposal \<Rightarrow> human_gate \<Rightarrow> human_gate" where
  "submit_for_human_review p H = AList.update (pr_id p) p H"

definition human_token :: "prims \<Rightarrow> string \<Rightarrow> string \<Rightarrow> string" where
  "human_token P pid operator = ''HUMAN-AUTH-'' @ take 8 pid @ ''-'' @
     take 16 (sha256 P (''HUMAN-AUTH'' @ bar @ pid @ bar @ operator))"

definition approve_escalation ::
  "prims \<Rightarrow> env \<Rightarrow> string \<Rightarrow> string \<Rightarrow> human_gate \<Rightarrow> policy_decision result \<times> human_gate" where
  "approve_escalation P E pid operator H =
     (case map_of H pid of
        None \<Rightarrow> (raise KeyError ''No pending escalation found'', H)
      | Some p \<Rightarrow> (Inr \<lparr>pd_id = e_uuid E 0, pd_proposal_id = pid, pd_result = Policy_APPROVED,
            pd_violated_rule_id = None, pd_violated_rule_description = Some (''Approved by operator '' @ operator),
            pd_evaluated_rules = [''RULE-05-HUMAN-OVERRIDE''],
            pd_authorization_token = Some (human_token P pid operator), pd_timestamp = e_now E 0\<rparr>,
          AList.delete pid H))"

definition reject_escalation ::
  "env \<Rightarrow> string \<Rightarrow> string \<Rightarrow> string \<Rightarrow> human_gate \<Rightarrow> policy_decision result \<times> human_gate" where
  "reject_escalation E pid reason operator H =
     (case map_of H pid of
        None \<Rightarrow> (raise KeyError ''No pending escalation found'', H)
      | Some p \<Rightarrow> (Inr \<lparr>pd_id = e_uuid E 0, pd_proposal_id = pid, pd_result = Policy_REJECTED,
            pd_violated_rule_id = Some ''RULE-05-HUMAN-REJECTED'',
            pd_violated_rule_description = Some (''Rejected by operator '' @ operator @ '': '' @ reason),
            pd_evaluated_rules = [''RULE-05-HUMAN-OVERRIDE''],
            pd_authorization_token = None, pd_timestamp = e_now E 0\<rparr>,
          AList.delete pid H))"

lemma human_token_fails: "\<not> fst (verify_token P loads eng (human_token P' pid operator) p g d now)"
proof -
  obtain xs where t: "human_token P' pid operator = CHR ''H'' # xs" by (simp add: human_token_def)
  obtain x ps where "py_split (CHR ''.'') xs = x # ps" by (meson neq_Nil_conv py_split_nonempty)
  then have "py_split (CHR ''.'') (human_token P' pid operator) = (CHR ''H'' # x) # ps" by (simp add: t)
  then show ?thesis by (auto simp: verify_token_def split: list.split)
qed

text \<open>
  What a human approves cannot be executed.  The token \<open>approve_escalation\<close> issues is not
  signed and does not begin with \<open>AUTH-\<close>, so \<open>verify_token\<close> refuses it under every engine, for
  every proposal, decision, organisation and time.
\<close>

theorem human_approval_never_verifies:
  assumes "approve_escalation P E pid operator H = (Inr d, H')"
  shows "\<exists>token. pd_result d = Policy_APPROVED \<and> pd_authorization_token d = Some token \<and>
     (\<forall>loads eng p g d' now. \<not> fst (verify_token P loads eng token p g d' now))"
  using assms human_token_fails by (auto simp: approve_escalation_def split: option.splits)

section \<open>Demonstrations\<close>

definition demo_paused :: breaker_db where
  "demo_paused = snd (pause demo_env ''t'' ''o'' ''operator'' ''incident'' \<lparr>br_rows = [], br_audit = [], br_admin = []\<rparr>)"

definition demo_resume_approval :: "env \<Rightarrow> string \<Rightarrow> admin_approval" where
  "demo_resume_approval E who = create_approval demo_prims ''key'' E 0 ''t'' ''CIRCUIT_BREAKER_RESUME'' ''o''
     (JObj [(''organisation_id'', JStr ''o'')]) who 900"

definition demo_resumed :: breaker_db where
  "demo_resumed = snd (breaker_resume demo_prims (Some ''key'') demo_env2 10 ''t'' ''o'' [''alice'', ''bob'']
     (Some [Record (demo_resume_approval demo_env ''alice''), Record (demo_resume_approval demo_env2 ''bob'')])
     ''resolved'' demo_paused)"

lemma demo_paused_is: "is_paused demo_paused ''t'' ''o''"
  by (simp add: demo_paused_def pause_def breaker_write_def is_paused_def breaker_find_def breaker_put_def)

lemma demo_resumed_is: "\<not> is_paused demo_resumed ''t'' ''o''"
  by (simp add: demo_resumed_def breaker_resume_def demo_resume_approval_def create_approval_def Let_def
      verify_and_consume_quorum_def verify_single_approval_def admin_consumed_def demo_paused_def pause_def
      breaker_write_def breaker_put_def is_paused_def breaker_find_def admin_canonical_string_def demo_env_def
      demo_env2_def consume_approval_def)

theorem pause_holds_until_quorum_witness:
  "\<exists>as. resume_quorum demo_prims ''key'' ''t'' ''o'' as \<and>
     (\<forall>a \<in> set as. admin_consumed (br_admin demo_resumed) (aa_approval_id a))"
proof -
  obtain res where "breaker_resume demo_prims (Some ''key'') demo_env2 10 ''t'' ''o'' [''alice'', ''bob'']
     (Some [Record (demo_resume_approval demo_env ''alice''), Record (demo_resume_approval demo_env2 ''bob'')])
     ''resolved'' demo_paused = (res, demo_resumed)" by (metis demo_resumed_def prod.collapse)
  then have "breaker_step demo_prims ''key'' demo_paused demo_resumed" by (rule step_resume)
  from pause_holds_until_quorum [OF r_into_rtranclp [of "breaker_step demo_prims ''key''", OF this]
      demo_paused_is demo_resumed_is]
  show ?thesis by blast
qed

definition demo_scope :: approval_scope where
  "demo_scope = \<lparr>as_tenant_id = ''t'', as_organisation_id = ''o'', as_principal_id = ''p'', as_authority_id = ''w'',
     as_intent_hash = ''i'', as_policy_decision_id = ''d''\<rparr>"

theorem execution_approval_binding_witness:
  "\<exists>a T1. issue_approval demo_prims ''key'' demo_env 0 900 demo_scope (JStr ''ok'') [] = (Inr a, T1) \<and>
     fst (fst (verify_and_consume demo_prims ''key'' 10 a demo_scope (JStr ''ok'') T1)) \<and>
     \<not> fst (fst (verify_and_consume demo_prims ''key'' 10 a (demo_scope\<lparr>as_authority_id := ''x''\<rparr>) (JStr ''ok'') T1))"
proof -
  obtain a T1 where run: "issue_approval demo_prims ''key'' demo_env 0 900 demo_scope (JStr ''ok'') [] = (Inr a, T1)"
    by (simp add: issue_approval_def Let_def)
  note accepts = execution_approval_binding [OF run, THEN conjunct1]
  show ?thesis using run accepts [of 10 demo_scope "JStr ''ok''"]
      accepts [of 10 "demo_scope\<lparr>as_authority_id := ''x''\<rparr>" "JStr ''ok''"]
    by (auto simp: approval_scope.truncate_def demo_scope_def)
qed

theorem human_approval_never_verifies_witness:
  "\<exists>d H'. approve_escalation demo_prims demo_env (pr_id demo_proposal) ''op''
      (submit_for_human_review demo_proposal []) = (Inr d, H') \<and>
     (\<exists>token. pd_authorization_token d = Some token \<and>
        \<not> fst (verify_token demo_prims codec_loads demo_engine token demo_proposal demo_org (Some d) 0))"
proof -
  obtain d H' where run: "approve_escalation demo_prims demo_env (pr_id demo_proposal) ''op''
      (submit_for_human_review demo_proposal []) = (Inr d, H')"
    by (simp add: approve_escalation_def submit_for_human_review_def)
  from human_approval_never_verifies [OF this] run show ?thesis by blast
qed

end
