(* ===== verification/Tables.thy ===== *)
theory Tables
  imports Prelude
begin

text \<open>
  SQL tables with a primary key as lists of rows, and \<open>INSERT .. ON CONFLICT (key) DO UPDATE\<close>.
  The locale states what the repositories promise their callers: a lookup returns the last
  row saved under the key, with the columns the update leaves, and other keys are untouched.
\<close>

definition lookup :: "('r \<Rightarrow> 'k) \<Rightarrow> 'r list \<Rightarrow> 'k \<Rightarrow> 'r option" where
  "lookup key T k = find (\<lambda>x. key x = k) T"

definition upsert :: "('r \<Rightarrow> 'k) \<Rightarrow> ('r \<Rightarrow> 'r \<Rightarrow> 'r) \<Rightarrow> 'r \<Rightarrow> 'r list \<Rightarrow> 'r list" where
  "upsert key merge r T =
     (if \<exists>x \<in> set T. key x = key r then map (\<lambda>x. if key x = key r then merge x r else x) T else T @ [r])"

text \<open>
  \<open>ORDER BY column DESC\<close>, and its first row (\<open>LIMIT 1\<close>).  SQL leaves the order of rows with equal
  values open; here they keep the order in which they were inserted.
\<close>

definition order_desc :: "('r \<Rightarrow> 'c::linorder) \<Rightarrow> 'r list \<Rightarrow> 'r list" where
  "order_desc col T = rev (sort_key col (rev T))"

definition latest :: "('r \<Rightarrow> 'c::linorder) \<Rightarrow> 'r list \<Rightarrow> 'r option" where
  "latest col T = (case order_desc col T of [] \<Rightarrow> None | x # xs \<Rightarrow> Some x)"

lemma lookup_Nil [simp]: "lookup key [] k = None"
  by (simp add: lookup_def)

lemma lookup_SomeD: "lookup key T k = Some x \<Longrightarrow> x \<in> set T \<and> key x = k"
  unfolding lookup_def by (drule find_SomeD) simp

lemma lookup_upsert:
  assumes "\<And>x. key x = key r \<Longrightarrow> key (merge x r) = key r"
  shows "lookup key (upsert key merge r T) k =
     (if k = key r then Some (case lookup key T k of None \<Rightarrow> r | Some x \<Rightarrow> merge x r) else lookup key T k)"
proof (cases "\<exists>x \<in> set T. key x = key r")
  case True
  let ?f = "\<lambda>x. if key x = key r then merge x r else x"
  have "key (?f x) = k \<longleftrightarrow> key x = k" for x using assms by auto
  then have "find (\<lambda>x. key x = k) (map ?f T) = map_option ?f (find (\<lambda>x. key x = k) T)"
    by (rule find_map_same)
  moreover have "k = key r \<Longrightarrow> find (\<lambda>x. key x = k) T \<noteq> None" using True find_NoneD by fastforce
  ultimately show ?thesis using True
    by (cases "find (\<lambda>x. key x = k) T") (auto simp: upsert_def lookup_def dest: find_SomeD)
next
  case False
  then have "find (\<lambda>x. key x = key r) T = None" by (auto simp: find_None_iff)
  then show ?thesis using False by (auto simp: upsert_def lookup_def split: option.split)
qed

lemma set_order_desc [simp]: "set (order_desc col T) = set T"
  by (simp add: order_desc_def)

lemma order_desc_sorted: "sorted_wrt (\<lambda>x y. col y \<le> col x) (order_desc col T)"
proof -
  have "sorted (map col (sort_key col (rev T)))" by simp
  then show ?thesis unfolding order_desc_def sorted_map by (simp add: sorted_wrt_rev)
qed

lemma latest_Some:
  assumes "latest col T = Some x"
  shows "x \<in> set T \<and> (\<forall>y \<in> set T. col y \<le> col x)"
proof -
  obtain xs where xs: "order_desc col T = x # xs" using assms by (auto simp: latest_def split: list.splits)
  then have "set T = insert x (set xs)" by (metis list.simps(15) set_order_desc)
  moreover have "\<forall>y \<in> set xs. col y \<le> col x" using order_desc_sorted [of col T] xs by simp
  ultimately show ?thesis by simp
qed

lemma latest_None: "latest col T = None \<longleftrightarrow> T = []"
proof -
  have "order_desc col T = [] \<longleftrightarrow> T = []" by (metis set_empty set_order_desc)
  then show ?thesis by (auto simp: latest_def split: list.splits)
qed

lemma order_desc_Nil [simp]: "order_desc col [] = []"
  by (simp add: order_desc_def)

lemma filter_upsert_other:
  assumes "\<not> P r" "\<And>x. key x = key r \<Longrightarrow> \<not> P x \<and> \<not> P (merge x r)"
  shows "filter P (upsert key merge r T) = filter P T"
proof -
  have "filter P (map (\<lambda>x. if key x = key r then merge x r else x) T) = filter P T"
    using assms(2) by (induction T) auto
  then show ?thesis using assms(1) by (simp add: upsert_def)
qed

lemma upsert_keep: "upsert key (\<lambda>old r. old) r T = (if lookup key T (key r) = None then T @ [r] else T)"
  by (auto simp: upsert_def lookup_def find_None_iff)

locale keyed_store =
  fixes get :: "'s \<Rightarrow> 'k \<Rightarrow> 'r option"
    and put :: "'r \<Rightarrow> 's \<Rightarrow> 's"
    and key :: "'r \<Rightarrow> 'k"
    and merge :: "'r \<Rightarrow> 'r \<Rightarrow> 'r"
  assumes get_put: "get (put r s) k =
      (if k = key r then Some (case get s k of None \<Rightarrow> r | Some x \<Rightarrow> merge x r) else get s k)"
begin

lemma get_put_new: "get s (key r) = None \<Longrightarrow> get (put r s) (key r) = Some r"
  by (simp add: get_put)

lemma others_untouched: "\<forall>r \<in> set rs. key r \<noteq> k \<Longrightarrow> get (fold put rs s) k = get s k"
  by (induction rs arbitrary: s) (auto simp: get_put)

text \<open>A column no update writes keeps the value of the first insert, whatever is saved later.\<close>

lemma column_fixed:
  assumes "\<And>old r. f (merge old r) = f old" "get s k = Some x"
  shows "\<exists>y. get (fold put rs s) k = Some y \<and> f y = f x"
  using assms(2)
proof (induction rs arbitrary: s x)
  case (Cons r rs)
  then obtain x' where "get (put r s) k = Some x'" "f x' = f x"
    using assms(1) by (cases "k = key r") (auto simp: get_put)
  with Cons.IH [of "put r s" x'] show ?case by auto
qed simp

end

lemma upsert_store:
  assumes "\<And>x r. key x = key r \<Longrightarrow> key (merge x r) = key r"
  shows "keyed_store (lookup key) (upsert key merge) key merge"
  by unfold_locales (rule lookup_upsert, rule assms)

end
