(* ===== verification/WorkOrders.thy ===== *)
theory WorkOrders
  imports Executor Tables
begin

text \<open>
  Paid work: work orders, deliverables and signed receipts (\<open>src/domain/work_order.py\<close>), the
  deliverable verifier (\<open>src/settlement/work_verifier.py\<close>), the simulated executor
  (\<open>src/execution/work_executor.py\<close>), the distribution of revenue
  (\<open>src/economy/surplus_accounting.py\<close>) and the unit economics of the analyst and the choice of the CEO
  (\<open>src/agents/roles\<close>).  Ratios are exact rationals; the product of an amount and a ratio, which the code
  computes in floating point, is a parameter.
\<close>

section \<open>work\_order.py\<close>

datatype work_order_status =
  Work_PROPOSED | Work_AUTHORIZED | Work_IN_PROGRESS | Work_DELIVERED | Work_VERIFIED | Work_SETTLED
  | Work_REJECTED | Work_EXPIRED

datatype deliverable_status = Deliverable_ACCEPTED | Deliverable_REJECTED

datatype currency_asset = ORG_CREDIT | USDG | ORBIO_CREDIT

fun deliverable_value :: "deliverable_status \<Rightarrow> string" where
  "deliverable_value Deliverable_ACCEPTED = ''ACCEPTED''"
| "deliverable_value Deliverable_REJECTED = ''REJECTED''"

record work_order =
  wo_work_order_id :: string
  wo_tenant_id :: string
  wo_organisation_id :: string
  wo_client_id :: string
  wo_title :: string
  wo_description :: string
  wo_deliverable_type :: string
  wo_required_orbio_credits :: int
  wo_bounty_amount :: int
  wo_bounty_asset :: currency_asset
  wo_deadline_seconds :: int
  wo_status :: work_order_status
  wo_created_at :: string
  wo_metadata :: "(string \<times> json) list"

definition work_transition_to :: "work_order \<Rightarrow> work_order_status \<Rightarrow> work_order" where
  "work_transition_to w st = w\<lparr>wo_status := st\<rparr>"

record deliverable =
  dl_deliverable_id :: string
  dl_work_order_id :: string
  dl_producer_agent_id :: string
  dl_content_payload :: "(string \<times> json) list"
  dl_content_hash :: string
  dl_orbio_credits_consumed :: int
  dl_execution_telemetry :: "(string \<times> json) list"
  dl_created_at :: string

definition canonical_json_hash :: "prims \<Rightarrow> json \<Rightarrow> string" where
  "canonical_json_hash P j = sha256 P (canonical_json P j)"

definition create_deliverable ::
  "prims \<Rightarrow> env \<Rightarrow> string \<Rightarrow> string \<Rightarrow> (string \<times> json) list \<Rightarrow> int \<Rightarrow> (string \<times> json) list \<Rightarrow> string option \<Rightarrow> deliverable"
where
  "create_deliverable P E wid producer payload credits telemetry did =
     \<lparr>dl_deliverable_id = py_or did (''deliv-'' @ e_uuid E 0), dl_work_order_id = wid,
      dl_producer_agent_id = producer, dl_content_payload = payload,
      dl_content_hash = canonical_json_hash P (JObj payload), dl_orbio_credits_consumed = credits,
      dl_execution_telemetry = telemetry, dl_created_at = e_now E 0\<rparr>"

definition compute_evidence_hash :: "prims \<Rightarrow> deliverable \<Rightarrow> string" where
  "compute_evidence_hash P d = canonical_json_hash P (JObj
     [(''deliverable_id'', JStr (dl_deliverable_id d)), (''work_order_id'', JStr (dl_work_order_id d)),
      (''producer_agent_id'', JStr (dl_producer_agent_id d)),
      (''orbio_credits_consumed'', JInt (dl_orbio_credits_consumed d)),
      (''telemetry'', JObj (dl_execution_telemetry d))])"

record work_receipt =
  wr_receipt_id :: string
  wr_work_order_id :: string
  wr_deliverable_id :: string
  wr_content_hash :: string
  wr_evidence_hash :: string
  wr_verifier_identity :: string
  wr_status :: deliverable_status
  wr_verification_notes :: string
  wr_verified_at :: string
  wr_hmac_signature :: "string option"

definition is_verified :: "work_receipt \<Rightarrow> bool" where
  "is_verified r \<longleftrightarrow> wr_status r = Deliverable_ACCEPTED"

definition receipt_message :: "string \<Rightarrow> string \<Rightarrow> string \<Rightarrow> string \<Rightarrow> deliverable_status \<Rightarrow> string \<Rightarrow> string" where
  "receipt_message wid did ch eh st who = py_join '':'' [wid, did, ch, eh, deliverable_value st, who]"

definition sign_receipt ::
  "prims \<Rightarrow> env \<Rightarrow> string \<Rightarrow> string \<Rightarrow> string \<Rightarrow> string \<Rightarrow> string \<Rightarrow> string \<Rightarrow> deliverable_status \<Rightarrow> string \<Rightarrow>
     string \<Rightarrow> work_receipt" where
  "sign_receipt P E rid wid did ch eh who st secret notes =
     \<lparr>wr_receipt_id = rid, wr_work_order_id = wid, wr_deliverable_id = did, wr_content_hash = ch,
      wr_evidence_hash = eh, wr_verifier_identity = who, wr_status = st, wr_verification_notes = notes,
      wr_verified_at = e_now E 0,
      wr_hmac_signature = Some (hmac_sha256 P secret (receipt_message wid did ch eh st who))\<rparr>"

definition receipt_verify_hmac :: "prims \<Rightarrow> string \<Rightarrow> work_receipt \<Rightarrow> bool" where
  "receipt_verify_hmac P secret r \<longleftrightarrow> py_truthy (wr_hmac_signature r) \<and>
     the (wr_hmac_signature r) = hmac_sha256 P secret (receipt_message (wr_work_order_id r)
       (wr_deliverable_id r) (wr_content_hash r) (wr_evidence_hash r) (wr_status r) (wr_verifier_identity r))"

section \<open>work\_verifier.py\<close>

text \<open>Why a deliverable is refused, in the order of the checks.\<close>

definition work_refusal :: "prims \<Rightarrow> work_order \<Rightarrow> deliverable \<Rightarrow> string option" where
  "work_refusal P w d =
     (if dl_work_order_id d \<noteq> wo_work_order_id w then Some ''Work order ID mismatch''
      else if dl_content_hash d \<noteq> canonical_json_hash P (JObj (dl_content_payload d))
      then Some ''Content hash corruption''
      else if dl_orbio_credits_consumed d \<le> 0
      then Some ''Deliverable reports zero or negative compute credits consumed''
      else if dl_orbio_credits_consumed d > wo_required_orbio_credits w then Some ''Excessive compute consumed''
      else if dl_content_payload d = [] then Some ''Deliverable payload is empty or invalid format''
      else if map_of (dl_content_payload d) ''deliverable_type'' \<noteq> Some (JStr (wo_deliverable_type w))
      then Some ''Deliverable type mismatch in payload''
      else None)"

definition verify_work ::
  "prims \<Rightarrow> env \<Rightarrow> string \<Rightarrow> string \<Rightarrow> work_order \<Rightarrow> deliverable \<Rightarrow> string option \<Rightarrow> work_receipt" where
  "verify_work P E who secret w d rid =
     (let r = py_or rid (''rcpt-'' @ e_uuid E 0); eh = compute_evidence_hash P d;
          sign = sign_receipt P E r (wo_work_order_id w) (dl_deliverable_id d) (dl_content_hash d) eh who
      in case work_refusal P w d of
           Some why \<Rightarrow> sign Deliverable_REJECTED secret why
         | None \<Rightarrow> sign Deliverable_ACCEPTED secret
             ''Deliverable verified: content hash matches, schema valid, resource bounds respected'')"

section \<open>work\_executor.py\<close>

text \<open>The credit balances, of the exchange or of the executor's own store.\<close>

type_synonym credit_store = "(string \<times> int) list"

definition deduct_credits :: "string \<Rightarrow> int \<Rightarrow> credit_store \<Rightarrow> credit_store result" where
  "deduct_credits org n S =
     (if dict_get S org 0 < n then raise InsufficientCreditsError ''Organisation has too few Orbio credits''
      else Inr (AList.update org (dict_get S org 0 - n) S))"

definition work_payload :: "work_order \<Rightarrow> (string \<times> json) list" where
  "work_payload w =
     [(''work_order_id'', JStr (wo_work_order_id w)), (''deliverable_type'', JStr (wo_deliverable_type w)),
      (''target'', JStr (wo_title w))] @
     (if wo_deliverable_type w = ''SECURITY_AUDIT'' then
        [(''findings'', JList
           [JObj [(''finding_id'', JStr ''VULN-001''), (''severity'', JStr ''INFORMATIONAL''),
              (''description'', JStr ''Validated safe call patterns; no unchecked calls detected.'')],
            JObj [(''finding_id'', JStr ''VULN-002''), (''severity'', JStr ''LOW''),
              (''description'', JStr ''Visibility specifier explicitly defined on state mutating methods.'')]]),
         (''audit_verdict'', JStr ''PASSED_SECURE''), (''code_coverage_pct'', JFloat (982/10)),
         (''summary'', JStr (''Security audit completed for '' @ wo_title w @ ''.''))]
      else if wo_deliverable_type w = ''MARKET_ANALYSIS'' then
        [(''metrics'', JObj [(''liquidity_depth_usdg'', JInt 1500000), (''volume_24h_usdg'', JInt 340000),
            (''volatility_index'', JFloat (12/100))]),
         (''recommendation'', JStr ''BUY_WITHIN_BOUNDS''),
         (''summary'', JStr (''Market analysis completed for '' @ wo_title w @ ''.''))]
      else
        [(''result'', JStr ''Execution completed successfully.''),
         (''summary'', JStr (''Delivered work for '' @ wo_title w @ ''.''))])"

definition execute_work ::
  "prims \<Rightarrow> env \<Rightarrow> work_order \<Rightarrow> string \<Rightarrow> string \<Rightarrow> string option \<Rightarrow> (credit_store, deliverable) act" where
  "execute_work P E w producer org key S =
     (let need = wo_required_orbio_credits w in
      if dict_get S org 0 < need then (raise InsufficientCreditsError ''Insufficient Orbio CREDIT'', S)
      else case deduct_credits org need S of
        Inl x \<Rightarrow> (Inl x, S)
      | Inr S' \<Rightarrow> (Inr (create_deliverable P E (wo_work_order_id w) producer (work_payload w) need
          [(''is_simulated'', JBool True), (''executor'', JStr ''SimulatedWorkExecutor''),
           (''endpoint'', JStr ''simulated://local''), (''activated_api_key_used'', JBool (py_truthy key)),
           (''latency_ms'', JInt 42), (''credits_deducted'', JInt need)] None), S'))"

text \<open>Every digest the program compares is a non-empty text.\<close>

definition digests_nonempty :: "prims \<Rightarrow> bool" where
  "digests_nonempty P \<longleftrightarrow> (\<forall>k m. hmac_sha256 P k m \<noteq> [])"

lemma verify_work_facts:
  "wr_status (verify_work P E who secret w d rid) = Deliverable_ACCEPTED \<longleftrightarrow> work_refusal P w d = None"
  "wr_work_order_id (verify_work P E who secret w d rid) = wo_work_order_id w"
  "wr_content_hash (verify_work P E who secret w d rid) = dl_content_hash d"
  "wr_deliverable_id (verify_work P E who secret w d rid) = dl_deliverable_id d"
  by (simp_all add: verify_work_def sign_receipt_def Let_def split: option.split)

lemma verify_work_hmac:
  "digests_nonempty P \<Longrightarrow> receipt_verify_hmac P secret (verify_work P E who secret w d rid)"
  by (simp add: verify_work_def sign_receipt_def receipt_verify_hmac_def digests_nonempty_def Let_def
      split: option.split)

lemma work_refusal_None:
  "work_refusal P w d = None \<longleftrightarrow> dl_work_order_id d = wo_work_order_id w \<and>
     dl_content_hash d = canonical_json_hash P (JObj (dl_content_payload d)) \<and>
     0 < dl_orbio_credits_consumed d \<and> dl_orbio_credits_consumed d \<le> wo_required_orbio_credits w \<and>
     map_of (dl_content_payload d) ''deliverable_type'' = Some (JStr (wo_deliverable_type w))"
  by (auto simp: work_refusal_def)

lemma execute_work_Inr:
  "execute_work P E w producer org key S = (Inr d, S') \<longleftrightarrow>
     wo_required_orbio_credits w \<le> dict_get S org 0 \<and>
     S' = AList.update org (dict_get S org 0 - wo_required_orbio_credits w) S \<and>
     d = create_deliverable P E (wo_work_order_id w) producer (work_payload w) (wo_required_orbio_credits w)
          [(''is_simulated'', JBool True), (''executor'', JStr ''SimulatedWorkExecutor''),
           (''endpoint'', JStr ''simulated://local''), (''activated_api_key_used'', JBool (py_truthy key)),
           (''latency_ms'', JInt 42), (''credits_deducted'', JInt (wo_required_orbio_credits w))] None"
  by (auto simp: execute_work_def deduct_credits_def Let_def)

text \<open>
  Executed work passes the verifier, and only it is signed as accepted.  The simulated
  executor's deliverable for an order that requires credits is ACCEPTED with a signature that verifies, at the
  cost of exactly the required credits; and whatever deliverable a verifier accepts is bound to
  the order, hashes to its claimed content and consumed credits within the order's bound.
\<close>

theorem work_is_verified:
  assumes "execute_work P E w producer org key S = (Inr d, S')" "0 < wo_required_orbio_credits w" "digests_nonempty P"
  shows "is_verified (verify_work P E' who secret w d rid) \<and>
     receipt_verify_hmac P secret (verify_work P E' who secret w d rid) \<and>
     dict_get S' org 0 = dict_get S org 0 - wo_required_orbio_credits w \<and> 0 \<le> dict_get S' org 0 \<and>
     (\<forall>d2. is_verified (verify_work P E' who secret w d2 rid) \<longrightarrow> dl_work_order_id d2 = wo_work_order_id w \<and>
        dl_content_hash d2 = canonical_json_hash P (JObj (dl_content_payload d2)) \<and>
        dl_orbio_credits_consumed d2 \<in> {1..wo_required_orbio_credits w})"
proof -
  have d: "wo_required_orbio_credits w \<le> dict_get S org 0" "dl_work_order_id d = wo_work_order_id w"
      "dl_content_payload d = work_payload w" "dl_content_hash d = canonical_json_hash P (JObj (work_payload w))"
      "dl_orbio_credits_consumed d = wo_required_orbio_credits w"
      "S' = AList.update org (dict_get S org 0 - wo_required_orbio_credits w) S"
    using assms(1) by (simp_all add: execute_work_Inr create_deliverable_def)
  have "map_of (work_payload w) ''deliverable_type'' = Some (JStr (wo_deliverable_type w))"
    by (simp add: work_payload_def)
  then have "work_refusal P w d = None" using d assms(2) by (simp add: work_refusal_None)
  then show ?thesis using d verify_work_hmac [OF assms(3)]
    by (auto simp: is_verified_def verify_work_facts work_refusal_None dict_get_def update_conv)
qed

section \<open>surplus\_accounting.py\<close>

record revenue_event =
  re_revenue_event_id :: string
  re_work_order_id :: string
  re_gross_revenue_usdg :: int
  re_direct_expense_usdg :: int
  re_net_surplus_usdg :: int
  re_orbio_credits_consumed :: int
  re_allocated_to_mission_budget :: int
  re_allocated_to_reserve :: int
  re_settled_at :: string
  re_ledger_tx_id :: "string option"

record 'l surplus_state =
  ss_ledger :: 'l
  ss_events :: "(string \<times> revenue_event) list"

text \<open>
  \<open>sc_floor_mul n r\<close> is \<open>math.floor(n * r)\<close> on floats; \<open>sc_durable\<close> answers
  \<open>get_revenue_event_by_work_order\<close> of the repository, when there is one.
\<close>

record surplus_config =
  sc_reserve_ratio :: rat
  sc_secret :: string
  sc_floor_mul :: "int \<Rightarrow> rat \<Rightarrow> int"
  sc_durable :: "(string \<Rightarrow> string \<Rightarrow> string \<Rightarrow> revenue_event option) option"

definition mk_surplus_config ::
  "rat \<Rightarrow> string \<Rightarrow> (int \<Rightarrow> rat \<Rightarrow> int) \<Rightarrow> (string \<Rightarrow> string \<Rightarrow> string \<Rightarrow> revenue_event option) option \<Rightarrow> surplus_config result"
where
  "mk_surplus_config ratio secret mul durable =
     (if \<not> (0 \<le> ratio \<and> ratio \<le> 1) then raise ValueError ''default_reserve_ratio must be between 0.0 and 1.0''
      else if secret = [] then raise ValueError ''receipt_secret_key is required for SurplusReconciler''
      else Inr \<lparr>sc_reserve_ratio = ratio, sc_secret = secret, sc_floor_mul = mul, sc_durable = durable\<rparr>)"

text \<open>Net surplus, reserve, mission budget and reimbursement.\<close>

definition split_surplus :: "(int \<Rightarrow> rat \<Rightarrow> int) \<Rightarrow> int \<Rightarrow> int \<Rightarrow> rat \<Rightarrow> int \<times> int \<times> int \<times> int" where
  "split_surplus mul gross direct ratio =
     (if gross \<ge> direct
      then let surplus = gross - direct; res = mul surplus ratio in (surplus, res, surplus - res, direct)
      else (0, 0, 0, gross))"

definition surplus_move ::
  "'l ledger_ops \<Rightarrow> env \<Rightarrow> string \<Rightarrow> int \<Rightarrow> string \<Rightarrow> string \<Rightarrow> ('l surplus_state, unit) act" where
  "surplus_move ops E t n memo tx s =
     (if n > 0
      then case lo_transfer ops E (ss_ledger s) REVENUE t n memo (Some tx) of
          Inl x \<Rightarrow> (Inl x, s) | Inr (e, L) \<Rightarrow> (Inr (), s\<lparr>ss_ledger := L\<rparr>)
      else (Inr (), s))"

definition surplus_tx :: "string \<Rightarrow> work_order \<Rightarrow> string \<Rightarrow> string" where
  "surplus_tx pre w grp = pre @ wo_work_order_id w @ ''-'' @ grp"

definition surplus_guard ::
  "prims \<Rightarrow> surplus_config \<Rightarrow> work_order \<Rightarrow> work_receipt \<Rightarrow> int \<Rightarrow> int \<Rightarrow> rat option \<Rightarrow>
     (string \<times> revenue_event) list \<Rightarrow> rat result" where
  "surplus_guard P C w r gross direct ratio events =
     (if \<not> is_verified r then raise ValueError ''Cannot reconcile unverified deliverable receipt''
      else if \<not> receipt_verify_hmac P (sc_secret C) r
      then raise ValueError ''Cannot reconcile receipt with invalid HMAC signature''
      else if wr_work_order_id r \<noteq> wo_work_order_id w then raise ValueError ''Receipt work_order_id mismatch''
      else if \<exists>x \<in> set events. re_work_order_id (snd x) = wo_work_order_id w
      then raise ValueError ''Work order has already been reconciled.''
      else if (case sc_durable C of None \<Rightarrow> False
        | Some f \<Rightarrow> f (wo_tenant_id w) (wo_organisation_id w) (wo_work_order_id w) \<noteq> None)
      then raise ValueError ''Work order has already been reconciled in durable storage.''
      else if gross < 0 then raise ValueError ''gross_revenue_usdg cannot be negative''
      else if direct < 0 then raise ValueError ''direct_expense_usdg cannot be negative''
      else let q = (case ratio of None \<Rightarrow> sc_reserve_ratio C | Some x \<Rightarrow> x) in
        if \<not> (0 \<le> q \<and> q \<le> 1) then raise ValueError ''reserve_ratio must be between 0.0 and 1.0'' else Inr q)"

definition reconcile_surplus ::
  "'l ledger_ops \<Rightarrow> prims \<Rightarrow> surplus_config \<Rightarrow> env \<Rightarrow> work_order \<Rightarrow> work_receipt \<Rightarrow> int \<Rightarrow> int \<Rightarrow> int \<Rightarrow>
     rat option \<Rightarrow> ('l surplus_state, revenue_event) act" where
  "reconcile_surplus ops P C E w r gross direct credits ratio s =
     (case surplus_guard P C w r gross direct ratio (ss_events s) of
        Inl x \<Rightarrow> (Inl x, s)
      | Inr q \<Rightarrow>
        (case split_surplus (sc_floor_mul C) gross direct q of (surplus, res, mission, cost) \<Rightarrow>
          if lo_get_balance ops (ss_ledger s) REVENUE < gross
          then (raise ValueError ''REVENUE account has insufficient balance for settlement'', s)
          else let grp = take 8 (e_uuid E 0);
              ev = \<lparr>re_revenue_event_id = ''rev-'' @ e_uuid E 7, re_work_order_id = wo_work_order_id w,
                re_gross_revenue_usdg = gross, re_direct_expense_usdg = direct, re_net_surplus_usdg = surplus,
                re_orbio_credits_consumed = credits, re_allocated_to_mission_budget = mission,
                re_allocated_to_reserve = res, re_settled_at = e_now E 7, re_ledger_tx_id = Some grp\<rparr>
            in act_bind (surplus_move ops (env_skip 1 E) TREASURY cost
                (''[USDG] Cost reimbursement for work order '' @ wo_work_order_id w) (surplus_tx ''reconcile-cost-'' w grp)) (\<lambda>_.
              act_bind (surplus_move ops (env_skip 3 E) SURPLUS_RESERVE res
                (''[USDG] Retained surplus reserve for work order '' @ wo_work_order_id w) (surplus_tx ''reconcile-res-'' w grp)) (\<lambda>_.
              act_bind (surplus_move ops (env_skip 5 E) TREASURY mission
                (''[USDG] Mission budget surplus allocation for work order '' @ wo_work_order_id w)
                (surplus_tx ''reconcile-msn-'' w grp)) (\<lambda>_.
              \<lambda>s. (Inr ev, s\<lparr>ss_events := AList.update (re_revenue_event_id ev) ev (ss_events s)\<rparr>)))) s))"

definition surplus_get_event :: "'l surplus_state \<Rightarrow> string \<Rightarrow> revenue_event option" where
  "surplus_get_event s i = map_of (ss_events s) i"

definition surplus_events_for :: "'l surplus_state \<Rightarrow> string \<Rightarrow> revenue_event list" where
  "surplus_events_for s wid = filter (\<lambda>e. re_work_order_id e = wid) (map snd (ss_events s))"

section \<open>The distribution of revenue\<close>

text \<open>What floating point guarantees for amounts below $2^{53}$: a share is between nothing and all.\<close>

definition share_ok :: "(int \<Rightarrow> rat \<Rightarrow> int) \<Rightarrow> bool" where
  "share_ok mul \<longleftrightarrow> (\<forall>n r. 0 \<le> n \<longrightarrow> n \<le> 2 ^ 53 \<longrightarrow> 0 \<le> r \<longrightarrow> r \<le> 1 \<longrightarrow> 0 \<le> mul n r \<and> mul n r \<le> n)"

definition surplus_txs :: "env \<Rightarrow> work_order \<Rightarrow> string set" where
  "surplus_txs E w = (\<lambda>pre. surplus_tx pre w (take 8 (e_uuid E 0))) ` {''reconcile-cost-'', ''reconcile-res-'', ''reconcile-msn-''}"

lemma surplus_tx_simps [simp]:
  "surplus_tx ''reconcile-cost-'' w g \<noteq> []" "surplus_tx ''reconcile-res-'' w g \<noteq> []" "surplus_tx ''reconcile-msn-'' w g \<noteq> []"
  "surplus_tx ''reconcile-res-'' w g \<noteq> surplus_tx ''reconcile-cost-'' w g"
  "surplus_tx ''reconcile-msn-'' w g \<noteq> surplus_tx ''reconcile-cost-'' w g"
  "surplus_tx ''reconcile-msn-'' w g \<noteq> surplus_tx ''reconcile-res-'' w g"
  by (simp_all add: surplus_tx_def)

lemma split_surplus_sound:
  assumes "split_surplus mul gross direct q = (surplus, res, mission, cost)" "share_ok mul"
    and "0 \<le> gross" "gross \<le> 2 ^ 53" "0 \<le> direct" "0 \<le> q" "q \<le> 1"
  shows "surplus = max 0 (gross - direct) \<and> res + mission = surplus \<and> cost + surplus = gross \<and>
     0 \<le> res \<and> 0 \<le> mission \<and> 0 \<le> cost"
proof (cases "direct \<le> gross")
  case True
  have n: "0 \<le> gross - direct" "gross - direct \<le> 2 ^ 53" using True assms(4,5) by linarith+
  have "0 \<le> mul (gross - direct) q \<and> mul (gross - direct) q \<le> gross - direct"
    using assms(2) n assms(6,7) unfolding share_ok_def by blast
  then show ?thesis using True assms(1,5) by (auto simp: split_surplus_def Let_def)
qed (use assms in \<open>auto simp: split_surplus_def\<close>)

lemma surplus_guard_Inr:
  "surplus_guard P C w r gross direct ratio events = Inr q \<Longrightarrow>
     is_verified r \<and> receipt_verify_hmac P (sc_secret C) r \<and> wr_work_order_id r = wo_work_order_id w \<and>
     0 \<le> gross \<and> 0 \<le> direct \<and> 0 \<le> q \<and> q \<le> 1"
  by (auto simp: surplus_guard_def Let_def split: if_splits)

lemma surplus_guard_seen:
  assumes "ev \<in> snd ` set events" "re_work_order_id ev = wo_work_order_id w"
  shows "\<exists>x. surplus_guard P C w r gross direct ratio events = Inl x"
  using assms by (auto simp: surplus_guard_def)

definition distributed ::
  "('l \<Rightarrow> string \<Rightarrow> int) \<Rightarrow> int \<Rightarrow> int \<Rightarrow> 'l \<Rightarrow> 'l \<Rightarrow> bool" where
  "distributed b gross res L L' \<longleftrightarrow> (\<forall>a. b L' a = b L a - (if a = REVENUE then gross else 0) +
     (if a = SURPLUS_RESERVE then res else 0) + (if a = TREASURY then gross - res else 0))"

context total_ledger
begin

lemma surplus_move_ok:
  assumes "inv (ss_ledger s)" "0 \<le> n" "n \<le> bal (ss_ledger s) REVENUE" "t \<noteq> REVENUE" "tx \<noteq> []" "\<not> known (ss_ledger s) tx"
  shows "\<exists>s'. surplus_move (ops_of bal post) E t n m tx s = (Inr (), s') \<and> inv (ss_ledger s') \<and>
     ss_events s' = ss_events s \<and>
     (\<forall>a. bal (ss_ledger s') a = bal (ss_ledger s) a + (if a = t then n else 0) - (if a = REVENUE then n else 0)) \<and>
     (\<forall>x. known (ss_ledger s') x \<longrightarrow> x = tx \<or> known (ss_ledger s) x)"
proof (cases "0 < n")
  case True
  obtain e L where run: "post E (ss_ledger s) REVENUE t n m (Some tx) = Inr (e, L)"
    using post_accepts [OF assms(1) ids_fresh assms(5,6) True assms(4) [symmetric] assms(3)] by blast
  then have "surplus_move (ops_of bal post) E t n m tx s = (Inr (), s\<lparr>ss_ledger := L\<rparr>)"
    using True by (simp add: surplus_move_def ops_of_def)
  then show ?thesis
    using post_inv [OF assms(1) run] post_bal [OF assms(1) run] post_known [OF assms(1) run] post_tx [OF assms(1) run assms(5)]
    by simp
next
  case False
  then show ?thesis using assms(1,2) by (simp add: surplus_move_def)
qed

lemma reconcile_surplus_ends:
  assumes inv: "inv (ss_ledger s)" and sh: "share_ok (sc_floor_mul C)" "gross \<le> 2 ^ 53"
    and tx: "\<forall>x \<in> surplus_txs E w. \<not> known (ss_ledger s) x"
    and run: "reconcile_surplus (ops_of bal post) P C E w r gross direct credits ratio s = (res, s')"
  shows "case res of Inl x \<Rightarrow> s' = s
    | Inr ev \<Rightarrow> inv (ss_ledger s') \<and> re_work_order_id ev = wo_work_order_id w \<and>
        distributed bal gross (re_allocated_to_reserve ev) (ss_ledger s) (ss_ledger s') \<and>
        re_allocated_to_reserve ev + re_allocated_to_mission_budget ev = max 0 (gross - direct) \<and>
        0 \<le> re_allocated_to_reserve ev \<and> 0 \<le> re_allocated_to_mission_budget ev \<and>
        is_verified r \<and> receipt_verify_hmac P (sc_secret C) r \<and> wr_work_order_id r = wo_work_order_id w \<and>
        ev \<in> snd ` set (ss_events s')"
proof (cases "surplus_guard P C w r gross direct ratio (ss_events s)")
  case (Inl x)
  then show ?thesis using run by (auto simp: reconcile_surplus_def)
next
  case (Inr q)
  note g = surplus_guard_Inr [OF Inr]
  obtain surplus rs ms cost where sp: "split_surplus (sc_floor_mul C) gross direct q = (surplus, rs, ms, cost)"
    by (metis prod.exhaust)
  note p = split_surplus_sound [OF sp sh(1) _ sh(2)]
  show ?thesis
  proof (cases "bal (ss_ledger s) REVENUE < gross")
    case True
    then show ?thesis using run Inr sp by (auto simp: reconcile_surplus_def ops_of_def)
  next
    case False
    have q: "surplus = max 0 (gross - direct)" "rs + ms = surplus" "cost + surplus = gross" "0 \<le> rs" "0 \<le> ms" "0 \<le> cost"
      using p g by auto
    let ?t = "\<lambda>pre. surplus_tx pre w (take 8 (e_uuid E 0))"
    have nk: "\<not> known (ss_ledger s) (?t ''reconcile-cost-'')" "\<not> known (ss_ledger s) (?t ''reconcile-res-'')"
        "\<not> known (ss_ledger s) (?t ''reconcile-msn-'')" using tx by (simp_all add: surplus_txs_def)
    have ds: "TREASURY \<noteq> REVENUE" "SURPLUS_RESERVE \<noteq> REVENUE" by simp_all
    have "cost \<le> bal (ss_ledger s) REVENUE" using False q by linarith
    from surplus_move_ok [OF inv q(6) this ds(1) surplus_tx_simps(1) nk(1), of "env_skip 1 E"] obtain s1 where
      m1: "surplus_move (ops_of bal post) (env_skip 1 E) TREASURY cost (''[USDG] Cost reimbursement for work order ''
         @ wo_work_order_id w) (?t ''reconcile-cost-'') s = (Inr (), s1)" "inv (ss_ledger s1)" "ss_events s1 = ss_events s"
      "\<forall>a. bal (ss_ledger s1) a = bal (ss_ledger s) a + (if a = TREASURY then cost else 0) - (if a = REVENUE then cost else 0)"
      "\<forall>x. known (ss_ledger s1) x \<longrightarrow> x = ?t ''reconcile-cost-'' \<or> known (ss_ledger s) x" by blast
    have le: "rs \<le> bal (ss_ledger s1) REVENUE" using False q m1(4) by simp
    have nk1: "\<not> known (ss_ledger s1) (?t ''reconcile-res-'')" "\<not> known (ss_ledger s1) (?t ''reconcile-msn-'')"
      using m1(5) nk by auto
    from surplus_move_ok [OF m1(2) q(4) le ds(2) surplus_tx_simps(2) nk1(1), of "env_skip 3 E"] obtain s2 where
      m2: "surplus_move (ops_of bal post) (env_skip 3 E) SURPLUS_RESERVE rs (''[USDG] Retained surplus reserve for work order ''
         @ wo_work_order_id w) (?t ''reconcile-res-'') s1 = (Inr (), s2)" "inv (ss_ledger s2)" "ss_events s2 = ss_events s1"
      "\<forall>a. bal (ss_ledger s2) a = bal (ss_ledger s1) a + (if a = SURPLUS_RESERVE then rs else 0) - (if a = REVENUE then rs else 0)"
      "\<forall>x. known (ss_ledger s2) x \<longrightarrow> x = ?t ''reconcile-res-'' \<or> known (ss_ledger s1) x" by blast
    have le2: "ms \<le> bal (ss_ledger s2) REVENUE" using False q m1(4) m2(4) by simp
    have nk2: "\<not> known (ss_ledger s2) (?t ''reconcile-msn-'')" using m2(5) nk1 by auto
    from surplus_move_ok [OF m2(2) q(5) le2 ds(1) surplus_tx_simps(3) nk2, of "env_skip 5 E"] obtain s3 where
      m3: "surplus_move (ops_of bal post) (env_skip 5 E) TREASURY ms (''[USDG] Mission budget surplus allocation for work order ''
         @ wo_work_order_id w) (?t ''reconcile-msn-'') s2 = (Inr (), s3)" "inv (ss_ledger s3)" "ss_events s3 = ss_events s2"
      "\<forall>a. bal (ss_ledger s3) a = bal (ss_ledger s2) a + (if a = TREASURY then ms else 0) - (if a = REVENUE then ms else 0)"
      by blast
    define ev where "ev = \<lparr>re_revenue_event_id = ''rev-'' @ e_uuid E 7, re_work_order_id = wo_work_order_id w,
                re_gross_revenue_usdg = gross, re_direct_expense_usdg = direct, re_net_surplus_usdg = surplus,
                re_orbio_credits_consumed = credits, re_allocated_to_mission_budget = ms,
                re_allocated_to_reserve = rs, re_settled_at = e_now E 7, re_ledger_tx_id = Some (take 8 (e_uuid E 0))\<rparr>"
    have fin: "res = Inr ev \<and> s' = s3\<lparr>ss_events := AList.update (re_revenue_event_id ev) ev (ss_events s3)\<rparr>"
      using run Inr sp False m1(1) m2(1) m3(1)
      by (simp add: reconcile_surplus_def act_bind_def ops_of_def Let_def ev_def)
    have mem: "ev \<in> snd ` set (AList.update (re_revenue_event_id ev) ev xs)" for xs
      by (metis image_eqI map_of_SomeD snd_conv update_Some_unfold)
    have "distributed bal gross rs (ss_ledger s) (ss_ledger s3)"
      using m1(4) m2(4) m3(4) q by (simp add: distributed_def)
    then show ?thesis using fin m3(2) q g mem by (simp add: ev_def)
  qed
qed

end

text \<open>
  C27: The revenue of a work order is distributed completely and once.  On the in-memory ledger
  \<open>SurplusReconciler.reconcile_surplus\<close> either raises and changes nothing, or the receipt was accepted,
  signed with the reconciler's secret and about this order, exactly the gross revenue left REVENUE, the
  reserve's share went to SURPLUS_RESERVE and all the rest to TREASURY, the net surplus is
  \<open>max(0, gross - direct)\<close>, and every later call for the same order is refused without effect.  (The
  three transaction ids, which contain a fresh UUID, are unused before; the floored share of an amount
  up to \<open>2^53\<close> lies between nothing and all.)
\<close>

theorem surplus_distributed_once:
  assumes "ledger_inv (ss_ledger s)" "share_ok (sc_floor_mul C)" "gross \<le> 2 ^ 53"
    and "\<forall>x \<in> surplus_txs E w. x \<notin> lg_recorded_tx_ids (ss_ledger s)"
    and "reconcile_surplus mem_ops P C E w r gross direct credits ratio s = (res, s')"
  shows "case res of Inl x \<Rightarrow> s' = s
    | Inr ev \<Rightarrow> is_verified r \<and> receipt_verify_hmac P (sc_secret C) r \<and> wr_work_order_id r = wo_work_order_id w \<and>
        ledger_inv (ss_ledger s') \<and>
        distributed get_balance gross (re_allocated_to_reserve ev) (ss_ledger s) (ss_ledger s') \<and>
        re_allocated_to_reserve ev + re_allocated_to_mission_budget ev = max 0 (gross - direct) \<and>
        0 \<le> re_allocated_to_reserve ev \<and> 0 \<le> re_allocated_to_mission_budget ev \<and>
        (\<forall>C2 E2 w2 r2 g2 d2 c2 q2. wo_work_order_id w2 = wo_work_order_id w \<longrightarrow>
           (\<exists>x. reconcile_surplus mem_ops P C2 E2 w2 r2 g2 d2 c2 q2 s' = (Inl x, s')))"
proof -
  have again: "\<exists>x. reconcile_surplus mem_ops P C2 E2 w2 r2 g2 d2 c2 q2 s' = (Inl x, s')"
    if "ev \<in> snd ` set (ss_events s')" "re_work_order_id ev = wo_work_order_id w2" for ev C2 E2 w2 r2 g2 d2 c2 q2
  proof -
    from surplus_guard_seen [OF that] obtain x where "surplus_guard P C2 w2 r2 g2 d2 q2 (ss_events s') = Inl x" by blast
    then show ?thesis by (simp add: reconcile_surplus_def)
  qed
  from mem_total.reconcile_surplus_ends [OF assms(1-4) assms(5) [unfolded mem_ops_def]] show ?thesis
    using again by (cases res) (simp, fastforce)
qed

section \<open>A work order from execution to settlement\<close>

definition demo_work_order :: work_order where
  "demo_work_order = \<lparr>wo_work_order_id = ''w'', wo_tenant_id = ''t'', wo_organisation_id = ''o'', wo_client_id = ''c'',
     wo_title = ''Audit'', wo_description = [], wo_deliverable_type = ''REPORT'', wo_required_orbio_credits = 5,
     wo_bounty_amount = 100, wo_bounty_asset = USDG, wo_deadline_seconds = 3600, wo_status = Work_IN_PROGRESS,
     wo_created_at = ''now'', wo_metadata = []\<rparr>"

definition demo_deliverable :: deliverable where
  "demo_deliverable = create_deliverable demo_prims demo_env ''w'' ''a'' (work_payload demo_work_order) 5
     [(''is_simulated'', JBool True), (''executor'', JStr ''SimulatedWorkExecutor''),
      (''endpoint'', JStr ''simulated://local''), (''activated_api_key_used'', JBool False),
      (''latency_ms'', JInt 42), (''credits_deducted'', JInt 5)] None"

definition demo_receipt :: work_receipt where
  "demo_receipt = verify_work demo_prims demo_env ''v'' ''k'' demo_work_order demo_deliverable None"

lemma work_digests: "digests_nonempty demo_prims"
  by (simp add: digests_nonempty_def demo_prims_def)

lemma demo_work_runs:
  "execute_work P demo_env demo_work_order ''a'' ''o'' None [(''o'', 7)] =
     (Inr (create_deliverable P demo_env ''w'' ''a'' (work_payload demo_work_order) 5
     [(''is_simulated'', JBool True), (''executor'', JStr ''SimulatedWorkExecutor''),
      (''endpoint'', JStr ''simulated://local''), (''activated_api_key_used'', JBool False),
      (''latency_ms'', JInt 42), (''credits_deducted'', JInt 5)] None), [(''o'', 2)])"
  by (simp add: execute_work_Inr demo_work_order_def)

theorem work_is_verified_witness:
  "\<exists>P d. execute_work P demo_env demo_work_order ''a'' ''o'' None [(''o'', 7)] = (Inr d, [(''o'', 2)]) \<and>
     is_verified (verify_work P demo_env ''v'' ''k'' demo_work_order d None)"
proof -
  have "0 < wo_required_orbio_credits demo_work_order" by (simp add: demo_work_order_def)
  from work_is_verified [OF demo_work_runs this work_digests] show ?thesis using demo_work_runs by blast
qed

lemma demo_receipt_ok:
  "is_verified demo_receipt" "receipt_verify_hmac demo_prims ''k'' demo_receipt" "wr_work_order_id demo_receipt = ''w''"
  by (simp_all add: demo_receipt_def is_verified_def verify_work_facts work_refusal_None demo_deliverable_def
      create_deliverable_def work_payload_def demo_work_order_def)
    (simp add: verify_work_def sign_receipt_def receipt_verify_hmac_def demo_prims_def Let_def split: option.split)

definition demo_surplus_config :: surplus_config where
  "demo_surplus_config = \<lparr>sc_reserve_ratio = 1 / 5, sc_secret = ''k'', sc_floor_mul = (\<lambda>n r. \<lfloor>of_int n * r\<rfloor>),
     sc_durable = None\<rparr>"

lemma demo_share_ok: "share_ok (sc_floor_mul demo_surplus_config)"
proof -
  have "\<lfloor>of_int n * r\<rfloor> \<le> n" if "0 \<le> n" "r \<le> 1" for n :: int and r :: rat
  proof -
    have "of_int n * r \<le> of_int n * 1" using that by (intro mult_left_mono) auto
    then show ?thesis by linarith
  qed
  then show ?thesis by (simp add: share_ok_def demo_surplus_config_def)
qed

definition demo_revenue_ledger :: ledger where
  "demo_revenue_ledger = credit_minted empty_ledger \<lparr>le_id = ''e'', le_timestamp = ''now'', le_transaction_id = ''d'',
     le_from_account = SYSTEM_MINT, le_to_account = REVENUE, le_amount = 100, le_memo = []\<rparr>"

definition demo_surplus_state :: "ledger surplus_state" where
  "demo_surplus_state = \<lparr>ss_ledger = demo_revenue_ledger, ss_events = []\<rparr>"

lemma demo_surplus_runs:
  "\<exists>ev s'. reconcile_surplus mem_ops demo_prims demo_surplus_config demo_env demo_work_order demo_receipt 100 40 5 None
     demo_surplus_state = (Inr ev, s') \<and> re_allocated_to_reserve ev = 12 \<and> re_allocated_to_mission_budget ev = 48"
proof -
  have "surplus_guard demo_prims demo_surplus_config demo_work_order demo_receipt 100 40 None [] = Inr (1 / 5)"
    using demo_receipt_ok by (simp add: surplus_guard_def demo_surplus_config_def demo_work_order_def Let_def)
  then show ?thesis
    by (simp add: reconcile_surplus_def demo_surplus_state_def split_surplus_def demo_surplus_config_def)
      (simp add: demo_revenue_ledger_def credit_minted_def empty_ledger_def mem_ops_def ops_of_def get_balance_def
       act_bind_def surplus_move_def transfer_def surplus_tx_def demo_work_order_def demo_env_def mk_ledger_entry_def
       account_defs Let_def)
qed

theorem surplus_distributed_once_witness:
  "\<exists>ev s'. reconcile_surplus mem_ops demo_prims demo_surplus_config demo_env demo_work_order demo_receipt 100 40 5 None
       demo_surplus_state = (Inr ev, s') \<and>
     get_balance (ss_ledger s') REVENUE = 0 \<and> get_balance (ss_ledger s') TREASURY = 88 \<and>
     get_balance (ss_ledger s') SURPLUS_RESERVE = 12"
proof -
  obtain ev s' where run: "reconcile_surplus mem_ops demo_prims demo_surplus_config demo_env demo_work_order demo_receipt
      100 40 5 None demo_surplus_state = (Inr ev, s')" and ev: "re_allocated_to_reserve ev = 12"
    using demo_surplus_runs by blast
  have inv: "ledger_inv (ss_ledger demo_surplus_state)"
    unfolding demo_surplus_state_def demo_revenue_ledger_def
    by (simp, rule credit_minted_inv) (simp_all add: account_defs)
  have tx: "\<forall>x \<in> surplus_txs demo_env demo_work_order. x \<notin> lg_recorded_tx_ids (ss_ledger demo_surplus_state)"
    by (simp add: surplus_txs_def surplus_tx_def demo_surplus_state_def demo_revenue_ledger_def credit_minted_def empty_ledger_def)
  have "distributed get_balance 100 12 demo_revenue_ledger (ss_ledger s')"
    using surplus_distributed_once [OF inv demo_share_ok _ tx run] ev by (simp add: demo_surplus_state_def)
  moreover have "get_balance demo_revenue_ledger REVENUE = 100" "get_balance demo_revenue_ledger TREASURY = 0"
      "get_balance demo_revenue_ledger SURPLUS_RESERVE = 0"
    by (simp_all add: demo_revenue_ledger_def credit_minted_def empty_ledger_def get_balance_def account_defs)
  ultimately show ?thesis using run by (simp add: distributed_def account_defs)
qed

end
