(* ===== verification/Collateral.thy ===== *)
theory Collateral
  imports WorkOrders
begin

text \<open>
  Credit collateral: the position and its state machine (\<open>src/domain/collateral.py\<close>), the vault adapter
  and its simulated vault (\<open>src/external/orbio/collateral_adapter.py\<close>), and the coordinator that locks
  collateral for an obligation and settles it by the verifier's verdict
  (\<open>src/agents/collateral_coordinator.py\<close>).  The chain client of the live mode is a parameter.
\<close>

section \<open>collateral.py\<close>

datatype collateral_status =
  Coll_PROPOSED | Coll_AUTHORIZED | Coll_LOCKED | Coll_OBLIGATION_ACTIVE
  | Coll_VERIFIED_SUCCESS | Coll_VERIFIED_FAILURE | Coll_RELEASED | Coll_FORFEITED

fun COLLATERAL_TRANSITIONS :: "collateral_status \<Rightarrow> collateral_status list" where
  "COLLATERAL_TRANSITIONS Coll_PROPOSED = [Coll_AUTHORIZED]"
| "COLLATERAL_TRANSITIONS Coll_AUTHORIZED = [Coll_LOCKED]"
| "COLLATERAL_TRANSITIONS Coll_LOCKED = [Coll_OBLIGATION_ACTIVE]"
| "COLLATERAL_TRANSITIONS Coll_OBLIGATION_ACTIVE = [Coll_VERIFIED_SUCCESS, Coll_VERIFIED_FAILURE]"
| "COLLATERAL_TRANSITIONS Coll_VERIFIED_SUCCESS = [Coll_RELEASED]"
| "COLLATERAL_TRANSITIONS Coll_VERIFIED_FAILURE = [Coll_FORFEITED]"
| "COLLATERAL_TRANSITIONS Coll_RELEASED = []"
| "COLLATERAL_TRANSITIONS Coll_FORFEITED = []"

definition TERMINAL_STATES :: "collateral_status list" where
  "TERMINAL_STATES = [Coll_RELEASED, Coll_FORFEITED]"

record position =
  cp_tenant_id :: string
  cp_organisation_id :: string
  cp_position_id :: string
  cp_obligation_reference :: string
  cp_pledging_org_id :: string
  cp_beneficiary_org_id :: string
  cp_amount :: int
  cp_asset :: string
  cp_status :: collateral_status
  cp_onchain_tx_hash :: "string option"
  cp_settlement_tx_hash :: "string option"
  cp_authorization_evidence_hash :: "string option"
  cp_verification_evidence_hash :: "string option"
  cp_created_at :: string
  cp_locked_at :: "string option"
  cp_settled_at :: "string option"

definition create_position ::
  "env \<Rightarrow> string \<Rightarrow> string \<Rightarrow> string \<Rightarrow> string \<Rightarrow> string \<Rightarrow> string \<Rightarrow> int \<Rightarrow> string \<Rightarrow> position result" where
  "create_position E t g i obligation pledging beneficiary amount asset =
     (if amount \<le> 0 then raise ValueError ''collateral amount must be positive''
      else if pledging = beneficiary then raise ValueError ''pledging_org_id and beneficiary_org_id must differ''
      else Inr \<lparr>cp_tenant_id = t, cp_organisation_id = g, cp_position_id = i, cp_obligation_reference = obligation,
        cp_pledging_org_id = pledging, cp_beneficiary_org_id = beneficiary, cp_amount = amount, cp_asset = asset,
        cp_status = Coll_PROPOSED, cp_onchain_tx_hash = None, cp_settlement_tx_hash = None,
        cp_authorization_evidence_hash = None, cp_verification_evidence_hash = None, cp_created_at = e_now E 0,
        cp_locked_at = None, cp_settled_at = None\<rparr>)"

definition position_transition :: "position \<Rightarrow> collateral_status \<Rightarrow> position result" where
  "position_transition p target =
     (if cp_status p \<in> set TERMINAL_STATES then raise CollateralTransitionError ''position is terminal''
      else if target \<notin> set (COLLATERAL_TRANSITIONS (cp_status p))
      then raise CollateralTransitionError ''illegal transition''
      else Inr (p\<lparr>cp_status := target\<rparr>))"

definition position_authorize :: "string \<Rightarrow> position \<Rightarrow> position result" where
  "position_authorize evidence p = bind_result (position_transition p Coll_AUTHORIZED)
     (\<lambda>p. Inr (p\<lparr>cp_authorization_evidence_hash := Some evidence\<rparr>))"

definition position_lock :: "env \<Rightarrow> string option \<Rightarrow> position \<Rightarrow> position result" where
  "position_lock E tx p = bind_result (position_transition p Coll_LOCKED)
     (\<lambda>p. Inr (p\<lparr>cp_onchain_tx_hash := tx, cp_locked_at := Some (e_now E 0)\<rparr>))"

definition activate_obligation :: "position \<Rightarrow> position result" where
  "activate_obligation p = position_transition p Coll_OBLIGATION_ACTIVE"

definition record_verification :: "bool \<Rightarrow> string \<Rightarrow> position \<Rightarrow> position result" where
  "record_verification success evidence p =
     bind_result (position_transition p (if success then Coll_VERIFIED_SUCCESS else Coll_VERIFIED_FAILURE))
       (\<lambda>p. Inr (p\<lparr>cp_verification_evidence_hash := Some evidence\<rparr>))"

definition position_settle :: "env \<Rightarrow> string option \<Rightarrow> position \<Rightarrow> position result" where
  "position_settle E tx p =
     bind_result
       (if cp_status p = Coll_VERIFIED_SUCCESS then position_transition p Coll_RELEASED
        else if cp_status p = Coll_VERIFIED_FAILURE then position_transition p Coll_FORFEITED
        else raise CollateralTransitionError ''cannot settle position'')
       (\<lambda>p. Inr (p\<lparr>cp_settlement_tx_hash := tx, cp_settled_at := Some (e_now E 0)\<rparr>))"

section \<open>collateral\_adapter.py\<close>

record vault_receipt =
  vr_tx_hash :: string
  vr_is_simulated :: bool

text \<open>The operations of a vault, simulated or on a chain.\<close>

record 'v vault_ops =
  vo_lock :: "string \<Rightarrow> string \<Rightarrow> string \<Rightarrow> int \<Rightarrow> ('v, vault_receipt) act"
  vo_release :: "string \<Rightarrow> ('v, vault_receipt) act"
  vo_forfeit :: "string \<Rightarrow> ('v, vault_receipt) act"

datatype vault_state = Vault_LOCKED | Vault_RELEASED | Vault_FORFEITED

record vault_position =
  vp_pledger :: string
  vp_beneficiary :: string
  vp_amount :: int
  vp_state :: vault_state

type_synonym sim_vault = "(string \<times> vault_position) list"

definition sim_tx_hash :: "prims \<Rightarrow> string \<Rightarrow> string \<Rightarrow> string" where
  "sim_tx_hash P op i = ''sim-'' @ take 16 (sha256 P (''sim|'' @ op @ ''|'' @ i))"

definition sim_vault_receipt :: "prims \<Rightarrow> string \<Rightarrow> string \<Rightarrow> vault_receipt" where
  "sim_vault_receipt P op i = \<lparr>vr_tx_hash = sim_tx_hash P op i, vr_is_simulated = True\<rparr>"

definition sim_vault_lock :: "prims \<Rightarrow> string \<Rightarrow> string \<Rightarrow> string \<Rightarrow> int \<Rightarrow> (sim_vault, vault_receipt) act" where
  "sim_vault_lock P i pledger beneficiary amount V =
     (if map_of V i \<noteq> None then (raise ValueError ''simulated position already exists'', V)
      else if amount \<le> 0 then (raise ValueError ''collateral amount must be positive'', V)
      else if beneficiary = [] then (raise ValueError ''beneficiary is required'', V)
      else (Inr (sim_vault_receipt P ''lock'' i), AList.update i \<lparr>vp_pledger = pledger, vp_beneficiary = beneficiary,
        vp_amount = amount, vp_state = Vault_LOCKED\<rparr> V))"

definition require_locked :: "sim_vault \<Rightarrow> string \<Rightarrow> vault_position result" where
  "require_locked V i = (case map_of V i of
       None \<Rightarrow> raise ValueError ''simulated position not found''
     | Some p \<Rightarrow> if vp_state p \<noteq> Vault_LOCKED
         then raise ValueError ''rejected replayed or out-of-sequence settlement call'' else Inr p)"

definition sim_vault_end :: "prims \<Rightarrow> string \<Rightarrow> vault_state \<Rightarrow> string \<Rightarrow> (sim_vault, vault_receipt) act" where
  "sim_vault_end P op st i V = (case require_locked V i of
       Inl x \<Rightarrow> (Inl x, V)
     | Inr p \<Rightarrow> (Inr (sim_vault_receipt P op i), AList.update i (p\<lparr>vp_state := st\<rparr>) V))"

definition sim_vault_ops :: "prims \<Rightarrow> sim_vault vault_ops" where
  "sim_vault_ops P = \<lparr>vo_lock = sim_vault_lock P, vo_release = sim_vault_end P ''release'' Vault_RELEASED,
     vo_forfeit = sim_vault_end P ''forfeit'' Vault_FORFEITED\<rparr>"

definition sim_get_position :: "sim_vault \<Rightarrow> string \<Rightarrow> vault_position option" where
  "sim_get_position V i = map_of V i"

datatype provider_mode = Mode_DISABLED | Mode_SIMULATED | Mode_LIVE

text \<open>A disabled adapter refuses every operation; the other two modes delegate.\<close>

definition adapter_vault :: "provider_mode \<Rightarrow> 'v vault_ops \<Rightarrow> 'v vault_ops" where
  "adapter_vault mode ops =
     (if mode = Mode_DISABLED
      then \<lparr>vo_lock = (\<lambda>i p b n. act_raise RuntimeError ''Collateral vault is disabled''),
        vo_release = (\<lambda>i. act_raise RuntimeError ''Collateral vault is disabled''),
        vo_forfeit = (\<lambda>i. act_raise RuntimeError ''Collateral vault is disabled'')\<rparr>
      else ops)"

section \<open>collateral\_coordinator.py\<close>

record lock_request =
  lq_tenant_id :: string
  lq_organisation_id :: string
  lq_obligation_reference :: string
  lq_pledging_org_id :: string
  lq_pledging_wallet :: string
  lq_beneficiary_org_id :: string
  lq_beneficiary_wallet :: string
  lq_amount_atoms :: int
  lq_policy_evidence :: string

definition authorized_position :: "env \<Rightarrow> lock_request \<Rightarrow> position result" where
  "authorized_position E q =
     bind_result (create_position E (lq_tenant_id q) (lq_organisation_id q) (''collateral-'' @ take 10 (e_uuid E 0))
       (lq_obligation_reference q) (lq_pledging_org_id q) (lq_beneficiary_org_id q) (lq_amount_atoms q) ''CREDIT'')
       (position_authorize (lq_policy_evidence q))"

definition propose_and_lock ::
  "'v vault_ops \<Rightarrow> (string \<Rightarrow> string \<Rightarrow> string \<Rightarrow> string \<Rightarrow> bool) \<Rightarrow> env \<Rightarrow> lock_request \<Rightarrow> ('v, position) act" where
  "propose_and_lock ops valid E q V =
     (if lq_policy_evidence q = [] then (raise PermissionError ''collateral lock requires policy authorization evidence'', V)
      else if \<not> valid (lq_policy_evidence q) (lq_tenant_id q) (lq_organisation_id q) (lq_obligation_reference q)
      then (raise PermissionError ''collateral lock rejected: policy authorization could not be verified'', V)
      else case authorized_position E q of
        Inl x \<Rightarrow> (Inl x, V)
      | Inr p \<Rightarrow> act_bind (vo_lock ops (cp_position_id p) (lq_pledging_wallet q) (lq_beneficiary_wallet q) (lq_amount_atoms q))
          (\<lambda>rc. act_lift (bind_result (position_lock (env_skip 1 E) (Some (vr_tx_hash rc)) p) activate_obligation)) V)"

record settlement_outcome =
  so_position :: position
  so_receipt :: work_receipt
  so_vault_tx_hash :: string
  so_is_simulated :: bool

text \<open>The position is an object of the caller: what is left of it is part of the state.\<close>

definition settle_from_verification ::
  "'v vault_ops \<Rightarrow> prims \<Rightarrow> env \<Rightarrow> string \<Rightarrow> string \<Rightarrow> work_order \<Rightarrow> deliverable \<Rightarrow> ('v \<times> position, settlement_outcome) act"
where
  "settle_from_verification ops P E who secret w d s =
     (case s of (V, p) \<Rightarrow>
        let r = verify_work P E who secret w d None; success = (wr_status r = Deliverable_ACCEPTED)
        in case record_verification success (wr_evidence_hash r) p of
          Inl x \<Rightarrow> (Inl x, s)
        | Inr p1 \<Rightarrow>
          (case (if cp_status p1 = Coll_VERIFIED_SUCCESS then vo_release ops else vo_forfeit ops) (cp_position_id p1) V of
             (Inl x, V') \<Rightarrow> (Inl x, (V', p1))
           | (Inr rc, V') \<Rightarrow>
             (case position_settle (env_skip 2 E) (Some (vr_tx_hash rc)) p1 of
                Inl x \<Rightarrow> (Inl x, (V', p1))
              | Inr p2 \<Rightarrow> (Inr \<lparr>so_position = p2, so_receipt = r, so_vault_tx_hash = vr_tx_hash rc,
                    so_is_simulated = vr_is_simulated rc\<rparr>, (V', p2)))))"

section \<open>The life of a position\<close>

text \<open>Every method call that succeeds.\<close>

inductive position_step :: "position \<Rightarrow> position \<Rightarrow> bool" where
  step_authorize: "position_authorize evidence p = Inr q \<Longrightarrow> position_step p q"
| step_lock: "position_lock E tx p = Inr q \<Longrightarrow> position_step p q"
| step_activate: "activate_obligation p = Inr q \<Longrightarrow> position_step p q"
| step_verify: "record_verification b evidence p = Inr q \<Longrightarrow> position_step p q"
| step_settle: "position_settle E tx p = Inr q \<Longrightarrow> position_step p q"

inductive position_reach :: "position \<Rightarrow> bool" where
  reach_create: "create_position E t g i ob pl be n a = Inr p \<Longrightarrow> position_reach p"
| reach_position_step: "position_reach p \<Longrightarrow> position_step p q \<Longrightarrow> position_reach q"

lemma position_transition_Inr:
  "position_transition p st = Inr q \<longleftrightarrow> st \<in> set (COLLATERAL_TRANSITIONS (cp_status p)) \<and> q = p\<lparr>cp_status := st\<rparr>"
  by (cases "cp_status p") (auto simp: position_transition_def TERMINAL_STATES_def)

lemma transition_source [simp]:
  "Coll_AUTHORIZED \<in> set (COLLATERAL_TRANSITIONS st) \<longleftrightarrow> st = Coll_PROPOSED"
  "Coll_LOCKED \<in> set (COLLATERAL_TRANSITIONS st) \<longleftrightarrow> st = Coll_AUTHORIZED"
  "Coll_OBLIGATION_ACTIVE \<in> set (COLLATERAL_TRANSITIONS st) \<longleftrightarrow> st = Coll_LOCKED"
  "Coll_VERIFIED_SUCCESS \<in> set (COLLATERAL_TRANSITIONS st) \<longleftrightarrow> st = Coll_OBLIGATION_ACTIVE"
  "Coll_VERIFIED_FAILURE \<in> set (COLLATERAL_TRANSITIONS st) \<longleftrightarrow> st = Coll_OBLIGATION_ACTIVE"
  "Coll_RELEASED \<in> set (COLLATERAL_TRANSITIONS st) \<longleftrightarrow> st = Coll_VERIFIED_SUCCESS"
  "Coll_FORFEITED \<in> set (COLLATERAL_TRANSITIONS st) \<longleftrightarrow> st = Coll_VERIFIED_FAILURE"
  by (cases st; simp)+

lemma position_methods_Inr:
  "position_authorize evidence p = Inr q \<longleftrightarrow> cp_status p = Coll_PROPOSED \<and>
     q = p\<lparr>cp_status := Coll_AUTHORIZED, cp_authorization_evidence_hash := Some evidence\<rparr>"
  "position_lock E tx p = Inr q \<longleftrightarrow> cp_status p = Coll_AUTHORIZED \<and>
     q = p\<lparr>cp_status := Coll_LOCKED, cp_onchain_tx_hash := tx, cp_locked_at := Some (e_now E 0)\<rparr>"
  "activate_obligation p = Inr q \<longleftrightarrow> cp_status p = Coll_LOCKED \<and> q = p\<lparr>cp_status := Coll_OBLIGATION_ACTIVE\<rparr>"
  "record_verification b evidence p = Inr q \<longleftrightarrow> cp_status p = Coll_OBLIGATION_ACTIVE \<and>
     q = p\<lparr>cp_status := (if b then Coll_VERIFIED_SUCCESS else Coll_VERIFIED_FAILURE),
            cp_verification_evidence_hash := Some evidence\<rparr>"
  "position_settle E tx p = Inr q \<longleftrightarrow> cp_status p \<in> {Coll_VERIFIED_SUCCESS, Coll_VERIFIED_FAILURE} \<and>
     q = p\<lparr>cp_status := (if cp_status p = Coll_VERIFIED_SUCCESS then Coll_RELEASED else Coll_FORFEITED),
            cp_settlement_tx_hash := tx, cp_settled_at := Some (e_now E 0)\<rparr>"
  by (auto simp: position_authorize_def position_lock_def activate_obligation_def record_verification_def
      position_settle_def position_transition_Inr)

definition position_ok :: "position \<Rightarrow> bool" where
  "position_ok p \<longleftrightarrow> 0 < cp_amount p \<and> cp_pledging_org_id p \<noteq> cp_beneficiary_org_id p \<and>
     (cp_status p \<noteq> Coll_PROPOSED \<longleftrightarrow> cp_authorization_evidence_hash p \<noteq> None) \<and>
     (cp_status p \<notin> {Coll_PROPOSED, Coll_AUTHORIZED} \<longleftrightarrow> cp_locked_at p \<noteq> None) \<and>
     (cp_status p \<in> {Coll_VERIFIED_SUCCESS, Coll_VERIFIED_FAILURE, Coll_RELEASED, Coll_FORFEITED}
        \<longleftrightarrow> cp_verification_evidence_hash p \<noteq> None) \<and>
     (cp_status p \<in> set TERMINAL_STATES \<longleftrightarrow> cp_settled_at p \<noteq> None)"

lemma position_step_ok:
  assumes "position_step p q" "position_ok p"
  shows "position_ok q"
  using assms(1)
proof cases
  case (step_verify b evidence)
  then show ?thesis using assms(2) by (cases b) (simp_all add: position_methods_Inr position_ok_def TERMINAL_STATES_def)
next
  case (step_settle E tx)
  then have "cp_status p = Coll_VERIFIED_SUCCESS \<or> cp_status p = Coll_VERIFIED_FAILURE"
    by (auto simp: position_methods_Inr)
  then show ?thesis using step_settle assms(2)
    by (elim disjE) (simp_all add: position_methods_Inr position_ok_def TERMINAL_STATES_def)
qed (use assms(2) in \<open>simp_all add: position_methods_Inr position_ok_def TERMINAL_STATES_def\<close>)

lemma create_position_amount: "create_position E t g i ob pl be n a = Inr p \<Longrightarrow> cp_amount p = n"
  by (auto simp: create_position_def split: if_splits)

lemma position_step_live:
  "position_step p q \<Longrightarrow> cp_status p \<notin> set TERMINAL_STATES"
  by (induction rule: position_step.induct) (auto simp: position_methods_Inr TERMINAL_STATES_def)

lemma position_reach_ok: "position_reach p \<Longrightarrow> position_ok p"
proof (induction rule: position_reach.induct)
  case (reach_create E t g i ob pl be n a p)
  then show ?case by (auto simp: create_position_def position_ok_def TERMINAL_STATES_def split: if_splits)
next
  case (reach_position_step p q)
  then show ?case using position_step_ok by blast
qed

text \<open>
  A collateral position carries the evidence of its state.  Every position that \<open>create\<close> and the
  methods can produce has a positive amount pledged to another organisation, holds its authorization
  evidence exactly from AUTHORIZED on, its lock time exactly from LOCKED on, the verifier's
  evidence exactly from the verdict on and a settlement time exactly when RELEASED or FORFEITED; and
  those two states admit no further method call.
\<close>

theorem position_lifecycle:
  assumes "position_reach p"
  shows "position_ok p \<and> (cp_status p \<in> set TERMINAL_STATES \<longrightarrow> \<not> position_step p q)"
  using position_reach_ok [OF assms] position_step_live by blast

section \<open>The vault as the coordinator sees it\<close>

text \<open>
  The amount a vault holds for a position: a lock adds one, a release or a forfeit takes it away, and a
  refused operation changes nothing.
\<close>

locale collateral_vault =
  fixes held :: "'v \<Rightarrow> string \<Rightarrow> int option"
    and ops :: "'v vault_ops"
  assumes lock_ok: "vo_lock ops i pl be n V = (Inr rc, V') \<Longrightarrow> held V i = None \<and> held V' = (held V)(i \<mapsto> n)"
    and release_ok: "vo_release ops i V = (Inr rc, V') \<Longrightarrow> held V i \<noteq> None \<and> held V' = (held V)(i := None)"
    and forfeit_ok: "vo_forfeit ops i V = (Inr rc, V') \<Longrightarrow> held V i \<noteq> None \<and> held V' = (held V)(i := None)"
    and refused: "vo_lock ops i pl be n V = (Inl x, V') \<Longrightarrow> held V' = held V"
      "vo_release ops i V = (Inl x, V') \<Longrightarrow> held V' = held V"
      "vo_forfeit ops i V = (Inl x, V') \<Longrightarrow> held V' = held V"
begin

lemma propose_locks:
  assumes "propose_and_lock ops valid E q V = (res, V')"
  shows "case res of Inl x \<Rightarrow> held V' = held V
    | Inr p \<Rightarrow> valid (lq_policy_evidence q) (lq_tenant_id q) (lq_organisation_id q) (lq_obligation_reference q) \<and>
        cp_status p = Coll_OBLIGATION_ACTIVE \<and> position_reach p \<and> cp_amount p = lq_amount_atoms q \<and>
        held V (cp_position_id p) = None \<and> held V' = (held V)(cp_position_id p \<mapsto> lq_amount_atoms q)"
proof -
  show ?thesis
  proof (cases "authorized_position E q")
    case (Inl x)
    have "isl res \<and> V' = V" using assms by (auto simp: propose_and_lock_def Inl split: if_splits)
    then show ?thesis by (auto split: sum.splits)
  next
    case (Inr p)
    then obtain p0 where c: "create_position E (lq_tenant_id q) (lq_organisation_id q) (''collateral-'' @ take 10 (e_uuid E 0))
        (lq_obligation_reference q) (lq_pledging_org_id q) (lq_beneficiary_org_id q) (lq_amount_atoms q) ''CREDIT'' = Inr p0"
      and a: "position_authorize (lq_policy_evidence q) p0 = Inr p"
      unfolding authorized_position_def bind_result_eq_Inr by blast
    have p0: "position_reach p0" "position_authorize (lq_policy_evidence q) p0 = Inr p" "cp_amount p0 = lq_amount_atoms q"
      using reach_create [OF c] a create_position_amount [OF c] by simp_all
    then have p: "position_reach p" "cp_amount p = lq_amount_atoms q" "cp_status p = Coll_AUTHORIZED"
      using reach_position_step [OF p0(1) step_authorize [OF p0(2)]] by (simp_all add: position_methods_Inr)
    obtain r V1 where lock: "vo_lock ops (cp_position_id p) (lq_pledging_wallet q) (lq_beneficiary_wallet q)
        (lq_amount_atoms q) V = (r, V1)" by fastforce
    show ?thesis
    proof (cases r)
      case (Inl x)
      then show ?thesis using assms Inr lock refused(1) [OF lock [unfolded Inl]]
        by (auto simp: propose_and_lock_def act_bind_def split: if_splits)
    next
      case (Inr rc)
      obtain p1 where p1: "position_lock (env_skip 1 E) (Some (vr_tx_hash rc)) p = Inr p1"
          "cp_status p1 = Coll_LOCKED" "cp_amount p1 = cp_amount p" "cp_position_id p1 = cp_position_id p"
        using p(3) by (auto simp: position_methods_Inr)
      obtain p2 where p2: "activate_obligation p1 = Inr p2" "p2 = p1\<lparr>cp_status := Coll_OBLIGATION_ACTIVE\<rparr>"
        using p1(2) by (auto simp: position_methods_Inr)
      have reach: "position_reach p2"
        using p(1) p1(1) p2(1) by (blast intro: reach_position_step step_lock step_activate)
      have "res = Inr p2 \<and> V' = V1 \<or> isl res \<and> V' = V" "res = Inr p2 \<Longrightarrow>
          valid (lq_policy_evidence q) (lq_tenant_id q) (lq_organisation_id q) (lq_obligation_reference q)"
        using assms \<open>authorized_position E q = Inr p\<close> lock Inr p1(1) p2(1)
        by (auto simp: propose_and_lock_def act_bind_def act_lift_def split: if_splits)
      then show ?thesis using lock_ok [OF lock [unfolded Inr]] reach p1(3,4) p2(2) p(2)
        by (cases res) auto
    qed
  qed
qed

lemma settle_ends:
  assumes "settle_from_verification ops P E who secret w d (V, p) = (res, (V', p'))"
  shows "case res of
      Inl x \<Rightarrow> held V' = held V \<and>
        (p' = p \<or> cp_status p = Coll_OBLIGATION_ACTIVE \<and> cp_status p' \<in> {Coll_VERIFIED_SUCCESS, Coll_VERIFIED_FAILURE})
    | Inr out \<Rightarrow> cp_status p = Coll_OBLIGATION_ACTIVE \<and> held V (cp_position_id p) \<noteq> None \<and>
        held V' = (held V)(cp_position_id p := None) \<and> so_position out = p' \<and>
        cp_status p' = (if is_verified (so_receipt out) then Coll_RELEASED else Coll_FORFEITED)"
proof -
  let ?r = "verify_work P E who secret w d None"
  let ?ok = "wr_status ?r = Deliverable_ACCEPTED"
  show ?thesis
  proof (cases "record_verification ?ok (wr_evidence_hash ?r) p")
    case (Inl x)
    then show ?thesis using assms by (auto simp: settle_from_verification_def Let_def)
  next
    case (Inr p1)
    then have st: "cp_status p = Coll_OBLIGATION_ACTIVE"
        and p1: "cp_status p1 = (if ?ok then Coll_VERIFIED_SUCCESS else Coll_VERIFIED_FAILURE)" "cp_position_id p1 = cp_position_id p"
      by (auto simp: position_methods_Inr)
    obtain r V1 where v: "(if ?ok then vo_release ops else vo_forfeit ops) (cp_position_id p) V = (r, V1)" by fastforce
    have f: "(if cp_status p1 = Coll_VERIFIED_SUCCESS then vo_release ops else vo_forfeit ops) (cp_position_id p1) V = (r, V1)"
      using v p1 by (cases ?ok) simp_all
    show ?thesis
    proof (cases r)
      case (Inl x)
      then have "held V1 = held V" using v refused(2,3) by (auto split: if_splits)
      then show ?thesis using assms Inr f Inl st p1(1)
        by (auto simp: settle_from_verification_def Let_def)
    next
      case (Inr rc)
      obtain p2 where p2: "position_settle (env_skip 2 E) (Some (vr_tx_hash rc)) p1 = Inr p2"
          "cp_status p2 = (if ?ok then Coll_RELEASED else Coll_FORFEITED)"
        using p1(1) by (cases ?ok) (auto simp: position_methods_Inr)
      have "held V (cp_position_id p) \<noteq> None \<and> held V1 = (held V)(cp_position_id p := None)"
        using v Inr release_ok forfeit_ok by (auto split: if_splits)
      then show ?thesis using assms \<open>record_verification _ _ _ = _\<close> f Inr p2 st
        by (auto simp: settle_from_verification_def Let_def is_verified_def)
    qed
  qed
qed

end

section \<open>The simulated vault\<close>

definition sim_held :: "sim_vault \<Rightarrow> string \<Rightarrow> int option" where
  "sim_held V i = (case map_of V i of None \<Rightarrow> None
     | Some p \<Rightarrow> if vp_state p = Vault_LOCKED then Some (vp_amount p) else None)"

lemma sim_held_update:
  "sim_held (AList.update i p V) = (sim_held V)(i := (if vp_state p = Vault_LOCKED then Some (vp_amount p) else None))"
  by (auto simp: sim_held_def update_conv fun_eq_iff)

interpretation vault: collateral_vault sim_held "sim_vault_ops P" for P
proof
  show "\<And>i pl be n V rc V'. vo_lock (sim_vault_ops P) i pl be n V = (Inr rc, V') \<Longrightarrow>
      sim_held V i = None \<and> sim_held V' = (sim_held V)(i \<mapsto> n)"
    by (auto simp: sim_vault_ops_def sim_vault_lock_def sim_held_update split: if_splits)
      (simp add: sim_held_def)
  show "\<And>i V rc V'. vo_release (sim_vault_ops P) i V = (Inr rc, V') \<Longrightarrow>
      sim_held V i \<noteq> None \<and> sim_held V' = (sim_held V)(i := None)"
    by (auto simp: sim_vault_ops_def sim_vault_end_def require_locked_def sim_held_update split: sum.splits option.splits if_splits)
      (simp add: sim_held_def)
  show "\<And>i V rc V'. vo_forfeit (sim_vault_ops P) i V = (Inr rc, V') \<Longrightarrow>
      sim_held V i \<noteq> None \<and> sim_held V' = (sim_held V)(i := None)"
    by (auto simp: sim_vault_ops_def sim_vault_end_def require_locked_def sim_held_update split: sum.splits option.splits if_splits)
      (simp add: sim_held_def)
qed (auto simp: sim_vault_ops_def sim_vault_lock_def sim_vault_end_def require_locked_def
       split: if_splits sum.splits option.splits)


definition demo_lock :: lock_request where
  "demo_lock = \<lparr>lq_tenant_id = ''t'', lq_organisation_id = ''o'', lq_obligation_reference = ''w'', lq_pledging_org_id = ''p'',
     lq_pledging_wallet = ''0xp'', lq_beneficiary_org_id = ''b'', lq_beneficiary_wallet = ''0xb'', lq_amount_atoms = 9,
     lq_policy_evidence = ''e''\<rparr>"

definition demo_position :: position where
  "demo_position = \<lparr>cp_tenant_id = ''t'', cp_organisation_id = ''o'', cp_position_id = ''collateral-u'',
     cp_obligation_reference = ''w'', cp_pledging_org_id = ''p'', cp_beneficiary_org_id = ''b'', cp_amount = 9,
     cp_asset = ''CREDIT'', cp_status = Coll_OBLIGATION_ACTIVE, cp_onchain_tx_hash = Some (sim_tx_hash demo_prims ''lock'' ''collateral-u''),
     cp_settlement_tx_hash = None, cp_authorization_evidence_hash = Some ''e'', cp_verification_evidence_hash = None,
     cp_created_at = ''2026-01-01T00:00:00'', cp_locked_at = Some ''2026-01-01T00:00:00'', cp_settled_at = None\<rparr>"

definition demo_vault :: sim_vault where
  "demo_vault = [(''collateral-u'', \<lparr>vp_pledger = ''0xp'', vp_beneficiary = ''0xb'', vp_amount = 9, vp_state = Vault_LOCKED\<rparr>)]"

lemma demo_lock_runs:
  "propose_and_lock (sim_vault_ops demo_prims) (\<lambda>e t g r. True) demo_env demo_lock [] = (Inr demo_position, demo_vault)"
  by (simp add: propose_and_lock_def demo_lock_def authorized_position_def create_position_def position_authorize_def
      position_transition_def TERMINAL_STATES_def demo_env_def act_bind_def act_lift_def sim_vault_ops_def sim_vault_lock_def
      position_lock_def activate_obligation_def demo_position_def demo_vault_def sim_vault_receipt_def)

definition demo_settled :: position where
  "demo_settled = demo_position\<lparr>cp_status := Coll_RELEASED, cp_verification_evidence_hash := Some ''v'',
     cp_settlement_tx_hash := None, cp_settled_at := Some (e_now demo_env 0)\<rparr>"

theorem position_lifecycle_witness: "position_ok demo_settled \<and> (\<forall>q. \<not> position_step demo_settled q)"
proof -
  have "position_reach demo_position"
    using vault.propose_locks [OF demo_lock_runs] by simp
  moreover have "position_step demo_position (demo_position\<lparr>cp_status := Coll_VERIFIED_SUCCESS, cp_verification_evidence_hash := Some ''v''\<rparr>)"
    by (rule step_verify [of True "''v''"]) (simp add: position_methods_Inr demo_position_def)
  moreover have "position_step (demo_position\<lparr>cp_status := Coll_VERIFIED_SUCCESS, cp_verification_evidence_hash := Some ''v''\<rparr>) demo_settled"
    by (rule step_settle [of demo_env None]) (simp add: position_methods_Inr demo_position_def demo_settled_def)
  ultimately have "position_reach demo_settled" by (blast intro: reach_position_step)
  then show ?thesis using position_lifecycle by (auto simp: demo_settled_def TERMINAL_STATES_def)
qed


text \<open>
  Any accepted work settles any position.  \<open>settle_from_verification\<close> never compares the work order with the
  position's \<open>obligation_reference\<close>: the collateral of one obligation is released by an accepted
  deliverable of an unrelated order.
\<close>

theorem collateral_obligation_unchecked:
  "settle_from_verification ops P E who secret w d (V, p\<lparr>cp_obligation_reference := r1\<rparr>) =
     (case settle_from_verification ops P E who secret w d (V, p) of
        (Inl x, (V', p')) \<Rightarrow> (Inl x, (V', p'\<lparr>cp_obligation_reference := r1\<rparr>))
      | (Inr out, (V', p')) \<Rightarrow> (Inr (out\<lparr>so_position := (so_position out)\<lparr>cp_obligation_reference := r1\<rparr>\<rparr>),
          (V', p'\<lparr>cp_obligation_reference := r1\<rparr>)))"
  by (auto simp: settle_from_verification_def Let_def record_verification_def position_transition_def position_settle_def
      split: prod.splits sum.splits)

end
