(* ===== verification/WorkRepo.thy ===== *)
theory WorkRepo
  imports WorkOrders "HOL-Library.Char_ord" "HOL-Library.List_Lexorder"
begin

text \<open>
  The repository of paid work (\<open>src/persistence/work_order_repository.py\<close>): one table per kind of
  record, every row keyed by tenant, organisation and id.  Timestamps are ISO texts, which SQL
  compares as texts; the JSON columns hold the values they encode.  The tenant and the organisation of a
  row are assumed to be registered (the foreign keys).
\<close>

section \<open>Tables\<close>

record 'a scoped_row =
  sr_tenant :: string
  sr_org :: string
  sr_body :: 'a

record lineage_row =
  ln_tenant :: string
  ln_org :: string
  ln_mission_id :: string
  ln_parent_mission_id :: "string option"
  ln_funding_source :: string
  ln_funding_amount_usdg :: int
  ln_created_at :: string

record daemon_row =
  dm_tenant :: string
  dm_org :: string
  dm_cycle_count :: int
  dm_last_mission_id :: "string option"
  dm_updated_at :: "string option"

record credit_row =
  cr_tenant :: string
  cr_org :: string
  cr_credit_balance :: int
  cr_updated_at :: string

record work_db =
  wd_orders :: "work_order list"
  wd_deliverables :: "deliverable scoped_row list"
  wd_receipts :: "work_receipt scoped_row list"
  wd_revenue :: "revenue_event scoped_row list"
  wd_lineage :: "lineage_row list"
  wd_daemon :: "daemon_row list"
  wd_credits :: "credit_row list"

section \<open>Keys and what a second save overwrites\<close>

type_synonym key3 = "string \<times> string \<times> string"

definition order_key :: "work_order \<Rightarrow> key3" where
  "order_key w = (wo_tenant_id w, wo_organisation_id w, wo_work_order_id w)"

definition merge_order :: "work_order \<Rightarrow> work_order \<Rightarrow> work_order" where
  "merge_order old w = old\<lparr>wo_title := wo_title w, wo_description := wo_description w,
     wo_status := wo_status w, wo_metadata := wo_metadata w\<rparr>"

definition deliverable_key :: "deliverable scoped_row \<Rightarrow> key3" where
  "deliverable_key r = (sr_tenant r, sr_org r, dl_deliverable_id (sr_body r))"

definition merge_deliverable :: "deliverable scoped_row \<Rightarrow> deliverable scoped_row \<Rightarrow> deliverable scoped_row" where
  "merge_deliverable old r = old\<lparr>sr_body := (sr_body old)
     \<lparr>dl_content_payload := dl_content_payload (sr_body r), dl_content_hash := dl_content_hash (sr_body r),
      dl_execution_telemetry := dl_execution_telemetry (sr_body r)\<rparr>\<rparr>"

definition receipt_key :: "work_receipt scoped_row \<Rightarrow> key3" where
  "receipt_key r = (sr_tenant r, sr_org r, wr_receipt_id (sr_body r))"

definition merge_receipt :: "work_receipt scoped_row \<Rightarrow> work_receipt scoped_row \<Rightarrow> work_receipt scoped_row" where
  "merge_receipt old r = old\<lparr>sr_body := (sr_body old)
     \<lparr>wr_status := wr_status (sr_body r), wr_verification_notes := wr_verification_notes (sr_body r),
      wr_hmac_signature := wr_hmac_signature (sr_body r)\<rparr>\<rparr>"

definition revenue_key :: "revenue_event scoped_row \<Rightarrow> key3" where
  "revenue_key r = (sr_tenant r, sr_org r, re_revenue_event_id (sr_body r))"

definition keep_revenue :: "revenue_event scoped_row \<Rightarrow> revenue_event scoped_row \<Rightarrow> revenue_event scoped_row" where
  "keep_revenue old r = old"

definition lineage_key :: "lineage_row \<Rightarrow> key3" where
  "lineage_key r = (ln_tenant r, ln_org r, ln_mission_id r)"

definition merge_lineage :: "lineage_row \<Rightarrow> lineage_row \<Rightarrow> lineage_row" where
  "merge_lineage old r = old\<lparr>ln_parent_mission_id := ln_parent_mission_id r,
     ln_funding_source := ln_funding_source r, ln_funding_amount_usdg := ln_funding_amount_usdg r\<rparr>"

definition daemon_key :: "daemon_row \<Rightarrow> string \<times> string" where
  "daemon_key r = (dm_tenant r, dm_org r)"

definition credit_key :: "credit_row \<Rightarrow> string \<times> string" where
  "credit_key r = (cr_tenant r, cr_org r)"

definition replace_row :: "'a \<Rightarrow> 'a \<Rightarrow> 'a" where
  "replace_row old r = r"

lemmas work_key_defs = order_key_def deliverable_key_def receipt_key_def revenue_key_def lineage_key_def
  daemon_key_def credit_key_def
lemmas work_merge_defs = merge_order_def merge_deliverable_def merge_receipt_def keep_revenue_def merge_lineage_def
  replace_row_def

interpretation orders: keyed_store "lookup order_key" "upsert order_key merge_order" order_key merge_order
  by (rule upsert_store) (simp add: work_key_defs work_merge_defs)

interpretation deliverables: keyed_store "lookup deliverable_key" "upsert deliverable_key merge_deliverable"
  deliverable_key merge_deliverable
  by (rule upsert_store) (simp add: work_key_defs work_merge_defs)

interpretation receipts: keyed_store "lookup receipt_key" "upsert receipt_key merge_receipt" receipt_key merge_receipt
  by (rule upsert_store) (simp add: work_key_defs work_merge_defs)

interpretation revenue: keyed_store "lookup revenue_key" "upsert revenue_key keep_revenue" revenue_key keep_revenue
  by (rule upsert_store) (simp add: work_key_defs work_merge_defs)

interpretation lineage: keyed_store "lookup lineage_key" "upsert lineage_key merge_lineage" lineage_key merge_lineage
  by (rule upsert_store) (simp add: work_key_defs work_merge_defs)

interpretation daemons: keyed_store "lookup daemon_key" "upsert daemon_key replace_row" daemon_key replace_row
  by (rule upsert_store) (simp add: work_key_defs work_merge_defs)

interpretation credits: keyed_store "lookup credit_key" "upsert credit_key replace_row" credit_key replace_row
  by (rule upsert_store) (simp add: work_key_defs work_merge_defs)

section \<open>Writes\<close>

definition in_row :: "string \<Rightarrow> string \<Rightarrow> 'a \<Rightarrow> 'a scoped_row" where
  "in_row t o1 x = \<lparr>sr_tenant = t, sr_org = o1, sr_body = x\<rparr>"

definition save_work_order :: "work_order \<Rightarrow> work_db \<Rightarrow> work_db" where
  "save_work_order w D = D\<lparr>wd_orders := upsert order_key merge_order w (wd_orders D)\<rparr>"

definition save_deliverable :: "string \<Rightarrow> string \<Rightarrow> deliverable \<Rightarrow> work_db \<Rightarrow> work_db" where
  "save_deliverable t o1 d D =
     D\<lparr>wd_deliverables := upsert deliverable_key merge_deliverable (in_row t o1 d) (wd_deliverables D)\<rparr>"

definition save_receipt :: "string \<Rightarrow> string \<Rightarrow> work_receipt \<Rightarrow> work_db \<Rightarrow> work_db" where
  "save_receipt t o1 r D = D\<lparr>wd_receipts := upsert receipt_key merge_receipt (in_row t o1 r) (wd_receipts D)\<rparr>"

definition save_revenue_event :: "string \<Rightarrow> string \<Rightarrow> revenue_event \<Rightarrow> work_db \<Rightarrow> work_db" where
  "save_revenue_event t o1 e D = D\<lparr>wd_revenue := upsert revenue_key keep_revenue (in_row t o1 e) (wd_revenue D)\<rparr>"

definition record_mission_lineage ::
  "env \<Rightarrow> string \<Rightarrow> string \<Rightarrow> string \<Rightarrow> string option \<Rightarrow> string \<Rightarrow> int \<Rightarrow> work_db \<Rightarrow> work_db" where
  "record_mission_lineage E t o1 mid parent source amount D = D\<lparr>wd_lineage := upsert lineage_key merge_lineage
     \<lparr>ln_tenant = t, ln_org = o1, ln_mission_id = mid, ln_parent_mission_id = parent, ln_funding_source = source,
      ln_funding_amount_usdg = amount, ln_created_at = e_now E 0\<rparr> (wd_lineage D)\<rparr>"

definition save_daemon_state :: "env \<Rightarrow> string \<Rightarrow> string \<Rightarrow> int \<Rightarrow> string option \<Rightarrow> work_db \<Rightarrow> work_db" where
  "save_daemon_state E t o1 n last_id D = D\<lparr>wd_daemon := upsert daemon_key replace_row
     \<lparr>dm_tenant = t, dm_org = o1, dm_cycle_count = n, dm_last_mission_id = last_id, dm_updated_at = Some (e_now E 0)\<rparr>
     (wd_daemon D)\<rparr>"

definition save_credit_balance :: "env \<Rightarrow> string \<Rightarrow> string \<Rightarrow> int \<Rightarrow> work_db \<Rightarrow> work_db" where
  "save_credit_balance E t o1 n D = D\<lparr>wd_credits := upsert credit_key replace_row
     \<lparr>cr_tenant = t, cr_org = o1, cr_credit_balance = max 0 n, cr_updated_at = e_now E 0\<rparr> (wd_credits D)\<rparr>"

section \<open>Reads\<close>

definition get_work_order :: "work_db \<Rightarrow> string \<Rightarrow> string \<Rightarrow> string \<Rightarrow> work_order option" where
  "get_work_order D t o1 i = lookup order_key (wd_orders D) (t, o1, i)"

definition list_work_orders :: "work_db \<Rightarrow> string \<Rightarrow> string \<Rightarrow> work_order_status option \<Rightarrow> work_order list" where
  "list_work_orders D t o1 st = order_desc wo_created_at (filter (\<lambda>w. wo_tenant_id w = t \<and> wo_organisation_id w = o1 \<and>
     (case st of None \<Rightarrow> True | Some x \<Rightarrow> wo_status w = x)) (wd_orders D))"

definition scoped_rows :: "string \<Rightarrow> string \<Rightarrow> 'a scoped_row list \<Rightarrow> 'a list" where
  "scoped_rows t o1 T = map sr_body (filter (\<lambda>r. sr_tenant r = t \<and> sr_org r = o1) T)"

definition get_deliverable :: "work_db \<Rightarrow> string \<Rightarrow> string \<Rightarrow> string \<Rightarrow> deliverable option" where
  "get_deliverable D t o1 i = map_option sr_body (lookup deliverable_key (wd_deliverables D) (t, o1, i))"

definition get_deliverable_by_work_order :: "work_db \<Rightarrow> string \<Rightarrow> string \<Rightarrow> string \<Rightarrow> deliverable option" where
  "get_deliverable_by_work_order D t o1 w =
     latest dl_created_at (filter (\<lambda>d. dl_work_order_id d = w) (scoped_rows t o1 (wd_deliverables D)))"

definition get_receipt :: "work_db \<Rightarrow> string \<Rightarrow> string \<Rightarrow> string \<Rightarrow> work_receipt option" where
  "get_receipt D t o1 i = map_option sr_body (lookup receipt_key (wd_receipts D) (t, o1, i))"

definition get_receipt_for_work_order :: "work_db \<Rightarrow> string \<Rightarrow> string \<Rightarrow> string \<Rightarrow> work_receipt option" where
  "get_receipt_for_work_order D t o1 w =
     latest wr_verified_at (filter (\<lambda>r. wr_work_order_id r = w) (scoped_rows t o1 (wd_receipts D)))"

definition get_revenue_event_by_work_order :: "work_db \<Rightarrow> string \<Rightarrow> string \<Rightarrow> string \<Rightarrow> revenue_event option" where
  "get_revenue_event_by_work_order D t o1 w =
     latest re_settled_at (filter (\<lambda>e. re_work_order_id e = w) (scoped_rows t o1 (wd_revenue D)))"

definition list_revenue_events :: "work_db \<Rightarrow> string \<Rightarrow> string \<Rightarrow> revenue_event list" where
  "list_revenue_events D t o1 = order_desc re_settled_at (scoped_rows t o1 (wd_revenue D))"

definition get_mission_lineage :: "work_db \<Rightarrow> string \<Rightarrow> string \<Rightarrow> string \<Rightarrow> lineage_row option" where
  "get_mission_lineage D t o1 i = lookup lineage_key (wd_lineage D) (t, o1, i)"

definition list_mission_lineage :: "work_db \<Rightarrow> string \<Rightarrow> string \<Rightarrow> lineage_row list" where
  "list_mission_lineage D t o1 = sort_key ln_created_at (filter (\<lambda>r. ln_tenant r = t \<and> ln_org r = o1) (wd_lineage D))"

definition get_daemon_state :: "work_db \<Rightarrow> string \<Rightarrow> string \<Rightarrow> daemon_row" where
  "get_daemon_state D t o1 = (case lookup daemon_key (wd_daemon D) (t, o1) of
     None \<Rightarrow> \<lparr>dm_tenant = t, dm_org = o1, dm_cycle_count = 0, dm_last_mission_id = None, dm_updated_at = None\<rparr>
   | Some r \<Rightarrow> r)"

definition get_credit_balance :: "work_db \<Rightarrow> string \<Rightarrow> string \<Rightarrow> int" where
  "get_credit_balance D t o1 = (case lookup credit_key (wd_credits D) (t, o1) of None \<Rightarrow> 0 | Some r \<Rightarrow> cr_credit_balance r)"

section \<open>What the repository promises\<close>

text \<open>Every write of the repository, as a relation between the tables before and after.\<close>

inductive work_write :: "string \<Rightarrow> string \<Rightarrow> work_db \<Rightarrow> work_db \<Rightarrow> bool" where
  write_order: "wo_tenant_id w = t \<Longrightarrow> wo_organisation_id w = o1 \<Longrightarrow> work_write t o1 D (save_work_order w D)"
| write_deliverable: "work_write t o1 D (save_deliverable t o1 d D)"
| write_receipt: "work_write t o1 D (save_receipt t o1 r D)"
| write_revenue: "work_write t o1 D (save_revenue_event t o1 e D)"
| write_lineage: "work_write t o1 D (record_mission_lineage E t o1 mid parent source amount D)"
| write_daemon: "work_write t o1 D (save_daemon_state E t o1 n lid D)"
| write_credits: "work_write t o1 D (save_credit_balance E t o1 n D)"

abbreviation work_writes :: "work_db \<Rightarrow> work_db \<Rightarrow> bool" where
  "work_writes \<equiv> (\<lambda>D D'. \<exists>t o1. work_write t o1 D D')\<^sup>*\<^sup>*"

abbreviation writes_elsewhere :: "string \<Rightarrow> string \<Rightarrow> work_db \<Rightarrow> work_db \<Rightarrow> bool" where
  "writes_elsewhere t o1 \<equiv> (\<lambda>D D'. \<exists>t2 o2. (t2, o2) \<noteq> (t, o1) \<and> work_write t2 o2 D D')\<^sup>*\<^sup>*"

inductive_cases work_writeE: "work_write t o1 D D'"

lemmas work_save_defs = save_work_order_def save_deliverable_def save_receipt_def save_revenue_event_def
  record_mission_lineage_def save_daemon_state_def save_credit_balance_def
lemmas work_read_defs = get_work_order_def list_work_orders_def get_deliverable_def get_deliverable_by_work_order_def
  get_receipt_def get_receipt_for_work_order_def get_revenue_event_by_work_order_def list_revenue_events_def
  get_mission_lineage_def list_mission_lineage_def get_daemon_state_def get_credit_balance_def

lemma write_elsewhere:
  assumes "work_write t2 o2 D D'" "(t2, o2) \<noteq> (t, o1)"
  shows "writes_elsewhere t o1 D D'"
  by (rule r_into_rtranclp, rule exI, rule exI, rule conjI, rule assms(2), rule assms(1))

text \<open>What an organisation can read: the rows in its scope.\<close>

definition work_view :: "string \<Rightarrow> string \<Rightarrow> work_db \<Rightarrow> work_db" where
  "work_view t o1 D =
     \<lparr>wd_orders = filter (\<lambda>w. wo_tenant_id w = t \<and> wo_organisation_id w = o1) (wd_orders D),
      wd_deliverables = filter (\<lambda>r. sr_tenant r = t \<and> sr_org r = o1) (wd_deliverables D),
      wd_receipts = filter (\<lambda>r. sr_tenant r = t \<and> sr_org r = o1) (wd_receipts D),
      wd_revenue = filter (\<lambda>r. sr_tenant r = t \<and> sr_org r = o1) (wd_revenue D),
      wd_lineage = filter (\<lambda>r. ln_tenant r = t \<and> ln_org r = o1) (wd_lineage D),
      wd_daemon = filter (\<lambda>r. dm_tenant r = t \<and> dm_org r = o1) (wd_daemon D),
      wd_credits = filter (\<lambda>r. cr_tenant r = t \<and> cr_org r = o1) (wd_credits D)\<rparr>"

lemma lookup_filter:
  assumes "\<And>x. key x = k \<Longrightarrow> P x"
  shows "lookup key (filter P T) k = lookup key T k"
  unfolding lookup_def using assms by (induction T) auto

lemma reads_view:
  "get_work_order D t o1 i = lookup order_key (wd_orders (work_view t o1 D)) (t, o1, i)"
  "list_work_orders D t o1 st = order_desc wo_created_at
     (filter (\<lambda>w. case st of None \<Rightarrow> True | Some x \<Rightarrow> wo_status w = x) (wd_orders (work_view t o1 D)))"
  "scoped_rows t o1 (wd_deliverables D) = map sr_body (wd_deliverables (work_view t o1 D))"
  "scoped_rows t o1 (wd_receipts D) = map sr_body (wd_receipts (work_view t o1 D))"
  "scoped_rows t o1 (wd_revenue D) = map sr_body (wd_revenue (work_view t o1 D))"
  "lookup deliverable_key (wd_deliverables D) (t, o1, i) = lookup deliverable_key (wd_deliverables (work_view t o1 D)) (t, o1, i)"
  "lookup receipt_key (wd_receipts D) (t, o1, i) = lookup receipt_key (wd_receipts (work_view t o1 D)) (t, o1, i)"
  "lookup lineage_key (wd_lineage D) (t, o1, i) = lookup lineage_key (wd_lineage (work_view t o1 D)) (t, o1, i)"
  "lookup daemon_key (wd_daemon D) (t, o1) = lookup daemon_key (wd_daemon (work_view t o1 D)) (t, o1)"
  "lookup credit_key (wd_credits D) (t, o1) = lookup credit_key (wd_credits (work_view t o1 D)) (t, o1)"
  unfolding get_work_order_def list_work_orders_def scoped_rows_def work_view_def work_db.simps
  by (rule lookup_filter [symmetric], simp add: work_key_defs,
      simp add: conj_commute conj_left_commute, rule refl, rule refl, rule refl,
      (rule lookup_filter [symmetric], simp add: work_key_defs)+)

lemma same_view:
  assumes "work_view t o1 D' = work_view t o1 D"
  shows "get_work_order D' t o1 i = get_work_order D t o1 i" "list_work_orders D' t o1 st = list_work_orders D t o1 st"
    "scoped_rows t o1 (wd_deliverables D') = scoped_rows t o1 (wd_deliverables D)"
    "scoped_rows t o1 (wd_receipts D') = scoped_rows t o1 (wd_receipts D)"
    "scoped_rows t o1 (wd_revenue D') = scoped_rows t o1 (wd_revenue D)"
    "lookup deliverable_key (wd_deliverables D') (t, o1, i) = lookup deliverable_key (wd_deliverables D) (t, o1, i)"
    "lookup receipt_key (wd_receipts D') (t, o1, i) = lookup receipt_key (wd_receipts D) (t, o1, i)"
    "lookup lineage_key (wd_lineage D') (t, o1, i) = lookup lineage_key (wd_lineage D) (t, o1, i)"
    "lookup daemon_key (wd_daemon D') (t, o1) = lookup daemon_key (wd_daemon D) (t, o1)"
    "lookup credit_key (wd_credits D') (t, o1) = lookup credit_key (wd_credits D) (t, o1)"
    "list_mission_lineage D' t o1 = list_mission_lineage D t o1"
proof -
  have "list_mission_lineage X t o1 = sort_key ln_created_at (wd_lineage (work_view t o1 X))" for X
    by (simp add: list_mission_lineage_def work_view_def)
  then show "list_mission_lineage D' t o1 = list_mission_lineage D t o1" using assms by metis
qed (metis assms reads_view(1), metis assms reads_view(2), metis assms reads_view(3), metis assms reads_view(4),
     metis assms reads_view(5), metis assms reads_view(6), metis assms reads_view(7), metis assms reads_view(8),
     metis assms reads_view(9), metis assms reads_view(10))

lemma write_view:
  assumes "work_write t2 o2 D D'" "(t2, o2) \<noteq> (t, o1)"
  shows "work_view t o1 D' = work_view t o1 D"
  using assms(1)
proof cases
  case (write_order w)
  have "filter (\<lambda>w. wo_tenant_id w = t \<and> wo_organisation_id w = o1) (wd_orders D') =
      filter (\<lambda>w. wo_tenant_id w = t \<and> wo_organisation_id w = o1) (wd_orders D)"
    unfolding write_order(1) by (simp add: save_work_order_def, rule filter_upsert_other) (use assms(2) write_order(2,3) in \<open>auto simp: work_key_defs merge_order_def\<close>)
  then show ?thesis by (simp add: work_view_def write_order(1) save_work_order_def)
qed (use assms(2) in \<open>auto simp: work_view_def work_save_defs in_row_def work_key_defs work_merge_defs
       intro!: filter_upsert_other\<close>)

lemma writes_view: "writes_elsewhere t o1 D D' \<Longrightarrow> work_view t o1 D' = work_view t o1 D"
  by (induction rule: rtranclp_induct) (auto simp: write_view)

text \<open>
  Nothing written for other organisations changes what an organisation reads.  After any
  sequence of repository writes outside the scope (tenant, organisation), each of the repository's twelve
  queries in that scope answers as before.
\<close>

theorem work_store_isolated:
  assumes "writes_elsewhere t o1 D D'"
  shows "get_work_order D' t o1 i = get_work_order D t o1 i \<and> list_work_orders D' t o1 st = list_work_orders D t o1 st \<and>
     get_deliverable D' t o1 i = get_deliverable D t o1 i \<and>
     get_deliverable_by_work_order D' t o1 i = get_deliverable_by_work_order D t o1 i \<and>
     get_receipt D' t o1 i = get_receipt D t o1 i \<and>
     get_receipt_for_work_order D' t o1 i = get_receipt_for_work_order D t o1 i \<and>
     get_revenue_event_by_work_order D' t o1 i = get_revenue_event_by_work_order D t o1 i \<and>
     list_revenue_events D' t o1 = list_revenue_events D t o1 \<and>
     get_mission_lineage D' t o1 i = get_mission_lineage D t o1 i \<and>
     list_mission_lineage D' t o1 = list_mission_lineage D t o1 \<and>
     get_daemon_state D' t o1 = get_daemon_state D t o1 \<and> get_credit_balance D' t o1 = get_credit_balance D t o1"
  using same_view [OF writes_view [OF assms]]
  by (simp add: get_deliverable_def get_deliverable_by_work_order_def get_receipt_def get_receipt_for_work_order_def
      get_revenue_event_by_work_order_def list_revenue_events_def get_mission_lineage_def get_daemon_state_def
      get_credit_balance_def)

definition empty_work_db :: work_db where
  "empty_work_db = \<lparr>wd_orders = [], wd_deliverables = [], wd_receipts = [], wd_revenue = [], wd_lineage = [],
     wd_daemon = [], wd_credits = []\<rparr>"

definition demo_work_db :: work_db where
  "demo_work_db = save_work_order demo_work_order empty_work_db"

definition stolen_work_order :: work_order where
  "stolen_work_order = demo_work_order\<lparr>wo_organisation_id := ''x'', wo_title := ''stolen''\<rparr>"

lemma demo_work_db_order: "get_work_order demo_work_db ''t'' ''o'' ''w'' = Some demo_work_order"
  by (simp add: get_work_order_def demo_work_db_def save_work_order_def orders.get_put empty_work_db_def
      order_key_def demo_work_order_def)

theorem work_store_isolated_witness:
  "get_work_order (save_work_order stolen_work_order demo_work_db) ''t'' ''o'' ''w'' = Some demo_work_order"
proof -
  have w: "work_write ''t'' ''x'' demo_work_db (save_work_order stolen_work_order demo_work_db)"
    by (rule write_order) (simp_all add: demo_work_order_def stolen_work_order_def)
  have ne: "(''t'', ''x'') \<noteq> (''t'', ''o'')" by simp
  note write_elsewhere [OF w ne]
  then have "get_work_order (save_work_order stolen_work_order demo_work_db) ''t'' ''o'' ''w'' =
      get_work_order demo_work_db ''t'' ''o'' ''w''"
    using work_store_isolated by blast
  then show ?thesis using demo_work_db_order by simp
qed

section \<open>Terms never change\<close>

definition order_terms :: "work_order \<Rightarrow> string \<times> string \<times> int \<times> int \<times> currency_asset \<times> int \<times> string" where
  "order_terms w = (wo_client_id w, wo_deliverable_type w, wo_required_orbio_credits w, wo_bounty_amount w,
     wo_bounty_asset w, wo_deadline_seconds w, wo_created_at w)"

lemma merge_order_terms [simp]: "order_terms (merge_order old w) = order_terms old"
  by (simp add: order_terms_def merge_order_def)

lemma write_keeps_terms:
  assumes "work_write t2 o2 D D'" "get_work_order D t o1 i = Some w"
  shows "\<exists>w'. get_work_order D' t o1 i = Some w' \<and> order_terms w' = order_terms w"
  using assms(1)
proof cases
  case (write_order x)
  then have "get_work_order D' t o1 i = lookup order_key (fold (upsert order_key merge_order) [x] (wd_orders D)) (t, o1, i)"
    by (simp add: get_work_order_def save_work_order_def)
  moreover have "lookup order_key (wd_orders D) (t, o1, i) = Some w" using assms(2) by (simp add: get_work_order_def)
  ultimately show ?thesis using orders.column_fixed [of order_terms _ _ w "[x]"] by fastforce
qed (use assms(2) in \<open>simp_all add: work_save_defs get_work_order_def\<close>)

lemma write_keeps_revenue:
  assumes "work_write t2 o2 D D'"
  shows "set (wd_revenue D) \<subseteq> set (wd_revenue D')"
  using assms by cases (auto simp: work_save_defs upsert_keep keep_revenue_def [abs_def] eta_contract_eq)

text \<open>
  The terms of a paid order are fixed and recorded revenue is permanent.  Whatever is saved later, by
  anyone, a work order that was found under its key is still found and keeps the client, the deliverable
  type, the credits required, the bounty and its asset, the deadline and the creation time of its first save; and
  every revenue event listed for an organisation stays listed, unchanged.
\<close>

theorem work_terms_fixed:
  assumes "work_writes D D'" "get_work_order D t o1 i = Some w"
  shows "(\<exists>w'. get_work_order D' t o1 i = Some w' \<and> order_terms w' = order_terms w) \<and>
     set (list_revenue_events D t2 o2) \<subseteq> set (list_revenue_events D' t2 o2)"
  using assms(1)
proof (induction rule: rtranclp_induct)
  case (step D1 D2)
  then obtain t3 o3 where w: "work_write t3 o3 D1 D2" by blast
  have "set (list_revenue_events D1 t2 o2) \<subseteq> set (list_revenue_events D2 t2 o2)"
    using write_keeps_revenue [OF w] by (auto simp: list_revenue_events_def scoped_rows_def)
  with step.IH write_keeps_terms [OF w] show ?case by fastforce
qed (simp add: assms(2))

theorem work_terms_fixed_witness:
  "\<exists>w'. get_work_order (save_work_order (demo_work_order\<lparr>wo_bounty_amount := 1\<rparr>) demo_work_db) ''t'' ''o'' ''w'' = Some w' \<and>
     wo_bounty_amount w' = 100"
proof -
  have "work_write ''t'' ''o'' demo_work_db (save_work_order (demo_work_order\<lparr>wo_bounty_amount := 1\<rparr>) demo_work_db)"
    by (rule write_order) (simp_all add: demo_work_order_def)
  then have "work_writes demo_work_db (save_work_order (demo_work_order\<lparr>wo_bounty_amount := 1\<rparr>) demo_work_db)"
    by (intro r_into_rtranclp) auto
  moreover note demo_work_db_order
  ultimately obtain w' where "get_work_order (save_work_order (demo_work_order\<lparr>wo_bounty_amount := 1\<rparr>) demo_work_db)
      ''t'' ''o'' ''w'' = Some w'" "order_terms w' = order_terms demo_work_order"
    using work_terms_fixed by blast
  moreover have "wo_bounty_amount demo_work_order = 100" by (simp add: demo_work_order_def)
  ultimately show ?thesis by (auto simp: order_terms_def)
qed

section \<open>Settlement across restarts\<close>

lemma saved_revenue_found:
  assumes "\<lparr>sr_tenant = t, sr_org = o1, sr_body = e\<rparr> \<in> set (wd_revenue D)"
  shows "get_revenue_event_by_work_order D t o1 (re_work_order_id e) \<noteq> None"
proof -
  have "e \<in> set (filter (\<lambda>x. re_work_order_id x = re_work_order_id e) (scoped_rows t o1 (wd_revenue D)))"
    using assms by (force simp: scoped_rows_def)
  then show ?thesis by (simp only: get_revenue_event_by_work_order_def latest_None) force
qed

lemma surplus_guard_durable:
  assumes "sc_durable C = Some f" "f (wo_tenant_id w) (wo_organisation_id w) (wo_work_order_id w) \<noteq> None"
  shows "\<exists>x. surplus_guard P C w r gross direct ratio events = Inl x"
  using assms by (simp add: surplus_guard_def)

lemma saved_revenue_stays:
  assumes "lookup revenue_key (wd_revenue D) (t, o1, re_revenue_event_id e) = None"
    and "work_writes (save_revenue_event t o1 e D) D'"
  shows "\<lparr>sr_tenant = t, sr_org = o1, sr_body = e\<rparr> \<in> set (wd_revenue D')"
  using assms(2)
proof (induction rule: rtranclp_induct)
  case base
  then show ?case using assms(1)
    by (simp add: save_revenue_event_def in_row_def upsert_keep keep_revenue_def [abs_def] revenue_key_def)
next
  case (step D1 D2)
  then show ?case using write_keeps_revenue by blast
qed

text \<open>
  A settled order is settled once, also after a restart.  Once the repository has stored the revenue
  event of an order (under a fresh event id), every reconciler that reads this repository, even
  one that has just started and remembers nothing, refuses the order and touches neither the
  ledger nor its events, whatever was written to the repository in between.
\<close>

theorem settled_once_across_restarts:
  assumes "lookup revenue_key (wd_revenue D) (wo_tenant_id w, wo_organisation_id w, re_revenue_event_id e) = None"
    and "re_work_order_id e = wo_work_order_id w"
    and "work_writes (save_revenue_event (wo_tenant_id w) (wo_organisation_id w) e D) D'"
    and "sc_durable C = Some (get_revenue_event_by_work_order D')"
  shows "\<exists>x. reconcile_surplus ops P C E w r gross direct n ratio s = (Inl x, s)"
proof -
  have "get_revenue_event_by_work_order D' (wo_tenant_id w) (wo_organisation_id w) (wo_work_order_id w) \<noteq> None"
    using saved_revenue_found [OF saved_revenue_stays [OF assms(1,3)]] assms(2) by simp
  then obtain x where "surplus_guard P C w r gross direct ratio (ss_events s) = Inl x"
    using surplus_guard_durable [OF assms(4)] by blast
  then show ?thesis by (simp add: reconcile_surplus_def)
qed

theorem settled_once_across_restarts_witness:
  "\<exists>e x. re_work_order_id e = ''w'' \<and>
     reconcile_surplus mem_ops demo_prims
       (demo_surplus_config\<lparr>sc_durable := Some (get_revenue_event_by_work_order (save_revenue_event ''t'' ''o'' e demo_work_db))\<rparr>)
       demo_env demo_work_order demo_receipt 100 40 5 None demo_surplus_state = (Inl x, demo_surplus_state)"
proof -
  define e where "e = \<lparr>re_revenue_event_id = ''rev-1'', re_work_order_id = ''w'', re_gross_revenue_usdg = 100,
     re_direct_expense_usdg = 40, re_net_surplus_usdg = 60, re_orbio_credits_consumed = 5,
     re_allocated_to_mission_budget = 48, re_allocated_to_reserve = 12, re_settled_at = ''now'', re_ledger_tx_id = None\<rparr>"
  let ?D = "save_revenue_event (wo_tenant_id demo_work_order) (wo_organisation_id demo_work_order) e demo_work_db"
  let ?C = "demo_surplus_config\<lparr>sc_durable := Some (get_revenue_event_by_work_order ?D)\<rparr>"
  have new: "lookup revenue_key (wd_revenue demo_work_db)
      (wo_tenant_id demo_work_order, wo_organisation_id demo_work_order, re_revenue_event_id e) = None"
    by (simp add: demo_work_db_def save_work_order_def empty_work_db_def)
  have same: "re_work_order_id e = wo_work_order_id demo_work_order" by (simp add: e_def demo_work_order_def)
  have "\<exists>x. reconcile_surplus mem_ops demo_prims ?C demo_env demo_work_order demo_receipt 100 40 5 None
      demo_surplus_state = (Inl x, demo_surplus_state)"
    by (rule settled_once_across_restarts [OF new same rtranclp.rtrancl_refl]) simp
  then show ?thesis by (intro exI [of _ e]) (simp add: e_def demo_work_order_def)
qed

end
