(* ===== verification/Marketplace.thy ===== *)
theory Marketplace
  imports WorkRepo PolicyEngine Journals
begin

text \<open>
  The marketplace of the organisations: orders and escrow agreements (\<open>src/domain/marketplace.py\<close>), capability
  grants (\<open>src/domain/capability.py\<close>), the repository of the three (\<open>src/persistence/marketplace_repository.py\<close>)
  and the capability manager (\<open>src/orchestration/capability_manager.py\<close>).  A stored timestamp of a grant is
  the instant it denotes; the rows that foreign keys refer to are taken to exist.
\<close>

section \<open>marketplace.py\<close>

datatype market_order_status = Mkt_OPEN | Mkt_CLAIMED | Mkt_DELIVERED | Mkt_COMPLETED | Mkt_EXPIRED | Mkt_CANCELLED

fun market_status_value :: "market_order_status \<Rightarrow> string" where
  "market_status_value Mkt_OPEN = ''OPEN''"
| "market_status_value Mkt_CLAIMED = ''CLAIMED''"
| "market_status_value Mkt_DELIVERED = ''DELIVERED''"
| "market_status_value Mkt_COMPLETED = ''COMPLETED''"
| "market_status_value Mkt_EXPIRED = ''EXPIRED''"
| "market_status_value Mkt_CANCELLED = ''CANCELLED''"

datatype escrow_status = Escrow_HELD | Escrow_RELEASED | Escrow_REFUNDED

record market_order =
  mo_tenant_id :: string
  mo_organisation_id :: string
  mo_order_id :: string
  mo_title :: string
  mo_description :: string
  mo_specification_hash :: string
  mo_required_capability :: string
  mo_bounty_amount :: int
  mo_bounty_asset :: string
  mo_sla_timeout_seconds :: int
  mo_status :: market_order_status
  mo_claimed_by_tenant_id :: "string option"
  mo_claimed_by_org_id :: "string option"
  mo_claimed_by_agent_id :: "string option"
  mo_work_order_id :: "string option"
  mo_deliverable_id :: "string option"
  mo_created_at :: string
  mo_claimed_at :: "string option"
  mo_completed_at :: "string option"

definition create_market_order ::
  "prims \<Rightarrow> env \<Rightarrow> string \<Rightarrow> string \<Rightarrow> string \<Rightarrow> string \<Rightarrow> string \<Rightarrow> string \<Rightarrow> int \<Rightarrow> string \<Rightarrow> int \<Rightarrow>
     (string \<times> json) list option \<Rightarrow> market_order result" where
  "create_market_order P E t g i title descr cap bounty asset sla spec =
     (if bounty \<le> 0 then raise ValueError ''bounty_amount must be positive''
      else let payload = (case spec of Some (x # xs) \<Rightarrow> x # xs
             | _ \<Rightarrow> [(''title'', JStr title), (''description'', JStr descr)])
        in Inr \<lparr>mo_tenant_id = t, mo_organisation_id = g, mo_order_id = i, mo_title = title, mo_description = descr,
          mo_specification_hash = sha256 P (json_dumps P (JObj payload)), mo_required_capability = cap,
          mo_bounty_amount = bounty, mo_bounty_asset = asset, mo_sla_timeout_seconds = sla, mo_status = Mkt_OPEN,
          mo_claimed_by_tenant_id = None, mo_claimed_by_org_id = None, mo_claimed_by_agent_id = None,
          mo_work_order_id = None, mo_deliverable_id = None, mo_created_at = e_now E 0, mo_claimed_at = None,
          mo_completed_at = None\<rparr>)"

record escrow_agreement =
  es_tenant_id :: string
  es_organisation_id :: string
  es_escrow_id :: string
  es_order_id :: string
  es_client_tenant_id :: string
  es_client_org_id :: string
  es_bounty_amount :: int
  es_bounty_asset :: string
  es_provider_tenant_id :: "string option"
  es_provider_org_id :: "string option"
  es_status :: escrow_status
  es_client_ledger_tx_id :: "string option"
  es_provider_ledger_tx_id :: "string option"
  es_created_at :: string
  es_released_at :: "string option"

record public_order =
  pm_order_id :: string
  pm_title :: string
  pm_description :: string
  pm_required_capability :: string
  pm_bounty_amount :: int
  pm_bounty_asset :: string
  pm_sla_timeout_seconds :: int
  pm_status :: market_order_status
  pm_created_at :: string
  pm_provenance :: string

definition from_order :: "market_order \<Rightarrow> string \<Rightarrow> public_order" where
  "from_order m provenance = \<lparr>pm_order_id = mo_order_id m, pm_title = mo_title m, pm_description = mo_description m,
     pm_required_capability = mo_required_capability m, pm_bounty_amount = mo_bounty_amount m,
     pm_bounty_asset = mo_bounty_asset m, pm_sla_timeout_seconds = mo_sla_timeout_seconds m, pm_status = mo_status m,
     pm_created_at = mo_created_at m, pm_provenance = provenance\<rparr>"

section \<open>capability.py\<close>

datatype grant_status = Grant_ACTIVE | Grant_EXPIRED | Grant_REVOKED

record capability_grant =
  cg_tenant_id :: string
  cg_organisation_id :: string
  cg_grant_id :: string
  cg_agent_id :: string
  cg_capability_name :: string
  cg_permission_level :: string
  cg_trigger_performance_score :: rat
  cg_granted_by_policy_id :: string
  cg_status :: grant_status
  cg_granted_at :: rat
  cg_expires_at :: rat

definition is_valid :: "rat \<Rightarrow> capability_grant \<Rightarrow> bool" where
  "is_valid now c \<longleftrightarrow> cg_status c = Grant_ACTIVE \<and> now \<le> cg_expires_at c"

record capability_proposal =
  cq_tenant_id :: string
  cq_organisation_id :: string
  cq_proposal_id :: string
  cq_target_agent_id :: string
  cq_proposer_agent_id :: string
  cq_requested_capability :: string
  cq_requested_permission :: string
  cq_current_performance_score :: rat
  cq_rationale :: string
  cq_created_at :: string

section \<open>marketplace\_repository.py\<close>

record market =
  mk_orders :: "market_order list"
  mk_escrows :: "escrow_agreement list"
  mk_grants :: "capability_grant list"

definition market_order_key :: "market_order \<Rightarrow> key3" where
  "market_order_key m = (mo_tenant_id m, mo_organisation_id m, mo_order_id m)"

definition escrow_key :: "escrow_agreement \<Rightarrow> key3" where
  "escrow_key e = (es_tenant_id e, es_organisation_id e, es_escrow_id e)"

definition grant_key :: "capability_grant \<Rightarrow> key3" where
  "grant_key c = (cg_tenant_id c, cg_organisation_id c, cg_grant_id c)"

definition merge_grant :: "capability_grant \<Rightarrow> capability_grant \<Rightarrow> capability_grant" where
  "merge_grant old c = old\<lparr>cg_status := cg_status c, cg_expires_at := cg_expires_at c\<rparr>"

definition get_order :: "market \<Rightarrow> string \<Rightarrow> string \<Rightarrow> string \<Rightarrow> market_order option" where
  "get_order M t g i = lookup market_order_key (mk_orders M) (t, g, i)"

definition get_order_by_id :: "market \<Rightarrow> string \<Rightarrow> market_order option" where
  "get_order_by_id M i = find (\<lambda>m. mo_order_id m = i) (mk_orders M)"

text \<open>The INSERT lists the columns of a new order: claim, deliverable and completion stay NULL.\<close>

definition inserted_order :: "market_order \<Rightarrow> market_order" where
  "inserted_order m = m\<lparr>mo_claimed_by_tenant_id := None, mo_claimed_by_org_id := None, mo_claimed_by_agent_id := None,
     mo_work_order_id := None, mo_deliverable_id := None, mo_claimed_at := None, mo_completed_at := None\<rparr>"

definition create_order :: "market_order \<Rightarrow> (market, market_order) act" where
  "create_order m M =
     (case get_order M (mo_tenant_id m) (mo_organisation_id m) (mo_order_id m) of
        Some x \<Rightarrow> if mo_specification_hash x = mo_specification_hash m then (Inr x, M)
          else (raise IdempotencyConflict ''Marketplace order already exists with conflicting specification hash'', M)
      | None \<Rightarrow> (Inr m, M\<lparr>mk_orders := mk_orders M @ [inserted_order m]\<rparr>))"

text \<open>The provenance shown for an order: from the telemetry of the claimant's deliverable.\<close>

definition order_provenance :: "prims \<Rightarrow> work_db \<Rightarrow> market_order \<Rightarrow> string" where
  "order_provenance P D m =
     (if \<not> py_truthy (mo_deliverable_id m) then ''UNEXECUTED''
      else case (mo_claimed_by_tenant_id m, mo_claimed_by_org_id m) of
        (Some t, Some g) \<Rightarrow> (case get_deliverable D t g (the (mo_deliverable_id m)) of
            None \<Rightarrow> ''UNEXECUTED''
          | Some d \<Rightarrow> let v = (case map_of (dl_execution_telemetry d) ''provenance'' of None \<Rightarrow> JNull | Some j \<Rightarrow> j);
                 sim = (case map_of (dl_execution_telemetry d) ''is_simulated'' of None \<Rightarrow> JNull | Some j \<Rightarrow> j)
              in if json_truthy v then py_str P v else if json_truthy sim then ''SIMULATED'' else ''LIVE'')
      | _ \<Rightarrow> ''UNEXECUTED'')"

definition list_public_orders :: "prims \<Rightarrow> work_db \<Rightarrow> string option \<Rightarrow> market \<Rightarrow> public_order list" where
  "list_public_orders P D st M = map (\<lambda>m. from_order m (order_provenance P D m))
     (order_desc mo_created_at (filter (\<lambda>m. case st of None \<Rightarrow> True | Some s \<Rightarrow> market_status_value (mo_status m) = s)
        (mk_orders M)))"

definition claimed_order ::
  "env \<Rightarrow> string \<Rightarrow> string \<Rightarrow> string \<Rightarrow> string option \<Rightarrow> market_order \<Rightarrow> market_order" where
  "claimed_order E by_t by_g agent wid m = m\<lparr>mo_status := Mkt_CLAIMED, mo_claimed_by_tenant_id := Some by_t,
     mo_claimed_by_org_id := Some by_g, mo_claimed_by_agent_id := Some agent, mo_work_order_id := wid,
     mo_claimed_at := Some (e_now E 0)\<rparr>"

definition claim_order ::
  "env \<Rightarrow> string \<Rightarrow> string \<Rightarrow> string \<Rightarrow> string \<Rightarrow> string \<Rightarrow> string \<Rightarrow> string option \<Rightarrow> market \<Rightarrow> bool \<times> market" where
  "claim_order E t g i by_t by_g agent wid M =
     (let hit = (\<lambda>m. market_order_key m = (t, g, i) \<and> mo_status m = Mkt_OPEN)
      in (\<exists>m \<in> set (mk_orders M). hit m,
          M\<lparr>mk_orders := map (\<lambda>m. if hit m then claimed_order E by_t by_g agent wid m else m) (mk_orders M)\<rparr>))"

text \<open>\<open>COALESCE(new, old)\<close>.\<close>

definition coalesce :: "'a option \<Rightarrow> 'a option \<Rightarrow> 'a option" where
  "coalesce x y = (case x of None \<Rightarrow> y | Some a \<Rightarrow> Some a)"

definition set_order_status :: "env \<Rightarrow> market_order_status \<Rightarrow> string option \<Rightarrow> market_order \<Rightarrow> market_order" where
  "set_order_status E st did m = m\<lparr>mo_status := st, mo_deliverable_id := coalesce did (mo_deliverable_id m),
     mo_completed_at := coalesce (if st = Mkt_COMPLETED then Some (e_now E 0) else None) (mo_completed_at m)\<rparr>"

definition update_order_status ::
  "env \<Rightarrow> string \<Rightarrow> string \<Rightarrow> string \<Rightarrow> market_order_status \<Rightarrow> string option \<Rightarrow> market \<Rightarrow> market" where
  "update_order_status E t g i st did M =
     M\<lparr>mk_orders := map (\<lambda>m. if market_order_key m = (t, g, i) then set_order_status E st did m else m) (mk_orders M)\<rparr>"

definition get_escrow :: "market \<Rightarrow> string \<Rightarrow> string \<Rightarrow> string \<Rightarrow> escrow_agreement option" where
  "get_escrow M t g i = lookup escrow_key (mk_escrows M) (t, g, i)"

definition save_escrow :: "escrow_agreement \<Rightarrow> (market, escrow_agreement) act" where
  "save_escrow e M =
     (case get_escrow M (es_tenant_id e) (es_organisation_id e) (es_escrow_id e) of
        Some x \<Rightarrow> if es_order_id x = es_order_id e \<and> es_bounty_amount x = es_bounty_amount e then (Inr x, M)
          else (raise IdempotencyConflict ''Escrow already exists with conflicting parameters'', M)
      | None \<Rightarrow> (Inr e, M\<lparr>mk_escrows := mk_escrows M @ [e]\<rparr>))"

text \<open>The join of escrows and orders: visible to the client's scope and to the recorded claimant.\<close>

definition escrow_visible :: "market \<Rightarrow> string \<Rightarrow> string \<Rightarrow> string \<Rightarrow> escrow_agreement \<Rightarrow> bool" where
  "escrow_visible M i t g e \<longleftrightarrow> es_order_id e = i \<and>
     (\<exists>m \<in> set (mk_orders M). market_order_key m = (es_client_tenant_id e, es_client_org_id e, es_order_id e) \<and>
        (es_tenant_id e = t \<and> es_organisation_id e = g \<or>
         mo_claimed_by_tenant_id m = Some t \<and> mo_claimed_by_org_id m = Some g))"

definition get_escrow_by_order :: "market \<Rightarrow> string \<Rightarrow> string \<Rightarrow> string \<Rightarrow> escrow_agreement option result" where
  "get_escrow_by_order M i t g =
     (if t = [] \<or> g = [] then raise ValueError ''tenant_id and organisation_id are required for scoped escrow lookup''
      else Inr (find (escrow_visible M i t g) (mk_escrows M)))"

definition set_escrow_status ::
  "env \<Rightarrow> escrow_status \<Rightarrow> string option \<Rightarrow> string option \<Rightarrow> string option \<Rightarrow> escrow_agreement \<Rightarrow> escrow_agreement" where
  "set_escrow_status E st by_t by_g tx e = e\<lparr>es_status := st, es_provider_tenant_id := coalesce by_t (es_provider_tenant_id e),
     es_provider_org_id := coalesce by_g (es_provider_org_id e),
     es_provider_ledger_tx_id := coalesce tx (es_provider_ledger_tx_id e),
     es_released_at := coalesce (if st = Escrow_HELD then None else Some (e_now E 0)) (es_released_at e)\<rparr>"

definition update_escrow_status ::
  "env \<Rightarrow> string \<Rightarrow> string \<Rightarrow> string \<Rightarrow> escrow_status \<Rightarrow> string option \<Rightarrow> string option \<Rightarrow> string option \<Rightarrow> market \<Rightarrow> market" where
  "update_escrow_status E t g i st by_t by_g tx M =
     M\<lparr>mk_escrows := map (\<lambda>e. if escrow_key e = (t, g, i) then set_escrow_status E st by_t by_g tx e else e) (mk_escrows M)\<rparr>"

definition save_capability_grant :: "capability_grant \<Rightarrow> market \<Rightarrow> market" where
  "save_capability_grant c M = M\<lparr>mk_grants := upsert grant_key merge_grant c (mk_grants M)\<rparr>"

definition get_capability_grant :: "market \<Rightarrow> string \<Rightarrow> string \<Rightarrow> string \<Rightarrow> capability_grant option" where
  "get_capability_grant M t g i = lookup grant_key (mk_grants M) (t, g, i)"

definition list_agent_grants :: "market \<Rightarrow> string \<Rightarrow> string \<Rightarrow> string \<Rightarrow> bool \<Rightarrow> capability_grant list" where
  "list_agent_grants M t g agent active_only = order_desc cg_granted_at
     (filter (\<lambda>c. cg_tenant_id c = t \<and> cg_organisation_id c = g \<and> cg_agent_id c = agent \<and>
        (active_only \<longrightarrow> cg_status c = Grant_ACTIVE)) (mk_grants M))"

definition has_capability :: "rat \<Rightarrow> market \<Rightarrow> string \<Rightarrow> string \<Rightarrow> string \<Rightarrow> string \<Rightarrow> bool" where
  "has_capability now M t g agent cap \<longleftrightarrow>
     list_ex (\<lambda>c. cg_capability_name c = cap \<and> is_valid now c) (list_agent_grants M t g agent True)"

definition revoke_capability ::
  "string \<Rightarrow> string \<Rightarrow> string \<Rightarrow> string option \<Rightarrow> string option \<Rightarrow> market \<Rightarrow> nat result \<times> market" where
  "revoke_capability t g agent name alias M =
     (let cap = (if py_truthy name then name else alias) in
      if \<not> py_truthy cap then (raise ValueError ''capability_name or capability is required'', M)
      else let hit = (\<lambda>c. cg_tenant_id c = t \<and> cg_organisation_id c = g \<and> cg_agent_id c = agent \<and>
             Some (cg_capability_name c) = cap \<and> cg_status c = Grant_ACTIVE)
        in (Inr (length (filter hit (mk_grants M))),
            M\<lparr>mk_grants := map (\<lambda>c. if hit c then c\<lparr>cg_status := Grant_REVOKED\<rparr> else c) (mk_grants M)\<rparr>))"

section \<open>capability\_manager.py\<close>

definition capability_action ::
  "env \<Rightarrow> capability_proposal \<Rightarrow> agent_record \<Rightarrow> action_proposal" where
  "capability_action E q supervisor =
     \<lparr>pr_id = ''prop-'' @ take 8 (e_uuid E 0), pr_task_id = ''task-cap-'' @ take 6 (e_uuid E 1),
      pr_proposing_agent_id = ag_id supervisor, pr_action_type = PROPOSE_CAPABILITY_EXPANSION,
      pr_target = ''capability://'' @ cq_requested_capability q,
      pr_parameters = [(''target_agent_id'', JStr (cq_target_agent_id q)), (''proposer_agent_id'', JStr (cq_proposer_agent_id q)),
        (''requested_capability'', JStr (cq_requested_capability q)), (''requested_permission'', JStr (cq_requested_permission q)),
        (''performance_score'', JFloat (cq_current_performance_score q)),
        (''supervisor_approved'', JBool (ag_id supervisor \<noteq> cq_target_agent_id q))],
      pr_requested_credits = 0, pr_expected_value_score = 95/100, pr_risk_assessment = ''Low risk capability promotion'',
      pr_rationale = cq_rationale q, pr_evidence_hashes = [], pr_created_at = e_now E 0\<rparr>"

definition with_agent :: "agent_record \<Rightarrow> organisation \<Rightarrow> organisation" where
  "with_agent a g = (if ag_id a \<in> fst ` set (og_agents g) then g else g\<lparr>og_agents := og_agents g @ [(ag_id a, a)]\<rparr>)"

text \<open>The organisation's agents are changed in place; what is left of them is returned.\<close>

definition evaluate_and_grant ::
  "prims \<Rightarrow> env \<Rightarrow> rat \<Rightarrow> policy_engine \<Rightarrow> int \<Rightarrow> capability_proposal \<Rightarrow> agent_record \<Rightarrow> organisation \<Rightarrow>
     (market, capability_grant option \<times> organisation) act" where
  "evaluate_and_grant P E now eng days q supervisor g M =
     (let g' = with_agent supervisor g in
      case evaluate P (env_skip 2 E) now eng (capability_action E q supervisor) g' None of
        Inl x \<Rightarrow> (Inl x, M)
      | Inr d \<Rightarrow>
        if pd_result d \<noteq> Policy_APPROVED then (Inr (None, g'), M)
        else let c = \<lparr>cg_tenant_id = cq_tenant_id q, cg_organisation_id = cq_organisation_id q,
               cg_grant_id = ''grant-'' @ take 8 (e_uuid E 4), cg_agent_id = cq_target_agent_id q,
               cg_capability_name = cq_requested_capability q, cg_permission_level = cq_requested_permission q,
               cg_trigger_performance_score = cq_current_performance_score q,
               cg_granted_by_policy_id = ''RULE-CAPABILITY-01'', cg_status = Grant_ACTIVE, cg_granted_at = now,
               cg_expires_at = now + 86400 * of_int days\<rparr>
          in (Inr (Some c, g'), save_capability_grant c M))"

interpretation grants: keyed_store "lookup grant_key" "upsert grant_key merge_grant" grant_key merge_grant
  by (rule upsert_store) (simp add: grant_key_def merge_grant_def)

section \<open>What an update leaves\<close>

lemma set_order_status_simps [simp]:
  "market_order_key (set_order_status E st did m) = market_order_key m"
  "mo_status (set_order_status E st did m) = st" "mo_order_id (set_order_status E st did m) = mo_order_id m"
  "mo_claimed_by_tenant_id (set_order_status E st did m) = mo_claimed_by_tenant_id m"
  "mo_claimed_by_org_id (set_order_status E st did m) = mo_claimed_by_org_id m"
  by (simp_all add: set_order_status_def market_order_key_def)

lemma set_escrow_status_simps [simp]:
  "escrow_key (set_escrow_status E st bt bg tx e) = escrow_key e"
  "es_status (set_escrow_status E st bt bg tx e) = st" "es_order_id (set_escrow_status E st bt bg tx e) = es_order_id e"
  "es_tenant_id (set_escrow_status E st bt bg tx e) = es_tenant_id e"
  "es_organisation_id (set_escrow_status E st bt bg tx e) = es_organisation_id e"
  "es_client_tenant_id (set_escrow_status E st bt bg tx e) = es_client_tenant_id e"
  "es_client_org_id (set_escrow_status E st bt bg tx e) = es_client_org_id e"
  "es_bounty_amount (set_escrow_status E st bt bg tx e) = es_bounty_amount e"
  by (simp_all add: set_escrow_status_def escrow_key_def)

lemma update_parts:
  "mk_orders (update_order_status E t g i st did M) =
     map (\<lambda>m. if market_order_key m = (t, g, i) then set_order_status E st did m else m) (mk_orders M)"
  "mk_escrows (update_order_status E t g i st did M) = mk_escrows M"
  "mk_orders (update_escrow_status E t g i est bt bg tx M) = mk_orders M"
  "mk_escrows (update_escrow_status E t g i est bt bg tx M) =
     map (\<lambda>e. if escrow_key e = (t, g, i) then set_escrow_status E est bt bg tx e else e) (mk_escrows M)"
  by (simp_all add: update_order_status_def update_escrow_status_def)

section \<open>A claim wins once\<close>

definition taken :: "market \<Rightarrow> key3 \<Rightarrow> bool" where
  "taken M k \<longleftrightarrow> (\<forall>m \<in> set (mk_orders M). market_order_key m = k \<longrightarrow> mo_status m \<noteq> Mkt_OPEN)"

type_synonym claimant = "env \<times> string \<times> string \<times> string \<times> string option"

definition claim_market :: "claimant \<Rightarrow> market \<Rightarrow> key3 \<Rightarrow> market result" where
  "claim_market c M k = (case (c, k) of ((E, by_t, by_g, agent, wid), (t, g, i)) \<Rightarrow>
     (case claim_order E t g i by_t by_g agent wid M of
        (True, M') \<Rightarrow> Inr M' | (False, M') \<Rightarrow> raise ValueError ''already taken''))"

lemma claimed_order_simps [simp]:
  "market_order_key (claimed_order E by_t by_g agent wid m) = market_order_key m"
  "mo_status (claimed_order E by_t by_g agent wid m) = Mkt_CLAIMED"
  "mo_order_id (claimed_order E by_t by_g agent wid m) = mo_order_id m"
  by (simp_all add: claimed_order_def market_order_key_def)

lemma claim_market_Inr:
  assumes "claim_market c M k = Inr M'"
  shows "\<not> taken M k \<and> (\<exists>E by_t by_g agent wid. mk_orders M' =
     map (\<lambda>m. if market_order_key m = k \<and> mo_status m = Mkt_OPEN then claimed_order E by_t by_g agent wid m else m) (mk_orders M))"
proof -
  obtain E by_t by_g agent wid where c: "c = (E, by_t, by_g, agent, wid)" by (cases c)
  obtain t g i where k: "k = (t, g, i)" by (cases k)
  have "\<exists>m \<in> set (mk_orders M). market_order_key m = (t, g, i) \<and> mo_status m = Mkt_OPEN"
    and "mk_orders M' = map (\<lambda>m. if market_order_key m = (t, g, i) \<and> mo_status m = Mkt_OPEN
       then claimed_order E by_t by_g agent wid m else m) (mk_orders M)"
    using assms by (auto simp: c k claim_market_def claim_order_def Let_def split: prod.splits bool.splits)
  then show ?thesis unfolding k taken_def by blast
qed

interpretation claims: consume_once taken claim_market
proof
  fix c M k M' j
  assume "claim_market c M k = Inr M'"
  note facts = claim_market_Inr [OF this]
  show "\<not> taken M k" using facts by blast
  obtain E by_t by_g agent wid where M': "mk_orders M' = map (\<lambda>m. if market_order_key m = k \<and> mo_status m = Mkt_OPEN
      then claimed_order E by_t by_g agent wid m else m) (mk_orders M)" using facts by blast
  show "taken M' k" unfolding taken_def M' ball_map by (simp split: if_splits)
  show "taken M j \<Longrightarrow> taken M' j" unfolding taken_def M' ball_map by (simp split: if_splits)
qed

text \<open>
  An open order is won by one claimant.  In any sequence of \<open>claim_order\<close> calls, by whatever
  tenants, organisations and agents, at most one call for an order returns True.
\<close>

theorem order_claimed_once: "claim_count claim_market attempts M k \<le> 1"
  by (rule claims.at_most_once)

section \<open>Governed capabilities\<close>

lemma has_capability_iff:
  "has_capability now M t g agent cap \<longleftrightarrow> (\<exists>c \<in> set (mk_grants M). cg_tenant_id c = t \<and> cg_organisation_id c = g \<and>
     cg_agent_id c = agent \<and> cg_capability_name c = cap \<and> is_valid now c)"
  by (auto simp: has_capability_def list_ex_iff list_agent_grants_def is_valid_def)

text \<open>
  Revocation is immediate and exact.  After \<open>revoke_capability\<close> of a named capability the agent does not hold it at
  any time, whatever number of grants it had, and every other capability of every agent of every
  organisation is held exactly as before.
\<close>

theorem capability_revocation:
  assumes "revoke_capability t g agent (Some cap) alias M = (Inr n, M')" "cap \<noteq> []"
  shows "\<not> has_capability now M' t g agent cap \<and>
     ((t2, g2, agent2, cap2) \<noteq> (t, g, agent, cap) \<longrightarrow>
        has_capability now M' t2 g2 agent2 cap2 = has_capability now M t2 g2 agent2 cap2)"
proof -
  let ?hit = "\<lambda>c. cg_tenant_id c = t \<and> cg_organisation_id c = g \<and> cg_agent_id c = agent \<and> cg_capability_name c = cap \<and>
      cg_status c = Grant_ACTIVE"
  have M': "mk_grants M' = map (\<lambda>c. if ?hit c then c\<lparr>cg_status := Grant_REVOKED\<rparr> else c) (mk_grants M)"
    using assms by (auto simp: revoke_capability_def Let_def)
  have v: "is_valid now (if ?hit c then c\<lparr>cg_status := Grant_REVOKED\<rparr> else c) \<longleftrightarrow> is_valid now c \<and> \<not> ?hit c" for c
    by (simp add: is_valid_def)
  have eq: "has_capability now M' t3 g3 agent3 cap3 \<longleftrightarrow> (\<exists>c \<in> set (mk_grants M). cg_tenant_id c = t3 \<and>
      cg_organisation_id c = g3 \<and> cg_agent_id c = agent3 \<and> cg_capability_name c = cap3 \<and> is_valid now c \<and> \<not> ?hit c)"
    for t3 g3 agent3 cap3
    unfolding has_capability_iff M' bex_map v by (intro bex_cong refl) simp
  have live: "is_valid now c \<Longrightarrow> cg_status c = Grant_ACTIVE" for c by (simp add: is_valid_def)
  show ?thesis unfolding eq unfolding has_capability_iff using live by blast
qed

definition demo_grant :: capability_grant where
  "demo_grant = \<lparr>cg_tenant_id = ''t2'', cg_organisation_id = ''o2'', cg_grant_id = ''g'', cg_agent_id = ''w'',
     cg_capability_name = ''ml'', cg_permission_level = ''EXECUTE_ADVANCED'', cg_trigger_performance_score = 90,
     cg_granted_by_policy_id = ''RULE-CAPABILITY-01'', cg_status = Grant_ACTIVE, cg_granted_at = 0, cg_expires_at = 100\<rparr>"

definition grant_market :: market where
  "grant_market = \<lparr>mk_orders = [], mk_escrows = [], mk_grants = [demo_grant]\<rparr>"

theorem capability_revocation_witness:
  "\<exists>M'. revoke_capability ''t2'' ''o2'' ''w'' (Some ''ml'') None grant_market = (Inr 1, M') \<and>
     has_capability 5 grant_market ''t2'' ''o2'' ''w'' ''ml'' \<and> \<not> has_capability 5 M' ''t2'' ''o2'' ''w'' ''ml''"
proof -
  obtain M' where run: "revoke_capability ''t2'' ''o2'' ''w'' (Some ''ml'') None grant_market = (Inr 1, M')"
    by (simp add: revoke_capability_def grant_market_def demo_grant_def Let_def)
  have "has_capability 5 grant_market ''t2'' ''o2'' ''w'' ''ml''"
    by (simp add: has_capability_iff grant_market_def demo_grant_def is_valid_def)
  then show ?thesis using run capability_revocation [OF run] by blast
qed

end
