(* ===== verification/MarketFlow.thy ===== *)
theory MarketFlow
  imports Marketplace Governance
begin

text \<open>
  Commerce between organisations (\<open>src/agents/b2b_marketplace_coordinator.py\<close>): a client publishes an order and
  locks its bounty, a provider discovers and claims it, executes and settles it, or the client takes the
  bounty back.  Client and provider keep their own ledgers; the reconciler works on the provider's, as
  in every caller.  The executor is a parameter.
\<close>

section \<open>publish\_b2b\_order\<close>

record publish_state =
  ps_ledger :: ledger
  ps_market :: market
  ps_org :: organisation

record order_request =
  oq_tenant_id :: string
  oq_org_id :: string
  oq_title :: string
  oq_description :: string
  oq_required_capability :: string
  oq_bounty_amount :: int
  oq_sla_timeout_seconds :: int
  oq_specification :: "(string \<times> json) list option"

definition publish_action :: "env \<Rightarrow> order_request \<Rightarrow> agent_record \<Rightarrow> string \<Rightarrow> action_proposal" where
  "publish_action E q a i =
     \<lparr>pr_id = ''prop-'' @ take 8 (e_uuid E 1), pr_task_id = ''task-mkt-'' @ take 6 (e_uuid E 2),
      pr_proposing_agent_id = ag_id a, pr_action_type = PUBLISH_MARKETPLACE_ORDER, pr_target = ''marketplace://order/'' @ i,
      pr_parameters = [(''bounty_amount'', JInt (oq_bounty_amount q)), (''required_capability'', JStr (oq_required_capability q))],
      pr_requested_credits = oq_bounty_amount q, pr_expected_value_score = 9/10,
      pr_risk_assessment = ''Low risk B2B bounty publication'',
      pr_rationale = ''Publishing B2B work order: '' @ oq_title q, pr_evidence_hashes = [], pr_created_at = e_now E 0\<rparr>"

definition market_order_id :: "env \<Rightarrow> string" where
  "market_order_id E = ''mkt-order-'' @ take 8 (e_uuid E 0)"

definition lock_tx :: "string \<Rightarrow> string" where "lock_tx i = ''escrow-lock-'' @ i"
definition release_tx :: "string \<Rightarrow> string" where "release_tx i = ''escrow-release-'' @ i"
definition refund_tx :: "string \<Rightarrow> string" where "refund_tx i = ''escrow-refund-'' @ i"
definition revenue_tx :: "string \<Rightarrow> string" where "revenue_tx i = ''revenue-b2b-'' @ i"

definition new_escrow :: "env \<Rightarrow> order_request \<Rightarrow> string \<Rightarrow> escrow_agreement" where
  "new_escrow E q i = \<lparr>es_tenant_id = oq_tenant_id q, es_organisation_id = oq_org_id q,
     es_escrow_id = ''escrow-'' @ take 8 (e_uuid E 8), es_order_id = i, es_client_tenant_id = oq_tenant_id q,
     es_client_org_id = oq_org_id q, es_bounty_amount = oq_bounty_amount q, es_bounty_asset = ''USDG'',
     es_provider_tenant_id = None, es_provider_org_id = None, es_status = Escrow_HELD,
     es_client_ledger_tx_id = Some (lock_tx i), es_provider_ledger_tx_id = None, es_created_at = e_now E 8,
     es_released_at = None\<rparr>"

definition publish_b2b_order ::
  "prims \<Rightarrow> env \<Rightarrow> rat \<Rightarrow> breaker_db option \<Rightarrow> policy_engine \<Rightarrow> order_request \<Rightarrow> agent_record \<Rightarrow> (publish_state, market_order) act"
where
  "publish_b2b_order P E now breaker eng q a s =
     (if (case breaker of None \<Rightarrow> False | Some B \<Rightarrow> is_paused B (oq_tenant_id q) (oq_org_id q))
      then (raise PermissionError ''circuit breaker is PAUSED: new order publication blocked'', s)
      else if oq_bounty_amount q < 0 then (raise ValidationError ''requested_credits must be at least 0'', s)
      else let i = market_order_id E; s = s\<lparr>ps_org := with_agent a (ps_org s)\<rparr> in
        case evaluate P (env_skip 3 E) now eng (publish_action E q a i) (ps_org s) (Some (get_balance (ps_ledger s) TREASURY)) of
          Inl x \<Rightarrow> (Inl x, s)
        | Inr d \<Rightarrow>
          if pd_result d \<noteq> Policy_APPROVED then (raise PermissionError ''Policy rejected B2B order publication'', s)
          else case transfer (env_skip 5 E) (ps_ledger s) TREASURY ESCROW (oq_bounty_amount q)
              (''Escrow lock for B2B Order '' @ i) (Some (lock_tx i)) of
            Inl x \<Rightarrow> (Inl x, s)
          | Inr (e, L) \<Rightarrow>
            let s = s\<lparr>ps_ledger := L\<rparr> in
            (case create_market_order P (env_skip 7 E) (oq_tenant_id q) (oq_org_id q) i (oq_title q) (oq_description q)
                (oq_required_capability q) (oq_bounty_amount q) ''USDG'' (oq_sla_timeout_seconds q) (oq_specification q) of
               Inl x \<Rightarrow> (Inl x, s)
             | Inr m \<Rightarrow>
               (case create_order m (ps_market s) of
                  (Inl x, M) \<Rightarrow> (Inl x, s\<lparr>ps_market := M\<rparr>)
                | (Inr m1, M) \<Rightarrow>
                  (case save_escrow (new_escrow E q i) M of
                     (Inl x, M') \<Rightarrow> (Inl x, s\<lparr>ps_market := M'\<rparr>)
                   | (Inr e1, M') \<Rightarrow> (Inr m, s\<lparr>ps_market := M'\<rparr>)))))"

section \<open>discover\_and\_claim\<close>

definition eligible_order ::
  "prims \<Rightarrow> work_db \<Rightarrow> market \<Rightarrow> string \<Rightarrow> string \<Rightarrow> string option \<Rightarrow> market_order option" where
  "eligible_order P D M t g target =
     (let full = (\<lambda>p. if py_truthy target \<and> target \<noteq> Some (pm_order_id p) then None
          else case get_order_by_id M (pm_order_id p) of
            None \<Rightarrow> None | Some m \<Rightarrow> if mo_tenant_id m = t \<and> mo_organisation_id m = g then None else Some m)
      in case List.map_filter full (list_public_orders P D (Some ''OPEN'') M) of [] \<Rightarrow> None | m # ms \<Rightarrow> Some m)"

definition ceo_agent :: "string \<Rightarrow> agent_record" where
  "ceo_agent g = \<lparr>ag_id = g @ ''-ceo'', ag_role = Role_CEO, ag_model_name = ''gemini-2.5-flash'', ag_credit_balance = 0,
     ag_reputation_score = 100, ag_authority_ceiling = 25, ag_allowed_action_types = [PROPOSE_CAPABILITY_EXPANSION],
     ag_status = Agent_ACTIVE, ag_successful_tasks = 0, ag_failed_tasks = 0, ag_policy_violations = 0,
     ag_performance_score = 100, ag_risk_score = 0, ag_resource_efficiency = 1, ag_reliability_score = 100,
     ag_task_history = []\<rparr>"

definition expansion_request :: "prims \<Rightarrow> env \<Rightarrow> string \<Rightarrow> string \<Rightarrow> agent_record \<Rightarrow> string \<Rightarrow> capability_proposal" where
  "expansion_request P E t g a cap =
     \<lparr>cq_tenant_id = t, cq_organisation_id = g, cq_proposal_id = ''prop-cap-'' @ take 6 (e_uuid E 0),
      cq_target_agent_id = ag_id a, cq_proposer_agent_id = g @ ''-ceo'', cq_requested_capability = cap,
      cq_requested_permission = ''EXECUTE_ADVANCED'', cq_current_performance_score = ag_performance_score a,
      cq_rationale = ''Empirical score '' @ format_2f P (ag_performance_score a) @ '' qualifies agent for '' @ cap,
      cq_created_at = e_now E 0\<rparr>"

text \<open>Whether the provider's agent holds the capability, after a governed expansion if it may ask for one.\<close>

definition ensure_capability ::
  "prims \<Rightarrow> env \<Rightarrow> rat \<Rightarrow> policy_engine \<Rightarrow> int \<Rightarrow> string \<Rightarrow> string \<Rightarrow> agent_record \<Rightarrow> string \<Rightarrow>
     (market \<times> organisation, bool) act" where
  "ensure_capability P E now eng days t g a cap s =
     (case s of (M, og) \<Rightarrow>
        if has_capability now M t g (ag_id a) cap then (Inr True, s)
        else if scale_score (ag_performance_score a) < 4/5 then (Inr False, s)
        else let og' = with_agent a (with_agent (ceo_agent g) og) in
          (case evaluate_and_grant P (env_skip 1 E) now eng days (expansion_request P E t g a cap) (ceo_agent g) og' M of
             (Inl x, M') \<Rightarrow> (Inl x, (M', og'))
           | (Inr (grant, og''), M') \<Rightarrow> (Inr (grant \<noteq> None), (M', og''))))"

definition claim_if_capable ::
  "env \<Rightarrow> string \<Rightarrow> string \<Rightarrow> agent_record \<Rightarrow> market_order \<Rightarrow> bool \<Rightarrow> (market \<times> organisation, market_order option) act" where
  "claim_if_capable E t g a m capable s =
     (if \<not> capable then (Inr None, s)
      else case claim_order E (mo_tenant_id m) (mo_organisation_id m) (mo_order_id m) t g (ag_id a)
          (Some (''wo-b2b-'' @ mo_order_id m)) (fst s) of
        (won, M) \<Rightarrow> (Inr (if won then get_order M (mo_tenant_id m) (mo_organisation_id m) (mo_order_id m) else None),
          (M, snd s)))"

definition discover_and_claim ::
  "prims \<Rightarrow> env \<Rightarrow> rat \<Rightarrow> breaker_db option \<Rightarrow> work_db \<Rightarrow> policy_engine \<Rightarrow> int \<Rightarrow> string \<Rightarrow> string \<Rightarrow> agent_record \<Rightarrow>
     string option \<Rightarrow> (market \<times> organisation, market_order option) act" where
  "discover_and_claim P E now breaker D eng days t g a target s =
     (if (case breaker of None \<Rightarrow> False | Some B \<Rightarrow> is_paused B t g)
      then (raise PermissionError ''circuit breaker is PAUSED: order claim blocked'', s)
      else case eligible_order P D (fst s) t g target of
        None \<Rightarrow> (Inr None, s)
      | Some m \<Rightarrow> act_bind (ensure_capability P E now eng days t g a (mo_required_capability m))
          (claim_if_capable (env_skip 6 E) t g a m) s)"

section \<open>execute\_and\_settle\<close>

record 'c trade_state =
  ts_client :: ledger
  ts_provider :: "ledger surplus_state"
  ts_market :: market
  ts_work :: "work_db option"
  ts_credits :: 'c

type_synonym 'c work_run = "work_order \<Rightarrow> string \<Rightarrow> string \<Rightarrow> ('c, deliverable) act"

record b2b_outcome =
  bo_order_id :: string
  bo_work_order_id :: string
  bo_deliverable :: deliverable
  bo_receipt :: work_receipt
  bo_revenue_event :: revenue_event
  bo_net_surplus_usdg :: int
  bo_allocated_to_mission_budget :: int
  bo_allocated_to_reserve :: int
  bo_client_escrow_tx_id :: string
  bo_provider_revenue_tx_id :: string
  bo_is_simulated :: bool
  bo_success :: bool

definition b2b_work_order :: "env \<Rightarrow> string \<Rightarrow> string \<Rightarrow> market_order \<Rightarrow> work_order" where
  "b2b_work_order E t g m =
     \<lparr>wo_work_order_id = py_or (mo_work_order_id m) (''wo-b2b-'' @ mo_order_id m), wo_tenant_id = t, wo_organisation_id = g,
      wo_client_id = mo_organisation_id m, wo_title = mo_title m, wo_description = mo_description m,
      wo_deliverable_type = ''B2B_DELIVERABLE'', wo_required_orbio_credits = 1000, wo_bounty_amount = mo_bounty_amount m,
      wo_bounty_asset = USDG, wo_deadline_seconds = 3600, wo_status = Work_PROPOSED, wo_created_at = e_now E 0, wo_metadata = []\<rparr>"

definition on_work :: "(work_db \<Rightarrow> work_db) \<Rightarrow> 'c trade_state \<Rightarrow> 'c trade_state" where
  "on_work f s = s\<lparr>ts_work := map_option f (ts_work s)\<rparr>"

text \<open>The checks before anything happens; the result is the escrow agreement.\<close>

definition settle_preflight ::
  "rat \<Rightarrow> market \<Rightarrow> market_order \<Rightarrow> string \<Rightarrow> string \<Rightarrow> string \<Rightarrow> escrow_agreement result" where
  "settle_preflight now M m t g agent =
     (if mo_status m \<noteq> Mkt_CLAIMED then raise ValueError ''Marketplace order cannot be executed: must be CLAIMED.''
      else if mo_claimed_by_org_id m \<noteq> Some g \<or> mo_claimed_by_agent_id m \<noteq> Some agent
      then raise PermissionError ''Caller is not the authorized claimant''
      else case get_escrow_by_order M (mo_order_id m) (mo_tenant_id m) (mo_organisation_id m) of
        Inl x \<Rightarrow> Inl x
      | Inr None \<Rightarrow> raise ValueError ''Active escrow not found or not HELD''
      | Inr (Some e) \<Rightarrow>
        if es_status e \<noteq> Escrow_HELD then raise ValueError ''Active escrow not found or not HELD''
        else if \<not> has_capability now M t g agent (mo_required_capability m)
        then raise PermissionError ''Producer agent does not hold active, unrevoked capability''
        else Inr e)"

text \<open>The payment of a verified deliverable: client escrow, provider revenue, surplus, records.\<close>

definition settle_payment ::
  "prims \<Rightarrow> surplus_config \<Rightarrow> env \<Rightarrow> string \<Rightarrow> string \<Rightarrow> market_order \<Rightarrow> escrow_agreement \<Rightarrow> work_order \<Rightarrow> deliverable \<Rightarrow>
     work_receipt \<Rightarrow> ('c trade_state, revenue_event) act" where
  "settle_payment P C E t g m e w d r s =
     (case transfer E (ts_client s) ESCROW EXTERNAL_SINK (mo_bounty_amount m)
        (''Escrow released to provider '' @ g @ '' for order '' @ mo_order_id m) (Some (release_tx (mo_order_id m))) of
        Inl x \<Rightarrow> (Inl x, s)
      | Inr (_, L) \<Rightarrow>
        let s = s\<lparr>ts_client := L\<rparr> in
        (case deposit_revenue (env_skip 2 E) (ss_ledger (ts_provider s)) (mo_bounty_amount m)
            (''B2B revenue from client '' @ mo_organisation_id m @ '' for order '' @ mo_order_id m)
            (Some (revenue_tx (mo_order_id m))) of
           Inl x \<Rightarrow> (Inl x, s)
         | Inr (_, L2) \<Rightarrow>
           (case reconcile_surplus mem_ops P C (env_skip 4 E) w r (mo_bounty_amount m) 0 (dl_orbio_credits_consumed d) None
               ((ts_provider s)\<lparr>ss_ledger := L2\<rparr>) of
              (Inl x, S) \<Rightarrow> (Inl x, s\<lparr>ts_provider := S\<rparr>)
            | (Inr ev, S) \<Rightarrow>
              let s = on_work (save_revenue_event t g ev) (s\<lparr>ts_provider := S\<rparr>);
                  M = update_escrow_status (env_skip 12 E) (es_tenant_id e) (es_organisation_id e) (es_escrow_id e)
                    Escrow_RELEASED (Some t) (Some g) (Some (revenue_tx (mo_order_id m))) (ts_market s);
                  M = update_order_status (env_skip 13 E) (mo_tenant_id m) (mo_organisation_id m) (mo_order_id m)
                    Mkt_COMPLETED (Some (dl_deliverable_id d)) M
              in (Inr ev, s\<lparr>ts_market := M\<rparr>))))"

definition execute_and_settle ::
  "'c work_run \<Rightarrow> prims \<Rightarrow> surplus_config \<Rightarrow> string \<Rightarrow> string \<Rightarrow> env \<Rightarrow> rat \<Rightarrow> market_order \<Rightarrow> string \<Rightarrow> string \<Rightarrow> string \<Rightarrow>
     ('c trade_state, b2b_outcome) act" where
  "execute_and_settle run P C who secret E now m t g agent s =
     (case settle_preflight now (ts_market s) m t g agent of
        Inl x \<Rightarrow> (Inl x, s)
      | Inr e \<Rightarrow>
        let w = b2b_work_order E t g m; s = on_work (save_work_order w) s in
        (case run w agent g (ts_credits s) of
           (Inl x, c) \<Rightarrow> (Inl x, s\<lparr>ts_credits := c\<rparr>)
         | (Inr d, c) \<Rightarrow>
           let s = on_work (save_deliverable t g d) (s\<lparr>ts_credits := c\<rparr>);
               r = verify_work P (env_skip 1 E) who secret w d None;
               s = on_work (save_receipt t g r) s
           in if \<not> is_verified r then (raise ValueError ''B2B Deliverable failed independent verification'', s)
             else act_bind (settle_payment P C (env_skip 3 E) t g m e w d r) (\<lambda>ev. act_return
               \<lparr>bo_order_id = mo_order_id m, bo_work_order_id = wo_work_order_id w, bo_deliverable = d, bo_receipt = r,
                bo_revenue_event = ev, bo_net_surplus_usdg = re_net_surplus_usdg ev,
                bo_allocated_to_mission_budget = re_allocated_to_mission_budget ev,
                bo_allocated_to_reserve = re_allocated_to_reserve ev, bo_client_escrow_tx_id = release_tx (mo_order_id m),
                bo_provider_revenue_tx_id = revenue_tx (mo_order_id m),
                bo_is_simulated = json_truthy (case map_of (dl_execution_telemetry d) ''is_simulated'' of
                  None \<Rightarrow> JBool True | Some j \<Rightarrow> j), bo_success = True\<rparr>) s))"

section \<open>refund\_escrow\<close>

definition refunded_market :: "env \<Rightarrow> market_order \<Rightarrow> escrow_agreement \<Rightarrow> market \<Rightarrow> market" where
  "refunded_market E m e M =
     update_order_status (env_skip 3 E) (mo_tenant_id m) (mo_organisation_id m) (mo_order_id m) Mkt_CANCELLED None
       (update_escrow_status (env_skip 2 E) (es_tenant_id e) (es_organisation_id e) (es_escrow_id e) Escrow_REFUNDED None None None M)"

definition refund_escrow ::
  "env \<Rightarrow> string \<Rightarrow> string \<Rightarrow> string \<Rightarrow> string \<Rightarrow> (ledger \<times> market, escrow_agreement) act" where
  "refund_escrow E t g i reason s =
     (case s of (L, M) \<Rightarrow>
        case get_order M t g i of
          None \<Rightarrow> (raise ValueError ''Marketplace order not found.'', s)
        | Some m \<Rightarrow>
          if mo_status m = Mkt_COMPLETED then (raise ValueError ''Cannot refund escrow for completed order'', s)
          else case get_escrow_by_order M i t g of
            Inl x \<Rightarrow> (Inl x, s)
          | Inr None \<Rightarrow> (raise ValueError ''No escrow in HELD status found for order'', s)
          | Inr (Some e) \<Rightarrow>
            if es_status e \<noteq> Escrow_HELD then (raise ValueError ''No escrow in HELD status found for order'', s)
            else case transfer E L ESCROW TREASURY (es_bounty_amount e) (''Escrow refund for order '' @ i @ '': '' @ reason)
                (Some (refund_tx i)) of
              Inl x \<Rightarrow> (Inl x, s)
            | Inr (_, L') \<Rightarrow>
              let M2 = refunded_market E m e M
              in case get_escrow_by_order M2 i t g of
                Inl x \<Rightarrow> (Inl x, (L', M2))
              | Inr None \<Rightarrow> (raise RuntimeError ''Escrow missing after refund update.'', (L', M2))
              | Inr (Some e2) \<Rightarrow> (Inr e2, (L', M2)))"

section \<open>What every action leaves of the market\<close>

definition escrow_ids :: "escrow_agreement \<Rightarrow> string \<times> string \<times> string \<times> string \<times> string" where
  "escrow_ids e = (es_order_id e, es_tenant_id e, es_organisation_id e, es_client_tenant_id e, es_client_org_id e)"

definition market_ids :: "market \<Rightarrow> string list \<times> (string \<times> string \<times> string \<times> string \<times> string) list" where
  "market_ids M = (map mo_order_id (mk_orders M), map escrow_ids (mk_escrows M))"

text \<open>One escrow per order id, owned by its client.\<close>

definition market_ok :: "market \<Rightarrow> bool" where
  "market_ok M \<longleftrightarrow> (case market_ids M of (os, es) \<Rightarrow> distinct os \<and> distinct (map fst es) \<and>
     (\<forall>x \<in> set es. case x of (i, t, g, ct, cg) \<Rightarrow> ct = t \<and> cg = g \<and> i \<in> set os))"

definition closed :: "market \<Rightarrow> string \<Rightarrow> bool" where
  "closed M i \<longleftrightarrow> (\<exists>e \<in> set (mk_escrows M). es_order_id e = i \<and> es_status e \<noteq> Escrow_HELD)"

lemma map_if: "(\<And>x. f (h x) = f x) \<Longrightarrow> map f (map (\<lambda>x. if P x then h x else x) xs) = map f xs"
  by simp

lemma update_order_ids [simp]: "market_ids (update_order_status E t g i st did M) = market_ids M"
  unfolding market_ids_def update_parts by (simp add: map_if del: map_map)

lemma update_escrow_ids [simp]: "market_ids (update_escrow_status E t g i st bt bg tx M) = market_ids M"
  unfolding market_ids_def update_parts by (simp add: map_if escrow_ids_def del: map_map)

lemma claim_parts:
  assumes "claim_order E t g i bt bg ag wid M = (b, M')"
  shows "mk_escrows M' = mk_escrows M" "mk_orders M' = map (\<lambda>m. if market_order_key m = (t, g, i) \<and> mo_status m = Mkt_OPEN
     then claimed_order E bt bg ag wid m else m) (mk_orders M)"
proof -
  have "M' = snd (claim_order E t g i bt bg ag wid M)" using assms by simp
  then show "mk_escrows M' = mk_escrows M" "mk_orders M' = map (\<lambda>m. if market_order_key m = (t, g, i) \<and> mo_status m = Mkt_OPEN
     then claimed_order E bt bg ag wid m else m) (mk_orders M)" by (simp_all add: claim_order_def Let_def)
qed

lemma claim_ids:
  assumes "claim_order E t g i bt bg ag wid M = (b, M')"
  shows "market_ids M' = market_ids M"
  unfolding market_ids_def claim_parts [OF assms] by (simp add: map_if del: map_map)

lemma market_ok_ids: "market_ids M' = market_ids M \<Longrightarrow> market_ok M \<Longrightarrow> market_ok M'"
  by (simp add: market_ok_def)

lemma closed_update:
  "closed (update_escrow_status E t g x st bt bg tx M) i \<longleftrightarrow> (\<exists>e \<in> set (mk_escrows M). es_order_id e = i \<and>
     (if escrow_key e = (t, g, x) then st else es_status e) \<noteq> Escrow_HELD)"
  unfolding closed_def update_parts bex_map by (rule bex_cong, rule refl, simp)

lemma update_escrow_closes:
  assumes "closed M i" "st \<noteq> Escrow_HELD"
  shows "closed (update_escrow_status E t g x st bt bg tx M) i"
  using assms(1) unfolding closed_update unfolding closed_def using assms(2) by (meson)

lemma update_escrow_closes_its:
  assumes "e \<in> set (mk_escrows M)" "st \<noteq> Escrow_HELD"
  shows "closed (update_escrow_status E (es_tenant_id e) (es_organisation_id e) (es_escrow_id e) st bt bg tx M) (es_order_id e)"
  unfolding closed_update by (rule bexI [OF _ assms(1)]) (simp add: escrow_key_def assms(2))

lemma closed_order_status [simp]: "closed (update_order_status E t g i st did M) x \<longleftrightarrow> closed M x"
  by (simp add: closed_def update_parts)

lemma create_order_parts:
  assumes "create_order m M = (r, M')" "mo_order_id m \<notin> mo_order_id ` set (mk_orders M)"
  shows "mk_escrows M' = mk_escrows M \<and> mk_orders M' = mk_orders M @ [inserted_order m] \<and> r = Inr m"
proof -
  have "get_order M (mo_tenant_id m) (mo_organisation_id m) (mo_order_id m) = None"
  proof (rule ccontr)
    assume "get_order M (mo_tenant_id m) (mo_organisation_id m) (mo_order_id m) \<noteq> None"
    then obtain x where "lookup market_order_key (mk_orders M) (mo_tenant_id m, mo_organisation_id m, mo_order_id m) = Some x"
      unfolding get_order_def by blast
    from lookup_SomeD [OF this] have "x \<in> set (mk_orders M)" "mo_order_id x = mo_order_id m"
      by (simp_all add: market_order_key_def)
    then show False using assms(2) by (metis imageI)
  qed
  then show ?thesis using assms(1) by (auto simp: create_order_def)
qed

lemma save_escrow_parts:
  assumes "save_escrow e M = (r, M')"
  shows "mk_orders M' = mk_orders M \<and> (mk_escrows M' = mk_escrows M \<or> mk_escrows M' = mk_escrows M @ [e])"
  using assms by (auto simp: save_escrow_def split: option.splits if_splits)

lemma create_market_order_id: "create_market_order P E t g i ti d c b a sl sp = Inr m \<Longrightarrow> mo_order_id m = i"
  by (auto simp: create_market_order_def Let_def split: if_splits)

text \<open>The market after a publication: nothing, an order, or an order and its escrow.\<close>

lemma publish_market:
  assumes "publish_b2b_order P E now br eng q a s = (r, s')" "market_order_id E \<notin> mo_order_id ` set (mk_orders (ps_market s))"
  shows "ps_market s' = ps_market s \<or> (\<exists>m. mo_order_id m = market_order_id E \<and>
     mk_orders (ps_market s') = mk_orders (ps_market s) @ [inserted_order m] \<and>
     (mk_escrows (ps_market s') = mk_escrows (ps_market s) \<or>
      mk_escrows (ps_market s') = mk_escrows (ps_market s) @ [new_escrow E q (market_order_id E)]))"
proof (cases "ps_market s' = ps_market s")
  case False
  then obtain e L m where mk: "create_market_order P (env_skip 7 E) (oq_tenant_id q) (oq_org_id q) (market_order_id E)
        (oq_title q) (oq_description q) (oq_required_capability q) (oq_bounty_amount q) ''USDG'' (oq_sla_timeout_seconds q)
        (oq_specification q) = Inr m"
    and rest: "(case create_order m (ps_market s) of (Inl x, M) \<Rightarrow> (Inl x, s\<lparr>ps_org := with_agent a (ps_org s), ps_ledger := L, ps_market := M\<rparr>)
       | (Inr m1, M) \<Rightarrow> (case save_escrow (new_escrow E q (market_order_id E)) M of
            (Inl x, M') \<Rightarrow> (Inl x, s\<lparr>ps_org := with_agent a (ps_org s), ps_ledger := L, ps_market := M'\<rparr>)
          | (Inr e1, M') \<Rightarrow> (Inr m, s\<lparr>ps_org := with_agent a (ps_org s), ps_ledger := L, ps_market := M'\<rparr>))) = (r, s')"
    using assms(1)
    by (auto simp: publish_b2b_order_def Let_def split: if_splits sum.splits option.splits prod.splits)
  note i = create_market_order_id [OF mk]
  obtain r1 M1 where c: "create_order m (ps_market s) = (r1, M1)" by fastforce
  note c2 = create_order_parts [OF c, unfolded i, OF assms(2)]
  obtain r2 M2 where e: "save_escrow (new_escrow E q (market_order_id E)) M1 = (r2, M2)" by fastforce
  have "ps_market s' = M2" using rest c c2 e by (auto split: sum.splits)
  then show ?thesis using c2 save_escrow_parts [OF e] i by auto
qed simp

text \<open>A settlement or a refund ends in one of two ways.\<close>

lemma settle_market:
  assumes "execute_and_settle run P C who secret E now m t g agent s = (r, s')"
  shows "ts_market s' = ts_market s \<or> (\<exists>e E1 E2 tx did. e \<in> set (mk_escrows (ts_market s)) \<and> es_order_id e = mo_order_id m \<and>
     ts_market s' = update_order_status E2 (mo_tenant_id m) (mo_organisation_id m) (mo_order_id m) Mkt_COMPLETED did
       (update_escrow_status E1 (es_tenant_id e) (es_organisation_id e) (es_escrow_id e) Escrow_RELEASED (Some t) (Some g) tx (ts_market s)))"
proof (cases "settle_preflight now (ts_market s) m t g agent")
  case (Inr e)
  then have "e \<in> set (mk_escrows (ts_market s)) \<and> es_order_id e = mo_order_id m"
    by (auto simp: settle_preflight_def get_escrow_by_order_def escrow_visible_def dest!: find_SomeD
        split: if_splits option.splits)
  moreover have "ts_market s' = ts_market s \<or> (\<exists>E1 E2 tx did. ts_market s' =
      update_order_status E2 (mo_tenant_id m) (mo_organisation_id m) (mo_order_id m) Mkt_COMPLETED did
       (update_escrow_status E1 (es_tenant_id e) (es_organisation_id e) (es_escrow_id e) Escrow_RELEASED (Some t) (Some g) tx (ts_market s)))"
    using assms Inr
    by (auto simp: execute_and_settle_def settle_payment_def on_work_def Let_def act_bind_def act_return_def
        split: prod.splits sum.splits if_splits) blast+
  ultimately show ?thesis by blast
qed (use assms in \<open>auto simp: execute_and_settle_def\<close>)

definition refund_memo :: "string \<Rightarrow> string \<Rightarrow> string" where
  "refund_memo i reason = ''Escrow refund for order '' @ i @ '': '' @ reason"

lemma refund_cases:
  assumes "refund_escrow E t g i reason (L, M) = (r, (L', M'))"
  shows "isl r \<and> L' = L \<and> M' = M \<or> (\<exists>m e x. get_order M t g i = Some m \<and> mo_status m \<noteq> Mkt_COMPLETED \<and>
     get_escrow_by_order M i t g = Inr (Some e) \<and> es_status e = Escrow_HELD \<and>
     transfer E L ESCROW TREASURY (es_bounty_amount e) (refund_memo i reason) (Some (refund_tx i)) = Inr (x, L') \<and>
     M' = refunded_market E m e M)"
  using assms unfolding refund_escrow_def refund_memo_def [symmetric] Let_def
  by (auto split: option.splits sum.splits if_splits prod.splits)

lemma refund_market:
  assumes "refund_escrow E t g i reason (L, M) = (r, (L', M'))"
  shows "M' = M \<or> (\<exists>e m. e \<in> set (mk_escrows M) \<and> es_order_id e = i \<and> M' = refunded_market E m e M)"
proof (cases "M' = M")
  case False
  then obtain m e where e: "get_escrow_by_order M i t g = Inr (Some e)" and M': "M' = refunded_market E m e M"
    using refund_cases [OF assms] by blast
  have "e \<in> set (mk_escrows M)" "es_order_id e = i" using e
    by (auto simp: get_escrow_by_order_def escrow_visible_def dest!: find_SomeD split: if_splits)
  then show ?thesis using M' by blast
qed simp

lemma claim_market_parts:
  assumes "discover_and_claim P E now br D eng days t g a target (M, og) = (r, (M', og'))"
  shows "mk_escrows M' = mk_escrows M \<and> market_ids M' = market_ids M"
proof -
  have save: "mk_orders (save_capability_grant c X) = mk_orders X \<and> mk_escrows (save_capability_grant c X) = mk_escrows X" for c X
    by (simp add: save_capability_grant_def)
  have ensure: "mk_orders M1 = mk_orders M \<and> mk_escrows M1 = mk_escrows M"
    if "ensure_capability P E now eng days t g a cap (M, og) = (r1, (M1, og1))" for cap r1 M1 og1
    using that save
    by (auto simp: ensure_capability_def evaluate_and_grant_def Let_def split: if_splits sum.splits prod.splits)
  have claim: "mk_escrows M' = mk_escrows M1 \<and> market_ids M' = market_ids M1"
    if "claim_if_capable E1 t g a m ok (M1, og1) = (r, (M', og'))" for E1 m ok M1 og1
  proof (cases ok)
    case True
    obtain b M2 where c: "claim_order E1 (mo_tenant_id m) (mo_organisation_id m) (mo_order_id m) t g (ag_id a)
        (Some (''wo-b2b-'' @ mo_order_id m)) M1 = (b, M2)" by fastforce
    have "M' = M2" using that c True unfolding claim_if_capable_def fst_conv c by simp
    then show ?thesis using claim_ids [OF c] claim_parts(1) [OF c] by simp
  qed (use that in \<open>simp add: claim_if_capable_def\<close>)
  consider "M' = M" | m where "act_bind (ensure_capability P E now eng days t g a (mo_required_capability m))
      (claim_if_capable (env_skip 6 E) t g a m) (M, og) = (r, (M', og'))"
    using assms by (auto simp: discover_and_claim_def split: if_splits option.splits)
  then show ?thesis
  proof cases
    case (2 m)
    obtain r1 M1 og1 where e: "ensure_capability P E now eng days t g a (mo_required_capability m) (M, og) = (r1, (M1, og1))"
      by (metis prod.exhaust)
    then have "M' = M1 \<or> (\<exists>ok. claim_if_capable (env_skip 6 E) t g a m ok (M1, og1) = (r, (M', og')))"
      using 2 by (auto simp: act_bind_def split: sum.splits)
    then show ?thesis using claim ensure [OF e] unfolding market_ids_def by fastforce
  qed simp
qed

section \<open>An escrow pays once\<close>

text \<open>Every action of the coordinator, by any client or provider; published order ids are fresh.\<close>

inductive market_step :: "market \<Rightarrow> market \<Rightarrow> bool" where
  step_publish: "publish_b2b_order P E now br eng q a s = (r, s') \<Longrightarrow>
     market_order_id E \<notin> mo_order_id ` set (mk_orders (ps_market s)) \<Longrightarrow> market_step (ps_market s) (ps_market s')"
| step_discover: "discover_and_claim P E now br D eng days t g a target (M, og) = (r, (M', og')) \<Longrightarrow> market_step M M'"
| step_execute: "execute_and_settle (run :: credit_store work_run) P C who secret E now m t g agent s = (r, s') \<Longrightarrow>
     market_step (ts_market s) (ts_market s')"
| step_refund: "refund_escrow E t g i reason (L, M) = (r, (L', M')) \<Longrightarrow> market_step M M'"

inductive_cases market_stepE: "market_step M M'"

lemma market_ok_append:
  assumes "market_ok M" "mo_order_id m \<notin> mo_order_id ` set (mk_orders M)"
    and "mk_orders M' = mk_orders M @ [inserted_order m]"
    and "mk_escrows M' = mk_escrows M \<or> mk_escrows M' = mk_escrows M @ [new_escrow E q (mo_order_id m)]"
  shows "market_ok M'"
proof -
  have ids: "mo_order_id (inserted_order m) = mo_order_id m" by (simp add: inserted_order_def)
  have e: "escrow_ids (new_escrow E q i) = (i, oq_tenant_id q, oq_org_id q, oq_tenant_id q, oq_org_id q)" for i
    by (simp add: escrow_ids_def new_escrow_def)
  have sub: "fst ` set (map escrow_ids (mk_escrows M)) \<subseteq> mo_order_id ` set (mk_orders M)"
    using assms(1) by (auto simp: market_ok_def market_ids_def)
  show ?thesis
    using assms(4)
  proof
    assume "mk_escrows M' = mk_escrows M"
    then show ?thesis using assms(1-3) ids by (simp add: market_ok_def market_ids_def case_prod_beta)
  next
    assume M': "mk_escrows M' = mk_escrows M @ [new_escrow E q (mo_order_id m)]"
    have "mo_order_id m \<notin> fst ` set (map escrow_ids (mk_escrows M))" using sub assms(2) by blast
    then show ?thesis using assms(1-3) ids M' by (simp add: market_ok_def market_ids_def case_prod_beta e image_image)
  qed
qed

lemma market_step_keeps:
  assumes "market_step M M'" "market_ok M"
  shows "market_ok M' \<and> (closed M i \<longrightarrow> closed M' i)"
  using assms(1)
proof cases
  case (step_publish P E now br eng q a s r s')
  note m = publish_market [OF step_publish(3,4)]
  then show ?thesis
  proof
    assume "ps_market s' = ps_market s"
    then show ?thesis using assms(2) step_publish by simp
  next
    assume "\<exists>m. mo_order_id m = market_order_id E \<and> mk_orders (ps_market s') = mk_orders (ps_market s) @ [inserted_order m] \<and>
     (mk_escrows (ps_market s') = mk_escrows (ps_market s) \<or>
      mk_escrows (ps_market s') = mk_escrows (ps_market s) @ [new_escrow E q (market_order_id E)])"
    then obtain m where m: "mo_order_id m = market_order_id E" "mk_orders M' = mk_orders M @ [inserted_order m]"
      "mk_escrows M' = mk_escrows M \<or> mk_escrows M' = mk_escrows M @ [new_escrow E q (mo_order_id m)]"
      using step_publish by auto
    have "market_ok M'" using market_ok_append [OF assms(2) _ m(2,3)] m(1) step_publish by simp
    moreover have "set (mk_escrows M) \<subseteq> set (mk_escrows M')" using m(3) by auto
    ultimately show ?thesis unfolding closed_def by blast
  qed
next
  case (step_discover P E now br D eng days t g a target og r og')
  then show ?thesis using claim_market_parts assms(2) market_ok_ids unfolding closed_def by metis
next
  case (step_execute run P C who secret E now m t g agent s r s')
  from settle_market [OF step_execute(3)] show ?thesis
    using assms(2) step_execute(1,2)
    by (auto simp: market_ok_def update_escrow_closes)
next
  case (step_refund E t g i reason L r L')
  from refund_market [OF step_refund] show ?thesis
    using assms(2) by (auto simp: market_ok_def update_escrow_closes refunded_market_def)
qed

lemma market_steps_keep:
  "market_step\<^sup>*\<^sup>* M M' \<Longrightarrow> market_ok M \<Longrightarrow> market_ok M' \<and> (closed M i \<longrightarrow> closed M' i)"
proof (induction rule: rtranclp_induct)
  case (step M1 M2)
  then show ?case using market_step_keeps by blast
qed simp

lemma closed_escrow_found:
  assumes "market_ok M" "closed M i" "get_escrow_by_order M i t g = Inr (Some e)"
  shows "es_status e \<noteq> Escrow_HELD"
proof -
  have e: "e \<in> set (mk_escrows M)" "es_order_id e = i"
    using assms(3) by (auto simp: get_escrow_by_order_def escrow_visible_def dest!: find_SomeD split: if_splits)
  obtain c where c: "c \<in> set (mk_escrows M)" "es_order_id c = i" "es_status c \<noteq> Escrow_HELD"
    using assms(2) unfolding closed_def by blast
  have "fst \<circ> escrow_ids = es_order_id" by (simp add: fun_eq_iff escrow_ids_def)
  then have "distinct (map es_order_id (mk_escrows M))"
    using assms(1) by (simp add: market_ok_def market_ids_def case_prod_beta)
  then have "e = c" using e c(1,2) by (simp add: distinct_map inj_on_def)
  then show ?thesis using c(3) by simp
qed

text \<open>
  C3: An escrow is paid or refunded once, ever.  Once the escrow of an order has left HELD, then after any sequence
  of actions of any clients and providers, with any ledgers, executors and policies, every further attempt to
  settle that order (even with an old snapshot that still says CLAIMED) and every further refund
  is refused, and neither changes any state.
\<close>

theorem escrow_pays_once:
  assumes "market_ok M" "closed M (mo_order_id m)" "market_step\<^sup>*\<^sup>* M (ts_market s)"
  shows "(\<exists>x. execute_and_settle run P C who secret E now m t g agent s = (Inl x, s)) \<and>
     (\<exists>x. refund_escrow E2 t2 g2 (mo_order_id m) reason (L, ts_market s) = (Inl x, (L, ts_market s)))"
proof -
  have ok: "market_ok (ts_market s)" "closed (ts_market s) (mo_order_id m)"
    using market_steps_keep [OF assms(3,1)] assms(2) by blast+
  have found: "es_status e \<noteq> Escrow_HELD" if "get_escrow_by_order (ts_market s) (mo_order_id m) t3 g3 = Inr (Some e)" for t3 g3 e
    using closed_escrow_found [OF ok that] .
  have "\<exists>x. settle_preflight now (ts_market s) m t g agent = Inl x"
    using found [of "mo_tenant_id m" "mo_organisation_id m"]
    by (auto simp: settle_preflight_def split: sum.splits option.splits)
  then have "\<exists>x. execute_and_settle run P C who secret E now m t g agent s = (Inl x, s)"
    by (auto simp: execute_and_settle_def)
  moreover have "\<exists>x. refund_escrow E2 t2 g2 (mo_order_id m) reason (L, ts_market s) = (Inl x, (L, ts_market s))"
    using found [of t2 g2] by (auto simp: refund_escrow_def split: sum.splits option.splits)
  ultimately show ?thesis ..
qed

section \<open>What a settlement and a refund pay\<close>

definition moved :: "string \<Rightarrow> string \<Rightarrow> int \<Rightarrow> ledger \<Rightarrow> ledger \<Rightarrow> bool" where
  "moved f t n L L' \<longleftrightarrow> ledger_inv L' \<and> 0 < n \<and> n \<le> get_balance L f \<and>
     (\<forall>a. get_balance L' a = get_balance L a + (if a = t then n else 0) - (if a = f then n else 0))"

lemma transfer_moved:
  assumes "ledger_inv L" "transfer E L f t n memo tx = Inr (e, L')"
  shows "moved f t n L L'"
  using mem.post_bal [OF assms] mem.post_inv [OF assms] mem.post_guards [OF assms] by (simp add: moved_def)

definition earned :: "int \<Rightarrow> int \<Rightarrow> ledger \<Rightarrow> ledger \<Rightarrow> bool" where
  "earned n res L L' \<longleftrightarrow> ledger_inv L' \<and> 0 \<le> res \<and> res \<le> n \<and>
     (\<forall>a. get_balance L' a = get_balance L a + (if a = SURPLUS_RESERVE then res else 0) + (if a = TREASURY then n - res else 0))"

lemma revenue_tx_fresh: "x \<in> surplus_txs E w \<Longrightarrow> x \<noteq> revenue_tx i"
  by (auto simp: surplus_txs_def surplus_tx_def revenue_tx_def)

lemma deposit_facts:
  assumes "deposit_revenue E L n memo (Some tx) = Inr (e, L')" "tx \<noteq> []"
  shows "0 < n \<and> (\<forall>a. get_balance L' a = get_balance L a + (if a = REVENUE then n else 0)) \<and>
     lg_recorded_tx_ids L' = insert tx (lg_recorded_tx_ids L)"
  using assms by (auto simp: deposit_revenue_Inr credit_minted_def get_balance_def)

lemma payment_ends:
  assumes inv: "ledger_inv (ts_client s)" "ledger_inv (ss_ledger (ts_provider s))"
    and sh: "share_ok (sc_floor_mul C)" "mo_bounty_amount m \<le> 2 ^ 53"
    and tx: "\<forall>x \<in> surplus_txs (env_skip 4 E) w. x \<notin> lg_recorded_tx_ids (ss_ledger (ts_provider s))"
    and run: "settle_payment P C E t g m e w d r s = (res, s')"
  shows "case res of
      Inl x \<Rightarrow> ts_market s' = ts_market s \<and>
        (ts_client s' = ts_client s \<or> moved ESCROW EXTERNAL_SINK (mo_bounty_amount m) (ts_client s) (ts_client s'))
    | Inr ev \<Rightarrow> moved ESCROW EXTERNAL_SINK (mo_bounty_amount m) (ts_client s) (ts_client s') \<and>
        earned (mo_bounty_amount m) (re_allocated_to_reserve ev) (ss_ledger (ts_provider s)) (ss_ledger (ts_provider s')) \<and>
        (\<exists>E1 E2. ts_market s' = update_order_status E2 (mo_tenant_id m) (mo_organisation_id m) (mo_order_id m) Mkt_COMPLETED
           (Some (dl_deliverable_id d)) (update_escrow_status E1 (es_tenant_id e) (es_organisation_id e) (es_escrow_id e)
             Escrow_RELEASED (Some t) (Some g) (Some (revenue_tx (mo_order_id m))) (ts_market s)))"
proof -
  let ?n = "mo_bounty_amount m"
  define memo1 where "memo1 = ''Escrow released to provider '' @ g @ '' for order '' @ mo_order_id m"
  define memo2 where "memo2 = ''B2B revenue from client '' @ mo_organisation_id m @ '' for order '' @ mo_order_id m"
  note pay = run [unfolded settle_payment_def memo1_def [symmetric] memo2_def [symmetric]]
  show ?thesis
  proof (cases "transfer E (ts_client s) ESCROW EXTERNAL_SINK ?n memo1 (Some (release_tx (mo_order_id m)))")
    case (Inl x)
    then show ?thesis using pay by auto
  next
    case (Inr eL)
    obtain e1 L where eL: "eL = (e1, L)" by (cases eL)
    note mv = transfer_moved [OF inv(1) Inr [unfolded eL]]
    show ?thesis
    proof (cases "deposit_revenue (env_skip 2 E) (ss_ledger (ts_provider s)) ?n memo2 (Some (revenue_tx (mo_order_id m)))")
      case (Inl x)
      then show ?thesis using pay \<open>transfer _ _ _ _ _ _ _ = _\<close> eL mv by (auto simp: Let_def)
    next
      case dep: (Inr eL2)
      obtain e2 L2 where eL2: "eL2 = (e2, L2)" by (cases eL2)
      have ne: "revenue_tx (mo_order_id m) \<noteq> []" by (simp add: revenue_tx_def)
      note df = deposit_facts [OF dep [unfolded eL2] ne]
      have inv2: "ledger_inv L2" using deposit_revenue_inv inv(2) dep eL2 by blast
      let ?S = "(ts_provider s)\<lparr>ss_ledger := L2\<rparr>"
      obtain q S where q: "reconcile_surplus mem_ops P C (env_skip 4 E) w r ?n 0 (dl_orbio_credits_consumed d) None ?S = (q, S)"
        by fastforce
      have fresh: "\<forall>x \<in> surplus_txs (env_skip 4 E) w. x \<notin> lg_recorded_tx_ids (ss_ledger ?S)"
        using tx df revenue_tx_fresh by fastforce
      from mem_total.reconcile_surplus_ends [OF _ sh fresh q [unfolded mem_ops_def]] inv2
      have ends: "case q of Inl x \<Rightarrow> S = ?S | Inr ev \<Rightarrow> ledger_inv (ss_ledger S) \<and>
          distributed get_balance ?n (re_allocated_to_reserve ev) L2 (ss_ledger S) \<and>
          re_allocated_to_reserve ev + re_allocated_to_mission_budget ev = max 0 ?n \<and>
          0 \<le> re_allocated_to_reserve ev \<and> 0 \<le> re_allocated_to_mission_budget ev"
        by (cases q) auto
      show ?thesis
      proof (cases q)
        case (Inl x)
        then show ?thesis using pay \<open>transfer _ _ _ _ _ _ _ = _\<close> eL mv dep eL2 q by (auto simp: Let_def)
      next
        case (Inr ev)
        then have "earned ?n (re_allocated_to_reserve ev) (ss_ledger (ts_provider s)) (ss_ledger S)"
          using ends df by (auto simp: earned_def distributed_def)
        moreover have "res = Inr ev \<and> ts_client s' = L \<and> ts_provider s' = S \<and> (\<exists>E1 E2. ts_market s' = update_order_status E2 (mo_tenant_id m) (mo_organisation_id m) (mo_order_id m) Mkt_COMPLETED
           (Some (dl_deliverable_id d)) (update_escrow_status E1 (es_tenant_id e) (es_organisation_id e) (es_escrow_id e)
             Escrow_RELEASED (Some t) (Some g) (Some (revenue_tx (mo_order_id m))) (ts_market s)))"
          using pay \<open>transfer _ _ _ _ _ _ _ = _\<close> eL dep eL2 q Inr by (auto simp: Let_def on_work_def) blast
        ultimately show ?thesis using mv by simp
      qed
    qed
  qed
qed

lemma preflight_Inr:
  assumes "settle_preflight now M m t g agent = Inr e"
  shows "mo_status m = Mkt_CLAIMED \<and> mo_claimed_by_org_id m = Some g \<and> mo_claimed_by_agent_id m = Some agent \<and>
     es_status e = Escrow_HELD \<and> has_capability now M t g agent (mo_required_capability m) \<and>
     get_escrow_by_order M (mo_order_id m) (mo_tenant_id m) (mo_organisation_id m) = Inr (Some e)"
  using assms by (auto simp: settle_preflight_def split: if_splits sum.splits option.splits)

lemma get_escrow_SomeD:
  assumes "get_escrow_by_order M i t g = Inr (Some e)"
  shows "t \<noteq> [] \<and> g \<noteq> [] \<and> e \<in> set (mk_escrows M) \<and> es_order_id e = i \<and> escrow_visible M i t g e"
  using assms by (auto simp: get_escrow_by_order_def escrow_visible_def dest!: find_SomeD split: if_splits)

lemma on_work_parts [simp]:
  "ts_client (on_work f s) = ts_client s" "ts_provider (on_work f s) = ts_provider s" "ts_market (on_work f s) = ts_market s"
  by (simp_all add: on_work_def)

text \<open>
  C4: What a settlement pays.  If \<open>execute_and_settle\<close> returns, the order was claimed by this organisation and agent, whose
  capability is valid, its escrow was HELD, the receipt was accepted, exactly the bounty left the client's ESCROW for the sink,
  exactly the bounty reached the provider split between reserve and treasury, and the escrow is closed.
  If it raises, the market is unchanged and the client either paid nothing or the whole bounty.
\<close>

theorem b2b_settlement_exact:
  assumes "ledger_inv (ts_client s)" "ledger_inv (ss_ledger (ts_provider s))"
    and "share_ok (sc_floor_mul C)" "mo_bounty_amount m \<le> 2 ^ 53"
    and "\<forall>x \<in> surplus_txs (env_skip 4 (env_skip 3 E)) (b2b_work_order E t g m). x \<notin> lg_recorded_tx_ids (ss_ledger (ts_provider s))"
    and run: "execute_and_settle run P C who secret E now m t g agent s = (res, s')"
  shows "case res of
      Inl x \<Rightarrow> ts_market s' = ts_market s \<and>
        (ts_client s' = ts_client s \<or> moved ESCROW EXTERNAL_SINK (mo_bounty_amount m) (ts_client s) (ts_client s'))
    | Inr out \<Rightarrow> mo_status m = Mkt_CLAIMED \<and> mo_claimed_by_org_id m = Some g \<and> mo_claimed_by_agent_id m = Some agent \<and>
        has_capability now (ts_market s) t g agent (mo_required_capability m) \<and> is_verified (bo_receipt out) \<and>
        moved ESCROW EXTERNAL_SINK (mo_bounty_amount m) (ts_client s) (ts_client s') \<and>
        earned (mo_bounty_amount m) (re_allocated_to_reserve (bo_revenue_event out)) (ss_ledger (ts_provider s)) (ss_ledger (ts_provider s')) \<and>
        closed (ts_market s') (mo_order_id m)"
proof (cases "settle_preflight now (ts_market s) m t g agent")
  case (Inl x)
  then show ?thesis using run by (auto simp: execute_and_settle_def)
next
  case (Inr e)
  note pre = preflight_Inr [OF Inr] and e = get_escrow_SomeD [of "ts_market s" "mo_order_id m"]
  let ?w = "b2b_work_order E t g m"
  define s1 where "s1 = on_work (save_work_order ?w) s"
  note go = run [unfolded execute_and_settle_def Inr sum.case Let_def, folded s1_def]
  obtain q c where run1: "run ?w agent g (ts_credits s1) = (q, c)" by fastforce
  show ?thesis
  proof (cases q)
    case (Inl x)
    then show ?thesis using go run1 by (auto simp: s1_def)
  next
    case (Inr d)
    define r where "r = verify_work P (env_skip 1 E) who secret ?w d None"
    define s2 where "s2 = on_work (save_receipt t g r) (on_work (save_deliverable t g d) (s1\<lparr>ts_credits := c\<rparr>))"
    have s2: "ts_client s2 = ts_client s" "ts_provider s2 = ts_provider s" "ts_market s2 = ts_market s"
      by (simp_all add: s2_def s1_def)
    note go2 = go [unfolded run1 Inr prod.case sum.case, folded r_def, folded s2_def]
    show ?thesis
    proof (cases "is_verified r")
      case False
      then show ?thesis using go2 s2 by auto
    next
      case True
      obtain pr s3 where pay: "settle_payment P C (env_skip 3 E) t g m e ?w d r s2 = (pr, s3)" by fastforce
      note ends = payment_ends [OF _ _ assms(3,4) _ pay, unfolded s2, OF assms(1,2,5)]
      show ?thesis
      proof (cases pr)
        case (Inl x)
        then have "isl res \<and> s' = s3" using go2 True pay by (auto simp: act_bind_def)
        then show ?thesis using ends Inl by (cases res) auto
      next
        case (Inr ev)
        then obtain out where out: "res = Inr out" "s' = s3" "bo_receipt out = r" "bo_revenue_event out = ev"
          using go2 True pay by (auto simp: act_bind_def act_return_def)
        have mem: "e \<in> set (mk_escrows (ts_market s))" "es_order_id e = mo_order_id m" using e pre by blast+
        have "closed (ts_market s3) (mo_order_id m)"
          using ends Inr update_escrow_closes_its [OF mem(1)] mem(2) by auto
        then show ?thesis using ends Inr out True pre by simp
      qed
    qed
  qed
qed

lemma visible_refunded:
  assumes "escrow_visible M i t g e" "e \<in> set (mk_escrows M)"
  shows "\<exists>e' \<in> set (mk_escrows (refunded_market E m x M)). escrow_visible (refunded_market E m x M) i t g e'"
proof -
  let ?M = "refunded_market E m x M"
  obtain o1 where o1: "o1 \<in> set (mk_orders M)" "market_order_key o1 = (es_client_tenant_id e, es_client_org_id e, es_order_id e)"
      "es_tenant_id e = t \<and> es_organisation_id e = g \<or> mo_claimed_by_tenant_id o1 = Some t \<and> mo_claimed_by_org_id o1 = Some g"
      "es_order_id e = i"
    using assms(1) unfolding escrow_visible_def by blast
  let ?f = "\<lambda>m2. if market_order_key m2 = (mo_tenant_id m, mo_organisation_id m, mo_order_id m)
      then set_order_status (env_skip 3 E) Mkt_CANCELLED None m2 else m2"
  let ?g = "\<lambda>e. if escrow_key e = (es_tenant_id x, es_organisation_id x, es_escrow_id x)
      then set_escrow_status (env_skip 2 E) Escrow_REFUNDED None None None e else e"
  have "?f o1 \<in> set (mk_orders ?M)" "?g e \<in> set (mk_escrows ?M)"
    using o1(1) assms(2) unfolding refunded_market_def update_parts by simp_all
  moreover have "escrow_visible ?M i t g (?g e)"
    unfolding escrow_visible_def using \<open>?f o1 \<in> set (mk_orders ?M)\<close> o1(2-4) by (intro conjI bexI [of _ "?f o1"]) simp_all
  ultimately show ?thesis by blast
qed

text \<open>
  A refund gives the bounty back, once.  \<open>refund_escrow\<close> either raises and changes nothing, or it found the order not
  COMPLETED with a HELD escrow, moved exactly the escrow's bounty from ESCROW to TREASURY, closed
  the escrow and returned it.  (A CLAIMED order is refunded as well.)
\<close>

theorem refund_exact:
  assumes "ledger_inv L" "refund_escrow E t g i reason (L, M) = (r, (L', M'))"
  shows "case r of Inl x \<Rightarrow> L' = L \<and> M' = M
    | Inr e2 \<Rightarrow> \<exists>m e. get_order M t g i = Some m \<and> mo_status m \<noteq> Mkt_COMPLETED \<and> get_escrow_by_order M i t g = Inr (Some e) \<and>
        es_status e = Escrow_HELD \<and> moved ESCROW TREASURY (es_bounty_amount e) L L' \<and> closed M' i"
proof (cases "L' = L \<and> M' = M \<and> isl r")
  case True
  then show ?thesis by (cases r) auto
next
  case False
  then obtain m e x where f: "get_order M t g i = Some m" "mo_status m \<noteq> Mkt_COMPLETED" "get_escrow_by_order M i t g = Inr (Some e)"
      "es_status e = Escrow_HELD" "transfer E L ESCROW TREASURY (es_bounty_amount e) (refund_memo i reason) (Some (refund_tx i)) = Inr (x, L')"
      "M' = refunded_market E m e M"
    using refund_cases [OF assms(2)] by blast
  note e = get_escrow_SomeD [OF f(3)]
  have "\<exists>e2. get_escrow_by_order M' i t g = Inr (Some e2)"
    using visible_refunded [of M i t g e E m e] e f(6) find_NoneD unfolding get_escrow_by_order_def by fastforce
  then obtain e2 where "get_escrow_by_order M' i t g = Inr (Some e2)" by blast
  then have "r = Inr e2" using assms(2) f unfolding refund_escrow_def refund_memo_def [symmetric] by simp
  moreover have "closed M' i" using update_escrow_closes_its [of e M Escrow_REFUNDED] e f(6) by (simp add: refunded_market_def)
  ultimately show ?thesis using f transfer_moved [OF assms(1) f(5)] by auto
qed

section \<open>A concrete trade\<close>

definition demo_market_order :: market_order where
  "demo_market_order = \<lparr>mo_tenant_id = ''t1'', mo_organisation_id = ''o1'', mo_order_id = ''m'', mo_title = ''Audit'',
     mo_description = [], mo_specification_hash = ''h'', mo_required_capability = ''ml'', mo_bounty_amount = 60,
     mo_bounty_asset = ''USDG'', mo_sla_timeout_seconds = 60, mo_status = Mkt_CLAIMED, mo_claimed_by_tenant_id = Some ''t2'',
     mo_claimed_by_org_id = Some ''o2'', mo_claimed_by_agent_id = Some ''w'', mo_work_order_id = Some ''b'',
     mo_deliverable_id = None, mo_created_at = [], mo_claimed_at = None, mo_completed_at = None\<rparr>"

definition demo_escrow :: escrow_agreement where
  "demo_escrow = \<lparr>es_tenant_id = ''t1'', es_organisation_id = ''o1'', es_escrow_id = ''e'', es_order_id = ''m'',
     es_client_tenant_id = ''t1'', es_client_org_id = ''o1'', es_bounty_amount = 60, es_bounty_asset = ''USDG'',
     es_provider_tenant_id = None, es_provider_org_id = None, es_status = Escrow_HELD, es_client_ledger_tx_id = None,
     es_provider_ledger_tx_id = None, es_created_at = [], es_released_at = None\<rparr>"

definition demo_trade_market :: market where
  "demo_trade_market = \<lparr>mk_orders = [demo_market_order], mk_escrows = [demo_escrow], mk_grants = [demo_grant]\<rparr>"

definition demo_escrow_ledger :: ledger where
  "demo_escrow_ledger = credit_minted empty_ledger \<lparr>le_id = ''e'', le_timestamp = ''now'', le_transaction_id = ''d'',
     le_from_account = SYSTEM_MINT, le_to_account = ESCROW, le_amount = 60, le_memo = []\<rparr>"

definition demo_trade :: "credit_store trade_state" where
  "demo_trade = \<lparr>ts_client = demo_escrow_ledger, ts_provider = \<lparr>ss_ledger = empty_ledger, ss_events = []\<rparr>,
     ts_market = demo_trade_market, ts_work = None, ts_credits = [(''o2'', 1500)]\<rparr>"

definition demo_run :: "credit_store work_run" where
  "demo_run w a g = execute_work demo_prims demo_env w a g None"

lemma demo_escrow_ledger_ok: "ledger_inv demo_escrow_ledger" "get_balance demo_escrow_ledger ESCROW = 60"
  "lg_recorded_tx_ids demo_escrow_ledger = {''d''}"
proof -
  show "ledger_inv demo_escrow_ledger"
    unfolding demo_escrow_ledger_def by (rule credit_minted_inv) (simp_all add: account_defs)
qed (simp_all add: demo_escrow_ledger_def account_defs credit_minted_def empty_ledger_def get_balance_def)

lemma demo_find: "get_escrow_by_order demo_trade_market ''m'' ''t1'' ''o1'' = Inr (Some demo_escrow)"
  by (simp add: get_escrow_by_order_def demo_trade_market_def escrow_visible_def demo_escrow_def demo_market_order_def market_order_key_def)

lemma demo_refund_runs:
  "\<exists>e L' M'. refund_escrow demo_env ''t1'' ''o1'' ''m'' ''late'' (demo_escrow_ledger, demo_trade_market) = (Inr e, (L', M'))"
proof -
  obtain e L' where tr: "transfer demo_env demo_escrow_ledger ESCROW TREASURY 60 (refund_memo ''m'' ''late'') (Some (refund_tx ''m''))
      = Inr (e, L')"
    using demo_escrow_ledger_ok
    by (simp add: transfer_def refund_tx_def mk_ledger_entry_def account_defs Let_def get_balance_def)
  have o: "get_order demo_trade_market ''t1'' ''o1'' ''m'' = Some demo_market_order" "mo_status demo_market_order = Mkt_CLAIMED"
    by (simp_all add: get_order_def lookup_def demo_trade_market_def demo_market_order_def market_order_key_def)
  have e: "es_status demo_escrow = Escrow_HELD" "es_bounty_amount demo_escrow = 60" by (simp_all add: demo_escrow_def)
  have "\<exists>e2. get_escrow_by_order (refunded_market demo_env demo_market_order demo_escrow demo_trade_market) ''m'' ''t1'' ''o1''
      = Inr (Some e2)"
    by (simp add: refunded_market_def update_parts get_escrow_by_order_def escrow_visible_def demo_trade_market_def)
      (simp add: demo_escrow_def demo_market_order_def market_order_key_def escrow_key_def set_order_status_def set_escrow_status_def)
  then obtain e2 where e2: "get_escrow_by_order (refunded_market demo_env demo_market_order demo_escrow demo_trade_market) ''m'' ''t1'' ''o1''
      = Inr (Some e2)" by blast
  show ?thesis using tr o e e2 demo_find
    unfolding refund_escrow_def refund_memo_def [symmetric] Let_def by simp
qed

theorem refund_exact_witness:
  "\<exists>e L' M'. refund_escrow demo_env ''t1'' ''o1'' ''m'' ''late'' (demo_escrow_ledger, demo_trade_market) = (Inr e, (L', M')) \<and>
     get_balance L' TREASURY = 60 \<and> get_balance L' ESCROW = 0 \<and> closed M' ''m''"
proof -
  obtain e L' M' where run: "refund_escrow demo_env ''t1'' ''o1'' ''m'' ''late'' (demo_escrow_ledger, demo_trade_market) = (Inr e, (L', M'))"
    using demo_refund_runs by blast
  from refund_exact [OF demo_escrow_ledger_ok(1) run] demo_find
  have "moved ESCROW TREASURY 60 demo_escrow_ledger L'" "closed M' ''m''" by (auto simp: demo_escrow_def)
  moreover have "get_balance demo_escrow_ledger TREASURY = 0"
    by (simp add: demo_escrow_ledger_def credit_minted_def empty_ledger_def get_balance_def account_defs)
  ultimately show ?thesis using run demo_escrow_ledger_ok(2) by (simp add: moved_def account_defs)
qed

lemma demo_preflight: "settle_preflight 5 demo_trade_market demo_market_order ''t2'' ''o2'' ''w'' = Inr demo_escrow"
proof -
  have "has_capability 5 demo_trade_market ''t2'' ''o2'' ''w'' ''ml''"
    by (simp add: has_capability_iff demo_trade_market_def demo_grant_def is_valid_def)
  then show ?thesis using demo_find by (simp add: settle_preflight_def demo_market_order_def demo_escrow_def)
qed

abbreviation "demo_b2b_work \<equiv> b2b_work_order demo_env ''t2'' ''o2'' demo_market_order"

lemma demo_b2b_work: "wo_required_orbio_credits demo_b2b_work = 1000" "wo_bounty_amount demo_b2b_work = 60"
  "wo_work_order_id demo_b2b_work = ''b''" "mo_bounty_amount demo_market_order = 60"
  by (simp_all add: b2b_work_order_def demo_market_order_def)

lemma surplus_move_runs:
  assumes "tx \<noteq> []" "tx \<notin> lg_recorded_tx_ids (ss_ledger S)" "0 \<le> n" "n \<le> get_balance (ss_ledger S) REVENUE" "t \<noteq> REVENUE"
  shows "\<exists>S'. surplus_move mem_ops E t n memo tx S = (Inr (), S') \<and> ss_events S' = ss_events S \<and>
     get_balance (ss_ledger S') REVENUE = get_balance (ss_ledger S) REVENUE - n \<and>
     lg_recorded_tx_ids (ss_ledger S') \<subseteq> insert tx (lg_recorded_tx_ids (ss_ledger S))"
proof (cases "n = 0")
  case False
  then have "0 < n" using assms(3) by simp
  then have "\<exists>e L. transfer E (ss_ledger S) REVENUE t n memo (Some tx) = Inr (e, L)"
    using assms by (auto simp: transfer_Inr)
  then obtain e L where tr: "transfer E (ss_ledger S) REVENUE t n memo (Some tx) = Inr (e, L)" by blast
  then have "get_balance L REVENUE = get_balance (ss_ledger S) REVENUE - n" "lg_recorded_tx_ids L = insert tx (lg_recorded_tx_ids (ss_ledger S))"
    using assms by (auto simp: transfer_Inr get_balance_def)
  then show ?thesis using \<open>0 < n\<close> tr by (intro exI [of _ "S\<lparr>ss_ledger := L\<rparr>"]) (simp add: surplus_move_def mem_ops_def ops_of_def)
qed (simp add: surplus_move_def subset_insertI)

text \<open>A guarded distribution always ends: enough revenue and unused transaction ids are all it needs.\<close>

lemma reconcile_surplus_runs:
  assumes "surplus_guard P C w r gross direct ratio (ss_events s) = Inr q"
    and sp: "split_surplus (sc_floor_mul C) gross direct q = (surplus, res, mission, cost)"
    and nn: "0 \<le> res" "0 \<le> mission" "0 \<le> cost" "res + mission + cost \<le> gross"
    and rich: "gross \<le> get_balance (ss_ledger s) REVENUE"
    and fresh: "\<forall>x \<in> surplus_txs E w. x \<notin> lg_recorded_tx_ids (ss_ledger s)"
  shows "\<exists>ev s'. reconcile_surplus mem_ops P C E w r gross direct credits ratio s = (Inr ev, s')"
proof -
  define g where "g = take 8 (e_uuid E 0)"
  define m1 m2 m3 where "m1 = ''[USDG] Cost reimbursement for work order '' @ wo_work_order_id w"
    and "m2 = ''[USDG] Retained surplus reserve for work order '' @ wo_work_order_id w"
    and "m3 = ''[USDG] Mission budget surplus allocation for work order '' @ wo_work_order_id w"
  define x1 x2 x3 where "x1 = surplus_tx ''reconcile-cost-'' w g" and "x2 = surplus_tx ''reconcile-res-'' w g"
    and "x3 = surplus_tx ''reconcile-msn-'' w g"
  have x: "x1 \<noteq> []" "x2 \<noteq> []" "x3 \<noteq> []" "x2 \<noteq> x1" "x3 \<noteq> x1" "x3 \<noteq> x2"
    by (simp_all add: x1_def x2_def x3_def surplus_tx_def)
  have f: "x1 \<notin> lg_recorded_tx_ids (ss_ledger s)" "x2 \<notin> lg_recorded_tx_ids (ss_ledger s)" "x3 \<notin> lg_recorded_tx_ids (ss_ledger s)"
    using fresh by (simp_all add: surplus_txs_def x1_def x2_def x3_def g_def)
  have t: "SURPLUS_RESERVE \<noteq> REVENUE" "TREASURY \<noteq> REVENUE" by (simp_all add: account_defs)
  obtain s1 where s1: "surplus_move mem_ops (env_skip 1 E) TREASURY cost m1 x1 s = (Inr (), s1)"
      "get_balance (ss_ledger s1) REVENUE = get_balance (ss_ledger s) REVENUE - cost"
      "lg_recorded_tx_ids (ss_ledger s1) \<subseteq> insert x1 (lg_recorded_tx_ids (ss_ledger s))"
    using surplus_move_runs [of x1 s cost TREASURY "env_skip 1 E" m1] x f t nn rich by auto
  have h2: "x2 \<notin> lg_recorded_tx_ids (ss_ledger s1)" "res \<le> get_balance (ss_ledger s1) REVENUE" using s1 x f nn rich by auto
  obtain s2 where s2: "surplus_move mem_ops (env_skip 3 E) SURPLUS_RESERVE res m2 x2 s1 = (Inr (), s2)"
      "get_balance (ss_ledger s2) REVENUE = get_balance (ss_ledger s1) REVENUE - res"
      "lg_recorded_tx_ids (ss_ledger s2) \<subseteq> insert x2 (lg_recorded_tx_ids (ss_ledger s1))"
    using surplus_move_runs [OF x(2) h2(1) nn(1) h2(2) t(1), of "env_skip 3 E" m2] by blast
  have h3: "x3 \<notin> lg_recorded_tx_ids (ss_ledger s2)" "mission \<le> get_balance (ss_ledger s2) REVENUE" using s1 s2 x f nn rich by auto
  obtain s3 where s3: "surplus_move mem_ops (env_skip 5 E) TREASURY mission m3 x3 s2 = (Inr (), s3)"
    using surplus_move_runs [OF x(3) h3(1) nn(2) h3(2) t(2), of "env_skip 5 E" m3] by blast
  have b: "\<not> lo_get_balance mem_ops (ss_ledger s) REVENUE < gross" using rich by (simp add: mem_ops_def ops_of_def)
  show ?thesis
    unfolding reconcile_surplus_def assms(1) sp m1_def [symmetric] m2_def [symmetric] m3_def [symmetric] Let_def sum.case prod.case
      g_def [symmetric] x1_def [symmetric] x2_def [symmetric] x3_def [symmetric]
    using b s1(1) s2(1) s3 by (simp add: act_bind_def)
qed

lemma demo_payment_runs:
  assumes "is_verified r" "receipt_verify_hmac demo_prims ''k'' r" "wr_work_order_id r = ''b''"
    "ts_client s = demo_escrow_ledger" "ts_provider s = \<lparr>ss_ledger = empty_ledger, ss_events = []\<rparr>"
  shows "\<exists>ev s'. settle_payment demo_prims demo_surplus_config (env_skip 3 demo_env) ''t2'' ''o2'' demo_market_order demo_escrow
     demo_b2b_work d r s = (Inr ev, s')"
proof -
  define memo1 where "memo1 = ''Escrow released to provider '' @ ''o2'' @ '' for order '' @ mo_order_id demo_market_order"
  define memo2 where "memo2 = ''B2B revenue from client '' @ mo_organisation_id demo_market_order @ '' for order '' @ mo_order_id demo_market_order"
  have "\<exists>e L. transfer E demo_escrow_ledger ESCROW EXTERNAL_SINK 60 memo1 (Some (release_tx ''m'')) = Inr (e, L)" for E
    using demo_escrow_ledger_ok by (simp add: transfer_Inr release_tx_def account_defs)
  then obtain e L where tr: "transfer (env_skip 3 demo_env) demo_escrow_ledger ESCROW EXTERNAL_SINK 60 memo1 (Some (release_tx ''m''))
      = Inr (e, L)" by blast
  have "\<exists>e2. deposit_revenue E empty_ledger 60 memo2 (Some (revenue_tx ''m'')) = Inr (e2, credit_minted empty_ledger e2) \<and>
      le_to_account e2 = REVENUE \<and> le_amount e2 = 60 \<and> le_transaction_id e2 = revenue_tx ''m''" for E
    by (simp add: deposit_revenue_Inr revenue_tx_def empty_ledger_def)
  then obtain e2 where dp: "deposit_revenue (env_skip 2 (env_skip 3 demo_env)) empty_ledger 60 memo2 (Some (revenue_tx ''m''))
      = Inr (e2, credit_minted empty_ledger e2)"
      and e2: "le_to_account e2 = REVENUE" "le_amount e2 = 60" "le_transaction_id e2 = revenue_tx ''m''" by blast
  let ?L = "credit_minted empty_ledger e2"
  have L2: "get_balance ?L REVENUE = 60" "lg_recorded_tx_ids ?L = {revenue_tx ''m''}"
    using e2 by (simp_all add: credit_minted_def empty_ledger_def get_balance_def)
  have guard: "surplus_guard demo_prims demo_surplus_config demo_b2b_work r 60 0 None [] = Inr (1 / 5)"
    using assms demo_b2b_work by (simp add: surplus_guard_def demo_surplus_config_def Let_def)
  have split: "split_surplus (sc_floor_mul demo_surplus_config) 60 0 (1 / 5) = (60, 12, 48, 0)"
    by (simp add: split_surplus_def demo_surplus_config_def)
  have "\<exists>ev S. reconcile_surplus mem_ops demo_prims demo_surplus_config (env_skip 4 (env_skip 3 demo_env)) demo_b2b_work r 60 0
      (dl_orbio_credits_consumed d) None \<lparr>ss_ledger = ?L, ss_events = []\<rparr> = (Inr ev, S)"
    by (rule reconcile_surplus_runs [OF _ split]) (simp_all add: guard L2 surplus_txs_def surplus_tx_def revenue_tx_def)
  then obtain ev S where rs: "reconcile_surplus mem_ops demo_prims demo_surplus_config (env_skip 4 (env_skip 3 demo_env)) demo_b2b_work r 60 0
      (dl_orbio_credits_consumed d) None \<lparr>ss_ledger = ?L, ss_events = []\<rparr> = (Inr ev, S)" by blast
  have m: "mo_order_id demo_market_order = ''m''" by (simp add: demo_market_order_def)
  show ?thesis
    unfolding settle_payment_def memo1_def [symmetric] memo2_def [symmetric]
    using tr dp rs by (simp add: m assms demo_b2b_work Let_def)
qed

theorem b2b_settlement_exact_witness:
  "\<exists>out s'. execute_and_settle demo_run demo_prims demo_surplus_config ''v'' ''k'' demo_env 5 demo_market_order ''t2'' ''o2'' ''w'' demo_trade
       = (Inr out, s') \<and> get_balance (ts_client s') EXTERNAL_SINK = 60 \<and> get_balance (ts_client s') ESCROW = 0 \<and> closed (ts_market s') ''m''"
proof -
  obtain d c where d: "execute_work demo_prims demo_env demo_b2b_work ''w'' ''o2'' None [(''o2'', 1500)] = (Inr d, c)"
    by (simp add: execute_work_def deduct_credits_def demo_b2b_work Let_def)
  have pos: "0 < wo_required_orbio_credits demo_b2b_work" by (simp add: demo_b2b_work)
  define r where "r = verify_work demo_prims (env_skip 1 demo_env) ''v'' ''k'' demo_b2b_work d None"
  have r: "is_verified r" "receipt_verify_hmac demo_prims ''k'' r" "wr_work_order_id r = ''b''"
    using work_is_verified [OF d pos work_digests] by (simp_all add: r_def verify_work_facts demo_b2b_work)
  obtain ev s' where pay: "settle_payment demo_prims demo_surplus_config (env_skip 3 demo_env) ''t2'' ''o2'' demo_market_order demo_escrow
     demo_b2b_work d r (on_work (save_receipt ''t2'' ''o2'' r) (on_work (save_deliverable ''t2'' ''o2'' d)
       ((on_work (save_work_order demo_b2b_work) demo_trade)\<lparr>ts_credits := c\<rparr>))) = (Inr ev, s')"
    using demo_payment_runs [OF r, of "on_work (save_receipt ''t2'' ''o2'' r) (on_work (save_deliverable ''t2'' ''o2'' d)
       ((on_work (save_work_order demo_b2b_work) demo_trade)\<lparr>ts_credits := c\<rparr>))" d] by (auto simp: demo_trade_def on_work_def)
  have tm: "ts_market demo_trade = demo_trade_market" "ts_client demo_trade = demo_escrow_ledger" "ts_provider demo_trade = \<lparr>ss_ledger = empty_ledger, ss_events = []\<rparr>"
      "ts_credits (on_work f demo_trade) = [(''o2'', 1500)]" for f by (simp_all add: demo_trade_def on_work_def)
  obtain out where run: "execute_and_settle demo_run demo_prims demo_surplus_config ''v'' ''k'' demo_env 5 demo_market_order ''t2'' ''o2'' ''w'' demo_trade
       = (Inr out, s')"
    unfolding execute_and_settle_def tm demo_preflight Let_def demo_run_def sum.case d prod.case r_def [symmetric]
    using pay r(1) by (simp add: act_bind_def act_return_def)
  have inv: "ledger_inv (ts_client demo_trade)" "ledger_inv (ss_ledger (ts_provider demo_trade))"
    using demo_escrow_ledger_ok(1) by (simp_all add: tm)
  have fresh: "\<forall>x \<in> surplus_txs (env_skip 4 (env_skip 3 demo_env)) demo_b2b_work. x \<notin> lg_recorded_tx_ids (ss_ledger (ts_provider demo_trade))"
    by (simp add: tm empty_ledger_def)
  have n: "mo_bounty_amount demo_market_order \<le> 2 ^ 53" by (simp add: demo_b2b_work)
  from b2b_settlement_exact [OF inv demo_share_ok n fresh run]
  have "moved ESCROW EXTERNAL_SINK 60 demo_escrow_ledger (ts_client s')" "closed (ts_market s') ''m''"
    by (simp_all add: tm demo_b2b_work) (simp add: demo_market_order_def)
  moreover have "get_balance demo_escrow_ledger EXTERNAL_SINK = 0"
    by (simp add: demo_escrow_ledger_def credit_minted_def empty_ledger_def get_balance_def account_defs)
  ultimately show ?thesis using run demo_escrow_ledger_ok(2) by (simp add: moved_def account_defs)
qed

theorem escrow_pays_once_witness:
  "\<exists>e L' M'. refund_escrow demo_env ''t1'' ''o1'' ''m'' ''late'' (demo_escrow_ledger, demo_trade_market) = (Inr e, (L', M')) \<and>
     (\<exists>x. execute_and_settle demo_run demo_prims demo_surplus_config ''v'' ''k'' demo_env 5 demo_market_order ''t2'' ''o2'' ''w''
        (demo_trade\<lparr>ts_market := M'\<rparr>) = (Inl x, demo_trade\<lparr>ts_market := M'\<rparr>))"
proof -
  obtain e L' M' where run: "refund_escrow demo_env ''t1'' ''o1'' ''m'' ''late'' (demo_escrow_ledger, demo_trade_market) = (Inr e, (L', M'))"
    using demo_refund_runs by blast
  have m: "mo_order_id demo_market_order = ''m''" by (simp add: demo_market_order_def)
  have "market_ok demo_trade_market"
    by (simp add: market_ok_def market_ids_def demo_trade_market_def escrow_ids_def demo_escrow_def demo_market_order_def)
  moreover note step_refund [OF run]
  ultimately have ok: "market_ok M'" using market_step_keeps by blast
  have cl: "closed M' (mo_order_id demo_market_order)"
    using refund_cases [OF run] run update_escrow_closes_its [of _ demo_trade_market Escrow_REFUNDED]
    unfolding m by (fastforce simp: refunded_market_def dest: get_escrow_SomeD)
  have "market_step\<^sup>*\<^sup>* M' (ts_market (demo_trade\<lparr>ts_market := M'\<rparr>))" by simp
  have "\<exists>x. execute_and_settle demo_run demo_prims demo_surplus_config ''v'' ''k'' demo_env 5 demo_market_order ''t2'' ''o2'' ''w''
        (demo_trade\<lparr>ts_market := M'\<rparr>) = (Inl x, demo_trade\<lparr>ts_market := M'\<rparr>)"
    by (rule escrow_pays_once [OF ok cl \<open>market_step\<^sup>*\<^sup>* M' _\<close>, THEN conjunct1])
  then show ?thesis using run by blast
qed

end
