(* ===== verification/Purchase.thy ===== *)
theory Purchase
  imports PolicyEngine "HOL-Library.Product_Lexorder"
begin

text \<open>
  Purchases of Orbio credits: the typed purchase intent and its projection to a chain transaction
  (\<open>src/domain/blockchain.py\<close>), and the purchase policy with its human approvals
  (\<open>src/governance/orbio_purchase_rules.py\<close>).  The ABI encoder of \<open>eth_abi\<close> is a parameter; it is given the
  beneficiary as hex text and returns hex text.
\<close>

section \<open>blockchain.py\<close>

definition BYTES32_PATTERN :: "string \<Rightarrow> bool" where
  "BYTES32_PATTERN s = hex_pattern 64 s"

definition ORBIO_EXCHANGE_MAINNET :: string where
  "ORBIO_EXCHANGE_MAINNET = ''0x6951ffd32630b05e06f50062aea801625a58ebc0''"
definition ORBIO_CREDIT_MAINNET :: string where
  "ORBIO_CREDIT_MAINNET = ''0xe33322da1380e61e5ae5dfb21e7f62924c73004c''"
definition USDG_MAINNET :: string where
  "USDG_MAINNET = ''0x5fc5360d0400a0fd4f2af552add042d716f1d168''"
definition BUY_AND_ACTIVATE_SIGNATURE :: string where
  "BUY_AND_ACTIVATE_SIGNATURE = ''buyAndActivate(uint256,uint256,bytes32,uint256)''"

definition py_clean :: "string \<Rightarrow> string" where
  "py_clean s = py_lower (py_strip s)"

definition zfill64 :: "string \<Rightarrow> string" where
  "zfill64 s = replicate (64 - length s) (CHR ''0'') @ s"

definition address_to_beneficiary_bytes32 :: "string \<Rightarrow> string result" where
  "address_to_beneficiary_bytes32 a =
     (let c = py_clean a in
      if \<not> ETH_ADDRESS_PATTERN c then raise ValueError ''Invalid beneficiary address''
      else Inr (''0x'' @ zfill64 (drop 2 c)))"

type_synonym abi = "int \<Rightarrow> int \<Rightarrow> string \<Rightarrow> int \<Rightarrow> string result"

definition encode_buy_and_activate_calldata :: "abi \<Rightarrow> int \<Rightarrow> int \<Rightarrow> string \<Rightarrow> int \<Rightarrow> string result" where
  "encode_buy_and_activate_calldata abi usdg_in min_credit_out beneficiary max_fills =
     (if usdg_in < 0 \<or> min_credit_out < 0 \<or> max_fills < 0
      then raise ValueError ''usdg_in, min_credit_out, and max_fills must be non-negative''
      else let c = py_clean beneficiary in
        bind_result (if ETH_ADDRESS_PATTERN c then address_to_beneficiary_bytes32 c
            else if BYTES32_PATTERN c then Inr c
            else raise ValueError ''beneficiary must be a 0x address or 0x bytes32'')
          (\<lambda>b. bind_result (abi usdg_in min_credit_out (drop 2 b) max_fills)
            (\<lambda>args. Inr (''0x'' @ ''6ebadb6e'' @ args))))"

record blockchain_intent =
  bi_tenant_id :: string
  bi_organisation_id :: string
  bi_mission_id :: "string option"
  bi_operation_id :: string
  bi_chain_id :: int
  bi_network :: string
  bi_recipient :: string
  bi_amount_wei :: int
  bi_amount_credits :: int
  bi_asset :: string
  bi_token_contract :: "string option"
  bi_transaction_type :: int
  bi_max_fee_per_gas :: int
  bi_max_priority_fee_per_gas :: int
  bi_gas_limit :: int
  bi_data_payload :: string
  bi_idempotency_key :: string
  bi_policy_decision_id :: string
  bi_authorization_token_hash :: string
  bi_created_at :: string

text \<open>The constructor: the validators strip and lower the addresses.\<close>

definition mk_blockchain_intent :: "blockchain_intent \<Rightarrow> blockchain_intent result" where
  "mk_blockchain_intent b =
     (let r = py_strip (bi_recipient b) in
      if \<not> ETH_ADDRESS_PATTERN r then raise ValidationError ''Invalid EVM recipient address''
      else if (case bi_token_contract b of None \<Rightarrow> False | Some t \<Rightarrow> \<not> ETH_ADDRESS_PATTERN (py_strip t))
      then raise ValidationError ''Invalid token contract address''
      else if bi_amount_wei b < 0 \<or> bi_amount_credits b < 0 \<or> bi_gas_limit b < 21000
      then raise ValidationError ''amount or gas limit below its minimum''
      else Inr (b\<lparr>bi_recipient := py_lower r, bi_token_contract := map_option py_clean (bi_token_contract b)\<rparr>))"

definition compute_intent_hash :: "prims \<Rightarrow> blockchain_intent \<Rightarrow> string" where
  "compute_intent_hash P b = sha256 P (canonical_json P (JObj
     [(''tenant_id'', JStr (bi_tenant_id b)), (''organisation_id'', JStr (bi_organisation_id b)),
      (''mission_id'', opt_json (bi_mission_id b)), (''operation_id'', JStr (bi_operation_id b)),
      (''chain_id'', JInt (bi_chain_id b)), (''network'', JStr (bi_network b)), (''recipient'', JStr (bi_recipient b)),
      (''amount_wei'', JInt (bi_amount_wei b)), (''amount_credits'', JInt (bi_amount_credits b)),
      (''asset'', JStr (bi_asset b)), (''token_contract'', opt_json (bi_token_contract b)),
      (''transaction_type'', JInt (bi_transaction_type b)), (''max_fee_per_gas'', JInt (bi_max_fee_per_gas b)),
      (''max_priority_fee_per_gas'', JInt (bi_max_priority_fee_per_gas b)), (''gas_limit'', JInt (bi_gas_limit b)),
      (''data_payload'', JStr (bi_data_payload b)), (''idempotency_key'', JStr (bi_idempotency_key b)),
      (''policy_decision_id'', JStr (bi_policy_decision_id b)),
      (''authorization_token_hash'', JStr (bi_authorization_token_hash b))]))"

record purchase_intent =
  pi_tenant_id :: string
  pi_organisation_id :: string
  pi_mission_id :: "string option"
  pi_operation_id :: string
  pi_chain_id :: int
  pi_network :: string
  pi_exchange_contract :: string
  pi_payment_token :: string
  pi_credit_token :: string
  pi_usdg_in :: int
  pi_min_credit_out :: int
  pi_beneficiary :: string
  pi_max_fills :: int
  pi_max_fee_per_gas :: int
  pi_max_priority_fee_per_gas :: int
  pi_gas_limit :: int
  pi_amount_credits :: int
  pi_idempotency_key :: string
  pi_policy_decision_id :: string
  pi_authorization_token_hash :: string
  pi_deadline :: "int option"
  pi_created_at :: string

text \<open>The constructor: field bounds, the cleaned addresses, and the bound across fields.\<close>

definition mk_purchase_intent :: "purchase_intent \<Rightarrow> purchase_intent result" where
  "mk_purchase_intent i =
     (let ex = py_clean (pi_exchange_contract i); pay = py_clean (pi_payment_token i);
          cr = py_clean (pi_credit_token i); b = py_clean (pi_beneficiary i) in
      if pi_usdg_in i < 0 \<or> pi_min_credit_out i < 0 \<or> pi_max_fills i < 1 \<or> pi_max_fee_per_gas i < 0 \<or>
         pi_max_priority_fee_per_gas i < 0 \<or> pi_gas_limit i < 21000 \<or> pi_amount_credits i < 0
      then raise ValidationError ''a field is below its minimum''
      else if \<not> (ETH_ADDRESS_PATTERN ex \<and> ETH_ADDRESS_PATTERN pay \<and> ETH_ADDRESS_PATTERN cr)
      then raise ValidationError ''Invalid contract address''
      else if \<not> (ETH_ADDRESS_PATTERN b \<or> BYTES32_PATTERN b)
      then raise ValidationError ''beneficiary must be a 0x-prefixed EVM address or bytes32''
      else if pi_usdg_in i = 0 \<and> pi_min_credit_out i = 0
      then raise ValidationError ''usdg_in and min_credit_out cannot both be zero''
      else Inr (i\<lparr>pi_exchange_contract := ex, pi_payment_token := pay, pi_credit_token := cr, pi_beneficiary := b\<rparr>))"

text \<open>The validator admits addresses and bytes32 only, so that an address conversion cannot raise here.\<close>

definition beneficiary_as_bytes32 :: "purchase_intent \<Rightarrow> string" where
  "beneficiary_as_bytes32 i = (if BYTES32_PATTERN (pi_beneficiary i) then pi_beneficiary i
     else ''0x'' @ zfill64 (drop 2 (py_clean (pi_beneficiary i))))"

definition encode_calldata :: "abi \<Rightarrow> purchase_intent \<Rightarrow> string result" where
  "encode_calldata abi i =
     encode_buy_and_activate_calldata abi (pi_usdg_in i) (pi_min_credit_out i) (pi_beneficiary i) (pi_max_fills i)"

definition compute_purchase_intent_hash :: "prims \<Rightarrow> purchase_intent \<Rightarrow> string" where
  "compute_purchase_intent_hash P i = sha256 P (canonical_json P (JObj
     [(''tenant_id'', JStr (pi_tenant_id i)), (''organisation_id'', JStr (pi_organisation_id i)),
      (''mission_id'', opt_json (pi_mission_id i)), (''operation_id'', JStr (pi_operation_id i)),
      (''chain_id'', JInt (pi_chain_id i)), (''network'', JStr (pi_network i)),
      (''exchange_contract'', JStr (pi_exchange_contract i)), (''payment_token'', JStr (pi_payment_token i)),
      (''credit_token'', JStr (pi_credit_token i)), (''usdg_in'', JInt (pi_usdg_in i)),
      (''min_credit_out'', JInt (pi_min_credit_out i)), (''beneficiary'', JStr (beneficiary_as_bytes32 i)),
      (''max_fills'', JInt (pi_max_fills i)), (''max_fee_per_gas'', JInt (pi_max_fee_per_gas i)),
      (''max_priority_fee_per_gas'', JInt (pi_max_priority_fee_per_gas i)), (''gas_limit'', JInt (pi_gas_limit i)),
      (''amount_credits'', JInt (pi_amount_credits i)), (''idempotency_key'', JStr (pi_idempotency_key i)),
      (''policy_decision_id'', JStr (pi_policy_decision_id i)),
      (''authorization_token_hash'', JStr (pi_authorization_token_hash i)),
      (''deadline'', (case pi_deadline i of None \<Rightarrow> JNull | Some n \<Rightarrow> JInt n)),
      (''function'', JStr BUY_AND_ACTIVATE_SIGNATURE)]))"

definition to_blockchain_intent :: "abi \<Rightarrow> purchase_intent \<Rightarrow> blockchain_intent result" where
  "to_blockchain_intent abi i = bind_result (encode_calldata abi i) (\<lambda>calldata. mk_blockchain_intent
     \<lparr>bi_tenant_id = pi_tenant_id i, bi_organisation_id = pi_organisation_id i, bi_mission_id = pi_mission_id i,
      bi_operation_id = pi_operation_id i, bi_chain_id = pi_chain_id i, bi_network = pi_network i,
      bi_recipient = pi_exchange_contract i, bi_amount_wei = 0, bi_amount_credits = pi_amount_credits i,
      bi_asset = ''USDG'', bi_token_contract = Some (pi_payment_token i), bi_transaction_type = 2,
      bi_max_fee_per_gas = pi_max_fee_per_gas i, bi_max_priority_fee_per_gas = pi_max_priority_fee_per_gas i,
      bi_gas_limit = pi_gas_limit i, bi_data_payload = calldata, bi_idempotency_key = pi_idempotency_key i,
      bi_policy_decision_id = pi_policy_decision_id i, bi_authorization_token_hash = pi_authorization_token_hash i,
      bi_created_at = pi_created_at i\<rparr>)"

section \<open>orbio\_purchase\_rules.py\<close>

datatype purchase_result = Purchase_ALLOW | Purchase_DENY | Purchase_HUMAN_CONFIRMATION_REQUIRED

datatype purchase_code =
  P_UNAUTHORIZED_NETWORK | P_UNAUTHORIZED_EXCHANGE | P_UNAUTHORIZED_PAYMENT_TOKEN | P_UNAUTHORIZED_CREDIT_TOKEN
  | P_UNAUTHORIZED_BENEFICIARY | P_MAX_USDG_EXCEEDED | P_SLIPPAGE_BOUND_INVALID | P_MAX_FILLS_EXCEEDED
  | P_GAS_BOUND_EXCEEDED | P_DEADLINE_EXPIRED | P_MISSING_HUMAN_APPROVAL | P_HUMAN_APPROVAL_INTENT_MISMATCH
  | P_HUMAN_APPROVAL_EXPIRED | P_HUMAN_APPROVAL_TENANT_MISMATCH | P_UNAUTHORIZED_HUMAN_APPROVAL
  | P_HUMAN_APPROVAL_REVOKED | P_UNAUTHORIZED_DEPLOYMENT | P_POLICY_BINDING_MISMATCH | P_INVALID_INTENT

record deployment =
  dp_chain_id :: int
  dp_network :: string
  dp_exchange_contract :: string
  dp_payment_token :: string
  dp_credit_token :: string

type_synonym deployment_tuple = "int \<times> string \<times> string \<times> string \<times> string"

definition deployment_to_tuple :: "deployment \<Rightarrow> deployment_tuple" where
  "deployment_to_tuple d = (dp_chain_id d, py_lower (dp_network d), py_lower (dp_exchange_contract d),
     py_lower (dp_payment_token d), py_lower (dp_credit_token d))"

definition robinhood :: "int \<Rightarrow> string \<Rightarrow> deployment" where
  "robinhood chain network = \<lparr>dp_chain_id = chain, dp_network = network, dp_exchange_contract = ORBIO_EXCHANGE_MAINNET,
     dp_payment_token = USDG_MAINNET, dp_credit_token = ORBIO_CREDIT_MAINNET\<rparr>"

definition DEFAULT_DEPLOYMENTS :: "deployment list" where
  "DEFAULT_DEPLOYMENTS = [robinhood 46630 ''robinhood-testnet'', robinhood 46630 ''robinhood'',
     robinhood 4663 ''robinhood-mainnet'', robinhood 4663 ''robinhood'']"

record purchase_decision =
  qd_result :: purchase_result
  qd_policy_version :: string
  qd_intent_hash :: string
  qd_reasons :: "string list"
  qd_denial_codes :: "purchase_code list"
  qd_evaluated_at :: string
  qd_decision_id :: string
  qd_requires_human_confirmation :: bool
  qd_autonomous_usdg_ceiling :: int
  qd_absolute_usdg_ceiling :: int

record human_approval =
  ha_approval_id :: string
  ha_intent_hash :: string
  ha_tenant_id :: string
  ha_organisation_id :: string
  ha_operator_id :: string
  ha_issued_at :: rat
  ha_expires_at :: rat
  ha_notes :: "string option"
  ha_issuance_token :: "string option"

definition approval_refusal :: "prims \<Rightarrow> human_approval \<Rightarrow> purchase_intent \<Rightarrow> rat \<Rightarrow> (purchase_code \<times> string) option" where
  "approval_refusal P a i now =
     (if now > ha_expires_at a then Some (P_HUMAN_APPROVAL_EXPIRED, ''Human approval expired'')
      else if ha_intent_hash a \<noteq> compute_purchase_intent_hash P i
      then Some (P_HUMAN_APPROVAL_INTENT_MISMATCH, ''Human approval intent hash does not match current purchase intent'')
      else if ha_tenant_id a \<noteq> pi_tenant_id i \<or> ha_organisation_id a \<noteq> pi_organisation_id i
      then Some (P_HUMAN_APPROVAL_TENANT_MISMATCH, ''Human approval tenant/organisation does not match purchase intent'')
      else None)"

record purchase_policy =
  pp_deployments :: "deployment list"
  pp_allowed_chain_ids :: "int list"
  pp_allowed_networks :: "string list"
  pp_allowed_exchange_contracts :: "string list"
  pp_allowed_payment_tokens :: "string list"
  pp_allowed_credit_tokens :: "string list"
  pp_allowed_beneficiaries :: "string list"
  pp_require_beneficiary_allowlist :: bool
  pp_autonomous_usdg_ceiling :: int
  pp_absolute_usdg_ceiling :: int
  pp_max_fills :: int
  pp_max_fee_per_gas :: int
  pp_max_priority_fee_per_gas :: int
  pp_max_gas_limit :: int
  pp_human_approval_ttl_seconds :: rat
  pp_secret :: string
  pp_approvals :: "(string \<times> human_approval) list"
  pp_issued :: "(string \<times> human_approval) list"
  pp_revoked :: "string set"

text \<open>The arguments of the constructor that filter or replace the deployments.\<close>

record policy_scope =
  sp_deployments :: "deployment list option"
  sp_chain_ids :: "int list option"
  sp_networks :: "string list option"
  sp_exchange_contracts :: "string list option"
  sp_payment_tokens :: "string list option"
  sp_credit_tokens :: "string list option"
  sp_beneficiaries :: "string list option"

definition keep_allowed :: "'a list option \<Rightarrow> ('a \<Rightarrow> 'b) \<Rightarrow> (deployment \<Rightarrow> 'b) \<Rightarrow> deployment list \<Rightarrow> deployment list" where
  "keep_allowed allowed low f ds = (case allowed of None \<Rightarrow> ds | Some xs \<Rightarrow> filter (\<lambda>d. f d \<in> set (map low xs)) ds)"

definition scope_deployments :: "policy_scope \<Rightarrow> deployment list" where
  "scope_deployments S = (case sp_deployments S of
      Some ds \<Rightarrow> ds
    | None \<Rightarrow> keep_allowed (sp_credit_tokens S) py_lower (\<lambda>d. py_lower (dp_credit_token d))
        (keep_allowed (sp_payment_tokens S) py_lower (\<lambda>d. py_lower (dp_payment_token d))
        (keep_allowed (sp_exchange_contracts S) py_lower (\<lambda>d. py_lower (dp_exchange_contract d))
        (keep_allowed (sp_networks S) py_lower (\<lambda>d. py_lower (dp_network d))
        (keep_allowed (sp_chain_ids S) id dp_chain_id DEFAULT_DEPLOYMENTS)))))"

definition allowed_set :: "string list option \<Rightarrow> (deployment \<Rightarrow> string) \<Rightarrow> deployment list \<Rightarrow> string list" where
  "allowed_set given f ds = remdups (map py_lower (case given of None \<Rightarrow> map f ds | Some xs \<Rightarrow> xs))"

definition mk_purchase_policy ::
  "env \<Rightarrow> policy_scope \<Rightarrow> int \<Rightarrow> int \<Rightarrow> int \<Rightarrow> int \<Rightarrow> int \<Rightarrow> int \<Rightarrow> bool \<Rightarrow> rat \<Rightarrow> string option \<Rightarrow> purchase_policy result" where
  "mk_purchase_policy E S autonomous absolute fills fee prio gas require_listed ttl secret =
     (if autonomous > absolute then raise ValueError ''autonomous_usdg_ceiling cannot exceed absolute_usdg_ceiling''
      else let ds = scope_deployments S in Inr
        \<lparr>pp_deployments = ds,
         pp_allowed_chain_ids = remdups (case sp_chain_ids S of None \<Rightarrow> map dp_chain_id ds | Some xs \<Rightarrow> xs),
         pp_allowed_networks = allowed_set (sp_networks S) dp_network ds,
         pp_allowed_exchange_contracts = allowed_set (sp_exchange_contracts S) dp_exchange_contract ds,
         pp_allowed_payment_tokens = allowed_set (sp_payment_tokens S) dp_payment_token ds,
         pp_allowed_credit_tokens = allowed_set (sp_credit_tokens S) dp_credit_token ds,
         pp_allowed_beneficiaries = (case sp_beneficiaries S of None \<Rightarrow> [] | Some xs \<Rightarrow> remdups (map py_lower xs)),
         pp_require_beneficiary_allowlist = require_listed, pp_autonomous_usdg_ceiling = autonomous,
         pp_absolute_usdg_ceiling = absolute, pp_max_fills = fills, pp_max_fee_per_gas = fee,
         pp_max_priority_fee_per_gas = prio, pp_max_gas_limit = gas, pp_human_approval_ttl_seconds = ttl,
         pp_secret = py_or secret (e_uuid E 0), pp_approvals = [], pp_issued = [], pp_revoked = {}\<rparr>)"

definition strs :: "string list \<Rightarrow> json" where "strs xs = JList (map JStr (sort xs))"

definition purchase_policy_version :: "prims \<Rightarrow> purchase_policy \<Rightarrow> string" where
  "purchase_policy_version P p = sha256 P (canonical_json P (JObj
     [(''policy_id'', JStr ''POLICY-ORBIO-PURCHASE-01''),
      (''deployments'', JList (map (\<lambda>(c, n, e, y, k). JList [JInt c, JStr n, JStr e, JStr y, JStr k])
         (sort (map deployment_to_tuple (pp_deployments p))))),
      (''allowed_chain_ids'', JList (map JInt (sort (pp_allowed_chain_ids p)))),
      (''allowed_networks'', strs (pp_allowed_networks p)),
      (''allowed_exchange_contracts'', strs (pp_allowed_exchange_contracts p)),
      (''allowed_payment_tokens'', strs (pp_allowed_payment_tokens p)),
      (''allowed_credit_tokens'', strs (pp_allowed_credit_tokens p)),
      (''allowed_beneficiaries'', strs (pp_allowed_beneficiaries p)),
      (''require_beneficiary_allowlist'', JBool (pp_require_beneficiary_allowlist p)),
      (''autonomous_usdg_ceiling'', JInt (pp_autonomous_usdg_ceiling p)),
      (''absolute_usdg_ceiling'', JInt (pp_absolute_usdg_ceiling p)), (''max_fills'', JInt (pp_max_fills p)),
      (''max_fee_per_gas'', JInt (pp_max_fee_per_gas p)),
      (''max_priority_fee_per_gas'', JInt (pp_max_priority_fee_per_gas p)), (''max_gas_limit'', JInt (pp_max_gas_limit p))]))"

definition issuance_token ::
  "prims \<Rightarrow> purchase_policy \<Rightarrow> string \<Rightarrow> string \<Rightarrow> string \<Rightarrow> string \<Rightarrow> string \<Rightarrow> rat \<Rightarrow> rat \<Rightarrow> string" where
  "issuance_token P p approval_id ih tid oid operator issued expires =
     hmac_sha256 P (pp_secret p) (approval_id @ '':'' @ ih @ '':'' @ tid @ '':'' @ oid @ '':'' @ operator @ '':'' @
       str_float P issued @ '':'' @ str_float P expires)"

definition issue_human_approval ::
  "prims \<Rightarrow> env \<Rightarrow> purchase_intent \<Rightarrow> string \<Rightarrow> string option \<Rightarrow> rat option \<Rightarrow> rat \<Rightarrow> purchase_policy \<Rightarrow>
     human_approval \<times> purchase_policy" where
  "issue_human_approval P E i operator notes ttl_seconds now p =
     (let ttl = (case ttl_seconds of None \<Rightarrow> pp_human_approval_ttl_seconds p | Some t \<Rightarrow> t);
          ih = compute_purchase_intent_hash P i; aid = e_uuid E 0;
          a = \<lparr>ha_approval_id = aid, ha_intent_hash = ih, ha_tenant_id = pi_tenant_id i,
            ha_organisation_id = pi_organisation_id i, ha_operator_id = operator, ha_issued_at = now,
            ha_expires_at = now + ttl, ha_notes = notes,
            ha_issuance_token = Some (issuance_token P p aid ih (pi_tenant_id i) (pi_organisation_id i) operator now (now + ttl))\<rparr>
      in (a, p\<lparr>pp_approvals := AList.update ih a (pp_approvals p), pp_issued := AList.update aid a (pp_issued p)\<rparr>))"

text \<open>The key names an approval by the hash of its intent, or by its id, or neither.\<close>

definition revoke_as_hash :: "string \<Rightarrow> purchase_policy \<Rightarrow> purchase_policy" where
  "revoke_as_hash x p = (case map_of (pp_approvals p) x of
       None \<Rightarrow> p
     | Some a \<Rightarrow> p\<lparr>pp_approvals := AList.delete x (pp_approvals p), pp_revoked := insert (ha_approval_id a) (pp_revoked p),
         pp_issued := AList.delete (ha_approval_id a) (pp_issued p)\<rparr>)"

definition revoke_as_id :: "string \<Rightarrow> purchase_policy \<Rightarrow> purchase_policy" where
  "revoke_as_id x p = (case map_of (pp_issued p) x of
       None \<Rightarrow> p
     | Some a \<Rightarrow> p\<lparr>pp_issued := AList.delete x (pp_issued p), pp_revoked := insert (ha_approval_id a) (pp_revoked p),
         pp_approvals := AList.delete (ha_intent_hash a) (pp_approvals p)\<rparr>)"

definition revoke_human_approval :: "string \<Rightarrow> purchase_policy \<Rightarrow> purchase_policy" where
  "revoke_human_approval x p =
     (if map_of (pp_approvals p) x = None \<and> map_of (pp_issued p) x = None then p\<lparr>pp_revoked := insert x (pp_revoked p)\<rparr>
      else revoke_as_id x (revoke_as_hash x p))"

definition get_human_approval :: "purchase_policy \<Rightarrow> string \<Rightarrow> human_approval option" where
  "get_human_approval p ih = map_of (pp_approvals p) ih"

definition intent_tuple :: "purchase_intent \<Rightarrow> deployment_tuple" where
  "intent_tuple i = (pi_chain_id i, py_lower (pi_network i), py_lower (pi_exchange_contract i),
     py_lower (pi_payment_token i), py_lower (pi_credit_token i))"

text \<open>Each check returns the denial it leads to.\<close>

type_synonym denial = "(purchase_code \<times> string) option"

definition check_deployment :: "purchase_policy \<Rightarrow> purchase_intent \<Rightarrow> denial" where
  "check_deployment p i =
     (let ts = map deployment_to_tuple (pp_deployments p); has = (\<lambda>f. f (intent_tuple i) \<in> set (map f ts)) in
      if intent_tuple i \<in> set ts then None
      else if \<not> has fst then Some (P_UNAUTHORIZED_NETWORK, ''chain_id not in allowed set'')
      else if py_lower (pi_network i) \<notin> set (map (fst \<circ> snd) ts) then Some (P_UNAUTHORIZED_NETWORK, ''network not in allowed set'')
      else if (pi_chain_id i, py_lower (pi_network i)) \<notin> set (map (\<lambda>(c, n, r). (c, n)) ts)
      then Some (P_UNAUTHORIZED_NETWORK, ''Deployment mismatch: network is not valid for chain_id'')
      else if py_lower (pi_exchange_contract i) \<notin> set (map (fst \<circ> snd \<circ> snd) ts)
      then Some (P_UNAUTHORIZED_EXCHANGE, ''exchange_contract is not authorized'')
      else if py_lower (pi_payment_token i) \<notin> set (map (fst \<circ> snd \<circ> snd \<circ> snd) ts)
      then Some (P_UNAUTHORIZED_PAYMENT_TOKEN, ''payment_token is not authorized'')
      else if py_lower (pi_credit_token i) \<notin> set (map (snd \<circ> snd \<circ> snd \<circ> snd) ts)
      then Some (P_UNAUTHORIZED_CREDIT_TOKEN, ''credit_token is not authorized'')
      else Some (P_UNAUTHORIZED_DEPLOYMENT, ''Deployment tuple mismatch''))"

definition address_b32 :: "string \<Rightarrow> string" where
  "address_b32 a = py_lower (''0x'' @ zfill64 (drop 2 (py_clean a)))"

definition beneficiary_listed :: "string list \<Rightarrow> string \<Rightarrow> bool" where
  "beneficiary_listed L key \<longleftrightarrow> key \<in> set L \<or>
     (if ETH_ADDRESS_PATTERN key then address_b32 key \<in> set L
      else list_ex (\<lambda>a. if ETH_ADDRESS_PATTERN a then address_b32 a = key else a = key) L)"

definition check_bounds :: "purchase_policy \<Rightarrow> purchase_intent \<Rightarrow> rat \<Rightarrow> denial" where
  "check_bounds p i now =
     (if (pp_require_beneficiary_allowlist p \<or> pp_allowed_beneficiaries p \<noteq> []) \<and>
         \<not> beneficiary_listed (pp_allowed_beneficiaries p) (py_lower (pi_beneficiary i))
      then Some (P_UNAUTHORIZED_BENEFICIARY, ''beneficiary is not on the approved allowlist'')
      else if pi_usdg_in i > pp_absolute_usdg_ceiling p then Some (P_MAX_USDG_EXCEEDED, ''usdg_in exceeds absolute ceiling'')
      else if pi_min_credit_out i > pi_usdg_in i then Some (P_SLIPPAGE_BOUND_INVALID, ''min_credit_out exceeds usdg_in'')
      else if pi_min_credit_out i \<le> 0 \<and> pi_usdg_in i > 0
      then Some (P_SLIPPAGE_BOUND_INVALID, ''min_credit_out must be positive when usdg_in > 0 (unbounded slippage forbidden)'')
      else if pi_max_fills i > pp_max_fills p then Some (P_MAX_FILLS_EXCEEDED, ''max_fills exceeds policy maximum'')
      else if pi_max_fee_per_gas i > pp_max_fee_per_gas p then Some (P_GAS_BOUND_EXCEEDED, ''max_fee_per_gas exceeds ceiling'')
      else if pi_max_priority_fee_per_gas i > pp_max_priority_fee_per_gas p
      then Some (P_GAS_BOUND_EXCEEDED, ''max_priority_fee_per_gas exceeds ceiling'')
      else if pi_gas_limit i > pp_max_gas_limit p then Some (P_GAS_BOUND_EXCEEDED, ''gas_limit exceeds ceiling'')
      else if (case pi_deadline i of None \<Rightarrow> False | Some d \<Rightarrow> now > of_int d)
      then Some (P_DEADLINE_EXPIRED, ''purchase intent deadline has passed'') else None)"

definition check_approval :: "prims \<Rightarrow> purchase_policy \<Rightarrow> human_approval \<Rightarrow> purchase_intent \<Rightarrow> rat \<Rightarrow> denial" where
  "check_approval P p a i now =
     (if ha_approval_id a \<in> pp_revoked p then Some (P_HUMAN_APPROVAL_REVOKED, ''Human approval has been revoked'')
      else if \<not> py_truthy (ha_issuance_token a)
      then Some (P_UNAUTHORIZED_HUMAN_APPROVAL, ''Human approval lacks issuance token; caller-fabricated approvals are rejected'')
      else if ha_issuance_token a \<noteq> Some (issuance_token P p (ha_approval_id a) (ha_intent_hash a) (ha_tenant_id a)
          (ha_organisation_id a) (ha_operator_id a) (ha_issued_at a) (ha_expires_at a))
      then Some (P_UNAUTHORIZED_HUMAN_APPROVAL, ''Human approval issuance token signature mismatch; caller-fabricated approvals are rejected'')
      else if map_of (pp_issued p) (ha_approval_id a) = None
      then Some (P_UNAUTHORIZED_HUMAN_APPROVAL, ''Human approval not found in policy issuance registry'')
      else approval_refusal P a i now)"

definition evaluate_purchase ::
  "prims \<Rightarrow> env \<Rightarrow> rat \<Rightarrow> purchase_policy \<Rightarrow> purchase_intent \<Rightarrow> human_approval option \<Rightarrow> purchase_decision" where
  "evaluate_purchase P E now p i given =
     (let ih = compute_purchase_intent_hash P i;
          outcome = (\<lambda>r reasons codes human. \<lparr>qd_result = r, qd_policy_version = purchase_policy_version P p,
            qd_intent_hash = ih, qd_reasons = reasons, qd_denial_codes = codes, qd_evaluated_at = e_now E 0,
            qd_decision_id = e_uuid E 0, qd_requires_human_confirmation = human,
            qd_autonomous_usdg_ceiling = pp_autonomous_usdg_ceiling p,
            qd_absolute_usdg_ceiling = pp_absolute_usdg_ceiling p\<rparr>);
          deny = (\<lambda>(c, m). outcome Purchase_DENY [m] [c] False);
          approval = (case given of None \<Rightarrow> map_of (pp_approvals p) ih | Some a \<Rightarrow> Some a)
      in case check_deployment p i of Some x \<Rightarrow> deny x
      | None \<Rightarrow> case check_bounds p i now of Some x \<Rightarrow> deny x
      | None \<Rightarrow>
        if pi_usdg_in i > pp_autonomous_usdg_ceiling p
        then case approval of
            None \<Rightarrow> outcome Purchase_HUMAN_CONFIRMATION_REQUIRED
              [''usdg_in exceeds autonomous ceiling; human confirmation required''] [P_MISSING_HUMAN_APPROVAL] True
          | Some a \<Rightarrow> (case check_approval P p a i now of Some x \<Rightarrow> deny x
              | None \<Rightarrow> outcome Purchase_ALLOW [''Human approval accepted''] [] False)
        else outcome Purchase_ALLOW [''Purchase within autonomous policy bounds''] [] False)"

text \<open>The rule that puts the policy into the general engine.\<close>

definition str_param :: "prims \<Rightarrow> json option \<Rightarrow> string \<Rightarrow> string" where
  "str_param P v d = (case v of None \<Rightarrow> d | Some j \<Rightarrow> py_str P j)"

definition int_param :: "json option \<Rightarrow> int \<Rightarrow> int result" where
  "int_param v d = (case v of None \<Rightarrow> Inr d | Some j \<Rightarrow> py_int j)"

text \<open>A field of the intent that is not converted must already be a string (or null, for the mission).\<close>

definition text_field :: "json option \<Rightarrow> string \<Rightarrow> string result" where
  "text_field v d = (case v of None \<Rightarrow> Inr d | Some (JStr s) \<Rightarrow> Inr s
     | _ \<Rightarrow> raise ValidationError ''Input should be a valid string'')"

definition mission_field :: "json option \<Rightarrow> string option result" where
  "mission_field v = (case v of None \<Rightarrow> Inr (Some ''m-default'') | Some JNull \<Rightarrow> Inr None | Some (JStr s) \<Rightarrow> Inr (Some s)
     | _ \<Rightarrow> raise ValidationError ''Input should be a valid string'')"

definition intent_of_proposal ::
  "prims \<Rightarrow> env \<Rightarrow> action_proposal \<Rightarrow> agent_record \<Rightarrow> organisation \<Rightarrow> purchase_intent result" where
  "intent_of_proposal P E p a g =
     (let par = map_of (pr_parameters p) in
      bind_result (int_param (par ''chain_id'') 46630) (\<lambda>chain.
      bind_result (int_param (par ''usdg_in'') (pr_requested_credits p * 1000000)) (\<lambda>usdg.
      bind_result (int_param (par ''min_credit_out'') 1) (\<lambda>min_out.
      bind_result (int_param (par ''max_fills'') 5) (\<lambda>fills.
      bind_result (mission_field (par ''mission_id'')) (\<lambda>mission.
      bind_result (text_field (par ''operation_id'') (pr_id p)) (\<lambda>oid. mk_purchase_intent
        \<lparr>pi_tenant_id = og_tenant_id g, pi_organisation_id = og_id g, pi_mission_id = mission, pi_operation_id = oid,
         pi_chain_id = chain, pi_network = str_param P (par ''network'') ''robinhood-testnet'',
         pi_exchange_contract = ORBIO_EXCHANGE_MAINNET, pi_payment_token = USDG_MAINNET,
         pi_credit_token = ORBIO_CREDIT_MAINNET, pi_usdg_in = usdg, pi_min_credit_out = min_out,
         pi_beneficiary = str_param P (par ''beneficiary'') (ag_id a), pi_max_fills = fills,
         pi_max_fee_per_gas = 25000000000, pi_max_priority_fee_per_gas = 1500000000, pi_gas_limit = 350000,
         pi_amount_credits = pr_requested_credits p,
         pi_idempotency_key = str_param P (par ''idempotency_key'') (og_id g @ '':'' @ pr_id p),
         pi_policy_decision_id = pr_id p, pi_authorization_token_hash = ''tok-hash'', pi_deadline = None,
         pi_created_at = e_now E 0\<rparr>)))))))"

definition OrbioPurchaseGovernanceRule :: "prims \<Rightarrow> env \<Rightarrow> rat \<Rightarrow> purchase_policy \<Rightarrow> policy_rule" where
  "OrbioPurchaseGovernanceRule P E now policy = \<lparr>rl_id = PURCHASE_RULE_ID,
     rl_description = ''Orbio CREDIT purchases must satisfy OrbioPurchasePolicy bounds'',
     rl_evaluate = (\<lambda>p a g led rules.
       if pr_action_type p \<noteq> ORBIO_CREDIT_PURCHASE then pass
       else case intent_of_proposal P E p a g of
          Inl _ \<Rightarrow> violates ''Invalid Orbio purchase proposal parameters''
        | Inr i \<Rightarrow> if qd_result (evaluate_purchase P (env_skip 1 E) now policy i None) \<noteq> Purchase_ALLOW
            then violates ''Orbio purchase policy violation'' else pass)\<rparr>"

section \<open>What the constructor and an ALLOW guarantee\<close>

lemma mk_purchase_intent_Inr:
  assumes "mk_purchase_intent i = Inr j"
  shows "0 \<le> pi_usdg_in j \<and> 0 \<le> pi_min_credit_out j \<and> 1 \<le> pi_max_fills j \<and> 0 \<le> pi_amount_credits j \<and> 21000 \<le> pi_gas_limit j"
    and "pi_usdg_in j = pi_usdg_in i \<and> pi_min_credit_out j = pi_min_credit_out i \<and> pi_tenant_id j = pi_tenant_id i \<and>
      pi_organisation_id j = pi_organisation_id i \<and> pi_amount_credits j = pi_amount_credits i \<and>
      pi_operation_id j = pi_operation_id i \<and> pi_idempotency_key j = pi_idempotency_key i \<and> pi_chain_id j = pi_chain_id i"
  using assms by (auto simp: mk_purchase_intent_def Let_def split: if_splits)

lemma check_deployment_None: "check_deployment p i = None \<longleftrightarrow> intent_tuple i \<in> deployment_to_tuple ` set (pp_deployments p)"
  by (simp add: check_deployment_def Let_def)

definition within_bounds :: "purchase_policy \<Rightarrow> purchase_intent \<Rightarrow> rat \<Rightarrow> bool" where
  "within_bounds p i now \<longleftrightarrow> pi_usdg_in i \<le> pp_absolute_usdg_ceiling p \<and> pi_min_credit_out i \<le> pi_usdg_in i \<and>
     (0 < pi_usdg_in i \<longrightarrow> 0 < pi_min_credit_out i) \<and> pi_max_fills i \<le> pp_max_fills p \<and>
     pi_max_fee_per_gas i \<le> pp_max_fee_per_gas p \<and> pi_max_priority_fee_per_gas i \<le> pp_max_priority_fee_per_gas p \<and>
     pi_gas_limit i \<le> pp_max_gas_limit p \<and> (\<forall>d. pi_deadline i = Some d \<longrightarrow> now \<le> of_int d) \<and>
     (pp_allowed_beneficiaries p = [] \<and> \<not> pp_require_beneficiary_allowlist p \<or>
      beneficiary_listed (pp_allowed_beneficiaries p) (py_lower (pi_beneficiary i)))"

lemma check_bounds_None: "check_bounds p i now = None \<longleftrightarrow> within_bounds p i now"
  unfolding check_bounds_def within_bounds_def by (cases "pi_deadline i") (auto split: if_splits)

lemma approval_refusal_None:
  "approval_refusal P a i now = None \<longleftrightarrow> now \<le> ha_expires_at a \<and> ha_intent_hash a = compute_purchase_intent_hash P i \<and>
     ha_tenant_id a = pi_tenant_id i \<and> ha_organisation_id a = pi_organisation_id i"
  by (auto simp: approval_refusal_def)

definition token_of :: "prims \<Rightarrow> purchase_policy \<Rightarrow> human_approval \<Rightarrow> string" where
  "token_of P p a = issuance_token P p (ha_approval_id a) (ha_intent_hash a) (ha_tenant_id a) (ha_organisation_id a)
     (ha_operator_id a) (ha_issued_at a) (ha_expires_at a)"

lemma check_approval_None:
  "check_approval P p a i now = None \<longleftrightarrow> ha_approval_id a \<notin> pp_revoked p \<and> ha_approval_id a \<in> fst ` set (pp_issued p) \<and>
     token_of P p a \<noteq> [] \<and> ha_issuance_token a = Some (token_of P p a) \<and> approval_refusal P a i now = None"
  by (cases "ha_issuance_token a") (auto simp: check_approval_def token_of_def map_of_eq_None_iff)

lemma evaluate_purchase_allows:
  "qd_result (evaluate_purchase P E now p i given) = Purchase_ALLOW \<longleftrightarrow>
     check_deployment p i = None \<and> check_bounds p i now = None \<and>
     (pp_autonomous_usdg_ceiling p < pi_usdg_in i \<longrightarrow>
       (\<exists>a. (case given of None \<Rightarrow> map_of (pp_approvals p) (compute_purchase_intent_hash P i) | Some a \<Rightarrow> Some a) = Some a \<and>
          check_approval P p a i now = None))"
  unfolding evaluate_purchase_def Let_def by (simp split: option.split)

text \<open>Issuing (with a fresh id) and revoking, by any caller in any order.\<close>

inductive policy_step :: "prims \<Rightarrow> purchase_policy \<Rightarrow> purchase_policy \<Rightarrow> bool" for P where
  step_issue: "e_uuid E 0 \<notin> fst ` set (pp_issued p) \<union> pp_revoked p \<Longrightarrow>
     issue_human_approval P E i operator notes ttl now p = (a, p') \<Longrightarrow> policy_step P p p'"
| step_revoke: "policy_step P p (revoke_human_approval x p)"

lemma revoke_parts:
  "pp_secret (revoke_human_approval x p) = pp_secret p" "pp_autonomous_usdg_ceiling (revoke_human_approval x p) = pp_autonomous_usdg_ceiling p"
  by (simp_all add: revoke_human_approval_def revoke_as_hash_def revoke_as_id_def split: option.split)

lemma revoke_grows: "pp_revoked p \<subseteq> pp_revoked (revoke_human_approval x p)"
  by (auto simp: revoke_human_approval_def revoke_as_hash_def revoke_as_id_def split: option.split)

lemma policy_step_grows:
  assumes "policy_step P p p'"
  shows "pp_revoked p \<subseteq> pp_revoked p' \<and> pp_autonomous_usdg_ceiling p' = pp_autonomous_usdg_ceiling p"
  using assms by cases (auto simp: issue_human_approval_def Let_def revoke_parts dest: subsetD [OF revoke_grows])

lemma policy_steps_grow:
  "(policy_step P)\<^sup>*\<^sup>* p p' \<Longrightarrow> pp_revoked p \<subseteq> pp_revoked p' \<and> pp_autonomous_usdg_ceiling p' = pp_autonomous_usdg_ceiling p"
  by (induction rule: rtranclp_induct) (auto dest: policy_step_grows)

definition registry_ok :: "purchase_policy \<Rightarrow> bool" where
  "registry_ok p \<longleftrightarrow> (\<forall>(k, a) \<in> set (pp_issued p). ha_approval_id a = k) \<and> (\<forall>(h, a) \<in> set (pp_approvals p). ha_intent_hash a = h)"

lemma update_mem: "x \<in> set (AList.update k v xs) \<Longrightarrow> x = (k, v) \<or> x \<in> set xs"
  by (induction xs) (auto split: if_splits)

lemma delete_mem: "x \<in> set (AList.delete k xs) \<Longrightarrow> x \<in> set xs"
  by (induction xs) (auto split: if_splits)

lemma registry_ok_issue:
  "registry_ok p \<Longrightarrow> issue_human_approval P E i operator notes ttl now p = (a, p') \<Longrightarrow> registry_ok p'"
  unfolding registry_ok_def by (auto simp: issue_human_approval_def Let_def dest!: update_mem)

lemma registry_ok_revoke: "registry_ok p \<Longrightarrow> registry_ok (revoke_human_approval x p)"
  unfolding registry_ok_def
  by (auto simp: revoke_human_approval_def revoke_as_hash_def revoke_as_id_def split: option.split dest!: delete_mem)

lemma policy_step_registry: "policy_step P p p' \<Longrightarrow> registry_ok p \<Longrightarrow> registry_ok p'"
  by (induction rule: policy_step.induct) (blast intro: registry_ok_issue registry_ok_revoke)+

lemma policy_steps_registry: "(policy_step P)\<^sup>*\<^sup>* p p' \<Longrightarrow> registry_ok p \<Longrightarrow> registry_ok p'"
  by (induction rule: rtranclp_induct) (auto dest: policy_step_registry)

lemma new_policy_registry: "mk_purchase_policy E S au ab fi fe pr ga lis lif se = Inr p \<Longrightarrow> registry_ok p"
  by (auto simp: mk_purchase_policy_def registry_ok_def Let_def split: if_splits)

lemma issue_parts:
  assumes "issue_human_approval P E i operator notes ttl now p = (a, p')"
  shows "ha_approval_id a = e_uuid E 0" "ha_intent_hash a = compute_purchase_intent_hash P i" "ha_tenant_id a = pi_tenant_id i"
    "ha_organisation_id a = pi_organisation_id i" "ha_issuance_token a = Some (token_of P p a)"
    "p' = p\<lparr>pp_approvals := AList.update (compute_purchase_intent_hash P i) a (pp_approvals p),
       pp_issued := AList.update (e_uuid E 0) a (pp_issued p)\<rparr>"
proof -
  have "a = fst (issue_human_approval P E i operator notes ttl now p)" "p' = snd (issue_human_approval P E i operator notes ttl now p)"
    using assms by simp_all
  then show "ha_approval_id a = e_uuid E 0" "ha_intent_hash a = compute_purchase_intent_hash P i" "ha_tenant_id a = pi_tenant_id i"
    "ha_organisation_id a = pi_organisation_id i" "ha_issuance_token a = Some (token_of P p a)"
    "p' = p\<lparr>pp_approvals := AList.update (compute_purchase_intent_hash P i) a (pp_approvals p),
       pp_issued := AList.update (e_uuid E 0) a (pp_issued p)\<rparr>"
    by (simp_all add: issue_human_approval_def Let_def token_of_def)
qed

text \<open>What a changed registry leaves of the checks.\<close>

lemma registry_frame:
  "check_bounds (p\<lparr>pp_approvals := x, pp_issued := y\<rparr>) i now = check_bounds p i now"
  "check_deployment (p\<lparr>pp_approvals := x, pp_issued := y\<rparr>) i = check_deployment p i"
  "token_of P (p\<lparr>pp_approvals := x, pp_issued := y\<rparr>) a = token_of P p a"
  "check_bounds (p\<lparr>pp_revoked := z\<rparr>) i now = check_bounds p i now"
  "check_deployment (p\<lparr>pp_revoked := z\<rparr>) i = check_deployment p i"
  "token_of P (p\<lparr>pp_revoked := z\<rparr>) a = token_of P p a"
  by (simp_all add: check_bounds_def check_deployment_def token_of_def issuance_token_def)

text \<open>
  C40: an approval is good for exactly the purchase it was issued for.  With a freshly issued approval in hand, an intent is
  allowed exactly when it names a listed deployment, stays within every bound of the policy and,
  above the autonomous ceiling, has the approved hash, tenant and organisation before the approval expires.
\<close>

theorem purchase_approval_exact:
  assumes "issue_human_approval P E i operator notes ttl now p = (a, p')"
    and "e_uuid E 0 \<notin> pp_revoked p" "\<forall>k m. hmac_sha256 P k m \<noteq> []"
  shows "qd_result (evaluate_purchase P E2 now2 p' j (Some a)) = Purchase_ALLOW \<longleftrightarrow>
     intent_tuple j \<in> deployment_to_tuple ` set (pp_deployments p) \<and> within_bounds p j now2 \<and>
     (pp_autonomous_usdg_ceiling p < pi_usdg_in j \<longrightarrow>
        compute_purchase_intent_hash P j = compute_purchase_intent_hash P i \<and> pi_tenant_id j = pi_tenant_id i \<and>
        pi_organisation_id j = pi_organisation_id i \<and> now2 \<le> ha_expires_at a)"
proof -
  note a = issue_parts(1-5) [OF assms(1)] and p' = issue_parts(6) [OF assms(1)]
  have "check_approval P p' a j now2 = None \<longleftrightarrow> compute_purchase_intent_hash P j = compute_purchase_intent_hash P i \<and>
      pi_tenant_id j = pi_tenant_id i \<and> pi_organisation_id j = pi_organisation_id i \<and> now2 \<le> ha_expires_at a"
    using assms(2,3) a unfolding check_approval_None approval_refusal_None p' registry_frame
    by (auto simp: dom_update token_of_def issuance_token_def)
  then show ?thesis unfolding evaluate_purchase_allows p' registry_frame check_deployment_None check_bounds_None by simp
qed

text \<open>
  Revocation is final.  Take a policy with any history of issued and revoked approvals and revoke one that it issued, by its
  id or as the current approval of its intent.  Whatever is issued or revoked afterwards, no purchase above
  the autonomous ceiling is allowed on that approval again.
\<close>

theorem purchase_revocation_final:
  assumes "mk_purchase_policy E S au ab fi fe pr ga lis lif se = Inr p0" "(policy_step P)\<^sup>*\<^sup>* p0 p"
    and key: "x = ha_approval_id a \<and> x \<in> fst ` set (pp_issued p) \<or> map_of (pp_approvals p) x = Some a"
    and "(policy_step P)\<^sup>*\<^sup>* (revoke_human_approval x p) p'" "pp_autonomous_usdg_ceiling p < pi_usdg_in i"
  shows "qd_result (evaluate_purchase P E2 now p' i (Some a)) \<noteq> Purchase_ALLOW"
proof -
  have reg: "registry_ok p" using assms(1,2) new_policy_registry policy_steps_registry by blast
  have "ha_approval_id a \<in> pp_revoked (revoke_human_approval x p)"
    using key
  proof
    assume k: "x = ha_approval_id a \<and> x \<in> fst ` set (pp_issued p)"
    then obtain b where b: "map_of (pp_issued p) x = Some b" by (metis map_of_eq_None_iff not_None_eq)
    then have "ha_approval_id b = x" using reg map_of_SomeD by (fastforce simp: registry_ok_def)
    then show ?thesis using k b
      by (auto simp: revoke_human_approval_def revoke_as_hash_def revoke_as_id_def delete_conv split: option.split)
  next
    assume "map_of (pp_approvals p) x = Some a"
    then show ?thesis by (auto simp: revoke_human_approval_def revoke_as_hash_def revoke_as_id_def split: option.split)
  qed
  then have "ha_approval_id a \<in> pp_revoked p'" "pp_autonomous_usdg_ceiling p' < pi_usdg_in i"
    using policy_steps_grow [OF assms(4)] assms(5) revoke_parts by auto
  then show ?thesis by (simp add: evaluate_purchase_allows check_approval_None)
qed

text \<open>
  Revoking by the hash of the intent ends only the last approval for it: an earlier approval of the same intent stays
  good, although the intent was revoked.
\<close>

theorem revoked_intent_still_allowed:
  assumes "issue_human_approval P E i operator notes ttl now p = (a, p1)" "issue_human_approval P E1 i operator1 notes1 ttl1 now1 p1 = (a1, p2)"
    and "e_uuid E 0 \<noteq> e_uuid E1 0" "e_uuid E 0 \<notin> pp_revoked p" "\<forall>k m. hmac_sha256 P k m \<noteq> []"
    and "qd_result (evaluate_purchase P E2 now2 p1 i (Some a)) = Purchase_ALLOW"
    and "compute_purchase_intent_hash P i \<notin> fst ` set (pp_issued p2)"
  shows "qd_result (evaluate_purchase P E2 now2 (revoke_human_approval (compute_purchase_intent_hash P i) p2) i (Some a)) = Purchase_ALLOW"
proof -
  let ?h = "compute_purchase_intent_hash P i"
  note i1 = issue_parts [OF assms(1)] and i2 = issue_parts [OF assms(2)]
  have m: "map_of (pp_approvals p2) ?h = Some a1" unfolding i2(6) by (simp add: update_conv)
  have n: "map_of (pp_issued p2) ?h = None" "map_of (AList.delete (e_uuid E1 0) (pp_issued p2)) ?h = None"
    using assms(7) by (simp_all add: map_of_eq_None_iff delete_conv)
  have q: "revoke_human_approval ?h p2 = p2\<lparr>pp_approvals := AList.delete ?h (pp_approvals p2),
      pp_issued := AList.delete (e_uuid E1 0) (pp_issued p2), pp_revoked := insert (e_uuid E1 0) (pp_revoked p2)\<rparr>"
    using m n i2(1) by (simp add: revoke_human_approval_def revoke_as_hash_def revoke_as_id_def)
  have e0: "e_uuid E 0 \<in> fst ` set (pp_issued p1)" "pp_revoked p1 = pp_revoked p" unfolding i1(6) by (simp_all add: dom_update)
  then have e: "e_uuid E 0 \<in> fst ` set (AList.delete (e_uuid E1 0) (pp_issued p2))"
    using assms(3) unfolding i2(6) dom_map_of_conv_image_fst [symmetric] by (auto simp: dom_def delete_conv update_conv)
  define z where "z = revoke_human_approval ?h p2"
  have z: "z = p1\<lparr>pp_approvals := AList.delete ?h (pp_approvals p2), pp_issued := AList.delete (e_uuid E1 0) (pp_issued p2)\<rparr>
      \<lparr>pp_revoked := insert (e_uuid E1 0) (pp_revoked p1)\<rparr>"
    unfolding z_def q by (subst (1 4) i2(6)) simp
  have zp: "pp_revoked z = insert (e_uuid E1 0) (pp_revoked p1)" "pp_issued z = AList.delete (e_uuid E1 0) (pp_issued p2)"
      "pp_autonomous_usdg_ceiling z = pp_autonomous_usdg_ceiling p1" unfolding z by simp_all
  have zc: "check_bounds z = check_bounds p1" "check_deployment z = check_deployment p1" "token_of P z a = token_of P p1 a"
    unfolding z registry_frame by (simp_all add: fun_eq_iff registry_frame)
  have "check_approval P p1 a i now2 = None \<Longrightarrow> check_approval P z a i now2 = None"
    using e e0(2) i1(1) assms(3) unfolding check_approval_None zp zc by simp
  then show ?thesis using assms(6) unfolding z_def [symmetric] evaluate_purchase_allows option.case zp zc by simp
qed

section \<open>A concrete purchase\<close>

definition demo_policy_scope :: policy_scope where
  "demo_policy_scope = \<lparr>sp_deployments = None, sp_chain_ids = None, sp_networks = None, sp_exchange_contracts = None,
     sp_payment_tokens = None, sp_credit_tokens = None, sp_beneficiaries = None\<rparr>"

definition demo_policy :: purchase_policy where
  "demo_policy = (case mk_purchase_policy demo_env demo_policy_scope 5000000 25000000 20 100000000000 10000000000 500000 False 3600
     (Some ''k'') of Inr p \<Rightarrow> p)"

definition demo_intent :: purchase_intent where
  "demo_intent = \<lparr>pi_tenant_id = ''t'', pi_organisation_id = ''o'', pi_mission_id = None, pi_operation_id = ''op'',
     pi_chain_id = 46630, pi_network = ''robinhood-testnet'', pi_exchange_contract = ORBIO_EXCHANGE_MAINNET,
     pi_payment_token = USDG_MAINNET, pi_credit_token = ORBIO_CREDIT_MAINNET, pi_usdg_in = 10000000,
     pi_min_credit_out = 9000000, pi_beneficiary = ORBIO_CREDIT_MAINNET, pi_max_fills = 5, pi_max_fee_per_gas = 25000000000,
     pi_max_priority_fee_per_gas = 1500000000, pi_gas_limit = 350000, pi_amount_credits = 10, pi_idempotency_key = ''i'',
     pi_policy_decision_id = ''d'', pi_authorization_token_hash = ''h'', pi_deadline = None, pi_created_at = []\<rparr>"

lemma demo_policy_ok:
  "mk_purchase_policy demo_env demo_policy_scope 5000000 25000000 20 100000000000 10000000000 500000 False 3600 (Some ''k'') = Inr demo_policy"
  "pp_autonomous_usdg_ceiling demo_policy = 5000000" "pp_revoked demo_policy = {}" "pp_deployments demo_policy = DEFAULT_DEPLOYMENTS"
  "within_bounds demo_policy demo_intent now"
  by (simp_all add: demo_policy_def mk_purchase_policy_def demo_policy_scope_def scope_deployments_def keep_allowed_def Let_def
      within_bounds_def demo_intent_def)

lemma demo_intent_listed: "intent_tuple demo_intent \<in> deployment_to_tuple ` set DEFAULT_DEPLOYMENTS"
  by (simp add: DEFAULT_DEPLOYMENTS_def intent_tuple_def demo_intent_def deployment_to_tuple_def robinhood_def)

lemma demo_hmac: "\<forall>k m. hmac_sha256 demo_prims k m \<noteq> []"
  by (simp add: demo_prims_def)

theorem purchase_approval_exact_witness:
  "\<exists>a p'. issue_human_approval demo_prims demo_env demo_intent ''OP'' None None 0 demo_policy = (a, p') \<and>
     qd_result (evaluate_purchase demo_prims demo_env 10 p' demo_intent (Some a)) = Purchase_ALLOW \<and>
     qd_result (evaluate_purchase demo_prims demo_env 10 p' (demo_intent\<lparr>pi_tenant_id := ''t2''\<rparr>) (Some a)) \<noteq> Purchase_ALLOW"
proof -
  obtain a p' where run: "issue_human_approval demo_prims demo_env demo_intent ''OP'' None None 0 demo_policy = (a, p')" by fastforce
  have exp: "ha_expires_at a = 3600" using run
    by (auto simp: issue_human_approval_def Let_def demo_policy_def mk_purchase_policy_def)
  have f: "e_uuid demo_env 0 \<notin> pp_revoked demo_policy" by (simp add: demo_policy_ok)
  note ex = purchase_approval_exact [OF run f demo_hmac]
  have "qd_result (evaluate_purchase demo_prims demo_env 10 p' demo_intent (Some a)) = Purchase_ALLOW"
    unfolding ex using demo_intent_listed exp by (simp add: demo_policy_ok)
  moreover have "qd_result (evaluate_purchase demo_prims demo_env 10 p' (demo_intent\<lparr>pi_tenant_id := ''t2''\<rparr>) (Some a)) \<noteq> Purchase_ALLOW"
    unfolding ex by (simp add: demo_policy_ok) (simp add: demo_intent_def)
  ultimately show ?thesis using run by blast
qed

theorem purchase_revocation_final_witness:
  "\<exists>a p. issue_human_approval demo_prims demo_env demo_intent ''OP'' None None 0 demo_policy = (a, p) \<and>
     qd_result (evaluate_purchase demo_prims demo_env 10 (revoke_human_approval (ha_approval_id a) p) demo_intent (Some a)) \<noteq> Purchase_ALLOW"
proof -
  obtain a p where run: "issue_human_approval demo_prims demo_env demo_intent ''OP'' None None 0 demo_policy = (a, p)" by fastforce
  note ip = issue_parts [OF run]
  have fresh: "e_uuid demo_env 0 \<notin> fst ` set (pp_issued demo_policy) \<union> pp_revoked demo_policy"
    by (simp add: demo_policy_def mk_purchase_policy_def Let_def)
  have steps: "(policy_step demo_prims)\<^sup>*\<^sup>* demo_policy p" using step_issue [OF fresh run] by (rule r_into_rtranclp)
  have key: "ha_approval_id a = ha_approval_id a \<and> ha_approval_id a \<in> fst ` set (pp_issued p) \<or> map_of (pp_approvals p) (ha_approval_id a) = Some a"
    unfolding ip(6) using ip(1) by (simp add: dom_update)
  have n: "pp_autonomous_usdg_ceiling p < pi_usdg_in demo_intent" unfolding ip(6) by (simp add: demo_policy_ok demo_intent_def)
  show ?thesis
    using run purchase_revocation_final [OF demo_policy_ok(1) steps key rtranclp.rtrancl_refl n] by blast
qed

end
