(* ===== verification/Exchange.thy ===== *)
theory Exchange
  imports Purchase Provider
begin

text \<open>
  The simulated exchange that purchases are executed on (\<open>src/settlement/orbio_simulated_exchange.py\<close>): balances per
  organisation, one record per idempotency key, and rules that make it time out or fail.  The
  nanosecond stamp of a record is left out; nothing reads it.
\<close>

section \<open>State\<close>

record exchange_record =
  xr_operation_id :: string
  xr_idempotency_key :: string
  xr_tenant_id :: string
  xr_organisation_id :: string
  xr_usdg_spent :: int
  xr_credit_out :: int
  xr_beneficiary :: string
  xr_exchange_contract :: string
  xr_outcome :: provider_outcome
  xr_provider_reference :: string
  xr_evidence_hash :: string
  xr_activation_id :: string
  xr_submission_count :: int
  xr_raw :: "(string \<times> json) list"
  xr_fingerprint :: string
  xr_chain_id :: json
  xr_network :: json

record exchange =
  ex_usdg :: "(string \<times> int) list"
  ex_credit :: "(string \<times> int) list"
  ex_records :: "(string \<times> exchange_record) list"
  ex_timeout_keys :: "string set"
  ex_background_success :: "string set"
  ex_background_failure :: "string set"
  ex_failure_rules :: "(string \<times> string) list"
  ex_fill_rate_bps :: int
  ex_require_purchase :: bool
  ex_attempts :: "(string \<times> int) list"

definition mk_exchange :: "(string \<times> int) list \<Rightarrow> int \<Rightarrow> bool \<Rightarrow> exchange" where
  "mk_exchange balances bps require = \<lparr>ex_usdg = balances, ex_credit = [], ex_records = [], ex_timeout_keys = {},
     ex_background_success = {}, ex_background_failure = {}, ex_failure_rules = [], ex_fill_rate_bps = bps,
     ex_require_purchase = require, ex_attempts = []\<rparr>"

definition set_usdg_balance :: "string \<Rightarrow> int \<Rightarrow> exchange \<Rightarrow> exchange" where
  "set_usdg_balance g n X = X\<lparr>ex_usdg := AList.update g (max 0 n) (ex_usdg X)\<rparr>"

definition get_usdg_balance :: "exchange \<Rightarrow> string \<Rightarrow> int" where
  "get_usdg_balance X g = dict_get (ex_usdg X) g 0"

definition exchange_credit_balance :: "exchange \<Rightarrow> string \<Rightarrow> int" where
  "exchange_credit_balance X g = dict_get (ex_credit X) g 0"

definition exchange_timeout_rule :: "string \<Rightarrow> bool \<Rightarrow> bool \<Rightarrow> exchange \<Rightarrow> exchange" where
  "exchange_timeout_rule key executes fails X = X\<lparr>ex_timeout_keys := insert key (ex_timeout_keys X),
     ex_background_success := (if executes then insert key (ex_background_success X) else ex_background_success X),
     ex_background_failure := (if fails then insert key (ex_background_failure X) else ex_background_failure X)\<rparr>"

definition exchange_failure_rule :: "string \<Rightarrow> string \<Rightarrow> exchange \<Rightarrow> exchange" where
  "exchange_failure_rule key reason X = X\<lparr>ex_failure_rules := AList.update key reason (ex_failure_rules X)\<rparr>"

section \<open>Parameters of an operation\<close>

definition pget :: "consequential_operation \<Rightarrow> string \<Rightarrow> json" where
  "pget op k = param_get (op_parameters op) k"

text \<open>\<open>int(params.get(k, d))\<close> and \<open>(v or "").lower()\<close>.\<close>

definition int_get :: "consequential_operation \<Rightarrow> string \<Rightarrow> int \<Rightarrow> int result" where
  "int_get op k d = (case map_of (op_parameters op) k of None \<Rightarrow> Inr d | Some v \<Rightarrow> py_int v)"

definition lower_or_empty :: "json \<Rightarrow> string result" where
  "lower_or_empty v = (if json_truthy v then (case v of JStr s \<Rightarrow> Inr (py_lower s)
     | _ \<Rightarrow> raise AttributeError ''object has no attribute lower'') else Inr [])"

definition text_or_empty :: "prims \<Rightarrow> json \<Rightarrow> string" where
  "text_or_empty P v = (if json_truthy v then py_str P v else [])"

definition exchange_fingerprint :: "prims \<Rightarrow> consequential_operation \<Rightarrow> string result" where
  "exchange_fingerprint P op =
     bind_result (lower_or_empty (pget op ''network'')) (\<lambda>network.
     bind_result (lower_or_empty (json_or (pget op ''exchange_contract'') (pget op ''recipient''))) (\<lambda>exch.
     bind_result (lower_or_empty (json_or (pget op ''payment_token'') (pget op ''token_contract''))) (\<lambda>pay.
     bind_result (lower_or_empty (pget op ''credit_token'')) (\<lambda>credit.
     bind_result (lower_or_empty (json_or (pget op ''beneficiary_bytes32'') (pget op ''beneficiary''))) (\<lambda>b.
     bind_result (int_get op ''usdg_in'' (op_amount op)) (\<lambda>usdg.
     bind_result (int_get op ''min_credit_out'' 0) (\<lambda>min_out. Inr (sha256 P (canonical_json P (JObj
       [(''tenant_id'', JStr (op_tenant_id op)), (''organisation_id'', JStr (op_organisation_id op)),
        (''mission_id'', pget op ''mission_id''), (''chain_id'', pget op ''chain_id''), (''network'', JStr network),
        (''exchange_contract'', JStr exch), (''payment_token'', JStr pay), (''credit_token'', JStr credit),
        (''beneficiary'', JStr b), (''usdg_in'', JInt usdg), (''min_credit_out'', JInt min_out),
        (''purchase_intent_hash'', pget op ''purchase_intent_hash'')]))))))))))"

definition exchange_prepare :: "consequential_operation \<Rightarrow> bool result" where
  "exchange_prepare op = (if op_amount op < 0 then Inr False
     else bind_result (int_get op ''usdg_in'' 0) (\<lambda>n. Inr (\<not> n < 0)))"

section \<open>Settlement\<close>

definition compute_credit_out :: "exchange \<Rightarrow> int \<Rightarrow> int" where
  "compute_credit_out X n = (n * ex_fill_rate_bps X) div 10000"

definition exchange_reference :: "prims \<Rightarrow> consequential_operation \<Rightarrow> string" where
  "exchange_reference P op = ''sim-xchg-'' @ take 20 (sha256 P (op_organisation_id op @ bar @ op_id op @ bar @
     op_idempotency_key op @ bar @ py_str P (dict_get (op_parameters op) ''usdg_in'' (JInt 0))))"

definition put_exchange_record :: "consequential_operation \<Rightarrow> exchange_record \<Rightarrow> exchange \<Rightarrow> exchange" where
  "put_exchange_record op r X = X\<lparr>ex_records := AList.update (op_idempotency_key op) r (ex_records X)\<rparr>"

definition charge :: "string \<Rightarrow> int \<Rightarrow> int \<Rightarrow> exchange \<Rightarrow> exchange" where
  "charge g usdg credit X = X\<lparr>ex_usdg := AList.update g (get_usdg_balance X g - usdg) (ex_usdg X),
     ex_credit := AList.update g (exchange_credit_balance X g + credit) (ex_credit X)\<rparr>"

definition success_raw ::
  "prims \<Rightarrow> consequential_operation \<Rightarrow> int \<Rightarrow> int \<Rightarrow> int \<Rightarrow> string \<Rightarrow> string \<Rightarrow> exchange \<Rightarrow> (string \<times> json) list" where
  "success_raw P op usdg credit min_out activation fingerprint X =
     (let b = text_or_empty P (json_or (pget op ''beneficiary_bytes32'') (pget op ''beneficiary''));
          g = op_organisation_id op in
      [(''simulated'', JBool True), (''status'', JStr ''confirmed''), (''function'', JStr ''buyAndActivate''),
       (''usdg_spent'', JInt usdg), (''credit_out'', JInt credit), (''min_credit_out'', JInt min_out),
       (''beneficiary'', JStr b),
       (''exchange_contract'', JStr (text_or_empty P (json_or (pget op ''exchange_contract'') (pget op ''recipient'')))),
       (''chain_id'', pget op ''chain_id''), (''network'', pget op ''network''), (''activation_id'', JStr activation),
       (''events'', JList [JObj [(''name'', JStr ''Activated''), (''activation_id'', JStr activation),
          (''beneficiary'', JStr b), (''credit_amount'', JInt credit)]]),
       (''balances'', JObj [(''usdg_after'', JInt (get_usdg_balance X g)), (''credit_after'', JInt (exchange_credit_balance X g))]),
       (''purchase_intent_hash'', pget op ''purchase_intent_hash''), (''data_payload'', pget op ''data_payload''),
       (''fingerprint'', JStr fingerprint)])"

definition settle_exchange_success ::
  "prims \<Rightarrow> consequential_operation \<Rightarrow> int \<Rightarrow> int \<Rightarrow> int \<Rightarrow> string \<Rightarrow> exchange \<Rightarrow> exchange_record \<times> exchange" where
  "settle_exchange_success P op credit usdg min_out fingerprint X0 =
     (let X = charge (op_organisation_id op) usdg credit X0;
          ref = exchange_reference P op; activation = ''act-'' @ take 16 (sha256 P ref);
          b = text_or_empty P (json_or (pget op ''beneficiary_bytes32'') (pget op ''beneficiary''));
          r = \<lparr>xr_operation_id = op_id op, xr_idempotency_key = op_idempotency_key op, xr_tenant_id = op_tenant_id op,
            xr_organisation_id = op_organisation_id op, xr_usdg_spent = usdg, xr_credit_out = credit, xr_beneficiary = b,
            xr_exchange_contract = text_or_empty P (json_or (pget op ''exchange_contract'') (pget op ''recipient'')),
            xr_outcome = Outcome_SUCCESS, xr_provider_reference = ref,
            xr_evidence_hash = sha256 P (canonical_json P (JObj [(''ref'', JStr ref), (''activation_id'', JStr activation),
              (''usdg'', JInt usdg), (''credit'', JInt credit), (''beneficiary'', JStr b), (''op_id'', JStr (op_id op)),
              (''idem'', JStr (op_idempotency_key op))])),
            xr_activation_id = activation, xr_submission_count = 1,
            xr_raw = success_raw P op usdg credit min_out activation fingerprint X, xr_fingerprint = fingerprint,
            xr_chain_id = pget op ''chain_id'', xr_network = pget op ''network''\<rparr>
      in (r, put_exchange_record op r X))"

definition settle_exchange_failure ::
  "prims \<Rightarrow> consequential_operation \<Rightarrow> string \<Rightarrow> string \<Rightarrow> exchange \<Rightarrow> exchange_record \<times> exchange" where
  "settle_exchange_failure P op reason fingerprint X =
     (let ref = exchange_reference P op;
          text = (\<lambda>k. case map_of (op_parameters op) k of None \<Rightarrow> [] | Some v \<Rightarrow> py_str P v);
          r = \<lparr>xr_operation_id = op_id op, xr_idempotency_key = op_idempotency_key op, xr_tenant_id = op_tenant_id op,
            xr_organisation_id = op_organisation_id op, xr_usdg_spent = 0, xr_credit_out = 0,
            xr_beneficiary = text ''beneficiary'', xr_exchange_contract = text ''exchange_contract'',
            xr_outcome = Outcome_FAILURE, xr_provider_reference = ref,
            xr_evidence_hash = sha256 P (''fail|'' @ ref @ bar @ reason), xr_activation_id = [], xr_submission_count = 1,
            xr_raw = [(''simulated'', JBool True), (''error'', JStr reason), (''status'', JStr ''reverted''),
              (''chain_id'', pget op ''chain_id''), (''network'', pget op ''network''), (''fingerprint'', JStr fingerprint)],
            xr_fingerprint = fingerprint, xr_chain_id = pget op ''chain_id'', xr_network = pget op ''network''\<rparr>
      in (r, put_exchange_record op r X))"

text \<open>The economic checks, and the settlement they lead to.\<close>

definition settle_by_economics ::
  "prims \<Rightarrow> consequential_operation \<Rightarrow> int \<Rightarrow> int \<Rightarrow> string \<Rightarrow> exchange \<Rightarrow> exchange_record \<times> exchange" where
  "settle_by_economics P op usdg min_out fingerprint X =
     (if usdg \<le> 0 then settle_exchange_failure P op ''usdg_in must be positive'' fingerprint X
      else if get_usdg_balance X (op_organisation_id op) < usdg
      then settle_exchange_failure P op ''Insufficient USDG'' fingerprint X
      else if compute_credit_out X usdg < min_out
      then settle_exchange_failure P op ''Slippage: credit_out < min_credit_out'' fingerprint X
      else settle_exchange_success P op (compute_credit_out X usdg) usdg min_out fingerprint X)"

definition dict_update :: "(string \<times> json) list \<Rightarrow> (string \<times> json) list \<Rightarrow> (string \<times> json) list" where
  "dict_update d kvs = fold (\<lambda>(k, v). AList.update k v) kvs d"

definition result_from_record :: "exchange_record \<Rightarrow> prims \<Rightarrow> bool \<Rightarrow> provider_result" where
  "result_from_record r P duplicate =
     (let raw = dict_update (xr_raw r) [(''duplicate_submission'', JBool duplicate), (''submission_count'', JInt (xr_submission_count r))]
      in \<lparr>px_outcome = xr_outcome r, px_reference = Some (xr_provider_reference r), px_raw = raw,
          px_error = (if xr_outcome r = Outcome_SUCCESS then None else Some (py_str P (param_get raw ''error''))),
          px_evidence = Some (xr_evidence_hash r)\<rparr>)"

definition exchange_refusal :: "(string \<times> json) list \<Rightarrow> string \<Rightarrow> provider_outcome \<Rightarrow> provider_result" where
  "exchange_refusal raw msg out = \<lparr>px_outcome = out, px_reference = None, px_raw = raw, px_error = Some msg, px_evidence = None\<rparr>"

definition ruled :: "consequential_operation \<Rightarrow> string set \<Rightarrow> bool" where
  "ruled op K \<longleftrightarrow> op_idempotency_key op \<in> K \<or> op_id op \<in> K"

definition timeout_result :: provider_result where
  "timeout_result = exchange_refusal [(''error'', JStr ''Simulated exchange transport timeout''), (''simulated'', JBool True)]
     ''Simulated exchange transport timeout'' Outcome_TIMEOUT"

definition exchange_execute :: "prims \<Rightarrow> consequential_operation \<Rightarrow> (exchange, provider_result) act" where
  "exchange_execute P op X0 =
     (let key = op_idempotency_key op;
          X = X0\<lparr>ex_attempts := AList.update key (dict_get (ex_attempts X0) key 0 + 1) (ex_attempts X0)\<rparr>;
          amounts = bind_result (int_get op ''usdg_in'' 0) (\<lambda>n. bind_result (int_get op ''min_credit_out'' 0) (\<lambda>m. Inr (n, m)))
      in case exchange_fingerprint P op of
        Inl x \<Rightarrow> (Inl x, X)
      | Inr fp \<Rightarrow> (case map_of (ex_records X) key of
          Some r \<Rightarrow>
            if xr_fingerprint r \<noteq> [] \<and> xr_fingerprint r \<noteq> fp
            then (Inr (exchange_refusal [(''error'', JStr ''idempotency_key_collision_fingerprint_mismatch''), (''simulated'', JBool True),
                 (''existing_fingerprint'', JStr (xr_fingerprint r)), (''presented_fingerprint'', JStr fp)]
                 ''Idempotency key collision: operation fingerprint does not match original record'' Outcome_FAILURE), X)
            else let r' = r\<lparr>xr_submission_count := xr_submission_count r + 1\<rparr>
              in (Inr (result_from_record r' P True), X\<lparr>ex_records := AList.update key r' (ex_records X)\<rparr>)
        | None \<Rightarrow>
            if ex_require_purchase X \<and> op_action_type op \<notin> {ORBIO_CREDIT_PURCHASE, BLOCKCHAIN_TRANSACTION}
            then (Inr (exchange_refusal [(''error'', JStr ''unsupported_action_type''), (''simulated'', JBool True)]
                 ''Simulated exchange rejects action_type'' Outcome_FAILURE), X)
            else if ruled op (ex_timeout_keys X)
            then if ruled op (ex_background_success X)
              then (case amounts of Inl x \<Rightarrow> (Inl x, X)
                | Inr (n, m) \<Rightarrow> (Inr timeout_result, snd (settle_by_economics P op n m fp X)))
              else if ruled op (ex_background_failure X)
              then (Inr timeout_result, snd (settle_exchange_failure P op ''Simulated background failure'' fp X))
              else (Inr timeout_result, X)
            else let reason = py_or (map_of (ex_failure_rules X) key) (py_or (map_of (ex_failure_rules X) (op_id op)) [])
              in if reason \<noteq> []
              then case settle_exchange_failure P op reason fp X of (r, X') \<Rightarrow> (Inr (result_from_record r P False), X')
              else (case amounts of Inl x \<Rightarrow> (Inl x, X)
                | Inr (n, m) \<Rightarrow> (case settle_by_economics P op n m fp X of (r, X') \<Rightarrow> (Inr (result_from_record r P False), X')))))"

definition exchange_lookup :: "exchange \<Rightarrow> string \<Rightarrow> string \<Rightarrow> string option \<Rightarrow> exchange_record option" where
  "exchange_lookup X operation_id key ref =
     (let by = (\<lambda>Q. find Q (map snd (ex_records X)));
          first = (if key \<noteq> [] \<and> map_of (ex_records X) key \<noteq> None then map_of (ex_records X) key
            else if py_truthy ref then by (\<lambda>r. Some (xr_provider_reference r) = ref) else None)
      in case first of None \<Rightarrow> by (\<lambda>r. xr_operation_id r = operation_id) | Some r \<Rightarrow> Some r)"

definition exchange_status :: "prims \<Rightarrow> string \<Rightarrow> string \<Rightarrow> string option \<Rightarrow> (exchange, provider_result) act" where
  "exchange_status P operation_id key ref X =
     (Inr (case exchange_lookup X operation_id key ref of
        None \<Rightarrow> exchange_refusal [(''error'', JStr ''unknown_to_exchange''), (''simulated'', JBool True)]
          ''Operation not found in simulated exchange records'' Outcome_UNKNOWN
      | Some r \<Rightarrow> \<lparr>px_outcome = xr_outcome r, px_reference = Some (xr_provider_reference r),
          px_raw = dict_update (xr_raw r)
            [(''status'', JStr (outcome_value (xr_outcome r))), (''reference'', JStr (xr_provider_reference r)),
             (''activation_id'', JStr (xr_activation_id r)), (''usdg_spent'', JInt (xr_usdg_spent r)),
             (''credit_out'', JInt (xr_credit_out r)), (''submission_count'', JInt (xr_submission_count r)),
             (''simulated'', JBool True), (''chain_id'', json_or (xr_chain_id r) (param_get (xr_raw r) ''chain_id'')),
             (''network'', json_or (xr_network r) (param_get (xr_raw r) ''network'')),
             (''exchange_contract'', JStr (xr_exchange_contract r)), (''beneficiary'', JStr (xr_beneficiary r)),
             (''purchase_intent_hash'', param_get (xr_raw r) ''purchase_intent_hash''),
             (''fingerprint'', JStr (xr_fingerprint r))],
          px_error = (if xr_outcome r = Outcome_SUCCESS then None
            else (case map_of (xr_raw r) ''error'' of Some (JStr s) \<Rightarrow> Some s | _ \<Rightarrow> None)),
          px_evidence = Some (xr_evidence_hash r)\<rparr>), X)"

definition exchange_ops :: "prims \<Rightarrow> exchange provider_ops" where
  "exchange_ops P = \<lparr>po_name = ''orbio-exchange-simulated'', po_execute = exchange_execute P, po_status = exchange_status P\<rparr>"

section \<open>The books of the exchange\<close>

definition spent :: "exchange \<Rightarrow> string \<Rightarrow> int" where
  "spent X g = sum_list (map xr_usdg_spent (filter (\<lambda>r. xr_organisation_id r = g) (map snd (ex_records X))))"

definition bought :: "exchange \<Rightarrow> string \<Rightarrow> int" where
  "bought X g = sum_list (map xr_credit_out (filter (\<lambda>r. xr_organisation_id r = g) (map snd (ex_records X))))"

definition record_ok :: "int \<Rightarrow> exchange_record \<Rightarrow> bool" where
  "record_ok bps r \<longleftrightarrow> (if xr_outcome r = Outcome_SUCCESS
     then 0 < xr_usdg_spent r \<and> xr_credit_out r = (xr_usdg_spent r * bps) div 10000
     else xr_usdg_spent r = 0 \<and> xr_credit_out r = 0)"

text \<open>What was spent came out of the opening balances, nobody is overdrawn, each key is booked once.\<close>

definition books_ok :: "(string \<Rightarrow> int) \<Rightarrow> int \<Rightarrow> exchange \<Rightarrow> bool" where
  "books_ok opening bps X \<longleftrightarrow> ex_fill_rate_bps X = bps \<and> distinct (map fst (ex_records X)) \<and>
     (\<forall>r \<in> set (map snd (ex_records X)). record_ok bps r) \<and>
     (\<forall>g. get_usdg_balance X g = opening g - spent X g \<and> exchange_credit_balance X g = bought X g \<and>
        (0 \<le> opening g \<longrightarrow> spent X g \<le> opening g))"

text \<open>Two exchanges with the same books.\<close>

definition same_books :: "exchange \<Rightarrow> exchange \<Rightarrow> bool" where
  "same_books X Y \<longleftrightarrow> ex_fill_rate_bps Y = ex_fill_rate_bps X \<and> ex_usdg Y = ex_usdg X \<and> ex_credit Y = ex_credit X \<and>
     ex_records Y = ex_records X"

lemma same_books_ok: "same_books X Y \<Longrightarrow> books_ok opening bps Y = books_ok opening bps X"
  by (simp add: same_books_def books_ok_def spent_def bought_def get_usdg_balance_def exchange_credit_balance_def)

lemma update_new: "k \<notin> fst ` set xs \<Longrightarrow> AList.update k v xs = xs @ [(k, v)]"
  by (induction xs) auto

lemma put_failure_ok:
  assumes "books_ok opening bps X" "op_idempotency_key op \<notin> fst ` set (ex_records X)"
  shows "books_ok opening bps (snd (settle_exchange_failure P op reason fp X))"
  using assms
  by (simp add: settle_exchange_failure_def Let_def put_exchange_record_def books_ok_def update_new spent_def bought_def
      get_usdg_balance_def exchange_credit_balance_def record_ok_def)

lemma put_success_ok:
  assumes ok: "books_ok opening bps X" and new: "op_idempotency_key op \<notin> fst ` set (ex_records X)"
    and "0 < usdg" "usdg \<le> get_usdg_balance X (op_organisation_id op)"
  shows "books_ok opening bps (snd (settle_exchange_success P op (compute_credit_out X usdg) usdg min_out fp X))"
proof -
  let ?g = "op_organisation_id op" and ?n = "compute_credit_out X usdg"
  define r where "r = fst (settle_exchange_success P op ?n usdg min_out fp X)"
  define Y where "Y = snd (settle_exchange_success P op ?n usdg min_out fp X)"
  have r: "xr_usdg_spent r = usdg" "xr_credit_out r = ?n" "xr_organisation_id r = ?g" "xr_outcome r = Outcome_SUCCESS"
    by (simp_all add: r_def settle_exchange_success_def Let_def)
  have Y: "ex_records Y = ex_records X @ [(op_idempotency_key op, r)]" "ex_fill_rate_bps Y = ex_fill_rate_bps X"
      "get_usdg_balance Y g = get_usdg_balance X g - (if g = ?g then usdg else 0)"
      "exchange_credit_balance Y g = exchange_credit_balance X g + (if g = ?g then ?n else 0)" for g
    using new by (simp_all add: Y_def r_def settle_exchange_success_def Let_def put_exchange_record_def charge_def update_new
        get_usdg_balance_def exchange_credit_balance_def)
  have "spent Y g = spent X g + (if g = ?g then usdg else 0)" "bought Y g = bought X g + (if g = ?g then ?n else 0)" for g
    using r by (simp_all add: spent_def bought_def Y)
  then show ?thesis unfolding Y_def [symmetric] using ok new assms(3,4) r Y
    by (auto simp: books_ok_def record_ok_def compute_credit_out_def)
qed

lemma settle_by_economics_ok:
  assumes "books_ok opening bps X" "op_idempotency_key op \<notin> fst ` set (ex_records X)"
  shows "books_ok opening bps (snd (settle_by_economics P op usdg min_out fp X))"
  using assms by (simp add: settle_by_economics_def put_failure_ok put_success_ok)

lemma recount_ok:
  assumes "books_ok opening bps X" "map_of (ex_records X) k = Some r"
  shows "books_ok opening bps (X\<lparr>ex_records := AList.update k (r\<lparr>xr_submission_count := n\<rparr>) (ex_records X)\<rparr>)"
proof -
  define h where "h = (\<lambda>(x :: exchange_record). (xr_organisation_id x, xr_usdg_spent x, xr_credit_out x, xr_outcome x))"
  have "distinct (map fst rs) \<Longrightarrow> map_of rs k = Some r \<Longrightarrow> map fst (AList.update k (r\<lparr>xr_submission_count := n\<rparr>) rs) = map fst rs \<and>
      map (h \<circ> snd) (AList.update k (r\<lparr>xr_submission_count := n\<rparr>) rs) = map (h \<circ> snd) rs" for rs
    by (induction rs) (auto simp: h_def split: if_splits)
  then have same: "map fst (AList.update k (r\<lparr>xr_submission_count := n\<rparr>) (ex_records X)) = map fst (ex_records X)"
      "map h (map snd (AList.update k (r\<lparr>xr_submission_count := n\<rparr>) (ex_records X))) = map h (map snd (ex_records X))"
    using assms by (auto simp: books_ok_def comp_def)
  have sp: "spent Y g = sum_list (map (fst \<circ> snd) (filter (\<lambda>x. fst x = g) (map h (map snd (ex_records Y)))))"
      "bought Y g = sum_list (map (fst \<circ> snd \<circ> snd) (filter (\<lambda>x. fst x = g) (map h (map snd (ex_records Y)))))" for Y g
    by (simp_all add: spent_def bought_def h_def filter_map comp_def)
  have rk: "(\<forall>x \<in> set (map snd (ex_records Y)). record_ok bps x) \<longleftrightarrow> (\<forall>x \<in> set (map h (map snd (ex_records Y))). case x of (g, u, c, out) \<Rightarrow>
      if out = Outcome_SUCCESS then 0 < u \<and> c = (u * bps) div 10000 else u = 0 \<and> c = 0)" for Y
    by (simp add: record_ok_def h_def)
  show ?thesis using assms(1) unfolding books_ok_def sp rk
    by (simp add: same get_usdg_balance_def exchange_credit_balance_def del: map_map set_map)
qed

lemma execute_books_ok:
  assumes "books_ok opening bps X"
  shows "books_ok opening bps (snd (exchange_execute P op X))"
proof -
  let ?key = "op_idempotency_key op"
  define Y where "Y = X\<lparr>ex_attempts := AList.update ?key (dict_get (ex_attempts X) ?key 0 + 1) (ex_attempts X)\<rparr>"
  have Y: "books_ok opening bps Y" using assms same_books_ok [of X Y] by (simp add: Y_def same_books_def)
  show ?thesis
  proof (cases "map_of (ex_records Y) ?key")
    case None
    then have new: "?key \<notin> fst ` set (ex_records Y)" by (simp add: map_of_eq_None_iff)
    show ?thesis using None Y put_failure_ok [OF Y new] settle_by_economics_ok [OF Y new]
      unfolding exchange_execute_def Let_def Y_def [symmetric]
      by (simp add: case_prod_beta split: sum.split)
  next
    case (Some r)
    then show ?thesis using Y recount_ok [OF Y Some]
      unfolding exchange_execute_def Let_def Y_def [symmetric] by (simp split: sum.split)
  qed
qed

inductive exchange_step :: "prims \<Rightarrow> exchange \<Rightarrow> exchange \<Rightarrow> bool" for P where
  step_exchange: "exchange_execute P op X = (res, X') \<Longrightarrow> exchange_step P X X'"
| step_query: "exchange_status P i key ref X = (res, X') \<Longrightarrow> exchange_step P X X'"
| step_timeout: "exchange_step P X (exchange_timeout_rule key ok bad X)"
| step_failure: "exchange_step P X (exchange_failure_rule key reason X)"

lemma exchange_step_ok: "exchange_step P X X' \<Longrightarrow> books_ok opening bps X \<Longrightarrow> books_ok opening bps X'"
proof (induction rule: exchange_step.induct)
  case (step_exchange op X res X')
  then show ?case using execute_books_ok by (metis snd_conv)
next
  case (step_query i key ref X res X')
  then show ?case by (simp add: exchange_status_def)
qed (simp_all add: books_ok_def spent_def bought_def get_usdg_balance_def exchange_credit_balance_def
    exchange_timeout_rule_def exchange_failure_rule_def)

lemma exchange_steps_ok: "(exchange_step P)\<^sup>*\<^sup>* X X' \<Longrightarrow> books_ok opening bps X \<Longrightarrow> books_ok opening bps X'"
  by (induction rule: rtranclp_induct) (auto dest: exchange_step_ok)

lemma execute_known_free:
  assumes "op_idempotency_key op \<in> fst ` set (ex_records X)"
  shows "ex_usdg (snd (exchange_execute P op X)) = ex_usdg X \<and> ex_credit (snd (exchange_execute P op X)) = ex_credit X"
proof -
  obtain r where "map_of (ex_records X) (op_idempotency_key op) = Some r"
    using assms by (metis map_of_eq_None_iff not_None_eq)
  then show ?thesis by (simp add: exchange_execute_def Let_def split: sum.split)
qed

text \<open>
  The exchange keeps its books.  After any sequence of executions, status queries and injected timeouts and failures, the
  balance of an organisation is its opening balance less what its successful purchases spent, its credits are what they
  bought at the fill rate, no opening balance is overdrawn, and a key with a record is never charged
  again, whatever operation presents it.
\<close>

theorem exchange_conserves:
  assumes "(exchange_step P)\<^sup>*\<^sup>* (mk_exchange balances bps require) X"
  shows "get_usdg_balance X g = dict_get balances g 0 - spent X g \<and> exchange_credit_balance X g = bought X g \<and>
     (0 \<le> dict_get balances g 0 \<longrightarrow> 0 \<le> get_usdg_balance X g) \<and>
     (\<forall>r \<in> snd ` set (ex_records X). record_ok bps r) \<and>
     (op_idempotency_key op \<in> fst ` set (ex_records X) \<longrightarrow>
        get_usdg_balance (snd (exchange_execute P op X)) g = get_usdg_balance X g \<and>
        exchange_credit_balance (snd (exchange_execute P op X)) g = exchange_credit_balance X g)"
proof -
  have "books_ok (\<lambda>g. dict_get balances g 0) bps (mk_exchange balances bps require)"
    by (simp add: books_ok_def mk_exchange_def spent_def bought_def get_usdg_balance_def exchange_credit_balance_def)
  from exchange_steps_ok [OF assms this]
  have "get_usdg_balance X g = dict_get balances g 0 - spent X g" "exchange_credit_balance X g = bought X g"
      "0 \<le> dict_get balances g 0 \<longrightarrow> spent X g \<le> dict_get balances g 0" "\<forall>r \<in> snd ` set (ex_records X). record_ok bps r"
    by (auto simp: books_ok_def)
  then show ?thesis using execute_known_free [of op X P] by (simp add: get_usdg_balance_def exchange_credit_balance_def)
qed

section \<open>A concrete purchase on the exchange\<close>

definition demo_exchange_op :: consequential_operation where
  "demo_exchange_op = demo_op\<lparr>op_action_type := ORBIO_CREDIT_PURCHASE,
     op_parameters := [(''usdg_in'', JInt 1000), (''min_credit_out'', JInt 900)]\<rparr>"

lemma demo_exchange_runs:
  "\<exists>r X. exchange_execute P demo_exchange_op (mk_exchange [(''o'', 5000)] 9800 True) = (Inr r, X) \<and>
     px_outcome r = Outcome_SUCCESS \<and> spent X ''o'' = 1000 \<and> bought X ''o'' = 980"
  by (simp add: exchange_execute_def exchange_fingerprint_def lower_or_empty_def pget_def param_get_def demo_exchange_op_def demo_op_def
      int_get_def json_or_def mk_exchange_def ruled_def settle_by_economics_def compute_credit_out_def get_usdg_balance_def
      settle_exchange_success_def put_exchange_record_def charge_def result_from_record_def spent_def bought_def Let_def)

theorem exchange_conserves_witness:
  "\<exists>X. (exchange_step demo_prims)\<^sup>*\<^sup>* (mk_exchange [(''o'', 5000)] 9800 True) X \<and> get_usdg_balance X ''o'' = 4000 \<and>
     exchange_credit_balance X ''o'' = 980"
proof -
  obtain r X where run: "exchange_execute demo_prims demo_exchange_op (mk_exchange [(''o'', 5000)] 9800 True) = (Inr r, X)"
      "spent X ''o'' = 1000" "bought X ''o'' = 980" using demo_exchange_runs by blast
  have steps: "(exchange_step demo_prims)\<^sup>*\<^sup>* (mk_exchange [(''o'', 5000)] 9800 True) X"
    using step_exchange [OF run(1)] by (rule r_into_rtranclp)
  then show ?thesis using exchange_conserves [OF steps, of "''o''"] run(2,3) by auto
qed

end
