(* ===== verification/PurchaseSettle.thy ===== *)
theory PurchaseSettle
  imports Exchange
begin

text \<open>
  From a purchase intent to a settled operation: the bridge that turns an authorised intent into an operation
  (\<open>src/execution/orbio_purchase.py\<close>), the verifier that binds evidence to the intent
  (\<open>src/settlement/orbio_purchase_verifier.py\<close>), and the reconciliation of unresolved purchases
  (\<open>src/settlement/orbio_purchase_reconciliation.py\<close>).  The name of the provider, which an evidence also
  carries and nothing reads, is left out.
\<close>

section \<open>The bridge\<close>

record purchase_preparation =
  pn_intent :: purchase_intent
  pn_intent_hash :: string
  pn_decision :: purchase_decision
  pn_blockchain_intent :: "blockchain_intent option"
  pn_parameters :: "(string \<times> json) list"

definition is_authorized :: "purchase_preparation \<Rightarrow> bool" where
  "is_authorized n \<longleftrightarrow> qd_result (pn_decision n) = Purchase_ALLOW"

text \<open>\<open>audit\<close> is the decision's \<open>to_audit_dict()\<close>.\<close>

definition operation_parameters ::
  "prims \<Rightarrow> purchase_intent \<Rightarrow> blockchain_intent \<Rightarrow> json \<Rightarrow> (string \<times> json) list" where
  "operation_parameters P i b audit =
     [(''recipient'', JStr (bi_recipient b)), (''amount_wei'', JInt (bi_amount_wei b)), (''chain_id'', JInt (bi_chain_id b)),
      (''network'', JStr (bi_network b)), (''data_payload'', JStr (bi_data_payload b)),
      (''token_contract'', opt_json (bi_token_contract b)), (''asset'', JStr (bi_asset b)),
      (''max_fee_per_gas'', JInt (bi_max_fee_per_gas b)),
      (''max_priority_fee_per_gas'', JInt (bi_max_priority_fee_per_gas b)), (''gas_limit'', JInt (bi_gas_limit b)),
      (''mission_id'', opt_json (pi_mission_id i)), (''authorization_token'', JStr (pi_authorization_token_hash i)),
      (''purchase_intent_hash'', JStr (compute_purchase_intent_hash P i)), (''usdg_in'', JInt (pi_usdg_in i)),
      (''min_credit_out'', JInt (pi_min_credit_out i)), (''beneficiary'', JStr (pi_beneficiary i)),
      (''beneficiary_bytes32'', JStr (beneficiary_as_bytes32 i)), (''max_fills'', JInt (pi_max_fills i)),
      (''exchange_contract'', JStr (pi_exchange_contract i)), (''payment_token'', JStr (pi_payment_token i)),
      (''credit_token'', JStr (pi_credit_token i)), (''function'', JStr ''buyAndActivate''), (''policy_decision'', audit)]"

fun purchase_result_value :: "purchase_result \<Rightarrow> string" where
  "purchase_result_value Purchase_ALLOW = ''ALLOW''"
| "purchase_result_value Purchase_DENY = ''DENY''"
| "purchase_result_value Purchase_HUMAN_CONFIRMATION_REQUIRED = ''HUMAN_CONFIRMATION_REQUIRED''"

fun purchase_code_value :: "purchase_code \<Rightarrow> string" where
  "purchase_code_value P_UNAUTHORIZED_NETWORK = ''UNAUTHORIZED_NETWORK''"
| "purchase_code_value P_UNAUTHORIZED_EXCHANGE = ''UNAUTHORIZED_EXCHANGE''"
| "purchase_code_value P_UNAUTHORIZED_PAYMENT_TOKEN = ''UNAUTHORIZED_PAYMENT_TOKEN''"
| "purchase_code_value P_UNAUTHORIZED_CREDIT_TOKEN = ''UNAUTHORIZED_CREDIT_TOKEN''"
| "purchase_code_value P_UNAUTHORIZED_BENEFICIARY = ''UNAUTHORIZED_BENEFICIARY''"
| "purchase_code_value P_MAX_USDG_EXCEEDED = ''MAX_USDG_EXCEEDED''"
| "purchase_code_value P_SLIPPAGE_BOUND_INVALID = ''SLIPPAGE_BOUND_INVALID''"
| "purchase_code_value P_MAX_FILLS_EXCEEDED = ''MAX_FILLS_EXCEEDED''"
| "purchase_code_value P_GAS_BOUND_EXCEEDED = ''GAS_BOUND_EXCEEDED''"
| "purchase_code_value P_DEADLINE_EXPIRED = ''DEADLINE_EXPIRED''"
| "purchase_code_value P_MISSING_HUMAN_APPROVAL = ''MISSING_HUMAN_APPROVAL''"
| "purchase_code_value P_HUMAN_APPROVAL_INTENT_MISMATCH = ''HUMAN_APPROVAL_INTENT_MISMATCH''"
| "purchase_code_value P_HUMAN_APPROVAL_EXPIRED = ''HUMAN_APPROVAL_EXPIRED''"
| "purchase_code_value P_HUMAN_APPROVAL_TENANT_MISMATCH = ''HUMAN_APPROVAL_TENANT_MISMATCH''"
| "purchase_code_value P_UNAUTHORIZED_HUMAN_APPROVAL = ''UNAUTHORIZED_HUMAN_APPROVAL''"
| "purchase_code_value P_HUMAN_APPROVAL_REVOKED = ''HUMAN_APPROVAL_REVOKED''"
| "purchase_code_value P_UNAUTHORIZED_DEPLOYMENT = ''UNAUTHORIZED_DEPLOYMENT''"
| "purchase_code_value P_POLICY_BINDING_MISMATCH = ''POLICY_BINDING_MISMATCH''"
| "purchase_code_value P_INVALID_INTENT = ''INVALID_INTENT''"

definition decision_audit :: "purchase_decision \<Rightarrow> json" where
  "decision_audit d = JObj
     [(''decision_id'', JStr (qd_decision_id d)), (''result'', JStr (purchase_result_value (qd_result d))),
      (''policy_id'', JStr ''POLICY-ORBIO-PURCHASE-01''), (''policy_version'', JStr (qd_policy_version d)),
      (''intent_hash'', JStr (qd_intent_hash d)), (''reasons'', JList (map JStr (qd_reasons d))),
      (''denial_codes'', JList (map (JStr \<circ> purchase_code_value) (qd_denial_codes d))),
      (''requires_human_confirmation'', JBool (qd_requires_human_confirmation d)),
      (''autonomous_usdg_ceiling'', JInt (qd_autonomous_usdg_ceiling d)),
      (''absolute_usdg_ceiling'', JInt (qd_absolute_usdg_ceiling d)), (''evaluated_at'', JStr (qd_evaluated_at d))]"

definition bridge_prepare ::
  "prims \<Rightarrow> abi \<Rightarrow> env \<Rightarrow> rat \<Rightarrow> purchase_policy \<Rightarrow> purchase_intent \<Rightarrow> human_approval option \<Rightarrow> purchase_preparation result"
where
  "bridge_prepare P abi E now p i approval =
     (let d = evaluate_purchase P E now p i approval; ih = compute_purchase_intent_hash P i in
      if qd_result d \<noteq> Purchase_ALLOW
      then Inr \<lparr>pn_intent = i, pn_intent_hash = ih, pn_decision = d, pn_blockchain_intent = None, pn_parameters = []\<rparr>
      else bind_result (to_blockchain_intent abi i) (\<lambda>b. Inr
        \<lparr>pn_intent = i, pn_intent_hash = ih, pn_decision = d, pn_blockchain_intent = Some b,
         pn_parameters = operation_parameters P i b (decision_audit d)\<rparr>))"

definition create_operation_from_preparation ::
  "env \<Rightarrow> purchase_preparation \<Rightarrow> organisation \<Rightarrow> string option \<Rightarrow> string option \<Rightarrow> string \<Rightarrow> string option \<Rightarrow>
     consequential_operation result" where
  "create_operation_from_preparation E n g proposal_id decision_id pname key =
     (let i = pn_intent n in
      if \<not> is_authorized n then raise PolicyViolationError ''Orbio purchase not authorized''
      else if pn_blockchain_intent n = None then raise PolicyViolationError ''Missing blockchain intent projection after ALLOW''
      else if key \<noteq> None \<and> key \<noteq> Some (pi_idempotency_key i)
      then raise ValueError ''Supplied idempotency_key does not match authorized purchase intent idempotency_key''
      else if pi_amount_credits i < 0 then raise ValidationError ''amount must be greater than or equal to 0''
      else Inr \<lparr>op_id = ''cop-'' @ take 12 (e_uuid E 0), op_tenant_id = pi_tenant_id i, op_organisation_id = og_id g,
        op_proposal_id = py_or proposal_id (''prop-'' @ pi_operation_id i),
        op_decision_id = py_or decision_id (qd_decision_id (pn_decision n)),
        op_idempotency_key = pi_idempotency_key i, op_action_type = ORBIO_CREDIT_PURCHASE,
        op_target = ''orbio://exchange/'' @ pi_exchange_contract i, op_parameters = pn_parameters n,
        op_amount = pi_amount_credits i, op_provider_name = pname, op_provider_reference = None,
        op_state = Op_CREATED, op_error_message = None, op_created_at = e_now E 0, op_updated_at = e_now E 1\<rparr>)"

definition prepare_and_create_operation ::
  "prims \<Rightarrow> abi \<Rightarrow> env \<Rightarrow> rat \<Rightarrow> purchase_policy \<Rightarrow> purchase_intent \<Rightarrow> organisation \<Rightarrow> human_approval option \<Rightarrow> string \<Rightarrow>
     (purchase_preparation \<times> consequential_operation) result" where
  "prepare_and_create_operation P abi E now p i g approval pname =
     (if pi_organisation_id i \<noteq> og_id g
      then raise UnauthorizedActionError ''Purchase intent organisation does not match org''
      else if pi_tenant_id i \<noteq> og_tenant_id g
      then raise UnauthorizedActionError ''Purchase intent tenant does not match organisation tenant''
      else bind_result (bridge_prepare P abi E now p i approval) (\<lambda>n.
        bind_result (create_operation_from_preparation (env_skip 1 E) n g None None pname None) (\<lambda>op. Inr (n, op))))"

definition build_action_proposal ::
  "prims \<Rightarrow> env \<Rightarrow> purchase_intent \<Rightarrow> string \<Rightarrow> string \<Rightarrow> string \<Rightarrow> action_proposal" where
  "build_action_proposal P E i agent task rationale =
     \<lparr>pr_id = ''prop-orbio-'' @ take 12 (e_uuid E 0), pr_task_id = task, pr_proposing_agent_id = agent,
      pr_action_type = ORBIO_CREDIT_PURCHASE, pr_target = ''orbio://exchange/'' @ pi_exchange_contract i,
      pr_parameters = [(''chain_id'', JInt (pi_chain_id i)), (''network'', JStr (pi_network i)),
        (''usdg_in'', JInt (pi_usdg_in i)), (''min_credit_out'', JInt (pi_min_credit_out i)),
        (''beneficiary'', JStr (pi_beneficiary i)), (''max_fills'', JInt (pi_max_fills i)),
        (''exchange_contract'', JStr (pi_exchange_contract i)),
        (''purchase_intent_hash'', JStr (compute_purchase_intent_hash P i))],
      pr_requested_credits = pi_amount_credits i, pr_expected_value_score = 1/2,
      pr_risk_assessment = ''economic_external_resource_acquisition'', pr_rationale = rationale, pr_evidence_hashes = [], pr_created_at = e_now E 0\<rparr>"

text \<open>The operation was not changed after the intent was authorised.\<close>

definition verify_operation_matches_intent ::
  "prims \<Rightarrow> abi \<Rightarrow> consequential_operation \<Rightarrow> purchase_intent \<Rightarrow> (bool \<times> string option) result" where
  "verify_operation_matches_intent P abi op i =
     (if pget op ''purchase_intent_hash'' \<noteq> JStr (compute_purchase_intent_hash P i)
      then Inr (False, Some ''Operation purchase_intent_hash mismatch'')
      else bind_result (encode_calldata abi i) (\<lambda>calldata.
        if pget op ''data_payload'' \<noteq> JStr calldata
        then Inr (False, Some ''Operation data_payload does not match authorized purchase calldata'')
        else case dict_get (op_parameters op) ''recipient'' (JStr []) of
          JStr r \<Rightarrow> Inr (if py_lower r \<noteq> py_lower (pi_exchange_contract i)
            then (False, Some ''Operation recipient mismatch'') else (True, None))
        | _ \<Rightarrow> raise AttributeError ''object has no attribute lower''))"

section \<open>Evidence\<close>

record purchase_evidence =
  ev_purchase_intent_hash :: string
  ev_provider_reference :: string
  ev_chain_id :: json
  ev_network :: "string option"
  ev_exchange_contract :: string
  ev_usdg_spent :: int
  ev_credit_out :: int
  ev_min_credit_out :: int
  ev_beneficiary :: string
  ev_activation_id :: string
  ev_tenant_id :: json
  ev_organisation_id :: json
  ev_evidence_hash :: "string option"
  ev_events :: "json list"
  ev_raw :: "(string \<times> json) list"

definition lower_or_null :: "string \<Rightarrow> json" where
  "lower_or_null s = (if s = [] then JNull else JStr (py_lower s))"

definition compute_integrity_hash :: "prims \<Rightarrow> purchase_evidence \<Rightarrow> string" where
  "compute_integrity_hash P ev = sha256 P (canonical_json P (JObj
     [(''purchase_intent_hash'', JStr (ev_purchase_intent_hash ev)), (''provider_reference'', JStr (ev_provider_reference ev)),
      (''chain_id'', ev_chain_id ev), (''network'', opt_json (ev_network ev)),
      (''exchange_contract'', lower_or_null (ev_exchange_contract ev)), (''usdg_spent'', JInt (ev_usdg_spent ev)),
      (''credit_out'', JInt (ev_credit_out ev)), (''min_credit_out'', JInt (ev_min_credit_out ev)),
      (''beneficiary'', lower_or_null (ev_beneficiary ev)), (''activation_id'', JStr (ev_activation_id ev)),
      (''tenant_id'', ev_tenant_id ev), (''organisation_id'', ev_organisation_id ev)]))"

text \<open>A value that should be a dictionary, or a list; the first dictionary of the events with a property.\<close>

fun as_dict :: "json \<Rightarrow> (string \<times> json) list" where
  "as_dict (JObj d) = d"
| "as_dict _ = []"

fun as_list :: "json \<Rightarrow> json list" where
  "as_list (JList xs) = xs"
| "as_list _ = []"

definition first_event :: "((string \<times> json) list \<Rightarrow> bool) \<Rightarrow> json list \<Rightarrow> (string \<times> json) list option" where
  "first_event Q events = find Q (map as_dict events)"

text \<open>\<open>a or b or c\<close>: the first true value, or the last one; over the keys of two dictionaries, in that order.\<close>

fun or_chain :: "json list \<Rightarrow> json" where
  "or_chain [] = JNull"
| "or_chain [v] = v"
| "or_chain (v # vs) = json_or v (or_chain vs)"

definition either :: "(string \<times> json) list \<Rightarrow> (string \<times> json) list \<Rightarrow> string list \<Rightarrow> json" where
  "either raw receipt ks = or_chain (map (param_get raw) ks @ map (param_get receipt) ks)"

definition raw_events :: "(string \<times> json) list \<Rightarrow> (string \<times> json) list \<Rightarrow> json list" where
  "raw_events raw receipt = as_list (either raw receipt [''events''])"

definition raw_activation :: "prims \<Rightarrow> (string \<times> json) list \<Rightarrow> (string \<times> json) list \<Rightarrow> json list \<Rightarrow> string" where
  "raw_activation P raw receipt events =
     (let a = either raw receipt [''activation_id''] in
      if json_truthy a then py_str P a
      else case first_event (\<lambda>e. json_truthy (param_get e ''activation_id'')) events of
        None \<Rightarrow> [] | Some e \<Rightarrow> py_str P (param_get e ''activation_id''))"

definition raw_credit :: "(string \<times> json) list \<Rightarrow> (string \<times> json) list \<Rightarrow> json list \<Rightarrow> json" where
  "raw_credit raw receipt events =
     (let keys = [''credit_out'', ''credit_amount'', ''credits''];
          c = param_get raw ''credit_out''; c2 = (if c = JNull then param_get receipt ''credit_out'' else c)
      in if c2 \<noteq> JNull then c2
         else case first_event (\<lambda>e. list_ex (\<lambda>k. map_of e k \<noteq> None) keys) events of
           None \<Rightarrow> JNull | Some e \<Rightarrow> the (map_of e (the (find (\<lambda>k. map_of e k \<noteq> None) keys))))"

definition raw_usdg :: "(string \<times> json) list \<Rightarrow> (string \<times> json) list \<Rightarrow> json" where
  "raw_usdg raw receipt =
     (let u = param_get raw ''usdg_spent''; u2 = (if u = JNull then param_get receipt ''usdg_spent'' else u)
      in if u2 = JNull then param_get raw ''amount_wei'' else u2)"

definition raw_beneficiary :: "prims \<Rightarrow> (string \<times> json) list \<Rightarrow> (string \<times> json) list \<Rightarrow> json list \<Rightarrow> string" where
  "raw_beneficiary P raw receipt events =
     (let ks = [''beneficiary'', ''beneficiary_bytes32'']; b = text_or_empty P (either raw receipt ks) in
      if b \<noteq> [] then b
      else case first_event (\<lambda>e. json_truthy (either e [] ks)) events of
        None \<Rightarrow> [] | Some e \<Rightarrow> py_str P (either e [] ks))"

text \<open>\<open>int(v)\<close>, leaving what cannot be converted as it is; \<open>int(v or 0)\<close>.\<close>

definition int_or_same :: "json \<Rightarrow> json" where
  "int_or_same v = (case py_int v of Inr n \<Rightarrow> JInt n | Inl _ \<Rightarrow> v)"

definition int_or_zero :: "json \<Rightarrow> int result" where
  "int_or_zero v = (if json_truthy v then py_int v else Inr 0)"

definition extract_evidence ::
  "prims \<Rightarrow> provider_result \<Rightarrow> consequential_operation option \<Rightarrow> purchase_evidence option result" where
  "extract_evidence P r op =
     (let raw = px_raw r; receipt = as_dict (param_get raw ''raw_receipt''); events = raw_events raw receipt;
          activation = raw_activation P raw receipt events; credit = raw_credit raw receipt events; usdg = raw_usdg raw receipt
      in if usdg = JNull \<and> credit = JNull \<and> activation = [] \<and> px_outcome r \<in> {Outcome_TIMEOUT, Outcome_UNKNOWN}
      then Inr None
      else bind_result (int_or_zero usdg) (\<lambda>spent. bind_result (int_or_zero credit) (\<lambda>out. Inr (Some
        \<lparr>ev_purchase_intent_hash = text_or_empty P (either raw receipt [''purchase_intent_hash'', ''intent_hash'']),
         ev_provider_reference = (if py_truthy (px_reference r) then the (px_reference r)
           else text_or_empty P (or_chain [param_get raw ''transaction_hash'', param_get raw ''reference'',
             param_get receipt ''transaction_hash''])),
         ev_chain_id = int_or_same (either raw receipt [''chain_id'']),
         ev_network = (case either raw receipt [''network''] of JNull \<Rightarrow> None | v \<Rightarrow> Some (py_str P v)),
         ev_exchange_contract = text_or_empty P (either raw receipt [''exchange_contract'', ''recipient'']),
         ev_usdg_spent = spent, ev_credit_out = out,
         ev_min_credit_out = (case py_int (either raw receipt [''min_credit_out'']) of Inr n \<Rightarrow> n | Inl _ \<Rightarrow> 0),
         ev_beneficiary = raw_beneficiary P raw receipt events, ev_activation_id = activation,
         ev_tenant_id = (case op of None \<Rightarrow> param_get raw ''tenant_id'' | Some x \<Rightarrow> JStr (op_tenant_id x)),
         ev_organisation_id = (case op of None \<Rightarrow> param_get raw ''organisation_id'' | Some x \<Rightarrow> JStr (op_organisation_id x)),
         ev_evidence_hash = px_evidence r, ev_events = events, ev_raw = raw\<rparr>))))"

section \<open>The verifier\<close>

datatype verification_result = Verification_VERIFIED | Verification_REJECTED | Verification_PENDING_EVIDENCE

datatype verification_code =
  V_OK | V_MISSING_EVIDENCE | V_PROVIDER_NOT_SUCCESS | V_WRONG_INTENT_HASH | V_WRONG_EXCHANGE | V_WRONG_CHAIN
  | V_WRONG_NETWORK | V_WRONG_BENEFICIARY | V_WRONG_USDG_AMOUNT | V_CREDIT_BELOW_MINIMUM | V_MISSING_ACTIVATION
  | V_MALFORMED_EVIDENCE | V_CROSS_TENANT | V_CROSS_ORG | V_EVIDENCE_HASH_MISMATCH | V_WRONG_PROVIDER_REFERENCE
  | V_ALREADY_VERIFIED

fun verification_code_value :: "verification_code \<Rightarrow> string" where
  "verification_code_value V_OK = ''OK''"
| "verification_code_value V_MISSING_EVIDENCE = ''MISSING_EVIDENCE''"
| "verification_code_value V_PROVIDER_NOT_SUCCESS = ''PROVIDER_NOT_SUCCESS''"
| "verification_code_value V_WRONG_INTENT_HASH = ''WRONG_INTENT_HASH''"
| "verification_code_value V_WRONG_EXCHANGE = ''WRONG_EXCHANGE''"
| "verification_code_value V_WRONG_CHAIN = ''WRONG_CHAIN''"
| "verification_code_value V_WRONG_NETWORK = ''WRONG_NETWORK''"
| "verification_code_value V_WRONG_BENEFICIARY = ''WRONG_BENEFICIARY''"
| "verification_code_value V_WRONG_USDG_AMOUNT = ''WRONG_USDG_AMOUNT''"
| "verification_code_value V_CREDIT_BELOW_MINIMUM = ''CREDIT_BELOW_MINIMUM''"
| "verification_code_value V_MISSING_ACTIVATION = ''MISSING_ACTIVATION''"
| "verification_code_value V_MALFORMED_EVIDENCE = ''MALFORMED_EVIDENCE''"
| "verification_code_value V_CROSS_TENANT = ''CROSS_TENANT''"
| "verification_code_value V_CROSS_ORG = ''CROSS_ORG''"
| "verification_code_value V_EVIDENCE_HASH_MISMATCH = ''EVIDENCE_HASH_MISMATCH''"
| "verification_code_value V_WRONG_PROVIDER_REFERENCE = ''WRONG_PROVIDER_REFERENCE''"
| "verification_code_value V_ALREADY_VERIFIED = ''ALREADY_VERIFIED''"

fun verification_value :: "verification_result \<Rightarrow> string" where
  "verification_value Verification_VERIFIED = ''VERIFIED''"
| "verification_value Verification_REJECTED = ''REJECTED''"
| "verification_value Verification_PENDING_EVIDENCE = ''PENDING_EVIDENCE''"

record verification_report =
  vf_result :: verification_result
  vf_codes :: "verification_code list"
  vf_reasons :: "string list"
  vf_intent_hash :: string
  vf_provider_reference :: "string option"
  vf_evidence :: "purchase_evidence option"
  vf_verified_at :: string
  vf_report_id :: string

definition report_is_verified :: "verification_report \<Rightarrow> bool" where
  "report_is_verified r \<longleftrightarrow> vf_result r = Verification_VERIFIED"

definition report_audit :: "prims \<Rightarrow> verification_report \<Rightarrow> json" where
  "report_audit P r = JObj
     [(''report_id'', JStr (vf_report_id r)), (''result'', JStr (verification_value (vf_result r))),
      (''codes'', JList (map (JStr \<circ> verification_code_value) (vf_codes r))), (''reasons'', JList (map JStr (vf_reasons r))),
      (''intent_hash'', JStr (vf_intent_hash r)), (''provider_reference'', opt_json (vf_provider_reference r)),
      (''verified_at'', JStr (vf_verified_at r)),
      (''evidence_integrity'', (case vf_evidence r of None \<Rightarrow> JNull | Some ev \<Rightarrow> JStr (compute_integrity_hash P ev)))]"

definition mk_report ::
  "prims \<Rightarrow> env \<Rightarrow> verification_result \<Rightarrow> verification_code \<Rightarrow> string \<Rightarrow> string \<Rightarrow> string option \<Rightarrow>
     purchase_evidence option \<Rightarrow> verification_report" where
  "mk_report P E res code reason ih ref ev = \<lparr>vf_result = res, vf_codes = [code], vf_reasons = [reason], vf_intent_hash = ih,
     vf_provider_reference = ref, vf_evidence = ev, vf_verified_at = e_now E 0, vf_report_id = take 16 (sha256 P (e_now E 1))\<rparr>"

text \<open>What the evidence says against the intent: the first failed check.\<close>

type_synonym finding = "(verification_code \<times> string) option"

definition check_scope :: "prims \<Rightarrow> purchase_intent \<Rightarrow> purchase_evidence \<Rightarrow> finding" where
  "check_scope P i ev =
     (if ev_exchange_contract ev = [] \<or> ev_chain_id ev = JNull \<or> \<not> py_truthy (ev_network ev) \<or> ev_beneficiary ev = [] \<or>
         ev_provider_reference ev = [] \<or> ev_purchase_intent_hash ev = []
      then Some (V_MISSING_EVIDENCE, ''Critical receipt evidence missing'')
      else if ev_purchase_intent_hash ev \<noteq> compute_purchase_intent_hash P i
      then Some (V_WRONG_INTENT_HASH, ''Evidence intent hash != authorized'')
      else if ev_tenant_id ev \<noteq> JNull \<and> ev_tenant_id ev \<noteq> JStr (pi_tenant_id i)
      then Some (V_CROSS_TENANT, ''Evidence tenant != intent tenant'')
      else if ev_organisation_id ev \<noteq> JNull \<and> ev_organisation_id ev \<noteq> JStr (pi_organisation_id i)
      then Some (V_CROSS_ORG, ''Evidence org != intent org'')
      else if py_lower (ev_exchange_contract ev) \<noteq> py_lower (pi_exchange_contract i)
      then Some (V_WRONG_EXCHANGE, ''Evidence exchange != authorized'') else None)"

definition check_receipt :: "purchase_intent \<Rightarrow> purchase_evidence \<Rightarrow> string option \<Rightarrow> int \<Rightarrow> finding" where
  "check_receipt i ev expected chain =
     (if chain \<noteq> pi_chain_id i then Some (V_WRONG_CHAIN, ''Evidence chain_id != authorized'')
      else if (case ev_network ev of None \<Rightarrow> False | Some n \<Rightarrow> py_lower n \<noteq> py_lower (pi_network i))
      then Some (V_WRONG_NETWORK, ''Evidence network != authorized'')
      else if ev_usdg_spent ev \<noteq> pi_usdg_in i then Some (V_WRONG_USDG_AMOUNT, ''Evidence usdg_spent != authorized usdg_in'')
      else if ev_credit_out ev < pi_min_credit_out i
      then Some (V_CREDIT_BELOW_MINIMUM, ''Evidence credit_out < min_credit_out'')
      else if py_lower (ev_beneficiary ev) \<notin> {py_lower (beneficiary_as_bytes32 i), py_lower (pi_beneficiary i)}
      then Some (V_WRONG_BENEFICIARY, ''Evidence beneficiary does not match authorized beneficiary'')
      else if ev_activation_id ev = [] \<and> \<not> list_ex (\<lambda>e. param_get (as_dict e) ''name'' = JStr ''Activated'' \<and>
          json_truthy (param_get (as_dict e) ''activation_id'')) (ev_events ev)
      then Some (V_MISSING_ACTIVATION, ''Missing activation_id / Activated event in evidence'')
      else if ev_provider_reference ev = []
      then Some (V_WRONG_PROVIDER_REFERENCE, ''Missing provider_reference / transaction identity'')
      else if py_truthy expected \<and> Some (ev_provider_reference ev) \<noteq> expected
      then Some (V_WRONG_PROVIDER_REFERENCE, ''Evidence provider_reference != expected'') else None)"

text \<open>The verifier remembers which reference an intent was verified under.\<close>

type_synonym verified_map = "(string \<times> string) list"

definition accept_evidence ::
  "prims \<Rightarrow> env \<Rightarrow> purchase_intent \<Rightarrow> purchase_evidence \<Rightarrow> verified_map \<Rightarrow> verification_report \<times> verified_map" where
  "accept_evidence P E i ev V =
     (let ih = compute_purchase_intent_hash P i; ref = ev_provider_reference ev in
      case map_of V ih of
        Some prior \<Rightarrow>
          if prior = ref
          then (mk_report P E Verification_VERIFIED V_ALREADY_VERIFIED
                 ''Evidence previously verified for this intent; no duplicate economic effect'' ih (Some ref) (Some ev), V)
          else (mk_report P E Verification_REJECTED V_WRONG_PROVIDER_REFERENCE
                 ''Intent already verified under different reference'' ih (Some ref) (Some ev), V)
      | None \<Rightarrow> (mk_report P E Verification_VERIFIED V_OK ''Purchase evidence matches authorized OrbioPurchaseIntent'' ih
                  (Some ref) (Some ev), AList.update ih ref V))"

definition verify_evidence ::
  "prims \<Rightarrow> env \<Rightarrow> purchase_intent \<Rightarrow> purchase_evidence option \<Rightarrow> provider_outcome option \<Rightarrow> string option \<Rightarrow>
     (verified_map, verification_report) act" where
  "verify_evidence P E i evidence outcome expected V =
     (let ih = compute_purchase_intent_hash P i; open_outcome = outcome \<in> {Some Outcome_TIMEOUT, Some Outcome_UNKNOWN} in
      case evidence of
        None \<Rightarrow> (Inr (if open_outcome \<or> outcome = None
          then mk_report P E Verification_PENDING_EVIDENCE V_MISSING_EVIDENCE
                 ''No final purchase/activation evidence available yet'' ih None None
          else mk_report P E Verification_REJECTED V_MISSING_EVIDENCE
                 ''Provider reported terminal outcome without extractable evidence'' ih None None), V)
      | Some ev \<Rightarrow>
          let fail = (\<lambda>(c, m). (Inr (mk_report P E Verification_REJECTED c m ih (Some (ev_provider_reference ev)) (Some ev)), V))
          in if open_outcome
             then (Inr (mk_report P E Verification_PENDING_EVIDENCE V_PROVIDER_NOT_SUCCESS ''awaiting final evidence'' ih
               (if ev_provider_reference ev = [] then None else Some (ev_provider_reference ev)) (Some ev)), V)
             else if outcome \<noteq> None \<and> outcome \<noteq> Some Outcome_SUCCESS
             then fail (V_PROVIDER_NOT_SUCCESS, ''Provider outcome is not SUCCESS'')
             else case check_scope P i ev of Some x \<Rightarrow> fail x
             | None \<Rightarrow> (case py_int (ev_chain_id ev) of Inl x \<Rightarrow> (Inl x, V)
             | Inr chain \<Rightarrow> (case check_receipt i ev expected chain of Some x \<Rightarrow> fail x
             | None \<Rightarrow> (case accept_evidence P E i ev V of (r, V') \<Rightarrow> (Inr r, V')))))"

text \<open>\<open>verify_execution\<close> and \<open>verify_status\<close>: a status is read like an execution.\<close>

definition verify_execution ::
  "prims \<Rightarrow> env \<Rightarrow> purchase_intent \<Rightarrow> provider_result \<Rightarrow> consequential_operation option \<Rightarrow>
     (verified_map, verification_report) act" where
  "verify_execution P E i r op =
     act_bind (act_lift (extract_evidence P r op)) (\<lambda>ev. verify_evidence P E i ev (Some (px_outcome r)) (px_reference r))"

definition was_verified :: "verified_map \<Rightarrow> string \<Rightarrow> bool" where
  "was_verified V ih \<longleftrightarrow> ih \<in> fst ` set V"

section \<open>Reconciliation\<close>

text \<open>
  The operation object, the verifier, and what they act on.  \<open>pw_op\<close> is the object the caller passes in, which
  the code changes in place: an exception leaves it in the state it had reached.
\<close>

record ('l, 'p) purchase_world =
  pw_cs :: "('l, 'p) cons_state"
  pw_verified :: verified_map
  pw_op :: consequential_operation

definition on_cs :: "(('l, 'p) cons_state, 'a) act \<Rightarrow> (('l, 'p) purchase_world, 'a) act" where
  "on_cs f w = (case f (pw_cs w) of (r, s) \<Rightarrow> (r, w\<lparr>pw_cs := s\<rparr>))"

definition on_verified :: "(verified_map, 'a) act \<Rightarrow> (('l, 'p) purchase_world, 'a) act" where
  "on_verified f w = (case f (pw_verified w) of (r, V) \<Rightarrow> (r, w\<lparr>pw_verified := V\<rparr>))"

definition op_moves ::
  "env \<Rightarrow> operation_state \<Rightarrow> string option \<Rightarrow> string option \<Rightarrow> (('l, 'p) purchase_world, unit) act" where
  "op_moves E new err ref w = (case transition_to (e_now E 0) (pw_op w) new err ref of
       Inl x \<Rightarrow> (Inl x, w) | Inr op \<Rightarrow> (Inr (), w\<lparr>pw_op := op\<rparr>))"

text \<open>\<open>_save\<close> and \<open>_event\<close>.\<close>

definition rec_save :: "(('l, 'p) purchase_world, unit) act" where
  "rec_save w = on_cs (save_op (pw_op w)) w"

definition rec_event :: "prims \<Rightarrow> env \<Rightarrow> string \<Rightarrow> (string \<times> json) list \<Rightarrow> (('l, 'p) purchase_world, unit) act" where
  "rec_event P E ty extra w = on_cs (log_event P E ''ORBIO_PURCHASE_RECONCILIATION'' ty (op_id (pw_op w))
     ((''operation_id'', JStr (op_id (pw_op w))) # extra)) w"

text \<open>The escrow moves unless an entry for the operation shows that it has; a duplicate id is not an error.\<close>

definition is_duplicate_text :: "exc \<Rightarrow> bool" where
  "is_duplicate_text x \<longleftrightarrow> sublist ''Duplicate transaction ID'' (exc_msg x) \<or> sublist ''UNIQUE constraint'' (exc_msg x)"

definition purchase_release ::
  "'l entry_ops \<Rightarrow> env \<Rightarrow> (ledger_entry \<Rightarrow> bool) \<Rightarrow> string \<Rightarrow> string \<Rightarrow> string \<Rightarrow> (('l, 'p) purchase_world, unit) act" where
  "purchase_release ops E seen dest memo tx w =
     (let op = pw_op w; L = cs_ledger (pw_cs w) in
      if op_amount op > 0 \<and> \<not> (\<exists>e \<in> set (lo_get_entries ops L). sublist (op_id op) (le_memo e) \<and> seen e) \<and>
         lo_get_balance ops L ESCROW \<ge> op_amount op
      then case on_cs (act_bind (cons_move ops E ESCROW dest (op_amount op) (memo @ op_id op) tx) (\<lambda>_. refresh_treasury ops)) w of
             (Inr u, w') \<Rightarrow> (Inr u, w')
           | (Inl x, w') \<Rightarrow> if is_duplicate_text x then (Inr (), w') else (Inl x, w')
      else (Inr (), w))"

definition finish_reconciled ::
  "env \<Rightarrow> string option \<Rightarrow> string option \<Rightarrow> (('l, 'p) purchase_world, unit) act" where
  "finish_reconciled E err ref w = (if op_state (pw_op w) \<noteq> Op_RECONCILED
     then act_bind (op_moves E Op_RECONCILED err ref) (\<lambda>_. rec_save) w else (Inr (), w))"

definition purchase_settle_success ::
  "'l entry_ops \<Rightarrow> prims \<Rightarrow> env \<Rightarrow> provider_result \<Rightarrow> (('l, 'p) purchase_world, unit) act" where
  "purchase_settle_success ops P E st =
     act_bind (\<lambda>w. purchase_release ops E (\<lambda>e. le_to_account e = EXTERNAL_SINK) EXTERNAL_SINK
       ''Orbio purchase reconciliation settlement for '' (rec_tx P ''tx-orbio-rec-'' (pw_op w)) w) (\<lambda>_.
     finish_reconciled (env_skip 2 E) None (px_reference st))"

definition purchase_settle_failure ::
  "'l entry_ops \<Rightarrow> prims \<Rightarrow> env \<Rightarrow> provider_result \<Rightarrow> verification_report \<Rightarrow> (('l, 'p) purchase_world, unit) act" where
  "purchase_settle_failure ops P E st report =
     act_bind (\<lambda>w. purchase_release ops E (\<lambda>e. le_to_account e = TREASURY \<and> le_from_account e = ESCROW) TREASURY
       ''Orbio purchase reconciliation refund for '' (rec_tx P ''rollback-orbio-rec-'' (pw_op w)) w) (\<lambda>_.
     finish_reconciled (env_skip 2 E)
       (Some (py_or (Some (py_join ''; '' (vf_reasons report))) (py_or (px_error st) ''verification rejected''))) (px_reference st))"

datatype economic_action = Economy_settled | Economy_refunded | Economy_none

record reconcile_outcome =
  ro_verification :: "verification_report option"
  ro_status :: "provider_result option"
  ro_action :: economic_action

definition settle_by_report ::
  "'l entry_ops \<Rightarrow> prims \<Rightarrow> env \<Rightarrow> string \<Rightarrow> provider_result \<Rightarrow> verification_report \<Rightarrow>
     (('l, 'p) purchase_world, reconcile_outcome) act" where
  "settle_by_report ops P E ih st report =
     (let done = (\<lambda>action. act_return \<lparr>ro_verification = Some report, ro_status = Some st, ro_action = action\<rparr>) in
      case vf_result report of
        Verification_VERIFIED \<Rightarrow>
          act_bind (purchase_settle_success ops P E st) (\<lambda>_.
          act_bind (rec_event P (env_skip 4 E) ''ORBIO_PURCHASE_RECONCILED_VERIFIED''
            [(''intent_hash'', JStr ih), (''provider_reference'', opt_json (px_reference st)), (''verification'', report_audit P report)]) (\<lambda>_.
          done Economy_settled))
      | Verification_REJECTED \<Rightarrow>
          act_bind (purchase_settle_failure ops P E st report) (\<lambda>_.
          act_bind (rec_event P (env_skip 4 E) ''ORBIO_PURCHASE_RECONCILED_REJECTED''
            [(''intent_hash'', JStr ih), (''codes'', JList (map (JStr \<circ> verification_code_value) (vf_codes report))),
             (''reasons'', JList (map JStr (vf_reasons report)))]) (\<lambda>_.
          done Economy_refunded))
      | Verification_PENDING_EVIDENCE \<Rightarrow>
          act_bind (\<lambda>w. op_moves E Op_UNKNOWN (Some ''Purchase evidence pending; escrow preserved'')
            (if py_truthy (px_reference st) then px_reference st else op_provider_reference (pw_op w)) w) (\<lambda>_.
          act_bind rec_save (\<lambda>_.
          act_bind (rec_event P (env_skip 4 E) ''ORBIO_PURCHASE_RECONCILIATION_PENDING''
            [(''intent_hash'', JStr ih), (''provider_outcome'', JStr (outcome_value (px_outcome st))), (''escrow_locked'', JBool True)]) (\<lambda>_.
          done Economy_none))))"

text \<open>\<open>provider.status\<close>; a provider that does not take a reference is asked again without it.\<close>

definition query_status :: "'p provider_ops \<Rightarrow> (('l, 'p) purchase_world, provider_result) act" where
  "query_status pv w =
     (let op = pw_op w; ask = (\<lambda>ref. on_cs (call_provider (po_status pv (op_id op) (op_idempotency_key op) ref))) in
      case ask (op_provider_reference op) w of
        (Inl x, w') \<Rightarrow> if exc_kind x = TypeError then ask None w' else (Inl x, w')
      | (Inr st, w') \<Rightarrow> (Inr st, w'))"

definition mark_reconciling :: "prims \<Rightarrow> env \<Rightarrow> string \<Rightarrow> (('l, 'p) purchase_world, unit) act" where
  "mark_reconciling P E ih w = (if op_state (pw_op w) \<noteq> Op_RECONCILING
     then act_bind (op_moves E Op_RECONCILING None None) (\<lambda>_. act_bind rec_save (\<lambda>_.
       rec_event P (env_skip 2 E) ''ORBIO_PURCHASE_RECONCILING'' [(''intent_hash'', JStr ih)])) w
     else (Inr (), w))"

text \<open>The status, its verification for the operation, and the settlement by the report.\<close>

definition ask_and_settle ::
  "'l entry_ops \<Rightarrow> 'p provider_ops \<Rightarrow> prims \<Rightarrow> env \<Rightarrow> purchase_intent \<Rightarrow> consequential_operation \<Rightarrow>
     (('l, 'p) purchase_world, reconcile_outcome) act" where
  "ask_and_settle ops pv P E i op =
     act_bind (query_status pv) (\<lambda>st.
     act_bind (on_verified (verify_execution P E i st (Some op))) (\<lambda>report.
     settle_by_report ops P (env_skip 2 E) (compute_purchase_intent_hash P i) st report))"

definition reconcile_purchase ::
  "'l entry_ops \<Rightarrow> 'p provider_ops \<Rightarrow> prims \<Rightarrow> env \<Rightarrow> purchase_intent \<Rightarrow> (('l, 'p) purchase_world, reconcile_outcome) act"
where
  "reconcile_purchase ops pv P E i w =
     (let op = pw_op w; g = cs_org (pw_cs w); ih = compute_purchase_intent_hash P i; stored = pget op ''purchase_intent_hash'' in
      if op_tenant_id op \<noteq> og_tenant_id g \<or> op_organisation_id op \<noteq> og_id g
      then (raise UnauthorizedActionError ''Isolation violation: cannot reconcile purchase for another tenant/org'', w)
      else if pi_organisation_id i \<noteq> og_id g \<or> pi_tenant_id i \<noteq> og_tenant_id g
      then (raise UnauthorizedActionError ''Purchase intent tenant/org does not match reconciliation organisation'', w)
      else if op_action_type op \<notin> {ORBIO_CREDIT_PURCHASE, BLOCKCHAIN_TRANSACTION}
      then (raise ReconciliationError ''Orbio purchase reconciliation does not apply to action_type'', w)
      else if op_state op \<in> {Op_SUCCEEDED, Op_FAILED, Op_RECONCILED}
      then (Inr \<lparr>ro_verification = None, ro_status = None, ro_action = Economy_none\<rparr>, w)
      else if op_state op \<notin> {Op_UNKNOWN, Op_RECONCILING, Op_SUBMITTED}
      then (raise ReconciliationError ''Cannot reconcile purchase in state'', w)
      else if json_truthy stored \<and> stored \<noteq> JStr ih
      then (raise ReconciliationError ''Operation purchase_intent_hash does not match provided intent'', w)
      else act_bind (mark_reconciling P E ih) (\<lambda>_. ask_and_settle ops pv P (env_skip 4 E) i op) w)"

definition reconcile_purchase_by_id ::
  "'l entry_ops \<Rightarrow> 'p provider_ops \<Rightarrow> prims \<Rightarrow> env \<Rightarrow> string \<Rightarrow> purchase_intent \<Rightarrow>
     (('l, 'p) purchase_world, reconcile_outcome) act" where
  "reconcile_purchase_by_id ops pv P E operation_id i w =
     (case cs_repo (pw_cs w) of
        None \<Rightarrow> (raise ReconciliationError ''No operation repository configured'', w)
      | Some R \<Rightarrow> (case repo_get R operation_id of
          None \<Rightarrow> (raise ReconciliationError ''Operation not found'', w)
        | Some op \<Rightarrow> reconcile_purchase ops pv P E i (w\<lparr>pw_op := op\<rparr>)))"

end
