(* ===== verification/PurchaseBooks.thy ===== *)
theory PurchaseBooks
  imports PurchaseSettle Outcomes
begin

text \<open>
  What the reconciliation of a purchase does to the books, on every ledger with the interface \<open>total_ledger\<close>, and what
  a verified report says.
\<close>

section \<open>What is left alone\<close>

definition books_kept :: "(('l, 'p) purchase_world, 'a) act \<Rightarrow> bool" where
  "books_kept f \<longleftrightarrow> (\<forall>w. cs_ledger (pw_cs (snd (f w))) = cs_ledger (pw_cs w) \<and> pw_op (snd (f w)) = pw_op w)"

lemma books_keptD: "books_kept f \<Longrightarrow> f w = (r, w') \<Longrightarrow> cs_ledger (pw_cs w') = cs_ledger (pw_cs w) \<and> pw_op w' = pw_op w"
  unfolding books_kept_def by (metis snd_conv)

lemma rec_save_books: "books_kept rec_save"
  by (simp add: books_kept_def rec_save_def on_cs_def save_op_def split: option.split sum.split)

lemma rec_event_books: "books_kept (rec_event P E ty ex)"
  by (simp add: books_kept_def rec_event_def on_cs_def log_event_def split: option.split)

lemma on_verified_books: "books_kept (on_verified f)"
  by (simp add: books_kept_def on_verified_def split: prod.split)

lemma query_status_books: "books_kept (query_status pv)"
  by (auto simp: books_kept_def query_status_def Let_def on_cs_def call_provider_def split: prod.split sum.split)

text \<open>A transition changes the state of the operation only.\<close>

lemma op_moves_Inr:
  assumes "op_moves E new err ref w = (Inr u, w')"
  shows "pw_cs w' = pw_cs w \<and> op_state (pw_op w') = new \<and> same_identity (pw_op w) (pw_op w') \<and>
    new \<in> set (VALID_OPERATION_TRANSITIONS (op_state (pw_op w)))"
  using assms by (auto simp: op_moves_def transition_to_Inr same_identity_def split: sum.splits)

lemma bind_Inr_elim:
  assumes "act_bind f g s = (Inr b, s')"
  obtains a s1 where "f s = (Inr a, s1)" "g a s1 = (Inr b, s')"
  using assms by (auto simp: act_bind_eq_Inr)

section \<open>Settlement\<close>

text \<open>The escrow has been moved for the operation before.\<close>

definition seen_before :: "('l \<Rightarrow> ledger_entry list) \<Rightarrow> (ledger_entry \<Rightarrow> bool) \<Rightarrow> consequential_operation \<Rightarrow> 'l \<Rightarrow> bool" where
  "seen_before g seen op L \<longleftrightarrow> (\<exists>e \<in> set (g L). sublist (op_id op) (le_memo e) \<and> seen e)"

definition escrow_released ::
  "('l \<Rightarrow> string \<Rightarrow> int) \<Rightarrow> ('l \<Rightarrow> ledger_entry list) \<Rightarrow> (ledger_entry \<Rightarrow> bool) \<Rightarrow> string \<Rightarrow> consequential_operation \<Rightarrow> 'l \<Rightarrow> 'l \<Rightarrow> bool"
where
  "escrow_released b g seen dest op L L' \<longleftrightarrow>
     (if 0 < op_amount op \<and> \<not> seen_before g seen op L \<and> op_amount op \<le> b L ESCROW
      then escrow_moved b (op_amount op) dest L L' else L' = L)"

lemma escrow_released_identity:
  "same_identity op op' \<Longrightarrow> escrow_released b g seen dest op' L L' = escrow_released b g seen dest op L L'"
proof -
  assume "same_identity op op'"
  then have "op_id op' = op_id op" "op_amount op' = op_amount op" by (simp_all add: same_identity_def)
  then show ?thesis unfolding escrow_released_def seen_before_def by (simp only:)
qed

text \<open>The effect of a report on the books, and the operation it leaves.\<close>

definition purchase_reconciled ::
  "('l \<Rightarrow> string \<Rightarrow> int) \<Rightarrow> ('l \<Rightarrow> ledger_entry list) \<Rightarrow> verification_report \<Rightarrow> reconcile_outcome \<Rightarrow>
     ('l, 'p) purchase_world \<Rightarrow> ('l, 'p) purchase_world \<Rightarrow> bool" where
  "purchase_reconciled b g report out w w' \<longleftrightarrow> same_identity (pw_op w) (pw_op w') \<and>
     (let L = cs_ledger (pw_cs w); L' = cs_ledger (pw_cs w'); op = pw_op w in case vf_result report of
        Verification_VERIFIED \<Rightarrow> ro_action out = Economy_settled \<and> op_state (pw_op w') = Op_RECONCILED \<and>
          escrow_released b g (\<lambda>e. le_to_account e = EXTERNAL_SINK) EXTERNAL_SINK op L L'
      | Verification_REJECTED \<Rightarrow> ro_action out = Economy_refunded \<and> op_state (pw_op w') = Op_RECONCILED \<and>
          escrow_released b g (\<lambda>e. le_to_account e = TREASURY \<and> le_from_account e = ESCROW) TREASURY op L L'
      | Verification_PENDING_EVIDENCE \<Rightarrow> ro_action out = Economy_none \<and> op_state (pw_op w') = Op_UNKNOWN \<and> L' = L)"

lemma finish_reconciled_Inr:
  assumes "finish_reconciled E err ref w = (Inr u, w')"
  shows "cs_ledger (pw_cs w') = cs_ledger (pw_cs w) \<and> same_identity (pw_op w) (pw_op w') \<and> op_state (pw_op w') = Op_RECONCILED"
proof (cases "op_state (pw_op w) = Op_RECONCILED")
  case True
  then show ?thesis using assms by (simp add: finish_reconciled_def)
next
  case False
  then have "act_bind (op_moves E Op_RECONCILED err ref) (\<lambda>_. rec_save) w = (Inr u, w')"
    using assms by (simp add: finish_reconciled_def)
  then obtain a w1 where "op_moves E Op_RECONCILED err ref w = (Inr a, w1)" "rec_save w1 = (Inr u, w')" by (rule bind_Inr_elim)
  then show ?thesis using op_moves_Inr books_keptD [OF rec_save_books] by metis
qed

lemma mark_reconciling_Inr:
  assumes "mark_reconciling P E ih w = (Inr u, w')"
  shows "cs_ledger (pw_cs w') = cs_ledger (pw_cs w) \<and> same_identity (pw_op w) (pw_op w')"
proof (cases "op_state (pw_op w) = Op_RECONCILING")
  case True
  then show ?thesis using assms by (simp add: mark_reconciling_def)
next
  case False
  then have "act_bind (op_moves E Op_RECONCILING None None) (\<lambda>_. act_bind rec_save (\<lambda>_.
       rec_event P (env_skip 2 E) ''ORBIO_PURCHASE_RECONCILING'' [(''intent_hash'', JStr ih)])) w = (Inr u, w')"
    using assms by (simp add: mark_reconciling_def)
  then obtain a w1 where 1: "op_moves E Op_RECONCILING None None w = (Inr a, w1)" and rest: "act_bind rec_save (\<lambda>_.
       rec_event P (env_skip 2 E) ''ORBIO_PURCHASE_RECONCILING'' [(''intent_hash'', JStr ih)]) w1 = (Inr u, w')" by (rule bind_Inr_elim)
  from rest obtain b w2 where 2: "rec_save w1 = (Inr b, w2)"
      "rec_event P (env_skip 2 E) ''ORBIO_PURCHASE_RECONCILING'' [(''intent_hash'', JStr ih)] w2 = (Inr u, w')" by (rule bind_Inr_elim)
  show ?thesis using op_moves_Inr [OF 1] books_keptD [OF rec_save_books 2(1)] books_keptD [OF rec_event_books 2(2)] by simp
qed

context total_ledger
begin

lemma release_effect:
  assumes run: "purchase_release (entry_ops_of bal post g) E seen dest memo tx w = (Inr u, w')"
    and "inv (cs_ledger (pw_cs w))" "tx \<noteq> []" "\<not> known (cs_ledger (pw_cs w)) tx" "dest \<noteq> ESCROW"
  shows "pw_op w' = pw_op w \<and> escrow_released bal g seen dest (pw_op w) (cs_ledger (pw_cs w)) (cs_ledger (pw_cs w'))"
proof (cases "0 < op_amount (pw_op w) \<and> \<not> seen_before g seen (pw_op w) (cs_ledger (pw_cs w)) \<and>
    op_amount (pw_op w) \<le> bal (cs_ledger (pw_cs w)) ESCROW")
  case True
  then have n: "0 \<le> op_amount (pw_op w)" and le: "op_amount (pw_op w) \<le> bal (cs_ledger (pw_cs w)) ESCROW" by simp_all
  obtain s' where s': "settle_escrow (entry_ops_of bal post g) E (pw_op w) dest (memo @ op_id (pw_op w)) tx (pw_cs w) = (Inr (), s')"
      "escrow_moved bal (op_amount (pw_op w)) dest (cs_ledger (pw_cs w)) (cs_ledger s')"
    using settle_escrow_moves [OF assms(2-4) n le assms(5), of g E "memo @ op_id (pw_op w)"] by blast
  then have "on_cs (act_bind (cons_move (entry_ops_of bal post g) E ESCROW dest (op_amount (pw_op w)) (memo @ op_id (pw_op w)) tx)
      (\<lambda>_. refresh_treasury (entry_ops_of bal post g))) w = (Inr (), w\<lparr>pw_cs := s'\<rparr>)"
    using True by (simp add: on_cs_def settle_escrow_def)
  then have "w' = w\<lparr>pw_cs := s'\<rparr>" using run True by (simp add: purchase_release_def Let_def seen_before_def)
  then show ?thesis using s'(2) True by (simp add: escrow_released_def)
next
  case False
  then have "w' = w" using run by (auto simp: purchase_release_def Let_def seen_before_def split: if_splits)
  then show ?thesis using False by (auto simp: escrow_released_def)
qed

lemma settle_by_report_effect:
  assumes run: "settle_by_report (entry_ops_of bal post g) P E ih st report w = (Inr out, w')"
    and inv: "inv (cs_ledger (pw_cs w))" and n1: "\<not> known (cs_ledger (pw_cs w)) (rec_tx P ''tx-orbio-rec-'' (pw_op w))"
    and n2: "\<not> known (cs_ledger (pw_cs w)) (rec_tx P ''rollback-orbio-rec-'' (pw_op w))"
  shows "purchase_reconciled bal g report out w w'"
proof (cases "vf_result report")
  case Verification_PENDING_EVIDENCE
  then show ?thesis using run unfolding settle_by_report_def Let_def
    by (auto elim!: bind_Inr_elim dest!: op_moves_Inr books_keptD [OF rec_save_books] books_keptD [OF rec_event_books]
        simp: act_return_def purchase_reconciled_def)
next
  case Verification_VERIFIED
  obtain a w1 b w2 where 1: "purchase_settle_success (entry_ops_of bal post g) P E st w = (Inr a, w1)"
      and 2: "rec_event P (env_skip 4 E) ''ORBIO_PURCHASE_RECONCILED_VERIFIED''
            [(''intent_hash'', JStr ih), (''provider_reference'', opt_json (px_reference st)), (''verification'', report_audit P report)] w1 = (Inr b, w2)"
      and 3: "w' = w2" "ro_action out = Economy_settled"
    using run Verification_VERIFIED unfolding settle_by_report_def Let_def by (auto elim!: bind_Inr_elim simp: act_return_def)
  obtain c w0 where r: "purchase_release (entry_ops_of bal post g) E (\<lambda>e. le_to_account e = EXTERNAL_SINK) EXTERNAL_SINK
       ''Orbio purchase reconciliation settlement for '' (rec_tx P ''tx-orbio-rec-'' (pw_op w)) w = (Inr c, w0)"
      and f: "finish_reconciled (env_skip 2 E) None (px_reference st) w0 = (Inr a, w1)"
    using 1 unfolding purchase_settle_success_def by (auto elim!: bind_Inr_elim)
  have "rec_tx P ''tx-orbio-rec-'' (pw_op w) \<noteq> []" by (simp add: rec_tx_def)
  from release_effect [OF r inv this n1] have "pw_op w0 = pw_op w" "escrow_released bal g (\<lambda>e. le_to_account e = EXTERNAL_SINK)
      EXTERNAL_SINK (pw_op w) (cs_ledger (pw_cs w)) (cs_ledger (pw_cs w0))" by (simp_all add: EXTERNAL_SINK_def ESCROW_def)
  then show ?thesis using finish_reconciled_Inr [OF f] books_keptD [OF rec_event_books 2] 3 Verification_VERIFIED
    by (simp add: purchase_reconciled_def)
next
  case Verification_REJECTED
  obtain a w1 b w2 where 1: "purchase_settle_failure (entry_ops_of bal post g) P E st report w = (Inr a, w1)"
      and 2: "rec_event P (env_skip 4 E) ''ORBIO_PURCHASE_RECONCILED_REJECTED''
            [(''intent_hash'', JStr ih), (''codes'', JList (map (JStr \<circ> verification_code_value) (vf_codes report))),
             (''reasons'', JList (map JStr (vf_reasons report)))] w1 = (Inr b, w2)"
      and 3: "w' = w2" "ro_action out = Economy_refunded"
    using run Verification_REJECTED unfolding settle_by_report_def Let_def by (auto elim!: bind_Inr_elim simp: act_return_def)
  let ?err = "Some (py_or (Some (py_join ''; '' (vf_reasons report))) (py_or (px_error st) ''verification rejected''))"
  obtain c w0 where r: "purchase_release (entry_ops_of bal post g) E (\<lambda>e. le_to_account e = TREASURY \<and> le_from_account e = ESCROW) TREASURY
       ''Orbio purchase reconciliation refund for '' (rec_tx P ''rollback-orbio-rec-'' (pw_op w)) w = (Inr c, w0)"
      and f: "finish_reconciled (env_skip 2 E) ?err (px_reference st) w0 = (Inr a, w1)"
    using 1 unfolding purchase_settle_failure_def by (auto elim!: bind_Inr_elim)
  have "rec_tx P ''rollback-orbio-rec-'' (pw_op w) \<noteq> []" by (simp add: rec_tx_def)
  from release_effect [OF r inv this n2] have "pw_op w0 = pw_op w" "escrow_released bal g (\<lambda>e. le_to_account e = TREASURY \<and> le_from_account e = ESCROW)
      TREASURY (pw_op w) (cs_ledger (pw_cs w)) (cs_ledger (pw_cs w0))" by (simp_all add: TREASURY_def ESCROW_def)
  then show ?thesis using finish_reconciled_Inr [OF f] books_keptD [OF rec_event_books 2] 3 Verification_REJECTED
    by (simp add: purchase_reconciled_def)
qed

lemma reconcile_purchase_books:
  assumes run: "reconcile_purchase (entry_ops_of bal post g) pv P E i w = (Inr out, w')" and rep: "ro_verification out = Some report"
    and inv: "inv (cs_ledger (pw_cs w))" and n1: "\<not> known (cs_ledger (pw_cs w)) (rec_tx P ''tx-orbio-rec-'' (pw_op w))"
    and n2: "\<not> known (cs_ledger (pw_cs w)) (rec_tx P ''rollback-orbio-rec-'' (pw_op w))"
  shows "purchase_reconciled bal g report out w w'"
proof -
  let ?tail = "ask_and_settle (entry_ops_of bal post g) pv P (env_skip 4 E) i (pw_op w)"
  have "act_bind (mark_reconciling P E (compute_purchase_intent_hash P i)) (\<lambda>_. ?tail) w = (Inr out, w')"
    using run rep unfolding reconcile_purchase_def Let_def by (auto split: if_splits)
  then obtain u w1 where mark: "mark_reconciling P E (compute_purchase_intent_hash P i) w = (Inr u, w1)" and tail: "?tail w1 = (Inr out, w')"
    by (rule bind_Inr_elim)
  note w1 = mark_reconciling_Inr [OF mark]
  from tail [unfolded ask_and_settle_def] obtain st w2 where q: "query_status pv w1 = (Inr st, w2)" and tail2: "act_bind (on_verified (verify_execution P (env_skip 4 E) i st (Some (pw_op w)))) (\<lambda>report.
         settle_by_report (entry_ops_of bal post g) P (env_skip 2 (env_skip 4 E)) (compute_purchase_intent_hash P i) st report) w2 = (Inr out, w')"
    by (rule bind_Inr_elim)
  from tail2 obtain rp w3 where v: "on_verified (verify_execution P (env_skip 4 E) i st (Some (pw_op w))) w2 = (Inr rp, w3)"
      and s: "settle_by_report (entry_ops_of bal post g) P (env_skip 2 (env_skip 4 E)) (compute_purchase_intent_hash P i) st rp w3 = (Inr out, w')"
    by (rule bind_Inr_elim)
  have w3: "cs_ledger (pw_cs w3) = cs_ledger (pw_cs w)" "same_identity (pw_op w) (pw_op w3)"
    using w1 books_keptD [OF query_status_books q] books_keptD [OF on_verified_books v] by simp_all
  have tx: "rec_tx P pre (pw_op w3) = rec_tx P pre (pw_op w)" for pre using w3(2) by (simp add: rec_tx_def same_identity_def)
  have rp: "rp = report" using s rep
    by (cases "vf_result rp") (auto simp: settle_by_report_def Let_def act_return_def elim!: bind_Inr_elim)
  have "purchase_reconciled bal g rp out w3 w'"
    using settle_by_report_effect [OF s] inv n1 n2 by (simp add: w3(1) tx)
  then show ?thesis using w3 rp same_identity_trans [OF w3(2)]
    by (cases "vf_result report") (simp_all add: purchase_reconciled_def Let_def escrow_released_identity [OF w3(2)])
qed

end

text \<open>
  C12: the reconciliation of a purchase settles by its verification.  A verified report moves the escrow to EXTERNAL_SINK and a rejected one
  back to TREASURY, by the amount of the operation and only if no entry shows that move and the escrow holds it;
  the operation is then RECONCILED.  Pending evidence leaves the books alone and the operation
  UNKNOWN.  Reconciling the operation again changes nothing.
\<close>

theorem purchase_reconciliation_exact:
  assumes "ledger_inv (cs_ledger (pw_cs w))"
    and "rec_tx P ''tx-orbio-rec-'' (pw_op w) \<notin> lg_recorded_tx_ids (cs_ledger (pw_cs w))"
    and "rec_tx P ''rollback-orbio-rec-'' (pw_op w) \<notin> lg_recorded_tx_ids (cs_ledger (pw_cs w))"
    and "reconcile_purchase mem_entry_ops pv P E i w = (Inr out, w')" "ro_verification out = Some report"
  shows "purchase_reconciled get_balance (\<lambda>L. get_entries L None) report out w w' \<and>
    (vf_result report \<noteq> Verification_PENDING_EVIDENCE \<longrightarrow> snd (reconcile_purchase mem_entry_ops pv2 P E2 j w') = w')"
proof -
  have rec: "purchase_reconciled get_balance (\<lambda>L. get_entries L None) report out w w'"
    using mem_total.reconcile_purchase_books [of "\<lambda>L. get_entries L None" pv P E i w out w' report] assms
    by (simp add: mem_entry_ops_def)
  then have "vf_result report \<noteq> Verification_PENDING_EVIDENCE \<longrightarrow> op_state (pw_op w') = Op_RECONCILED"
    by (cases "vf_result report") (simp_all add: purchase_reconciled_def Let_def)
  then show ?thesis using rec by (auto simp: reconcile_purchase_def Let_def)
qed

section \<open>Verification\<close>

definition evidence_matches ::
  "prims \<Rightarrow> purchase_intent \<Rightarrow> consequential_operation \<Rightarrow> provider_result \<Rightarrow> purchase_evidence \<Rightarrow> bool" where
  "evidence_matches P i op r ev \<longleftrightarrow>
     ev_purchase_intent_hash ev = compute_purchase_intent_hash P i \<and>
     op_tenant_id op = pi_tenant_id i \<and> op_organisation_id op = pi_organisation_id i \<and>
     py_lower (ev_exchange_contract ev) = py_lower (pi_exchange_contract i) \<and>
     py_int (ev_chain_id ev) = Inr (pi_chain_id i) \<and> map_option py_lower (ev_network ev) = Some (py_lower (pi_network i)) \<and>
     ev_usdg_spent ev = pi_usdg_in i \<and> pi_min_credit_out i \<le> ev_credit_out ev \<and>
     py_lower (ev_beneficiary ev) \<in> {py_lower (beneficiary_as_bytes32 i), py_lower (pi_beneficiary i)} \<and>
     ev_provider_reference ev \<noteq> [] \<and> (py_truthy (px_reference r) \<longrightarrow> px_reference r = Some (ev_provider_reference ev))"

lemma extract_evidence_scope:
  "extract_evidence P r (Some op) = Inr (Some ev) \<Longrightarrow>
     ev_tenant_id ev = JStr (op_tenant_id op) \<and> ev_organisation_id ev = JStr (op_organisation_id op)"
  by (auto simp: extract_evidence_def Let_def split: if_splits)

text \<open>The checks of the verifier pass exactly on matching evidence that shows an activation.\<close>

definition shows_activation :: "purchase_evidence \<Rightarrow> bool" where
  "shows_activation ev \<longleftrightarrow> ev_activation_id ev \<noteq> [] \<or> list_ex (\<lambda>e. param_get (as_dict e) ''name'' = JStr ''Activated'' \<and>
     json_truthy (param_get (as_dict e) ''activation_id'')) (ev_events ev)"

lemma checks_pass:
  assumes "extract_evidence P r (Some op) = Inr (Some ev)" "check_scope P i ev = None" "py_int (ev_chain_id ev) = Inr chain"
    and "check_receipt i ev (px_reference r) chain = None"
  shows "evidence_matches P i op r ev \<and> shows_activation ev"
proof -
  have sc: "ev_provider_reference ev \<noteq> []" "ev_purchase_intent_hash ev = compute_purchase_intent_hash P i" "py_truthy (ev_network ev)"
    "ev_tenant_id ev = JNull \<or> ev_tenant_id ev = JStr (pi_tenant_id i)"
    "ev_organisation_id ev = JNull \<or> ev_organisation_id ev = JStr (pi_organisation_id i)"
    "py_lower (ev_exchange_contract ev) = py_lower (pi_exchange_contract i)"
    using assms(2) by (auto simp: check_scope_def split: if_splits)
  have re: "chain = pi_chain_id i" "case ev_network ev of None \<Rightarrow> True | Some n \<Rightarrow> py_lower n = py_lower (pi_network i)"
    "ev_usdg_spent ev = pi_usdg_in i" "pi_min_credit_out i \<le> ev_credit_out ev"
    "py_lower (ev_beneficiary ev) \<in> {py_lower (beneficiary_as_bytes32 i), py_lower (pi_beneficiary i)}"
    "shows_activation ev" "py_truthy (px_reference r) \<longrightarrow> Some (ev_provider_reference ev) = px_reference r"
    using assms(4) unfolding check_receipt_def shows_activation_def by (auto split: if_splits option.splits)
  obtain n where n: "ev_network ev = Some n" using sc(3) by (cases "ev_network ev") simp_all
  show ?thesis using sc re n assms(3) extract_evidence_scope [OF assms(1)] by (auto simp: evidence_matches_def)
qed

text \<open>
  C13: a verified report is about exactly the authorised purchase.  The provider reported success, and the evidence names the hash of the intent, the
  operation's tenant and organisation, the authorised exchange, chain and network, spends exactly \<open>usdg_in\<close>,
  yields at least \<open>min_credit_out\<close> for the authorised beneficiary, and shows an activation; the verifier then knows the
  intent under the provider's reference, and knew it under no other.
\<close>

theorem verified_purchase_matches:
  assumes "verify_execution P E i r (Some op) V = (Inr report, V')" "report_is_verified report"
  shows "px_outcome r = Outcome_SUCCESS \<and> (\<exists>ev. vf_evidence report = Some ev \<and> evidence_matches P i op r ev \<and> shows_activation ev \<and>
     map_of V' (compute_purchase_intent_hash P i) = Some (ev_provider_reference ev) \<and>
     map_of V (compute_purchase_intent_hash P i) \<in> {None, Some (ev_provider_reference ev)})"
proof -
  from assms(1) obtain e where ex: "extract_evidence P r (Some op) = Inr e"
      and run: "verify_evidence P E i e (Some (px_outcome r)) (px_reference r) V = (Inr report, V')"
    unfolding verify_execution_def by (rule bind_Inr_elim) (auto simp: act_lift_def)
  obtain ev where ev: "e = Some ev"
    using run assms(2) by (cases e) (auto simp: verify_evidence_def Let_def report_is_verified_def mk_report_def split: if_splits)
  have out: "px_outcome r = Outcome_SUCCESS"
    using run assms(2) ev by (cases "px_outcome r") (auto simp: verify_evidence_def Let_def report_is_verified_def mk_report_def)
  have "check_scope P i ev = None"
    using run assms(2) ev out by (cases "check_scope P i ev") (auto simp: verify_evidence_def Let_def report_is_verified_def mk_report_def)
  moreover obtain chain where chain: "py_int (ev_chain_id ev) = Inr chain"
    using run ev out calculation by (cases "py_int (ev_chain_id ev)") (auto simp: verify_evidence_def Let_def)
  moreover have "check_receipt i ev (px_reference r) chain = None"
    using run assms(2) ev out calculation
    by (cases "check_receipt i ev (px_reference r) chain") (auto simp: verify_evidence_def Let_def report_is_verified_def mk_report_def)
  ultimately have acc: "accept_evidence P E i ev V = (report, V')" and match: "evidence_matches P i op r ev \<and> shows_activation ev"
    using run ev out checks_pass [of P r op ev i chain] ex by (auto simp: verify_evidence_def Let_def split: prod.splits)
  from acc assms(2) have "vf_evidence report = Some ev" "map_of V' (compute_purchase_intent_hash P i) = Some (ev_provider_reference ev)"
      "map_of V (compute_purchase_intent_hash P i) \<in> {None, Some (ev_provider_reference ev)}"
    by (auto simp: accept_evidence_def Let_def mk_report_def report_is_verified_def update_conv' split: option.splits if_splits)
  then show ?thesis using out match by blast
qed

section \<open>A concrete purchase\<close>

definition demo_acme_intent :: purchase_intent where
  "demo_acme_intent = demo_intent\<lparr>pi_tenant_id := ''acme'', pi_organisation_id := ''org-1''\<rparr>"

definition demo_purchase_op :: consequential_operation where
  "demo_purchase_op = demo_op\<lparr>op_tenant_id := ''acme'', op_organisation_id := ''org-1'', op_state := Op_UNKNOWN,
     op_action_type := ORBIO_CREDIT_PURCHASE, op_parameters :=
       [(''exchange_contract'', JStr ORBIO_EXCHANGE_MAINNET), (''chain_id'', JInt 46630), (''network'', JStr ''robinhood-testnet''),
        (''usdg_in'', JInt 10000000), (''min_credit_out'', JInt 9000000), (''beneficiary'', JStr ORBIO_CREDIT_MAINNET),
        (''purchase_intent_hash'', JStr ''h{}'')]\<rparr>"

definition demo_paid_exchange :: exchange where
  "demo_paid_exchange = snd (exchange_execute demo_prims demo_purchase_op (mk_exchange [(''org-1'', 20000000)] 9800 True))"

definition demo_purchase_world :: "(ledger, exchange) purchase_world" where
  "demo_purchase_world = \<lparr>pw_cs = \<lparr>cs_ledger = demo_locked_ledger, cs_repo = None, cs_tokens = None, cs_events = None,
     cs_provider = demo_paid_exchange, cs_org = demo_org\<rparr>, pw_verified = [], pw_op = demo_purchase_op\<rparr>"

abbreviation demo_reconcile :: "reconcile_outcome result \<times> (ledger, exchange) purchase_world" where
  "demo_reconcile \<equiv> reconcile_purchase mem_entry_ops (exchange_ops demo_prims) demo_prims demo_env demo_acme_intent demo_purchase_world"

lemma demo_reconcile_verifies:
  "case demo_reconcile of (Inr out, w) \<Rightarrow> map_option vf_result (ro_verification out) = Some Verification_VERIFIED | _ \<Rightarrow> False"
  by code_simp

theorem purchase_reconciliation_exact_witness:
  "\<exists>out w. demo_reconcile = (Inr out, w) \<and> get_balance (cs_ledger (pw_cs w)) ESCROW = 0 \<and>
     get_balance (cs_ledger (pw_cs w)) EXTERNAL_SINK = 10"
proof -
  have "\<exists>out w report. demo_reconcile = (Inr out, w) \<and> ro_verification out = Some report \<and> vf_result report = Verification_VERIFIED"
    using demo_reconcile_verifies by (cases demo_reconcile; cases "fst demo_reconcile") auto
  then obtain out w report where run: "demo_reconcile = (Inr out, w)" and rep: "ro_verification out = Some report"
      and ver: "vf_result report = Verification_VERIFIED" by (elim exE conjE)
  have parts: "cs_ledger (pw_cs demo_purchase_world) = demo_locked_ledger" "pw_op demo_purchase_world = demo_purchase_op"
      "op_amount demo_purchase_op = 10" "op_id demo_purchase_op = ''cop-1''"
    by (simp_all add: demo_purchase_world_def demo_purchase_op_def demo_op_def)
  have fresh: "rec_tx demo_prims ''tx-orbio-rec-'' (pw_op demo_purchase_world) \<notin> lg_recorded_tx_ids (cs_ledger (pw_cs demo_purchase_world))"
      "rec_tx demo_prims ''rollback-orbio-rec-'' (pw_op demo_purchase_world) \<notin> lg_recorded_tx_ids (cs_ledger (pw_cs demo_purchase_world))"
    using demo_locked_ok(2) by (simp_all add: parts rec_tx_def)
  have "purchase_reconciled get_balance (\<lambda>L. get_entries L None) report out demo_purchase_world w"
    using purchase_reconciliation_exact [OF _ fresh run rep] demo_locked_ok(1) parts(1) by simp
  then have "escrow_released get_balance (\<lambda>L. get_entries L None) (\<lambda>e. le_to_account e = EXTERNAL_SINK) EXTERNAL_SINK demo_purchase_op
      demo_locked_ledger (cs_ledger (pw_cs w))" using ver by (simp add: purchase_reconciled_def parts)
  then have "escrow_moved get_balance 10 EXTERNAL_SINK demo_locked_ledger (cs_ledger (pw_cs w))"
    using demo_locked_ok(3,5) by (auto simp: escrow_released_def parts seen_before_def split: if_splits)
  then show ?thesis using run demo_locked_ok(3,4) by (auto simp: escrow_moved_def)
qed

definition demo_receipt :: provider_result where
  "demo_receipt = \<lparr>px_outcome = Outcome_SUCCESS, px_reference = Some ''ref'', px_raw =
     [(''purchase_intent_hash'', JStr ''h{}''), (''exchange_contract'', JStr ORBIO_EXCHANGE_MAINNET), (''chain_id'', JInt 46630),
      (''network'', JStr ''Robinhood-testnet''), (''usdg_spent'', JInt 10000000), (''credit_out'', JInt 9800000),
      (''events'', JList [JObj [(''name'', JStr ''Activated''), (''activation_id'', JStr ''act''),
         (''beneficiary'', JStr ORBIO_CREDIT_MAINNET)]])], px_error = None, px_evidence = None\<rparr>"

lemma demo_receipt_verifies:
  "case verify_execution demo_prims demo_env demo_acme_intent demo_receipt (Some demo_purchase_op) [] of
     (Inr report, V) \<Rightarrow> report_is_verified report | _ \<Rightarrow> False"
  by code_simp

theorem verified_purchase_matches_witness:
  "\<exists>report V ev. verify_execution demo_prims demo_env demo_acme_intent demo_receipt (Some demo_purchase_op) [] = (Inr report, V) \<and>
     vf_evidence report = Some ev \<and> ev_usdg_spent ev = 10000000 \<and> map_of V ''h{}'' = Some (ev_provider_reference ev)"
proof -
  let ?v = "verify_execution demo_prims demo_env demo_acme_intent demo_receipt (Some demo_purchase_op) []"
  have "\<exists>report V. ?v = (Inr report, V) \<and> report_is_verified report"
    using demo_receipt_verifies by (cases ?v; cases "fst ?v") auto
  then obtain report V where run: "?v = (Inr report, V)" "report_is_verified report" by (elim exE conjE)
  have ih: "compute_purchase_intent_hash demo_prims demo_acme_intent = ''h{}''" "pi_usdg_in demo_acme_intent = 10000000"
    by (simp_all add: compute_purchase_intent_hash_def demo_prims_def demo_acme_intent_def demo_intent_def)
  show ?thesis using verified_purchase_matches [OF run] run(1) by (auto simp: ih evidence_matches_def)
qed

end
