(* ===== verification/PurchaseLoop.thy ===== *)
theory PurchaseLoop
  imports PurchaseSettle
begin

text \<open>
  The governed loop that buys credits for a mission (\<open>src/agents/orbio_purchase_loop.py\<close>): observe, propose within the
  bounds, ask the policy, wait for a human, execute, verify, reconcile.  The loop and its reconciler
  share the ledger, the provider and the verifier, as \<open>src/api/server.py\<close> builds them.
\<close>

section \<open>State\<close>

datatype loop_status =
  Loop_READY | Loop_WAITING_HUMAN | Loop_WAITING_RECONCILE | Loop_OBJECTIVE_COMPLETE | Loop_STOPPED_POLICY_DENY
  | Loop_STOPPED_SPEND_LIMIT | Loop_STOPPED_ITERATION_LIMIT | Loop_STOPPED_FAILURE | Loop_STOPPED_UNKNOWN
  | Loop_STOPPED_CROSS_TENANT

fun loop_status_value :: "loop_status \<Rightarrow> string" where
  "loop_status_value Loop_READY = ''READY''"
| "loop_status_value Loop_WAITING_HUMAN = ''WAITING_HUMAN''"
| "loop_status_value Loop_WAITING_RECONCILE = ''WAITING_RECONCILE''"
| "loop_status_value Loop_OBJECTIVE_COMPLETE = ''OBJECTIVE_COMPLETE''"
| "loop_status_value Loop_STOPPED_POLICY_DENY = ''STOPPED_POLICY_DENY''"
| "loop_status_value Loop_STOPPED_SPEND_LIMIT = ''STOPPED_SPEND_LIMIT''"
| "loop_status_value Loop_STOPPED_ITERATION_LIMIT = ''STOPPED_ITERATION_LIMIT''"
| "loop_status_value Loop_STOPPED_FAILURE = ''STOPPED_FAILURE''"
| "loop_status_value Loop_STOPPED_UNKNOWN = ''STOPPED_UNKNOWN''"
| "loop_status_value Loop_STOPPED_CROSS_TENANT = ''STOPPED_CROSS_TENANT''"

record loop_state =
  al_agent_id :: string
  al_tenant_id :: string
  al_organisation_id :: string
  al_mission_id :: string
  al_objective :: string
  al_target_credit :: int
  al_acquired_credit :: int
  al_activation_confirmed :: bool
  al_cumulative_usdg_spent :: int
  al_loop_iteration :: int
  al_status :: loop_status
  al_last_intent_hash :: "string option"
  al_last_verification_result :: "string option"
  al_completed_intent_hashes :: "string list"
  al_pending_operation_id :: "string option"
  al_reasons :: "string list"
  al_updated_at :: string

definition new_loop_state ::
  "env \<Rightarrow> string \<Rightarrow> string \<Rightarrow> string \<Rightarrow> string \<Rightarrow> string \<Rightarrow> int \<Rightarrow> loop_state" where
  "new_loop_state E agent tid oid mission objective target = \<lparr>al_agent_id = agent, al_tenant_id = tid,
     al_organisation_id = oid, al_mission_id = mission, al_objective = objective, al_target_credit = target,
     al_acquired_credit = 0, al_activation_confirmed = False, al_cumulative_usdg_spent = 0, al_loop_iteration = 0,
     al_status = Loop_READY, al_last_intent_hash = None, al_last_verification_result = None,
     al_completed_intent_hashes = [], al_pending_operation_id = None, al_reasons = [], al_updated_at = e_now E 0\<rparr>"

definition objective_met :: "loop_state \<Rightarrow> bool" where
  "objective_met a \<longleftrightarrow> al_acquired_credit a \<ge> al_target_credit a \<and> al_activation_confirmed a"

definition loop_audit :: "loop_state \<Rightarrow> json" where
  "loop_audit a = JObj
     [(''agent_id'', JStr (al_agent_id a)), (''tenant_id'', JStr (al_tenant_id a)),
      (''organisation_id'', JStr (al_organisation_id a)), (''mission_id'', JStr (al_mission_id a)),
      (''objective'', JStr (al_objective a)), (''target_credit'', JInt (al_target_credit a)),
      (''acquired_credit'', JInt (al_acquired_credit a)), (''activation_confirmed'', JBool (al_activation_confirmed a)),
      (''cumulative_usdg_spent'', JInt (al_cumulative_usdg_spent a)), (''loop_iteration'', JInt (al_loop_iteration a)),
      (''status'', JStr (loop_status_value (al_status a))), (''last_intent_hash'', opt_json (al_last_intent_hash a)),
      (''last_verification_result'', opt_json (al_last_verification_result a)),
      (''completed_intent_hashes'', JList (map JStr (al_completed_intent_hashes a))),
      (''pending_operation_id'', opt_json (al_pending_operation_id a)), (''reasons'', JList (map JStr (al_reasons a))),
      (''updated_at'', JStr (al_updated_at a))]"

record agent_proposal =
  ap_agent_id :: string
  ap_tenant_id :: string
  ap_organisation_id :: string
  ap_mission_id :: string
  ap_operation_id :: string
  ap_intent :: purchase_intent
  ap_reason :: string
  ap_expected_outcome :: string

text \<open>What a step returns, besides the state it leaves.\<close>

record loop_result =
  lr_status :: loop_status
  lr_proposal :: "agent_proposal option"
  lr_preparation :: "purchase_preparation option"
  lr_operation :: "consequential_operation option"
  lr_execution :: "provider_result option"
  lr_verification :: "string option"
  lr_message :: string

text \<open>The arguments of the constructor that never change, and the objects the loop holds.\<close>

record loop_config =
  lc_has_ledger :: bool
  lc_has_reconciler :: bool
  lc_max_iterations :: int
  lc_max_cumulative_usdg :: int
  lc_max_single_usdg :: int
  lc_default_beneficiary :: string
  lc_chain_id :: int
  lc_network :: string
  lc_expected_fill_rate_bps :: int

record ('l, 'p) loop_world =
  lw_cs :: "('l, 'p) cons_state"
  lw_verified :: verified_map
  lw_state :: loop_state
  lw_policy :: purchase_policy
  lw_approval :: "human_approval option"
  lw_intent :: "purchase_intent option"
  lw_pending :: "consequential_operation option"

type_synonym ('l, 'p, 'a) loop_act = "(('l, 'p) loop_world, 'a) act"

definition loop_on_cs :: "(('l, 'p) cons_state, 'a) act \<Rightarrow> ('l, 'p, 'a) loop_act" where
  "loop_on_cs f w = (case f (lw_cs w) of (r, s) \<Rightarrow> (r, w\<lparr>lw_cs := s\<rparr>))"

definition loop_on_verified :: "(verified_map, 'a) act \<Rightarrow> ('l, 'p, 'a) loop_act" where
  "loop_on_verified f w = (case f (lw_verified w) of (r, V) \<Rightarrow> (r, w\<lparr>lw_verified := V\<rparr>))"

definition upd_state :: "(loop_state \<Rightarrow> loop_state) \<Rightarrow> ('l, 'p, unit) loop_act" where
  "upd_state f w = (Inr (), w\<lparr>lw_state := f (lw_state w)\<rparr>)"

definition set_status :: "loop_status \<Rightarrow> ('l, 'p, unit) loop_act" where
  "set_status st = upd_state (al_status_update (\<lambda>_. st))"

definition touch :: "env \<Rightarrow> string \<Rightarrow> ('l, 'p, unit) loop_act" where
  "touch E reason = upd_state (\<lambda>a. a\<lparr>al_reasons := al_reasons a @ [reason], al_updated_at := e_now E 0\<rparr>)"

definition plain_result :: "loop_status \<Rightarrow> string \<Rightarrow> loop_result" where
  "plain_result st msg = \<lparr>lr_status = st, lr_proposal = None, lr_preparation = None, lr_operation = None,
     lr_execution = None, lr_verification = None, lr_message = msg\<rparr>"

section \<open>Observe and propose\<close>

definition credit_still_needed :: "loop_state \<Rightarrow> int" where
  "credit_still_needed a = max 0 (al_target_credit a - al_acquired_credit a)"

definition observe :: "loop_state \<Rightarrow> json" where
  "observe a = JObj
     [(''agent_id'', JStr (al_agent_id a)), (''objective'', JStr (al_objective a)),
      (''target_credit'', JInt (al_target_credit a)), (''acquired_credit'', JInt (al_acquired_credit a)),
      (''credit_still_needed'', JInt (credit_still_needed a)), (''activation_confirmed'', JBool (al_activation_confirmed a)),
      (''status'', JStr (loop_status_value (al_status a))), (''loop_iteration'', JInt (al_loop_iteration a)),
      (''cumulative_usdg_spent'', JInt (al_cumulative_usdg_spent a)), (''objective_met'', JBool (objective_met a))]"

definition usdg_for_credit_need :: "loop_config \<Rightarrow> int \<Rightarrow> int" where
  "usdg_for_credit_need C need = (if need \<le> 0 then 0
     else let bps = max 1 (lc_expected_fill_rate_bps C) in (need * 10000 + bps - 1) div bps)"

definition clamp_usdg :: "loop_config \<Rightarrow> loop_state \<Rightarrow> int \<Rightarrow> int" where
  "clamp_usdg C a usdg = (let single = (if usdg > lc_max_single_usdg C then lc_max_single_usdg C else usdg);
       remaining = lc_max_cumulative_usdg C - al_cumulative_usdg_spent a
     in if single > remaining then max 0 remaining else single)"

definition loop_intent ::
  "prims \<Rightarrow> env \<Rightarrow> loop_config \<Rightarrow> loop_state \<Rightarrow> int \<Rightarrow> int \<Rightarrow> int \<Rightarrow> purchase_intent" where
  "loop_intent P E C a usdg min_out credits =
     (let n = str_int P (al_loop_iteration a + 1); oid = ''cop-loop-'' @ al_agent_id a @ ''-'' @ n in
      \<lparr>pi_tenant_id = al_tenant_id a, pi_organisation_id = al_organisation_id a, pi_mission_id = Some (al_mission_id a),
       pi_operation_id = oid, pi_chain_id = lc_chain_id C, pi_network = lc_network C,
       pi_exchange_contract = ORBIO_EXCHANGE_MAINNET, pi_payment_token = USDG_MAINNET,
       pi_credit_token = ORBIO_CREDIT_MAINNET, pi_usdg_in = usdg, pi_min_credit_out = min_out,
       pi_beneficiary = lc_default_beneficiary C, pi_max_fills = 5, pi_max_fee_per_gas = 25000000000,
       pi_max_priority_fee_per_gas = 1500000000, pi_gas_limit = 350000,
       pi_amount_credits = (if credits \<noteq> 0 then credits else max 1 (usdg div 1000000)),
       pi_idempotency_key = al_organisation_id a @ '':'' @ al_mission_id a @ '':'' @ oid,
       pi_policy_decision_id = ''dec-loop-'' @ n, pi_authorization_token_hash = ''tok-loop-'' @ al_agent_id a,
       pi_deadline = None, pi_created_at = e_now E 0\<rparr>)"

definition proposal_for :: "loop_state \<Rightarrow> purchase_intent \<Rightarrow> string \<Rightarrow> string \<Rightarrow> agent_proposal" where
  "proposal_for a i reason expected = \<lparr>ap_agent_id = al_agent_id a, ap_tenant_id = al_tenant_id a,
     ap_organisation_id = al_organisation_id a, ap_mission_id = al_mission_id a, ap_operation_id = pi_operation_id i,
     ap_intent = i, ap_reason = reason, ap_expected_outcome = expected\<rparr>"

definition propose_purchase ::
  "prims \<Rightarrow> env \<Rightarrow> loop_config \<Rightarrow> int \<Rightarrow> int \<Rightarrow> int \<Rightarrow> string \<Rightarrow> ('l, 'p, agent_proposal) loop_act" where
  "propose_purchase P E C usdg min_out credits reason w =
     (let a = lw_state w; g = cs_org (lw_cs w) in
      if al_tenant_id a \<noteq> og_tenant_id g \<or> al_organisation_id a \<noteq> og_id g
      then (raise PermissionError ''Agent tenant/org does not match organisation context'',
            snd (set_status Loop_STOPPED_CROSS_TENANT w))
      else case mk_purchase_intent (loop_intent P E C a (clamp_usdg C a usdg) min_out credits) of
        Inl x \<Rightarrow> (Inl x, w)
      | Inr i \<Rightarrow> (Inr (proposal_for a i reason ''Activate CREDIT toward target''), w))"

definition supply_human_approval :: "human_approval \<Rightarrow> ('l, 'p) loop_world \<Rightarrow> ('l, 'p) loop_world" where
  "supply_human_approval a w = w\<lparr>lw_approval := Some a\<rparr>"

section \<open>Execution of an authorised purchase\<close>

definition loop_transfer ::
  "'l entry_ops \<Rightarrow> env \<Rightarrow> consequential_operation \<Rightarrow> string \<Rightarrow> string \<Rightarrow> string \<Rightarrow> string \<Rightarrow> ('l, 'p, unit) loop_act" where
  "loop_transfer ops E op f t memo pre =
     loop_on_cs (cons_move ops E f t (op_amount op) (memo @ op_id op) (pre @ op_id op))"

text \<open>The escrow of the operation moves if a ledger is configured and holds it.\<close>

definition loop_release ::
  "loop_config \<Rightarrow> 'l entry_ops \<Rightarrow> env \<Rightarrow> consequential_operation \<Rightarrow> string \<Rightarrow> string \<Rightarrow> string \<Rightarrow> bool \<Rightarrow> ('l, 'p, unit) loop_act"
where
  "loop_release C ops E op dest memo pre refresh w =
     (if lc_has_ledger C \<and> op_amount op > 0 \<and> lo_get_balance ops (cs_ledger (lw_cs w)) ESCROW \<ge> op_amount op
      then act_bind (loop_transfer ops E op ESCROW dest memo pre)
        (\<lambda>_. if refresh then loop_on_cs (refresh_treasury ops) else act_return ()) w
      else (Inr (), w))"

definition moved_to :: "env \<Rightarrow> consequential_operation \<Rightarrow> operation_state \<Rightarrow> string option \<Rightarrow> string option \<Rightarrow>
    ('l, 'p, consequential_operation) loop_act" where
  "moved_to E op new err ref = act_lift (transition_to (e_now E 0) op new err ref)"

definition step_result ::
  "loop_status \<Rightarrow> agent_proposal \<Rightarrow> purchase_preparation \<Rightarrow> consequential_operation \<Rightarrow> provider_result option \<Rightarrow>
     string option \<Rightarrow> string \<Rightarrow> loop_result" where
  "step_result st pr n op r ver msg = \<lparr>lr_status = st, lr_proposal = Some pr, lr_preparation = Some n,
     lr_operation = Some op, lr_execution = r, lr_verification = ver, lr_message = msg\<rparr>"

text \<open>The escrow goes back to the treasury and the loop stops.\<close>

definition stop_after_failure ::
  "env \<Rightarrow> agent_proposal \<Rightarrow> purchase_preparation \<Rightarrow> consequential_operation \<Rightarrow> provider_result \<Rightarrow> string \<Rightarrow>
     string option \<Rightarrow> ('l, 'p, loop_result) loop_act" where
  "stop_after_failure E pr n op r msg ver =
     act_bind (set_status Loop_STOPPED_FAILURE) (\<lambda>_. act_bind (touch E msg) (\<lambda>_ w.
       (Inr (step_result Loop_STOPPED_FAILURE pr n op (Some r) ver msg), w\<lparr>lw_approval := None\<rparr>)))"

definition stop_failed ::
  "loop_config \<Rightarrow> 'l entry_ops \<Rightarrow> env \<Rightarrow> agent_proposal \<Rightarrow> purchase_preparation \<Rightarrow> consequential_operation \<Rightarrow>
     provider_result \<Rightarrow> string \<Rightarrow> string \<Rightarrow> string option \<Rightarrow> string \<Rightarrow> string option \<Rightarrow> ('l, 'p, loop_result) loop_act" where
  "stop_failed C ops E pr n op r memo pre err msg ver =
     act_bind (loop_release C ops E op TREASURY memo pre False) (\<lambda>_.
     act_bind (moved_to (env_skip 2 E) op Op_FAILED err None) (\<lambda>op'.
       stop_after_failure (env_skip 3 E) pr n op' r msg ver))"

definition await_reconcile ::
  "env \<Rightarrow> agent_proposal \<Rightarrow> purchase_preparation \<Rightarrow> consequential_operation \<Rightarrow> provider_result \<Rightarrow> ('l, 'p, loop_result) loop_act"
where
  "await_reconcile E pr n op r =
     act_bind (moved_to E op Op_UNKNOWN (Some ''timeout'') None) (\<lambda>op'.
     act_bind (\<lambda>w. (Inr (), w\<lparr>lw_pending := Some op', lw_intent := Some (ap_intent pr)\<rparr>)) (\<lambda>_.
     act_bind (upd_state (\<lambda>a. a\<lparr>al_pending_operation_id := Some (op_id op'), al_status := Loop_WAITING_RECONCILE\<rparr>)) (\<lambda>_.
     act_bind (touch (env_skip 1 E) ''Execution UNKNOWN; must reconcile before next purchase'') (\<lambda>_.
       act_return (step_result Loop_WAITING_RECONCILE pr n op' (Some r) None ''UNKNOWN - blocked until reconciliation'')))))"

text \<open>A verified purchase is counted.\<close>

definition book_purchase :: "prims \<Rightarrow> purchase_intent \<Rightarrow> int \<Rightarrow> int \<Rightarrow> loop_state \<Rightarrow> loop_state" where
  "book_purchase P i credit usdg a = a\<lparr>al_acquired_credit := al_acquired_credit a + credit,
     al_cumulative_usdg_spent := al_cumulative_usdg_spent a + usdg, al_activation_confirmed := True,
     al_completed_intent_hashes := al_completed_intent_hashes a @ [compute_purchase_intent_hash P i]\<rparr>"

definition evidence_amounts :: "verification_report \<Rightarrow> int \<Rightarrow> int \<times> int" where
  "evidence_amounts report assumed = (case vf_evidence report of None \<Rightarrow> (0, assumed)
     | Some ev \<Rightarrow> (ev_credit_out ev, ev_usdg_spent ev))"

definition conclude_purchase ::
  "prims \<Rightarrow> env \<Rightarrow> agent_proposal \<Rightarrow> purchase_preparation \<Rightarrow> consequential_operation \<Rightarrow> provider_result \<Rightarrow>
     verification_report \<Rightarrow> ('l, 'p, loop_result) loop_act" where
  "conclude_purchase P E pr n op r report =
     act_bind (case evidence_amounts report (pi_usdg_in (ap_intent pr)) of (credit, usdg) \<Rightarrow>
       upd_state (book_purchase P (ap_intent pr) credit usdg)) (\<lambda>_.
     act_bind (\<lambda>w. (Inr (), w\<lparr>lw_approval := None, lw_intent := None, lw_pending := None\<rparr>)) (\<lambda>_ w.
       let met = objective_met (lw_state w); st = (if met then Loop_OBJECTIVE_COMPLETE else Loop_READY) in
       act_bind (set_status st) (\<lambda>_.
       act_bind (touch E (if met then ''Objective met after verified purchase'' else ''Verified purchase; objective still open'')) (\<lambda>_.
         act_return (step_result st pr n op (Some r) (Some (verification_value (vf_result report)))
           (if met then ''Objective complete after verified activation'' else ''Verified; may propose again if still needed'')))) w))"

definition settle_verified ::
  "loop_config \<Rightarrow> 'l entry_ops \<Rightarrow> prims \<Rightarrow> env \<Rightarrow> agent_proposal \<Rightarrow> purchase_preparation \<Rightarrow> consequential_operation \<Rightarrow>
     provider_result \<Rightarrow> verification_report \<Rightarrow> ('l, 'p, loop_result) loop_act" where
  "settle_verified C ops P E pr n op r report =
     act_bind (loop_release C ops E op EXTERNAL_SINK ''Settlement for verified operation '' ''set-loop-'' True) (\<lambda>_.
     act_bind (moved_to (env_skip 2 E) op Op_SUCCEEDED None (px_reference r)) (\<lambda>op'.
       conclude_purchase P (env_skip 3 E) pr n op' r report))"

definition decide_report ::
  "loop_config \<Rightarrow> 'l entry_ops \<Rightarrow> prims \<Rightarrow> env \<Rightarrow> agent_proposal \<Rightarrow> purchase_preparation \<Rightarrow>
     consequential_operation \<Rightarrow> provider_result \<Rightarrow> verification_report \<Rightarrow> ('l, 'p, loop_result) loop_act" where
  "decide_report C ops P E pr n op r report =
     (if \<not> report_is_verified report
      then stop_failed C ops E pr n op r ''Escrow refund for rejected verification '' ''ref-ver-''
        (Some ''Verification rejected'') ''Verification rejected'' (Some (verification_value (vf_result report)))
      else settle_verified C ops P E pr n op r report)"

definition note_verification :: "verification_report \<Rightarrow> ('l, 'p, unit) loop_act" where
  "note_verification report =
     upd_state (al_last_verification_result_update (\<lambda>_. Some (verification_value (vf_result report))))"

definition after_execution ::
  "loop_config \<Rightarrow> 'l entry_ops \<Rightarrow> prims \<Rightarrow> env \<Rightarrow> agent_proposal \<Rightarrow> purchase_preparation \<Rightarrow>
     consequential_operation \<Rightarrow> provider_result \<Rightarrow> ('l, 'p, loop_result) loop_act" where
  "after_execution C ops P E pr n op r =
     (if px_outcome r = Outcome_TIMEOUT then await_reconcile E pr n op r
      else if px_outcome r \<noteq> Outcome_SUCCESS
      then stop_failed C ops E pr n op r ''Escrow refund for failed operation '' ''ref-loop-'' (px_error r) ''Execution failed'' None
      else act_bind (loop_on_verified (verify_execution P E (ap_intent pr) r (Some op))) (\<lambda>report.
        act_bind (note_verification report) (\<lambda>_. decide_report C ops P (env_skip 2 E) pr n op r report)))"

definition execute_submitted ::
  "loop_config \<Rightarrow> 'l entry_ops \<Rightarrow> 'p provider_ops \<Rightarrow> prims \<Rightarrow> env \<Rightarrow> agent_proposal \<Rightarrow> purchase_preparation \<Rightarrow>
     consequential_operation \<Rightarrow> ('l, 'p, loop_result) loop_act" where
  "execute_submitted C ops pv P E pr n op =
     act_bind (loop_on_cs (call_provider (po_execute pv op))) (after_execution C ops P E pr n op)"

text \<open>AUTHORIZED, ESCROWED, SUBMITTED.\<close>

definition submit_purchase ::
  "loop_config \<Rightarrow> 'l entry_ops \<Rightarrow> 'p provider_ops \<Rightarrow> prims \<Rightarrow> env \<Rightarrow> agent_proposal \<Rightarrow> purchase_preparation \<Rightarrow>
     consequential_operation \<Rightarrow> ('l, 'p, loop_result) loop_act" where
  "submit_purchase C ops pv P E pr n op =
     act_bind (moved_to E op Op_AUTHORIZED None None) (\<lambda>op1.
     act_bind (moved_to (env_skip 1 E) op1 Op_ESCROWED None None) (\<lambda>op2.
     act_bind (moved_to (env_skip 2 E) op2 Op_SUBMITTED None None) (\<lambda>op3.
       execute_submitted C ops pv P (env_skip 3 E) pr n op3)))"

definition loop_provider_name :: "'p provider_ops \<Rightarrow> string" where
  "loop_provider_name pv = py_or (Some (po_name pv)) ''orbio-exchange-simulated''"

definition execute_authorized ::
  "loop_config \<Rightarrow> 'l entry_ops \<Rightarrow> 'p provider_ops \<Rightarrow> prims \<Rightarrow> env \<Rightarrow> agent_proposal \<Rightarrow> purchase_preparation \<Rightarrow>
     ('l, 'p, loop_result) loop_act" where
  "execute_authorized C ops pv P E pr n w =
     act_bind (act_lift (create_operation_from_preparation E n (cs_org (lw_cs w)) None None (loop_provider_name pv) None)) (\<lambda>op w.
       if lc_has_ledger C \<and> op_amount op > 0
       then if lo_get_balance ops (cs_ledger (lw_cs w)) TREASURY < op_amount op
         then act_bind (moved_to (env_skip 2 E) op Op_FAILED (Some ''Insufficient treasury balance'') None) (\<lambda>op'.
           act_bind (set_status Loop_STOPPED_SPEND_LIMIT) (\<lambda>_.
           act_bind (touch (env_skip 3 E) ''Insufficient treasury balance for escrow'') (\<lambda>_.
           act_return (step_result Loop_STOPPED_SPEND_LIMIT pr n op' None None ''Insufficient treasury balance for escrow'')))) w
         else act_bind (loop_transfer ops (env_skip 2 E) op TREASURY ESCROW ''Escrow for loop operation '' ''esc-loop-'') (\<lambda>_.
           submit_purchase C ops pv P (env_skip 4 E) pr n op) w
       else submit_purchase C ops pv P (env_skip 4 E) pr n op w) w"

section \<open>A step\<close>

definition stop_with :: "env \<Rightarrow> loop_status \<Rightarrow> string option \<Rightarrow> string \<Rightarrow> ('l, 'p, loop_result) loop_act" where
  "stop_with E st reason msg = act_bind (set_status st) (\<lambda>_.
     act_bind (case reason of None \<Rightarrow> act_return () | Some m \<Rightarrow> touch E m) (\<lambda>_. act_return (plain_result st msg)))"

definition handle_waiting_human ::
  "loop_config \<Rightarrow> 'l entry_ops \<Rightarrow> 'p provider_ops \<Rightarrow> prims \<Rightarrow> abi \<Rightarrow> env \<Rightarrow> rat \<Rightarrow> ('l, 'p, loop_result) loop_act" where
  "handle_waiting_human C ops pv P abi E now w =
     (case lw_intent w of
        None \<Rightarrow> stop_with E Loop_STOPPED_FAILURE None ''Missing pending intent'' w
      | Some i \<Rightarrow> if lw_approval w = None
          then (Inr (plain_result Loop_WAITING_HUMAN ''Still waiting for human approval''), w)
          else (case bridge_prepare P abi E now (lw_policy w) i (lw_approval w) of
              Inl x \<Rightarrow> (Inl x, w)
            | Inr n \<Rightarrow> if \<not> is_authorized n
                then act_bind (set_status Loop_WAITING_HUMAN) (\<lambda>_.
                  act_bind (\<lambda>w. (Inr (), w\<lparr>lw_approval := None\<rparr>)) (\<lambda>_.
                  act_bind (touch (env_skip 1 E) ''Approval invalid for pending intent; still waiting'') (\<lambda>_.
                  act_return ((plain_result Loop_WAITING_HUMAN ''Approval does not match pending intent'')\<lparr>lr_preparation := Some n\<rparr>)))) w
                else act_bind (set_status Loop_READY) (\<lambda>_.
                  execute_authorized C ops pv P (env_skip 2 E)
                    (proposal_for (lw_state w) i ''Resuming after human approval'' ''Activate CREDIT after human approval'') n) w))"

text \<open>The reconciler works on the pending operation object.\<close>

definition reconcile_pending ::
  "'l entry_ops \<Rightarrow> 'p provider_ops \<Rightarrow> prims \<Rightarrow> env \<Rightarrow> purchase_intent \<Rightarrow> consequential_operation \<Rightarrow>
     ('l, 'p, reconcile_outcome) loop_act" where
  "reconcile_pending ops pv P E i op w =
     (case reconcile_purchase ops pv P E i \<lparr>pw_cs = lw_cs w, pw_verified = lw_verified w, pw_op = op\<rparr> of (r, x) \<Rightarrow>
        (r, w\<lparr>lw_cs := pw_cs x, lw_verified := pw_verified x, lw_pending := Some (pw_op x)\<rparr>))"

definition reconcile_result :: "loop_status \<Rightarrow> consequential_operation option \<Rightarrow> verification_report \<Rightarrow> string \<Rightarrow> loop_result" where
  "reconcile_result st op report msg = (plain_result st msg)\<lparr>lr_operation := op,
     lr_verification := Some (verification_value (vf_result report))\<rparr>"

definition after_reconcile ::
  "prims \<Rightarrow> env \<Rightarrow> purchase_intent \<Rightarrow> verification_report \<Rightarrow> ('l, 'p, loop_result) loop_act" where
  "after_reconcile P E i report w0 =
     (let op = lw_pending w0 in
      act_bind (note_verification report) (\<lambda>_.
      case vf_result report of
        Verification_PENDING_EVIDENCE \<Rightarrow>
          act_bind (set_status Loop_WAITING_RECONCILE) (\<lambda>_.
          act_bind (touch E ''Still UNKNOWN after reconcile attempt'') (\<lambda>_.
          act_return (reconcile_result Loop_WAITING_RECONCILE op report ''Still pending evidence'')))
      | Verification_REJECTED \<Rightarrow>
          act_bind (set_status Loop_STOPPED_FAILURE) (\<lambda>_.
          act_bind (\<lambda>w. (Inr (), w\<lparr>lw_pending := None, lw_intent := None\<rparr>)) (\<lambda>_.
          act_bind (touch E ''Reconciliation rejected evidence'') (\<lambda>_.
          act_return (reconcile_result Loop_STOPPED_FAILURE op report ''Reconciliation rejected''))))
      | Verification_VERIFIED \<Rightarrow>
          act_bind (case evidence_amounts report 0 of (credit, usdg) \<Rightarrow> upd_state (book_purchase P i credit usdg)) (\<lambda>_.
          act_bind (\<lambda>w. (Inr (), w\<lparr>lw_pending := None, lw_intent := None\<rparr>)) (\<lambda>_.
          act_bind (upd_state (al_pending_operation_id_update (\<lambda>_. None))) (\<lambda>_ w.
            let met = objective_met (lw_state w); st = (if met then Loop_OBJECTIVE_COMPLETE else Loop_READY);
                msg = (if met then ''Objective complete after reconciliation'' else ''Reconciled success; loop may continue'') in
            act_bind (set_status st) (\<lambda>_. act_bind (touch E msg) (\<lambda>_. act_return (reconcile_result st op report msg))) w)))) w0)"

definition handle_reconcile ::
  "loop_config \<Rightarrow> 'l entry_ops \<Rightarrow> 'p provider_ops \<Rightarrow> prims \<Rightarrow> env \<Rightarrow> ('l, 'p, loop_result) loop_act" where
  "handle_reconcile C ops pv P E w =
     (case (lc_has_reconciler C, lw_pending w, lw_intent w) of
        (True, Some op, Some i) \<Rightarrow> act_bind (reconcile_pending ops pv P E i op) (\<lambda>out.
          case ro_verification out of
            None \<Rightarrow> stop_with E Loop_STOPPED_UNKNOWN None ''No verification on reconcile''
          | Some report \<Rightarrow> after_reconcile P (env_skip 12 E) i report) w
      | _ \<Rightarrow> stop_with E Loop_STOPPED_UNKNOWN (Some ''UNKNOWN unresolved and no reconciler'') ''Cannot reconcile'' w)"

text \<open>The decision of the policy on a fresh proposal.\<close>

definition submit_proposal ::
  "loop_config \<Rightarrow> 'l entry_ops \<Rightarrow> 'p provider_ops \<Rightarrow> prims \<Rightarrow> abi \<Rightarrow> env \<Rightarrow> rat \<Rightarrow> agent_proposal \<Rightarrow> ('l, 'p, loop_result) loop_act"
where
  "submit_proposal C ops pv P abi E now pr w =
     (case bridge_prepare P abi E now (lw_policy w) (ap_intent pr) (lw_approval w) of
        Inl x \<Rightarrow> (Inl x, w)
      | Inr n \<Rightarrow> (case qd_result (pn_decision n) of
            Purchase_HUMAN_CONFIRMATION_REQUIRED \<Rightarrow>
              act_bind (set_status Loop_WAITING_HUMAN) (\<lambda>_.
              act_bind (\<lambda>w. (Inr (), w\<lparr>lw_intent := Some (ap_intent pr)\<rparr>)) (\<lambda>_.
              act_bind (touch (env_skip 1 E) ''Human confirmation required'') (\<lambda>_.
              act_return ((plain_result Loop_WAITING_HUMAN ''Human confirmation required; agent must wait'')
                \<lparr>lr_proposal := Some pr, lr_preparation := Some n\<rparr>)))) w
          | Purchase_DENY \<Rightarrow>
              act_bind (set_status Loop_STOPPED_POLICY_DENY) (\<lambda>_.
              act_bind (touch (env_skip 1 E) ''Policy denied'') (\<lambda>_.
              act_return ((plain_result Loop_STOPPED_POLICY_DENY ''Policy denied'')
                \<lparr>lr_proposal := Some pr, lr_preparation := Some n\<rparr>))) w
          | Purchase_ALLOW \<Rightarrow> execute_authorized C ops pv P (env_skip 2 E) pr n w))"

definition propose_and_submit ::
  "loop_config \<Rightarrow> 'l entry_ops \<Rightarrow> 'p provider_ops \<Rightarrow> prims \<Rightarrow> abi \<Rightarrow> env \<Rightarrow> rat \<Rightarrow> int \<Rightarrow> ('l, 'p, loop_result) loop_act" where
  "propose_and_submit C ops pv P abi E now usdg =
     act_bind (propose_purchase P E C usdg (max 1 ((usdg * 90) div 100)) (max 1 (usdg div 1000000))
       ''Need CREDIT for mission; proposing bounded purchase'') (\<lambda>pr w.
     let ih = compute_purchase_intent_hash P (ap_intent pr) in
     if ih \<in> set (al_completed_intent_hashes (lw_state w))
     then act_bind (stop_with E Loop_OBJECTIVE_COMPLETE (Some ''Duplicate objective intent already completed'') ''Duplicate intent blocked'')
       (\<lambda>r. act_return (r\<lparr>lr_proposal := Some pr\<rparr>)) w
     else act_bind (upd_state (\<lambda>a. a\<lparr>al_loop_iteration := al_loop_iteration a + 1, al_last_intent_hash := Some ih\<rparr>)) (\<lambda>_.
       submit_proposal C ops pv P abi (env_skip 1 E) now pr) w)"

definition loop_ready_step ::
  "loop_config \<Rightarrow> 'l entry_ops \<Rightarrow> 'p provider_ops \<Rightarrow> prims \<Rightarrow> abi \<Rightarrow> env \<Rightarrow> rat \<Rightarrow> ('l, 'p, loop_result) loop_act" where
  "loop_ready_step C ops pv P abi E now w =
     (let a = lw_state w; need = credit_still_needed a;
          usdg = min (usdg_for_credit_need C need)
            (min (lc_max_single_usdg C) (lc_max_cumulative_usdg C - al_cumulative_usdg_spent a)) in
      if al_loop_iteration a \<ge> lc_max_iterations C
      then stop_with E Loop_STOPPED_ITERATION_LIMIT (Some ''Iteration limit reached'') ''Max iterations'' w
      else if al_cumulative_usdg_spent a \<ge> lc_max_cumulative_usdg C
      then stop_with E Loop_STOPPED_SPEND_LIMIT (Some ''Cumulative spend limit reached'') ''Spend limit'' w
      else if need \<le> 0 then stop_with E Loop_OBJECTIVE_COMPLETE (Some ''No credit needed'') ''No credit needed'' w
      else if usdg \<le> 0 then stop_with E Loop_STOPPED_SPEND_LIMIT None ''No remaining budget'' w
      else propose_and_submit C ops pv P abi E now usdg w)"

definition loop_step ::
  "loop_config \<Rightarrow> 'l entry_ops \<Rightarrow> 'p provider_ops \<Rightarrow> prims \<Rightarrow> abi \<Rightarrow> env \<Rightarrow> rat \<Rightarrow> ('l, 'p, loop_result) loop_act" where
  "loop_step C ops pv P abi E now w =
     (if objective_met (lw_state w)
      then stop_with E Loop_OBJECTIVE_COMPLETE (Some ''Objective already complete'') ''Objective complete'' w
      else case al_status (lw_state w) of
        Loop_WAITING_HUMAN \<Rightarrow> handle_waiting_human C ops pv P abi E now w
      | Loop_WAITING_RECONCILE \<Rightarrow> handle_reconcile C ops pv P E w
      | Loop_READY \<Rightarrow> loop_ready_step C ops pv P abi E now w
      | st \<Rightarrow> (Inr (plain_result st ''Loop stopped''), w))"

section \<open>The run\<close>

definition loop_terminal :: "loop_status \<Rightarrow> bool" where
  "loop_terminal st \<longleftrightarrow> st \<notin> {Loop_READY, Loop_WAITING_HUMAN, Loop_WAITING_RECONCILE}"

text \<open>Up to \<open>n\<close> steps; the \<open>k\<close>-th reads the clock \<open>now k\<close> and the world \<open>E k\<close>.\<close>

fun run_steps ::
  "loop_config \<Rightarrow> 'l entry_ops \<Rightarrow> 'p provider_ops \<Rightarrow> prims \<Rightarrow> abi \<Rightarrow> (nat \<Rightarrow> env) \<Rightarrow> (nat \<Rightarrow> rat) \<Rightarrow> nat \<Rightarrow> nat \<Rightarrow>
     loop_result list \<Rightarrow> ('l, 'p, loop_result list) loop_act" where
  "run_steps C ops pv P abi E now 0 k steps w = (Inr steps, w)"
| "run_steps C ops pv P abi E now (Suc n) k steps w =
     (case loop_step C ops pv P abi (E k) (now k) w of
        (Inl x, w') \<Rightarrow> (Inl x, w')
      | (Inr r, w') \<Rightarrow>
          if loop_terminal (lr_status r) \<or> lr_status r = Loop_WAITING_HUMAN then (Inr (steps @ [r]), w')
          else run_steps C ops pv P abi E now n (Suc k) (steps @ [r]) w')"

definition run_until_terminal ::
  "loop_config \<Rightarrow> 'l entry_ops \<Rightarrow> 'p provider_ops \<Rightarrow> prims \<Rightarrow> abi \<Rightarrow> (nat \<Rightarrow> env) \<Rightarrow> (nat \<Rightarrow> rat) \<Rightarrow> int option \<Rightarrow>
     ('l, 'p, loop_result list) loop_act" where
  "run_until_terminal C ops pv P abi E now max_steps =
     run_steps C ops pv P abi E now (nat (case max_steps of None \<Rightarrow> lc_max_iterations C * 3 | Some n \<Rightarrow> n)) 0 []"

section \<open>Attempts to evade the policy\<close>

definition attempt_bypass_human_with_smaller_amount :: "('l, 'p) loop_world \<Rightarrow> int \<Rightarrow> bool" where
  "attempt_bypass_human_with_smaller_amount w smaller = False"

definition attempt_split_purchase_evasion :: "('l, 'p) loop_world \<Rightarrow> int \<Rightarrow> bool" where
  "attempt_split_purchase_evasion w parts = False"

definition attempt_mutate_authorized_intent :: "prims \<Rightarrow> purchase_intent \<Rightarrow> (purchase_intent \<Rightarrow> purchase_intent) \<Rightarrow> bool" where
  "attempt_mutate_authorized_intent P i changes \<longleftrightarrow>
     compute_purchase_intent_hash P (changes i) = compute_purchase_intent_hash P i"

end
