(* ===== verification/LoopBounds.thy ===== *)
theory LoopBounds
  imports PurchaseLoop
begin

text \<open>
  What bounds the purchase loop: the number of its purchases, the amount it spends, and what any provider that
  charges at most the amount of an operation is paid for it.
\<close>

section \<open>What a step can change\<close>

definition spent_so_far :: "('l, 'p) loop_world \<Rightarrow> int" where
  "spent_so_far w = al_cumulative_usdg_spent (lw_state w)"

definition iteration :: "('l, 'p) loop_world \<Rightarrow> int" where
  "iteration w = al_loop_iteration (lw_state w)"

definition status_of :: "('l, 'p) loop_world \<Rightarrow> loop_status" where
  "status_of w = al_status (lw_state w)"

definition reserved :: "('l, 'p) loop_world \<Rightarrow> int" where
  "reserved w = (case lw_intent w of None \<Rightarrow> 0 | Some i \<Rightarrow> pi_usdg_in i)"

definition provider_of :: "('l, 'p) loop_world \<Rightarrow> 'p" where
  "provider_of w = cs_provider (lw_cs w)"

lemmas loop_views = spent_so_far_def iteration_def status_of_def reserved_def provider_of_def

text \<open>Only the books, the verifier or the log changed.\<close>

definition same_loop :: "('l, 'p) loop_world \<Rightarrow> ('l, 'p) loop_world \<Rightarrow> bool" where
  "same_loop w w' \<longleftrightarrow> spent_so_far w' = spent_so_far w \<and> iteration w' = iteration w \<and> status_of w' = status_of w \<and>
     lw_intent w' = lw_intent w \<and> lw_pending w' = lw_pending w \<and> provider_of w' = provider_of w"

lemma same_loop_refl [simp]: "same_loop w w"
  by (simp add: same_loop_def)

lemma same_loop_trans: "same_loop w w1 \<Longrightarrow> same_loop w1 w2 \<Longrightarrow> same_loop w w2"
  by (simp add: same_loop_def)

lemma act_bind_cases:
  assumes "act_bind f g s = (r, s')"
  obtains x where "f s = (Inl x, s')" "r = Inl x" | a s1 where "f s = (Inr a, s1)" "g a s1 = (r, s')"
proof (cases "f s")
  case (Pair v s1)
  then show ?thesis using assms that by (cases v) (simp_all add: act_bind_def)
qed

lemma act_bind_same:
  assumes "act_bind f g w = (r, w')" "\<And>a w1. f w = (a, w1) \<Longrightarrow> same_loop w w1"
    and "\<And>a w1 b w2. g a w1 = (b, w2) \<Longrightarrow> same_loop w1 w2"
  shows "same_loop w w'"
  using assms(1)
  by (rule act_bind_cases) (use assms(2,3) same_loop_trans in blast)+

lemma touch_run: "touch E m w = (Inr (), snd (touch E m w))" "same_loop w (snd (touch E m w))"
    "objective_met (lw_state (snd (touch E m w))) = objective_met (lw_state w)"
  by (simp_all add: touch_def upd_state_def same_loop_def loop_views objective_met_def)

lemma set_status_run:
  "set_status st w = (Inr (), w\<lparr>lw_state := (lw_state w)\<lparr>al_status := st\<rparr>\<rparr>)"
  by (simp add: set_status_def upd_state_def)

lemma loop_transfer_same: "loop_transfer ops E op f t memo pre w = (r, w') \<Longrightarrow> same_loop w w'"
  by (auto simp: loop_transfer_def loop_on_cs_def cons_move_def same_loop_def loop_views split: prod.splits sum.splits)

lemma refresh_same: "loop_on_cs (refresh_treasury ops) w = (r, w') \<Longrightarrow> same_loop w w'"
  by (auto simp: loop_on_cs_def refresh_treasury_def same_loop_def loop_views)

lemma loop_release_same:
  assumes "loop_release C ops E op dest memo pre refresh w = (r, w')"
  shows "same_loop w w'"
proof -
  have "(if refresh then loop_on_cs (refresh_treasury ops) else act_return ()) w1 = (b, w2) \<Longrightarrow> same_loop w1 w2" for w1 b w2
    by (cases refresh) (auto simp: act_return_def dest: refresh_same)
  then show ?thesis using assms
    by (auto simp: loop_release_def dest: loop_transfer_same elim!: act_bind_same split: if_splits)
qed

text \<open>The end of an execution: stopped, waiting for reconciliation, or bought.\<close>

definition stopped_at :: "('l, 'p) loop_world \<Rightarrow> loop_result \<Rightarrow> ('l, 'p) loop_world \<Rightarrow> bool" where
  "stopped_at w r w' \<longleftrightarrow> lr_status r = status_of w' \<and> loop_terminal (status_of w') \<and> spent_so_far w' = spent_so_far w \<and>
     iteration w' = iteration w \<and> provider_of w' = provider_of w"

lemma stop_with_run:
  "\<exists>w'. stop_with E st reason msg w = (Inr (plain_result st msg), w') \<and> status_of w' = st \<and> spent_so_far w' = spent_so_far w \<and>
     iteration w' = iteration w \<and> provider_of w' = provider_of w \<and> lw_intent w' = lw_intent w \<and> lw_pending w' = lw_pending w"
  by (cases reason) (simp_all add: stop_with_def act_bind_def set_status_run touch_def upd_state_def act_return_def loop_views)

text \<open>A verified report carries evidence of exactly the authorised amount.\<close>

lemma check_receipt_None:
  "check_receipt i ev expected chain = None \<Longrightarrow> ev_usdg_spent ev = pi_usdg_in i \<and> pi_min_credit_out i \<le> ev_credit_out ev \<and> chain = pi_chain_id i"
  by (auto simp: check_receipt_def split: if_splits)

lemma verify_evidence_verified:
  assumes "verify_evidence P E i evidence outcome expected V = (Inr report, V')" "report_is_verified report"
  shows "\<exists>ev. evidence = Some ev \<and> vf_evidence report = Some ev \<and> ev_usdg_spent ev = pi_usdg_in i \<and>
     pi_min_credit_out i \<le> ev_credit_out ev \<and> check_scope P i ev = None \<and> py_int (ev_chain_id ev) = Inr (pi_chain_id i) \<and>
     outcome \<in> {None, Some Outcome_SUCCESS}"
proof (cases evidence)
  case None
  then show ?thesis using assms by (auto simp: verify_evidence_def Let_def report_is_verified_def mk_report_def split: if_splits)
next
  case (Some ev)
  have acc: "vf_evidence (fst (accept_evidence P E i ev V)) = Some ev"
    by (simp add: accept_evidence_def Let_def mk_report_def split: option.split)
  from assms Some show ?thesis
    by (auto simp: verify_evidence_def Let_def report_is_verified_def mk_report_def case_prod_beta acc dest: check_receipt_None
        split: if_splits option.splits sum.splits)
qed

lemma verify_execution_verified:
  assumes "verify_execution P E i r op V = (Inr report, V')" "report_is_verified report"
  shows "evidence_amounts report k = (ev_credit_out (the (vf_evidence report)), pi_usdg_in i) \<and> px_outcome r = Outcome_SUCCESS \<and>
    pi_min_credit_out i \<le> ev_credit_out (the (vf_evidence report))"
proof -
  from assms(1) obtain e where "verify_evidence P E i e (Some (px_outcome r)) (px_reference r) V = (Inr report, V')"
    unfolding verify_execution_def by (rule act_bind_cases) (auto simp: act_lift_def)
  from verify_evidence_verified [OF this assms(2)] show ?thesis by (auto simp: evidence_amounts_def)
qed

text \<open>An execution of an operation worth \<open>n\<close>, after the provider has answered.\<close>

definition executed :: "int \<Rightarrow> ('l, 'p) loop_world \<Rightarrow> loop_result result \<Rightarrow> ('l, 'p) loop_world \<Rightarrow> bool" where
  "executed n w res w' \<longleftrightarrow> provider_of w' = provider_of w \<and> iteration w' = iteration w \<and> (case res of
       Inl x \<Rightarrow> spent_so_far w' = spent_so_far w \<and> status_of w' = status_of w \<and> lw_intent w' = lw_intent w \<and> lw_pending w' = lw_pending w
     | Inr r \<Rightarrow> lr_status r = status_of w' \<and>
         (loop_terminal (status_of w') \<and> spent_so_far w' \<in> {spent_so_far w, spent_so_far w + n} \<or>
          status_of w' = Loop_READY \<and> spent_so_far w' = spent_so_far w + n \<or>
          status_of w' = Loop_WAITING_RECONCILE \<and> spent_so_far w' = spent_so_far w \<and> reserved w' = n \<and>
            (\<exists>op. lw_pending w' = Some op \<and> op_state op = Op_UNKNOWN) \<and> lw_intent w' \<noteq> None))"

lemma same_executed_Inl: "same_loop w w' \<Longrightarrow> executed n w (Inl x) w'"
  by (simp add: same_loop_def executed_def)

lemma same_executed_trans: "same_loop w w1 \<Longrightarrow> executed n w1 res w' \<Longrightarrow> executed n w res w'"
  by (cases res) (simp_all add: same_loop_def executed_def)

lemma stopped_executed: "stopped_at w y w' \<Longrightarrow> executed n w (Inr y) w'"
  by (simp add: stopped_at_def executed_def)

lemma moved_same: "moved_to E op new err ref w = (res, w') \<Longrightarrow> w' = w"
  by (simp add: moved_to_def act_lift_def)

lemma await_effect:
  assumes "await_reconcile E pr n op r w = (res, w')" "op_state op = Op_SUBMITTED"
  shows "executed (pi_usdg_in (ap_intent pr)) w res w'"
proof -
  obtain op' where "transition_to (e_now E 0) op Op_UNKNOWN (Some ''timeout'') None = Inr op'" "op_state op' = Op_UNKNOWN"
    using assms(2) by (simp add: transition_to_def)
  then show ?thesis using assms(1)
    by (auto simp: await_reconcile_def act_bind_def moved_to_def act_lift_def upd_state_def touch_def act_return_def step_result_def
        executed_def loop_views)
qed

text \<open>An action that only changes the books, then a transition of the operation, then the rest.\<close>

lemma executed_after:
  assumes run: "act_bind f (\<lambda>_. act_bind (moved_to E op new err ref) g) w = (res, w')"
    and f: "\<And>a w1. f w = (a, w1) \<Longrightarrow> same_loop w w1"
    and g: "\<And>op' w1. g op' w1 = (res, w') \<Longrightarrow> executed n w1 res w'"
  shows "executed n w res w'"
  using run
proof (rule act_bind_cases)
  fix x assume "f w = (Inl x, w')" "res = Inl x"
  then show ?thesis using f same_executed_Inl by blast
next
  fix a w1 assume "f w = (Inr a, w1)" and rest: "act_bind (moved_to E op new err ref) g w1 = (res, w')"
  then have same: "same_loop w w1" using f by blast
  from rest have "executed n w1 res w'"
  proof (rule act_bind_cases)
    fix x assume "moved_to E op new err ref w1 = (Inl x, w')" "res = Inl x"
    then show ?thesis using moved_same by (metis same_executed_Inl same_loop_refl)
  next
    fix op' w2 assume "moved_to E op new err ref w1 = (Inr op', w2)" "g op' w2 = (res, w')"
    then show ?thesis using moved_same g by blast
  qed
  then show ?thesis by (rule same_executed_trans [OF same])
qed

lemma stop_failed_effect:
  assumes "stop_failed C ops E pr n op r memo pre err msg ver w = (res, w')"
  shows "executed k w res w'"
  using assms unfolding stop_failed_def
  by (rule executed_after)
     (auto intro: loop_release_same simp: stop_after_failure_def act_bind_def set_status_run touch_def upd_state_def step_result_def
       executed_def loop_views loop_terminal_def)

lemma settle_verified_effect:
  assumes run: "settle_verified C ops P E pr n op r report w = (res, w')"
    and amount: "\<And>k. snd (evidence_amounts report k) = pi_usdg_in (ap_intent pr)"
  shows "executed (pi_usdg_in (ap_intent pr)) w res w'"
proof -
  let ?i = "ap_intent pr"
  obtain c u where cu: "evidence_amounts report (pi_usdg_in ?i) = (c, u)" by fastforce
  then have u: "u = pi_usdg_in ?i" using amount [of "pi_usdg_in ?i"] by simp
  have "executed (pi_usdg_in ?i) w1 res w'" if "conclude_purchase P (env_skip 3 E) pr n op' r report w1 = (res, w')" for op' w1
    using that
    by (auto simp: conclude_purchase_def cu u act_bind_def upd_state_def Let_def set_status_run touch_def act_return_def
        step_result_def book_purchase_def executed_def loop_views loop_terminal_def split: if_splits)
  from executed_after [OF run [unfolded settle_verified_def] loop_release_same this] show ?thesis .
qed

lemma note_run: "act_bind (note_verification report) f w = f () (snd (note_verification report w))"
    "same_loop w (snd (note_verification report w))"
  by (simp_all add: act_bind_def note_verification_def upd_state_def same_loop_def loop_views)

lemma loop_on_verified_same: "loop_on_verified f w = (r, w') \<Longrightarrow> same_loop w w' \<and> (\<exists>V'. f (lw_verified w) = (r, V'))"
  by (auto simp: loop_on_verified_def same_loop_def loop_views split: prod.splits)

lemma after_execution_effect:
  assumes run: "after_execution C ops P E pr n op r w = (res, w')" and "op_state op = Op_SUBMITTED"
  shows "executed (pi_usdg_in (ap_intent pr)) w res w'"
proof (cases "px_outcome r = Outcome_SUCCESS")
  case False
  then show ?thesis using run assms(2)
    by (auto simp: after_execution_def await_effect stop_failed_effect split: if_splits)
next
  case True
  with run have "act_bind (loop_on_verified (verify_execution P E (ap_intent pr) r (Some op))) (\<lambda>report.
      act_bind (note_verification report) (\<lambda>_. decide_report C ops P (env_skip 2 E) pr n op r report)) w = (res, w')"
    by (simp add: after_execution_def)
  then show ?thesis
  proof (rule act_bind_cases)
    fix x assume "loop_on_verified (verify_execution P E (ap_intent pr) r (Some op)) w = (Inl x, w')" "res = Inl x"
    then show ?thesis by (auto simp: loop_on_verified_def executed_def loop_views split: prod.splits)
  next
    fix report w2
    assume ver: "loop_on_verified (verify_execution P E (ap_intent pr) r (Some op)) w = (Inr report, w2)"
      and "act_bind (note_verification report) (\<lambda>_. decide_report C ops P (env_skip 2 E) pr n op r report) w2 = (res, w')"
    then have run3: "decide_report C ops P (env_skip 2 E) pr n op r report (snd (note_verification report w2)) = (res, w')"
      by (simp add: note_run)
    have w3: "same_loop w (snd (note_verification report w2))"
      using same_loop_trans [OF conjunct1 [OF loop_on_verified_same [OF ver]] note_run(2)] .
    obtain V' where "verify_execution P E (ap_intent pr) r (Some op) (lw_verified w) = (Inr report, V')"
      using loop_on_verified_same [OF ver] by blast
    from verify_execution_verified [OF this]
    have am: "report_is_verified report \<Longrightarrow> snd (evidence_amounts report k) = pi_usdg_in (ap_intent pr)" for k by simp
    have "executed (pi_usdg_in (ap_intent pr)) (snd (note_verification report w2)) res w'"
    proof (cases "report_is_verified report")
      case True
      with run3 have "settle_verified C ops P (env_skip 2 E) pr n op r report (snd (note_verification report w2)) = (res, w')"
        by (simp add: decide_report_def)
      then show ?thesis using am [OF True] by (rule settle_verified_effect)
    next
      case False
      with run3 show ?thesis unfolding decide_report_def by (auto intro: stop_failed_effect)
    qed
    then show ?thesis by (rule same_executed_trans [OF w3])
  qed
qed

lemma stop_failed_status: "stop_failed C ops E pr n op r memo pre err msg ver w = (Inr y, w') \<Longrightarrow> status_of w' = Loop_STOPPED_FAILURE"
  unfolding stop_failed_def
  by (auto elim!: act_bind_cases simp: stop_after_failure_def set_status_run touch_def upd_state_def loop_views)

lemma settle_verified_status: "settle_verified C ops P E pr n op r report w = (Inr y, w') \<Longrightarrow> status_of w' \<noteq> Loop_WAITING_RECONCILE"
  unfolding settle_verified_def
  by (auto elim!: act_bind_cases simp: conclude_purchase_def set_status_run touch_def upd_state_def act_return_def loop_views Let_def
      split: if_splits)

lemma after_execution_waits:
  assumes "after_execution C ops P E pr n op r w = (Inr y, w')" "status_of w' = Loop_WAITING_RECONCILE"
  shows "px_outcome r = Outcome_TIMEOUT \<and> (\<exists>op'. lw_pending w' = Some op' \<and> op_id op' = op_id op) \<and> provider_of w' = provider_of w"
proof (cases "px_outcome r = Outcome_TIMEOUT")
  case True
  then have "await_reconcile E pr n op r w = (Inr y, w')" using assms(1) by (simp add: after_execution_def)
  then show ?thesis using True
    by (auto simp: await_reconcile_def moved_to_def act_lift_def transition_to_def upd_state_def touch_def act_return_def loop_views
        act_bind_def split: if_splits)
next
  case False
  then show ?thesis using assms stop_failed_status settle_verified_status
    by (fastforce simp: after_execution_def decide_report_def elim!: act_bind_cases split: if_splits)
qed

text \<open>The provider is asked at most once, with an operation of the amount of the intent.\<close>

definition paid :: "'p provider_ops \<Rightarrow> int \<Rightarrow> 'p \<Rightarrow> 'p \<Rightarrow> bool" where
  "paid pv n p p' \<longleftrightarrow> p' = p \<or> (\<exists>op a. pget op ''usdg_in'' = JInt n \<and> po_execute pv op p = (a, p'))"

definition with_provider :: "('l, 'p) loop_world \<Rightarrow> 'p \<Rightarrow> ('l, 'p) loop_world" where
  "with_provider w p = w\<lparr>lw_cs := (lw_cs w)\<lparr>cs_provider := p\<rparr>\<rparr>"

lemma with_provider_views [simp]:
  "provider_of (with_provider w p) = p" "spent_so_far (with_provider w p) = spent_so_far w"
  "iteration (with_provider w p) = iteration w" "status_of (with_provider w p) = status_of w"
  "lw_intent (with_provider w p) = lw_intent w" "lw_pending (with_provider w p) = lw_pending w"
  by (simp_all add: with_provider_def loop_views)

text \<open>A purchase that waits for reconciliation is one the provider has just timed out on.\<close>

definition timed_out :: "'p provider_ops \<Rightarrow> 'p \<Rightarrow> ('l, 'p) loop_world \<Rightarrow> bool" where
  "timed_out pv p w \<longleftrightarrow> (\<exists>op op' r. lw_pending w = Some op' \<and> op_id op' = op_id op \<and>
     po_execute pv op p = (Inr r, provider_of w) \<and> px_outcome r = Outcome_TIMEOUT)"

definition waits_new :: "'p provider_ops \<Rightarrow> 'p \<Rightarrow> loop_result result \<Rightarrow> ('l, 'p) loop_world \<Rightarrow> bool" where
  "waits_new pv p res w \<longleftrightarrow> (\<not> isl res \<and> status_of w = Loop_WAITING_RECONCILE \<longrightarrow> timed_out pv p w)"

lemma waits_new_Inl [simp]: "waits_new pv p (Inl x) w"
  by (simp add: waits_new_def)

lemma waits_new_other: "status_of w \<noteq> Loop_WAITING_RECONCILE \<Longrightarrow> waits_new pv p res w"
  by (simp add: waits_new_def)

definition executed_paid :: "'p provider_ops \<Rightarrow> int \<Rightarrow> ('l, 'p) loop_world \<Rightarrow> loop_result result \<Rightarrow> ('l, 'p) loop_world \<Rightarrow> bool" where
  "executed_paid pv n w res w' \<longleftrightarrow> waits_new pv (provider_of w) res w' \<and>
     (\<exists>p. paid pv n (provider_of w) p \<and> executed n (with_provider w p) res w')"

lemma executed_unpaid: "executed n w res w' \<Longrightarrow> waits_new pv (provider_of w) res w' \<Longrightarrow> executed_paid pv n w res w'"
  unfolding executed_paid_def
  by (intro conjI exI [of _ "provider_of w"]) (simp_all add: paid_def with_provider_def provider_of_def)

lemma stopped_paid: "stopped_at w y w' \<Longrightarrow> executed_paid pv n w (Inr y) w'"
  by (rule executed_unpaid [OF stopped_executed waits_new_other]) (auto simp: stopped_at_def loop_terminal_def)

lemma same_paid_trans:
  assumes "same_loop w w1" "executed_paid pv n w1 res w'"
  shows "executed_paid pv n w res w'"
proof -
  obtain p where p: "paid pv n (provider_of w1) p" "executed n (with_provider w1 p) res w'"
    using assms(2) by (auto simp: executed_paid_def)
  have "same_loop (with_provider w p) (with_provider w1 p)" using assms(1) by (simp add: same_loop_def)
  from same_executed_trans [OF this p(2)] show ?thesis using p(1) assms by (auto simp: executed_paid_def same_loop_def)
qed

lemma execute_submitted_effect:
  assumes run: "execute_submitted C ops pv P E pr n op w = (res, w')" and "op_state op = Op_SUBMITTED"
    and "pget op ''usdg_in'' = JInt (pi_usdg_in (ap_intent pr))"
  shows "executed_paid pv (pi_usdg_in (ap_intent pr)) w res w'"
proof -
  obtain a p where ans: "po_execute pv op (provider_of w) = (a, p)" by fastforce
  have call: "loop_on_cs (call_provider (po_execute pv op)) w = (a, with_provider w p)"
    using ans by (simp add: loop_on_cs_def call_provider_def provider_of_def with_provider_def)
  have "executed (pi_usdg_in (ap_intent pr)) (with_provider w p) res w'"
    using run [unfolded execute_submitted_def]
  proof (rule act_bind_cases)
    fix x assume "loop_on_cs (call_provider (po_execute pv op)) w = (Inl x, w')" "res = Inl x"
    then show ?thesis using call same_executed_Inl by (metis prod.inject same_loop_refl)
  next
    fix r w1 assume "loop_on_cs (call_provider (po_execute pv op)) w = (Inr r, w1)" "after_execution C ops P E pr n op r w1 = (res, w')"
    then show ?thesis using call after_execution_effect assms(2) by (metis prod.inject)
  qed
  moreover have "waits_new pv (provider_of w) res w'"
  proof (cases res)
    case (Inr y)
    have "act_bind (loop_on_cs (call_provider (po_execute pv op))) (after_execution C ops P E pr n op) w = (Inr y, w')"
      using run Inr by (simp add: execute_submitted_def)
    then obtain r where r: "a = Inr r" "after_execution C ops P E pr n op r (with_provider w p) = (Inr y, w')"
      using call by (cases a) (simp_all add: act_bind_def)
    show ?thesis
    proof (cases "status_of w' = Loop_WAITING_RECONCILE")
      case True
      from after_execution_waits [OF r(2) True] have "px_outcome r = Outcome_TIMEOUT"
          "\<exists>op'. lw_pending w' = Some op' \<and> op_id op' = op_id op" "provider_of w' = p" by simp_all
      then show ?thesis using ans r(1) unfolding waits_new_def timed_out_def by blast
    qed (simp add: waits_new_other)
  qed simp
  ultimately show ?thesis using ans assms(3) by (auto simp: executed_paid_def paid_def)
qed

lemma submit_purchase_effect:
  assumes run: "submit_purchase C ops pv P E pr n op w = (res, w')" and "op_state op = Op_CREATED"
    and "pget op ''usdg_in'' = JInt (pi_usdg_in (ap_intent pr))"
  shows "executed_paid pv (pi_usdg_in (ap_intent pr)) w res w'"
proof -
  define op3 where "op3 = op\<lparr>op_state := Op_SUBMITTED, op_updated_at := e_now (env_skip 2 E) 0\<rparr>"
  have "submit_purchase C ops pv P E pr n op w = execute_submitted C ops pv P (env_skip 3 E) pr n op3 w"
    using assms(2) by (simp add: submit_purchase_def act_bind_def moved_to_def act_lift_def transition_to_def op3_def)
  then show ?thesis using run execute_submitted_effect [of C ops pv P "env_skip 3 E" pr n op3 w res w'] assms(3)
    by (simp add: op3_def pget_def)
qed

lemma bridge_prepare_parameters:
  assumes "bridge_prepare P abi E now p i ap = Inr n" "is_authorized n"
  shows "pn_intent n = i \<and> dict_get (pn_parameters n) ''usdg_in'' JNull = JInt (pi_usdg_in i)"
  using assms by (auto simp: bridge_prepare_def Let_def is_authorized_def operation_parameters_def split: if_splits)

lemma execute_authorized_effect:
  assumes run: "execute_authorized C ops pv P E pr n w = (res, w')"
    and n: "pn_intent n = ap_intent pr" "dict_get (pn_parameters n) ''usdg_in'' JNull = JInt (pi_usdg_in (ap_intent pr))"
  shows "executed_paid pv (pi_usdg_in (ap_intent pr)) w res w'"
proof (cases "create_operation_from_preparation E n (cs_org (lw_cs w)) None None (loop_provider_name pv) None")
  case (Inl x)
  then show ?thesis using run same_executed_Inl [OF same_loop_refl]
    by (auto simp: execute_authorized_def act_bind_def act_lift_def intro!: executed_unpaid)
next
  case (Inr op)
  have op: "op_state op = Op_CREATED" "pget op ''usdg_in'' = JInt (pi_usdg_in (ap_intent pr))"
    using Inr n by (auto simp: create_operation_from_preparation_def Let_def pget_def param_get_def split: if_splits)
  let ?submit = "submit_purchase C ops pv P (env_skip 4 E) pr n op"
  have sub: "?submit w1 = (res, w') \<Longrightarrow> executed_paid pv (pi_usdg_in (ap_intent pr)) w1 res w'" for w1
    using submit_purchase_effect op by blast
  show ?thesis
  proof (cases "lc_has_ledger C \<and> op_amount op > 0")
    case False
    then show ?thesis using run Inr sub by (auto simp: execute_authorized_def act_bind_def act_lift_def)
  next
    case led: True
    show ?thesis
    proof (cases "lo_get_balance ops (cs_ledger (lw_cs w)) TREASURY < op_amount op")
      case True
      have "stopped_at w (case res of Inr y \<Rightarrow> y) w' \<and> \<not> isl res"
        using run Inr led True op(1)
        by (auto simp: execute_authorized_def act_bind_def act_lift_def moved_to_def transition_to_def set_status_run touch_def
            upd_state_def act_return_def step_result_def stopped_at_def loop_views loop_terminal_def)
      then show ?thesis by (cases res) (auto intro: stopped_paid)
    next
      case False
      then have "act_bind (loop_transfer ops (env_skip 2 E) op TREASURY ESCROW ''Escrow for loop operation '' ''esc-loop-'')
          (\<lambda>_. ?submit) w = (res, w')"
        using run Inr led by (simp add: execute_authorized_def act_bind_def act_lift_def)
      then show ?thesis
      proof (rule act_bind_cases)
        fix x assume "loop_transfer ops (env_skip 2 E) op TREASURY ESCROW ''Escrow for loop operation '' ''esc-loop-'' w = (Inl x, w')"
          and res: "res = Inl x"
        from executed_unpaid [OF same_executed_Inl [OF loop_transfer_same [OF this(1)]] waits_new_Inl] show ?thesis
          unfolding res .
      next
        fix a w1 assume "loop_transfer ops (env_skip 2 E) op TREASURY ESCROW ''Escrow for loop operation '' ''esc-loop-'' w = (Inr a, w1)"
          "?submit w1 = (res, w')"
        then show ?thesis using loop_transfer_same sub same_paid_trans by blast
      qed
    qed
  qed
qed

section \<open>Two ways to lose track of a purchase\<close>

text \<open>An UNKNOWN answer is handled like a failure, and an exception of the provider leaves the loop READY with the escrow locked.\<close>

lemma unknown_outcome_refunded:
  "px_outcome r = Outcome_UNKNOWN \<Longrightarrow> after_execution C ops P E pr n op r =
     stop_failed C ops E pr n op r ''Escrow refund for failed operation '' ''ref-loop-'' (px_error r) ''Execution failed'' None"
  by (simp add: after_execution_def fun_eq_iff)

lemma raised_execution_forgotten:
  "po_execute pv op (provider_of w) = (Inl x, p) \<Longrightarrow> execute_submitted C ops pv P E pr n op w = (Inl x, with_provider w p)"
  by (simp add: execute_submitted_def act_bind_def loop_on_cs_def call_provider_def provider_of_def with_provider_def)

section \<open>Reconciliation\<close>

text \<open>Actions that do not reach the provider.\<close>

definition quiet :: "(('l, 'p) purchase_world, 'a) act \<Rightarrow> bool" where
  "quiet f \<longleftrightarrow> (\<forall>w. cs_provider (pw_cs (snd (f w))) = cs_provider (pw_cs w))"

lemma quietD: "quiet f \<Longrightarrow> f w = (r, w') \<Longrightarrow> cs_provider (pw_cs w') = cs_provider (pw_cs w)"
  unfolding quiet_def by (metis snd_conv)

lemma quiet_bind: "quiet f \<Longrightarrow> (\<And>a. quiet (g a)) \<Longrightarrow> quiet (act_bind f g)"
  by (simp add: quiet_def act_bind_def split: prod.split sum.split) (metis snd_conv)

lemma quiet_return: "quiet (act_return a)"
  by (simp add: quiet_def act_return_def)

lemma quiet_on_cs: "(\<And>s. cs_provider (snd (f s)) = cs_provider s) \<Longrightarrow> quiet (on_cs f)"
  by (simp add: quiet_def on_cs_def case_prod_beta)

lemma quiet_op_moves: "quiet (op_moves E new err ref)"
  by (simp add: quiet_def op_moves_def split: sum.split)

lemma quiet_rec_save: "quiet rec_save"
  by (simp add: quiet_def rec_save_def on_cs_def save_op_def split: option.split sum.split)

lemma quiet_rec_event: "quiet (rec_event P E ty ex)"
  by (simp add: quiet_def rec_event_def on_cs_def log_event_def split: option.split)

lemma quiet_release: "quiet (purchase_release ops E seen dest memo tx)"
  by (simp add: quiet_def purchase_release_def Let_def on_cs_def act_bind_def cons_move_def refresh_treasury_def
      split: prod.split sum.split)

lemma quiet_release_at: "quiet (\<lambda>w. purchase_release ops E seen dest memo (tx w) w)"
  by (simp add: quiet_def quiet_release [unfolded quiet_def, rule_format])

lemma quiet_moves_at: "quiet (\<lambda>w. op_moves E new err (ref w) w)"
  by (simp add: quiet_def quiet_op_moves [unfolded quiet_def, rule_format])

lemma quiet_move_save: "quiet (act_bind (op_moves E new err ref) (\<lambda>_. rec_save))"
  by (rule quiet_bind [OF quiet_op_moves quiet_rec_save])

lemma quiet_finish: "quiet (finish_reconciled E err ref)"
  by (simp add: quiet_def finish_reconciled_def quiet_move_save [unfolded quiet_def, rule_format])

lemmas quiet_intros = quiet_bind quiet_return quiet_op_moves quiet_rec_save quiet_rec_event quiet_release_at quiet_moves_at quiet_finish

lemma quiet_settle_by_report: "quiet (settle_by_report ops P E ih st report)"
  unfolding settle_by_report_def Let_def purchase_settle_success_def purchase_settle_failure_def
  by (cases "vf_result report") (auto intro!: quiet_intros)

lemma settle_by_report_result:
  assumes "settle_by_report ops P E ih st report w = (Inr out, w')"
  shows "ro_verification out = Some report \<and> ro_status out = Some st"
  using assms unfolding settle_by_report_def Let_def
  by (cases "vf_result report") (auto elim!: act_bind_cases simp: act_return_def)

text \<open>Any number of status queries.\<close>

definition asked :: "'p provider_ops \<Rightarrow> 'p \<Rightarrow> 'p \<Rightarrow> bool" where
  "asked pv = (\<lambda>p p'. \<exists>i k ref a. po_status pv i k ref p = (a, p'))\<^sup>*\<^sup>*"

lemma asked_refl [simp]: "asked pv p p"
  by (simp add: asked_def)

lemma asked_once: "po_status pv i k ref p = (a, p') \<Longrightarrow> asked pv p p'"
  unfolding asked_def by blast

lemma asked_trans: "asked pv p q \<Longrightarrow> asked pv q r \<Longrightarrow> asked pv p r"
  unfolding asked_def by (rule rtranclp_trans)

lemma query_status_asked:
  assumes "query_status pv w = (res, w')"
  shows "asked pv (cs_provider (pw_cs w)) (cs_provider (pw_cs w'))"
proof -
  let ?ask = "\<lambda>ref. po_status pv (op_id (pw_op w)) (op_idempotency_key (pw_op w)) ref"
  obtain a p where 1: "?ask (op_provider_reference (pw_op w)) (cs_provider (pw_cs w)) = (a, p)" by fastforce
  obtain b q where 2: "?ask None p = (b, q)" by fastforce
  have "cs_provider (pw_cs w') \<in> {p, q}"
    using assms 1 2 by (auto simp: query_status_def Let_def on_cs_def call_provider_def split: sum.splits if_splits)
  then show ?thesis using asked_once [OF 1] asked_trans [OF asked_once [OF 1] asked_once [OF 2]] by auto
qed

lemma act_bind_rel:
  assumes "act_bind f g w = (r, w')" "\<And>a w1. f w = (a, w1) \<Longrightarrow> R w w1"
    and "\<And>a w1. f w = (Inr a, w1) \<Longrightarrow> g a w1 = (r, w') \<Longrightarrow> R w1 w'" "\<And>x y z. R x y \<Longrightarrow> R y z \<Longrightarrow> R x z"
  shows "R w w'"
  using assms(1) by (rule act_bind_cases) (use assms(2-4) in blast)+

text \<open>The provider is only asked for the status; a verified report is for the intent.\<close>

definition rec_asked :: "'p provider_ops \<Rightarrow> ('l, 'p) purchase_world \<Rightarrow> ('l, 'p) purchase_world \<Rightarrow> bool" where
  "rec_asked pv w w' \<longleftrightarrow> asked pv (cs_provider (pw_cs w)) (cs_provider (pw_cs w'))"

lemma rec_asked_trans: "rec_asked pv x y \<Longrightarrow> rec_asked pv y z \<Longrightarrow> rec_asked pv x z"
  unfolding rec_asked_def by (rule asked_trans)

lemma quiet_asked: "quiet f \<Longrightarrow> f w = (r, w') \<Longrightarrow> rec_asked pv w w'"
  by (drule (1) quietD) (simp add: rec_asked_def)

lemma verifying_asked: "on_verified f w = (r, w') \<Longrightarrow> rec_asked pv w w' \<and> (\<exists>V'. f (pw_verified w) = (r, V'))"
  by (auto simp: on_verified_def rec_asked_def split: prod.splits)

definition report_for :: "purchase_intent \<Rightarrow> verification_report \<Rightarrow> bool" where
  "report_for i report \<longleftrightarrow> (report_is_verified report \<longrightarrow> (\<forall>k. snd (evidence_amounts report k) = pi_usdg_in i))"

lemma ask_and_settle_effect:
  assumes "ask_and_settle ops pv P E i op w = (res, w')"
  shows "rec_asked pv w w' \<and> (\<forall>out report. res = Inr out \<longrightarrow> ro_verification out = Some report \<longrightarrow> report_for i report)"
  using assms unfolding ask_and_settle_def
proof (rule act_bind_cases)
  fix x assume "query_status pv w = (Inl x, w')" "res = Inl x"
  then show ?thesis using query_status_asked by (simp add: rec_asked_def)
next
  fix st w1 assume "query_status pv w = (Inr st, w1)"
  then have 1: "rec_asked pv w w1" unfolding rec_asked_def by (rule query_status_asked)
  assume "act_bind (on_verified (verify_execution P E i st (Some op))) (\<lambda>report.
     settle_by_report ops P (env_skip 2 E) (compute_purchase_intent_hash P i) st report) w1 = (res, w')"
  then show ?thesis
  proof (rule act_bind_cases)
    fix x assume "on_verified (verify_execution P E i st (Some op)) w1 = (Inl x, w')" "res = Inl x"
    then show ?thesis using verifying_asked rec_asked_trans [OF 1] by blast
  next
    fix report w2 assume ver: "on_verified (verify_execution P E i st (Some op)) w1 = (Inr report, w2)"
      and set: "settle_by_report ops P (env_skip 2 E) (compute_purchase_intent_hash P i) st report w2 = (res, w')"
    have "rec_asked pv w w'"
      using verifying_asked [OF ver] quiet_asked [OF quiet_settle_by_report set] rec_asked_trans [OF 1] rec_asked_trans by blast
    moreover have "report_for i report"
      using verifying_asked [OF ver, of pv] verify_execution_verified by (fastforce simp: report_for_def)
    ultimately show ?thesis using set settle_by_report_result by fastforce
  qed
qed

lemma quiet_marking: "quiet (act_bind (op_moves E new err ref) (\<lambda>_. act_bind rec_save (\<lambda>_. rec_event P E2 ty ex)))"
  by (rule quiet_bind [OF quiet_op_moves quiet_bind [OF quiet_rec_save quiet_rec_event]])

lemma quiet_mark: "quiet (mark_reconciling P E ih)"
  by (simp add: quiet_def mark_reconciling_def quiet_marking [unfolded quiet_def, rule_format])

text \<open>A reconciliation that does not stop at its guards.\<close>

lemma reconcile_purchase_cases:
  assumes "reconcile_purchase ops pv P E i w = (res, w')"
  obtains "w' = w" "\<And>out. res = Inr out \<Longrightarrow> ro_verification out = None"
  | "act_bind (mark_reconciling P E (compute_purchase_intent_hash P i)) (\<lambda>_. ask_and_settle ops pv P (env_skip 4 E) i (pw_op w)) w = (res, w')"
  using assms unfolding reconcile_purchase_def Let_def by (auto split: if_splits)

lemma reconcile_purchase_effect:
  assumes run: "reconcile_purchase ops pv P E i w = (res, w')"
  shows "rec_asked pv w w' \<and> (\<forall>out report. res = Inr out \<longrightarrow> ro_verification out = Some report \<longrightarrow> report_for i report)"
  using run
proof (cases rule: reconcile_purchase_cases)
  case 1
  then show ?thesis by (auto simp: rec_asked_def)
next
  case 2
  then show ?thesis
  proof (rule act_bind_cases)
    fix x assume "mark_reconciling P E (compute_purchase_intent_hash P i) w = (Inl x, w')" "res = Inl x"
    then show ?thesis using quiet_asked [OF quiet_mark] by blast
  next
    fix a w1 assume "mark_reconciling P E (compute_purchase_intent_hash P i) w = (Inr a, w1)"
      and rest: "ask_and_settle ops pv P (env_skip 4 E) i (pw_op w) w1 = (res, w')"
    then show ?thesis using quiet_asked [OF quiet_mark] ask_and_settle_effect [OF rest] rec_asked_trans by blast
  qed
qed

section \<open>The budget of the loop\<close>

text \<open>
  What the loop promises: a machine that only knows the status, the number of proposals, what was spent and what a
  waiting purchase reserves.  Each step offers the provider an amount \<open>n\<close>, or none.
\<close>

record budget =
  bd_status :: loop_status
  bd_iteration :: int
  bd_spent :: int
  bd_reserved :: int

definition abs_loop :: "('l, 'p) loop_world \<Rightarrow> budget" where
  "abs_loop w = \<lparr>bd_status = status_of w, bd_iteration = iteration w, bd_spent = spent_so_far w,
     bd_reserved = (if status_of w \<in> {Loop_WAITING_HUMAN, Loop_WAITING_RECONCILE} then reserved w else 0)\<rparr>"

definition may_buy :: "loop_config \<Rightarrow> budget \<Rightarrow> int \<Rightarrow> int \<Rightarrow> bool" where
  "may_buy C b n k \<longleftrightarrow>
     bd_status b = Loop_READY \<and> bd_iteration b < lc_max_iterations C \<and> 0 \<le> n \<and> bd_spent b + n \<le> lc_max_cumulative_usdg C \<and>
       n \<le> lc_max_single_usdg C \<and> k = bd_iteration b + 1 \<or>
     bd_status b = Loop_WAITING_HUMAN \<and> n = bd_reserved b \<and> k = bd_iteration b"

inductive budget_step :: "loop_config \<Rightarrow> int \<Rightarrow> budget \<Rightarrow> budget \<Rightarrow> bool" for C where
  budget_stops: "loop_terminal st \<Longrightarrow> k \<in> {bd_iteration b, bd_iteration b + 1} \<Longrightarrow>
     k \<le> max (bd_iteration b) (lc_max_iterations C) \<Longrightarrow>
     budget_step C 0 b \<lparr>bd_status = st, bd_iteration = k, bd_spent = bd_spent b, bd_reserved = 0\<rparr>"
| budget_asks: "bd_status b = Loop_READY \<Longrightarrow> may_buy C b n k \<Longrightarrow>
     budget_step C 0 b \<lparr>bd_status = Loop_WAITING_HUMAN, bd_iteration = k, bd_spent = bd_spent b, bd_reserved = n\<rparr>"
| budget_waits: "bd_status b \<in> {Loop_WAITING_HUMAN, Loop_WAITING_RECONCILE} \<Longrightarrow> budget_step C 0 b b"
| budget_buys: "may_buy C b n k \<Longrightarrow> st = Loop_READY \<and> s = bd_spent b + n \<or> loop_terminal st \<and> s \<in> {bd_spent b, bd_spent b + n} \<Longrightarrow>
     budget_step C n b \<lparr>bd_status = st, bd_iteration = k, bd_spent = s, bd_reserved = 0\<rparr>"
| budget_times_out: "may_buy C b n k \<Longrightarrow>
     budget_step C n b \<lparr>bd_status = Loop_WAITING_RECONCILE, bd_iteration = k, bd_spent = bd_spent b, bd_reserved = n\<rparr>"
| budget_settles: "bd_status b = Loop_WAITING_RECONCILE \<Longrightarrow> st = Loop_READY \<or> loop_terminal st \<Longrightarrow>
     budget_step C 0 b \<lparr>bd_status = st, bd_iteration = bd_iteration b, bd_spent = bd_spent b + bd_reserved b, bd_reserved = 0\<rparr>"

inductive_cases budget_stepE: "budget_step C n b b'"

text \<open>The provider was offered \<open>n\<close>, or only asked.\<close>

definition charged :: "'p provider_ops \<Rightarrow> int \<Rightarrow> ('l, 'p) loop_world \<Rightarrow> ('l, 'p) loop_world \<Rightarrow> bool" where
  "charged pv n w w' \<longleftrightarrow> paid pv n (provider_of w) (provider_of w') \<or> asked pv (provider_of w) (provider_of w')"

definition offered :: "loop_config \<Rightarrow> budget \<Rightarrow> int \<Rightarrow> bool" where
  "offered C b n \<longleftrightarrow> n = 0 \<or> (\<exists>k. may_buy C b n k)"

definition step_effect ::
  "loop_config \<Rightarrow> 'p provider_ops \<Rightarrow> ('l, 'p) loop_world \<Rightarrow> loop_result result \<Rightarrow> ('l, 'p) loop_world \<Rightarrow> bool" where
  "step_effect C pv w res w' \<longleftrightarrow> (status_of w = Loop_WAITING_RECONCILE \<or> waits_new pv (provider_of w) res w') \<and> (\<exists>n. offered C (abs_loop w) n \<and> charged pv n w w' \<and>
     (case res of Inl x \<Rightarrow> spent_so_far w' = spent_so_far w \<and> iteration w' \<le> max (iteration w) (lc_max_iterations C)
      | Inr r \<Rightarrow> lr_status r = status_of w' \<and> budget_step C n (abs_loop w) (abs_loop w')))"

lemma abs_terminal: "loop_terminal (status_of w) \<Longrightarrow>
    abs_loop w = \<lparr>bd_status = status_of w, bd_iteration = iteration w, bd_spent = spent_so_far w, bd_reserved = 0\<rparr>"
  by (auto simp: abs_loop_def loop_terminal_def)

lemma uncharged: "provider_of w' = provider_of w \<Longrightarrow> charged pv n w w'"
  by (simp add: charged_def)

lemma step_effectI:
  assumes "status_of w = Loop_WAITING_RECONCILE \<or> waits_new pv (provider_of w) res w'" "offered C (abs_loop w) n" "charged pv n w w'"
    and "case res of Inl x \<Rightarrow> spent_so_far w' = spent_so_far w \<and> iteration w' \<le> max (iteration w) (lc_max_iterations C)
      | Inr r \<Rightarrow> lr_status r = status_of w' \<and> budget_step C n (abs_loop w) (abs_loop w')"
  shows "step_effect C pv w res w'"
  using assms unfolding step_effect_def by blast

lemma offered_none [simp]: "offered C b 0"
  by (simp add: offered_def)

lemma step_effect_stop:
  assumes "lr_status r = status_of w'" "loop_terminal (status_of w')" "spent_so_far w' = spent_so_far w"
    "iteration w' \<in> {iteration w, iteration w + 1}" "iteration w' \<le> max (iteration w) (lc_max_iterations C)" "provider_of w' = provider_of w"
  shows "step_effect C pv w (Inr r) w'"
proof (rule step_effectI [where n = 0])
  show "case Inr r of Inl x \<Rightarrow> spent_so_far w' = spent_so_far w \<and> iteration w' \<le> max (iteration w) (lc_max_iterations C)
      | Inr r \<Rightarrow> lr_status r = status_of w' \<and> budget_step C 0 (abs_loop w) (abs_loop w')"
    using budget_stops [OF assms(2), of "iteration w'" "abs_loop w" C] assms(1,3-5) abs_terminal [OF assms(2)] by (simp add: abs_loop_def)
  show "status_of w = Loop_WAITING_RECONCILE \<or> waits_new pv (provider_of w) (Inr r) w'"
    using assms(2) by (auto simp: loop_terminal_def intro: waits_new_other)
qed (use assms(6) uncharged in auto)

lemma step_effect_stop_with: "stop_with E st reason msg w = (res, w') \<Longrightarrow> loop_terminal st \<Longrightarrow> step_effect C pv w res w'"
  using stop_with_run [of E st reason msg w] by (auto intro!: step_effect_stop simp: plain_result_def)

text \<open>An execution from a state that may buy.\<close>

lemma step_effect_executed:
  assumes ex: "executed_paid pv n w0 res w'" and buy: "may_buy C (abs_loop w) n k"
    and w0: "spent_so_far w0 = spent_so_far w" "provider_of w0 = provider_of w" "iteration w0 = k"
  shows "step_effect C pv w res w'"
proof -
  obtain p where p: "paid pv n (provider_of w) p" and x: "executed n (with_provider w0 p) res w'"
    using ex w0 by (auto simp: executed_paid_def)
  have pr: "provider_of w' = p" and it: "iteration w' = k" using x w0 by (simp_all add: executed_def)
  have off: "offered C (abs_loop w) n" using buy by (auto simp: offered_def)
  have ch: "charged pv n w w'" using p pr by (simp add: charged_def)
  show ?thesis
  proof (cases res)
    case (Inl e)
    have "k \<le> max (iteration w) (lc_max_iterations C)" using buy by (auto simp: may_buy_def abs_loop_def)
    then show ?thesis using off ch x it w0 Inl by (intro step_effectI [of w pv res w' C n]) (simp_all add: executed_def)
  next
    case (Inr r)
    have st: "lr_status r = status_of w'" using x Inr by (simp add: executed_def)
    have s0: "bd_spent (abs_loop w) = spent_so_far w" by (simp add: abs_loop_def)
    consider (ended) "status_of w' = Loop_READY \<and> spent_so_far w' = spent_so_far w + n \<or>
        loop_terminal (status_of w') \<and> spent_so_far w' \<in> {spent_so_far w, spent_so_far w + n}"
      | (wait) "status_of w' = Loop_WAITING_RECONCILE" "spent_so_far w' = spent_so_far w" "reserved w' = n"
      using x w0 Inr unfolding executed_def with_provider_views by fastforce
    then have "budget_step C n (abs_loop w) (abs_loop w')"
    proof cases
      case ended
      then have "status_of w' \<notin> {Loop_WAITING_HUMAN, Loop_WAITING_RECONCILE}" by (auto simp: loop_terminal_def)
      then have "abs_loop w' = \<lparr>bd_status = status_of w', bd_iteration = k, bd_spent = spent_so_far w', bd_reserved = 0\<rparr>"
        using it by (simp add: abs_loop_def)
      then show ?thesis using budget_buys [OF buy, of "status_of w'" "spent_so_far w'"] ended s0 by simp
    next
      case wait
      then have "abs_loop w' = \<lparr>bd_status = Loop_WAITING_RECONCILE, bd_iteration = k, bd_spent = spent_so_far w, bd_reserved = n\<rparr>"
        using it by (simp add: abs_loop_def)
      then show ?thesis using budget_times_out [OF buy] s0 by simp
    qed
    then show ?thesis using off ch st Inr ex by (intro step_effectI [where n = n]) (simp_all add: executed_paid_def w0(2))
  qed
qed

lemma propose_purchase_Inr:
  assumes "propose_purchase P E C usdg m c reason w = (Inr pr, w')"
  shows "w' = w \<and> 0 \<le> pi_usdg_in (ap_intent pr) \<and> pi_usdg_in (ap_intent pr) = clamp_usdg C (lw_state w) usdg"
proof -
  let ?j = "loop_intent P E C (lw_state w) (clamp_usdg C (lw_state w) usdg) m c"
  have "\<exists>i. mk_purchase_intent ?j = Inr i \<and> ap_intent pr = i \<and> w' = w"
    using assms by (auto simp: propose_purchase_def Let_def proposal_for_def split: if_splits sum.splits)
  then obtain i where i: "mk_purchase_intent ?j = Inr i" "ap_intent pr = i" "w' = w" by blast
  have "pi_usdg_in ?j = clamp_usdg C (lw_state w) usdg" by (simp add: loop_intent_def Let_def)
  then show ?thesis using mk_purchase_intent_Inr [OF i(1)] i by simp
qed

lemma propose_purchase_Inl:
  "propose_purchase P E C usdg m c reason w = (Inl x, w') \<Longrightarrow>
     spent_so_far w' = spent_so_far w \<and> iteration w' = iteration w \<and> provider_of w' = provider_of w"
  by (auto simp: propose_purchase_def Let_def set_status_run loop_views split: if_splits sum.splits)

lemma clamp_bounds:
  assumes "usdg \<le> lc_max_single_usdg C" "usdg \<le> lc_max_cumulative_usdg C - al_cumulative_usdg_spent a"
  shows "clamp_usdg C a usdg = usdg"
  using assms by (simp add: clamp_usdg_def)

lemma step_effect_raised:
  assumes "spent_so_far w' = spent_so_far w" "iteration w' \<le> max (iteration w) (lc_max_iterations C)" "provider_of w' = provider_of w"
  shows "step_effect C pv w (Inl x) w'"
  by (rule step_effectI [where n = 0]) (simp_all add: assms uncharged)

lemma submit_proposal_effect:
  assumes run: "submit_proposal C ops pv P abi E now pr w1 = (res, w')"
    and buy: "may_buy C (abs_loop w) (pi_usdg_in (ap_intent pr)) k" and ready: "status_of w = Loop_READY"
    and w1: "spent_so_far w1 = spent_so_far w" "provider_of w1 = provider_of w" "iteration w1 = k"
  shows "step_effect C pv w res w'"
proof (cases "bridge_prepare P abi E now (lw_policy w1) (ap_intent pr) (lw_approval w1)")
  case (Inl x)
  have "k \<le> max (iteration w) (lc_max_iterations C)" using buy by (auto simp: may_buy_def abs_loop_def)
  then show ?thesis using run Inl w1 step_effect_raised [of w' w C pv x] by (simp add: submit_proposal_def)
next
  case (Inr n)
  have k: "k = iteration w + 1" "iteration w + 1 \<le> lc_max_iterations C" using buy ready by (auto simp: may_buy_def abs_loop_def)
  show ?thesis
  proof (cases "qd_result (pn_decision n)")
    case Purchase_ALLOW
    then have "is_authorized n" by (simp add: is_authorized_def)
    from bridge_prepare_parameters [OF Inr this] have pn: "pn_intent n = ap_intent pr"
      "dict_get (pn_parameters n) ''usdg_in'' JNull = JInt (pi_usdg_in (ap_intent pr))" by simp_all
    have "execute_authorized C ops pv P (env_skip 2 E) pr n w1 = (res, w')"
      using run Inr Purchase_ALLOW by (simp add: submit_proposal_def)
    from execute_authorized_effect [OF this pn] show ?thesis using step_effect_executed buy w1 by blast
  next
    case Purchase_DENY
    then have "\<not> isl res \<and> lr_status (projr res) = Loop_STOPPED_POLICY_DENY \<and> status_of w' = Loop_STOPPED_POLICY_DENY \<and>
        spent_so_far w' = spent_so_far w1 \<and> iteration w' = iteration w1 \<and> provider_of w' = provider_of w1"
      using run Inr by (auto simp: submit_proposal_def act_bind_def set_status_run touch_def upd_state_def act_return_def
          plain_result_def loop_views)
    then show ?thesis using w1 k by (cases res) (auto intro!: step_effect_stop simp: loop_terminal_def)
  next
    case Purchase_HUMAN_CONFIRMATION_REQUIRED
    then have out: "\<not> isl res" "lr_status (projr res) = Loop_WAITING_HUMAN" "status_of w' = Loop_WAITING_HUMAN"
        "spent_so_far w' = spent_so_far w" "iteration w' = k" "provider_of w' = provider_of w"
        "lw_intent w' = Some (ap_intent pr)"
      using run Inr w1 by (auto simp: submit_proposal_def act_bind_def set_status_run touch_def upd_state_def act_return_def
          plain_result_def loop_views)
    have st: "bd_status (abs_loop w) = Loop_READY" "bd_spent (abs_loop w) = spent_so_far w" using ready by (simp_all add: abs_loop_def)
    have "abs_loop w' = \<lparr>bd_status = Loop_WAITING_HUMAN, bd_iteration = k, bd_spent = spent_so_far w,
        bd_reserved = pi_usdg_in (ap_intent pr)\<rparr>" using out by (simp add: abs_loop_def reserved_def)
    then have "budget_step C 0 (abs_loop w) (abs_loop w')" using budget_asks [OF st(1) buy] st(2) by simp
    then show ?thesis using out uncharged [OF out(6)]
      by (intro step_effectI [where n = 0]) (auto intro: waits_new_other split: sum.split)
  qed
qed

lemma propose_and_submit_effect:
  assumes run: "propose_and_submit C ops pv P abi E now usdg w = (res, w')"
    and usdg: "usdg \<le> lc_max_single_usdg C" "usdg \<le> lc_max_cumulative_usdg C - spent_so_far w"
    and ready: "status_of w = Loop_READY" and it: "iteration w < lc_max_iterations C"
  shows "step_effect C pv w res w'"
  using run unfolding propose_and_submit_def
proof (rule act_bind_cases)
  fix x assume "propose_purchase P E C usdg (max 1 ((usdg * 90) div 100)) (max 1 (usdg div 1000000))
       ''Need CREDIT for mission; proposing bounded purchase'' w = (Inl x, w')" and res: "res = Inl x"
  from propose_purchase_Inl [OF this(1)] show ?thesis unfolding res by (simp add: step_effect_raised)
next
  fix pr w1 assume "propose_purchase P E C usdg (max 1 ((usdg * 90) div 100)) (max 1 (usdg div 1000000))
       ''Need CREDIT for mission; proposing bounded purchase'' w = (Inr pr, w1)"
  from propose_purchase_Inr [OF this] clamp_bounds [of usdg C "lw_state w"] usdg
  have w1: "w1 = w" and n: "pi_usdg_in (ap_intent pr) = usdg" "0 \<le> usdg" by (simp_all add: loop_views)
  have buy: "may_buy C (abs_loop w) (pi_usdg_in (ap_intent pr)) (iteration w + 1)"
    using n usdg ready it by (simp add: may_buy_def abs_loop_def)
  let ?ih = "compute_purchase_intent_hash P (ap_intent pr)"
  let ?w2 = "w\<lparr>lw_state := (lw_state w)\<lparr>al_loop_iteration := al_loop_iteration (lw_state w) + 1, al_last_intent_hash := Some ?ih\<rparr>\<rparr>"
  assume rest: "(let ih = ?ih in
     if ih \<in> set (al_completed_intent_hashes (lw_state w1))
     then act_bind (stop_with E Loop_OBJECTIVE_COMPLETE (Some ''Duplicate objective intent already completed'') ''Duplicate intent blocked'')
       (\<lambda>r. act_return (r\<lparr>lr_proposal := Some pr\<rparr>)) w1
     else act_bind (upd_state (\<lambda>a. a\<lparr>al_loop_iteration := al_loop_iteration a + 1, al_last_intent_hash := Some ih\<rparr>)) (\<lambda>_.
       submit_proposal C ops pv P abi (env_skip 1 E) now pr) w1) = (res, w')"
  show ?thesis
  proof (cases "?ih \<in> set (al_completed_intent_hashes (lw_state w))")
    case True
    then show ?thesis using rest w1
      by (auto simp: stop_with_def act_bind_def set_status_run touch_def upd_state_def act_return_def plain_result_def
          loop_terminal_def loop_views intro!: step_effect_stop)
  next
    case False
    then have "submit_proposal C ops pv P abi (env_skip 1 E) now pr ?w2 = (res, w')"
      using rest w1 by (simp add: act_bind_def upd_state_def)
    from submit_proposal_effect [OF this buy ready] show ?thesis by (simp add: loop_views)
  qed
qed

lemma loop_ready_step_effect:
  assumes run: "loop_ready_step C ops pv P abi E now w = (res, w')" and ready: "status_of w = Loop_READY"
  shows "step_effect C pv w res w'"
proof -
  let ?usdg = "min (usdg_for_credit_need C (credit_still_needed (lw_state w)))
            (min (lc_max_single_usdg C) (lc_max_cumulative_usdg C - al_cumulative_usdg_spent (lw_state w)))"
  have stop: "stop_with E st m msg w = (res, w') \<Longrightarrow> loop_terminal st \<Longrightarrow> step_effect C pv w res w'" for st m msg
    by (rule step_effect_stop_with)
  have go: "propose_and_submit C ops pv P abi E now ?usdg w = (res, w') \<Longrightarrow> iteration w < lc_max_iterations C \<Longrightarrow>
      step_effect C pv w res w'" using propose_and_submit_effect ready by (fastforce simp: loop_views)
  show ?thesis using run stop go unfolding loop_ready_step_def Let_def
    by (auto simp: loop_terminal_def loop_views split: if_splits)
qed

lemma handle_waiting_human_effect:
  assumes run: "handle_waiting_human C ops pv P abi E now w = (res, w')" and st: "status_of w = Loop_WAITING_HUMAN"
  shows "step_effect C pv w res w'"
proof (cases "lw_intent w")
  case None
  then show ?thesis using run by (auto simp: handle_waiting_human_def loop_terminal_def dest: step_effect_stop_with)
next
  case (Some i)
  have waits: "step_effect C pv w (Inr r) w'" if "lr_status r = Loop_WAITING_HUMAN" "status_of w' = Loop_WAITING_HUMAN"
      "spent_so_far w' = spent_so_far w" "iteration w' = iteration w" "lw_intent w' = lw_intent w" "provider_of w' = provider_of w" for r
  proof -
    have "abs_loop w' = abs_loop w" using that st by (simp add: abs_loop_def reserved_def)
    moreover have "budget_step C 0 (abs_loop w) (abs_loop w)" using st by (auto intro: budget_waits simp: abs_loop_def)
    ultimately show ?thesis using that uncharged [OF that(6)] by (intro step_effectI [where n = 0]) (auto intro: waits_new_other)
  qed
  show ?thesis
  proof (cases "lw_approval w")
    case None
    then have res: "res = Inr (plain_result Loop_WAITING_HUMAN ''Still waiting for human approval'')" "w' = w"
      using run Some by (simp_all add: handle_waiting_human_def)
    show ?thesis unfolding res(1) by (rule waits) (simp_all add: res(2) st plain_result_def)
  next
    case (Some ap)
    show ?thesis
    proof (cases "bridge_prepare P abi E now (lw_policy w) i (lw_approval w)")
      case (Inl x)
      then show ?thesis using run \<open>lw_intent w = Some i\<close> Some by (auto simp: handle_waiting_human_def intro!: step_effect_raised)
    next
      case (Inr n)
      show ?thesis
      proof (cases "is_authorized n")
        case False
        then have "\<exists>r. res = Inr r \<and> lr_status r = Loop_WAITING_HUMAN" and w': "status_of w' = Loop_WAITING_HUMAN"
            "spent_so_far w' = spent_so_far w" "iteration w' = iteration w" "lw_intent w' = lw_intent w" "provider_of w' = provider_of w"
          using run \<open>lw_intent w = Some i\<close> Some Inr
          by (auto simp: handle_waiting_human_def act_bind_def set_status_run touch_def upd_state_def act_return_def plain_result_def loop_views)
        then obtain r where r: "res = Inr r" "lr_status r = Loop_WAITING_HUMAN" by blast
        show ?thesis unfolding r(1) by (rule waits) (simp_all add: r(2) w')
      next
        case True
        let ?w1 = "w\<lparr>lw_state := (lw_state w)\<lparr>al_status := Loop_READY\<rparr>\<rparr>"
        let ?pr = "proposal_for (lw_state w) i ''Resuming after human approval'' ''Activate CREDIT after human approval''"
        have i: "ap_intent ?pr = i" by (simp add: proposal_for_def)
        have "execute_authorized C ops pv P (env_skip 2 E) ?pr n ?w1 = (res, w')"
          using run \<open>lw_intent w = Some i\<close> Some Inr True by (simp add: handle_waiting_human_def act_bind_def set_status_run)
        moreover note bridge_prepare_parameters [OF Inr True]
        ultimately have ex: "executed_paid pv (pi_usdg_in i) ?w1 res w'" using execute_authorized_effect i by fastforce
        have "may_buy C (abs_loop w) (pi_usdg_in i) (iteration w)"
          using st \<open>lw_intent w = Some i\<close> by (simp add: may_buy_def abs_loop_def reserved_def)
        from step_effect_executed [OF ex this] show ?thesis by (simp add: loop_views)
      qed
    qed
  qed
qed

lemma after_reconcile_effect:
  assumes run: "after_reconcile P E i report w = (res, w')" and rep: "report_for i report"
    and st: "status_of w = Loop_WAITING_RECONCILE" and i: "lw_intent w = Some i"
  shows "provider_of w' = provider_of w \<and> (\<exists>r. res = Inr r \<and> lr_status r = status_of w' \<and> budget_step C 0 (abs_loop w) (abs_loop w') \<and>
     (vf_result report \<noteq> Verification_PENDING_EVIDENCE \<longrightarrow> status_of w' \<noteq> Loop_WAITING_RECONCILE \<and> status_of w' \<noteq> Loop_WAITING_HUMAN))"
proof (cases "vf_result report")
  case Verification_PENDING_EVIDENCE
  then have "\<exists>r. res = Inr r \<and> lr_status r = status_of w' \<and> abs_loop w' = abs_loop w \<and> provider_of w' = provider_of w"
    using run st by (auto simp: after_reconcile_def Let_def note_verification_def act_bind_def set_status_run touch_def upd_state_def
        act_return_def reconcile_result_def plain_result_def abs_loop_def loop_views)
  moreover have "budget_step C 0 (abs_loop w) (abs_loop w)" using st by (auto intro: budget_waits simp: abs_loop_def)
  ultimately show ?thesis using Verification_PENDING_EVIDENCE by auto
next
  case Verification_REJECTED
  then have r: "\<exists>r. res = Inr r \<and> lr_status r = status_of w'" "status_of w' = Loop_STOPPED_FAILURE" "provider_of w' = provider_of w"
      "abs_loop w' = \<lparr>bd_status = Loop_STOPPED_FAILURE, bd_iteration = iteration w, bd_spent = spent_so_far w, bd_reserved = 0\<rparr>"
    using run by (auto simp: after_reconcile_def Let_def note_verification_def act_bind_def set_status_run touch_def upd_state_def
        act_return_def reconcile_result_def plain_result_def abs_loop_def loop_views)
  have "budget_step C 0 (abs_loop w) (abs_loop w')"
    using budget_stops [of Loop_STOPPED_FAILURE "iteration w" "abs_loop w" C] unfolding r(4) by (simp add: abs_loop_def loop_terminal_def)
  then show ?thesis using r by auto
next
  case Verification_VERIFIED
  obtain c u where cu: "evidence_amounts report 0 = (c, u)" by fastforce
  have "snd (evidence_amounts report 0) = pi_usdg_in i"
    using rep Verification_VERIFIED by (simp add: report_for_def report_is_verified_def)
  with cu have u: "u = pi_usdg_in i" by simp
  have r: "\<exists>r. res = Inr r \<and> lr_status r = status_of w'" "status_of w' \<in> {Loop_READY, Loop_OBJECTIVE_COMPLETE}"
      "provider_of w' = provider_of w" "iteration w' = iteration w" "spent_so_far w' = spent_so_far w + pi_usdg_in i"
    using run Verification_VERIFIED cu u
    by (auto simp: after_reconcile_def Let_def note_verification_def act_bind_def set_status_run touch_def upd_state_def
        act_return_def reconcile_result_def plain_result_def book_purchase_def loop_views split: if_splits)
  have "abs_loop w' = \<lparr>bd_status = status_of w', bd_iteration = bd_iteration (abs_loop w),
      bd_spent = bd_spent (abs_loop w) + bd_reserved (abs_loop w), bd_reserved = 0\<rparr>"
    using r st i by (auto simp: abs_loop_def reserved_def)
  then have "budget_step C 0 (abs_loop w) (abs_loop w')"
    using budget_settles [of "abs_loop w" "status_of w'" C] r(2) st by (auto simp: loop_terminal_def abs_loop_def)
  then show ?thesis using r by auto
qed

lemma reconcile_pending_effect:
  assumes run: "reconcile_pending ops pv P E i op w = (res, w')"
  shows "asked pv (provider_of w) (provider_of w') \<and> spent_so_far w' = spent_so_far w \<and> iteration w' = iteration w \<and>
     status_of w' = status_of w \<and> lw_intent w' = lw_intent w \<and>
     (\<forall>out report. res = Inr out \<longrightarrow> ro_verification out = Some report \<longrightarrow> report_for i report)"
proof -
  let ?x = "\<lparr>pw_cs = lw_cs w, pw_verified = lw_verified w, pw_op = op\<rparr>"
  obtain r x where x: "reconcile_purchase ops pv P E i ?x = (r, x)" by fastforce
  then have "res = r" "w' = w\<lparr>lw_cs := pw_cs x, lw_verified := pw_verified x, lw_pending := Some (pw_op x)\<rparr>"
    using run by (simp_all add: reconcile_pending_def)
  then show ?thesis using reconcile_purchase_effect [OF x] by (simp add: rec_asked_def loop_views)
qed

lemma handle_reconcile_effect:
  assumes run: "handle_reconcile C ops pv P E w = (res, w')" and st: "status_of w = Loop_WAITING_RECONCILE"
  shows "step_effect C pv w res w'"
proof (cases "\<exists>op i. lc_has_reconciler C \<and> lw_pending w = Some op \<and> lw_intent w = Some i")
  case False
  then have "\<exists>reason msg. stop_with E Loop_STOPPED_UNKNOWN reason msg w = (res, w')"
    using run unfolding handle_reconcile_def by (auto split: prod.splits bool.splits option.splits)
  then show ?thesis by (auto intro: step_effect_stop_with simp: loop_terminal_def)
next
  case True
  then obtain op i where op: "lc_has_reconciler C" "lw_pending w = Some op" "lw_intent w = Some i" by blast
  then have "act_bind (reconcile_pending ops pv P E i op) (\<lambda>out.
          case ro_verification out of
            None \<Rightarrow> stop_with E Loop_STOPPED_UNKNOWN None ''No verification on reconcile''
          | Some report \<Rightarrow> after_reconcile P (env_skip 12 E) i report) w = (res, w')"
    using run by (simp add: handle_reconcile_def)
  then show ?thesis
  proof (rule act_bind_cases)
    fix x assume "reconcile_pending ops pv P E i op w = (Inl x, w')" "res = Inl x"
    then show ?thesis using reconcile_pending_effect [of ops pv P E i op w "Inl x" w'] st
      by (intro step_effectI [where n = 0]) (simp_all add: charged_def)
  next
    fix out w1 assume rec: "reconcile_pending ops pv P E i op w = (Inr out, w1)"
      and rest: "(case ro_verification out of
            None \<Rightarrow> stop_with E Loop_STOPPED_UNKNOWN None ''No verification on reconcile''
          | Some report \<Rightarrow> after_reconcile P (env_skip 12 E) i report) w1 = (res, w')"
    note eff = reconcile_pending_effect [OF rec]
    have abs1: "abs_loop w1 = abs_loop w" using eff by (simp add: abs_loop_def reserved_def)
    show ?thesis
    proof (cases "ro_verification out")
      case None
      obtain w2 where w2: "stop_with E Loop_STOPPED_UNKNOWN None ''No verification on reconcile'' w1 =
          (Inr (plain_result Loop_STOPPED_UNKNOWN ''No verification on reconcile''), w2)"
        "status_of w2 = Loop_STOPPED_UNKNOWN" "spent_so_far w2 = spent_so_far w1" "iteration w2 = iteration w1" "provider_of w2 = provider_of w1"
        using stop_with_run [of E Loop_STOPPED_UNKNOWN None "''No verification on reconcile''" w1] by blast
      have res: "res = Inr (plain_result Loop_STOPPED_UNKNOWN ''No verification on reconcile'')" "w' = w2" using rest None w2(1) by simp_all
      have "abs_loop w' = \<lparr>bd_status = Loop_STOPPED_UNKNOWN, bd_iteration = bd_iteration (abs_loop w), bd_spent = bd_spent (abs_loop w), bd_reserved = 0\<rparr>"
        using abs_terminal [of w2] w2 res eff by (simp add: loop_terminal_def abs_loop_def)
      moreover have "budget_step C 0 (abs_loop w) \<lparr>bd_status = Loop_STOPPED_UNKNOWN, bd_iteration = bd_iteration (abs_loop w),
          bd_spent = bd_spent (abs_loop w), bd_reserved = 0\<rparr>" by (rule budget_stops) (simp_all add: loop_terminal_def)
      ultimately have step: "budget_step C 0 (abs_loop w) (abs_loop w')" by simp
      have "charged pv 0 w w'" using eff w2(5) res(2) by (simp add: charged_def)
      then show ?thesis using step res(1) w2(2) res(2) st by (intro step_effectI [where n = 0]) (simp_all add: plain_result_def)
    next
      case (Some report)
      then have run2: "after_reconcile P (env_skip 12 E) i report w1 = (res, w')" using rest by simp
      have rep: "report_for i report" using eff Some by blast
      have w1: "status_of w1 = Loop_WAITING_RECONCILE" "lw_intent w1 = Some i" using eff st op by simp_all
      obtain r where r: "res = Inr r" "lr_status r = status_of w'" "budget_step C 0 (abs_loop w1) (abs_loop w')"
          "provider_of w' = provider_of w1"
        using after_reconcile_effect [OF run2 rep w1] by blast
      have "charged pv 0 w w'" using eff r(4) by (simp add: charged_def)
      then show ?thesis using r abs1 st by (intro step_effectI [where n = 0]) simp_all
    qed
  qed
qed

lemma loop_step_effect:
  assumes run: "loop_step C ops pv P abi E now w = (res, w')"
  shows "step_effect C pv w res w'"
proof (cases "objective_met (lw_state w)")
  case True
  then show ?thesis using run by (auto simp: loop_step_def loop_terminal_def dest: step_effect_stop_with)
next
  case False
  have same: "step_effect C pv w (Inr (plain_result (status_of w) ''Loop stopped'')) w" if "loop_terminal (status_of w)"
    using that by (auto intro!: step_effect_stop simp: plain_result_def)
  show ?thesis using run False handle_waiting_human_effect handle_reconcile_effect loop_ready_step_effect same
    unfolding loop_step_def by (cases "al_status (lw_state w)") (auto simp: status_of_def loop_terminal_def)
qed

text \<open>
  C11: the loop refines its budget.  A step that returns is a step of the budget machine: it stops, waits, asks a human, or buys, once per
  proposal and within the remaining budget; what the loop counts as spent is what the purchase was authorised for, and the provider is
  called with that amount at most once.
\<close>

theorem loop_refines_budget:
  assumes "loop_step C ops pv P abi E now w = (Inr r, w')"
  shows "lr_status r = al_status (lw_state w') \<and> (\<exists>n. budget_step C n (abs_loop w) (abs_loop w') \<and> charged pv n w w')"
  using loop_step_effect [OF assms] by (auto simp: step_effect_def status_of_def)

section \<open>Bounds\<close>

text \<open>A provider that charges at most the amount of an operation, and nothing for a query.\<close>

locale metered_provider =
  fixes pv :: "'p provider_ops" and cost :: "'p \<Rightarrow> int"
  assumes execute_cost: "po_execute pv op p = (a, p') \<Longrightarrow> pget op ''usdg_in'' = JInt n \<Longrightarrow> 0 \<le> n \<Longrightarrow> cost p' \<le> cost p + n"
    and status_cost: "po_status pv i k ref p = (a, p') \<Longrightarrow> cost p' = cost p"
begin

lemma asked_cost: "asked pv p p' \<Longrightarrow> cost p' = cost p"
  unfolding asked_def by (induction rule: rtranclp_induct) (auto dest: status_cost)

lemma charged_cost: "charged pv n w w' \<Longrightarrow> 0 \<le> n \<Longrightarrow> cost (provider_of w') \<le> cost (provider_of w) + n"
  unfolding charged_def paid_def using execute_cost asked_cost by fastforce

text \<open>What was paid is booked, or reserved by the purchase that waits.\<close>

definition in_budget :: "loop_config \<Rightarrow> int \<Rightarrow> ('l, 'p) loop_world \<Rightarrow> bool" where
  "in_budget C c0 w \<longleftrightarrow> (let b = abs_loop w; c = cost (provider_of w) - c0 in
     bd_iteration b \<le> lc_max_iterations C \<and> 0 \<le> bd_reserved b \<and> bd_spent b + bd_reserved b \<le> lc_max_cumulative_usdg C \<and>
     c \<le> lc_max_cumulative_usdg C \<and> (bd_status b \<in> {Loop_READY, Loop_WAITING_HUMAN} \<longrightarrow> c \<le> bd_spent b) \<and>
     (bd_status b = Loop_WAITING_RECONCILE \<longrightarrow> c \<le> bd_spent b + bd_reserved b))"

lemma budget_step_in_budget:
  assumes "budget_step C n (abs_loop w) (abs_loop w')" "charged pv n w w'" "in_budget C c0 w"
  shows "in_budget C c0 w'"
proof -
  have n: "0 \<le> n" using assms(1,3) by cases (auto simp: may_buy_def in_budget_def Let_def)
  have c: "cost (provider_of w') \<le> cost (provider_of w) + n" using charged_cost assms(2) n by blast
  from assms(1) show ?thesis
    by cases (use assms(3) c n in \<open>auto simp: in_budget_def Let_def may_buy_def loop_terminal_def\<close>)
qed

lemma loop_step_in_budget:
  assumes "loop_step C ops pv P abi E now w = (Inr r, w')" "in_budget C c0 w"
  shows "in_budget C c0 w'"
  using loop_step_effect [OF assms(1)] budget_step_in_budget assms(2) by (auto simp: step_effect_def)

lemma loop_step_bounds:
  assumes "loop_step C ops pv P abi E now w = (res, w')" "in_budget C c0 w"
  shows "iteration w' \<le> lc_max_iterations C \<and> spent_so_far w' \<le> lc_max_cumulative_usdg C \<and>
     cost (provider_of w') - c0 \<le> lc_max_cumulative_usdg C"
proof (cases res)
  case (Inr r)
  then have "in_budget C c0 w'" using assms loop_step_in_budget by blast
  then show ?thesis by (auto simp: in_budget_def Let_def abs_loop_def split: if_splits)
next
  case (Inl x)
  obtain n where off: "offered C (abs_loop w) n" and ch: "charged pv n w w'" and
      rest: "spent_so_far w' = spent_so_far w" "iteration w' \<le> max (iteration w) (lc_max_iterations C)"
    using loop_step_effect [OF assms(1)] Inl by (auto simp: step_effect_def)
  have n: "0 \<le> n" using off assms(2) by (auto simp: offered_def may_buy_def in_budget_def Let_def)
  have "cost (provider_of w') \<le> cost (provider_of w) + n" using charged_cost ch n by blast
  moreover have "cost (provider_of w) - c0 + n \<le> lc_max_cumulative_usdg C"
    using off assms(2) by (auto simp: offered_def may_buy_def in_budget_def Let_def)
  ultimately show ?thesis using rest assms(2) by (auto simp: in_budget_def Let_def abs_loop_def split: if_splits)
qed

end

text \<open>
  Runs of the loop.  Between the steps a human may supply approvals, approvals are issued and revoked, and the
  books, the log and the organisation may change.
\<close>

inductive loop_run ::
  "loop_config \<Rightarrow> 'l entry_ops \<Rightarrow> 'p provider_ops \<Rightarrow> prims \<Rightarrow> abi \<Rightarrow> ('l, 'p) loop_world \<Rightarrow> ('l, 'p) loop_world \<Rightarrow> bool"
  for C ops pv P abi where
  run_step: "loop_step C ops pv P abi E now w = (Inr r, w') \<Longrightarrow> loop_run C ops pv P abi w w'"
| run_approve: "loop_run C ops pv P abi w (supply_human_approval a w)"
| run_policy: "policy_step P (lw_policy w) p \<Longrightarrow> loop_run C ops pv P abi w (w\<lparr>lw_policy := p\<rparr>)"
| run_others: "cs_provider s = provider_of w \<Longrightarrow> loop_run C ops pv P abi w (w\<lparr>lw_cs := s\<rparr>)"

text \<open>Everyone but the loop leaves its budget and the provider alone.\<close>

lemma loop_run_others:
  assumes "loop_run C ops pv P abi w w'"
  shows "(\<exists>E now r. loop_step C ops pv P abi E now w = (Inr r, w')) \<or> abs_loop w' = abs_loop w \<and> provider_of w' = provider_of w"
  using assms by cases (auto simp: supply_human_approval_def abs_loop_def loop_views)

context metered_provider
begin

lemma runs_in_budget:
  assumes "(loop_run C ops pv P abi)\<^sup>*\<^sup>* w0 w" "in_budget C c0 w0"
  shows "in_budget C c0 w"
  using assms(1)
proof (induction rule: rtranclp_induct)
  case base
  show ?case by (rule assms(2))
next
  case (step y z)
  from loop_run_others [OF step(2)] show ?case
  proof
    assume "\<exists>E now r. loop_step C ops pv P abi E now y = (Inr r, z)"
    then show ?thesis using loop_step_in_budget step(3) by blast
  next
    assume "abs_loop z = abs_loop y \<and> provider_of z = provider_of y"
    then show ?thesis using step(3) by (simp add: in_budget_def)
  qed
qed

lemma start_in_budget:
  assumes "lw_state w = new_loop_state E agent tid oid mission objective target"
    and "0 \<le> lc_max_iterations C" "0 \<le> lc_max_cumulative_usdg C"
  shows "in_budget C (cost (provider_of w)) w"
  using assms by (simp add: in_budget_def Let_def abs_loop_def loop_views new_loop_state_def)

end

text \<open>The exchange is such a provider.\<close>

definition total_spent :: "exchange \<Rightarrow> int" where
  "total_spent X = sum_list (map (xr_usdg_spent \<circ> snd) (ex_records X))"

lemma total_spent_update_same:
  "map_of rs k = Some r \<Longrightarrow> xr_usdg_spent r' = xr_usdg_spent r \<Longrightarrow>
     sum_list (map (xr_usdg_spent \<circ> snd) (AList.update k r' rs)) = sum_list (map (xr_usdg_spent \<circ> snd) rs)"
  by (induction rs) (auto split: if_splits)

lemma settle_failure_spent:
  assumes "op_idempotency_key op \<notin> fst ` set (ex_records X)"
  shows "total_spent (snd (settle_exchange_failure P op reason fp X)) = total_spent X"
  using assms by (simp add: settle_exchange_failure_def Let_def put_exchange_record_def total_spent_def update_new)

lemma settle_success_spent:
  assumes "op_idempotency_key op \<notin> fst ` set (ex_records X)"
  shows "total_spent (snd (settle_exchange_success P op c n m fp X)) = total_spent X + n"
  using assms by (simp add: settle_exchange_success_def Let_def put_exchange_record_def charge_def total_spent_def update_new)

lemma settle_economics_spent:
  assumes "op_idempotency_key op \<notin> fst ` set (ex_records X)" "0 \<le> n"
  shows "total_spent (snd (settle_by_economics P op n m fp X)) \<le> total_spent X + n"
  using assms by (simp add: settle_by_economics_def settle_failure_spent settle_success_spent)

lemma exchange_execute_spent:
  assumes "exchange_execute P op X0 = (a, X')" "pget op ''usdg_in'' = JInt n" "0 \<le> n"
  shows "total_spent X' \<le> total_spent X0 + n"
proof -
  let ?key = "op_idempotency_key op"
  define X where "X = X0\<lparr>ex_attempts := AList.update ?key (dict_get (ex_attempts X0) ?key 0 + 1) (ex_attempts X0)\<rparr>"
  have X: "total_spent X = total_spent X0" by (simp add: X_def total_spent_def)
  have "map_of (op_parameters op) ''usdg_in'' = Some (JInt n)"
    using assms(2) by (auto simp: pget_def param_get_def dict_get_def split: option.splits)
  then have amount: "int_get op ''usdg_in'' 0 = Inr n" by (simp add: int_get_def)
  have X': "X' = snd (exchange_execute P op X0)" using assms(1) by simp
  show ?thesis
  proof (cases "map_of (ex_records X) ?key")
    case None
    then have new: "?key \<notin> fst ` set (ex_records X)" by (simp add: map_of_eq_None_iff)
    show ?thesis unfolding X' exchange_execute_def Let_def X_def [symmetric]
      using None X assms(3) settle_failure_spent [OF new] settle_economics_spent [OF new]
      by (simp add: amount case_prod_beta split: sum.split)
  next
    case (Some r)
    then show ?thesis unfolding X' exchange_execute_def Let_def X_def [symmetric]
      using X assms(3) total_spent_update_same [OF Some] by (simp add: total_spent_def split: sum.split)
  qed
qed

interpretation xpv: metered_provider "exchange_ops P" total_spent
  by unfold_locales (auto simp: exchange_ops_def exchange_status_def intro: exchange_execute_spent)

text \<open>
  C8: the loop stays in its budget.  However it is run, whatever a human, the policy and the other users of the books
  do in between, and whether a step returns or raises, the loop proposes at most \<open>max_iterations\<close> purchases,
  books at most \<open>max_cumulative_usdg\<close>, and the exchange has been paid no more than that, timeouts that settled
  in the background included.
\<close>

theorem loop_spend_bounded:
  assumes "lw_state w0 = new_loop_state E0 agent tid oid mission objective target"
    and "0 \<le> lc_max_iterations C" "0 \<le> lc_max_cumulative_usdg C"
    and "(loop_run C ops (exchange_ops P) P abi)\<^sup>*\<^sup>* w0 w" "loop_step C ops (exchange_ops P) P abi E now w = (res, w')"
  shows "al_loop_iteration (lw_state w') \<le> lc_max_iterations C \<and>
     al_cumulative_usdg_spent (lw_state w') \<le> lc_max_cumulative_usdg C \<and>
     total_spent (cs_provider (lw_cs w')) \<le> total_spent (cs_provider (lw_cs w0)) + lc_max_cumulative_usdg C"
proof -
  have "xpv.in_budget C (total_spent (provider_of w0)) w"
    using xpv.runs_in_budget [OF assms(4)] xpv.start_in_budget [OF assms(1-3)] by blast
  from xpv.loop_step_bounds [OF assms(5) this] show ?thesis by (simp add: loop_views)
qed

section \<open>Termination\<close>

text \<open>Every step that is not spent waiting uses up some of this.\<close>

fun loop_measure :: "loop_config \<Rightarrow> budget \<Rightarrow> nat" where
  "loop_measure C b = (case bd_status b of
       Loop_READY \<Rightarrow> 3 * nat (lc_max_iterations C - bd_iteration b) + 1
     | Loop_WAITING_HUMAN \<Rightarrow> 3 * nat (lc_max_iterations C - bd_iteration b) + 3
     | Loop_WAITING_RECONCILE \<Rightarrow> 3 * nat (lc_max_iterations C - bd_iteration b) + 2
     | _ \<Rightarrow> 0)"

lemma measure_terminal: "loop_terminal (bd_status b) \<Longrightarrow> loop_measure C b = 0"
  by (cases "bd_status b") (simp_all add: loop_terminal_def)

lemma measure_positive: "\<not> loop_terminal (bd_status b) \<Longrightarrow> 0 < loop_measure C b"
  by (cases "bd_status b") (simp_all add: loop_terminal_def)

lemma budget_step_decreases:
  assumes "budget_step C n b b'" "\<not> loop_terminal (bd_status b)" "b' \<noteq> b"
  shows "loop_measure C b' < loop_measure C b"
  using assms(1)
proof cases
  case (budget_stops st k)
  then show ?thesis using measure_terminal [of b' C] measure_positive [OF assms(2)] by simp
next
  case (budget_buys k st s)
  then show ?thesis
  proof (cases "loop_terminal st")
    case True
    then show ?thesis using budget_buys measure_terminal [of b' C] measure_positive [OF assms(2)] by simp
  qed (auto simp: may_buy_def)
next
  case (budget_settles st)
  then show ?thesis
  proof (cases "loop_terminal st")
    case True
    then show ?thesis using budget_settles measure_terminal [of b' C] measure_positive [OF assms(2)] by simp
  qed auto
qed (use assms(2,3) in \<open>auto simp: may_buy_def\<close>)

text \<open>A run with \<open>k\<close> steps of an active loop that are not spent waiting.\<close>

inductive progress_run ::
  "loop_config \<Rightarrow> 'l entry_ops \<Rightarrow> 'p provider_ops \<Rightarrow> prims \<Rightarrow> abi \<Rightarrow> nat \<Rightarrow> ('l, 'p) loop_world \<Rightarrow> ('l, 'p) loop_world \<Rightarrow> bool"
  for C ops pv P abi where
  progress_none: "progress_run C ops pv P abi 0 w w"
| progress_wait: "progress_run C ops pv P abi k w w1 \<Longrightarrow> loop_run C ops pv P abi w1 w2 \<Longrightarrow> abs_loop w2 = abs_loop w1 \<Longrightarrow>
     progress_run C ops pv P abi k w w2"
| progress_step: "progress_run C ops pv P abi k w w1 \<Longrightarrow> loop_step C ops pv P abi E now w1 = (Inr r, w2) \<Longrightarrow>
     \<not> loop_terminal (status_of w1) \<Longrightarrow> abs_loop w2 \<noteq> abs_loop w1 \<Longrightarrow> progress_run C ops pv P abi (Suc k) w w2"

text \<open>
  C10: the loop terminates.  Whatever the provider and the humans do, a loop of \<open>m\<close> iterations makes at most
  \<open>3 m + 1\<close> steps that are not spent waiting for a human or for the provider.
\<close>

theorem loop_terminates:
  assumes "progress_run C ops pv P abi k w w'" "lw_state w = new_loop_state E0 agent tid oid mission objective target"
  shows "k \<le> 3 * nat (lc_max_iterations C) + 1"
proof -
  have "k + loop_measure C (abs_loop w') \<le> loop_measure C (abs_loop w)"
    using assms(1)
  proof (induction rule: progress_run.induct)
    case (progress_step k w w1 E now r w2)
    have "\<exists>n. budget_step C n (abs_loop w1) (abs_loop w2)"
      using loop_step_effect [OF progress_step(2)] by (auto simp: step_effect_def)
    then have "loop_measure C (abs_loop w2) < loop_measure C (abs_loop w1)"
      using budget_step_decreases progress_step(3,4) by (fastforce simp: abs_loop_def)
    then show ?case using progress_step(5) by simp
  qed simp_all
  moreover have "loop_measure C (abs_loop w) = 3 * nat (lc_max_iterations C) + 1"
    using assms(2) by (simp add: abs_loop_def loop_views new_loop_state_def)
  ultimately show ?thesis by simp
qed

section \<open>A run that is not left waiting for the exchange\<close>

text \<open>Timeouts of the exchange are decided in the background, one way or the other.\<close>

definition exchange_decides :: "exchange \<Rightarrow> bool" where
  "exchange_decides X \<longleftrightarrow> ex_timeout_keys X \<subseteq> ex_background_success X \<union> ex_background_failure X \<and>
     (\<forall>r \<in> snd ` set (ex_records X). decided (xr_outcome r))"

definition known_operation :: "string \<Rightarrow> exchange \<Rightarrow> bool" where
  "known_operation i X \<longleftrightarrow> (\<exists>r \<in> snd ` set (ex_records X). xr_operation_id r = i)"

lemma put_decided:
  assumes "exchange_decides X" "op_idempotency_key op \<notin> fst ` set (ex_records X)"
  shows "exchange_decides (snd (settle_exchange_failure P op reason fp X)) \<and>
      known_operation (op_id op) (snd (settle_exchange_failure P op reason fp X))"
    and "exchange_decides (snd (settle_by_economics P op n m fp X)) \<and>
      known_operation (op_id op) (snd (settle_by_economics P op n m fp X))"
  using assms
  by (simp_all add: settle_by_economics_def settle_exchange_failure_def settle_exchange_success_def Let_def put_exchange_record_def
      charge_def update_new exchange_decides_def known_operation_def decided_def)

lemma result_from_record_outcome: "px_outcome (result_from_record r P dup) = xr_outcome r"
  by (simp add: result_from_record_def Let_def)

lemma exchange_execute_decides:
  assumes "exchange_execute P op X0 = (a, X')" "exchange_decides X0"
  shows "exchange_decides X' \<and> (\<forall>r. a = Inr r \<longrightarrow> px_outcome r = Outcome_TIMEOUT \<longrightarrow> known_operation (op_id op) X')"
proof -
  let ?key = "op_idempotency_key op"
  define X where "X = X0\<lparr>ex_attempts := AList.update ?key (dict_get (ex_attempts X0) ?key 0 + 1) (ex_attempts X0)\<rparr>"
  have X: "exchange_decides X" using assms(2) by (simp add: exchange_decides_def X_def)
  have ruled: "ruled op (ex_timeout_keys X) \<longrightarrow> ruled op (ex_background_success X) \<or> ruled op (ex_background_failure X)"
    using X by (auto simp: exchange_decides_def ruled_def)
  note run = assms(1) [unfolded exchange_execute_def Let_def, folded X_def]
  show ?thesis
  proof (cases "map_of (ex_records X) ?key")
    case None
    then have new: "?key \<notin> fst ` set (ex_records X)" by (simp add: map_of_eq_None_iff)
    have out: "px_outcome (result_from_record (fst (settle_exchange_failure P op reason fp X)) P dup) = Outcome_FAILURE"
      "px_outcome (result_from_record (fst (settle_by_economics P op n m fp X)) P dup) \<noteq> Outcome_TIMEOUT" for reason fp dup n m
      by (simp_all add: result_from_record_outcome settle_by_economics_def settle_exchange_failure_def settle_exchange_success_def Let_def)
    note facts = put_decided [OF X new] out
    from run None X ruled show ?thesis
      by (auto simp: facts case_prod_beta exchange_refusal_def split: sum.splits if_splits)
  next
    case (Some r)
    let ?X = "X\<lparr>ex_records := AList.update ?key (r\<lparr>xr_submission_count := xr_submission_count r + 1\<rparr>) (ex_records X)\<rparr>"
    have dec: "decided (xr_outcome r)" using Some X by (force simp: exchange_decides_def dest: map_of_SomeD)
    then have "exchange_decides ?X" using X by (auto simp: exchange_decides_def dest!: update_mem)
    then show ?thesis using run Some X dec
      by (auto simp: exchange_refusal_def result_from_record_outcome decided_def split: sum.splits if_splits)
  qed
qed

lemma exchange_status_decides:
  assumes "known_operation i X" "exchange_decides X"
  shows "\<exists>st. exchange_status P i key ref X = (Inr st, X) \<and> decided (px_outcome st)"
proof -
  have ne: "find (\<lambda>r. xr_operation_id r = i) (map snd (ex_records X)) \<noteq> None"
    using assms(1) by (auto simp: known_operation_def find_None_iff)
  have found: "find Q (map snd (ex_records X)) = Some r \<Longrightarrow> r \<in> snd ` set (ex_records X)" for Q r
    by (drule find_SomeD) auto
  have keyed: "map_of (ex_records X) key = Some r \<Longrightarrow> r \<in> snd ` set (ex_records X)" for r
    by (drule map_of_SomeD) force
  have mem: "exchange_lookup X i key ref = Some r \<Longrightarrow> r \<in> snd ` set (ex_records X)" for r
    using found keyed unfolding exchange_lookup_def Let_def by (auto split: option.splits if_splits)
  have "exchange_lookup X i key ref \<noteq> None" using ne by (auto simp: exchange_lookup_def Let_def split: option.split)
  then obtain r where "exchange_lookup X i key ref = Some r" by blast
  then show ?thesis using mem assms(2) by (auto simp: exchange_status_def exchange_decides_def)
qed

text \<open>A decided status is verified or rejected, never left pending.\<close>

lemma verify_execution_decides:
  assumes "verify_execution P E i r op V = (Inr report, V')" "decided (px_outcome r)"
  shows "vf_result report \<noteq> Verification_PENDING_EVIDENCE"
proof -
  from assms(1) obtain e where e: "extract_evidence P r op = Inr e"
      "verify_evidence P E i e (Some (px_outcome r)) (px_reference r) V = (Inr report, V')"
    unfolding verify_execution_def by (rule act_bind_cases) (auto simp: act_lift_def)
  have acc: "vf_result (fst (accept_evidence P E i ev V)) \<noteq> Verification_PENDING_EVIDENCE" for ev
    by (simp add: accept_evidence_def Let_def mk_report_def split: option.split)
  have out: "px_outcome r \<noteq> Outcome_TIMEOUT" "px_outcome r \<noteq> Outcome_UNKNOWN" using assms(2) by (auto simp: decided_def)
  show ?thesis using e(2) out acc
    by (cases e) (auto simp: verify_evidence_def Let_def mk_report_def case_prod_beta split: if_splits option.splits sum.splits)
qed

lemma act_bind_Inr_cases:
  assumes "act_bind f g s = (Inr b, s')"
  obtains a s1 where "f s = (Inr a, s1)" "g a s1 = (Inr b, s')"
  using assms by (rule act_bind_cases) auto

lemma mark_keeps_op:
  assumes "op_moves E new err ref w = (r, w')"
  shows "op_id (pw_op w') = op_id (pw_op w) \<and> cs_provider (pw_cs w') = cs_provider (pw_cs w)"
  using assms by (auto simp: op_moves_def transition_to_def split: if_splits)

lemma mark_reconciling_keeps_op:
  "mark_reconciling P E ih w = (Inr u, w') \<Longrightarrow> op_id (pw_op w') = op_id (pw_op w) \<and> cs_provider (pw_cs w') = cs_provider (pw_cs w)"
  unfolding mark_reconciling_def
  by (auto simp: rec_save_def rec_event_def on_cs_def save_op_def log_event_def split: if_splits prod.splits option.splits sum.splits
      elim!: act_bind_Inr_cases dest!: mark_keeps_op)

lemma ask_and_settle_decides:
  assumes run: "ask_and_settle ops (exchange_ops P') P E i op w = (Inr out, w')"
    and known: "known_operation (op_id (pw_op w)) (cs_provider (pw_cs w))" and dec: "exchange_decides (cs_provider (pw_cs w))"
    and rep: "ro_verification out = Some report"
  shows "vf_result report \<noteq> Verification_PENDING_EVIDENCE"
proof -
  from run [unfolded ask_and_settle_def] obtain st w2 where q: "query_status (exchange_ops P') w = (Inr st, w2)" and rest2:
      "act_bind (on_verified (verify_execution P E i st (Some op))) (\<lambda>report.
         settle_by_report ops P (env_skip 2 E) (compute_purchase_intent_hash P i) st report) w2 = (Inr out, w')"
    by (rule act_bind_Inr_cases)
  obtain st' where "exchange_status P' (op_id (pw_op w)) (op_idempotency_key (pw_op w)) (op_provider_reference (pw_op w)) (cs_provider (pw_cs w)) =
      (Inr st', cs_provider (pw_cs w))" "decided (px_outcome st')"
    using exchange_status_decides known dec by metis
  then have st: "decided (px_outcome st)" using q by (auto simp: query_status_def Let_def on_cs_def call_provider_def exchange_ops_def)
  from rest2 obtain rp w3 where v: "on_verified (verify_execution P E i st (Some op)) w2 = (Inr rp, w3)"
      and s: "settle_by_report ops P (env_skip 2 E) (compute_purchase_intent_hash P i) st rp w3 = (Inr out, w')"
    by (rule act_bind_Inr_cases)
  have "rp = report" using settle_by_report_result [OF s] rep by simp
  moreover have "\<exists>V V'. verify_execution P E i st (Some op) V = (Inr rp, V')"
    using v by (auto simp: on_verified_def split: prod.splits)
  ultimately show ?thesis using verify_execution_decides st by blast
qed

lemma reconcile_purchase_decides:
  assumes run: "reconcile_purchase ops (exchange_ops P') P E i w = (Inr out, w')"
    and known: "known_operation (op_id (pw_op w)) (cs_provider (pw_cs w))" and dec: "exchange_decides (cs_provider (pw_cs w))"
    and rep: "ro_verification out = Some report"
  shows "vf_result report \<noteq> Verification_PENDING_EVIDENCE"
  using run
proof (cases rule: reconcile_purchase_cases)
  case 1
  then show ?thesis using rep by simp
next
  case 2
  then obtain a w1 where "mark_reconciling P E (compute_purchase_intent_hash P i) w = (Inr a, w1)"
      and "ask_and_settle ops (exchange_ops P') P (env_skip 4 E) i (pw_op w) w1 = (Inr out, w')" by (rule act_bind_Inr_cases)
  then show ?thesis using mark_reconciling_keeps_op ask_and_settle_decides known dec rep by metis
qed

text \<open>A loop that waits for reconciliation waits for an operation the exchange knows.\<close>

definition waits_known :: "('l, exchange) loop_world \<Rightarrow> bool" where
  "waits_known w \<longleftrightarrow> exchange_decides (provider_of w) \<and> (status_of w = Loop_WAITING_RECONCILE \<longrightarrow>
     (\<exists>op. lw_pending w = Some op \<and> known_operation (op_id op) (provider_of w)))"

lemma exchange_asked: "asked (exchange_ops P) p p' \<Longrightarrow> p' = p"
  unfolding asked_def by (induction rule: rtranclp_induct) (auto simp: exchange_ops_def exchange_status_def)

lemma handle_reconcile_decides:
  assumes run: "handle_reconcile C ops (exchange_ops P') P E w = (Inr r, w')"
    and st: "status_of w = Loop_WAITING_RECONCILE" and known: "waits_known w"
  shows "status_of w' \<notin> {Loop_WAITING_RECONCILE, Loop_WAITING_HUMAN}"
proof (cases "lc_has_reconciler C \<and> lw_intent w \<noteq> None")
  case False
  then have "\<exists>reason msg. stop_with E Loop_STOPPED_UNKNOWN reason msg w = (Inr r, w')"
    using run unfolding handle_reconcile_def by (auto split: prod.splits bool.splits option.splits)
  then obtain reason msg where "stop_with E Loop_STOPPED_UNKNOWN reason msg w = (Inr r, w')" by blast
  then show ?thesis using stop_with_run [of E Loop_STOPPED_UNKNOWN reason msg w] by auto
next
  case True
  obtain op i where op: "lc_has_reconciler C" "lw_pending w = Some op" "lw_intent w = Some i" "known_operation (op_id op) (provider_of w)"
    using True known st by (auto simp: waits_known_def)
  then obtain out w1 where rec: "reconcile_pending ops (exchange_ops P') P E i op w = (Inr out, w1)"
      and rest: "(case ro_verification out of
            None \<Rightarrow> stop_with E Loop_STOPPED_UNKNOWN None ''No verification on reconcile''
          | Some report \<Rightarrow> after_reconcile P (env_skip 12 E) i report) w1 = (Inr r, w')"
    using run by (auto simp: handle_reconcile_def elim!: act_bind_Inr_cases)
  note eff = reconcile_pending_effect [OF rec]
  show ?thesis
  proof (cases "ro_verification out")
    case None
    then show ?thesis using rest stop_with_run [of E Loop_STOPPED_UNKNOWN None "''No verification on reconcile''" w1] by auto
  next
    case (Some report)
    let ?x = "\<lparr>pw_cs = lw_cs w, pw_verified = lw_verified w, pw_op = op\<rparr>"
    obtain x where "reconcile_purchase ops (exchange_ops P') P E i ?x = (Inr out, x)"
      using rec by (auto simp: reconcile_pending_def split: prod.splits)
    from reconcile_purchase_decides [OF this _ _ Some] have "vf_result report \<noteq> Verification_PENDING_EVIDENCE"
      using op(4) known by (simp add: waits_known_def provider_of_def)
    moreover have "after_reconcile P (env_skip 12 E) i report w1 = (Inr r, w')" using rest Some by simp
    ultimately show ?thesis using after_reconcile_effect [of P "env_skip 12 E" i report w1 "Inr r" w'] eff Some st op by auto
  qed
qed

lemma loop_step_decides:
  assumes run: "loop_step C ops (exchange_ops P') P abi E now w = (Inr r, w')" and known: "waits_known w"
  shows "waits_known w' \<and> lr_status r = status_of w' \<and> (status_of w' = Loop_WAITING_RECONCILE \<longrightarrow> status_of w \<noteq> Loop_WAITING_RECONCILE) \<and>
     (\<exists>n. budget_step C n (abs_loop w) (abs_loop w'))"
proof -
  note eff = loop_step_effect [OF run, unfolded step_effect_def]
  then obtain n where n: "charged (exchange_ops P') n w w'" "lr_status r = status_of w'" "budget_step C n (abs_loop w) (abs_loop w')"
    by auto
  have dec: "exchange_decides (provider_of w)" using known by (simp add: waits_known_def)
  have dec': "exchange_decides (provider_of w')"
    using n(1) dec exchange_asked exchange_execute_decides by (fastforce simp: charged_def paid_def exchange_ops_def)
  have out: "status_of w' \<noteq> Loop_WAITING_RECONCILE" if st: "status_of w = Loop_WAITING_RECONCILE"
  proof (cases "objective_met (lw_state w)")
    case True
    then show ?thesis using run stop_with_run [of E Loop_OBJECTIVE_COMPLETE "Some ''Objective already complete''" "''Objective complete''" w]
      by (auto simp: loop_step_def)
  next
    case False
    then have "handle_reconcile C ops (exchange_ops P') P E w = (Inr r, w')" using run st by (simp add: loop_step_def status_of_def)
    from handle_reconcile_decides [OF this st known] show ?thesis by simp
  qed
  have "\<exists>op. lw_pending w' = Some op \<and> known_operation (op_id op) (provider_of w')" if "status_of w' = Loop_WAITING_RECONCILE"
  proof -
    have "timed_out (exchange_ops P') (provider_of w) w'" using eff out that by (auto simp: waits_new_def)
    then show ?thesis using exchange_execute_decides dec by (fastforce simp: timed_out_def exchange_ops_def)
  qed
  then show ?thesis using dec' out n(2,3) by (auto simp: waits_known_def)
qed

text \<open>Steps that are left for a run that does not stop for a human.\<close>

fun steps_left :: "loop_config \<Rightarrow> budget \<Rightarrow> nat" where
  "steps_left C b = (case bd_status b of
       Loop_READY \<Rightarrow> 2 * nat (lc_max_iterations C - bd_iteration b) + 1
     | Loop_WAITING_RECONCILE \<Rightarrow> 2 * nat (lc_max_iterations C - bd_iteration b) + 2
     | _ \<Rightarrow> 0)"

lemma steps_left_decreases:
  assumes "budget_step C n b b'" "bd_status b \<in> {Loop_READY, Loop_WAITING_RECONCILE}" "bd_status b' \<in> {Loop_READY, Loop_WAITING_RECONCILE}"
    and "bd_status b' = Loop_WAITING_RECONCILE \<longrightarrow> bd_status b \<noteq> Loop_WAITING_RECONCILE"
  shows "steps_left C b' < steps_left C b"
  using assms by (auto elim!: budget_stepE simp: may_buy_def loop_terminal_def)

lemma run_steps_ends:
  assumes "run_steps C ops (exchange_ops P') P abi E now n k steps w = (Inr rs, w')" "waits_known w"
    and "status_of w \<in> {Loop_READY, Loop_WAITING_RECONCILE}" "steps_left C (abs_loop w) \<le> n"
  shows "rs \<noteq> [] \<and> lr_status (last rs) = status_of w' \<and> status_of w' \<notin> {Loop_READY, Loop_WAITING_RECONCILE}"
  using assms
proof (induction n arbitrary: k steps w)
  case 0
  then show ?case by (auto simp: abs_loop_def)
next
  case (Suc n)
  obtain v w1 where step: "loop_step C ops (exchange_ops P') P abi (E k) (now k) w = (v, w1)" by fastforce
  then obtain r where r: "v = Inr r" using Suc.prems(1) by (cases v) auto
  note dec = loop_step_decides [OF step [unfolded r] Suc.prems(2)]
  show ?case
  proof (cases "loop_terminal (lr_status r) \<or> lr_status r = Loop_WAITING_HUMAN")
    case True
    then show ?thesis using Suc.prems(1) step r dec by (auto simp: loop_terminal_def)
  next
    case False
    then have st: "status_of w1 \<in> {Loop_READY, Loop_WAITING_RECONCILE}" using dec by (auto simp: loop_terminal_def)
    obtain m where "budget_step C m (abs_loop w) (abs_loop w1)" using dec by blast
    then have "steps_left C (abs_loop w1) < steps_left C (abs_loop w)"
      by (rule steps_left_decreases) (use st Suc.prems(3) dec in \<open>auto simp: abs_loop_def\<close>)
    then show ?thesis using Suc.IH [of "Suc k" "steps @ [r]" w1] Suc.prems st step r False dec by simp
  qed
qed

text \<open>
  C9: with an exchange that decides its timeouts in the background, a run with the default limit of steps is never cut off: when it returns,
  its last step has completed the objective, stopped the loop, or asked for a human.
\<close>

theorem loop_reaches_end:
  assumes "lw_state w = new_loop_state E0 agent tid oid mission objective target" "exchange_decides (cs_provider (lw_cs w))"
    and "1 \<le> lc_max_iterations C" "run_until_terminal C ops (exchange_ops P) P abi E now None w = (Inr rs, w')"
  shows "rs \<noteq> [] \<and> lr_status (last rs) = al_status (lw_state w') \<and> al_status (lw_state w') \<notin> {Loop_READY, Loop_WAITING_RECONCILE}"
proof -
  have st: "status_of w = Loop_READY" and it: "iteration w = 0" using assms(1) by (simp_all add: loop_views new_loop_state_def)
  have known: "waits_known w" using assms(2) st by (simp add: waits_known_def provider_of_def)
  have "steps_left C (abs_loop w) \<le> nat (lc_max_iterations C * 3)" using st it assms(3) by (simp add: abs_loop_def)
  then show ?thesis using run_steps_ends [of C ops P P abi E now "nat (lc_max_iterations C * 3)" 0 "[]" w rs w'] assms(4) known st
    by (simp add: run_until_terminal_def status_of_def)
qed

end
