(* ===== verification/LoopDemo.thy ===== *)
theory LoopDemo
  imports LoopBounds Outcomes
begin

text \<open>
  A concrete purchase on the in-memory ledger and the simulated exchange, evaluated in the kernel: the exchange times out but settles
  in the background, the loop waits, reconciles, and completes its objective.
\<close>

definition demo_abi :: abi where
  "demo_abi = (\<lambda>a b c d. Inr [])"

definition demo_loop_config :: loop_config where
  "demo_loop_config = \<lparr>lc_has_ledger = True, lc_has_reconciler = True, lc_max_iterations = 2, lc_max_cumulative_usdg = 5000,
     lc_max_single_usdg = 3000, lc_default_beneficiary = ORBIO_CREDIT_MAINNET, lc_chain_id = 46630,
     lc_network = ''robinhood-testnet'', lc_expected_fill_rate_bps = 9800\<rparr>"

definition demo_loop_policy :: purchase_policy where
  "demo_loop_policy = \<lparr>pp_deployments = [robinhood 46630 ''robinhood-testnet''], pp_allowed_chain_ids = [46630],
     pp_allowed_networks = [''robinhood-testnet''], pp_allowed_exchange_contracts = [], pp_allowed_payment_tokens = [],
     pp_allowed_credit_tokens = [], pp_allowed_beneficiaries = [], pp_require_beneficiary_allowlist = False,
     pp_autonomous_usdg_ceiling = 5000, pp_absolute_usdg_ceiling = 9000, pp_max_fills = 20, pp_max_fee_per_gas = 100000000000,
     pp_max_priority_fee_per_gas = 10000000000, pp_max_gas_limit = 500000, pp_human_approval_ttl_seconds = 3600,
     pp_secret = ''k'', pp_approvals = [], pp_issued = [], pp_revoked = {}\<rparr>"

definition demo_exchange :: exchange where
  "demo_exchange = exchange_timeout_rule ''org-1:m:cop-loop-a-1'' True False (mk_exchange [(''org-1'', 9000)] 9800 True)"

definition demo_loop :: "(ledger, exchange) loop_world" where
  "demo_loop = \<lparr>lw_cs = \<lparr>cs_ledger = demo_ledger, cs_repo = None, cs_tokens = None, cs_events = None,
       cs_provider = demo_exchange, cs_org = demo_org\<rparr>, lw_verified = [],
     lw_state = new_loop_state demo_env ''a'' ''acme'' ''org-1'' ''m'' ''credits'' 1000,
     lw_policy = demo_loop_policy, lw_approval = None, lw_intent = None, lw_pending = None\<rparr>"

abbreviation demo_run :: "loop_result list result \<times> (ledger, exchange) loop_world" where
  "demo_run \<equiv> run_until_terminal demo_loop_config mem_entry_ops (exchange_ops demo_prims) demo_prims demo_abi (\<lambda>k. demo_env) (\<lambda>k. 0)
     None demo_loop"

text \<open>Three USDG units above the thousand credits it needs pay the spread of the exchange.\<close>

definition demo_summary :: "loop_result list result \<times> (ledger, exchange) loop_world \<Rightarrow> bool" where
  "demo_summary x = (case x of
       (Inr rs, w) \<Rightarrow> map lr_status rs = [Loop_WAITING_RECONCILE, Loop_OBJECTIVE_COMPLETE] \<and>
         al_cumulative_usdg_spent (lw_state w) = 1021 \<and> al_acquired_credit (lw_state w) = 1000 \<and>
         exchange_credit_balance (cs_provider (lw_cs w)) ''org-1'' = 1000 \<and> get_balance (cs_ledger (lw_cs w)) ESCROW = 0
     | _ \<Rightarrow> False)"

lemma demo_run_completes: "demo_summary demo_run"
  by code_simp

lemma demo_loop_parts:
  "lw_state demo_loop = new_loop_state demo_env ''a'' ''acme'' ''org-1'' ''m'' ''credits'' 1000"
  "1 \<le> lc_max_iterations demo_loop_config" "0 \<le> lc_max_iterations demo_loop_config" "0 \<le> lc_max_cumulative_usdg demo_loop_config"
  "exchange_decides (cs_provider (lw_cs demo_loop))"
  by (simp_all add: demo_loop_def demo_loop_config_def demo_exchange_def exchange_timeout_rule_def mk_exchange_def exchange_decides_def)

lemma demo_run_returns:
  "\<exists>rs w. demo_run = (Inr rs, w) \<and> map lr_status rs = [Loop_WAITING_RECONCILE, Loop_OBJECTIVE_COMPLETE] \<and>
     exchange_credit_balance (cs_provider (lw_cs w)) ''org-1'' = 1000"
  using demo_run_completes unfolding demo_summary_def by (cases demo_run; cases "fst demo_run") auto

theorem loop_reaches_end_witness:
  "\<exists>rs w. demo_run = (Inr rs, w) \<and> rs \<noteq> [] \<and> al_status (lw_state w) = Loop_OBJECTIVE_COMPLETE"
proof -
  obtain rs w where run: "demo_run = (Inr rs, w)" and st: "map lr_status rs = [Loop_WAITING_RECONCILE, Loop_OBJECTIVE_COMPLETE]"
    using demo_run_returns by (elim exE conjE)
  have "lr_status (last rs) = Loop_OBJECTIVE_COMPLETE" using st by (auto simp: map_eq_Cons_conv)
  then show ?thesis using run loop_reaches_end [OF demo_loop_parts(1,5,2) run] by auto
qed

text \<open>The first step of the run.\<close>

lemma run_steps_prefix:
  "run_steps C ops pv P abi E now n k steps w = (Inr rs, w') \<Longrightarrow> \<exists>t. rs = steps @ t"
proof (induction n arbitrary: k steps w)
  case (Suc n)
  then show ?case by (fastforce split: prod.splits sum.splits if_splits)
qed simp

lemma run_steps_first:
  assumes "run_steps C ops pv P abi E now (Suc n) k [] w = (Inr rs, w')"
  shows "\<exists>r w1. loop_step C ops pv P abi (E k) (now k) w = (Inr r, w1) \<and> rs \<noteq> [] \<and> hd rs = r"
proof -
  obtain v w1 where step: "loop_step C ops pv P abi (E k) (now k) w = (v, w1)" by fastforce
  then obtain r where r: "v = Inr r" using assms by (cases v) auto
  have "rs = [r] \<or> run_steps C ops pv P abi E now n (Suc k) [r] w1 = (Inr rs, w')"
    using assms step r by (auto split: if_splits)
  then show ?thesis using step r run_steps_prefix by fastforce
qed

lemma demo_first_step:
  "\<exists>r w. loop_step demo_loop_config mem_entry_ops (exchange_ops demo_prims) demo_prims demo_abi demo_env 0 demo_loop = (Inr r, w) \<and>
     lr_status r = Loop_WAITING_RECONCILE"
proof -
  obtain rs w where run: "demo_run = (Inr rs, w)" and st: "map lr_status rs = [Loop_WAITING_RECONCILE, Loop_OBJECTIVE_COMPLETE]"
    using demo_run_returns by (elim exE conjE)
  have six: "nat (lc_max_iterations demo_loop_config * 3) = Suc 5" by (simp add: demo_loop_config_def)
  obtain r w1 where step: "loop_step demo_loop_config mem_entry_ops (exchange_ops demo_prims) demo_prims demo_abi demo_env 0 demo_loop = (Inr r, w1)"
      and hd: "rs \<noteq> []" "hd rs = r"
    using run_steps_first [OF run [unfolded run_until_terminal_def option.case six]] by (elim exE conjE)
  have "lr_status r = Loop_WAITING_RECONCILE" using st hd by (cases rs) auto
  then show ?thesis using step by blast
qed

theorem loop_spend_bounded_witness:
  "\<exists>r w. loop_step demo_loop_config mem_entry_ops (exchange_ops demo_prims) demo_prims demo_abi demo_env 0 demo_loop = (Inr r, w) \<and>
     lr_status r = Loop_WAITING_RECONCILE \<and> total_spent (cs_provider (lw_cs w)) \<le> 5000"
proof -
  obtain r w where step: "loop_step demo_loop_config mem_entry_ops (exchange_ops demo_prims) demo_prims demo_abi demo_env 0 demo_loop = (Inr r, w)"
      "lr_status r = Loop_WAITING_RECONCILE" using demo_first_step by (elim exE conjE)
  have "total_spent (cs_provider (lw_cs demo_loop)) = 0"
    by (simp add: demo_loop_def demo_exchange_def exchange_timeout_rule_def mk_exchange_def total_spent_def)
  then show ?thesis using step loop_spend_bounded [OF demo_loop_parts(1,3,4) rtranclp.rtrancl_refl step(1)]
    by (simp add: demo_loop_config_def)
qed

theorem loop_terminates_witness:
  "\<exists>w. progress_run demo_loop_config mem_entry_ops (exchange_ops demo_prims) demo_prims demo_abi 1 demo_loop w \<and> (1 :: nat) \<le> 7"
proof -
  obtain r w where step: "loop_step demo_loop_config mem_entry_ops (exchange_ops demo_prims) demo_prims demo_abi demo_env 0 demo_loop = (Inr r, w)"
      "lr_status r = Loop_WAITING_RECONCILE" using demo_first_step by (elim exE conjE)
  have st: "status_of demo_loop = Loop_READY" by (simp add: status_of_def demo_loop_parts(1) new_loop_state_def)
  have "status_of w = Loop_WAITING_RECONCILE" using loop_step_effect [OF step(1)] step(2) by (auto simp: step_effect_def)
  then have "abs_loop w \<noteq> abs_loop demo_loop" using st by (simp add: abs_loop_def)
  then have run: "progress_run demo_loop_config mem_entry_ops (exchange_ops demo_prims) demo_prims demo_abi 1 demo_loop w"
    using progress_step [OF progress_none step(1)] st by (simp add: loop_terminal_def)
  from loop_terminates [OF this demo_loop_parts(1)] run show ?thesis by (auto simp: demo_loop_config_def)
qed

theorem loop_refines_budget_witness:
  "\<exists>r w n. loop_step demo_loop_config mem_entry_ops (exchange_ops demo_prims) demo_prims demo_abi demo_env 0 demo_loop = (Inr r, w) \<and>
     budget_step demo_loop_config n (abs_loop demo_loop) (abs_loop w) \<and> bd_status (abs_loop w) = Loop_WAITING_RECONCILE"
proof -
  obtain r w where step: "loop_step demo_loop_config mem_entry_ops (exchange_ops demo_prims) demo_prims demo_abi demo_env 0 demo_loop = (Inr r, w)"
      "lr_status r = Loop_WAITING_RECONCILE" using demo_first_step by (elim exE conjE)
  from loop_refines_budget [OF step(1)] obtain n where "lr_status r = al_status (lw_state w)"
      "budget_step demo_loop_config n (abs_loop demo_loop) (abs_loop w)" by (elim exE conjE)
  then show ?thesis using step by (auto simp: abs_loop_def status_of_def)
qed

end
