(* ===== verification/Rounding.thy ===== *)
theory Rounding
  imports Python
begin

text \<open>Python's rounding, on exact rationals, with the monotonicity and bounds the scores of agents and orders need.\<close>

section \<open>Rounding\<close>

text \<open>Python's \<open>round(x, n)\<close>: to the nearest multiple of \<open>10 ^ -n\<close>, ties to the even one.\<close>

definition py_round :: "nat \<Rightarrow> rat \<Rightarrow> rat" where
  "py_round n x = of_int (round_half_even (x * 10 ^ n)) / 10 ^ n"

lemma round_half_even_of_int [simp]: "round_half_even (of_int k) = k"
  by (simp add: round_half_even_def Let_def)

lemma round_half_even_mono: "x \<le> y \<Longrightarrow> round_half_even x \<le> round_half_even y"
proof -
  assume le: "x \<le> y"
  then have fl: "\<lfloor>x\<rfloor> \<le> \<lfloor>y\<rfloor>" by (rule floor_mono)
  show ?thesis
  proof (cases "\<lfloor>x\<rfloor> = \<lfloor>y\<rfloor>")
    case True
    then show ?thesis using le by (auto simp: round_half_even_def Let_def)
  next
    case False
    then have "\<lfloor>x\<rfloor> + 1 \<le> \<lfloor>y\<rfloor>" using fl by linarith
    then show ?thesis by (auto simp: round_half_even_def Let_def)
  qed
qed

lemma py_round_mono: "x \<le> y \<Longrightarrow> py_round n x \<le> py_round n y"
  by (simp add: py_round_def divide_right_mono round_half_even_mono)

lemma py_round_of_int [simp]: "py_round n (of_int k) = of_int k"
proof -
  have "round_half_even (of_int k * 10 ^ n) = k * 10 ^ n" using round_half_even_of_int [of "k * 10 ^ n"] by simp
  then show ?thesis by (simp add: py_round_def)
qed

lemma py_round_between: "of_int a \<le> x \<Longrightarrow> x \<le> of_int b \<Longrightarrow> of_int a \<le> py_round n x \<and> py_round n x \<le> of_int b"
  using py_round_mono [of "of_int a" x n] py_round_mono [of x "of_int b" n] by simp

end
