(* ===== verification/Missions.thy ===== *)
theory Missions
  imports LoopBounds Outcomes WorkRepo Rounding
begin

text \<open>
  Missions that pay for themselves: the runner that buys credits, executes a work order, verifies, collects
  and distributes its bounty (\<open>src/agents/self_sustaining_loop.py\<close>), the analyst and the CEO that choose an order
  (\<open>src/agents/roles/\<close>), the coordinator that persists the outcome (\<open>src/agents/work_order_coordinator.py\<close>), and the daemon
  that repeats this under a solvency regime (\<open>src/orchestration/autonomous_daemon.py\<close>).  The ledger is the one in
  memory; runner, executor and purchase loop share it and, when there is one, the exchange.
\<close>

section \<open>financial\_analyst.py and ceo.py\<close>

record unit_economics =
  ue_viable :: bool
  ue_margin_ratio :: rat
  ue_projected_direct_cost :: int
  ue_expected_surplus :: int
  ue_reason :: string

definition projected_cost :: "int \<Rightarrow> int \<Rightarrow> int \<Rightarrow> int" where
  "projected_cost need held micro = (let short = max 0 (need - held) in
     if short > 0 then \<lceil>(of_int short :: rat) / of_int micro\<rceil> else 0)"

definition evaluate_unit_economics :: "work_order \<Rightarrow> int \<Rightarrow> int \<Rightarrow> int \<Rightarrow> rat \<Rightarrow> unit_economics" where
  "evaluate_unit_economics w treasury credits micro min_margin =
     (let cost = projected_cost (wo_required_orbio_credits w) credits micro; bounty = wo_bounty_amount w;
          surplus = bounty - cost; margin = py_round 4 (of_int surplus / of_int bounty);
          ev = (\<lambda>ok m why. \<lparr>ue_viable = ok, ue_margin_ratio = m, ue_projected_direct_cost = cost,
            ue_expected_surplus = surplus, ue_reason = why\<rparr>)
      in if cost > treasury then ev False 0 ''INSUFFICIENT_TREASURY''
         else if bounty \<le> 0 then ev False 0 ''ZERO_OR_NEGATIVE_BOUNTY''
         else if margin < min_margin then ev False margin ''MARGIN_BELOW_THRESHOLD''
         else ev True margin ''VIABLE'')"

type_synonym evaluations = "(string \<times> unit_economics) list"

definition viable_in :: "evaluations \<Rightarrow> work_order \<Rightarrow> bool" where
  "viable_in evs w = (case map_of evs (wo_work_order_id w) of None \<Rightarrow> False | Some e \<Rightarrow> ue_viable e)"

text \<open>The key of \<open>max\<close> and the order of the pairs; \<open>max\<close> keeps the first of several greatest elements.\<close>

definition order_value :: "evaluations \<Rightarrow> work_order \<Rightarrow> int \<times> rat" where
  "order_value evs w = (case map_of evs (wo_work_order_id w) of None \<Rightarrow> (0, 0)
     | Some e \<Rightarrow> (ue_expected_surplus e, ue_margin_ratio e))"

definition value_less :: "int \<times> rat \<Rightarrow> int \<times> rat \<Rightarrow> bool" where
  "value_less x y \<longleftrightarrow> fst x < fst y \<or> fst x = fst y \<and> snd x < snd y"

fun max_by :: "('a \<Rightarrow> int \<times> rat) \<Rightarrow> 'a \<Rightarrow> 'a list \<Rightarrow> 'a" where
  "max_by key best [] = best"
| "max_by key best (x # xs) = max_by key (if value_less (key best) (key x) then x else best) xs"

definition select_best_work_order :: "work_order list \<Rightarrow> evaluations \<Rightarrow> work_order option" where
  "select_best_work_order ws evs =
     (case filter (viable_in evs) ws of [] \<Rightarrow> None | w # rest \<Rightarrow> Some (max_by (order_value evs) w rest))"

section \<open>self\_sustaining\_loop.py\<close>

record mission_result =
  mr_mission_id :: string
  mr_work_order :: work_order
  mr_deliverable :: "deliverable option"
  mr_receipt :: "work_receipt option"
  mr_revenue_event :: "revenue_event option"
  mr_direct_expense :: int
  mr_net_surplus :: int
  mr_next_mission :: int
  mr_reserve :: int
  mr_success :: bool
  mr_error :: "string option"

text \<open>The runner's collaborators: the verifier's identity and key, the reconciler's settings, the loop's settings.\<close>

record runner =
  rn_verifier_identity :: string
  rn_verifier_secret :: string
  rn_surplus :: surplus_config
  rn_reserve_ratio :: rat
  rn_loop :: loop_config

text \<open>
  The objects a mission changes.  Without an exchange the executor keeps its own credit store.  The purchase loop,
  when one is passed, works on the same ledger and exchange.
\<close>

record mission_world =
  mw_ledger :: ledger
  mw_exchange :: "exchange option"
  mw_credits :: credit_store
  mw_events :: "(string \<times> revenue_event) list"
  mw_order :: work_order
  mw_purchase :: "(ledger, exchange) loop_world option"

type_synonym 'a mission_act = "(mission_world, 'a) act"

definition mission_credits :: "mission_world \<Rightarrow> credit_store" where
  "mission_credits w = (case mw_exchange w of None \<Rightarrow> mw_credits w | Some X \<Rightarrow> ex_credit X)"

definition set_mission_credits :: "credit_store \<Rightarrow> mission_world \<Rightarrow> mission_world" where
  "set_mission_credits S w = (case mw_exchange w of None \<Rightarrow> w\<lparr>mw_credits := S\<rparr>
     | Some X \<Rightarrow> w\<lparr>mw_exchange := Some (X\<lparr>ex_credit := S\<rparr>)\<rparr>)"

definition order_moves :: "work_order_status \<Rightarrow> unit mission_act" where
  "order_moves st w = (Inr (), w\<lparr>mw_order := work_transition_to (mw_order w) st\<rparr>)"

definition mission_failure ::
  "string \<Rightarrow> deliverable option \<Rightarrow> work_receipt option \<Rightarrow> int \<Rightarrow> string \<Rightarrow> mission_result mission_act" where
  "mission_failure mid d r direct msg = act_bind (order_moves Work_REJECTED) (\<lambda>_ w.
     (Inr \<lparr>mr_mission_id = mid, mr_work_order = mw_order w, mr_deliverable = d, mr_receipt = r, mr_revenue_event = None,
        mr_direct_expense = direct, mr_net_surplus = 0, mr_next_mission = 0, mr_reserve = 0, mr_success = False,
        mr_error = Some msg\<rparr>, w))"

text \<open>One step of the purchase loop on the shared ledger and exchange.\<close>

definition shared_loop :: "mission_world \<Rightarrow> (ledger, exchange) loop_world \<Rightarrow> (ledger, exchange) loop_world" where
  "shared_loop w l = (let s = (lw_cs l)\<lparr>cs_ledger := mw_ledger w\<rparr> in
     l\<lparr>lw_cs := (case mw_exchange w of None \<Rightarrow> s | Some X \<Rightarrow> s\<lparr>cs_provider := X\<rparr>)\<rparr>)"

definition take_back :: "(ledger, exchange) loop_world \<Rightarrow> mission_world \<Rightarrow> mission_world" where
  "take_back l w = w\<lparr>mw_ledger := cs_ledger (lw_cs l), mw_purchase := Some l,
     mw_exchange := map_option (\<lambda>_. cs_provider (lw_cs l)) (mw_exchange w)\<rparr>"

definition purchase_step ::
  "runner \<Rightarrow> prims \<Rightarrow> abi \<Rightarrow> env \<Rightarrow> rat \<Rightarrow> (ledger, exchange) loop_world \<Rightarrow> loop_result mission_act" where
  "purchase_step R P abi E now l w =
     (case loop_step (rn_loop R) mem_entry_ops (exchange_ops P) P abi E now (shared_loop w l) of
        (r, l') \<Rightarrow> (r, take_back l' w))"

text \<open>Whole USDG for native units of six decimals, rounded up.\<close>

definition whole_usdg :: "int \<Rightarrow> int" where
  "whole_usdg n = max 1 ((n + 1000000 - 1) div 1000000)"

definition acquired :: "(ledger, exchange) loop_world \<Rightarrow> loop_result \<Rightarrow> int \<Rightarrow> bool" where
  "acquired l r need \<longleftrightarrow> lr_verification r = Some ''VERIFIED'' \<or> lr_status r = Loop_OBJECTIVE_COMPLETE \<or>
     al_acquired_credit (lw_state l) \<ge> need"

text \<open>Buys the missing credits: either the result of a rejected mission, or the direct expense.\<close>

definition acquire_credits ::
  "runner \<Rightarrow> prims \<Rightarrow> abi \<Rightarrow> env \<Rightarrow> rat \<Rightarrow> string \<Rightarrow> int option \<Rightarrow> (mission_result + int) mission_act" where
  "acquire_credits R P abi E now mid limit w =
     (let need = wo_required_orbio_credits (mw_order w);
          held = dict_get (mission_credits w) (wo_organisation_id (mw_order w)) 0;
          fail = (\<lambda>direct msg. act_bind (mission_failure mid None None direct msg) (\<lambda>r. act_return (Inl r)))
      in if held \<ge> need then (Inr (Inr 0), w)
         else case mw_purchase w of
           None \<Rightarrow> fail 0 ''Need Orbio credits but no purchase loop provided.'' w
         | Some l \<Rightarrow>
           if (case limit of None \<Rightarrow> False | Some n \<Rightarrow> whole_usdg (usdg_for_credit_need (rn_loop R) (need - held)) > n)
           then fail 0 ''Acquisition cost exceeds self-funded mission budget'' w
           else (case purchase_step R P abi E now l w of
              (Inl x, w') \<Rightarrow> (Inl x, w')
            | (Inr r, w') \<Rightarrow>
                let direct = max 0 (get_balance (mw_ledger w) TREASURY - get_balance (mw_ledger w') TREASURY) in
                if (case mw_purchase w' of None \<Rightarrow> False | Some l' \<Rightarrow> acquired l' r need) then (Inr (Inr direct), w')
                else fail direct ''Orbio credit acquisition failed'' w'))"

definition mission_execute :: "prims \<Rightarrow> env \<Rightarrow> string \<Rightarrow> deliverable mission_act" where
  "mission_execute P E producer w =
     (case execute_work P E (mw_order w) producer (wo_organisation_id (mw_order w)) None (mission_credits w) of
        (Inl x, S) \<Rightarrow> (Inl x, set_mission_credits S w)
      | (Inr d, S) \<Rightarrow> act_bind (order_moves Work_DELIVERED) (\<lambda>_. act_return d) (set_mission_credits S w))"

text \<open>The client's deposit and the reconciler, which works on the same ledger.\<close>

definition mission_deposit :: "env \<Rightarrow> unit mission_act" where
  "mission_deposit E w =
     (case deposit_revenue E (mw_ledger w) (wo_bounty_amount (mw_order w))
        (''Client deposit for work order '' @ wo_work_order_id (mw_order w)) None of
        Inl x \<Rightarrow> (Inl x, w) | Inr (e, L) \<Rightarrow> (Inr (), w\<lparr>mw_ledger := L\<rparr>))"

definition mission_reconcile ::
  "runner \<Rightarrow> prims \<Rightarrow> env \<Rightarrow> deliverable \<Rightarrow> work_receipt \<Rightarrow> int \<Rightarrow> revenue_event mission_act" where
  "mission_reconcile R P E d r direct w =
     (case reconcile_surplus mem_ops P (rn_surplus R) E (mw_order w) r (wo_bounty_amount (mw_order w)) direct
        (dl_orbio_credits_consumed d) (Some (rn_reserve_ratio R)) \<lparr>ss_ledger = mw_ledger w, ss_events = mw_events w\<rparr> of
        (res, s) \<Rightarrow> (res, w\<lparr>mw_ledger := ss_ledger s, mw_events := ss_events s\<rparr>))"

definition mission_collect ::
  "runner \<Rightarrow> prims \<Rightarrow> env \<Rightarrow> string \<Rightarrow> deliverable \<Rightarrow> work_receipt \<Rightarrow> int \<Rightarrow> mission_result mission_act" where
  "mission_collect R P E mid d r direct =
     act_bind (order_moves Work_VERIFIED) (\<lambda>_.
     act_bind (mission_deposit E) (\<lambda>_.
     act_bind (mission_reconcile R P (env_skip 2 E) d r direct) (\<lambda>ev.
     act_bind (order_moves Work_SETTLED) (\<lambda>_ w.
       (Inr \<lparr>mr_mission_id = mid, mr_work_order = mw_order w, mr_deliverable = Some d, mr_receipt = Some r,
          mr_revenue_event = Some ev, mr_direct_expense = direct, mr_net_surplus = re_net_surplus_usdg ev,
          mr_next_mission = re_allocated_to_mission_budget ev, mr_reserve = re_allocated_to_reserve ev,
          mr_success = True, mr_error = None\<rparr>, w)))))"

definition mission_work ::
  "runner \<Rightarrow> prims \<Rightarrow> env \<Rightarrow> string \<Rightarrow> string \<Rightarrow> int \<Rightarrow> mission_result mission_act" where
  "mission_work R P E mid producer direct w =
     (case mission_execute P E producer w of
        (Inl x, w') \<Rightarrow> mission_failure mid None None direct ''Work execution failed'' w'
      | (Inr d, w') \<Rightarrow>
          let r = verify_work P (env_skip 1 E) (rn_verifier_identity R) (rn_verifier_secret R) (mw_order w') d None in
          if \<not> is_verified r \<or> \<not> receipt_verify_hmac P (rn_verifier_secret R) r
          then mission_failure mid (Some d) (Some r) direct ''Deliverable audit rejected'' w'
          else mission_collect R P (env_skip 2 E) mid d r direct w')"

definition execute_mission ::
  "runner \<Rightarrow> prims \<Rightarrow> abi \<Rightarrow> env \<Rightarrow> rat \<Rightarrow> string \<Rightarrow> string \<Rightarrow> int option \<Rightarrow> mission_result mission_act" where
  "execute_mission R P abi E now mid producer limit =
     act_bind (order_moves Work_IN_PROGRESS) (\<lambda>_.
     act_bind (acquire_credits R P abi E now mid limit) (\<lambda>a.
       case a of Inl r \<Rightarrow> act_return r | Inr direct \<Rightarrow> mission_work R P (env_skip 40 E) mid producer direct))"

section \<open>work\_order\_coordinator.py\<close>

record coordinator =
  co_runner :: runner
  co_min_margin :: rat

record work_outcome =
  wx_mission_id :: string
  wx_work_order_id :: string
  wx_status :: work_order_status
  wx_evaluation :: unit_economics
  wx_deliverable :: "deliverable option"
  wx_receipt :: "work_receipt option"
  wx_revenue_event :: "revenue_event option"
  wx_direct_expense :: int
  wx_net_surplus :: int
  wx_mission_budget :: int
  wx_reserve :: int
  wx_success :: bool
  wx_error :: "string option"

text \<open>The repository is optional.  \<open>cw_mission\<close> holds the order being coordinated.\<close>

record coord_world =
  cw_mission :: mission_world
  cw_repo :: "work_db option"

type_synonym 'a coord_act = "(coord_world, 'a) act"

definition repo_write :: "(work_db \<Rightarrow> work_db) \<Rightarrow> unit coord_act" where
  "repo_write f w = (Inr (), w\<lparr>cw_repo := map_option f (cw_repo w)\<rparr>)"

definition on_mission :: "'a mission_act \<Rightarrow> 'a coord_act" where
  "on_mission f w = (case f (cw_mission w) of (r, m) \<Rightarrow> (r, w\<lparr>cw_mission := m\<rparr>))"

definition save_current_order :: "unit coord_act" where
  "save_current_order w = repo_write (save_work_order (mw_order (cw_mission w))) w"

definition evaluate_candidates :: "coordinator \<Rightarrow> work_order list \<Rightarrow> int \<Rightarrow> int \<Rightarrow> evaluations" where
  "evaluate_candidates C ws treasury credits = foldl (\<lambda>evs w.
     AList.update (wo_work_order_id w) (evaluate_unit_economics w treasury credits 1000000 (co_min_margin C)) evs) [] ws"

definition rejected_outcome :: "string \<Rightarrow> string \<Rightarrow> unit_economics \<Rightarrow> work_outcome" where
  "rejected_outcome mid wid ev = \<lparr>wx_mission_id = mid, wx_work_order_id = wid, wx_status = Work_REJECTED,
     wx_evaluation = ev, wx_deliverable = None, wx_receipt = None, wx_revenue_event = None, wx_direct_expense = 0,
     wx_net_surplus = 0, wx_mission_budget = 0, wx_reserve = 0, wx_success = False, wx_error = Some (ue_reason ev)\<rparr>"

definition mission_outcome :: "unit_economics \<Rightarrow> work_order \<Rightarrow> mission_result \<Rightarrow> work_outcome" where
  "mission_outcome ev w m = \<lparr>wx_mission_id = mr_mission_id m, wx_work_order_id = wo_work_order_id w, wx_status = wo_status w,
     wx_evaluation = ev, wx_deliverable = mr_deliverable m, wx_receipt = mr_receipt m,
     wx_revenue_event = mr_revenue_event m, wx_direct_expense = mr_direct_expense m, wx_net_surplus = mr_net_surplus m,
     wx_mission_budget = mr_next_mission m, wx_reserve = mr_reserve m, wx_success = mr_success m, wx_error = mr_error m\<rparr>"

definition reject_current :: "string \<Rightarrow> unit_economics \<Rightarrow> work_outcome coord_act" where
  "reject_current mid ev = act_bind (on_mission (order_moves Work_REJECTED)) (\<lambda>_. act_bind save_current_order (\<lambda>_ w.
     (Inr (rejected_outcome mid (wo_work_order_id (mw_order (cw_mission w))) ev), w)))"

text \<open>Where a mission gets its funds from.\<close>

record funding =
  fd_parent_mission_id :: "string option"
  fd_source :: string
  fd_amount_usdg :: int

definition record_funding :: "env \<Rightarrow> string \<Rightarrow> funding \<Rightarrow> unit coord_act" where
  "record_funding E mid f w =
     (if py_truthy (fd_parent_mission_id f) \<or> fd_amount_usdg f > 0
      then let o1 = mw_order (cw_mission w) in repo_write (record_mission_lineage E (wo_tenant_id o1) (wo_organisation_id o1)
        mid (fd_parent_mission_id f) (fd_source f) (fd_amount_usdg f)) w
      else (Inr (), w))"

definition save_mission :: "mission_result \<Rightarrow> unit coord_act" where
  "save_mission m w = (let t = wo_tenant_id (mw_order (cw_mission w)); g = wo_organisation_id (mw_order (cw_mission w)) in
     act_bind (repo_write (case mr_deliverable m of None \<Rightarrow> id | Some d \<Rightarrow> save_deliverable t g d)) (\<lambda>_.
     act_bind (repo_write (case mr_receipt m of None \<Rightarrow> id | Some r \<Rightarrow> save_receipt t g r)) (\<lambda>_.
     act_bind (repo_write (case mr_revenue_event m of None \<Rightarrow> id | Some e \<Rightarrow> save_revenue_event t g e)) (\<lambda>_.
       save_current_order))) w)"

definition coordinate_single_order ::
  "coordinator \<Rightarrow> prims \<Rightarrow> abi \<Rightarrow> env \<Rightarrow> rat \<Rightarrow> string \<Rightarrow> unit_economics \<Rightarrow> string \<Rightarrow> funding \<Rightarrow> work_outcome coord_act" where
  "coordinate_single_order C P abi E now mid ev producer f =
     (if \<not> ue_viable ev then reject_current mid ev
      else act_bind (on_mission (order_moves Work_AUTHORIZED)) (\<lambda>_.
        act_bind save_current_order (\<lambda>_.
        act_bind (record_funding E mid f) (\<lambda>_.
        act_bind (on_mission (execute_mission (co_runner C) P abi (env_skip 1 E) now mid producer None)) (\<lambda>m.
        act_bind (save_mission m) (\<lambda>_ w. (Inr (mission_outcome ev (mw_order (cw_mission w)) m), w)))))))"

definition choose_order :: "work_order \<Rightarrow> unit coord_act" where
  "choose_order o1 w = (Inr (), w\<lparr>cw_mission := (cw_mission w)\<lparr>mw_order := o1\<rparr>\<rparr>)"

definition no_viable_orders :: unit_economics where
  "no_viable_orders = \<lparr>ue_viable = False, ue_margin_ratio = 0, ue_projected_direct_cost = 0, ue_expected_surplus = 0,
     ue_reason = ''NO_VIABLE_WORK_ORDERS''\<rparr>"

definition evaluation_of :: "evaluations \<Rightarrow> work_order \<Rightarrow> unit_economics" where
  "evaluation_of evs w = (case map_of evs (wo_work_order_id w) of None \<Rightarrow> no_viable_orders | Some e \<Rightarrow> e)"

definition select_and_coordinate ::
  "coordinator \<Rightarrow> prims \<Rightarrow> abi \<Rightarrow> env \<Rightarrow> rat \<Rightarrow> string \<Rightarrow> work_order list \<Rightarrow> int \<Rightarrow> int \<Rightarrow> string \<Rightarrow> funding \<Rightarrow>
     work_outcome coord_act" where
  "select_and_coordinate C P abi E now mid ws treasury credits producer f =
     (let evs = evaluate_candidates C ws treasury credits in
      case select_best_work_order ws evs of
        None \<Rightarrow> (case ws of
            [] \<Rightarrow> act_return (rejected_outcome mid ''none'' no_viable_orders)
          | w # _ \<Rightarrow> act_bind (choose_order w) (\<lambda>_. reject_current mid (evaluation_of evs w)))
      | Some w \<Rightarrow> act_bind (choose_order w) (\<lambda>_.
          coordinate_single_order C P abi E now mid (evaluation_of evs w) producer f))"

section \<open>autonomous\_daemon.py\<close>

datatype solvency_regime = Regime_EXPANSION | Regime_AUSTERE | Regime_STANDBY

record regime_policy =
  rp_regime :: solvency_regime
  rp_min_margin_ratio :: rat
  rp_reserve_ratio :: rat
  rp_allow_acquisition :: bool

fun REGIME_POLICIES :: "solvency_regime \<Rightarrow> regime_policy" where
  "REGIME_POLICIES Regime_EXPANSION = \<lparr>rp_regime = Regime_EXPANSION, rp_min_margin_ratio = 15/100,
     rp_reserve_ratio = 20/100, rp_allow_acquisition = True\<rparr>"
| "REGIME_POLICIES Regime_AUSTERE = \<lparr>rp_regime = Regime_AUSTERE, rp_min_margin_ratio = 25/100,
     rp_reserve_ratio = 50/100, rp_allow_acquisition = True\<rparr>"
| "REGIME_POLICIES Regime_STANDBY = \<lparr>rp_regime = Regime_STANDBY, rp_min_margin_ratio = 50/100,
     rp_reserve_ratio = 1, rp_allow_acquisition = False\<rparr>"

definition derive_solvency_regime :: "int \<Rightarrow> int \<Rightarrow> int \<Rightarrow> solvency_regime" where
  "derive_solvency_regime treasury expansion standby =
     (if treasury \<ge> expansion then Regime_EXPANSION else if treasury \<ge> standby then Regime_AUSTERE else Regime_STANDBY)"

record cycle_result =
  cy_number :: int
  cy_regime :: solvency_regime
  cy_mission_id :: "string option"
  cy_work_order_id :: "string option"
  cy_outcome :: "work_outcome option"
  cy_treasury_before :: int
  cy_treasury_after :: int
  cy_summary :: string

text \<open>
  The daemon.  Its coordinator's thresholds are reconfigured every cycle; the purchase loop factory, which the
  caller supplies, is a parameter.
\<close>

record daemon_config =
  dc_tenant_id :: string
  dc_organisation_id :: string
  dc_expansion_threshold :: int
  dc_standby_threshold :: int
  dc_loop_factory :: "(string \<Rightarrow> int \<Rightarrow> (ledger, exchange) loop_world) option"

record daemon_world =
  dw_coord :: coord_world
  dw_coordinator :: coordinator
  dw_cycle_count :: int
  dw_last_mission_id :: "string option"
  dw_total_revenue :: int
  dw_total_compute :: int
  dw_history :: "cycle_result list"

type_synonym 'a daemon_act = "(daemon_world, 'a) act"

definition new_daemon :: "daemon_config \<Rightarrow> coordinator \<Rightarrow> coord_world \<Rightarrow> daemon_world" where
  "new_daemon D C w = (let row = map_option (\<lambda>R. get_daemon_state R (dc_tenant_id D) (dc_organisation_id D)) (cw_repo w) in
     \<lparr>dw_coord = w, dw_coordinator = C, dw_cycle_count = (case row of None \<Rightarrow> 0 | Some r \<Rightarrow> dm_cycle_count r),
      dw_last_mission_id = (case row of None \<Rightarrow> None | Some r \<Rightarrow> dm_last_mission_id r), dw_total_revenue = 0,
      dw_total_compute = 0, dw_history = []\<rparr>)"

definition daemon_treasury :: "daemon_world \<Rightarrow> int" where
  "daemon_treasury w = get_balance (mw_ledger (cw_mission (dw_coord w))) TREASURY"

definition get_current_regime :: "daemon_config \<Rightarrow> daemon_world \<Rightarrow> solvency_regime" where
  "get_current_regime D w = derive_solvency_regime (daemon_treasury w) (dc_expansion_threshold D) (dc_standby_threshold D)"

definition persist_state :: "daemon_config \<Rightarrow> env \<Rightarrow> unit daemon_act" where
  "persist_state D E w = (Inr (), w\<lparr>dw_coord := snd (repo_write (save_daemon_state E (dc_tenant_id D) (dc_organisation_id D)
     (dw_cycle_count w) (dw_last_mission_id w)) (dw_coord w))\<rparr>)"

definition record_cycle :: "cycle_result \<Rightarrow> cycle_result daemon_act" where
  "record_cycle r w = (Inr r, w\<lparr>dw_history := dw_history w @ [r]\<rparr>)"

text \<open>A cycle that coordinates nothing.\<close>

definition idle_cycle :: "daemon_config \<Rightarrow> env \<Rightarrow> solvency_regime \<Rightarrow> string \<Rightarrow> cycle_result daemon_act" where
  "idle_cycle D E reg msg w = (let t = daemon_treasury w in
     act_bind (persist_state D E) (\<lambda>_. record_cycle \<lparr>cy_number = dw_cycle_count w, cy_regime = reg, cy_mission_id = None,
       cy_work_order_id = None, cy_outcome = None, cy_treasury_before = t, cy_treasury_after = t, cy_summary = msg\<rparr>) w)"

definition cycle_candidates :: "daemon_config \<Rightarrow> work_order list \<Rightarrow> daemon_world \<Rightarrow> work_order list" where
  "cycle_candidates D given w = (if given \<noteq> [] then given else case cw_repo (dw_coord w) of None \<Rightarrow> []
     | Some R \<Rightarrow> list_work_orders R (dc_tenant_id D) (dc_organisation_id D) (Some Work_PROPOSED))"

definition configure :: "regime_policy \<Rightarrow> coordinator \<Rightarrow> coordinator" where
  "configure p C = C\<lparr>co_min_margin := rp_min_margin_ratio p, co_runner := (co_runner C)
     \<lparr>rn_reserve_ratio := rp_reserve_ratio p,
      rn_surplus := (rn_surplus (co_runner C))\<lparr>sc_reserve_ratio := rp_reserve_ratio p\<rparr>\<rparr>\<rparr>"

definition cycle_loop ::
  "daemon_config \<Rightarrow> regime_policy \<Rightarrow> string \<Rightarrow> work_order list \<Rightarrow> (ledger, exchange) loop_world option" where
  "cycle_loop D p mid ws = (case dc_loop_factory D of None \<Rightarrow> None
     | Some mk \<Rightarrow> if rp_allow_acquisition p then Some (mk mid (Max (set (map wo_required_orbio_credits ws)))) else None)"

definition on_coord :: "'a coord_act \<Rightarrow> 'a daemon_act" where
  "on_coord f w = (case f (dw_coord w) of (r, c) \<Rightarrow> (r, w\<lparr>dw_coord := c\<rparr>))"

definition note_success :: "string \<Rightarrow> work_outcome \<Rightarrow> unit daemon_act" where
  "note_success mid out w =
     (if \<not> wx_success out then (Inr (), w)
      else let v = w\<lparr>dw_last_mission_id := Some mid\<rparr> in (Inr (), case wx_revenue_event out of None \<Rightarrow> v
        | Some e \<Rightarrow> v\<lparr>dw_total_revenue := dw_total_revenue w + re_gross_revenue_usdg e,
            dw_total_compute := dw_total_compute w + re_orbio_credits_consumed e\<rparr>))"

definition run_cycle ::
  "daemon_config \<Rightarrow> prims \<Rightarrow> abi \<Rightarrow> env \<Rightarrow> rat \<Rightarrow> regime_policy \<Rightarrow> work_order list \<Rightarrow> string \<Rightarrow> cycle_result daemon_act" where
  "run_cycle D P abi E now p ws producer w0 =
     (let w = w0\<lparr>dw_coordinator := configure p (dw_coordinator w0)\<rparr>; before = daemon_treasury w;
          mid = ''mission-cycle-'' @ str_int P (dw_cycle_count w) @ ''-'' @ take 6 (e_uuid E 0);
          parent = dw_last_mission_id w;
          credits = dict_get (mission_credits (cw_mission (dw_coord w))) (dc_organisation_id D) 0;
          fund = \<lparr>fd_parent_mission_id = parent,
            fd_source = (if py_truthy parent then ''PRIOR_SURPLUS'' else ''TREASURY_RESERVE''), fd_amount_usdg = before\<rparr>;
          give = (\<lambda>c. c\<lparr>cw_mission := (cw_mission c)\<lparr>mw_purchase := cycle_loop D p mid ws\<rparr>\<rparr>)
      in act_bind (\<lambda>w. (Inr (), w\<lparr>dw_coord := give (dw_coord w)\<rparr>)) (\<lambda>_.
         act_bind (on_coord (select_and_coordinate (dw_coordinator w) P abi (env_skip 1 E) now mid ws before credits producer fund)) (\<lambda>out.
         act_bind (note_success mid out) (\<lambda>_.
         act_bind (persist_state D (env_skip 60 E)) (\<lambda>_ w'.
           record_cycle \<lparr>cy_number = dw_cycle_count w', cy_regime = rp_regime p, cy_mission_id = Some mid,
             cy_work_order_id = Some (wx_work_order_id out), cy_outcome = Some out, cy_treasury_before = before,
             cy_treasury_after = daemon_treasury w',
             cy_summary = (if wx_success out then ''SUCCESS'' else ''REJECTED/FAILED'')\<rparr> w')))) w)"

definition step_cycle ::
  "daemon_config \<Rightarrow> prims \<Rightarrow> abi \<Rightarrow> env \<Rightarrow> rat \<Rightarrow> work_order list \<Rightarrow> string \<Rightarrow> cycle_result daemon_act" where
  "step_cycle D P abi E now given producer w0 =
     (let w = w0\<lparr>dw_cycle_count := dw_cycle_count w0 + 1\<rparr>; reg = get_current_regime D w; ws = cycle_candidates D given w in
      if reg = Regime_STANDBY then idle_cycle D E reg ''halted: STANDBY regime active'' w
      else if ws = [] then idle_cycle D E reg ''No candidate work orders available.'' w
      else run_cycle D P abi E now (REGIME_POLICIES reg) ws producer w)"

text \<open>\<open>batches\<close> holds the candidates of the first cycles; later ones read the repository.\<close>

fun run_cycles ::
  "daemon_config \<Rightarrow> prims \<Rightarrow> abi \<Rightarrow> (nat \<Rightarrow> env) \<Rightarrow> (nat \<Rightarrow> rat) \<Rightarrow> nat \<Rightarrow> nat \<Rightarrow> work_order list list \<Rightarrow> string \<Rightarrow>
     cycle_result list \<Rightarrow> cycle_result list daemon_act" where
  "run_cycles D P abi E now 0 k batches producer acc w = (Inr acc, w)"
| "run_cycles D P abi E now (Suc n) k batches producer acc w =
     (case step_cycle D P abi (E k) (now k) (if k < length batches then batches ! k else []) producer w of
        (Inl x, w') \<Rightarrow> (Inl x, w')
      | (Inr r, w') \<Rightarrow>
          if cy_regime r = Regime_STANDBY then (Inr (acc @ [r]), w')
          else run_cycles D P abi E now n (Suc k) batches producer (acc @ [r]) w')"

end
