(* ===== verification/MissionBooks.thy ===== *)
theory MissionBooks
  imports Missions
begin

text \<open>
  What missions do to the books: the purchase loop only transfers, a successful mission settles exactly, an unviable
  or halted cycle spends nothing, and the CEO picks a best order.
\<close>

section \<open>The purchase loop only transfers\<close>

definition one_transfer :: "ledger \<Rightarrow> ledger \<Rightarrow> bool" where
  "one_transfer L L' \<longleftrightarrow> (\<exists>E f t n m tx e. transfer E L f t n m (Some tx) = Inr (e, L'))"

abbreviation transfers :: "ledger \<Rightarrow> ledger \<Rightarrow> bool" where
  "transfers \<equiv> one_transfer\<^sup>*\<^sup>*"

definition kept :: "('w \<Rightarrow> ledger) \<Rightarrow> ('w, 'a) act \<Rightarrow> bool" where
  "kept \<pi> f \<longleftrightarrow> (\<forall>w. transfers (\<pi> w) (\<pi> (snd (f w))))"

lemma keptI: "(\<And>w. transfers (\<pi> w) (\<pi> (snd (f w)))) \<Longrightarrow> kept \<pi> f"
  by (simp add: kept_def)

lemma keptD: "kept \<pi> f \<Longrightarrow> transfers (\<pi> w) (\<pi> (snd (f w)))"
  by (simp add: kept_def)

lemma keptE: "kept \<pi> f \<Longrightarrow> f w = (r, w') \<Longrightarrow> transfers (\<pi> w) (\<pi> w')"
  using keptD [of \<pi> f w] by simp

lemma kept_bind: "kept \<pi> f \<Longrightarrow> (\<And>a. kept \<pi> (g a)) \<Longrightarrow> kept \<pi> (act_bind f g)"
  unfolding kept_def act_bind_def
  by (auto split: prod.split sum.split) (metis snd_conv, metis rtranclp_trans snd_conv)

lemma kept_same: "(\<And>w. \<pi> (snd (f w)) = \<pi> w) \<Longrightarrow> kept \<pi> f"
  by (simp add: kept_def)

lemma kept_at: "(\<And>w. kept \<pi> (F w)) \<Longrightarrow> kept \<pi> (\<lambda>w. F w w)"
  by (simp add: kept_def)

definition loop_books :: "(ledger, 'p) loop_world \<Rightarrow> ledger" where
  "loop_books w = cs_ledger (lw_cs w)"

definition purchase_books :: "(ledger, 'p) purchase_world \<Rightarrow> ledger" where
  "purchase_books w = cs_ledger (pw_cs w)"

lemma cons_move_transfers: "transfers (cs_ledger s) (cs_ledger (snd (cons_move mem_entry_ops E f t n m tx s)))"
  by (cases "transfer E (cs_ledger s) f t n m (Some tx)")
    (auto simp: cons_move_def mem_entry_ops_def one_transfer_def split: prod.split intro!: r_into_rtranclp exI)

lemma kept_lift: "kept \<pi> (act_lift r)"
  by (simp add: kept_same act_lift_def)

lemma kept_return: "kept \<pi> (act_return r)"
  by (simp add: kept_same act_return_def)

text \<open>The reconciler.\<close>

lemma cons_move_transfers_to: "cons_move mem_entry_ops E f t n m tx s = (r, s') \<Longrightarrow> transfers (cs_ledger s) (cs_ledger s')"
  using cons_move_transfers [of s E f t n m tx] by simp

lemma kept_release: "kept purchase_books (purchase_release mem_entry_ops E seen dest memo tx)"
  by (auto simp: kept_def purchase_release_def Let_def on_cs_def purchase_books_def act_bind_def refresh_treasury_def
      split: prod.split sum.split dest: cons_move_transfers_to)

lemma kept_op_moves: "kept purchase_books (op_moves E new err ref)"
  by (simp add: kept_same op_moves_def purchase_books_def split: sum.split)

lemma kept_rec_save: "kept purchase_books rec_save"
  by (simp add: kept_same rec_save_def on_cs_def save_op_def purchase_books_def split: option.split sum.split)

lemma kept_rec_event: "kept purchase_books (rec_event P E ty ex)"
  by (simp add: kept_same rec_event_def on_cs_def log_event_def purchase_books_def split: option.split)

lemma kept_query: "kept purchase_books (query_status pv)"
  by (simp add: kept_same query_status_def Let_def on_cs_def call_provider_def purchase_books_def split: prod.split sum.split)

lemma kept_verifying: "kept purchase_books (on_verified f)"
  by (simp add: kept_same on_verified_def purchase_books_def split: prod.split)

lemma kept_finish: "kept purchase_books (finish_reconciled E err ref)"
  unfolding kept_def finish_reconciled_def by (auto intro!: keptD kept_bind kept_op_moves kept_rec_save)

lemmas kept_purchase = kept_bind kept_return kept_op_moves kept_rec_save kept_rec_event kept_query kept_verifying kept_finish
  kept_at [where F = "\<lambda>w. purchase_release mem_entry_ops E seen dest memo (tx w)" for E seen dest memo tx, OF kept_release]
  kept_at [where F = "\<lambda>w. op_moves E new err (ref w)" for E new err ref, OF kept_op_moves]

lemma kept_settle_by_report: "kept purchase_books (settle_by_report mem_entry_ops P E ih st report)"
  unfolding settle_by_report_def Let_def purchase_settle_success_def purchase_settle_failure_def
  by (cases "vf_result report") (auto intro!: kept_purchase)

lemma kept_reconcile: "kept purchase_books (reconcile_purchase mem_entry_ops pv P E i)"
proof -
  have mark: "kept purchase_books (mark_reconciling P E ih)" for P E ih
    unfolding kept_def mark_reconciling_def by (auto intro!: keptD kept_purchase)
  have rest: "kept purchase_books (ask_and_settle mem_entry_ops pv P E i op)" for E op
    unfolding ask_and_settle_def by (intro kept_purchase kept_settle_by_report)
  have bind: "kept purchase_books (act_bind (mark_reconciling P E ih) (\<lambda>_. ask_and_settle mem_entry_ops pv P (env_skip 4 E) i op))" for ih op
    by (intro kept_bind mark rest)
  show ?thesis by (simp add: kept_def reconcile_purchase_def Let_def keptD [OF bind])
qed

text \<open>The loop.\<close>

lemma kept_upd [simp]: "kept loop_books (upd_state f)" "kept loop_books (set_status st)" "kept loop_books (touch E m)"
  "kept loop_books (loop_on_verified g)" "kept loop_books (note_verification report)" "kept loop_books (moved_to E op new err ref)"
  by (simp_all add: kept_same upd_state_def set_status_def touch_def loop_on_verified_def note_verification_def moved_to_def
      act_lift_def loop_books_def split: prod.split)

lemma kept_assign [simp]: "kept loop_books (\<lambda>w. (Inr x, lw_approval_update f w))" "kept loop_books (\<lambda>w. (Inr x, lw_intent_update g w))"
  "kept loop_books (\<lambda>w. (Inr x, lw_pending_update h w))" "kept loop_books (\<lambda>w. (Inr x, lw_pending_update h (lw_intent_update g w)))"
  "kept loop_books (\<lambda>w. (Inr x, lw_pending_update h (lw_intent_update g (lw_approval_update f w))))"
  "kept loop_books (\<lambda>w. (Inr x, lw_intent_update g (lw_pending_update h w)))" "transfers (loop_books w) (loop_books (lw_intent_update g (lw_pending_update h w)))"
  by (simp_all add: kept_same loop_books_def)

lemma kept_transfer [simp]: "kept loop_books (loop_transfer mem_entry_ops E op f t memo pre)"
  by (auto simp: kept_def loop_transfer_def loop_on_cs_def loop_books_def split: prod.split dest: cons_move_transfers_to)

lemma kept_refresh [simp]: "kept loop_books (loop_on_cs (refresh_treasury mem_entry_ops))"
  by (simp add: kept_same loop_on_cs_def refresh_treasury_def loop_books_def)

lemma kept_loop_release [simp]: "kept loop_books (loop_release C mem_entry_ops E op dest memo pre refresh)"
  unfolding kept_def loop_release_def by (auto intro!: keptD kept_bind kept_return)

lemma kept_provider [simp]: "kept loop_books (loop_on_cs (call_provider f))"
  by (simp add: kept_same loop_on_cs_def call_provider_def loop_books_def split: prod.split)

lemmas kept_loop = kept_bind kept_return kept_lift
lemmas kept_bind_at = kept_bind [THEN keptD]

lemma kept_conclude: "kept loop_books (conclude_purchase P E pr n op r report)"
  unfolding conclude_purchase_def Let_def
  apply (intro kept_bind)
    apply (simp_all split: prod.split del: if_split)
  apply (rule keptI)
  apply (intro kept_bind_at kept_loop)
   apply simp_all
  done

lemma kept_stop_failed: "kept loop_books (stop_failed C mem_entry_ops E pr n op r memo pre err msg ver)"
  unfolding stop_failed_def stop_after_failure_def by (intro kept_loop) simp_all

lemma kept_await: "kept loop_books (await_reconcile E pr n op r)"
  unfolding await_reconcile_def by (intro kept_loop) simp_all

lemma kept_after_execution: "kept loop_books (after_execution C mem_entry_ops P E pr n op r)"
  unfolding after_execution_def decide_report_def settle_verified_def
  by (auto intro!: kept_loop kept_await kept_stop_failed kept_conclude)

lemma kept_submit: "kept loop_books (submit_purchase C mem_entry_ops pv P E pr n op)"
  unfolding submit_purchase_def execute_submitted_def by (intro kept_loop kept_after_execution) simp_all

lemma kept_stop_with: "kept loop_books (stop_with E st reason msg)"
  unfolding stop_with_def by (intro kept_loop) (auto split: option.split intro: kept_return)

lemma kept_execute_authorized: "kept loop_books (execute_authorized C mem_entry_ops pv P E pr n)"
  unfolding kept_def execute_authorized_def
  by (intro allI kept_bind_at kept_lift) (auto intro!: kept_bind_at kept_loop kept_submit [THEN keptD] kept_submit simp: kept_def [where f = "\<lambda>w. if F w then G w else H w" for F G H])

lemma kept_waiting_human: "kept loop_books (handle_waiting_human C mem_entry_ops pv P abi E now)"
  unfolding kept_def handle_waiting_human_def
  by (auto split: option.split sum.split intro!: kept_bind_at kept_loop kept_stop_with [THEN keptD] kept_execute_authorized)

lemma kept_reconcile_pending: "kept loop_books (reconcile_pending mem_entry_ops pv P E i op)"
  unfolding kept_def reconcile_pending_def
  by (auto split: prod.split simp: loop_books_def dest!: keptE [OF kept_reconcile] simp: purchase_books_def)

lemma kept_after_reconcile: "kept loop_books (after_reconcile P E i report)"
  unfolding kept_def after_reconcile_def Let_def
  by (auto split: verification_result.split prod.split intro!: kept_bind_at kept_loop intro: keptI)

lemma kept_handle_reconcile: "kept loop_books (handle_reconcile C mem_entry_ops pv P E)"
  unfolding kept_def handle_reconcile_def
  by (auto split: option.split bool.split intro!: kept_bind_at kept_loop kept_stop_with [THEN keptD] kept_stop_with kept_reconcile_pending kept_after_reconcile)

lemma kept_submit_proposal: "kept loop_books (submit_proposal C mem_entry_ops pv P abi E now pr)"
  unfolding kept_def submit_proposal_def
  by (auto split: sum.split purchase_result.split intro!: kept_bind_at kept_loop kept_execute_authorized [THEN keptD])

lemma kept_propose: "kept loop_books (propose_purchase P E C usdg m k reason)"
  by (simp add: kept_same propose_purchase_def Let_def set_status_def upd_state_def loop_books_def split: sum.split)

lemma kept_propose_and_submit: "kept loop_books (propose_and_submit C mem_entry_ops pv P abi E now usdg)"
proof -
  have rest: "kept loop_books (\<lambda>w. let ih = ih0 in
     if ih \<in> set (al_completed_intent_hashes (lw_state w))
     then act_bind (stop_with E Loop_OBJECTIVE_COMPLETE (Some x) y) (\<lambda>r. act_return (r\<lparr>lr_proposal := Some pr\<rparr>)) w
     else act_bind (upd_state (\<lambda>a. a\<lparr>al_loop_iteration := al_loop_iteration a + 1, al_last_intent_hash := Some ih\<rparr>)) (\<lambda>_.
       submit_proposal C mem_entry_ops pv P abi (env_skip 1 E) now pr) w)" for ih0 x y pr
    unfolding kept_def Let_def by (auto intro!: kept_bind_at kept_loop kept_stop_with kept_submit_proposal)
  show ?thesis unfolding propose_and_submit_def by (intro kept_bind kept_propose rest)
qed

lemma kept_ready: "kept loop_books (loop_ready_step C mem_entry_ops pv P abi E now)"
  unfolding kept_def loop_ready_step_def Let_def
  by (auto intro!: kept_stop_with [THEN keptD] kept_propose_and_submit [THEN keptD])

lemma kept_step: "kept loop_books (loop_step C mem_entry_ops pv P abi E now)"
  unfolding kept_def loop_step_def
  by (auto split: loop_status.split intro!: kept_stop_with [THEN keptD] kept_waiting_human [THEN keptD] kept_handle_reconcile [THEN keptD] kept_ready [THEN keptD])

lemma transfers_inv: "transfers L L' \<Longrightarrow> ledger_inv L \<Longrightarrow> ledger_inv L'"
  by (induction rule: rtranclp_induct) (auto simp: one_transfer_def dest: mem.post_inv)

section \<open>Distribution of a bounty\<close>

lemma surplus_move_done:
  assumes "ledger_inv (ss_ledger s)" "0 \<le> n" "t \<noteq> REVENUE" "surplus_move mem_ops E t n memo tx s = (Inr (), s')"
  shows "ledger_inv (ss_ledger s') \<and> ss_events s' = ss_events s \<and> (\<forall>a. get_balance (ss_ledger s') a =
     get_balance (ss_ledger s) a + (if a = t then n else 0) - (if a = REVENUE then n else 0))"
proof (cases "0 < n")
  case True
  then obtain e L where "transfer E (ss_ledger s) REVENUE t n memo (Some tx) = Inr (e, L)" "s' = s\<lparr>ss_ledger := L\<rparr>"
    using assms(4) by (auto simp: surplus_move_def mem_ops_def ops_of_def split: sum.splits)
  then show ?thesis using mem.post_inv [OF assms(1)] mem.post_bal [OF assms(1)] by simp
next
  case False
  then show ?thesis using assms by (simp add: surplus_move_def)
qed

lemma reconcile_surplus_done:
  assumes "ledger_inv (ss_ledger s)" "share_ok (sc_floor_mul C)" "gross \<le> 2 ^ 53"
    and run: "reconcile_surplus mem_ops P C E w r gross direct credits ratio s = (Inr ev, s')"
  shows "ledger_inv (ss_ledger s') \<and> distributed get_balance gross (re_allocated_to_reserve ev) (ss_ledger s) (ss_ledger s') \<and>
     re_net_surplus_usdg ev = max 0 (gross - direct) \<and> re_work_order_id ev = wo_work_order_id w \<and>
     re_allocated_to_reserve ev + re_allocated_to_mission_budget ev = re_net_surplus_usdg ev \<and>
     0 \<le> re_allocated_to_reserve ev \<and> 0 \<le> re_allocated_to_mission_budget ev \<and>
     receipt_verify_hmac P (sc_secret C) r \<and> ev \<in> snd ` set (ss_events s')"
proof -
  obtain q where g: "surplus_guard P C w r gross direct ratio (ss_events s) = Inr q"
    using run by (auto simp: reconcile_surplus_def split: sum.splits)
  obtain surplus rs ms cost where sp: "split_surplus (sc_floor_mul C) gross direct q = (surplus, rs, ms, cost)" by (metis prod.exhaust)
  note gq = surplus_guard_Inr [OF g]
  have p: "surplus = max 0 (gross - direct)" "rs + ms = surplus" "cost + surplus = gross" "0 \<le> rs" "0 \<le> ms" "0 \<le> cost"
    using split_surplus_sound [OF sp assms(2) _ assms(3)] gq by auto
  obtain s1 s2 s3 where
    m: "surplus_move mem_ops (env_skip 1 E) TREASURY cost (''[USDG] Cost reimbursement for work order '' @ wo_work_order_id w)
          (surplus_tx ''reconcile-cost-'' w (take 8 (e_uuid E 0))) s = (Inr (), s1)"
       "surplus_move mem_ops (env_skip 3 E) SURPLUS_RESERVE rs (''[USDG] Retained surplus reserve for work order '' @ wo_work_order_id w)
          (surplus_tx ''reconcile-res-'' w (take 8 (e_uuid E 0))) s1 = (Inr (), s2)"
       "surplus_move mem_ops (env_skip 5 E) TREASURY ms (''[USDG] Mission budget surplus allocation for work order '' @ wo_work_order_id w)
          (surplus_tx ''reconcile-msn-'' w (take 8 (e_uuid E 0))) s2 = (Inr (), s3)"
    and fin: "re_work_order_id ev = wo_work_order_id w" "re_allocated_to_reserve ev = rs" "re_allocated_to_mission_budget ev = ms"
       "re_net_surplus_usdg ev = surplus" "s' = s3\<lparr>ss_events := AList.update (re_revenue_event_id ev) ev (ss_events s3)\<rparr>"
    using run g sp by (auto simp: reconcile_surplus_def act_bind_eq_Inr Let_def split: if_splits)
  have ds: "TREASURY \<noteq> REVENUE" "SURPLUS_RESERVE \<noteq> REVENUE" by simp_all
  note d1 = surplus_move_done [OF assms(1) p(6) ds(1) m(1)]
  note d2 = surplus_move_done [OF conjunct1 [OF d1] p(4) ds(2) m(2)]
  note d3 = surplus_move_done [OF conjunct1 [OF d2] p(5) ds(1) m(3)]
  have "ev \<in> snd ` set (AList.update (re_revenue_event_id ev) ev xs)" for xs
    by (metis image_eqI map_of_SomeD snd_conv update_Some_unfold)
  then show ?thesis using d1 d2 d3 p fin gq by (simp add: distributed_def)
qed

section \<open>A mission\<close>

lemma mission_failure_unsuccessful: "mission_failure mid d r direct msg w = (Inr m, w') \<Longrightarrow> \<not> mr_success m"
  by (auto simp: mission_failure_def act_bind_def order_moves_def)

lemma purchase_step_effect:
  assumes "purchase_step R P abi E now l w = (res, w')"
  shows "transfers (mw_ledger w) (mw_ledger w') \<and> mw_events w' = mw_events w \<and> mw_order w' = mw_order w"
proof -
  have "loop_books (shared_loop w l) = mw_ledger w"
    by (simp add: loop_books_def shared_loop_def Let_def split: option.split)
  then show ?thesis using assms kept_step [THEN keptE]
    by (fastforce simp: purchase_step_def take_back_def loop_books_def split: prod.splits)
qed

lemma acquire_effect:
  assumes "acquire_credits R P abi E now mid limit w = (Inr a, w')"
  shows "mw_events w' = mw_events w \<and> wo_work_order_id (mw_order w') = wo_work_order_id (mw_order w) \<and>
    (case a of Inl r \<Rightarrow> \<not> mr_success r
     | Inr direct \<Rightarrow> transfers (mw_ledger w) (mw_ledger w') \<and> mw_order w' = mw_order w \<and>
        direct = max 0 (get_balance (mw_ledger w) TREASURY - get_balance (mw_ledger w') TREASURY) \<and>
        (wo_required_orbio_credits (mw_order w) \<le> dict_get (mission_credits w) (wo_organisation_id (mw_order w)) 0 \<longrightarrow> w' = w))"
  using assms
  by (auto simp: acquire_credits_def Let_def act_bind_def act_return_def mission_failure_def order_moves_def
      work_transition_to_def split: if_splits option.splits prod.splits sum.splits dest!: purchase_step_effect)

lemma mission_execute_effect:
  assumes "mission_execute P E producer w = (res, w')"
  shows "mw_ledger w' = mw_ledger w \<and> mw_events w' = mw_events w \<and>
    (case res of Inl x \<Rightarrow> mw_order w' = mw_order w
     | Inr d \<Rightarrow> mw_order w' = (mw_order w)\<lparr>wo_status := Work_DELIVERED\<rparr> \<and>
        dict_get (mission_credits w') (wo_organisation_id (mw_order w)) 0 =
          dict_get (mission_credits w) (wo_organisation_id (mw_order w)) 0 - wo_required_orbio_credits (mw_order w) \<and>
        0 \<le> dict_get (mission_credits w') (wo_organisation_id (mw_order w)) 0)"
proof -
  have keep: "mw_ledger (set_mission_credits S v) = mw_ledger v" "mw_events (set_mission_credits S v) = mw_events v"
      "mw_order (set_mission_credits S v) = mw_order v" "mission_credits (set_mission_credits S v) = S"
      "mission_credits (v\<lparr>mw_order := x\<rparr>) = mission_credits v" for S v x
    by (simp_all add: set_mission_credits_def mission_credits_def split: option.split)
  show ?thesis using assms
    by (auto simp: mission_execute_def act_bind_def order_moves_def act_return_def keep work_transition_to_def execute_work_Inr
        dict_get_def update_conv split: prod.splits sum.splits)
qed

lemma mission_collect_done:
  assumes "ledger_inv (mw_ledger w)" "share_ok (sc_floor_mul (rn_surplus R))" "wo_bounty_amount (mw_order w) \<le> 2 ^ 53"
    and "mission_collect R P E mid d r direct w = (Inr m, w')"
  shows "mr_success m \<and> mr_direct_expense m = direct \<and> mr_receipt m = Some r \<and> mr_net_surplus m = max 0 (wo_bounty_amount (mw_order w) - direct) \<and>
    mr_reserve m + mr_next_mission m = mr_net_surplus m \<and> 0 \<le> mr_reserve m \<and> 0 \<le> mr_next_mission m \<and>
    ledger_inv (mw_ledger w') \<and> (\<forall>a. get_balance (mw_ledger w') a = get_balance (mw_ledger w) a
       + (if a = SURPLUS_RESERVE then mr_reserve m else 0)
       + (if a = TREASURY then wo_bounty_amount (mw_order w) - mr_reserve m else 0)) \<and>
    mw_order w' = (mw_order w)\<lparr>wo_status := Work_SETTLED\<rparr> \<and> mission_credits w' = mission_credits w \<and>
    (\<exists>ev \<in> snd ` set (mw_events w'). re_work_order_id ev = wo_work_order_id (mw_order w))"
proof -
  obtain e L ev s where dep: "deposit_revenue E (mw_ledger w) (wo_bounty_amount (mw_order w))
        (''Client deposit for work order '' @ wo_work_order_id (mw_order w)) None = Inr (e, L)"
    and rec: "reconcile_surplus mem_ops P (rn_surplus R) (env_skip 2 E) ((mw_order w)\<lparr>wo_status := Work_VERIFIED\<rparr>) r
        (wo_bounty_amount (mw_order w)) direct (dl_orbio_credits_consumed d) (Some (rn_reserve_ratio R))
        \<lparr>ss_ledger = L, ss_events = mw_events w\<rparr> = (Inr ev, s)"
    and w': "mw_ledger w' = ss_ledger s" "mw_events w' = ss_events s" "mission_credits w' = mission_credits w"
      "mw_order w' = (mw_order w)\<lparr>wo_status := Work_SETTLED\<rparr>"
    and m: "mr_success m" "mr_direct_expense m = direct" "mr_receipt m = Some r" "mr_net_surplus m = re_net_surplus_usdg ev"
      "mr_reserve m = re_allocated_to_reserve ev" "mr_next_mission m = re_allocated_to_mission_budget ev"
    using assms(4)
    by (auto simp: mission_collect_def act_bind_eq_Inr order_moves_def work_transition_to_def mission_deposit_def
        mission_reconcile_def mission_credits_def split: sum.splits prod.splits option.splits)
  have L: "ledger_inv L" using deposit_revenue_inv [OF assms(1) dep] .
  have bal: "get_balance L a = get_balance (mw_ledger w) a + (if a = REVENUE then wo_bounty_amount (mw_order w) else 0)" for a
    using dep by (auto simp: deposit_revenue_Inr credit_minted_def get_balance_def)
  have "ledger_inv (ss_ledger \<lparr>ss_ledger = L, ss_events = mw_events w\<rparr>)" using L by simp
  from reconcile_surplus_done [OF this assms(2,3) rec] show ?thesis using w' m bal
    by (auto simp: distributed_def)
qed

definition paid_order :: "mission_world \<Rightarrow> bool" where
  "paid_order w \<longleftrightarrow> (\<exists>ev \<in> snd ` set (mw_events w). re_work_order_id ev = wo_work_order_id (mw_order w))"

lemma mission_collect_paid:
  assumes "paid_order w" "mission_collect R P E mid d r direct w = (res, w')"
  shows "\<exists>x. res = Inl x"
proof (cases res)
  case (Inr m)
  then obtain v ev v' where run: "mission_reconcile R P (env_skip 2 E) d r direct v = (Inr ev, v')"
      and v: "mw_events v = mw_events w" "wo_work_order_id (mw_order v) = wo_work_order_id (mw_order w)"
    using assms(2) by (auto simp: mission_collect_def act_bind_eq_Inr order_moves_def work_transition_to_def
        mission_deposit_def split: sum.splits prod.splits)
  obtain x where "x \<in> snd ` set (mw_events v)" "re_work_order_id x = wo_work_order_id (mw_order v)"
    using assms(1) v by (auto simp: paid_order_def)
  then obtain y where "surplus_guard P (rn_surplus R) (mw_order v) r (wo_bounty_amount (mw_order v)) direct
      (Some (rn_reserve_ratio R)) (mw_events v) = Inl y" using surplus_guard_seen by blast
  then show ?thesis using run by (simp add: mission_reconcile_def reconcile_surplus_def)
qed simp

lemma mission_work_cases:
  assumes "mission_work R P E mid producer direct w = (Inr m, w')" "mr_success m"
  obtains d v r where "mission_execute P E producer w = (Inr d, v)"
    "r = verify_work P (env_skip 1 E) (rn_verifier_identity R) (rn_verifier_secret R) (mw_order v) d None"
    "is_verified r" "receipt_verify_hmac P (rn_verifier_secret R) r"
    "mission_collect R P (env_skip 2 E) mid d r direct v = (Inr m, w')"
  using assms by (auto simp: mission_work_def Let_def split: sum.splits prod.splits if_splits
      dest: mission_failure_unsuccessful)

lemma execute_mission_cases:
  assumes "execute_mission R P abi E now mid producer limit w = (Inr m, w')" "mr_success m"
  obtains direct v where
    "acquire_credits R P abi E now mid limit (w\<lparr>mw_order := (mw_order w)\<lparr>wo_status := Work_IN_PROGRESS\<rparr>\<rparr>) = (Inr (Inr direct), v)"
    "mission_work R P (env_skip 40 E) mid producer direct v = (Inr m, w')"
proof -
  let ?w0 = "w\<lparr>mw_order := (mw_order w)\<lparr>wo_status := Work_IN_PROGRESS\<rparr>\<rparr>"
  obtain a v where acq: "acquire_credits R P abi E now mid limit ?w0 = (Inr a, v)"
      and rest: "(case a of Inl r \<Rightarrow> act_return r | Inr direct \<Rightarrow> mission_work R P (env_skip 40 E) mid producer direct) v = (Inr m, w')"
    using assms(1) by (auto simp: execute_mission_def act_bind_eq_Inr order_moves_def work_transition_to_def)
  show thesis
  proof (cases a)
    case (Inl r)
    then show thesis using acquire_effect [OF acq] rest assms(2) by (simp add: act_return_def)
  next
    case (Inr direct)
    then show thesis using that acq rest by simp
  qed
qed

lemma paid_order_not_again:
  assumes "paid_order w" "execute_mission R P abi E now mid producer limit w = (Inr m, w')"
  shows "\<not> mr_success m"
proof
  assume "mr_success m"
  then obtain direct v where acq: "acquire_credits R P abi E now mid limit (w\<lparr>mw_order := (mw_order w)\<lparr>wo_status := Work_IN_PROGRESS\<rparr>\<rparr>)
      = (Inr (Inr direct), v)" and wk: "mission_work R P (env_skip 40 E) mid producer direct v = (Inr m, w')"
    using execute_mission_cases [OF assms(2)] by blast
  obtain d u r where ex: "mission_execute P (env_skip 40 E) producer v = (Inr d, u)"
      and col: "mission_collect R P (env_skip 2 (env_skip 40 E)) mid d r direct u = (Inr m, w')"
    using mission_work_cases [OF wk \<open>mr_success m\<close>] by blast
  have "paid_order u" using assms(1) acquire_effect [OF acq] mission_execute_effect [OF ex]
    by (simp add: paid_order_def)
  from mission_collect_paid [OF this col] show False by simp
qed

text \<open>
  C19: A successful mission settles exactly, and once.  When \<open>execute_mission\<close> succeeds, the purchase it made
  (none when the credits suffice) only transferred on the ledger, from the start to books \<open>L\<close>; its direct expense is what the
  treasury lost by that; from \<open>L\<close> on the bounty was added, \<open>mr_reserve\<close> of it to SURPLUS_RESERVE and all the rest to TREASURY, no other
  account changed; reserve and next mission's budget make up the net surplus \<open>max 0 (bounty - expense)\<close>; the receipt is accepted
  and signed by the verifier; the order is SETTLED; without a purchase exactly the required credits were consumed; and no
  later mission for the same order succeeds.
\<close>

theorem mission_settles_once:
  assumes "ledger_inv (mw_ledger w)" "share_ok (sc_floor_mul (rn_surplus R))" "wo_bounty_amount (mw_order w) \<le> 2 ^ 53"
    and "execute_mission R P abi E now mid producer limit w = (Inr m, w')" "mr_success m"
  shows "\<exists>L r. transfers (mw_ledger w) L \<and>
     mr_direct_expense m = max 0 (get_balance (mw_ledger w) TREASURY - get_balance L TREASURY) \<and>
     (\<forall>a. get_balance (mw_ledger w') a = get_balance L a + (if a = SURPLUS_RESERVE then mr_reserve m else 0)
        + (if a = TREASURY then wo_bounty_amount (mw_order w) - mr_reserve m else 0)) \<and>
     ledger_inv (mw_ledger w') \<and>
     mr_net_surplus m = max 0 (wo_bounty_amount (mw_order w) - mr_direct_expense m) \<and>
     mr_reserve m + mr_next_mission m = mr_net_surplus m \<and> 0 \<le> mr_reserve m \<and> 0 \<le> mr_next_mission m \<and>
     mr_receipt m = Some r \<and> is_verified r \<and> receipt_verify_hmac P (rn_verifier_secret R) r \<and>
     wo_status (mw_order w') = Work_SETTLED \<and>
     (wo_required_orbio_credits (mw_order w) \<le> dict_get (mission_credits w) (wo_organisation_id (mw_order w)) 0 \<longrightarrow>
        L = mw_ledger w \<and> dict_get (mission_credits w') (wo_organisation_id (mw_order w)) 0 =
          dict_get (mission_credits w) (wo_organisation_id (mw_order w)) 0 - wo_required_orbio_credits (mw_order w)) \<and>
     (\<forall>R2 P2 abi2 E2 now2 mid2 who2 limit2 m2 w2.
        execute_mission R2 P2 abi2 E2 now2 mid2 who2 limit2 w' = (Inr m2, w2) \<longrightarrow> \<not> mr_success m2)"
proof -
  let ?w0 = "w\<lparr>mw_order := (mw_order w)\<lparr>wo_status := Work_IN_PROGRESS\<rparr>\<rparr>"
  have cr: "mission_credits ?w0 = mission_credits w" by (simp add: mission_credits_def split: option.split)
  obtain direct v where acq: "acquire_credits R P abi E now mid limit ?w0 = (Inr (Inr direct), v)"
      and wk: "mission_work R P (env_skip 40 E) mid producer direct v = (Inr m, w')"
    using execute_mission_cases [OF assms(4,5)] by blast
  obtain d u r where ex: "mission_execute P (env_skip 40 E) producer v = (Inr d, u)"
      and r: "is_verified r" "receipt_verify_hmac P (rn_verifier_secret R) r"
      and col: "mission_collect R P (env_skip 2 (env_skip 40 E)) mid d r direct u = (Inr m, w')"
    using mission_work_cases [OF wk assms(5)] by blast
  have a: "transfers (mw_ledger w) (mw_ledger v)" "mw_order v = mw_order ?w0"
      "direct = max 0 (get_balance (mw_ledger w) TREASURY - get_balance (mw_ledger v) TREASURY)"
      "wo_required_orbio_credits (mw_order w) \<le> dict_get (mission_credits w) (wo_organisation_id (mw_order w)) 0 \<Longrightarrow> v = ?w0"
    using acquire_effect [OF acq] cr by auto
  have x: "mw_ledger u = mw_ledger v" "mw_order u = (mw_order v)\<lparr>wo_status := Work_DELIVERED\<rparr>"
      "dict_get (mission_credits u) (wo_organisation_id (mw_order v)) 0 =
         dict_get (mission_credits v) (wo_organisation_id (mw_order v)) 0 - wo_required_orbio_credits (mw_order v)"
    using mission_execute_effect [OF ex] by auto
  have "ledger_inv (mw_ledger u)" using transfers_inv [OF a(1) assms(1)] x by simp
  moreover have "wo_bounty_amount (mw_order u) \<le> 2 ^ 53" using assms(3) a x by simp
  ultimately have c: "mr_direct_expense m = direct \<and> mr_receipt m = Some r \<and>
    mr_net_surplus m = max 0 (wo_bounty_amount (mw_order w) - direct) \<and>
    mr_reserve m + mr_next_mission m = mr_net_surplus m \<and> 0 \<le> mr_reserve m \<and> 0 \<le> mr_next_mission m \<and>
    ledger_inv (mw_ledger w') \<and> (\<forall>a. get_balance (mw_ledger w') a = get_balance (mw_ledger v) a
       + (if a = SURPLUS_RESERVE then mr_reserve m else 0)
       + (if a = TREASURY then wo_bounty_amount (mw_order w) - mr_reserve m else 0))"
    "wo_status (mw_order w') = Work_SETTLED" "mission_credits w' = mission_credits u" "paid_order w'"
    using mission_collect_done [OF _ assms(2) _ col] a(2) x by (auto simp: paid_order_def)
  have "dict_get (mission_credits w') (wo_organisation_id (mw_order w)) 0 =
          dict_get (mission_credits w) (wo_organisation_id (mw_order w)) 0 - wo_required_orbio_credits (mw_order w)"
    if "v = ?w0" using that x(3) c(3) cr by simp
  then show ?thesis using a c r paid_order_not_again [OF c(4)]
    by (intro exI [of _ "mw_ledger v"] exI [of _ r]) auto
qed

end
