(* ===== verification/MissionChoice.thy ===== *)
theory MissionChoice
  imports MissionBooks
begin

text \<open>Which order a mission works on, and when the daemon spends nothing.\<close>

section \<open>The CEO's choice\<close>

lemma value_less_irrefl [simp]: "\<not> value_less x x"
  by (simp add: value_less_def)

lemma value_less_trans: "value_less x y \<Longrightarrow> value_less y z \<Longrightarrow> value_less x z"
  by (auto simp: value_less_def)

lemma value_less_neg: "\<not> value_less x y \<Longrightarrow> \<not> value_less y z \<Longrightarrow> \<not> value_less x z"
  by (auto simp: value_less_def)

definition unbeaten :: "('a \<Rightarrow> int \<times> rat) \<Rightarrow> 'a list \<Rightarrow> 'a \<Rightarrow> bool" where
  "unbeaten key xs x \<longleftrightarrow> (\<forall>y \<in> set xs. \<not> value_less (key x) (key y))"

lemma find_cong_on: "(\<And>x. x \<in> set xs \<Longrightarrow> P x = Q x) \<Longrightarrow> find P xs = find Q xs"
  by (induction xs) auto

lemma unbeaten_swap:
  assumes "value_less (key b) (key x)"
  shows "unbeaten key (b # x # xs) z = unbeaten key (x # xs) z"
  using assms by (auto simp: unbeaten_def dest: value_less_trans)

lemma unbeaten_keep:
  assumes "\<not> value_less (key b) (key x)"
  shows "unbeaten key (b # x # xs) z = unbeaten key (b # xs) z"
  using value_less_neg [OF _ assms, of "key z"] by (auto simp: unbeaten_def)

lemma max_by_find: "Some (max_by key b xs) = find (unbeaten key (b # xs)) (b # xs)"
proof (induction xs arbitrary: b)
  case Nil
  show ?case by (simp add: unbeaten_def)
next
  case (Cons x xs)
  show ?case
  proof (cases "value_less (key b) (key x)")
    case True
    then have "\<not> unbeaten key (b # x # xs) b" by (auto simp: unbeaten_def)
    then have "find (unbeaten key (b # x # xs)) (b # x # xs) = find (unbeaten key (b # x # xs)) (x # xs)" by simp
    also have "\<dots> = find (unbeaten key (x # xs)) (x # xs)" by (rule find_cong_on) (simp add: unbeaten_swap True)
    finally show ?thesis using Cons.IH [of x] True by simp
  next
    case False
    have "find (unbeaten key (b # x # xs)) (b # x # xs) = find (unbeaten key (b # xs)) (b # x # xs)"
      by (rule find_cong_on) (simp add: unbeaten_keep False)
    also have "\<dots> = find (unbeaten key (b # xs)) (b # xs)"
    proof (cases "unbeaten key (b # xs) b")
      case no: False
      then obtain y where "y \<in> set xs" "value_less (key b) (key y)" by (auto simp: unbeaten_def)
      then have "\<not> unbeaten key (b # xs) x" using value_less_neg [OF False, of "key y"] by (auto simp: unbeaten_def)
      then show ?thesis using no by simp
    qed simp
    finally show ?thesis using Cons.IH [of b] False by simp
  qed
qed

lemma find_filter: "find P (filter Q xs) = find (\<lambda>x. Q x \<and> P x) xs"
  by (induction xs) auto

lemma select_is_find:
  "select_best_work_order ws evs = find (\<lambda>w. viable_in evs w \<and> unbeaten (order_value evs) (filter (viable_in evs) ws) w) ws"
proof (cases "filter (viable_in evs) ws")
  case Nil
  then have "\<forall>w \<in> set ws. \<not> viable_in evs w" by (simp add: filter_empty_conv)
  then show ?thesis using Nil by (auto simp: select_best_work_order_def find_None_iff intro!: find_None_iff [THEN iffD2, symmetric])
next
  case (Cons b rest)
  then show ?thesis using max_by_find [of "order_value evs" b rest] find_filter [of _ "viable_in evs" ws]
    by (simp add: select_best_work_order_def)
qed

text \<open>What the analyst requires of an order, and what it is worth.\<close>

definition order_cost :: "int \<Rightarrow> work_order \<Rightarrow> int" where
  "order_cost credits w = projected_cost (wo_required_orbio_credits w) credits 1000000"

definition order_margin :: "int \<Rightarrow> work_order \<Rightarrow> rat" where
  "order_margin credits w = py_round 4 (of_int (wo_bounty_amount w - order_cost credits w) / of_int (wo_bounty_amount w))"

definition profitable :: "rat \<Rightarrow> int \<Rightarrow> int \<Rightarrow> work_order \<Rightarrow> bool" where
  "profitable min_margin treasury credits w \<longleftrightarrow> order_cost credits w \<le> treasury \<and> 0 < wo_bounty_amount w \<and>
     min_margin \<le> order_margin credits w"

definition order_worth :: "int \<Rightarrow> work_order \<Rightarrow> int \<times> rat" where
  "order_worth credits w = (wo_bounty_amount w - order_cost credits w, order_margin credits w)"

lemma economics_viable: "ue_viable (evaluate_unit_economics w T K 1000000 m) = profitable m T K w"
  by (auto simp: evaluate_unit_economics_def profitable_def order_cost_def order_margin_def Let_def)

lemma economics_worth: "profitable m T K w \<Longrightarrow>
    (ue_expected_surplus (evaluate_unit_economics w T K 1000000 m), ue_margin_ratio (evaluate_unit_economics w T K 1000000 m)) = order_worth K w"
  by (simp add: evaluate_unit_economics_def profitable_def order_cost_def order_margin_def order_worth_def Let_def)

lemma fold_update_other:
  "k \<notin> f ` set ws \<Longrightarrow> map_of (foldl (\<lambda>d w. AList.update (f w) (g w) d) d ws) k = map_of d k"
  by (induction ws arbitrary: d) (auto simp: update_conv')

lemma fold_update_own:
  "distinct (map f ws) \<Longrightarrow> w \<in> set ws \<Longrightarrow> map_of (foldl (\<lambda>d w. AList.update (f w) (g w) d) d ws) (f w) = Some (g w)"
proof (induction ws arbitrary: d)
  case (Cons a ws)
  show ?case
  proof (cases "w = a")
    case True
    then have "f w \<notin> f ` set ws" using Cons.prems(1) by auto
    then show ?thesis using True by (simp add: fold_update_other update_conv')
  qed (use Cons in simp)
qed simp

lemma candidates_own:
  assumes "distinct (map wo_work_order_id ws)" "w \<in> set ws"
  shows "map_of (evaluate_candidates C ws T K) (wo_work_order_id w) = Some (evaluate_unit_economics w T K 1000000 (co_min_margin C))"
  unfolding evaluate_candidates_def
  by (rule fold_update_own [OF assms, of "\<lambda>w. evaluate_unit_economics w T K 1000000 (co_min_margin C)"])

text \<open>
  The selection is the specification.  For candidates with different ids, evaluating them all
  and taking Python's \<open>max\<close> of the viable ones returns exactly the first order that is profitable (its cost is in the
  treasury, its bounty positive, its rounded margin at least the threshold) and that no profitable order beats in surplus, then in
  margin; and nothing when no order is profitable.
\<close>

theorem ceo_picks_best:
  assumes "distinct (map wo_work_order_id ws)"
  shows "select_best_work_order ws (evaluate_candidates C ws T K) =
     find (\<lambda>w. profitable (co_min_margin C) T K w \<and>
       (\<forall>v \<in> set ws. profitable (co_min_margin C) T K v \<longrightarrow> \<not> value_less (order_worth K w) (order_worth K v))) ws"
proof -
  let ?e = "evaluate_candidates C ws T K" and ?p = "profitable (co_min_margin C) T K"
  have v: "viable_in ?e w = ?p w" if "w \<in> set ws" for w
    using candidates_own [OF assms that] by (simp add: viable_in_def economics_viable)
  have k: "order_value ?e w = order_worth K w" if "w \<in> set ws" "?p w" for w
    using candidates_own [OF assms that(1)] economics_worth [OF that(2)] by (simp add: order_value_def)
  show ?thesis unfolding select_is_find
  proof (rule find_cong_on)
    fix w assume w: "w \<in> set ws"
    show "(viable_in ?e w \<and> unbeaten (order_value ?e) (filter (viable_in ?e) ws) w) =
        (?p w \<and> (\<forall>v \<in> set ws. ?p v \<longrightarrow> \<not> value_less (order_worth K w) (order_worth K v)))"
      using v [OF w] k [OF w] v k by (auto simp: unbeaten_def)
  qed
qed

section \<open>Only profitable orders run\<close>

text \<open>What a coordination may spend: the ledger, the exchange, the credits and the recorded revenue.\<close>

definition assets :: "coord_world \<Rightarrow> ledger \<times> exchange option \<times> credit_store \<times> (string \<times> revenue_event) list" where
  "assets w = (let m = cw_mission w in (mw_ledger m, mw_exchange m, mw_credits m, mw_events m))"

lemma assets_simps [simp]:
  "assets (w\<lparr>cw_repo := D\<rparr>) = assets w" "assets (w\<lparr>cw_mission := (cw_mission w)\<lparr>mw_order := o1\<rparr>\<rparr>) = assets w"
  by (simp_all add: assets_def Let_def)

lemma reject_current_effect:
  assumes "reject_current mid ev w = (res, w')"
  shows "assets w' = assets w \<and> (\<exists>out. res = Inr out \<and> \<not> wx_success out)"
  using assms by (auto simp: reject_current_def act_bind_def on_mission_def order_moves_def save_current_order_def
      repo_write_def rejected_outcome_def assets_def Let_def)

text \<open>No step of a mission changes which order it works on.\<close>

definition same_id :: "'a mission_act \<Rightarrow> bool" where
  "same_id f \<longleftrightarrow> (\<forall>w. wo_work_order_id (mw_order (snd (f w))) = wo_work_order_id (mw_order w))"

lemma same_id_bind: "same_id f \<Longrightarrow> (\<And>a. same_id (g a)) \<Longrightarrow> same_id (act_bind f g)"
  by (simp add: same_id_def act_bind_def split: prod.split sum.split) (metis snd_conv)

lemma same_id_acts:
  "same_id (order_moves st)" "same_id (act_return x)" "same_id (mission_deposit E)" "same_id (mission_reconcile R P E d r direct)"
  by (simp_all add: same_id_def order_moves_def work_transition_to_def act_return_def mission_deposit_def mission_reconcile_def
      split: sum.split prod.split)

lemma same_id_failure: "same_id (mission_failure mid d r direct msg)"
  by (simp add: same_id_def mission_failure_def act_bind_def order_moves_def work_transition_to_def)

lemma same_id_collect: "same_id (mission_collect R P E mid d r direct)"
  unfolding mission_collect_def by (intro same_id_bind same_id_acts) (simp add: same_id_def)

lemma same_id_acquire: "same_id (acquire_credits R P abi E now mid limit)"
  by (auto simp: same_id_def acquire_credits_def Let_def act_bind_def act_return_def mission_failure_def order_moves_def
      work_transition_to_def split: option.split prod.split sum.split dest!: purchase_step_effect)

lemma same_id_work: "same_id (mission_work R P E mid producer direct)"
proof -
  have x: "wo_work_order_id (mw_order w') = wo_work_order_id (mw_order w)" if "mission_execute P E producer w = (res, w')" for res w w'
    using mission_execute_effect [OF that] by (auto split: sum.splits)
  show ?thesis using same_id_failure same_id_collect
    by (simp add: same_id_def mission_work_def Let_def x split: prod.split sum.split)
qed

lemma same_id_mission: "same_id (execute_mission R P abi E now mid producer limit)"
  unfolding execute_mission_def
  by (intro same_id_bind same_id_acts same_id_acquire) (auto split: sum.split intro: same_id_acts same_id_work)

definition same_coord_id :: "'a coord_act \<Rightarrow> bool" where
  "same_coord_id f \<longleftrightarrow> (\<forall>w. wo_work_order_id (mw_order (cw_mission (snd (f w)))) = wo_work_order_id (mw_order (cw_mission w)))"

lemma same_coord_bind: "same_coord_id f \<Longrightarrow> (\<And>a. same_coord_id (g a)) \<Longrightarrow> same_coord_id (act_bind f g)"
  by (simp add: same_coord_id_def act_bind_def split: prod.split sum.split) (metis snd_conv)

lemma same_coord_acts:
  "same_id f \<Longrightarrow> same_coord_id (on_mission f)" "same_coord_id (repo_write g)" "same_coord_id save_current_order"
  "same_coord_id (record_funding E mid fd)" "same_coord_id (act_return x)"
  by (auto simp: same_coord_id_def same_id_def on_mission_def repo_write_def save_current_order_def record_funding_def Let_def
      act_return_def split: prod.split)
    (metis snd_conv)

lemma same_coord_save: "same_coord_id (save_mission m)"
  by (simp add: same_coord_id_def save_mission_def Let_def act_bind_def repo_write_def save_current_order_def)

lemma coordinate_reports_id:
  assumes "coordinate_single_order C P abi E now mid ev producer f w = (res, w')"
  shows "wo_work_order_id (mw_order (cw_mission w')) = wo_work_order_id (mw_order (cw_mission w)) \<and>
     (\<forall>out. res = Inr out \<longrightarrow> wx_work_order_id out = wo_work_order_id (mw_order (cw_mission w')))"
proof -
  have "same_coord_id (reject_current mid ev)" unfolding reject_current_def
    by (intro same_coord_bind same_coord_acts same_id_acts) (simp add: same_coord_id_def)
  moreover have "same_coord_id (\<lambda>w. (Inr (x w), w))" for x :: "coord_world \<Rightarrow> work_outcome" by (simp add: same_coord_id_def)
  ultimately have "same_coord_id (coordinate_single_order C P abi E now mid ev producer f)"
    unfolding coordinate_single_order_def
    by (auto intro!: same_coord_bind same_coord_acts same_id_acts same_id_mission same_coord_save)
  moreover have "wx_work_order_id out = wo_work_order_id (mw_order (cw_mission w'))" if "res = Inr out" for out
    using assms that by (auto simp: coordinate_single_order_def reject_current_def act_bind_eq_Inr mission_outcome_def
        rejected_outcome_def split: if_splits)
  ultimately show ?thesis using assms by (metis same_coord_id_def snd_conv)
qed


section \<open>The daemon\<close>

lemma daemon_row_read [simp]:
  "get_daemon_state (save_daemon_state E t g n last_id R) t g =
     \<lparr>dm_tenant = t, dm_org = g, dm_cycle_count = n, dm_last_mission_id = last_id, dm_updated_at = Some (e_now E 0)\<rparr>"
  by (simp add: get_daemon_state_def save_daemon_state_def daemons.get_put daemon_key_def replace_row_def split: option.split)

definition persisted :: "daemon_config \<Rightarrow> daemon_world \<Rightarrow> bool" where
  "persisted D w \<longleftrightarrow> (\<forall>R. cw_repo (dw_coord w) = Some R \<longrightarrow>
     dm_cycle_count (get_daemon_state R (dc_tenant_id D) (dc_organisation_id D)) = dw_cycle_count w \<and>
     dm_last_mission_id (get_daemon_state R (dc_tenant_id D) (dc_organisation_id D)) = dw_last_mission_id w)"

lemma idle_cycle_run:
  "idle_cycle D E reg msg w = (res, w') \<Longrightarrow>
     dw_coord w' = (dw_coord w)\<lparr>cw_repo := map_option (save_daemon_state E (dc_tenant_id D) (dc_organisation_id D)
       (dw_cycle_count w) (dw_last_mission_id w)) (cw_repo (dw_coord w))\<rparr> \<and>
     dw_cycle_count w' = dw_cycle_count w \<and> dw_last_mission_id w' = dw_last_mission_id w \<and>
     (\<exists>r. res = Inr r \<and> cy_number r = dw_cycle_count w \<and> cy_regime r = reg \<and> cy_outcome r = None \<and>
        cy_treasury_before r = daemon_treasury w \<and> dw_history w' = dw_history w @ [r])"
  by (auto simp: idle_cycle_def Let_def act_bind_def persist_state_def record_cycle_def repo_write_def)

lemma run_cycle_run:
  assumes "run_cycle D P abi E now p ws producer w = (Inr r, w')"
  shows "dw_cycle_count w' = dw_cycle_count w \<and> cy_number r = dw_cycle_count w \<and> cy_regime r = rp_regime p \<and>
     cy_treasury_before r = daemon_treasury w \<and> dw_history w' = dw_history w @ [r] \<and>
     persisted D w'"
  using assms by (auto simp: run_cycle_def Let_def act_bind_eq_Inr on_coord_def note_success_def persist_state_def record_cycle_def
      repo_write_def daemon_treasury_def persisted_def split: prod.splits if_splits option.splits)

lemma step_cycle_run:
  assumes "step_cycle D P abi E now given producer w = (Inr r, w')"
  shows "dw_cycle_count w' = dw_cycle_count w + 1 \<and> cy_number r = dw_cycle_count w' \<and>
     cy_regime r = get_current_regime D w \<and> cy_treasury_before r = daemon_treasury w \<and> dw_history w' = dw_history w @ [r] \<and>
     persisted D w'"
proof -
  let ?w = "w\<lparr>dw_cycle_count := dw_cycle_count w + 1\<rparr>"
  have same: "get_current_regime D ?w = get_current_regime D w" "daemon_treasury ?w = daemon_treasury w"
    by (simp_all add: get_current_regime_def daemon_treasury_def)
  have reg: "rp_regime (REGIME_POLICIES x) = x" for x by (cases x) auto
  show ?thesis
  proof (cases "get_current_regime D w = Regime_STANDBY \<or> cycle_candidates D given ?w = []")
    case True
    then obtain msg where "idle_cycle D E (get_current_regime D w) msg ?w = (Inr r, w')"
      using assms same by (auto simp: step_cycle_def Let_def split: if_splits)
    from idle_cycle_run [OF this] show ?thesis using same by (auto simp: persisted_def)
  next
    case False
    then have "run_cycle D P abi E now (REGIME_POLICIES (get_current_regime D w)) (cycle_candidates D given ?w) producer ?w = (Inr r, w')"
      using assms same by (simp add: step_cycle_def Let_def)
    from run_cycle_run [OF this] show ?thesis using same reg by auto
  qed
qed

text \<open>
  C32: Standby halts spending.  While the treasury is below both thresholds, a cycle runs nothing: ledger, exchange, credits, revenue
  and orders are exactly as before, only the daemon's own row of the repository is written; and \<open>run_cycles\<close> ends after this one cycle
  whatever the number of cycles asked for.
\<close>

theorem standby_spends_nothing:
  assumes "daemon_treasury w < dc_expansion_threshold D" "daemon_treasury w < dc_standby_threshold D"
  shows "\<exists>r w'. step_cycle D P abi E now given producer w = (Inr r, w') \<and> cy_regime r = Regime_STANDBY \<and> cy_outcome r = None \<and>
     cw_mission (dw_coord w') = cw_mission (dw_coord w) \<and>
     cw_repo (dw_coord w') = map_option (save_daemon_state E (dc_tenant_id D) (dc_organisation_id D)
       (dw_cycle_count w + 1) (dw_last_mission_id w)) (cw_repo (dw_coord w)) \<and>
     run_cycles D P abi (\<lambda>k. E) (\<lambda>k. now) (Suc n) 0 [given] producer [] w = (Inr [r], w')"
proof -
  let ?w = "w\<lparr>dw_cycle_count := dw_cycle_count w + 1\<rparr>"
  obtain res w' where run: "idle_cycle D E Regime_STANDBY ''halted: STANDBY regime active'' ?w = (res, w')" by (metis prod.exhaust)
  from idle_cycle_run [OF run] obtain r where r: "res = Inr r" "cy_regime r = Regime_STANDBY" "cy_outcome r = None" by auto
  have "get_current_regime D ?w = Regime_STANDBY"
    using assms by (simp add: get_current_regime_def derive_solvency_regime_def daemon_treasury_def)
  then have step: "step_cycle D P abi E now given producer w = (Inr r, w')"
    using run r by (simp add: step_cycle_def Let_def)
  then show ?thesis using r idle_cycle_run [OF run] by auto
qed

text \<open>
  What a run of the daemon returns.  A run of up to \<open>n\<close> cycles appends at most \<open>n\<close> results, numbered consecutively from the
  daemon's count; only the last of them can be in STANDBY; and a run that ends early ended in STANDBY.
\<close>

theorem daemon_run_shape:
  assumes "run_cycles D P abi E now n k batches producer acc w = (Inr rs, w')"
  shows "\<exists>new. rs = acc @ new \<and> length new \<le> n \<and> dw_history w' = dw_history w @ new \<and>
     map cy_number new = map (\<lambda>i. dw_cycle_count w + 1 + int i) [0..<length new] \<and>
     (\<forall>r \<in> set (butlast new). cy_regime r \<noteq> Regime_STANDBY) \<and>
     (length new < n \<longrightarrow> new \<noteq> [] \<and> cy_regime (last new) = Regime_STANDBY)"
  using assms
proof (induction n arbitrary: k acc w)
  case 0
  then show ?case by simp
next
  case (Suc n)
  then obtain r w1 where step: "step_cycle D P abi (E k) (now k) (if k < length batches then batches ! k else []) producer w = (Inr r, w1)"
    by (auto split: sum.splits prod.splits)
  note st = step_cycle_run [OF step]
  show ?case
  proof (cases "cy_regime r = Regime_STANDBY")
    case True
    then have "rs = acc @ [r]" "w' = w1" using Suc.prems step by simp_all
    then show ?thesis using st True by (intro exI [of _ "[r]"]) auto
  next
    case False
    then have "run_cycles D P abi E now n (Suc k) batches producer (acc @ [r]) w1 = (Inr rs, w')"
      using Suc.prems step by simp
    from Suc.IH [OF this] obtain new where new: "rs = (acc @ [r]) @ new" "length new \<le> n" "dw_history w' = dw_history w1 @ new"
      "map cy_number new = map (\<lambda>i. dw_cycle_count w1 + 1 + int i) [0..<length new]"
      "\<forall>r \<in> set (butlast new). cy_regime r \<noteq> Regime_STANDBY"
      "length new < n \<longrightarrow> new \<noteq> [] \<and> cy_regime (last new) = Regime_STANDBY" by blast
    have "map cy_number (r # new) = map (\<lambda>i. dw_cycle_count w + 1 + int i) [0..<length (r # new)]"
      using new(4) st by (simp add: upt_conv_Cons map_Suc_upt [symmetric] o_def del: upt_Suc)
    then show ?thesis using new st False by (intro exI [of _ "r # new"]) auto
  qed
qed

text \<open>
  A daemon resumes where it stopped.  After every cycle that returned, a daemon built anew on the repository left behind counts from the
  same cycle and links to the same last mission.
\<close>

theorem daemon_resumes:
  assumes "step_cycle D P abi E now given producer w = (Inr r, w')" "cw_repo (dw_coord w') \<noteq> None"
  shows "dw_cycle_count (new_daemon D C (dw_coord w')) = cy_number r \<and> cy_number r = dw_cycle_count w + 1 \<and>
     dw_last_mission_id (new_daemon D C (dw_coord w')) = dw_last_mission_id w'"
  using step_cycle_run [OF assms(1)] assms(2) by (auto simp: new_daemon_def Let_def persisted_def)

end
