(* ===== verification/MissionDemo.thy ===== *)
theory MissionDemo
  imports MissionChoice
begin

text \<open>Concrete missions: the properties of \<open>MissionBooks\<close> and \<open>MissionChoice\<close> applied to them.\<close>

definition demo_runner :: runner where
  "demo_runner = \<lparr>rn_verifier_identity = ''v'', rn_verifier_secret = ''k'', rn_surplus = demo_surplus_config, rn_reserve_ratio = 1 / 5,
     rn_loop = \<lparr>lc_has_ledger = True, lc_has_reconciler = True, lc_max_iterations = 2, lc_max_cumulative_usdg = 5000,
       lc_max_single_usdg = 3000, lc_default_beneficiary = [], lc_chain_id = 46630, lc_network = [],
       lc_expected_fill_rate_bps = 9800\<rparr>\<rparr>"

definition demo_mission_world :: mission_world where
  "demo_mission_world = \<lparr>mw_ledger = demo_ledger, mw_exchange = None, mw_credits = [(''o'', 7)], mw_events = [],
     mw_order = demo_work_order, mw_purchase = None\<rparr>"

definition no_abi :: abi where
  "no_abi = (\<lambda>a b c d. Inr [])"

abbreviation demo_mission :: "mission_result result \<times> mission_world" where
  "demo_mission \<equiv> execute_mission demo_runner demo_prims no_abi demo_env 0 ''m'' ''a'' None demo_mission_world"

definition mission_summary :: "mission_result result \<times> mission_world \<Rightarrow> bool" where
  "mission_summary x = (case x of (Inr m, w) \<Rightarrow> mr_success m \<and> mr_reserve m = 20 \<and> mr_next_mission m = 80 \<and>
       get_balance (mw_ledger w) TREASURY = 180 \<and> mw_credits w = [(''o'', 2)] | _ \<Rightarrow> False)"

lemma demo_mission_succeeds: "mission_summary demo_mission"
  by code_simp

lemma demo_mission_ledger_ok: "ledger_inv demo_ledger"
  using init_ledger_inv [OF demo_ledger_init] .

theorem mission_settles_once_witness:
  "\<exists>m w. demo_mission = (Inr m, w) \<and> wo_status (mw_order w) = Work_SETTLED \<and> mr_reserve m = 20 \<and>
     get_balance (mw_ledger w) TREASURY = get_balance demo_ledger TREASURY + 80"
proof -
  obtain m w where run: "demo_mission = (Inr m, w)" "mr_success m" "mr_reserve m = 20"
    using demo_mission_succeeds unfolding mission_summary_def by (cases demo_mission; cases "fst demo_mission") auto
  have w: "mw_ledger demo_mission_world = demo_ledger" "mw_order demo_mission_world = demo_work_order" "mission_credits demo_mission_world = [(''o'', 7)]"
      "rn_surplus demo_runner = demo_surplus_config" by (simp_all add: demo_mission_world_def demo_runner_def mission_credits_def)
  have "wo_required_orbio_credits (mw_order demo_mission_world) \<le>
      dict_get (mission_credits demo_mission_world) (wo_organisation_id (mw_order demo_mission_world)) 0"
    unfolding w by (simp add: demo_work_order_def)
  moreover have "ledger_inv (mw_ledger demo_mission_world)" "share_ok (sc_floor_mul (rn_surplus demo_runner))"
      "wo_bounty_amount (mw_order demo_mission_world) \<le> 2 ^ 53"
    unfolding w using demo_mission_ledger_ok demo_share_ok by (simp_all add: demo_work_order_def)
  note mission_settles_once [OF this run(1,2)]
  ultimately have "wo_status (mw_order w) = Work_SETTLED \<and> get_balance (mw_ledger w) TREASURY =
      get_balance (mw_ledger demo_mission_world) TREASURY + (wo_bounty_amount (mw_order demo_mission_world) - mr_reserve m)" by auto
  then show ?thesis using run unfolding w by (intro exI [of _ m] exI [of _ w]) (simp add: demo_work_order_def)
qed

definition cheap_order :: work_order where
  "cheap_order = demo_work_order\<lparr>wo_work_order_id := ''x'', wo_required_orbio_credits := 3000000, wo_bounty_amount := 10\<rparr>"

definition demo_coordinator :: coordinator where
  "demo_coordinator = \<lparr>co_runner = demo_runner, co_min_margin = 15 / 100\<rparr>"

lemma demo_orders_distinct: "distinct (map wo_work_order_id [cheap_order, demo_work_order])"
  by (simp add: cheap_order_def demo_work_order_def)

text \<open>The order worth 10 leaves 7 after its credits are bought, the other one 100.\<close>

theorem ceo_picks_best_witness:
  "select_best_work_order [cheap_order, demo_work_order] (evaluate_candidates demo_coordinator [cheap_order, demo_work_order] 100 7) =
     Some demo_work_order"
  unfolding ceo_picks_best [OF demo_orders_distinct] by code_simp

definition demo_coord_world :: coord_world where
  "demo_coord_world = \<lparr>cw_mission = demo_mission_world, cw_repo = None\<rparr>"

definition demo_funding :: funding where
  "demo_funding = \<lparr>fd_parent_mission_id = None, fd_source = ''TREASURY_RESERVE'', fd_amount_usdg = 100\<rparr>"

abbreviation demo_coordination :: "work_outcome result \<times> coord_world" where
  "demo_coordination \<equiv> select_and_coordinate demo_coordinator demo_prims no_abi demo_env 0 ''m'' [cheap_order, demo_work_order] 100 7 ''a''
     demo_funding demo_coord_world"

definition coordination_summary :: "work_outcome result \<times> coord_world \<Rightarrow> bool" where
  "coordination_summary x = (case x of (Inr out, w) \<Rightarrow> wx_success out | _ \<Rightarrow> False)"

lemma demo_coordination_succeeds: "coordination_summary demo_coordination"
  by code_simp


definition demo_daemon_config :: daemon_config where
  "demo_daemon_config = \<lparr>dc_tenant_id = ''t'', dc_organisation_id = ''o'', dc_expansion_threshold = 500,
     dc_standby_threshold = 120, dc_loop_factory = None\<rparr>"

definition demo_daemon :: daemon_world where
  "demo_daemon = new_daemon demo_daemon_config demo_coordinator (demo_coord_world\<lparr>cw_repo := Some empty_work_db\<rparr>)"

lemma demo_daemon_poor:
  "daemon_treasury demo_daemon < dc_expansion_threshold demo_daemon_config"
  "daemon_treasury demo_daemon < dc_standby_threshold demo_daemon_config"
  by (simp_all add: daemon_treasury_def demo_daemon_def new_daemon_def Let_def demo_coord_world_def demo_mission_world_def
      demo_daemon_config_def demo_ledger_def get_balance_def TREASURY_def)

theorem standby_spends_nothing_witness:
  "\<exists>r w. step_cycle demo_daemon_config demo_prims no_abi demo_env 0 [demo_work_order] ''a'' demo_daemon = (Inr r, w) \<and>
     cw_mission (dw_coord w) = cw_mission (dw_coord demo_daemon)"
  using standby_spends_nothing [OF demo_daemon_poor, of demo_prims no_abi demo_env 0 "[demo_work_order]" "''a''"] by blast

theorem daemon_run_shape_witness:
  "\<exists>r w. run_cycles demo_daemon_config demo_prims no_abi (\<lambda>k. demo_env) (\<lambda>k. 0) 3 0 [[demo_work_order]] ''a'' [] demo_daemon = (Inr [r], w) \<and>
     cy_regime r = Regime_STANDBY \<and> cy_number r = dw_cycle_count demo_daemon + 1"
proof -
  obtain r w where run: "run_cycles demo_daemon_config demo_prims no_abi (\<lambda>k. demo_env) (\<lambda>k. 0) 3 0 [[demo_work_order]] ''a'' [] demo_daemon = (Inr [r], w)"
    using standby_spends_nothing [OF demo_daemon_poor, of demo_prims no_abi demo_env 0 "[demo_work_order]" "''a''" 2] by (auto simp: numeral_3_eq_3)
  from daemon_run_shape [OF this] show ?thesis using run by auto
qed

theorem daemon_resumes_witness:
  "\<exists>r w. step_cycle demo_daemon_config demo_prims no_abi demo_env 0 [demo_work_order] ''a'' demo_daemon = (Inr r, w) \<and>
     dw_cycle_count (new_daemon demo_daemon_config demo_coordinator (dw_coord w)) = dw_cycle_count demo_daemon + 1"
proof -
  obtain r w where run: "step_cycle demo_daemon_config demo_prims no_abi demo_env 0 [demo_work_order] ''a'' demo_daemon = (Inr r, w)"
      "cw_repo (dw_coord w) = map_option (save_daemon_state demo_env (dc_tenant_id demo_daemon_config) (dc_organisation_id demo_daemon_config)
       (dw_cycle_count demo_daemon + 1) (dw_last_mission_id demo_daemon)) (cw_repo (dw_coord demo_daemon))"
    using standby_spends_nothing [OF demo_daemon_poor, of demo_prims no_abi demo_env 0 "[demo_work_order]" "''a''"] by blast
  then have "cw_repo (dw_coord w) \<noteq> None" by (simp add: demo_daemon_def new_daemon_def Let_def)
  from daemon_resumes [OF run(1) this, of demo_coordinator] show ?thesis using run(1) by auto
qed

end
