(* ===== verification/Auditor.thy ===== *)
theory Auditor
  imports Consequential
begin

text \<open>
  The independent auditor (\<open>src/audit/auditor.py\<close>): its own check of authorization tokens, the audit of an
  execution and of a consequential operation.  A policy engine passed to the auditor is the pair of its
  signing secret and itself; messages leave out interpolated values.
\<close>

section \<open>The auditor\<close>

type_synonym token_verifier = "string \<Rightarrow> string \<Rightarrow> bool"

record auditor =
  au_secret :: "string option"
  au_verifier :: "token_verifier option"

definition mk_auditor :: "prims \<Rightarrow> string option \<Rightarrow> token_verifier option \<Rightarrow> auditor" where
  "mk_auditor P secret verifier = \<lparr>au_secret = secret, au_verifier = (case verifier of Some v \<Rightarrow> Some v
     | None \<Rightarrow> if py_truthy secret then Some (hmac_verify P (the secret)) else None)\<rparr>"

record verification_receipt =
  vr_id :: string
  vr_execution_id :: string
  vr_verified :: bool
  vr_checks :: "string list"
  vr_failures :: "string list"
  vr_evidence_hash :: string
  vr_timestamp :: string

definition receipt_payload :: "verification_receipt \<Rightarrow> (string \<times> json) list" where
  "receipt_payload v = [(''id'', JStr (vr_id v)), (''execution_id'', JStr (vr_execution_id v)),
     (''verified'', JBool (vr_verified v)), (''checks'', JList (map JStr (vr_checks v))),
     (''failures'', JList (map JStr (vr_failures v))), (''evidence_hash'', JStr (vr_evidence_hash v)),
     (''timestamp'', JStr (vr_timestamp v))]"

section \<open>The token\<close>

text \<open>The verifier given, else one for the secret given, else the auditor's own, else none.\<close>

definition active_verifier :: "prims \<Rightarrow> auditor \<Rightarrow> string option \<Rightarrow> token_verifier option \<Rightarrow> token_verifier option" where
  "active_verifier P A secret verifier = (case verifier of Some v \<Rightarrow> Some v
     | None \<Rightarrow> if py_truthy secret then Some (hmac_verify P (the secret)) else au_verifier A)"

definition claims_refusal ::
  "prims \<Rightarrow> token_claims \<Rightarrow> action_proposal \<Rightarrow> organisation \<Rightarrow> policy_decision option \<Rightarrow> string option \<Rightarrow> rat \<Rightarrow> string option"
where
  "claims_refusal P c p g decision version now =
     (if now > tc_expires_at c then Some ''Authorization token expired''
      else if tc_org_id c \<noteq> og_id g then Some ''Token organisation mismatch''
      else if tc_proposal_id c \<noteq> pr_id p then Some ''Token proposal ID mismatch''
      else if tc_proposal_content_hash c \<noteq> get_content_hash P p
      then Some ''Token proposal content hash mismatch: proposal was modified after policy authorization''
      else if (case decision of None \<Rightarrow> False | Some d \<Rightarrow> tc_decision_id c \<noteq> pd_id d) then Some ''Token decision ID mismatch''
      else if py_truthy version \<and> tc_policy_version_hash c \<noteq> the version then Some ''Policy version mismatch''
      else None)"

definition verify_authorization_token ::
  "prims \<Rightarrow> json_loads_fun \<Rightarrow> auditor \<Rightarrow> string option \<Rightarrow> action_proposal \<Rightarrow> organisation \<Rightarrow> policy_decision option \<Rightarrow>
     string option \<Rightarrow> string option \<Rightarrow> rat \<Rightarrow> token_verifier option \<Rightarrow> bool \<times> string option" where
  "verify_authorization_token P loads A token p g decision secret version now verifier =
     (if \<not> py_truthy token then (False, Some ''Empty or missing authorization token'')
      else if og_state g = Org_PAUSED then (False, Some ''Organisation is PAUSED by emergency kill switch'')
      else case py_split (CHR ''.'') (the token) of
        [hd', b64, signature] \<Rightarrow>
          if \<not> prefix ''AUTH-'' hd' then (False, Some ''Invalid authorization token format'')
          else if (case active_verifier P A secret verifier of None \<Rightarrow> False | Some v \<Rightarrow> \<not> v b64 signature)
          then (False, Some ''Invalid token signature: forged, modified, or signed with unrecognized key'')
          else (case claims_from_b64 P loads b64 of
              Inl x \<Rightarrow> (False, Some ''Failed to parse token claims'')
            | Inr c \<Rightarrow> (case claims_refusal P c p g decision version now of
                Some why \<Rightarrow> (False, Some why) | None \<Rightarrow> (True, None)))
      | _ \<Rightarrow> (False, Some ''Invalid authorization token format''))"

section \<open>An audit\<close>

text \<open>The policy engine an auditor may be given, with its signing secret, and the keys and version it is to use.\<close>

type_synonym engine_handle = "(string \<times> policy_engine) option"

record audit_keys =
  ak_engine :: engine_handle
  ak_secret :: "string option"
  ak_version :: "string option"
  ak_verifier :: "token_verifier option"

definition resolved_secret :: "auditor \<Rightarrow> audit_keys \<Rightarrow> string option" where
  "resolved_secret A K = (if py_truthy (ak_secret K) then ak_secret K
     else case ak_engine K of Some (s, eng) \<Rightarrow> Some s | None \<Rightarrow> au_secret A)"

definition resolved_version :: "prims \<Rightarrow> audit_keys \<Rightarrow> string option" where
  "resolved_version P K = (if py_truthy (ak_version K) then ak_version K
     else case ak_engine K of Some (s, eng) \<Rightarrow> Some (get_policy_version_hash P eng) | None \<Rightarrow> None)"

text \<open>A failure is noted when its condition holds.\<close>

definition fails :: "bool \<Rightarrow> string \<Rightarrow> string list" where
  "fails b msg = (if b then [msg] else [])"

definition token_failures ::
  "prims \<Rightarrow> json_loads_fun \<Rightarrow> auditor \<Rightarrow> audit_keys \<Rightarrow> rat \<Rightarrow> action_proposal \<Rightarrow> policy_decision \<Rightarrow> organisation \<Rightarrow> string list" where
  "token_failures P loads A K now p d g =
     fails (\<not> fst (verify_authorization_token P loads A (pd_authorization_token d) p g (Some d) (resolved_secret A K)
       (resolved_version P K) now (ak_verifier K))) ''Authorization token verification failed''"

text \<open>The ledger as the auditor sees it: its entries, and whether it conserves credits.\<close>

record audit_books =
  ab_entries :: "ledger_entry list"
  ab_conserved :: bool

definition books_of :: "ledger \<Rightarrow> audit_books" where
  "books_of L = \<lparr>ab_entries = get_entries L None, ab_conserved = verify_conservation L\<rparr>"

definition execution_settlement_failures :: "prims \<Rightarrow> policy_decision \<Rightarrow> execution_receipt \<Rightarrow> audit_books \<Rightarrow> string list" where
  "execution_settlement_failures P d rc B =
     (if rc_cost_credits rc > 0
      then let h = take 16 (sha256 P (py_or (pd_authorization_token d) []));
               matching = filter (\<lambda>e. le_transaction_id e \<in> {''tx-'' @ h, ''commit-'' @ h}) (ab_entries B)
           in if matching = [] then [''No ledger settlement found'']
              else fails (le_amount (last matching) \<noteq> rc_cost_credits rc) ''Ledger settled amount differs from receipt cost''
      else [])"

definition execution_failures ::
  "prims \<Rightarrow> json_loads_fun \<Rightarrow> auditor \<Rightarrow> audit_keys \<Rightarrow> rat \<Rightarrow> action_proposal \<Rightarrow> policy_decision \<Rightarrow> execution_receipt \<Rightarrow>
     organisation \<Rightarrow> task \<Rightarrow> audit_books \<Rightarrow> event_store \<Rightarrow> string list" where
  "execution_failures P loads A K now p d rc g t B S =
     fails (get_content_hash P p = []) ''Proposal fingerprint computation failed'' @
     token_failures P loads A K now p d g @
     fails (rc_proposal_id rc \<noteq> pr_id p) ''Receipt proposal_id does not match proposal'' @
     fails (Some (rc_authorization_token rc) \<noteq> pd_authorization_token d) ''Receipt authorization_token does not match policy decision token'' @
     fails (rc_cost_credits rc \<noteq> pr_requested_credits p) ''Receipt cost credits does not match approved credits'' @
     fails (rc_target rc \<noteq> pr_target p) ''Receipt target does not match approved target'' @
     fails (rc_action_type rc \<noteq> pr_action_type p) ''Receipt action_type does not match approved action_type'' @
     execution_settlement_failures P d rc B @
     fails (\<not> fst (verify_integrity P S)) ''Audit chain cryptographic verification failed'' @
     fails (\<not> ab_conserved B) ''Conservation of credits broken in ledger'' @
     fails (og_state g = Org_PAUSED) ''Organisation is in PAUSED state'' @
     fails (tk_status t \<notin> {Task_APPROVED, Task_COMPLETED}) ''Task status is inconsistent with execution''"

definition EXECUTION_CHECKS :: "string list" where
  "EXECUTION_CHECKS = [''PROPOSAL_FINGERPRINT'', ''TOKEN_VALIDITY'', ''AUTH_EXEC_BINDING'', ''RECEIPT_INTEGRITY'',
     ''LEDGER_SETTLEMENT'', ''AUDIT_CHAIN_INTEGRITY'', ''CREDIT_CONSERVATION'', ''STATE_CONSISTENCY'']"

text \<open>The receipt is logged, whether it is verified or not; then an unverified one raises.\<close>

definition audit_receipt ::
  "prims \<Rightarrow> env \<Rightarrow> string \<Rightarrow> (string \<times> json) list \<Rightarrow> string list \<Rightarrow> string list \<Rightarrow> verification_receipt" where
  "audit_receipt P E i context checks failures =
     \<lparr>vr_id = e_uuid E 0, vr_execution_id = i, vr_verified = (failures = []), vr_checks = checks, vr_failures = failures,
      vr_evidence_hash = sha256 P (canonical_json P (JObj (context @ [(''checks'', JList (map JStr checks)),
        (''failures'', JList (map JStr failures)), (''verified'', JBool (failures = []))]))),
      vr_timestamp = e_now E 0\<rparr>"

definition audit_verdict :: "verification_receipt \<Rightarrow> verification_receipt result" where
  "audit_verdict v = (if vr_verified v then Inr v else raise AuditVerificationError ''Audit verification failed'')"

definition verify_audited_execution ::
  "prims \<Rightarrow> json_loads_fun \<Rightarrow> env \<Rightarrow> auditor \<Rightarrow> audit_keys \<Rightarrow> rat \<Rightarrow> action_proposal \<Rightarrow> policy_decision \<Rightarrow>
     execution_receipt \<Rightarrow> organisation \<Rightarrow> task \<Rightarrow> audit_books \<Rightarrow> (event_store, verification_receipt) act" where
  "verify_audited_execution P loads E A K now p d rc g t B S =
     (let v = audit_receipt P E (rc_id rc) [(''execution_id'', JStr (rc_id rc)), (''proposal_id'', JStr (pr_id p)),
            (''decision_id'', JStr (pd_id d))] EXECUTION_CHECKS (execution_failures P loads A K now p d rc g t B S)
      in (audit_verdict v, snd (append_event P (env_skip 1 E) S ''AUDITOR'' ''AUDIT_VERIFIED'' (rc_id rc) (receipt_payload v))))"

section \<open>Consequential operations\<close>

text \<open>The first entry under one of the ids, and what is wrong with it.\<close>

definition entry_failures :: "ledger_entry list \<Rightarrow> string list \<Rightarrow> int \<Rightarrow> string \<Rightarrow> string \<Rightarrow> string list" where
  "entry_failures es ids amount none differs = (case find (\<lambda>e. le_transaction_id e \<in> set ids) es of
       None \<Rightarrow> [none] | Some e \<Rightarrow> fails (le_amount e \<noteq> amount) differs)"

definition operation_settlement_failures :: "prims \<Rightarrow> policy_decision \<Rightarrow> consequential_operation \<Rightarrow> audit_books option \<Rightarrow> string list" where
  "operation_settlement_failures P d op books =
     (case books of None \<Rightarrow> [] | Some B \<Rightarrow>
       if op_amount op > 0
       then let i = op_id op; oh = take 16 (sha256 P i); th = take 16 (sha256 P (py_or (pd_authorization_token d) i)) in
         (case op_state op of
            Op_SUCCEEDED \<Rightarrow> entry_failures (ab_entries B) [''commit-'' @ i, ''tx-'' @ th, ''commit-'' @ th] (op_amount op)
              ''No commit transaction found for operation'' ''Ledger committed amount differs from operation amount''
          | Op_FAILED \<Rightarrow> entry_failures (ab_entries B) [''rollback-'' @ i, ''rollback-'' @ th] (op_amount op)
              ''No rollback transaction found for operation'' ''Ledger rolled back amount differs from operation amount''
          | Op_RECONCILED \<Rightarrow> entry_failures (ab_entries B)
              [''tx-rec-'' @ oh, ''rollback-rec-'' @ oh, ''tx-'' @ th, ''commit-'' @ th, ''rollback-'' @ th] (op_amount op)
              ''No reconciliation transaction found for operation'' ''Reconciliation settled amount differs from operation amount''
          | _ \<Rightarrow> [])
       else [])"

definition evidence_failures :: "consequential_operation \<Rightarrow> string list" where
  "evidence_failures op =
     (if op_state op \<in> {Op_SUCCEEDED, Op_RECONCILED}
      then fails (op_state op = Op_SUCCEEDED \<and> \<not> py_truthy (op_provider_reference op)) ''Succeeded consequential operation lacks provider reference''
      else fails (op_state op = Op_FAILED \<and> \<not> py_truthy (op_error_message op)) ''Failed consequential operation lacks error message'')"

definition operation_binding_failures ::
  "consequential_operation \<Rightarrow> action_proposal \<Rightarrow> policy_decision \<Rightarrow> organisation \<Rightarrow> string list" where
  "operation_binding_failures op p d g =
     fails (op_proposal_id op \<noteq> pr_id p) ''Operation proposal_id does not match proposal'' @
     fails (op_decision_id op \<noteq> pd_id d) ''Operation decision_id does not match decision'' @
     fails (op_organisation_id op \<noteq> og_id g) ''Operation organisation_id does not match organisation'' @
     fails (op_amount op \<noteq> pr_requested_credits p) ''Operation amount does not match requested credits''"

text \<open>The receipt of a chain transaction: given, or fetched by the client, which may raise.\<close>

type_synonym chain_receipt = "(string \<times> json) list"
type_synonym receipt_client = "string \<Rightarrow> chain_receipt option result"

definition is_blockchain_operation :: "consequential_operation \<Rightarrow> bool" where
  "is_blockchain_operation op \<longleftrightarrow> op_provider_name op \<in> {''blockchain'', ''evm''} \<or> op_action_type op = BLOCKCHAIN_TRANSACTION"

definition fetched_receipt ::
  "receipt_client option \<Rightarrow> chain_receipt option \<Rightarrow> string option \<Rightarrow> string list \<times> chain_receipt option" where
  "fetched_receipt client given ref =
     (if given \<in> {None, Some []} \<and> py_truthy ref
      then case client of None \<Rightarrow> ([], given)
        | Some f \<Rightarrow> (case f (the ref) of Inl x \<Rightarrow> ([''RPC error during independent audit verification''], given)
            | Inr r \<Rightarrow> ([], r))
      else ([], given))"

definition confirmed_on_chain :: "chain_receipt \<Rightarrow> bool" where
  "confirmed_on_chain r \<longleftrightarrow> map_of r ''status'' \<in> Some ` {JInt 1, JBool True, JFloat 1, JStr ''0x1'', JStr ''1''}"

definition blockchain_failures :: "receipt_client option \<Rightarrow> chain_receipt option \<Rightarrow> consequential_operation \<Rightarrow> string list" where
  "blockchain_failures client given op =
     (let ref = op_provider_reference op in
      fails (op_state op \<in> {Op_SUCCEEDED, Op_RECONCILED} \<and> (\<not> py_truthy ref \<or> \<not> hex_pattern 64 (the ref)))
        ''Invalid or missing blockchain transaction hash reference'' @
      (case fetched_receipt client given ref of (errs, r) \<Rightarrow> errs @
        (case r of None \<Rightarrow> [] | Some rec \<Rightarrow>
          if op_state op = Op_SUCCEEDED \<and> \<not> confirmed_on_chain rec
          then [''Audit mismatch: Operation marked SUCCEEDED but on-chain receipt reverted'']
          else fails (op_state op = Op_FAILED \<and> confirmed_on_chain rec)
            ''Audit mismatch: Operation marked FAILED but on-chain receipt confirmed'')))"

definition operation_failures ::
  "prims \<Rightarrow> json_loads_fun \<Rightarrow> auditor \<Rightarrow> audit_keys \<Rightarrow> rat \<Rightarrow> consequential_operation \<Rightarrow> action_proposal \<Rightarrow>
     policy_decision \<Rightarrow> organisation \<Rightarrow> audit_books option \<Rightarrow> receipt_client option \<Rightarrow> chain_receipt option \<Rightarrow> string list" where
  "operation_failures P loads A K now op p d g books client given =
     fails (get_fingerprint P op = []) ''Operation fingerprint computation failed'' @
     fails (get_content_hash P p = []) ''Proposal fingerprint computation failed'' @
     token_failures P loads A K now p d g @
     operation_binding_failures op p d g @
     evidence_failures op @
     operation_settlement_failures P d op books @
     fails (case books of None \<Rightarrow> False | Some B \<Rightarrow> \<not> ab_conserved B) ''Conservation of credits broken in ledger'' @
     fails (og_state g = Org_PAUSED) ''Organisation is in PAUSED state'' @
     (if is_blockchain_operation op then blockchain_failures client given op else [])"

definition operation_checks :: "consequential_operation \<Rightarrow> string list" where
  "operation_checks op = [''OPERATION_FINGERPRINT'', ''PROPOSAL_FINGERPRINT'', ''TOKEN_VALIDITY'', ''AUTH_OPERATION_BINDING'',
     ''PROVIDER_EVIDENCE_INTEGRITY'', ''LEDGER_SETTLEMENT'', ''CREDIT_CONSERVATION'', ''STATE_CONSISTENCY''] @
     (if is_blockchain_operation op then [''BLOCKCHAIN_EVIDENCE_INTEGRITY''] else [])"

definition verify_consequential_operation ::
  "prims \<Rightarrow> json_loads_fun \<Rightarrow> env \<Rightarrow> auditor \<Rightarrow> audit_keys \<Rightarrow> rat \<Rightarrow> consequential_operation \<Rightarrow> action_proposal \<Rightarrow>
     policy_decision \<Rightarrow> organisation \<Rightarrow> audit_books option \<Rightarrow> receipt_client option \<Rightarrow> chain_receipt option \<Rightarrow>
     (event_store option, verification_receipt) act" where
  "verify_consequential_operation P loads E A K now op p d g books client given S =
     (let v = audit_receipt P E (op_id op) [(''operation_id'', JStr (op_id op)), (''proposal_id'', JStr (pr_id p)),
            (''decision_id'', JStr (pd_id d)), (''state'', JStr (operation_state_value (op_state op)))] (operation_checks op)
            (operation_failures P loads A K now op p d g books client given)
      in (audit_verdict v, map_option (\<lambda>S. snd (append_event P (env_skip 1 E) S ''AUDITOR'' ''AUDIT_VERIFIED'' (op_id op)
        (receipt_payload v))) S))"

end
