(* ===== verification/AuditTrust.thy ===== *)
theory AuditTrust
  imports Auditor
begin

text \<open>
  What an audit establishes: the auditor's independent token check agrees with the policy engine's, an audit raises exactly
  on a discrepancy and is always on record, and what an executor executed passes it.
\<close>

section \<open>Two checks of a token\<close>

lemma claims_refusal_fst:
  assumes "get_policy_version_hash P eng \<noteq> []"
  shows "fst (case claims_refusal P c p g decision (Some (get_policy_version_hash P eng)) now of
       Some why \<Rightarrow> (False, Some why) | None \<Rightarrow> (True, None :: string option)) \<longleftrightarrow>
     \<not> tc_expires_at c < now \<and> tc_org_id c = og_id g \<and> tc_proposal_id c = pr_id p \<and>
     tc_proposal_content_hash c = get_content_hash P p \<and>
     \<not> (case decision of None \<Rightarrow> False | Some d \<Rightarrow> tc_decision_id c \<noteq> pd_id d) \<and>
     tc_policy_version_hash c = get_policy_version_hash P eng"
  using assms by (simp add: claims_refusal_def)

lemma token_checks_agree:
  assumes "active_verifier P A secret verifier = Some (pe_verify eng)" "get_policy_version_hash P eng \<noteq> []"
  shows "fst (verify_authorization_token P loads A (Some token) p g decision secret
       (Some (get_policy_version_hash P eng)) now verifier) = fst (verify_token P loads eng token p g decision now)"
proof (cases "token = [] \<or> og_state g = Org_PAUSED")
  case False
  show ?thesis
  proof (cases "\<exists>h b sg. py_split (CHR ''.'') token = [h, b, sg]")
    case True
    then obtain h b sg where parts: "py_split (CHR ''.'') token = [h, b, sg]" by blast
    show ?thesis
      using False assms unfolding verify_authorization_token_def verify_token_def parts list.case
      by (simp add: parts claims_refusal_fst split: sum.split)
  next
    case other: False
    then show ?thesis
      using False unfolding verify_authorization_token_def verify_token_def
      by (auto split: list.split)
  qed
qed (auto simp: verify_authorization_token_def verify_token_def)

lemma active_verifier_secret [simp]:
  "key \<noteq> [] \<Longrightarrow> active_verifier P A (Some key) None = Some (hmac_verify P key)"
  "active_verifier P (mk_auditor P (Some key) (Some v)) None None = Some v"
  "key \<noteq> [] \<Longrightarrow> active_verifier P (mk_auditor P (Some key) None) None None = Some (hmac_verify P key)"
  by (simp_all add: active_verifier_def mk_auditor_def)


text \<open>An auditor made with neither a secret nor a verifier, and given none, looks at no signature.\<close>

lemma keyless_auditor_ignores_signature:
  assumes "fst (verify_authorization_token P loads (mk_auditor P None None) (Some token) p g d None v now None)"
    and "py_split (CHR ''.'') token = [h, b, sg]" "py_split (CHR ''.'') token' = [h, b, sg']" "token' \<noteq> []"
  shows "fst (verify_authorization_token P loads (mk_auditor P None None) (Some token') p g d None v now None)"
  using assms
  by (auto simp: verify_authorization_token_def active_verifier_def mk_auditor_def split: sum.splits option.splits if_splits)

section \<open>What an audit decides\<close>

text \<open>An auditor given the engine with its secret and nothing else.\<close>

definition engine_keys :: "string \<Rightarrow> policy_engine \<Rightarrow> audit_keys" where
  "engine_keys key eng = \<lparr>ak_engine = Some (key, eng), ak_secret = None, ak_version = None, ak_verifier = None\<rparr>"

text \<open>What the audit of an execution is to establish, stated over the engine and the books.\<close>

definition settled_exactly :: "prims \<Rightarrow> string \<Rightarrow> int \<Rightarrow> audit_books \<Rightarrow> bool" where
  "settled_exactly P token n B \<longleftrightarrow>
     (let es = filter (\<lambda>e. le_transaction_id e \<in> {token_tx P ''tx-'' token, token_tx P ''commit-'' token}) (ab_entries B)
      in es \<noteq> [] \<and> le_amount (last es) = n)"

definition execution_in_order ::
  "prims \<Rightarrow> json_loads_fun \<Rightarrow> policy_engine \<Rightarrow> rat \<Rightarrow> action_proposal \<Rightarrow> policy_decision \<Rightarrow> execution_receipt \<Rightarrow>
     organisation \<Rightarrow> task \<Rightarrow> audit_books \<Rightarrow> event_store \<Rightarrow> bool" where
  "execution_in_order P loads eng now p d rc g t B S \<longleftrightarrow>
     get_content_hash P p \<noteq> [] \<and>
     (\<exists>token. pd_authorization_token d = Some token \<and> rc_authorization_token rc = token \<and>
        fst (verify_token P loads eng token p g (Some d) now) \<and>
        (rc_cost_credits rc > 0 \<longrightarrow> settled_exactly P token (rc_cost_credits rc) B)) \<and>
     rc_proposal_id rc = pr_id p \<and> rc_cost_credits rc = pr_requested_credits p \<and> rc_target rc = pr_target p \<and>
     rc_action_type rc = pr_action_type p \<and> fst (verify_integrity P S) \<and> ab_conserved B \<and>
     og_state g \<noteq> Org_PAUSED \<and> tk_status t \<in> {Task_APPROVED, Task_COMPLETED}"

lemma fails_empty [simp]: "fails b msg = [] \<longleftrightarrow> \<not> b"
  by (simp add: fails_def)

lemma engine_keys_resolved [simp]:
  "resolved_secret A (engine_keys key eng) = Some key"
  "resolved_version P (engine_keys key eng) = Some (get_policy_version_hash P eng)"
  "ak_verifier (engine_keys key eng) = None"
  by (simp_all add: resolved_secret_def resolved_version_def engine_keys_def)

lemma settlement_failures_empty:
  assumes "pd_authorization_token d = Some token" "token \<noteq> []"
  shows "execution_settlement_failures P d rc B = [] \<longleftrightarrow>
     (rc_cost_credits rc > 0 \<longrightarrow> settled_exactly P token (rc_cost_credits rc) B)"
  using assms
  by (auto simp: execution_settlement_failures_def settled_exactly_def Let_def token_tx_def)

text \<open>The engine's acceptance, as the token part of the audit sees it.\<close>

lemma token_failures_empty:
  assumes "pe_verify eng = hmac_verify P key" "key \<noteq> []" "get_policy_version_hash P eng \<noteq> []"
  shows "token_failures P loads A (engine_keys key eng) now p d g = [] \<longleftrightarrow>
     (\<exists>token. pd_authorization_token d = Some token \<and> fst (verify_token P loads eng token p g (Some d) now))"
proof (cases "pd_authorization_token d")
  case (Some token)
  have "fst (verify_authorization_token P loads A (Some token) p g (Some d) (Some key)
       (Some (get_policy_version_hash P eng)) now None) = fst (verify_token P loads eng token p g (Some d) now)"
    using assms by (simp add: token_checks_agree)
  then show ?thesis using Some by (simp add: token_failures_def)
qed (simp add: token_failures_def verify_authorization_token_def)

lemma verify_token_nonempty: "fst (verify_token P loads eng token p g d now) \<Longrightarrow> token \<noteq> []"
  by (auto simp: verify_token_def)

lemma execution_failures_empty:
  assumes "pe_verify eng = hmac_verify P key" "key \<noteq> []" "get_policy_version_hash P eng \<noteq> []"
  shows "execution_failures P loads A (engine_keys key eng) now p d rc g t B S = [] \<longleftrightarrow>
     execution_in_order P loads eng now p d rc g t B S"
proof (cases "token_failures P loads A (engine_keys key eng) now p d g = []")
  case True
  then obtain token where tok: "pd_authorization_token d = Some token" "fst (verify_token P loads eng token p g (Some d) now)"
    using token_failures_empty [OF assms] by blast
  show ?thesis
    unfolding execution_failures_def execution_in_order_def
    using True tok settlement_failures_empty [OF tok(1) verify_token_nonempty [OF tok(2)]] by auto
next
  case False
  then show ?thesis
    unfolding execution_failures_def execution_in_order_def using token_failures_empty [OF assms] by auto
qed

lemma audit_verdict_Inr: "(\<exists>x. audit_verdict v = Inr x) \<longleftrightarrow> vr_verified v"
  by (simp add: audit_verdict_def)

lemma audit_receipt_verified [simp]: "vr_verified (audit_receipt P E i ctx checks fs) \<longleftrightarrow> fs = []"
  by (simp add: audit_receipt_def)

section \<open>What was executed passes its audit\<close>

text \<open>The stages of a successful sandbox execution.\<close>

lemma sandbox_succeeds:
  assumes "sandbox_execute ops C E now p d s = (Inr rc, s')"
  obtains token s1 where "pd_authorization_token d = Some token"
    "fst (verify_token (xc_prims C) (xc_loads C) (xc_engine C) token p (xs_org s) (Some d) now)"
    "xs_ledger s1 = xs_ledger s" "xs_org s1 = xs_org s"
    "settle_ledger_fee ops (xc_prims C) (env_skip 2 E) p token s1 = (Inr (), s')"
    "rc_authorization_token rc = token" "rc_proposal_id rc = pr_id p" "rc_cost_credits rc = pr_requested_credits p"
    "rc_target rc = pr_target p" "rc_action_type rc = pr_action_type p"
proof -
  from assms obtain token s0 where pre: "verify_preconditions C now p d s = (Inr token, s0)"
    by (auto simp: sandbox_execute_def act_bind_def split: prod.splits sum.splits)
  note ok = verify_preconditions_Inr [OF pre]
  have s0: "s0 = s" using verify_preconditions_state [OF pre] .
  from assms pre s0 obtain s1 where mark: "mark_token_consumed C (env_skip 1 E) token p d s = (Inr (), s1)"
    by (auto simp: sandbox_execute_def act_bind_def split: prod.splits sum.splits)
  from assms pre s0 mark have settle: "settle_ledger_fee ops (xc_prims C) (env_skip 2 E) p token s1 = (Inr (), s')"
    and rc: "rc_authorization_token rc = token" "rc_proposal_id rc = pr_id p" "rc_cost_credits rc = pr_requested_credits p"
      "rc_target rc = pr_target p" "rc_action_type rc = pr_action_type p"
    by (auto simp: sandbox_execute_def act_bind_def act_return_def mk_receipt_def split: prod.splits sum.splits)
  show ?thesis using that ok mark_token_ledger [OF mark] settle rc by blast
qed

text \<open>A settled fee, as the auditor finds it in the books.\<close>

lemma settled_fee_in_books:
  assumes "settle_ledger_fee mem_ops P E p token s = (Inr (), s')"
    and "ledger_inv (xs_ledger s)" "get_balance (xs_ledger s) SYSTEM_MINT = 0"
  shows "pr_requested_credits p > 0 \<longrightarrow> settled_exactly P token (pr_requested_credits p) (books_of (xs_ledger s'))"
    and "ab_conserved (books_of (xs_ledger s'))"
    and "og_id (xs_org s') = og_id (xs_org s) \<and> og_state (xs_org s') = og_state (xs_org s)"
proof -
  have "(pr_requested_credits p > 0 \<longrightarrow> settled_exactly P token (pr_requested_credits p) (books_of (xs_ledger s'))) \<and>
     ab_conserved (books_of (xs_ledger s')) \<and> og_id (xs_org s') = og_id (xs_org s) \<and> og_state (xs_org s') = og_state (xs_org s)"
  proof (cases "pr_requested_credits p > 0")
    case True
    with assms(1) obtain e L where tr: "transfer E (xs_ledger s) TREASURY EXTERNAL_SINK (pr_requested_credits p)
        ''Execution fee for proposal'' (Some (token_tx P ''tx-'' token)) = Inr (e, L)"
      and s': "xs_ledger s' = L" "og_id (xs_org s') = og_id (xs_org s)" "og_state (xs_org s') = og_state (xs_org s)"
      by (auto simp: settle_ledger_fee_def ledger_move_def mem_ops_def ops_of_def split: sum.splits)
    have L: "lg_entries L = lg_entries (xs_ledger s) @ [e]" "le_transaction_id e = token_tx P ''tx-'' token"
        "le_amount e = pr_requested_credits p" "get_balance L SYSTEM_MINT = get_balance (xs_ledger s) SYSTEM_MINT"
      using tr by (auto simp: transfer_Inr token_tx_def get_balance_def account_defs)
    have "ledger_inv L" using assms(2) tr by (rule transfer_inv)
    then have "verify_conservation L" using L(4) assms(3) by (simp add: verify_conservation_iff)
    then show ?thesis using L s' by (simp add: books_of_def get_entries_def settled_exactly_def)
  next
    case False
    then show ?thesis using assms by (simp add: settle_ledger_fee_def act_return_def books_of_def verify_conservation_iff)
  qed
  then show "pr_requested_credits p > 0 \<longrightarrow> settled_exactly P token (pr_requested_credits p) (books_of (xs_ledger s'))"
    "ab_conserved (books_of (xs_ledger s'))"
    "og_id (xs_org s') = og_id (xs_org s) \<and> og_state (xs_org s') = og_state (xs_org s)" by blast+
qed

lemma verify_token_paused: "og_state g = Org_PAUSED \<Longrightarrow> \<not> fst (verify_token P loads eng token p g d now)"
  by (simp add: verify_token_def)

lemma verify_token_org:
  assumes "og_id g' = og_id g" "og_state g' = og_state g"
  shows "verify_token P loads eng token p g' d now = verify_token P loads eng token p g d now"
  unfolding verify_token_def assms ..

text \<open>The audit of what was executed, on the state the executor left.\<close>

definition audit_executed ::
  "exec_config \<Rightarrow> env \<Rightarrow> auditor \<Rightarrow> string \<Rightarrow> rat \<Rightarrow> action_proposal \<Rightarrow> policy_decision \<Rightarrow> execution_receipt \<Rightarrow>
     ledger exec_state \<Rightarrow> task \<Rightarrow> event_store \<Rightarrow> verification_receipt result" where
  "audit_executed C E A key now p d rc s t S = fst (verify_audited_execution (xc_prims C) (xc_loads C) E A
     (engine_keys key (xc_engine C)) now p d rc (xs_org s) t (books_of (xs_ledger s)) S)"

text \<open>
  C22: What the sandbox executor executed passes its audit while the token lasts.  On a conserving ledger, after
  \<open>SandboxExecutor.execute\<close> returned a receipt, the audit of that receipt with the engine's key (a verifying event
  chain, an approved or completed task) returns a receipt at every time at which the engine still accepts the
  token, the time of the execution among them, and raises at every other time.
\<close>

theorem executed_passes_audit:
  assumes "sandbox_execute mem_ops C E now p d s = (Inr rc, s')"
    and "ledger_inv (xs_ledger s)" "get_balance (xs_ledger s) SYSTEM_MINT = 0"
    and "pe_verify (xc_engine C) = hmac_verify (xc_prims C) key" "key \<noteq> []"
    and "get_policy_version_hash (xc_prims C) (xc_engine C) \<noteq> []" "get_content_hash (xc_prims C) p \<noteq> []"
    and "fst (verify_integrity (xc_prims C) S)" "tk_status t \<in> {Task_APPROVED, Task_COMPLETED}"
  shows "\<not> isl (audit_executed C E' A key now p d rc s' t S) \<and> (isl (audit_executed C E' A key later p d rc s' t S) \<longleftrightarrow>
     \<not> fst (verify_token (xc_prims C) (xc_loads C) (xc_engine C) (rc_authorization_token rc) p (xs_org s) (Some d) later))"
proof -
  obtain token s1 where run: "pd_authorization_token d = Some token"
    "fst (verify_token (xc_prims C) (xc_loads C) (xc_engine C) token p (xs_org s) (Some d) now)"
    "xs_ledger s1 = xs_ledger s" "xs_org s1 = xs_org s"
    "settle_ledger_fee mem_ops (xc_prims C) (env_skip 2 E) p token s1 = (Inr (), s')"
    "rc_authorization_token rc = token" "rc_proposal_id rc = pr_id p" "rc_cost_credits rc = pr_requested_credits p"
    "rc_target rc = pr_target p" "rc_action_type rc = pr_action_type p"
    using sandbox_succeeds [OF assms(1)] .
  note fee = settled_fee_in_books [OF run(5), unfolded run(3,4), OF assms(2,3)]
  have state: "og_state (xs_org s) \<noteq> Org_PAUSED" using run(2) verify_token_paused by blast
  have "isl (audit_executed C E' A key time p d rc s' t S) \<longleftrightarrow> \<not> fst (verify_token (xc_prims C) (xc_loads C) (xc_engine C) token p (xs_org s) (Some d) time)" for time
    unfolding audit_executed_def verify_audited_execution_def Let_def
    using execution_failures_empty [OF assms(4-6), of "xc_loads C" A time p d rc "xs_org s'" t "books_of (xs_ledger s')" S]
      verify_token_org [of "xs_org s'" "xs_org s"] fee run assms(7-9) state
    by (auto simp: audit_verdict_def execution_in_order_def)
  then show ?thesis using run(2,6) by simp
qed

section \<open>On the demonstration data\<close>

lemma demo_key:
  "pe_verify codec_engine = hmac_verify codec_prims ''secret''" "get_policy_version_hash codec_prims codec_engine \<noteq> []"
  "get_content_hash codec_prims p \<noteq> []"
  by (simp_all add: codec_engine_def default_engine_def mk_policy_engine_def Let_def get_policy_version_hash_def
      get_content_hash_def codec_prims_def demo_prims_def)

abbreviation demo_config :: exec_config where
  "demo_config \<equiv> exec_config.truncate demo_external_config"

lemma demo_config_parts [simp]:
  "xc_prims demo_config = codec_prims" "xc_loads demo_config = codec_loads" "xc_engine demo_config = codec_engine"
  by (simp_all add: demo_external_config_def exec_config.truncate_def)

lemma demo_ledger_sound:
  "ledger_inv (xs_ledger (demo_exec_state J))" "get_balance (xs_ledger (demo_exec_state J)) SYSTEM_MINT = 0"
  using ledger_reach_inv [OF demo_ledger_reach]
  by (simp_all add: demo_exec_state_def demo_ledger_def get_balance_def account_defs)


theorem executed_passes_audit_witness:
  "\<exists>d rc s'. sandbox_execute mem_ops demo_config demo_env 30 demo_proposal d (demo_exec_state None) = (Inr rc, s') \<and>
     \<not> isl (audit_executed demo_config demo_env (mk_auditor codec_prims None None) ''secret'' 30 demo_proposal d rc s'
       (demo_task\<lparr>tk_status := Task_APPROVED\<rparr>) [])"
proof -
  obtain d rc s1 where "sandbox_execute mem_ops demo_config demo_env 30 demo_proposal d (demo_exec_state None) = (Inr rc, s1)"
    using demo_sandbox_runs [of None] by blast
  with executed_passes_audit [OF this demo_ledger_sound, of "''secret''" "[]" "demo_task\<lparr>tk_status := Task_APPROVED\<rparr>"] demo_key
  show ?thesis by (fastforce simp: verify_integrity_def)
qed


end
