(* ===== verification/Reputation.thy ===== *)
theory Reputation
  imports Rounding EventStore WorkRepo
begin

text \<open>
  The performance of agents (\<open>src/domain/economy.py\<close>), its tables (\<open>src/persistence/economy_repo.py\<close>) and the reputation
  engine with the lifecycle of an agent (\<open>src/economy/reputation.py\<close>).  An operation returns the agent, its performance
  record and the event store it leaves; scores are rationals.
\<close>

section \<open>economy.py\<close>

datatype allocation_strategy = STATIC | PERFORMANCE | ADAPTIVE

fun strategy_value :: "allocation_strategy \<Rightarrow> string" where
  "strategy_value STATIC = ''STATIC''"
| "strategy_value PERFORMANCE = ''PERFORMANCE''"
| "strategy_value ADAPTIVE = ''ADAPTIVE''"

record perf_record =
  pf_agent_id :: string
  pf_organisation_id :: string
  pf_tenant_id :: string
  pf_tasks_completed :: int
  pf_tasks_failed :: int
  pf_missions_contributed :: int
  pf_successful_proposals :: int
  pf_rejected_proposals :: int
  pf_policy_violations :: int
  pf_resources_allocated :: int
  pf_resources_consumed :: int
  pf_value_produced :: rat
  pf_unnecessary_actions :: int
  pf_execution_successes :: int
  pf_execution_failures :: int
  pf_recovery_successes :: int
  pf_recovery_failures :: int
  pf_performance_score :: rat
  pf_reliability_score :: rat
  pf_resource_efficiency_score :: rat
  pf_policy_compliance_score :: rat
  pf_composite_score :: rat
  pf_reputation_score :: rat
  pf_authority_level :: int
  pf_evaluation_count :: int
  pf_last_evaluated_at :: "string option"
  pf_created_at :: string

definition new_perf_record :: "env \<Rightarrow> string \<Rightarrow> string \<Rightarrow> string \<Rightarrow> perf_record" where
  "new_perf_record E t g a = \<lparr>pf_agent_id = a, pf_organisation_id = g, pf_tenant_id = t, pf_tasks_completed = 0,
     pf_tasks_failed = 0, pf_missions_contributed = 0, pf_successful_proposals = 0, pf_rejected_proposals = 0,
     pf_policy_violations = 0, pf_resources_allocated = 0, pf_resources_consumed = 0, pf_value_produced = 0,
     pf_unnecessary_actions = 0, pf_execution_successes = 0, pf_execution_failures = 0, pf_recovery_successes = 0,
     pf_recovery_failures = 0, pf_performance_score = 100, pf_reliability_score = 100, pf_resource_efficiency_score = 1,
     pf_policy_compliance_score = 100, pf_composite_score = 100, pf_reputation_score = 100, pf_authority_level = 1,
     pf_evaluation_count = 0, pf_last_evaluated_at = None, pf_created_at = e_now E 0\<rparr>"

text \<open>A share of a total as a percentage, and a value brought between bounds.\<close>

definition rate :: "int \<Rightarrow> int \<Rightarrow> rat" where
  "rate n all = of_int n / of_int all"

definition clamp :: "rat \<Rightarrow> rat \<Rightarrow> rat \<Rightarrow> rat" where
  "clamp lo hi x = max lo (min hi x)"

definition percent_of :: "int \<Rightarrow> int \<Rightarrow> rat" where
  "percent_of n all = (if all > 0 then py_round 2 (rate n all * 100) else 100)"

definition compute_scores :: "perf_record \<Rightarrow> perf_record" where
  "compute_scores r =
     (let performance = percent_of (pf_tasks_completed r) (pf_tasks_completed r + pf_tasks_failed r);
          reliability = percent_of (pf_successful_proposals r) (pf_successful_proposals r + pf_rejected_proposals r);
          efficiency = (if pf_resources_consumed r > 0
            then py_round 2 (min 100 (max 0 (pf_value_produced r / of_int (pf_resources_consumed r) * 100))) else 100);
          compliance = py_round 2 (max 0 (100 - of_int (pf_policy_violations r) * 25))
      in r\<lparr>pf_performance_score := performance, pf_reliability_score := reliability,
           pf_resource_efficiency_score := efficiency, pf_policy_compliance_score := compliance,
           pf_composite_score := py_round 2 (performance * (35/100) + reliability * (25/100) + efficiency * (20/100)
             + compliance * (20/100))\<rparr>)"

definition compute_record_hash :: "prims \<Rightarrow> perf_record \<Rightarrow> string" where
  "compute_record_hash P r = sha256 P (canonical_json P (JObj
     [(''agent_id'', JStr (pf_agent_id r)), (''organisation_id'', JStr (pf_organisation_id r)),
      (''tenant_id'', JStr (pf_tenant_id r)), (''tasks_completed'', JInt (pf_tasks_completed r)),
      (''tasks_failed'', JInt (pf_tasks_failed r)), (''policy_violations'', JInt (pf_policy_violations r)),
      (''resources_consumed'', JInt (pf_resources_consumed r)), (''value_produced'', JFloat (py_round 4 (pf_value_produced r))),
      (''performance_score'', JFloat (py_round 2 (pf_performance_score r))),
      (''reliability_score'', JFloat (py_round 2 (pf_reliability_score r))),
      (''resource_efficiency_score'', JFloat (py_round 2 (pf_resource_efficiency_score r))),
      (''policy_compliance_score'', JFloat (py_round 2 (pf_policy_compliance_score r))),
      (''composite_score'', JFloat (py_round 2 (pf_composite_score r))),
      (''reputation_score'', JFloat (py_round 2 (pf_reputation_score r))),
      (''authority_level'', JInt (pf_authority_level r)), (''evaluation_count'', JInt (pf_evaluation_count r))]))"

record allocation_decision =
  ad_id :: string
  ad_tenant_id :: string
  ad_organisation_id :: string
  ad_mission_id :: "string option"
  ad_strategy :: allocation_strategy
  ad_treasury_available :: int
  ad_total_allocated :: int
  ad_allocations :: "(string \<times> int) list"
  ad_authority_limits :: "(string \<times> int) list"
  ad_rationale :: string
  ad_created_at :: string

definition compute_decision_hash :: "prims \<Rightarrow> allocation_decision \<Rightarrow> string" where
  "compute_decision_hash P d = sha256 P (canonical_json P (JObj
     [(''id'', JStr (ad_id d)), (''tenant_id'', JStr (ad_tenant_id d)), (''organisation_id'', JStr (ad_organisation_id d)),
      (''strategy'', JStr (strategy_value (ad_strategy d))), (''treasury_available'', JInt (ad_treasury_available d)),
      (''total_allocated'', JInt (ad_total_allocated d)), (''allocations'', JObj (map (map_prod id JInt) (ad_allocations d))),
      (''authority_limits'', JObj (map (map_prod id JInt) (ad_authority_limits d)))]))"

record reputation_entry =
  rh_id :: string
  rh_agent_id :: string
  rh_organisation_id :: string
  rh_tenant_id :: string
  rh_previous_score :: rat
  rh_new_score :: rat
  rh_score_delta :: rat
  rh_trigger_event :: string
  rh_evidence_hash :: "string option"
  rh_created_at :: string

definition calculate_utility :: "rat \<Rightarrow> int \<Rightarrow> rat \<Rightarrow> int \<Rightarrow> bool \<Rightarrow> rat" where
  "calculate_utility outcome cost risk violations failure =
     py_round 2 (outcome - of_int cost - risk - of_int violations * 5 - (if failure then 10 else 0))"

section \<open>economy\_repo.py\<close>

record experiment_row =
  xr_id :: string
  xr_tenant_id :: string
  xr_organisation_id :: string
  xr_scenario :: string
  xr_strategy :: string
  xr_random_seed :: int
  xr_results :: "(string \<times> json) list"
  xr_summary :: string
  xr_created_at :: string

record economy_db =
  ed_performance :: "perf_record list"
  ed_reputation :: "reputation_entry list"
  ed_allocations :: "allocation_decision list"
  ed_experiments :: "experiment_row list"

definition perf_key :: "perf_record \<Rightarrow> key3" where
  "perf_key r = (pf_tenant_id r, pf_organisation_id r, pf_agent_id r)"

text \<open>A second save replaces everything but the creation time.\<close>

definition merge_perf :: "perf_record \<Rightarrow> perf_record \<Rightarrow> perf_record" where
  "merge_perf old r = r\<lparr>pf_agent_id := pf_agent_id old, pf_organisation_id := pf_organisation_id old,
     pf_tenant_id := pf_tenant_id old, pf_created_at := pf_created_at old\<rparr>"

definition get_performance_record :: "economy_db \<Rightarrow> string \<Rightarrow> string \<Rightarrow> string \<Rightarrow> perf_record option" where
  "get_performance_record D t g a = lookup perf_key (ed_performance D) (t, g, a)"

definition list_performance_records :: "economy_db \<Rightarrow> string \<Rightarrow> string \<Rightarrow> perf_record list" where
  "list_performance_records D t g = order_desc pf_composite_score
     (filter (\<lambda>r. pf_tenant_id r = t \<and> pf_organisation_id r = g) (ed_performance D))"

definition save_performance_record :: "perf_record \<Rightarrow> economy_db \<Rightarrow> economy_db" where
  "save_performance_record r D = D\<lparr>ed_performance := upsert perf_key merge_perf r (ed_performance D)\<rparr>"

text \<open>A plain insert raises on a used primary key and leaves the table as it was.\<close>

definition insert_new :: "('r \<Rightarrow> string) \<Rightarrow> 'r \<Rightarrow> 'r list \<Rightarrow> 'r list result" where
  "insert_new key r T = (if key r \<in> key ` set T then raise IntegrityError ''UNIQUE constraint failed'' else Inr (T @ [r]))"

definition record_reputation_event :: "reputation_entry \<Rightarrow> economy_db \<Rightarrow> economy_db result" where
  "record_reputation_event e D = bind_result (insert_new rh_id e (ed_reputation D)) (\<lambda>T. Inr (D\<lparr>ed_reputation := T\<rparr>))"

definition list_reputation_history :: "economy_db \<Rightarrow> string \<Rightarrow> string \<Rightarrow> string \<Rightarrow> nat \<Rightarrow> reputation_entry list" where
  "list_reputation_history D t g a n = take n (order_desc rh_created_at
     (filter (\<lambda>e. rh_tenant_id e = t \<and> rh_organisation_id e = g \<and> rh_agent_id e = a) (ed_reputation D)))"

definition save_allocation :: "allocation_decision \<Rightarrow> economy_db \<Rightarrow> economy_db result" where
  "save_allocation d D = bind_result (insert_new ad_id d (ed_allocations D)) (\<lambda>T. Inr (D\<lparr>ed_allocations := T\<rparr>))"

definition list_allocations :: "economy_db \<Rightarrow> string \<Rightarrow> string \<Rightarrow> nat \<Rightarrow> allocation_decision list" where
  "list_allocations D t g n = take n (order_desc ad_created_at
     (filter (\<lambda>d. ad_tenant_id d = t \<and> ad_organisation_id d = g) (ed_allocations D)))"

definition save_experiment_run :: "experiment_row \<Rightarrow> economy_db \<Rightarrow> economy_db result" where
  "save_experiment_run x D = bind_result (insert_new xr_id x (ed_experiments D)) (\<lambda>T. Inr (D\<lparr>ed_experiments := T\<rparr>))"

definition list_experiment_runs :: "economy_db \<Rightarrow> string \<Rightarrow> string \<Rightarrow> nat \<Rightarrow> experiment_row list" where
  "list_experiment_runs D t g n = take n (order_desc xr_created_at
     (filter (\<lambda>x. xr_tenant_id x = t \<and> xr_organisation_id x = g) (ed_experiments D)))"

interpretation performance: keyed_store "lookup perf_key" "upsert perf_key merge_perf" perf_key merge_perf
  by (rule upsert_store) (simp add: perf_key_def merge_perf_def)

section \<open>reputation.py\<close>

definition SUCCESS_BOOST :: rat where "SUCCESS_BOOST = 3"
definition FAILURE_PENALTY :: rat where "FAILURE_PENALTY = 5"
definition POLICY_VIOLATION_PENALTY :: rat where "POLICY_VIOLATION_PENALTY = 10"
definition WEIGHT_PERFORMANCE :: rat where "WEIGHT_PERFORMANCE = 35/100"
definition WEIGHT_RELIABILITY :: rat where "WEIGHT_RELIABILITY = 25/100"
definition WEIGHT_EFFICIENCY :: rat where "WEIGHT_EFFICIENCY = 20/100"
definition WEIGHT_COMPLIANCE :: rat where "WEIGHT_COMPLIANCE = 20/100"

fun agent_status_value :: "agent_status \<Rightarrow> string" where
  "agent_status_value Agent_ACTIVE = ''ACTIVE''"
| "agent_status_value Agent_PROBATION = ''PROBATION''"
| "agent_status_value Agent_RESTRICTED = ''RESTRICTED''"
| "agent_status_value Agent_SUSPENDED = ''SUSPENDED''"
| "agent_status_value Agent_RETIRED = ''RETIRED''"

text \<open>The objects an operation of the engine changes: the agent and, when given, its record and the event store.\<close>

record rep_state =
  rs_agent :: agent_record
  rs_perf :: "perf_record option"
  rs_events :: "event_store option"

definition on_perf :: "(perf_record \<Rightarrow> perf_record) \<Rightarrow> rep_state \<Rightarrow> rep_state" where
  "on_perf f s = s\<lparr>rs_perf := map_option f (rs_perf s)\<rparr>"

definition on_agent :: "(agent_record \<Rightarrow> agent_record) \<Rightarrow> rep_state \<Rightarrow> rep_state" where
  "on_agent f s = s\<lparr>rs_agent := f (rs_agent s)\<rparr>"

definition rep_event :: "prims \<Rightarrow> env \<Rightarrow> string \<Rightarrow> (string \<times> json) list \<Rightarrow> rep_state \<Rightarrow> rep_state" where
  "rep_event P E ty payload s = s\<lparr>rs_events := map_option (\<lambda>S. snd (append_event P E S ''REPUTATION_ENGINE'' ty
     (ag_id (rs_agent s)) payload)) (rs_events s)\<rparr>"

text \<open>The factors of the composite score.\<close>

definition compliance_score :: "agent_record \<Rightarrow> rat" where
  "compliance_score a = max 0 (100 - 10 * of_int (ag_policy_violations a))"

definition reliability_base :: "agent_record \<Rightarrow> perf_record option \<Rightarrow> rat" where
  "reliability_base a r =
     (let success = rate (ag_successful_tasks a) (ag_successful_tasks a + ag_failed_tasks a);
          base = success * (compliance_score a / 100) * 100
      in case r of None \<Rightarrow> base
       | Some f \<Rightarrow> let all = pf_execution_successes f + pf_execution_failures f in
           if all > 0 then base * (6/10) + rate (pf_execution_successes f) all * 40 else base)"

definition efficiency_ratio :: "agent_record \<Rightarrow> perf_record option \<Rightarrow> rat" where
  "efficiency_ratio a r = (case r of None \<Rightarrow> ag_resource_efficiency a
     | Some f \<Rightarrow> if pf_resources_consumed f > 0 then pf_value_produced f / of_int (pf_resources_consumed f)
         else ag_resource_efficiency a)"

definition composite_score :: "agent_record \<Rightarrow> perf_record option \<Rightarrow> rat" where
  "composite_score a r =
     (let success = rate (ag_successful_tasks a) (ag_successful_tasks a + ag_failed_tasks a) * 100;
          reliability = py_round 2 (clamp 0 100 (reliability_base a r))
      in py_round 2 (clamp 0 100 (WEIGHT_PERFORMANCE * success + WEIGHT_RELIABILITY * reliability
           + WEIGHT_EFFICIENCY * clamp 0 100 (efficiency_ratio a r * 100) + WEIGHT_COMPLIANCE * compliance_score a)))"

definition update_metrics :: "rep_state \<Rightarrow> rep_state" where
  "update_metrics s =
     (let a = rs_agent s; r = rs_perf s; all = ag_successful_tasks a + ag_failed_tasks a;
          reputation = py_round 2 (clamp 0 100 (ag_reputation_score a))
      in if all = 0
         then on_perf (\<lambda>f. f\<lparr>pf_performance_score := 100, pf_reliability_score := 100, pf_resource_efficiency_score := 1,
                pf_policy_compliance_score := 100, pf_composite_score := 100, pf_reputation_score := reputation\<rparr>)
              (on_agent (\<lambda>a. a\<lparr>ag_reliability_score := 100, ag_performance_score := 100\<rparr>) s)
         else let reliability = py_round 2 (clamp 0 100 (reliability_base a r)); composite = composite_score a r in
              on_perf (\<lambda>f. f\<lparr>pf_performance_score := py_round 2 (rate (ag_successful_tasks a) all * 100),
                  pf_reliability_score := reliability, pf_resource_efficiency_score := py_round 2 (efficiency_ratio a r),
                  pf_policy_compliance_score := py_round 2 (compliance_score a), pf_composite_score := composite,
                  pf_reputation_score := py_round 2 (clamp 0 100 reputation)\<rparr>)
                (on_agent (\<lambda>a. a\<lparr>ag_reliability_score := reliability, ag_performance_score := composite,
                  ag_reputation_score := reputation, ag_risk_score := py_round 2 (clamp 0 100 (ag_risk_score a))\<rparr>) s))"

definition is_success :: "string \<Rightarrow> bool" where
  "is_success x = prefix ''SUCCESS'' x"

definition is_failure :: "string \<Rightarrow> bool" where
  "is_failure x = (prefix ''FAILURE'' x \<or> prefix ''VIOLATION'' x)"

text \<open>The loop over the reversed history: entries that hit are counted until one stops it.\<close>

fun run_length :: "(string \<Rightarrow> bool) \<Rightarrow> (string \<Rightarrow> bool) \<Rightarrow> string list \<Rightarrow> int" where
  "run_length hit stop [] = 0"
| "run_length hit stop (x # xs) =
     (if hit x then 1 + run_length hit stop xs else if stop x then 0 else run_length hit stop xs)"

definition consecutive_failures :: "agent_record \<Rightarrow> int" where
  "consecutive_failures a = run_length is_failure is_success (rev (ag_task_history a))"

definition consecutive_successes :: "agent_record \<Rightarrow> int" where
  "consecutive_successes a = run_length is_success is_failure (rev (ag_task_history a))"

definition lifecycle_status :: "rat \<Rightarrow> rat \<Rightarrow> int \<Rightarrow> agent_status" where
  "lifecycle_status score composite failures =
     (if score < 15 \<or> composite < 15 \<or> failures \<ge> 15 then Agent_RETIRED
      else if score < 30 \<or> composite < 30 \<or> failures \<ge> 10 then Agent_SUSPENDED
      else if score < 50 \<or> composite < 50 \<or> failures \<ge> 6 then Agent_RESTRICTED
      else if score < 75 \<or> composite < 70 \<or> failures \<ge> 3 then Agent_PROBATION
      else Agent_ACTIVE)"

definition external_actions :: "action_type list" where
  "external_actions = [EXTERNAL_API_CALL, SIMULATED_ALLOCATION, BLOCKCHAIN_TRANSACTION]"

fun enter_status :: "agent_status \<Rightarrow> agent_record \<Rightarrow> agent_record" where
  "enter_status Agent_RETIRED a = a\<lparr>ag_status := Agent_RETIRED, ag_authority_ceiling := 0, ag_allowed_action_types := []\<rparr>"
| "enter_status Agent_SUSPENDED a = a\<lparr>ag_status := Agent_SUSPENDED, ag_authority_ceiling := 0, ag_allowed_action_types := []\<rparr>"
| "enter_status Agent_RESTRICTED a = a\<lparr>ag_status := Agent_RESTRICTED, ag_authority_ceiling := 0,
     ag_allowed_action_types := filter (\<lambda>t. t \<notin> set external_actions) (ag_allowed_action_types a)\<rparr>"
| "enter_status Agent_PROBATION a = a\<lparr>ag_status := Agent_PROBATION, ag_authority_ceiling := min (ag_authority_ceiling a) 12\<rparr>"
| "enter_status Agent_ACTIVE a = a\<lparr>ag_status := Agent_ACTIVE, ag_authority_ceiling := max (ag_authority_ceiling a) 25\<rparr>"

definition promote_or_demote :: "rep_state \<Rightarrow> rep_state" where
  "promote_or_demote s = (case rs_perf s of None \<Rightarrow> s
     | Some f \<Rightarrow> let a = rs_agent s; composite = ag_performance_score a in
         if ag_status a = Agent_ACTIVE \<and> composite \<ge> 90 \<and> pf_evaluation_count f \<ge> 5
         then let level = min 5 (pf_authority_level f + 1) in
           s\<lparr>rs_perf := Some (f\<lparr>pf_authority_level := level\<rparr>), rs_agent := a\<lparr>ag_authority_ceiling := min 50 (25 + level * 5)\<rparr>\<rparr>
         else if composite < 60 \<and> ag_status a \<noteq> Agent_RETIRED
         then s\<lparr>rs_perf := Some (f\<lparr>pf_authority_level := max 1 (pf_authority_level f - 1)\<rparr>),
                rs_agent := a\<lparr>ag_authority_ceiling := max 5 (ag_authority_ceiling a - 5)\<rparr>\<rparr>
         else s)"

definition log_lifecycle :: "prims \<Rightarrow> env \<Rightarrow> agent_record \<Rightarrow> rep_state \<Rightarrow> rep_state" where
  "log_lifecycle P E before s =
     (let a = rs_agent s;
          s1 = (if ag_status a \<noteq> ag_status before
            then rep_event P E (''AGENT_'' @ py_upper (agent_status_value (ag_status a)))
              [(''agent_id'', JStr (ag_id a)), (''previous_status'', JStr (agent_status_value (ag_status before))),
               (''new_status'', JStr (agent_status_value (ag_status a))), (''reputation_score'', JFloat (ag_reputation_score a)),
               (''composite_score'', JFloat (ag_performance_score before)),
               (''consecutive_failures'', JInt (consecutive_failures before))] s
            else s)
      in if ag_authority_ceiling a \<noteq> ag_authority_ceiling before
         then rep_event P (env_skip 1 E) (if ag_authority_ceiling a > ag_authority_ceiling before then ''AGENT_PROMOTED'' else ''AGENT_DEMOTED'')
           [(''agent_id'', JStr (ag_id a)), (''previous_ceiling'', JInt (ag_authority_ceiling before)),
            (''new_ceiling'', JInt (ag_authority_ceiling a)), (''composite_score'', JFloat (ag_performance_score before))] s1
         else s1)"

definition evaluate_lifecycle :: "prims \<Rightarrow> env \<Rightarrow> rep_state \<Rightarrow> rep_state" where
  "evaluate_lifecycle P E s =
     (let a = rs_agent s in
      if ag_status a = Agent_RETIRED
      then on_perf (\<lambda>f. f\<lparr>pf_authority_level := 0\<rparr>) (on_agent (enter_status Agent_RETIRED) s)
      else log_lifecycle P E a (promote_or_demote (on_agent (enter_status
        (lifecycle_status (ag_reputation_score a) (ag_performance_score a) (consecutive_failures a))) s)))"

text \<open>
  The recorded events.  Each runs the same sequence: history, scores and counters, then metrics, lifecycle, and a
  \<open>REPUTATION_UPDATED\<close> event.
\<close>

definition log_reputation :: "prims \<Rightarrow> env \<Rightarrow> rat \<Rightarrow> string \<Rightarrow> rep_state \<Rightarrow> rep_state" where
  "log_reputation P E before reason s = (let a = rs_agent s in rep_event P E ''REPUTATION_UPDATED''
     [(''agent_id'', JStr (ag_id a)), (''previous_score'', JFloat before), (''new_score'', JFloat (ag_reputation_score a)),
      (''delta'', JFloat (py_round 2 (ag_reputation_score a - before))), (''reason'', JStr reason)] s)"

definition success_efficiency :: "agent_record \<Rightarrow> int \<Rightarrow> int \<Rightarrow> rat \<Rightarrow> rat" where
  "success_efficiency a allocated used value =
     (if allocated > 0 \<and> used \<ge> 0
      then let ratio = (of_int allocated / of_int (max 1 used)) * max (1/10) value in
        py_round 2 (7/10 * ag_resource_efficiency a + 3/10 * min 2 (max 0 ratio))
      else ag_resource_efficiency a)"

definition apply_success :: "env \<Rightarrow> int \<Rightarrow> int \<Rightarrow> rat \<Rightarrow> string option \<Rightarrow> rep_state \<Rightarrow> rep_state" where
  "apply_success E allocated used value task_id s =
     on_perf (\<lambda>f. f\<lparr>pf_tasks_completed := pf_tasks_completed f + 1, pf_resources_allocated := pf_resources_allocated f + allocated,
         pf_resources_consumed := pf_resources_consumed f + used, pf_value_produced := pf_value_produced f + value,
         pf_evaluation_count := pf_evaluation_count f + 1, pf_last_evaluated_at := Some (e_now E 0)\<rparr>)
       (on_agent (\<lambda>a. a\<lparr>ag_successful_tasks := ag_successful_tasks a + 1,
         ag_task_history := ag_task_history a @ [if py_truthy task_id then ''SUCCESS:'' @ the task_id else ''SUCCESS''],
         ag_resource_efficiency := success_efficiency a allocated used value,
         ag_reputation_score := min 100 (py_round 2 (ag_reputation_score a + SUCCESS_BOOST))\<rparr>) s)"

definition record_task_success ::
  "prims \<Rightarrow> env \<Rightarrow> int \<Rightarrow> int \<Rightarrow> rat \<Rightarrow> string option \<Rightarrow> rep_state \<Rightarrow> rep_state" where
  "record_task_success P E allocated used value task_id s =
     (let before = ag_reputation_score (rs_agent s);
          s1 = evaluate_lifecycle P (env_skip 1 E) (update_metrics (apply_success E allocated used value task_id s))
      in if before \<noteq> ag_reputation_score (rs_agent s1)
         then log_reputation P (env_skip 3 E) before (''TASK_SUCCESS:'' @ py_or task_id ''anonymous'') s1 else s1)"

definition history_entry :: "string \<Rightarrow> string option \<Rightarrow> string option \<Rightarrow> string" where
  "history_entry kind task_id detail = kind @ '':'' @ py_or task_id ''unknown'' @
     (if py_truthy detail then '':'' @ the detail else [])"

definition penalised :: "rat \<Rightarrow> rat \<Rightarrow> rat" where
  "penalised score penalty = clamp 0 100 (py_round 2 (clamp 0 100 score - penalty))"

definition apply_failure :: "env \<Rightarrow> int \<Rightarrow> int \<Rightarrow> string option \<Rightarrow> string option \<Rightarrow> rep_state \<Rightarrow> rep_state" where
  "apply_failure E allocated used reason task_id s =
     on_perf (\<lambda>f. f\<lparr>pf_tasks_failed := pf_tasks_failed f + 1, pf_resources_allocated := pf_resources_allocated f + allocated,
         pf_resources_consumed := pf_resources_consumed f + used, pf_evaluation_count := pf_evaluation_count f + 1,
         pf_last_evaluated_at := Some (e_now E 0)\<rparr>)
       (on_agent (\<lambda>a. a\<lparr>ag_failed_tasks := ag_failed_tasks a + 1,
         ag_task_history := ag_task_history a @ [history_entry ''FAILURE'' task_id reason],
         ag_resource_efficiency := (if used > 0 then py_round 2 (max (1/10) (ag_resource_efficiency a * (85/100)))
           else ag_resource_efficiency a),
         ag_reputation_score := penalised (ag_reputation_score a) FAILURE_PENALTY\<rparr>) s)"

definition record_task_failure ::
  "prims \<Rightarrow> env \<Rightarrow> int \<Rightarrow> int \<Rightarrow> string option \<Rightarrow> string option \<Rightarrow> rep_state \<Rightarrow> rep_state" where
  "record_task_failure P E allocated used reason task_id s =
     (let before = ag_reputation_score (rs_agent s);
          s1 = evaluate_lifecycle P (env_skip 1 E) (update_metrics (apply_failure E allocated used reason task_id s))
      in if before \<noteq> ag_reputation_score (rs_agent s1)
         then log_reputation P (env_skip 3 E) before (''TASK_FAILURE:'' @ py_or task_id ''unknown'' @ '':'' @ py_or reason []) s1
         else s1)"

definition apply_violation :: "env \<Rightarrow> string option \<Rightarrow> string option \<Rightarrow> rep_state \<Rightarrow> rep_state" where
  "apply_violation E details task_id s =
     on_perf (\<lambda>f. f\<lparr>pf_policy_violations := pf_policy_violations f + 1, pf_evaluation_count := pf_evaluation_count f + 1,
         pf_last_evaluated_at := Some (e_now E 0)\<rparr>)
       (on_agent (\<lambda>a. a\<lparr>ag_policy_violations := ag_policy_violations a + 1,
         ag_task_history := ag_task_history a @ [history_entry ''VIOLATION'' task_id details],
         ag_reputation_score := penalised (ag_reputation_score a) POLICY_VIOLATION_PENALTY,
         ag_risk_score := min 100 (py_round 2 (ag_risk_score a + 15))\<rparr>) s)"

definition record_policy_violation :: "prims \<Rightarrow> env \<Rightarrow> string option \<Rightarrow> string option \<Rightarrow> rep_state \<Rightarrow> rep_state" where
  "record_policy_violation P E details task_id s =
     (let before = ag_reputation_score (rs_agent s) in
      log_reputation P (env_skip 3 E) before (''POLICY_VIOLATION:'' @ py_or details [])
        (evaluate_lifecycle P (env_skip 1 E) (update_metrics (apply_violation E details task_id s))))"

text \<open>Without a performance record these two do nothing.\<close>

definition record_proposal_outcome :: "env \<Rightarrow> bool \<Rightarrow> rep_state \<Rightarrow> rep_state" where
  "record_proposal_outcome E approved s = (if rs_perf s = None then s else update_metrics (on_perf (\<lambda>f.
     (if approved then f\<lparr>pf_successful_proposals := pf_successful_proposals f + 1\<rparr>
      else f\<lparr>pf_rejected_proposals := pf_rejected_proposals f + 1\<rparr>)\<lparr>pf_last_evaluated_at := Some (e_now E 0)\<rparr>) s))"

definition count_execution :: "bool \<Rightarrow> bool \<Rightarrow> perf_record \<Rightarrow> perf_record" where
  "count_execution succeeded recovered f =
     (let n = (if recovered then 1 else 0) in
      if succeeded then f\<lparr>pf_execution_successes := pf_execution_successes f + 1, pf_recovery_successes := pf_recovery_successes f + n\<rparr>
      else f\<lparr>pf_execution_failures := pf_execution_failures f + 1, pf_recovery_failures := pf_recovery_failures f + n\<rparr>)"

definition record_execution_outcome :: "env \<Rightarrow> bool \<Rightarrow> bool \<Rightarrow> rep_state \<Rightarrow> rep_state" where
  "record_execution_outcome E succeeded recovered s = (if rs_perf s = None then s else update_metrics (on_perf (\<lambda>f.
     (count_execution succeeded recovered f)\<lparr>pf_last_evaluated_at := Some (e_now E 0)\<rparr>) s))"

definition can_assign_task :: "agent_record \<Rightarrow> bool" where
  "can_assign_task a \<longleftrightarrow> ag_status a \<in> {Agent_ACTIVE, Agent_PROBATION, Agent_RESTRICTED}"

definition can_propose_action :: "agent_record \<Rightarrow> action_type \<Rightarrow> int \<Rightarrow> bool \<times> string" where
  "can_propose_action a ty n =
     (if ag_status a = Agent_RETIRED then (False, ''Agent is RETIRED and permanently disabled from proposing actions.'')
      else if ag_status a = Agent_SUSPENDED then (False, ''Agent is SUSPENDED and cannot propose actions.'')
      else if ag_status a = Agent_RESTRICTED \<and> ty \<in> set external_actions
      then (False, ''Agent is RESTRICTED: disallowed from proposing external action'')
      else if ag_status a = Agent_RESTRICTED \<and> n > 5 then (False, ''Agent is RESTRICTED: requested credits exceed restricted limit of 5.'')
      else if n > ag_authority_ceiling a then (False, ''Requested credits exceed agent authority ceiling'')
      else (True, ''Action proposal permitted by agent lifecycle and authority policy.''))"

text \<open>The counters an evaluation adds.\<close>

record perf_delta =
  de_completed :: int
  de_failed :: int
  de_approved :: int
  de_rejected :: int
  de_allocated :: int
  de_consumed :: int
  de_value :: rat
  de_violations :: int

definition apply_delta :: "env \<Rightarrow> perf_delta \<Rightarrow> perf_record \<Rightarrow> perf_record" where
  "apply_delta E d f = f\<lparr>pf_tasks_completed := pf_tasks_completed f + de_completed d, pf_tasks_failed := pf_tasks_failed f + de_failed d,
     pf_successful_proposals := pf_successful_proposals f + de_approved d,
     pf_rejected_proposals := pf_rejected_proposals f + de_rejected d,
     pf_resources_allocated := pf_resources_allocated f + de_allocated d,
     pf_resources_consumed := pf_resources_consumed f + de_consumed d, pf_value_produced := pf_value_produced f + de_value d,
     pf_policy_violations := pf_policy_violations f + de_violations d, pf_evaluation_count := pf_evaluation_count f + 1,
     pf_last_evaluated_at := Some (e_now E 0)\<rparr>"

definition evaluated :: "prims \<Rightarrow> env \<Rightarrow> perf_delta \<Rightarrow> perf_record \<Rightarrow> agent_record \<Rightarrow> rep_state" where
  "evaluated P E d r a = (let f = compute_scores (apply_delta E d r) in
     evaluate_lifecycle P (env_skip 1 E) (update_metrics
       \<lparr>rs_agent = a\<lparr>ag_successful_tasks := pf_tasks_completed f, ag_failed_tasks := pf_tasks_failed f,
          ag_policy_violations := pf_policy_violations f\<rparr>, rs_perf = Some f, rs_events = None\<rparr>))"

definition evaluate_agent_performance ::
  "prims \<Rightarrow> env \<Rightarrow> string \<Rightarrow> string \<Rightarrow> perf_delta \<Rightarrow> string \<Rightarrow> string option \<Rightarrow>
     (agent_record \<times> economy_db, reputation_entry) act" where
  "evaluate_agent_performance P E t g d trigger evidence = (\<lambda>(a, D).
     (let r = (case get_performance_record D t g (ag_id a) of None \<Rightarrow> new_perf_record E t g (ag_id a) | Some r \<Rightarrow> r);
          s = evaluated P (env_skip 1 E) d r a; f = the (rs_perf s); b = rs_agent s;
          D1 = save_performance_record f D;
          e = \<lparr>rh_id = ''rep-'' @ take 12 (e_uuid E 0), rh_agent_id = ag_id b, rh_organisation_id = g, rh_tenant_id = t,
            rh_previous_score = ag_reputation_score a, rh_new_score = ag_reputation_score b,
            rh_score_delta = py_round 2 (ag_reputation_score b - ag_reputation_score a), rh_trigger_event = trigger,
            rh_evidence_hash = Some (py_or evidence (compute_record_hash P f)), rh_created_at = e_now E 4\<rparr>
      in case record_reputation_event e D1 of
           Inl x \<Rightarrow> (Inl x, (b, D1)) | Inr D2 \<Rightarrow> (Inr e, (b, D2))))"

end
