(* ===== verification/Lifecycle.thy ===== *)
theory Lifecycle
  imports Reputation
begin

text \<open>
  What the reputation engine keeps over any sequence of its operations: scores within their ranges, retirement final,
  permissions never returned, and a log that still verifies.
\<close>

section \<open>The parts of a state\<close>

lemma rep_parts [simp]:
  "rs_agent (on_perf f s) = rs_agent s" "rs_perf (on_perf f s) = map_option f (rs_perf s)" "rs_events (on_perf f s) = rs_events s"
  "rs_agent (on_agent g s) = g (rs_agent s)" "rs_perf (on_agent g s) = rs_perf s" "rs_events (on_agent g s) = rs_events s"
  "rs_agent (rep_event P E ty pl s) = rs_agent s" "rs_perf (rep_event P E ty pl s) = rs_perf s"
  "rs_agent (log_reputation P E x why s) = rs_agent s" "rs_perf (log_reputation P E x why s) = rs_perf s"
  "rs_agent (log_lifecycle P E a s) = rs_agent s" "rs_perf (log_lifecycle P E a s) = rs_perf s"
  by (simp_all add: on_perf_def on_agent_def rep_event_def log_reputation_def log_lifecycle_def Let_def)

section \<open>The range of the scores\<close>

definition agent_ok :: "agent_record \<Rightarrow> bool" where
  "agent_ok a \<longleftrightarrow> ag_reputation_score a \<in> {0..100} \<and> ag_performance_score a \<in> {0..100} \<and>
     ag_reliability_score a \<in> {0..100} \<and> ag_risk_score a \<in> {0..100} \<and> ag_resource_efficiency a \<in> {0..2} \<and>
     0 \<le> ag_authority_ceiling a \<and>
     (ag_status a = Agent_RETIRED \<longrightarrow> ag_authority_ceiling a = 0 \<and> ag_allowed_action_types a = [])"

definition perf_ok :: "perf_record \<Rightarrow> bool" where
  "perf_ok f \<longleftrightarrow> pf_authority_level f \<in> {0..5} \<and> pf_composite_score f \<in> {0..100} \<and>
     pf_reliability_score f \<in> {0..100} \<and> pf_reputation_score f \<in> {0..100}"

definition rep_ok :: "rep_state \<Rightarrow> bool" where
  "rep_ok s \<longleftrightarrow> agent_ok (rs_agent s) \<and> (case rs_perf s of None \<Rightarrow> True | Some f \<Rightarrow> perf_ok f)"

lemma round_clamp [simp]: "0 \<le> py_round 2 (clamp 0 100 x)" "py_round 2 (clamp 0 100 x) \<le> 100"
  using py_round_between [of 0 "clamp 0 100 x" 100 2] by (simp_all add: clamp_def)

lemma composite_score_range [simp]: "0 \<le> composite_score a r" "composite_score a r \<le> 100"
  by (simp_all add: composite_score_def Let_def)

lemma penalised_range [simp]: "0 \<le> penalised x p" "penalised x p \<le> 100"
  by (simp_all add: penalised_def clamp_def)

text \<open>What the scoring before the metrics leaves is in range; the metrics then bring everything in range.\<close>

lemma update_metrics_ok: "rep_ok s \<Longrightarrow> rep_ok (update_metrics s)"
  by (auto simp: rep_ok_def agent_ok_def perf_ok_def update_metrics_def Let_def split: option.splits)

lemma success_efficiency_range:
  assumes "0 \<le> ag_resource_efficiency a" "ag_resource_efficiency a \<le> 2"
  shows "0 \<le> success_efficiency a n u v \<and> success_efficiency a n u v \<le> 2"
proof (cases "n > 0 \<and> u \<ge> 0")
  case True
  let ?m = "min 2 (max 0 (of_int n / of_int (max 1 u) * max (1/10) v))"
  have m: "0 \<le> ?m" "?m \<le> 2" by simp_all
  have "0 \<le> 7/10 * ag_resource_efficiency a + 3/10 * ?m" "7/10 * ag_resource_efficiency a + 3/10 * ?m \<le> 2"
    using assms m by linarith+
  then have "0 \<le> py_round 2 (7/10 * ag_resource_efficiency a + 3/10 * ?m) \<and>
      py_round 2 (7/10 * ag_resource_efficiency a + 3/10 * ?m) \<le> 2"
    using py_round_between [of 0 _ 2 2] by simp
  then show ?thesis using True by (simp only: success_efficiency_def Let_def if_True simp_thms)
qed (use assms in \<open>auto simp: success_efficiency_def\<close>)

lemma apply_success_ok: "rep_ok s \<Longrightarrow> rep_ok (apply_success E n u v i s)"
proof -
  assume ok: "rep_ok s"
  then have rep: "0 \<le> ag_reputation_score (rs_agent s)" and eff: "0 \<le> ag_resource_efficiency (rs_agent s)"
      "ag_resource_efficiency (rs_agent s) \<le> 2"
    by (simp_all add: rep_ok_def agent_ok_def)
  have "0 \<le> py_round 2 (ag_reputation_score (rs_agent s) + SUCCESS_BOOST)"
    using py_round_mono [of 0 "ag_reputation_score (rs_agent s) + SUCCESS_BOOST" 2] rep py_round_of_int [of 2 0]
    by (simp add: SUCCESS_BOOST_def)
  then show ?thesis
    using ok success_efficiency_range [OF eff]
    by (auto simp: rep_ok_def agent_ok_def perf_ok_def apply_success_def split: option.splits)
qed

lemma apply_failure_ok: "rep_ok s \<Longrightarrow> rep_ok (apply_failure E n u why i s)"
proof -
  assume ok: "rep_ok s"
  let ?e = "max (1/10) (ag_resource_efficiency (rs_agent s) * (85/100))"
  have "0 \<le> ?e" "?e \<le> 2" using ok by (auto simp: rep_ok_def agent_ok_def)
  then have "0 \<le> py_round 2 ?e \<and> py_round 2 ?e \<le> 2" using py_round_between [of 0 ?e 2 2] by simp
  then show ?thesis
    using ok by (auto simp: rep_ok_def agent_ok_def perf_ok_def apply_failure_def split: option.splits)
qed

lemma apply_violation_ok: "rep_ok s \<Longrightarrow> rep_ok (apply_violation E d i s)"
proof -
  assume ok: "rep_ok s"
  then have "0 \<le> py_round 2 (ag_risk_score (rs_agent s) + 15)"
    using py_round_mono [of 0 "ag_risk_score (rs_agent s) + 15" 2] py_round_of_int [of 2 0]
    by (simp add: rep_ok_def agent_ok_def)
  then show ?thesis
    using ok by (auto simp: rep_ok_def agent_ok_def perf_ok_def apply_violation_def split: option.splits)
qed

text \<open>Entering a status, and what promotion and demotion do afterwards.\<close>

lemma enter_status_parts [simp]:
  "ag_id (enter_status st a) = ag_id a" "ag_status (enter_status st a) = st"
  "ag_reputation_score (enter_status st a) = ag_reputation_score a"
  "ag_performance_score (enter_status st a) = ag_performance_score a"
  "ag_reliability_score (enter_status st a) = ag_reliability_score a" "ag_risk_score (enter_status st a) = ag_risk_score a"
  "ag_resource_efficiency (enter_status st a) = ag_resource_efficiency a"
  "set (ag_allowed_action_types (enter_status st a)) \<subseteq> set (ag_allowed_action_types a)"
  by (cases st; auto)+

lemma enter_status_ok: "agent_ok a \<Longrightarrow> agent_ok (enter_status st a)"
  unfolding agent_ok_def by (cases st) auto

lemma promote_agent [simp]:
  "ag_id (rs_agent (promote_or_demote s)) = ag_id (rs_agent s)"
  "ag_status (rs_agent (promote_or_demote s)) = ag_status (rs_agent s)"
  "ag_allowed_action_types (rs_agent (promote_or_demote s)) = ag_allowed_action_types (rs_agent s)"
  by (auto simp: promote_or_demote_def Let_def split: option.split)

lemma promote_ok: "rep_ok s \<Longrightarrow> rep_ok (promote_or_demote s)"
  by (auto simp: rep_ok_def agent_ok_def perf_ok_def promote_or_demote_def Let_def split: option.splits)

lemma evaluate_lifecycle_ok: "rep_ok s \<Longrightarrow> rep_ok (evaluate_lifecycle P E s)"
proof -
  assume ok: "rep_ok s"
  let ?s = "on_agent (enter_status (lifecycle_status (ag_reputation_score (rs_agent s)) (ag_performance_score (rs_agent s))
    (consecutive_failures (rs_agent s)))) s"
  have "rep_ok ?s" using ok enter_status_ok by (simp add: rep_ok_def)
  then have "rep_ok (promote_or_demote ?s)" by (rule promote_ok)
  then show ?thesis
    using ok enter_status_ok [of "rs_agent s" Agent_RETIRED]
    by (auto simp: evaluate_lifecycle_def Let_def rep_ok_def perf_ok_def split: option.splits)
qed

section \<open>Any sequence of operations\<close>

inductive rep_step :: "prims \<Rightarrow> rep_state \<Rightarrow> rep_state \<Rightarrow> bool" for P where
  step_success: "rep_step P s (record_task_success P E allocated used v task_id s)"
| step_failure: "rep_step P s (record_task_failure P E allocated used reason task_id s)"
| step_violation: "rep_step P s (record_policy_violation P E details task_id s)"
| step_proposal: "rep_step P s (record_proposal_outcome E approved s)"
| step_execution: "rep_step P s (record_execution_outcome E succeeded recovered s)"
| step_evaluation: "rs_perf s = Some r \<Longrightarrow>
    rep_step P s ((evaluated P E d r (rs_agent s))\<lparr>rs_events := rs_events s\<rparr>)"

abbreviation rep_steps :: "prims \<Rightarrow> rep_state \<Rightarrow> rep_state \<Rightarrow> bool" where
  "rep_steps P \<equiv> (rep_step P)\<^sup>*\<^sup>*"

lemma count_execution_ok: "perf_ok f \<Longrightarrow> perf_ok (count_execution a b f)"
  by (simp add: perf_ok_def count_execution_def Let_def)

lemma evaluated_ok:
  assumes "agent_ok a" "perf_ok r"
  shows "rep_ok (evaluated P E d r a)"
proof -
  let ?f = "compute_scores (apply_delta E d r)"
  have "0 \<le> pf_authority_level ?f \<and> pf_authority_level ?f \<le> 5 \<and> 0 \<le> pf_reputation_score ?f \<and> pf_reputation_score ?f \<le> 100"
    using assms(2) by (simp add: perf_ok_def compute_scores_def apply_delta_def Let_def)
  then have "rep_ok (update_metrics \<lparr>rs_agent = a\<lparr>ag_successful_tasks := pf_tasks_completed ?f, ag_failed_tasks := pf_tasks_failed ?f,
      ag_policy_violations := pf_policy_violations ?f\<rparr>, rs_perf = Some ?f, rs_events = None\<rparr>)"
    using assms(1) by (auto simp: rep_ok_def agent_ok_def perf_ok_def update_metrics_def Let_def)
  then show ?thesis unfolding evaluated_def Let_def by (rule evaluate_lifecycle_ok)
qed

lemma rep_step_ok: "rep_step P s s' \<Longrightarrow> rep_ok s \<Longrightarrow> rep_ok s'"
proof (induction rule: rep_step.induct)
  case (step_success s E allocated used v task_id)
  have "rep_ok (evaluate_lifecycle P (env_skip 1 E) (update_metrics (apply_success E allocated used v task_id s)))"
    by (intro evaluate_lifecycle_ok update_metrics_ok apply_success_ok step_success)
  then show ?case by (simp add: record_task_success_def Let_def rep_ok_def)
next
  case (step_failure s E allocated used reason task_id)
  have "rep_ok (evaluate_lifecycle P (env_skip 1 E) (update_metrics (apply_failure E allocated used reason task_id s)))"
    by (intro evaluate_lifecycle_ok update_metrics_ok apply_failure_ok step_failure)
  then show ?case by (simp add: record_task_failure_def Let_def rep_ok_def)
next
  case (step_violation s E details task_id)
  have "rep_ok (evaluate_lifecycle P (env_skip 1 E) (update_metrics (apply_violation E details task_id s)))"
    by (intro evaluate_lifecycle_ok update_metrics_ok apply_violation_ok step_violation)
  then show ?case by (simp add: record_policy_violation_def Let_def rep_ok_def)
next
  case (step_proposal s E approved)
  then have "rep_ok (on_perf (\<lambda>f. (if approved then f\<lparr>pf_successful_proposals := pf_successful_proposals f + 1\<rparr>
      else f\<lparr>pf_rejected_proposals := pf_rejected_proposals f + 1\<rparr>)\<lparr>pf_last_evaluated_at := Some (e_now E 0)\<rparr>) s)"
    by (auto simp: rep_ok_def perf_ok_def split: option.splits)
  then show ?case using step_proposal by (simp add: record_proposal_outcome_def update_metrics_ok)
next
  case (step_execution s E succeeded recovered)
  then have "rep_ok (on_perf (\<lambda>f. (count_execution succeeded recovered f)\<lparr>pf_last_evaluated_at := Some (e_now E 0)\<rparr>) s)"
    by (auto simp: rep_ok_def perf_ok_def count_execution_def Let_def split: option.splits)
  then show ?case using step_execution by (simp add: record_execution_outcome_def update_metrics_ok)
next
  case (step_evaluation s r E d)
  then show ?case using evaluated_ok [of "rs_agent s" r] by (simp add: rep_ok_def)
qed


section \<open>Permissions and retirement\<close>

text \<open>What no operation returns: a permission taken away, and a retired agent.\<close>

definition narrowed :: "agent_record \<Rightarrow> agent_record \<Rightarrow> bool" where
  "narrowed a b \<longleftrightarrow> ag_id b = ag_id a \<and> set (ag_allowed_action_types b) \<subseteq> set (ag_allowed_action_types a) \<and>
     (ag_status a = Agent_RETIRED \<longrightarrow> ag_status b = Agent_RETIRED)"

lemma narrowed_refl: "narrowed a a"
  by (simp add: narrowed_def)

lemma narrowed_trans: "narrowed a b \<Longrightarrow> narrowed b c \<Longrightarrow> narrowed a c"
  by (auto simp: narrowed_def)

lemma lifecycle_narrows: "narrowed (rs_agent s) (rs_agent (evaluate_lifecycle P E s))"
proof (cases "ag_status (rs_agent s) = Agent_RETIRED")
  case True
  then show ?thesis by (simp add: narrowed_def evaluate_lifecycle_def)
next
  case False
  let ?s = "on_agent (enter_status (lifecycle_status (ag_reputation_score (rs_agent s)) (ag_performance_score (rs_agent s))
    (consecutive_failures (rs_agent s)))) s"
  have "rs_agent (evaluate_lifecycle P E s) = rs_agent (promote_or_demote ?s)"
    using False by (simp add: evaluate_lifecycle_def Let_def)
  then show ?thesis using False by (simp add: narrowed_def)
qed

lemma metrics_narrow:
  "narrowed a (rs_agent s) \<Longrightarrow> narrowed a (rs_agent (update_metrics s))"
  by (simp add: narrowed_def update_metrics_def Let_def)

lemma rep_step_narrows: "rep_step P s s' \<Longrightarrow> narrowed (rs_agent s) (rs_agent s')"
proof (induction rule: rep_step.induct)
  case (step_success s E allocated used v task_id)
  have "narrowed (rs_agent s) (rs_agent (update_metrics (apply_success E allocated used v task_id s)))"
    by (rule metrics_narrow) (simp add: narrowed_def apply_success_def)
  from narrowed_trans [OF this lifecycle_narrows] show ?case by (simp add: record_task_success_def Let_def)
next
  case (step_failure s E allocated used reason task_id)
  have "narrowed (rs_agent s) (rs_agent (update_metrics (apply_failure E allocated used reason task_id s)))"
    by (rule metrics_narrow) (simp add: narrowed_def apply_failure_def)
  from narrowed_trans [OF this lifecycle_narrows] show ?case by (simp add: record_task_failure_def Let_def)
next
  case (step_violation s E details task_id)
  have "narrowed (rs_agent s) (rs_agent (update_metrics (apply_violation E details task_id s)))"
    by (rule metrics_narrow) (simp add: narrowed_def apply_violation_def)
  from narrowed_trans [OF this lifecycle_narrows] show ?case by (simp add: record_policy_violation_def Let_def)
next
  case (step_proposal s E approved)
  show ?case by (simp add: record_proposal_outcome_def narrowed_refl metrics_narrow)
next
  case (step_execution s E succeeded recovered)
  show ?case by (simp add: record_execution_outcome_def narrowed_refl metrics_narrow)
next
  case (step_evaluation s r E d)
  have "narrowed (rs_agent s) (rs_agent (evaluated P E d r (rs_agent s)))"
    unfolding evaluated_def Let_def
    by (rule narrowed_trans [OF metrics_narrow lifecycle_narrows]) (simp add: narrowed_def)
  then show ?case by simp
qed

lemma rep_steps_narrow: "rep_steps P s s' \<Longrightarrow> narrowed (rs_agent s) (rs_agent s')"
  by (induction rule: rtranclp_induct) (blast intro: narrowed_refl narrowed_trans rep_step_narrows)+

text \<open>
  C35: Retirement is final, and permissions never return.  After any sequence of operations a permitted action was permitted
  before, and an agent that was retired is retired, may be assigned no task and may propose nothing, not even an action that
  costs nothing.
\<close>

theorem retirement_final:
  assumes "rep_steps P s s'"
  shows "set (ag_allowed_action_types (rs_agent s')) \<subseteq> set (ag_allowed_action_types (rs_agent s)) \<and>
     (ag_status (rs_agent s) = Agent_RETIRED \<longrightarrow> ag_status (rs_agent s') = Agent_RETIRED \<and>
        \<not> can_assign_task (rs_agent s') \<and> \<not> fst (can_propose_action (rs_agent s') ty n))"
  using rep_steps_narrow [OF assms] by (auto simp: narrowed_def can_assign_task_def can_propose_action_def)

text \<open>
  The demotion comes after the status: it lifts the ceiling of an agent it has just suspended or restricted from 0 to 5.
\<close>

lemma suspension_leaves_ceiling:
  assumes "ag_status (rs_agent s) \<noteq> Agent_RETIRED" "rs_perf s = Some f" "ag_performance_score (rs_agent s) < 60"
    and "lifecycle_status (ag_reputation_score (rs_agent s)) (ag_performance_score (rs_agent s)) (consecutive_failures (rs_agent s))
      \<in> {Agent_SUSPENDED, Agent_RESTRICTED}"
  shows "ag_status (rs_agent (evaluate_lifecycle P E s)) \<in> {Agent_SUSPENDED, Agent_RESTRICTED} \<and>
     ag_authority_ceiling (rs_agent (evaluate_lifecycle P E s)) = 5"
  using assms by (auto simp: evaluate_lifecycle_def promote_or_demote_def Let_def)

text \<open>The scores an evaluation computes from the record are all overwritten by the metrics: proposals never count.\<close>

lemma compute_scores_overwritten:
  "update_metrics \<lparr>rs_agent = a, rs_perf = Some (compute_scores f), rs_events = S\<rparr> =
   update_metrics \<lparr>rs_agent = a, rs_perf = Some f, rs_events = S\<rparr>"
  by (simp add: update_metrics_def compute_scores_def Let_def on_perf_def on_agent_def reliability_base_def efficiency_ratio_def
      composite_score_def)

section \<open>An agent's career\<close>

definition demo_career :: rep_state where
  "demo_career = \<lparr>rs_agent = \<lparr>ag_id = ''a1'', ag_role = Role_RESEARCHER, ag_model_name = ''m'', ag_credit_balance = 0,
     ag_reputation_score = 18, ag_authority_ceiling = 25, ag_allowed_action_types = [INTERNAL_ANALYSIS], ag_status = Agent_ACTIVE,
     ag_successful_tasks = 3, ag_failed_tasks = 1, ag_policy_violations = 0, ag_performance_score = 80, ag_risk_score = 0,
     ag_resource_efficiency = 1, ag_reliability_score = 75, ag_task_history = [''SUCCESS'']\<rparr>, rs_perf = None, rs_events = Some []\<rparr>"

lemma demo_career_ok: "agent_ok (rs_agent demo_career)" "rs_perf demo_career = None"
  by (simp_all add: demo_career_def agent_ok_def)

lemma demo_career_step:
  "rep_steps demo_prims demo_career (record_task_failure demo_prims demo_env 5 5 None (Some ''t1'') demo_career)"
  by (rule r_into_rtranclp) (rule step_failure)

lemma demo_career_retires:
  "ag_status (rs_agent (record_task_failure demo_prims demo_env 5 5 None (Some ''t1'') demo_career)) = Agent_RETIRED"
  by code_simp


theorem retirement_final_witness:
  "ag_status (rs_agent (record_task_success demo_prims demo_env 5 5 1 None
     (record_task_failure demo_prims demo_env 5 5 None (Some ''t1'') demo_career))) = Agent_RETIRED"
proof -
  have "rep_steps demo_prims (record_task_failure demo_prims demo_env 5 5 None (Some ''t1'') demo_career)
      (record_task_success demo_prims demo_env 5 5 1 None (record_task_failure demo_prims demo_env 5 5 None (Some ''t1'') demo_career))"
    by (rule r_into_rtranclp) (rule step_success)
  from retirement_final [OF this] demo_career_retires show ?thesis by blast
qed

end
