(* ===== verification/Allocation.thy ===== *)
theory Allocation
  imports Lifecycle
begin

text \<open>
  The division of the treasury among the agents (\<open>src/economy/allocator.py\<close>) and the assignment of a task to an agent with
  its budget (\<open>src/orchestration/assignment.py\<close>).  A sort by several keys is a stable sort by the last key first; the
  rationale texts leave out interpolated values.
\<close>

section \<open>allocator.py\<close>

text \<open>\<open>_has_allocated_balance\<close> is an attribute the allocator puts on agents: the set of their keys.\<close>

record alloc_world =
  aw_org :: organisation
  aw_flagged :: "string set"

type_synonym perf_records = "(string \<times> perf_record) list"

text \<open>A dict built by assignments in order, and \<open>int(x)\<close> of a float.\<close>

definition dict_of :: "(string \<times> 'v) list \<Rightarrow> (string \<times> 'v) list" where
  "dict_of xs = foldl (\<lambda>d (k, v). AList.update k v d) [] xs"

definition int_trunc :: "rat \<Rightarrow> int" where
  "int_trunc r = (if r < 0 then \<lceil>r\<rceil> else \<lfloor>r\<rfloor>)"

definition eligible_agents :: "organisation \<Rightarrow> agent_record list" where
  "eligible_agents g = filter (\<lambda>a. ag_status a \<notin> {Agent_SUSPENDED, Agent_RETIRED}) (map snd (og_agents g))"

definition static_share :: "int \<Rightarrow> agent_record \<Rightarrow> int" where
  "static_share share a = (case ag_status a of Agent_RESTRICTED \<Rightarrow> min 5 share
     | Agent_PROBATION \<Rightarrow> min (ag_authority_ceiling a) (min 12 share)
     | _ \<Rightarrow> min (ag_authority_ceiling a) share)"

definition allocate_static :: "agent_record list \<Rightarrow> int \<Rightarrow> (string \<times> int) list \<times> string" where
  "allocate_static as treasury = (dict_of (map (\<lambda>a. (ag_id a, static_share (treasury div int (length as)) a)) as),
     ''Static equal division per eligible agent (capped by authority)'')"

text \<open>Agents by descending weight and ascending id; each gets its target, capped by its ceiling and by what is left.\<close>

definition ranked :: "(string \<times> rat) list \<Rightarrow> agent_record list \<Rightarrow> agent_record list" where
  "ranked weights as = sort_key (\<lambda>a. - dict_get weights (ag_id a) 0) (sort_key ag_id as)"

fun share_out :: "(agent_record \<Rightarrow> int) \<Rightarrow> int \<Rightarrow> int \<Rightarrow> (string \<times> int) list \<Rightarrow> agent_record list \<Rightarrow> (string \<times> int) list" where
  "share_out target treasury spent d [] = d"
| "share_out target treasury spent d (a # as) =
     (let final = max 0 (min (min (ag_authority_ceiling a) (target a)) (treasury - spent)) in
      share_out target treasury (spent + final) (AList.update (ag_id a) final d) as)"

definition weight_sum :: "(string \<times> rat) list \<Rightarrow> rat" where
  "weight_sum d = sum_list (map snd d)"

definition performance_weight :: "perf_records \<Rightarrow> agent_record \<Rightarrow> rat" where
  "performance_weight recs a = (if ag_status a = Agent_RESTRICTED then 5
     else max 1 (case map_of recs (ag_id a) of Some f \<Rightarrow> pf_composite_score f | None \<Rightarrow> ag_performance_score a))"

definition allocate_performance :: "agent_record list \<Rightarrow> int \<Rightarrow> perf_records \<Rightarrow> (string \<times> int) list \<times> string" where
  "allocate_performance as treasury recs =
     (let scores = dict_of (map (\<lambda>a. (ag_id a, performance_weight recs a)) as);
          target = (\<lambda>a. int_trunc (dict_get scores (ag_id a) 0 / weight_sum scores * of_int treasury))
      in (share_out target treasury 0 [] (ranked scores as),
          ''Performance-weighted proportional allocation based on demonstrated composite scores''))"

definition role_boost :: "string option \<Rightarrow> agent_role \<Rightarrow> rat" where
  "role_boost mission role =
     (if \<not> py_truthy mission then 1
      else let m = py_lower (the mission); has = (\<lambda>ws. \<exists>w \<in> set ws. sublist w m) in
        if has [''financial'', ''market'', ''liquidity''] then (if role = Role_FINANCIAL_ANALYST then 13/10 else 1)
        else if has [''research'', ''analysis''] then (if role = Role_RESEARCHER then 13/10 else 1)
        else if has [''strategy'', ''governance''] then (if role = Role_STRATEGIST then 13/10 else 1)
        else 1)"

definition adaptive_weight :: "perf_records \<Rightarrow> string option \<Rightarrow> agent_record \<Rightarrow> rat" where
  "adaptive_weight recs mission a = (case ag_status a of Agent_RESTRICTED \<Rightarrow> 2 | Agent_PROBATION \<Rightarrow> 8
     | _ \<Rightarrow> let perf = map_of recs (ag_id a);
           p = (case perf of Some f \<Rightarrow> pf_performance_score f | None \<Rightarrow> ag_performance_score a) / 100;
           r = (case perf of Some f \<Rightarrow> pf_reliability_score f | None \<Rightarrow> ag_reliability_score a) / 100;
           e = min (3/2) (case perf of Some f \<Rightarrow> pf_resource_efficiency_score f | None \<Rightarrow> ag_resource_efficiency a);
           c = (case perf of Some f \<Rightarrow> pf_policy_compliance_score f | None \<Rightarrow> 100) / 100;
           combined = (30/100 * p + 25/100 * r + 20/100 * e + 15/100 * c + 10/100 * (ag_reputation_score a / 100))
             * role_boost mission (ag_role a)
         in max (1/10) combined)"

definition scarcity_multiplier :: "int \<Rightarrow> rat" where
  "scarcity_multiplier treasury = (if treasury \<ge> 50 then 1 else if treasury < 20 then 1/2 else 3/4)"

definition allocate_adaptive ::
  "agent_record list \<Rightarrow> int \<Rightarrow> perf_records \<Rightarrow> string option \<Rightarrow> (string \<times> int) list \<times> string" where
  "allocate_adaptive as treasury recs mission =
     (let weights = dict_of (map (\<lambda>a. (ag_id a, adaptive_weight recs mission a)) as);
          target = (\<lambda>a. int_trunc (dict_get weights (ag_id a) 0 / weight_sum weights * of_int treasury * scarcity_multiplier treasury))
      in (share_out target treasury 0 [] (ranked weights as),
          ''Adaptive allocation: multi-factor weighted with scarcity damping and mission alignment''))"

definition allocate_by ::
  "allocation_strategy \<Rightarrow> agent_record list \<Rightarrow> int \<Rightarrow> perf_records \<Rightarrow> string option \<Rightarrow> (string \<times> int) list \<times> string" where
  "allocate_by strategy as treasury recs mission = (case strategy of STATIC \<Rightarrow> allocate_static as treasury
     | PERFORMANCE \<Rightarrow> allocate_performance as treasury recs | ADAPTIVE \<Rightarrow> allocate_adaptive as treasury recs mission)"

definition update_balances :: "(string \<times> int) list \<Rightarrow> alloc_world \<Rightarrow> alloc_world" where
  "update_balances d w = w\<lparr>aw_org := (aw_org w)\<lparr>og_agents := map (\<lambda>(k, a). case map_of d k of None \<Rightarrow> (k, a)
       | Some credit \<Rightarrow> (k, a\<lparr>ag_credit_balance := credit\<rparr>)) (og_agents (aw_org w))\<rparr>,
     aw_flagged := aw_flagged w \<union> (fst ` set (og_agents (aw_org w)) \<inter> fst ` set d)\<rparr>"

definition limits_of :: "agent_record list \<Rightarrow> (string \<times> int) list" where
  "limits_of as = dict_of (map (\<lambda>a. (ag_id a, ag_authority_ceiling a)) as)"

definition mk_decision ::
  "env \<Rightarrow> organisation \<Rightarrow> allocation_strategy \<Rightarrow> string option \<Rightarrow> int \<Rightarrow> (string \<times> int) list \<Rightarrow> (string \<times> int) list \<Rightarrow> string \<Rightarrow>
     allocation_decision" where
  "mk_decision E g strategy mission_id treasury d limits why = \<lparr>ad_id = ''alloc-'' @ take 12 (e_uuid E 0),
     ad_tenant_id = og_tenant_id g, ad_organisation_id = og_id g, ad_mission_id = mission_id, ad_strategy = strategy,
     ad_treasury_available = treasury, ad_total_allocated = dict_sum d, ad_allocations = d, ad_authority_limits = limits,
     ad_rationale = why, ad_created_at = e_now E 0\<rparr>"

definition allocate ::
  "env \<Rightarrow> allocation_strategy \<Rightarrow> string option \<Rightarrow> perf_records \<Rightarrow> string option \<Rightarrow> (alloc_world, allocation_decision) act" where
  "allocate E strategy mission_id recs mission w =
     (let g = aw_org w; treasury = max 0 (og_treasury_balance g); as = eligible_agents g; everyone = map snd (og_agents g)
      in if as = [] \<or> treasury = 0
         then (Inr (mk_decision E g strategy mission_id treasury (dict_of (map (\<lambda>a. (ag_id a, 0)) everyone)) (limits_of everyone)
           ''Zero eligible agents or exhausted treasury''), w)
         else case allocate_by strategy as treasury recs mission of (d, why) \<Rightarrow>
           if dict_sum d > treasury then (raise AssertionError ''Conservation violated'', w)
           else (Inr (mk_decision E g strategy mission_id treasury d (limits_of as) why), update_balances d w))"

definition reallocate_budgets :: "env \<Rightarrow> (alloc_world, (string \<times> int) list) act" where
  "reallocate_budgets E = act_bind (allocate E PERFORMANCE None [] None) (\<lambda>d. act_return (ad_allocations d))"

section \<open>assignment.py\<close>

definition infer_required_role :: "string \<Rightarrow> agent_role option" where
  "infer_required_role objective =
     (let m = py_lower objective; has = (\<lambda>ws. \<exists>w \<in> set ws. sublist w m) in
      if has [''research'', ''data'', ''fetch'', ''gather'', ''survey''] then Some Role_RESEARCHER
      else if has [''strategy'', ''synthesize'', ''plan'', ''roadmap'', ''prioritize''] then Some Role_STRATEGIST
      else if has [''finance'', ''financial'', ''treasury'', ''liquidity'', ''yield'', ''budget'', ''cost'']
      then Some Role_FINANCIAL_ANALYST else None)"

definition calculate_fitness :: "agent_record \<Rightarrow> rat" where
  "calculate_fitness a =
     (let fitness = 35/100 * (ag_reputation_score a / 100) + 25/100 * (ag_reliability_score a / 100)
            + 20/100 * clamp 0 1 (ag_resource_efficiency a) + 20/100 * (ag_performance_score a / 100)
      in py_round 4 (case ag_status a of Agent_PROBATION \<Rightarrow> fitness * (8/10) | Agent_RESTRICTED \<Rightarrow> fitness * (5/10) | _ \<Rightarrow> fitness))"

definition is_candidate :: "agent_role option \<Rightarrow> agent_record \<Rightarrow> bool" where
  "is_candidate role a \<longleftrightarrow> can_assign_task a \<and> (case role of None \<Rightarrow> True | Some r \<Rightarrow> ag_role a = r) \<and>
     \<not> (ag_role a = Role_CEO \<and> role \<noteq> Some Role_CEO)"

definition target_role :: "task \<Rightarrow> agent_role option \<Rightarrow> agent_role option" where
  "target_role t required = (case required of Some r \<Rightarrow> Some r | None \<Rightarrow> infer_required_role (tk_objective t))"

definition select_agent_for_task :: "task \<Rightarrow> organisation \<Rightarrow> agent_role option \<Rightarrow> agent_record result" where
  "select_agent_for_task t g required =
     (case sort_key (\<lambda>a. - calculate_fitness a) (sort_key (\<lambda>a. - ag_reputation_score a)
        (filter (is_candidate (target_role t required)) (map snd (og_agents g)))) of
        [] \<Rightarrow> raise NoEligibleAgentException ''No eligible agents found''
      | a # _ \<Rightarrow> Inr a)"

definition tier_allocation :: "agent_record \<Rightarrow> int \<Rightarrow> int \<Rightarrow> int" where
  "tier_allocation a base treasury = (case ag_status a of
       Agent_ACTIVE \<Rightarrow> if ag_reputation_score a \<ge> 85 then min base (min (ag_authority_ceiling a) treasury)
         else min base (min (max 5 (int_trunc (of_int (ag_authority_ceiling a) * (8/10)))) treasury)
     | Agent_PROBATION \<Rightarrow> min base (min (min 10 (ag_authority_ceiling a)) treasury)
     | Agent_RESTRICTED \<Rightarrow> min base (min 5 treasury)
     | _ \<Rightarrow> 0)"

definition determine_credit_allocation :: "task \<Rightarrow> agent_record \<Rightarrow> bool \<Rightarrow> organisation \<Rightarrow> int option \<Rightarrow> int" where
  "determine_credit_allocation t a flagged g requested =
     (let asked = (case requested of Some n \<Rightarrow> n | None \<Rightarrow> tk_allocated_credits t);
          base = (if asked \<le> 0 then min (ag_authority_ceiling a) 20 else asked);
          treasury = max 0 (og_treasury_balance g)
      in if treasury = 0 then 0
         else let n = tier_allocation a base treasury in
           max 0 (if flagged \<or> ag_credit_balance a > 0 then min n (ag_credit_balance a) else n))"

definition assign_and_allocate :: "alloc_world \<Rightarrow> agent_role option \<Rightarrow> int option \<Rightarrow> (task, agent_record \<times> int) act" where
  "assign_and_allocate w required requested t =
     (case select_agent_for_task t (aw_org w) required of
        Inl x \<Rightarrow> (Inl x, t)
      | Inr a \<Rightarrow> let n = determine_credit_allocation t a (ag_id a \<in> aw_flagged w) (aw_org w) requested in
          (Inr (a, n), t\<lparr>tk_assigned_agent_id := Some (ag_id a), tk_allocated_credits := n, tk_status := Task_ASSIGNED\<rparr>))"

end
