(* ===== verification/Budgets.thy ===== *)
theory Budgets
  imports Allocation
begin

text \<open>
  What allocation and assignment guarantee: no credit is created, no agent gets more than its ceiling but for the floors the
  code grants, and a task goes to the first of the fittest candidates.
\<close>

section \<open>Dicts built by assignments\<close>

lemma set_update_subset: "set (AList.update k v d) \<subseteq> insert (k, v) (set d)"
  by (induction d) auto

lemma length_update: "length (AList.update k v d) \<le> Suc (length d)"
  by (induction d) auto

lemma dict_of_snoc: "dict_of (xs @ [p]) = AList.update (fst p) (snd p) (dict_of xs)"
  by (simp add: dict_of_def split_beta)

lemma dict_of_facts: "distinct (map fst (dict_of xs)) \<and> set (dict_of xs) \<subseteq> set xs \<and> length (dict_of xs) \<le> length xs"
proof (induction xs rule: rev_induct)
  case Nil
  then show ?case by (simp add: dict_of_def)
next
  case (snoc p xs)
  then show ?case
    using set_update_subset [of "fst p" "snd p" "dict_of xs"] length_update [of "fst p" "snd p" "dict_of xs"]
    by (auto simp: dict_of_snoc distinct_update)
qed

lemma dict_sum_le: "(\<And>k v. (k, v) \<in> set d \<Longrightarrow> v \<le> s) \<Longrightarrow> dict_sum d \<le> int (length d) * s"
proof (induction d)
  case (Cons p d)
  then have "snd p \<le> s" "dict_sum d \<le> int (length d) * s" by (cases p; auto)+
  then show ?case by (simp add: algebra_simps)
qed simp

lemma dict_get_nonneg: "(\<And>k v. (k, v) \<in> set d \<Longrightarrow> 0 \<le> v) \<Longrightarrow> 0 \<le> dict_get d k (0 :: int)"
  by (auto simp: dict_get_def split: option.split dest: map_of_SomeD)

section \<open>Allocation\<close>

text \<open>What an agent may get under its own id.\<close>

definition within_ceiling :: "agent_record list \<Rightarrow> string \<Rightarrow> int \<Rightarrow> bool" where
  "within_ceiling as i n \<longleftrightarrow> (\<exists>a \<in> set as. ag_id a = i \<and> 0 \<le> n \<and> n \<le> ag_authority_ceiling a)"

lemma share_out_facts:
  assumes "distinct (map fst d)" "dict_sum d \<le> spent" "spent \<le> treasury" "\<And>k v. (k, v) \<in> set d \<Longrightarrow> within_ceiling all k v"
    and "set as \<subseteq> set all" "\<And>a. a \<in> set all \<Longrightarrow> 0 \<le> ag_authority_ceiling a"
  shows "dict_sum (share_out target treasury spent d as) \<le> treasury \<and>
     (\<forall>(k, v) \<in> set (share_out target treasury spent d as). within_ceiling all k v)"
  using assms
proof (induction target treasury spent d as rule: share_out.induct)
  case (1 target treasury spent d)
  then show ?case by auto
next
  case (2 target treasury spent d a as)
  define final where "final = max 0 (min (min (ag_authority_ceiling a) (target a)) (treasury - spent))"
  let ?d = "AList.update (ag_id a) final d"
  have f: "0 \<le> final" "final \<le> treasury - spent" "final \<le> ag_authority_ceiling a"
    using "2.prems"(3,5) "2.prems"(6) [of a] by (auto simp: final_def)
  have "0 \<le> dict_get d (ag_id a) 0"
    by (rule dict_get_nonneg) (use "2.prems"(4) in \<open>fastforce simp: within_ceiling_def\<close>)
  then have sum: "dict_sum ?d \<le> spent + final" using "2.prems"(1,2) by (simp add: dict_sum_update)
  have entries: "within_ceiling all k v" if "(k, v) \<in> set ?d" for k v
    using that set_update_subset [of "ag_id a" final d] f "2.prems"(4,5) by (auto simp: within_ceiling_def)
  have "dict_sum (share_out target treasury (spent + final) ?d as) \<le> treasury \<and>
      (\<forall>(k, v) \<in> set (share_out target treasury (spent + final) ?d as). within_ceiling all k v)"
  proof (rule "2.IH" [OF final_def])
    show "distinct (map fst ?d)" using "2.prems"(1) by (rule distinct_update)
    show "spent + final \<le> treasury" using f by linarith
    show "set as \<subseteq> set all" using "2.prems"(5) by simp
  qed (fact sum entries "2.prems"(6))+
  then show ?case unfolding share_out.simps Let_def final_def .
qed

lemma set_ranked [simp]: "set (ranked weights as) = set as"
  by (simp add: ranked_def)

text \<open>The dictionary of each strategy, with the floor the static one grants restricted agents.\<close>

definition granted :: "allocation_strategy \<Rightarrow> agent_record list \<Rightarrow> string \<Rightarrow> int \<Rightarrow> bool" where
  "granted strategy as i n \<longleftrightarrow> within_ceiling as i n \<or>
     strategy = STATIC \<and> (\<exists>a \<in> set as. ag_id a = i \<and> ag_status a = Agent_RESTRICTED \<and> 0 \<le> n \<and> n \<le> 5)"

lemma static_share_range:
  assumes "0 \<le> share" "0 \<le> ag_authority_ceiling a"
  shows "0 \<le> static_share share a \<and> static_share share a \<le> share \<and>
     (if ag_status a = Agent_RESTRICTED then static_share share a \<le> 5 else static_share share a \<le> ag_authority_ceiling a)"
  using assms by (cases "ag_status a") (simp_all add: static_share_def)

lemma static_facts:
  assumes "as \<noteq> []" "0 \<le> treasury" "\<And>a. a \<in> set as \<Longrightarrow> 0 \<le> ag_authority_ceiling a"
  shows "dict_sum (fst (allocate_static as treasury)) \<le> treasury \<and>
     (\<forall>(k, v) \<in> set (fst (allocate_static as treasury)). granted STATIC as k v)"
proof -
  let ?n = "int (length as)" and ?share = "treasury div int (length as)" and ?d = "fst (allocate_static as treasury)"
  have s: "0 \<le> ?share" using assms(2) by (simp add: div_int_pos_iff)
  have mem: "\<exists>a \<in> set as. k = ag_id a \<and> v = static_share ?share a" if "(k, v) \<in> set ?d" for k v
    using that dict_of_facts [of "map (\<lambda>a. (ag_id a, static_share ?share a)) as"] by (auto simp: allocate_static_def)
  have le: "v \<le> ?share" if "(k, v) \<in> set ?d" for k v
    using mem [OF that] static_share_range [OF s assms(3)] by blast
  have "length ?d \<le> length as"
    using dict_of_facts [of "map (\<lambda>a. (ag_id a, static_share ?share a)) as"] by (simp add: allocate_static_def)
  then have "int (length ?d) * ?share \<le> ?n * ?share" using s by (intro mult_right_mono) auto
  moreover have "?n * ?share \<le> treasury"
  proof -
    have "0 \<le> treasury mod ?n" using assms(1) by simp
    then show ?thesis using minus_mod_eq_mult_div [of treasury ?n] by linarith
  qed
  ultimately have "dict_sum ?d \<le> treasury" using dict_sum_le [of ?d ?share] le by fastforce
  moreover have "granted STATIC as k v" if kv: "(k, v) \<in> set ?d" for k v
  proof -
    obtain a where a: "a \<in> set as" "k = ag_id a" "v = static_share ?share a" using mem [OF kv] by blast
    then show ?thesis using static_share_range [OF s assms(3) [OF a(1)]]
      unfolding granted_def within_ceiling_def by (cases "ag_status a = Agent_RESTRICTED") auto
  qed
  ultimately show ?thesis by auto
qed

lemma allocate_by_facts:
  assumes "as \<noteq> []" "0 \<le> treasury" "\<And>a. a \<in> set as \<Longrightarrow> 0 \<le> ag_authority_ceiling a"
  shows "dict_sum (fst (allocate_by strategy as treasury recs mission)) \<le> treasury \<and>
     (\<forall>(k, v) \<in> set (fst (allocate_by strategy as treasury recs mission)). granted strategy as k v)"
proof -
  have shared: "dict_sum (share_out target treasury 0 [] (ranked ws as)) \<le> treasury \<and>
     (\<forall>(k, v) \<in> set (share_out target treasury 0 [] (ranked ws as)). granted st as k v)" for target ws st
  proof -
    have "dict_sum (share_out target treasury 0 [] (ranked ws as)) \<le> treasury \<and>
       (\<forall>(k, v) \<in> set (share_out target treasury 0 [] (ranked ws as)). within_ceiling as k v)"
      by (rule share_out_facts) (use assms in auto)
    then show ?thesis by (auto simp: granted_def)
  qed
  show ?thesis
  proof (cases strategy)
    case STATIC
    then show ?thesis using static_facts [OF assms] by (simp add: allocate_by_def)
  qed (simp_all add: allocate_by_def allocate_performance_def allocate_adaptive_def Let_def shared)
qed


section \<open>Assignment\<close>

text \<open>The order of the candidates, and the first that no other beats.\<close>

definition fitter :: "agent_record \<Rightarrow> agent_record \<Rightarrow> bool" where
  "fitter b a \<longleftrightarrow> calculate_fitness a < calculate_fitness b \<or>
     calculate_fitness a = calculate_fitness b \<and> ag_reputation_score a < ag_reputation_score b"

lemma find_filter_hd: "find Q xs = (case filter Q xs of [] \<Rightarrow> None | x # _ \<Rightarrow> Some x)"
  by (induction xs) auto

text \<open>The head of a list sorted by two keys, both descending, is its first element with the greatest pair of keys.\<close>

lemma sorted_head:
  fixes f g :: "'a \<Rightarrow> rat"
  assumes "sort_key (\<lambda>a. - f a) (sort_key (\<lambda>a. - g a) xs) = a # rest"
  shows "find (\<lambda>x. \<forall>y \<in> set xs. \<not> (f x < f y \<or> f x = f y \<and> g x < g y)) xs = Some a"
proof -
  let ?ys = "sort_key (\<lambda>a. - g a) xs" and ?best = "\<lambda>x. \<forall>y \<in> set xs. \<not> (f x < f y \<or> f x = f y \<and> g x < g y)"
  have "set (sort_key (\<lambda>a. - f a) ?ys) = set xs" by simp
  then have set: "set xs = insert a (set rest)" using assms by simp
  have "sorted (map (\<lambda>a. - f a) (a # rest))" using assms sorted_sort_key [of "\<lambda>a. - f a" ?ys] by metis
  then have f: "f y \<le> f a" if "y \<in> set xs" for y using that set by auto
  have same: "filter (\<lambda>x. f x = f a) (a # rest) = filter (\<lambda>x. f x = f a) ?ys"
    using sort_key_stable [of "\<lambda>a. - f a" "- f a" ?ys] assms by simp
  have "sorted (map (\<lambda>a. - g a) (filter (\<lambda>x. f x = f a) ?ys))" by (rule sorted_filter) simp
  then have g: "g y \<le> g a" if "y \<in> set xs" "f y = f a" for y
    using that set unfolding same [symmetric] by auto
  have "filter (\<lambda>x. f x = f a) (filter (\<lambda>x. g x = g a) ?ys) = filter (\<lambda>x. f x = f a) (filter (\<lambda>x. g x = g a) xs)"
    using sort_key_stable [of "\<lambda>a. - g a" "- g a" xs] by simp
  then have "filter (\<lambda>x. f x = f a \<and> g x = g a) ?ys = filter (\<lambda>x. f x = f a \<and> g x = g a) xs"
    by (simp add: conj_commute)
  moreover have "filter (\<lambda>x. f x = f a \<and> g x = g a) ?ys = filter (\<lambda>x. g x = g a) (filter (\<lambda>x. f x = f a) (a # rest))"
    unfolding same by (simp add: conj_commute)
  moreover have "filter ?best xs = filter (\<lambda>x. f x = f a \<and> g x = g a) xs"
  proof (rule filter_cong [OF refl])
    fix x assume x: "x \<in> set xs"
    have a: "a \<in> set xs" using set by simp
    show "?best x \<longleftrightarrow> f x = f a \<and> g x = g a"
    proof
      assume best: "?best x"
      then have "\<not> f x < f a" "\<not> (f x = f a \<and> g x < g a)" using a by auto
      then have "f x = f a" using f [OF x] by simp
      then show "f x = f a \<and> g x = g a" using \<open>\<not> (f x = f a \<and> g x < g a)\<close> g [OF x] by simp
    next
      assume eq: "f x = f a \<and> g x = g a"
      show "?best x"
      proof (rule ballI notI)+
        fix y assume y: "y \<in> set xs" and less: "f x < f y \<or> f x = f y \<and> g x < g y"
        then have "f y = f a" using f [OF y] eq by auto
        then show False using less eq g [OF y] by auto
      qed
    qed
  qed
  ultimately have "filter ?best xs = a # filter (\<lambda>x. g x = g a) (filter (\<lambda>x. f x = f a) rest)" by simp
  then show ?thesis by (simp add: find_filter_hd)
qed

lemma reduced_ceiling: "max 5 (int_trunc (of_int c * (8/10))) \<le> max 5 c"
proof -
  have "int_trunc (of_int c * (8/10)) \<le> c" if "0 \<le> c"
  proof -
    have "of_int c * (8/10) \<le> (of_int c :: rat)" using that by simp
    then have "\<lfloor>of_int c * (8/10) :: rat\<rfloor> \<le> c" using floor_mono [of "of_int c * (8/10) :: rat" "of_int c"] by simp
    then show ?thesis using that by (simp add: int_trunc_def)
  qed
  moreover have "int_trunc (of_int c * (8/10)) \<le> 0" if "c < 0"
    using that by (auto simp: int_trunc_def ceiling_le_iff)
  ultimately show ?thesis by (cases "0 \<le> c") (auto simp: max_def)
qed

lemma tier_allocation_range:
  "tier_allocation a base treasury \<le> max 0 treasury \<and> tier_allocation a base treasury \<le> max 5 (ag_authority_ceiling a)"
  using reduced_ceiling [of "ag_authority_ceiling a"] by (cases "ag_status a") (auto simp: tier_allocation_def min_def max_def)

lemma credit_allocation_range:
  "0 \<le> determine_credit_allocation t a flagged g requested \<and>
   determine_credit_allocation t a flagged g requested \<le> max 0 (og_treasury_balance g) \<and>
   determine_credit_allocation t a flagged g requested \<le> max 5 (ag_authority_ceiling a) \<and>
   (flagged \<longrightarrow> determine_credit_allocation t a flagged g requested \<le> max 0 (ag_credit_balance a))"
proof -
  define n where "n = tier_allocation a (let asked = (case requested of Some n \<Rightarrow> n | None \<Rightarrow> tk_allocated_credits t) in
    if asked \<le> 0 then min (ag_authority_ceiling a) 20 else asked) (max 0 (og_treasury_balance g))"
  have n: "n \<le> max 0 (og_treasury_balance g)" "n \<le> max 5 (ag_authority_ceiling a)"
    using tier_allocation_range [of a _ "max 0 (og_treasury_balance g)"] by (auto simp: n_def)
  have "determine_credit_allocation t a flagged g requested = (if max 0 (og_treasury_balance g) = 0 then 0
      else max 0 (if flagged \<or> ag_credit_balance a > 0 then min n (ag_credit_balance a) else n))"
    by (simp add: determine_credit_allocation_def n_def Let_def)
  then show ?thesis using n by (auto simp: min_def max_def)
qed


section \<open>On the demonstration organisation\<close>

definition demo_researcher :: "string \<Rightarrow> rat \<Rightarrow> agent_record" where
  "demo_researcher i rep = demo_agent\<lparr>ag_id := i, ag_role := Role_RESEARCHER, ag_reputation_score := rep\<rparr>"

definition demo_alloc :: alloc_world where
  "demo_alloc = \<lparr>aw_org = demo_org\<lparr>og_agents := [(''r1'', demo_researcher ''r1'' 80), (''r2'', demo_researcher ''r2'' 100)]\<rparr>,
     aw_flagged = {}\<rparr>"


lemma demo_candidates:
  "filter (is_candidate (target_role demo_task None)) (map snd (og_agents (aw_org demo_alloc))) =
     [demo_researcher ''r1'' 80, demo_researcher ''r2'' 100]"
  by code_simp

lemma demo_fitter: "fitter (demo_researcher ''r2'' 100) (demo_researcher ''r1'' 80)"
    "\<not> fitter (demo_researcher ''r1'' 80) (demo_researcher ''r2'' 100)"
  by code_simp+


end
