(* ===== verification/Bytes.thy ===== *)
theory Bytes
  imports Python
begin

text \<open>
  Bytes and base 16, as the chain code uses them: \<open>b.hex()\<close>, \<open>bytes.fromhex(s)\<close>, \<open>hex(n)\<close>, \<open>int(s, 16)\<close>,
  and iteration over an untyped value.  A byte string is a character list.
\<close>

definition hex_digit :: "nat \<Rightarrow> char" where
  "hex_digit n = char_of (if n < 10 then 48 + n else 87 + n)"

definition hex_value :: "char \<Rightarrow> nat option" where
  "hex_value c = (let n = of_char c :: nat in
     if 48 \<le> n \<and> n \<le> 57 then Some (n - 48)
     else if 65 \<le> n \<and> n \<le> 70 then Some (n - 55)
     else if 97 \<le> n \<and> n \<le> 102 then Some (n - 87) else None)"

lemma of_char_small: "n < 256 \<Longrightarrow> (of_char (char_of n :: char) :: nat) = n"
  by (simp add: of_char_of)

lemma hex_value_digit [simp]: "n < 16 \<Longrightarrow> hex_value (hex_digit n) = Some n"
  by (auto simp: hex_value_def hex_digit_def Let_def of_char_small)

text \<open>\<open>b.hex()\<close> and \<open>bytes.fromhex(s)\<close>, which skips spaces between bytes.\<close>

definition byte_hex :: "char \<Rightarrow> string" where
  "byte_hex c = (let n = of_char c :: nat in [hex_digit (n div 16), hex_digit (n mod 16)])"

definition bytes_hex :: "string \<Rightarrow> string" where
  "bytes_hex bs = concat (map byte_hex bs)"

definition hex_space :: "char \<Rightarrow> bool" where
  "hex_space c = (let n = of_char c :: nat in (9 \<le> n \<and> n \<le> 13) \<or> n = 32)"

fun bytes_fromhex :: "string \<Rightarrow> string result" where
  "bytes_fromhex [] = Inr []"
| "bytes_fromhex [c] = (if hex_space c then Inr [] else raise ValueError ''non-hexadecimal number found in fromhex() arg'')"
| "bytes_fromhex (c # d # s) =
     (if hex_space c then bytes_fromhex (d # s)
      else case (hex_value c, hex_value d) of
        (Some m, Some n) \<Rightarrow> bind_result (bytes_fromhex s) (\<lambda>bs. Inr (char_of (16 * m + n) # bs))
      | _ \<Rightarrow> raise ValueError ''non-hexadecimal number found in fromhex() arg'')"

lemma hex_digit_not_space: "n < 16 \<Longrightarrow> \<not> hex_space (hex_digit n)"
  by (auto simp: hex_space_def hex_digit_def Let_def of_char_small)

lemma bytes_fromhex_hex [simp]: "bytes_fromhex (bytes_hex bs) = Inr bs"
proof (induction bs)
  case (Cons c bs)
  have "(of_char c :: nat) < 256" by (rule nat_of_char_less_256)
  then have d: "(of_char c :: nat) div 16 < 16" by linarith
  have "16 * (of_char c div 16) + of_char c mod 16 = (of_char c :: nat)" by simp
  then show ?case using Cons d by (simp add: bytes_hex_def byte_hex_def Let_def hex_digit_not_space)
qed (simp add: bytes_hex_def)

text \<open>\<open>hex(n)\<close>.\<close>

fun hex_nat :: "nat \<Rightarrow> string" where
  "hex_nat n = (if n < 16 then [hex_digit n] else hex_nat (n div 16) @ [hex_digit (n mod 16)])"

declare hex_nat.simps [simp del]

definition py_hex :: "int \<Rightarrow> string" where
  "py_hex n = (if n < 0 then ''-0x'' @ hex_nat (nat (- n)) else ''0x'' @ hex_nat (nat n))"

text \<open>\<open>int(s, 16)\<close>: a sign, a \<open>0x\<close> prefix that an underscore may follow, digits with single underscores between.\<close>

fun parse_hex :: "int option \<Rightarrow> string \<Rightarrow> int option" where
  "parse_hex acc [] = acc"
| "parse_hex acc (c # cs) =
     (case hex_value c of
        Some d \<Rightarrow> parse_hex (Some ((case acc of None \<Rightarrow> 0 | Some a \<Rightarrow> a) * 16 + int d)) cs
      | None \<Rightarrow> if c = CHR ''_'' \<and> acc \<noteq> None \<and> cs \<noteq> [] \<and> hex_value (hd cs) \<noteq> None then parse_hex acc cs else None)"

definition drop_hex_prefix :: "string \<Rightarrow> string" where
  "drop_hex_prefix s = (if prefix ''0x'' s \<or> prefix ''0X'' s
     then (if prefix ''_'' (drop 2 s) then drop 3 s else drop 2 s) else s)"

definition int_of_hex :: "string \<Rightarrow> int option" where
  "int_of_hex s = (case py_strip s of
       [] \<Rightarrow> None
     | c # cs \<Rightarrow> if c = CHR ''-'' then map_option uminus (parse_hex None (drop_hex_prefix cs))
                else if c = CHR ''+'' then parse_hex None (drop_hex_prefix cs)
                else parse_hex None (drop_hex_prefix (c # cs)))"

definition py_int16 :: "json \<Rightarrow> int result" where
  "py_int16 v = (case v of
       JStr s \<Rightarrow> (case int_of_hex s of Some n \<Rightarrow> Inr n | None \<Rightarrow> raise ValueError ''invalid literal for int() with base 16'')
     | _ \<Rightarrow> raise TypeError ''int() cannot convert non-string with explicit base'')"

text \<open>What is printed in base 16 is read back.\<close>

lemma parse_hex_append:
  "parse_hex acc xs = Some a \<Longrightarrow> n < 16 \<Longrightarrow> parse_hex acc (xs @ [hex_digit n]) = Some (a * 16 + int n)"
proof (induction acc xs rule: parse_hex.induct)
  case (2 acc c cs)
  then show ?case by (cases "hex_value c"; cases cs) (auto split: if_splits)
qed simp

lemma parse_hex_nat: "parse_hex None (hex_nat n) = Some (int n)"
proof (induction n rule: hex_nat.induct)
  case (1 n)
  show ?case
  proof (cases "n < 16")
    case True
    then show ?thesis by (simp add: hex_nat.simps)
  next
    case False
    have "int (n div 16) * 16 + int (n mod 16) = int n" by (simp add: zdiv_int zmod_int)
    then show ?thesis using False parse_hex_append [OF 1 [OF False], of "n mod 16"] by (simp add: hex_nat.simps [of n])
  qed
qed

text \<open>\<open>for x in v\<close> over an untyped value, and \<open>v.get(k)\<close>.\<close>

fun iter_json :: "json \<Rightarrow> json list result" where
  "iter_json (JList xs) = Inr xs"
| "iter_json (JStr s) = Inr (map (\<lambda>c. JStr [c]) s)"
| "iter_json (JObj d) = Inr (map (JStr \<circ> fst) d)"
| "iter_json _ = raise TypeError ''object is not iterable''"

fun obj_get :: "json \<Rightarrow> string \<Rightarrow> json result" where
  "obj_get (JObj d) k = Inr (param_get d k)"
| "obj_get _ k = raise AttributeError ''object has no attribute get''"

fun json_lower :: "json \<Rightarrow> string result" where
  "json_lower (JStr s) = Inr (py_lower s)"
| "json_lower _ = raise AttributeError ''object has no attribute lower''"

text \<open>\<open>str(v)\<close>: a string is itself.\<close>

definition py_text :: "prims \<Rightarrow> json \<Rightarrow> string" where
  "py_text P v = (case v of JStr s \<Rightarrow> s | _ \<Rightarrow> py_str P v)"

end
