(* ===== verification/Chain.thy ===== *)
theory Chain
  imports Bytes Exchange
begin

text \<open>
  The chain client: the nonce manager, the settlement provider and the signers of \<open>src/settlement/blockchain/\<close>, the
  receipt evidence of \<open>src/domain/blockchain.py\<close>, the execution authority of \<open>src/execution/authority.py\<close>.  Keccak, address
  checksums, ABI encoding and signature recovery (\<open>eth_hash\<close>, \<open>eth_abi\<close>, \<open>eth_account\<close>, \<open>web3\<close>) are parameters,
  and so is the node behind the RPC interface.
\<close>

record eth_lib =
  el_keccak :: "string \<Rightarrow> string"
  el_checksum :: "string \<Rightarrow> string"
  el_encode_uint256 :: "int \<Rightarrow> string result"
  el_recover :: "string \<Rightarrow> string result"

section \<open>nonce\_manager.py\<close>

record nonce_manager =
  nm_next_nonces :: "((string \<times> int) \<times> int) list"
  nm_assigned_nonces :: "((string \<times> string) \<times> int) list"

definition new_nonce_manager :: nonce_manager where
  "new_nonce_manager = \<lparr>nm_next_nonces = [], nm_assigned_nonces = []\<rparr>"

definition account_key :: "string \<Rightarrow> int \<Rightarrow> string \<times> int" where
  "account_key sender chain = (py_lower (py_strip sender), chain)"

text \<open>The node is asked only for an operation that has no nonce yet; it may raise.\<close>

definition get_or_allocate_nonce ::
  "string \<Rightarrow> int \<Rightarrow> string \<Rightarrow> string \<Rightarrow> ('c, int) act \<Rightarrow> (nonce_manager \<times> 'c, int) act" where
  "get_or_allocate_nonce sender chain operation_id key fetch = (\<lambda>(N, c).
     case map_of (nm_assigned_nonces N) (operation_id, key) of
       Some n \<Rightarrow> (Inr n, N, c)
     | None \<Rightarrow> (case fetch c of
           (Inl x, c') \<Rightarrow> (Inl x, N, c')
         | (Inr on_chain, c') \<Rightarrow>
             let n = max on_chain (dict_get (nm_next_nonces N) (account_key sender chain) 0) in
             (Inr n, N\<lparr>nm_assigned_nonces := AList.update (operation_id, key) n (nm_assigned_nonces N),
                       nm_next_nonces := AList.update (account_key sender chain) (n + 1) (nm_next_nonces N)\<rparr>, c')))"

definition peek_assigned_nonce :: "nonce_manager \<Rightarrow> string \<Rightarrow> string \<Rightarrow> int option" where
  "peek_assigned_nonce N operation_id key = map_of (nm_assigned_nonces N) (operation_id, key)"

definition reset_for_account :: "nonce_manager \<Rightarrow> string \<Rightarrow> int \<Rightarrow> nonce_manager" where
  "reset_for_account N sender chain = N\<lparr>nm_next_nonces := AList.delete (account_key sender chain) (nm_next_nonces N)\<rparr>"

section \<open>signer.py and authority.py\<close>

text \<open>\<open>IBlockchainSigner\<close>: the address, and the signature of an intent with a nonce: raw bytes and transaction hash.\<close>

record signer_ops =
  sg_address :: string
  sg_sign :: "blockchain_intent \<Rightarrow> int \<Rightarrow> (string \<times> string) result"

record chain_tx =
  tx_chain_id :: int
  tx_nonce :: int
  tx_max_fee_per_gas :: int
  tx_max_priority_fee_per_gas :: int
  tx_gas :: int
  tx_to :: string
  tx_value :: int
  tx_data :: string

definition hex0x :: "string \<Rightarrow> string" where
  "hex0x h = py_lower (if prefix ''0x'' h then h else ''0x'' @ h)"

text \<open>
  The local signer: \<open>account\<close> gives the address of a key and \<open>sign\<close> the raw transaction and its hash in hex
  (\<open>Account\<close> of \<open>eth_account\<close>).
\<close>

definition local_key :: "string \<Rightarrow> string result" where
  "local_key private_key = (let k = py_strip private_key; c = (if prefix ''0x'' k then k else ''0x'' @ k) in
     if length c \<noteq> 66 \<or> \<not> hex_pattern 64 c then raise ValueError ''Invalid private key: must be a 32-byte hex string''
     else Inr c)"

definition local_tx :: "eth_lib \<Rightarrow> blockchain_intent \<Rightarrow> int \<Rightarrow> chain_tx result" where
  "local_tx H b nonce =
     bind_result (bytes_fromhex (if prefix ''0x'' (bi_data_payload b) then drop 2 (bi_data_payload b) else bi_data_payload b))
       (\<lambda>calldata. Inr \<lparr>tx_chain_id = bi_chain_id b, tx_nonce = nonce, tx_max_fee_per_gas = bi_max_fee_per_gas b,
          tx_max_priority_fee_per_gas = bi_max_priority_fee_per_gas b, tx_gas = bi_gas_limit b,
          tx_to = el_checksum H (bi_recipient b), tx_value = bi_amount_wei b, tx_data = calldata\<rparr>)"

definition local_signer ::
  "eth_lib \<Rightarrow> (string \<Rightarrow> string) \<Rightarrow> (chain_tx \<Rightarrow> string \<Rightarrow> (string \<times> string) result) \<Rightarrow> string \<Rightarrow> signer_ops result" where
  "local_signer H account sign private_key = bind_result (local_key private_key) (\<lambda>key. Inr
     \<lparr>sg_address = el_checksum H (account key),
      sg_sign = (\<lambda>b nonce. bind_result (local_tx H b nonce) (\<lambda>tx. bind_result (sign tx key) (\<lambda>(raw, h). Inr (raw, hex0x h))))\<rparr>)"

text \<open>
  The external signer returns a transaction that was signed elsewhere: set before, or obtained from the prompt, which
  is given the payload.  Only the recovered sender is compared.
\<close>

record external_signer =
  xs_address :: string
  xs_signed_raw_tx_hex :: "string option"
  xs_prompt_callback :: "(chain_tx \<Rightarrow> string result) option"

definition mk_external_signer ::
  "eth_lib \<Rightarrow> string \<Rightarrow> string option \<Rightarrow> (chain_tx \<Rightarrow> string result) option \<Rightarrow> external_signer result" where
  "mk_external_signer H address signed prompt = (let a = py_strip address in
     if \<not> ETH_ADDRESS_PATTERN a then raise ValueError ''Invalid Ethereum address''
     else Inr \<lparr>xs_address = el_checksum H a, xs_signed_raw_tx_hex = (if py_truthy signed then map_option py_strip signed else None),
       xs_prompt_callback = prompt\<rparr>)"

definition set_signed_raw_tx_hex :: "external_signer \<Rightarrow> string \<Rightarrow> external_signer" where
  "set_signed_raw_tx_hex S raw = S\<lparr>xs_signed_raw_tx_hex := Some (py_strip raw)\<rparr>"

text \<open>The payload shown to the wallet; its data is hex text.\<close>

definition build_transaction_payload :: "eth_lib \<Rightarrow> blockchain_intent \<Rightarrow> int \<Rightarrow> chain_tx result" where
  "build_transaction_payload H b nonce =
     (if bi_recipient b = [] then raise ValueError ''Intent missing required recipient / credit_contract address''
      else Inr \<lparr>tx_chain_id = bi_chain_id b, tx_nonce = nonce, tx_max_fee_per_gas = bi_max_fee_per_gas b,
        tx_max_priority_fee_per_gas = bi_max_priority_fee_per_gas b, tx_gas = bi_gas_limit b,
        tx_to = el_checksum H (bi_recipient b), tx_value = bi_amount_wei b,
        tx_data = (if prefix ''0x'' (bi_data_payload b) then bi_data_payload b else ''0x'' @ bi_data_payload b)\<rparr>)"

definition external_raw_hex :: "eth_lib \<Rightarrow> external_signer \<Rightarrow> blockchain_intent \<Rightarrow> int \<Rightarrow> string result" where
  "external_raw_hex H S b nonce =
     (if py_truthy (xs_signed_raw_tx_hex S) then Inr (the (xs_signed_raw_tx_hex S))
      else bind_result (build_transaction_payload H b nonce) (\<lambda>tx.
        bind_result (case xs_prompt_callback S of None \<Rightarrow> Inr [] | Some prompt \<Rightarrow> prompt tx) (\<lambda>raw.
          if raw = [] then raise ValueError ''External signature required for operator'' else Inr raw)))"

definition external_sign :: "eth_lib \<Rightarrow> external_signer \<Rightarrow> blockchain_intent \<Rightarrow> int \<Rightarrow> (string \<times> string) result" where
  "external_sign H S b nonce =
     bind_result (external_raw_hex H S b nonce) (\<lambda>hex.
       let clean = py_strip hex in
       bind_result (bytes_fromhex (if prefix ''0x'' clean then drop 2 clean else clean)) (\<lambda>raw.
         case el_recover H raw of
           Inl x \<Rightarrow> raise ValueError ''Failed to recover signer from provided raw transaction''
         | Inr sender \<Rightarrow>
             if py_lower sender \<noteq> py_lower (xs_address S)
             then raise ValueError ''Signer address mismatch''
             else Inr (raw, hex0x (bytes_hex (el_keccak H raw)))))"

definition external_signer_ops :: "eth_lib \<Rightarrow> external_signer \<Rightarrow> signer_ops" where
  "external_signer_ops H S = \<lparr>sg_address = xs_address S, sg_sign = external_sign H S\<rparr>"

record execution_authority =
  ea_authority_id :: string
  ea_tenant_id :: string
  ea_organisation_id :: string
  ea_signer :: signer_ops
  ea_provider :: string

definition assert_scope :: "execution_authority \<Rightarrow> string \<Rightarrow> string \<Rightarrow> unit result" where
  "assert_scope A tenant org =
     (if tenant \<noteq> ea_tenant_id A then raise PermissionError ''Execution authority tenant boundary violation''
      else if org \<noteq> ea_organisation_id A then raise PermissionError ''Execution authority organisation boundary violation''
      else Inr ())"

definition authority_sign :: "execution_authority \<Rightarrow> blockchain_intent \<Rightarrow> int \<Rightarrow> (string \<times> string) result" where
  "authority_sign A b nonce =
     bind_result (assert_scope A (bi_tenant_id b) (bi_organisation_id b)) (\<lambda>_. sg_sign (ea_signer A) b nonce)"

definition authority_describe :: "execution_authority \<Rightarrow> json" where
  "authority_describe A = JObj [(''authority_id'', JStr (ea_authority_id A)), (''tenant_id'', JStr (ea_tenant_id A)),
     (''organisation_id'', JStr (ea_organisation_id A)), (''provider'', JStr (ea_provider A)),
     (''wallet_address'', JStr (sg_address (ea_signer A)))]"

end
