(* ===== verification/Activation.thy ===== *)
theory Activation
  imports Chain
begin

text \<open>
  Activation of held Orbio credits: the typed intent (\<open>src/domain/orbio_activation.py\<close>), its policy with human approvals
  (\<open>src/governance/orbio_activation_rules.py\<close>), the bridge to operations (\<open>src/execution/orbio_activation.py\<close>), the runtime
  guard and the read-only preflight (\<open>src/settlement/orbio_activation_runtime.py\<close>, \<open>orbio_activation_preflight.py\<close>).
\<close>

section \<open>orbio\_activation.py\<close>

definition ORBIO_ACTIVATION_CHAIN_ID :: int where "ORBIO_ACTIVATION_CHAIN_ID = 4663"
definition ORBIO_ACTIVATION_NETWORK :: string where "ORBIO_ACTIVATION_NETWORK = ''robinhood-mainnet''"
definition ORBIO_CREDIT_ACTIVATION_CONTRACT :: string where
  "ORBIO_CREDIT_ACTIVATION_CONTRACT = py_lower ORBIO_CREDIT_MAINNET"
definition MAX_ACTIVATION_AMOUNT :: int where "MAX_ACTIVATION_AMOUNT = 1000000"
definition ACTIVATE_SIGNATURE :: string where "ACTIVATE_SIGNATURE = ''activate(uint256)''"

definition ACTIVATE_SELECTOR :: "eth_lib \<Rightarrow> string" where
  "ACTIVATE_SELECTOR H = take 4 (el_keccak H ''activate(uint256)'')"
definition ACTIVATED_EVENT_TOPIC0 :: "eth_lib \<Rightarrow> string" where
  "ACTIVATED_EVENT_TOPIC0 H = ''0x'' @ bytes_hex (el_keccak H ''Activated(uint256,address,bytes32,uint256)'')"
definition ACTIVATION_FEE_EVENT_TOPIC0 :: "eth_lib \<Rightarrow> string" where
  "ACTIVATION_FEE_EVENT_TOPIC0 H = ''0x'' @ bytes_hex (el_keccak H ''ActivationFeeCharged(uint256,uint256)'')"

definition encode_activate_calldata :: "eth_lib \<Rightarrow> int \<Rightarrow> string result" where
  "encode_activate_calldata H amount =
     (if amount < 0 then raise ValueError ''activation amount must be non-negative''
      else bind_result (el_encode_uint256 H amount) (\<lambda>args. Inr (''0x'' @ bytes_hex (ACTIVATE_SELECTOR H @ args))))"

record activation_intent =
  ai_tenant_id :: string
  ai_organisation_id :: string
  ai_mission_id :: "string option"
  ai_operation_id :: string
  ai_chain_id :: int
  ai_network :: string
  ai_credit_contract :: string
  ai_amount :: int
  ai_beneficiary :: "string option"
  ai_max_fee_per_gas :: int
  ai_max_priority_fee_per_gas :: int
  ai_gas_limit :: int
  ai_amount_credits :: int
  ai_idempotency_key :: string
  ai_policy_decision_id :: string
  ai_authorization_token_hash :: string
  ai_deadline :: "int option"
  ai_created_at :: string

definition mk_activation_intent :: "activation_intent \<Rightarrow> activation_intent result" where
  "mk_activation_intent i =
     (let c = py_clean (ai_credit_contract i) in
      if ai_amount i < 1 \<or> ai_max_fee_per_gas i < 0 \<or> ai_max_priority_fee_per_gas i < 0 \<or> ai_gas_limit i < 21000 \<or>
         ai_amount_credits i < 0
      then raise ValidationError ''a field is below its minimum''
      else if \<not> ETH_ADDRESS_PATTERN c then raise ValidationError ''Invalid CREDIT contract address''
      else Inr (i\<lparr>ai_credit_contract := c\<rparr>))"

definition encode_activation :: "eth_lib \<Rightarrow> activation_intent \<Rightarrow> string result" where
  "encode_activation H i = encode_activate_calldata H (ai_amount i)"

definition compute_activation_intent_hash :: "prims \<Rightarrow> activation_intent \<Rightarrow> string" where
  "compute_activation_intent_hash P i = sha256 P (canonical_json P (JObj
     [(''tenant_id'', JStr (ai_tenant_id i)), (''organisation_id'', JStr (ai_organisation_id i)),
      (''mission_id'', opt_json (ai_mission_id i)), (''operation_id'', JStr (ai_operation_id i)),
      (''chain_id'', JInt (ai_chain_id i)), (''network'', JStr (ai_network i)),
      (''credit_contract'', JStr (ai_credit_contract i)), (''amount'', JInt (ai_amount i)),
      (''beneficiary'', opt_json (ai_beneficiary i)), (''max_fee_per_gas'', JInt (ai_max_fee_per_gas i)),
      (''max_priority_fee_per_gas'', JInt (ai_max_priority_fee_per_gas i)), (''gas_limit'', JInt (ai_gas_limit i)),
      (''amount_credits'', JInt (ai_amount_credits i)), (''idempotency_key'', JStr (ai_idempotency_key i)),
      (''policy_decision_id'', JStr (ai_policy_decision_id i)),
      (''authorization_token_hash'', JStr (ai_authorization_token_hash i)),
      (''deadline'', (case ai_deadline i of None \<Rightarrow> JNull | Some n \<Rightarrow> JInt n)),
      (''function'', JStr ACTIVATE_SIGNATURE)]))"

definition activation_to_blockchain_intent :: "eth_lib \<Rightarrow> activation_intent \<Rightarrow> blockchain_intent result" where
  "activation_to_blockchain_intent H i = bind_result (encode_activation H i) (\<lambda>calldata. mk_blockchain_intent
     \<lparr>bi_tenant_id = ai_tenant_id i, bi_organisation_id = ai_organisation_id i, bi_mission_id = ai_mission_id i,
      bi_operation_id = ai_operation_id i, bi_chain_id = ai_chain_id i, bi_network = ai_network i,
      bi_recipient = ai_credit_contract i, bi_amount_wei = 0, bi_amount_credits = ai_amount_credits i,
      bi_asset = ''ORBIO_CREDIT'', bi_token_contract = Some (ai_credit_contract i), bi_transaction_type = 2,
      bi_max_fee_per_gas = ai_max_fee_per_gas i, bi_max_priority_fee_per_gas = ai_max_priority_fee_per_gas i,
      bi_gas_limit = ai_gas_limit i, bi_data_payload = calldata, bi_idempotency_key = ai_idempotency_key i,
      bi_policy_decision_id = ai_policy_decision_id i, bi_authorization_token_hash = ai_authorization_token_hash i,
      bi_created_at = ai_created_at i\<rparr>)"

definition to_operation_parameters ::
  "prims \<Rightarrow> eth_lib \<Rightarrow> activation_intent \<Rightarrow> (string \<times> json) list result" where
  "to_operation_parameters P H i = bind_result (encode_activation H i) (\<lambda>calldata. Inr
     [(''recipient'', JStr (ai_credit_contract i)), (''amount_wei'', JInt 0), (''chain_id'', JInt (ai_chain_id i)),
      (''network'', JStr (ai_network i)), (''data_payload'', JStr calldata),
      (''token_contract'', JStr (ai_credit_contract i)), (''asset'', JStr ''ORBIO_CREDIT''),
      (''max_fee_per_gas'', JInt (ai_max_fee_per_gas i)),
      (''max_priority_fee_per_gas'', JInt (ai_max_priority_fee_per_gas i)), (''gas_limit'', JInt (ai_gas_limit i)),
      (''mission_id'', opt_json (ai_mission_id i)), (''authorization_token'', JStr (ai_authorization_token_hash i)),
      (''activation_intent_hash'', JStr (compute_activation_intent_hash P i)), (''activation_amount'', JInt (ai_amount i)),
      (''credit_contract'', JStr (ai_credit_contract i)), (''function'', JStr ACTIVATE_SIGNATURE),
      (''orbio_action'', JStr ''credit_activate'')])"

section \<open>orbio\_activation\_rules.py\<close>

datatype activation_result = Activation_ALLOW | Activation_DENY | Activation_HUMAN_CONFIRMATION_REQUIRED

datatype activation_code =
  A_UNAUTHORIZED_NETWORK | A_UNAUTHORIZED_CONTRACT | A_AMOUNT_EXCEEDS_CEILING | A_AMOUNT_INVALID | A_GAS_BOUND_EXCEEDED
  | A_DEADLINE_EXPIRED | A_MISSING_HUMAN_APPROVAL | A_HUMAN_APPROVAL_INTENT_MISMATCH | A_HUMAN_APPROVAL_EXPIRED
  | A_HUMAN_APPROVAL_TENANT_MISMATCH | A_HUMAN_APPROVAL_REVOKED | A_TESTNET_FORBIDDEN | A_SIMULATION_FORBIDDEN

fun activation_result_value :: "activation_result \<Rightarrow> string" where
  "activation_result_value Activation_ALLOW = ''ALLOW''"
| "activation_result_value Activation_DENY = ''DENY''"
| "activation_result_value Activation_HUMAN_CONFIRMATION_REQUIRED = ''HUMAN_CONFIRMATION_REQUIRED''"

fun activation_code_value :: "activation_code \<Rightarrow> string" where
  "activation_code_value A_UNAUTHORIZED_NETWORK = ''UNAUTHORIZED_NETWORK''"
| "activation_code_value A_UNAUTHORIZED_CONTRACT = ''UNAUTHORIZED_CONTRACT''"
| "activation_code_value A_AMOUNT_EXCEEDS_CEILING = ''AMOUNT_EXCEEDS_CEILING''"
| "activation_code_value A_AMOUNT_INVALID = ''AMOUNT_INVALID''"
| "activation_code_value A_GAS_BOUND_EXCEEDED = ''GAS_BOUND_EXCEEDED''"
| "activation_code_value A_DEADLINE_EXPIRED = ''DEADLINE_EXPIRED''"
| "activation_code_value A_MISSING_HUMAN_APPROVAL = ''MISSING_HUMAN_APPROVAL''"
| "activation_code_value A_HUMAN_APPROVAL_INTENT_MISMATCH = ''HUMAN_APPROVAL_INTENT_MISMATCH''"
| "activation_code_value A_HUMAN_APPROVAL_EXPIRED = ''HUMAN_APPROVAL_EXPIRED''"
| "activation_code_value A_HUMAN_APPROVAL_TENANT_MISMATCH = ''HUMAN_APPROVAL_TENANT_MISMATCH''"
| "activation_code_value A_HUMAN_APPROVAL_REVOKED = ''HUMAN_APPROVAL_REVOKED''"
| "activation_code_value A_TESTNET_FORBIDDEN = ''TESTNET_FORBIDDEN''"
| "activation_code_value A_SIMULATION_FORBIDDEN = ''SIMULATION_FORBIDDEN''"

record activation_decision =
  ad_result :: activation_result
  ad_policy_version :: string
  ad_intent_hash :: string
  ad_reasons :: "string list"
  ad_denial_codes :: "activation_code list"
  ad_evaluated_at :: string
  ad_decision_id :: string
  ad_requires_human_confirmation :: bool
  ad_max_activation_amount :: int

definition activation_decision_audit :: "activation_decision \<Rightarrow> json" where
  "activation_decision_audit d = JObj
     [(''decision_id'', JStr (ad_decision_id d)), (''result'', JStr (activation_result_value (ad_result d))),
      (''policy_id'', JStr ''POLICY-ORBIO-ACTIVATION-01''), (''policy_version'', JStr (ad_policy_version d)),
      (''intent_hash'', JStr (ad_intent_hash d)), (''reasons'', JList (map JStr (ad_reasons d))),
      (''denial_codes'', JList (map (JStr \<circ> activation_code_value) (ad_denial_codes d))),
      (''requires_human_confirmation'', JBool (ad_requires_human_confirmation d)),
      (''max_activation_amount'', JInt (ad_max_activation_amount d)), (''evaluated_at'', JStr (ad_evaluated_at d))]"

record activation_approval =
  aa_approval_id :: string
  aa_intent_hash :: string
  aa_tenant_id :: string
  aa_organisation_id :: string
  aa_operator_id :: string
  aa_chain_id :: int
  aa_credit_contract :: string
  aa_activation_amount :: int
  aa_issued_at :: rat
  aa_expires_at :: rat
  aa_notes :: "string option"
  aa_issuance_token :: "string option"

type_synonym activation_denial = "(activation_code \<times> string) option"

text \<open>\<open>is_valid_for\<close>: the reason against the approval.\<close>

definition activation_approval_refusal ::
  "prims \<Rightarrow> activation_approval \<Rightarrow> activation_intent \<Rightarrow> rat \<Rightarrow> activation_denial" where
  "activation_approval_refusal P a i now =
     (if now > aa_expires_at a then Some (A_HUMAN_APPROVAL_EXPIRED, ''Human approval expired'')
      else if aa_intent_hash a \<noteq> compute_activation_intent_hash P i
      then Some (A_HUMAN_APPROVAL_INTENT_MISMATCH, ''Human approval intent hash does not match activation intent'')
      else if aa_tenant_id a \<noteq> ai_tenant_id i \<or> aa_organisation_id a \<noteq> ai_organisation_id i
      then Some (A_HUMAN_APPROVAL_TENANT_MISMATCH, ''Human approval tenant/organisation mismatch'')
      else if aa_chain_id a \<noteq> ai_chain_id i
      then Some (A_HUMAN_APPROVAL_INTENT_MISMATCH, ''Human approval chain_id mismatch'')
      else if py_lower (aa_credit_contract a) \<noteq> py_lower (ai_credit_contract i)
      then Some (A_HUMAN_APPROVAL_INTENT_MISMATCH, ''Human approval credit_contract mismatch'')
      else if aa_activation_amount a \<noteq> ai_amount i
      then Some (A_HUMAN_APPROVAL_INTENT_MISMATCH, ''Human approval activation_amount mismatch'') else None)"

record activation_policy =
  ap_max_activation_amount :: int
  ap_allowed_chain_id :: int
  ap_allowed_network :: string
  ap_allowed_credit_contract :: string
  ap_max_fee_per_gas :: int
  ap_max_priority_fee_per_gas :: int
  ap_max_gas_limit :: int
  ap_require_human_approval :: bool
  ap_human_approval_ttl_seconds :: rat
  ap_forbid_testnet :: bool
  ap_forbid_simulation :: bool
  ap_secret :: string
  ap_approvals :: "(string \<times> activation_approval) list"
  ap_issued :: "(string \<times> activation_approval) list"
  ap_revoked :: "string set"

text \<open>The constructor, from a record of its arguments (\<open>secret\<close> is the signing secret).\<close>

definition mk_activation_policy :: "env \<Rightarrow> activation_policy \<Rightarrow> string option \<Rightarrow> activation_policy result" where
  "mk_activation_policy E p secret =
     (if ap_max_activation_amount p \<le> 0 then raise ValueError ''max_activation_amount must be positive''
      else Inr (p\<lparr>ap_allowed_network := py_lower (ap_allowed_network p),
        ap_allowed_credit_contract := py_lower (ap_allowed_credit_contract p), ap_secret := py_or secret (e_uuid E 0),
        ap_approvals := [], ap_issued := [], ap_revoked := {}\<rparr>))"

definition activation_policy_version :: "prims \<Rightarrow> activation_policy \<Rightarrow> string" where
  "activation_policy_version P p = sha256 P (canonical_json P (JObj
     [(''policy_id'', JStr ''POLICY-ORBIO-ACTIVATION-01''), (''max_activation_amount'', JInt (ap_max_activation_amount p)),
      (''allowed_chain_id'', JInt (ap_allowed_chain_id p)), (''allowed_network'', JStr (ap_allowed_network p)),
      (''allowed_credit_contract'', JStr (ap_allowed_credit_contract p)),
      (''require_human_approval'', JBool (ap_require_human_approval p)), (''forbid_testnet'', JBool (ap_forbid_testnet p))]))"

definition activation_issuance_token ::
  "prims \<Rightarrow> activation_policy \<Rightarrow> string \<Rightarrow> string \<Rightarrow> activation_intent \<Rightarrow> string \<Rightarrow> rat \<Rightarrow> rat \<Rightarrow> string" where
  "activation_issuance_token P p approval_id ih i operator issued expires =
     hmac_sha256 P (ap_secret p) (py_join '':'' [approval_id, ih, ai_tenant_id i, ai_organisation_id i, operator,
       str_int P (ai_chain_id i), ai_credit_contract i, str_int P (ai_amount i), str_float P issued, str_float P expires])"

definition issue_activation_approval ::
  "prims \<Rightarrow> env \<Rightarrow> activation_intent \<Rightarrow> string \<Rightarrow> string option \<Rightarrow> rat option \<Rightarrow> rat \<Rightarrow> activation_policy \<Rightarrow>
     activation_approval \<times> activation_policy" where
  "issue_activation_approval P E i operator notes ttl_seconds now p =
     (let ttl = (case ttl_seconds of None \<Rightarrow> ap_human_approval_ttl_seconds p | Some t \<Rightarrow> t);
          ih = compute_activation_intent_hash P i; aid = e_uuid E 0;
          a = \<lparr>aa_approval_id = aid, aa_intent_hash = ih, aa_tenant_id = ai_tenant_id i,
            aa_organisation_id = ai_organisation_id i, aa_operator_id = operator, aa_chain_id = ai_chain_id i,
            aa_credit_contract = ai_credit_contract i, aa_activation_amount = ai_amount i, aa_issued_at = now,
            aa_expires_at = now + ttl, aa_notes = notes,
            aa_issuance_token = Some (activation_issuance_token P p aid ih i operator now (now + ttl))\<rparr>
      in (a, p\<lparr>ap_approvals := AList.update ih a (ap_approvals p), ap_issued := AList.update aid a (ap_issued p)\<rparr>))"

definition revoke_activation_approval :: "string \<Rightarrow> activation_policy \<Rightarrow> activation_policy" where
  "revoke_activation_approval x p =
     (case map_of (ap_approvals p) x of
        Some a \<Rightarrow> p\<lparr>ap_approvals := AList.delete x (ap_approvals p), ap_revoked := insert (aa_approval_id a) (ap_revoked p),
          ap_issued := AList.delete (aa_approval_id a) (ap_issued p)\<rparr>
      | None \<Rightarrow> (case map_of (ap_issued p) x of
          Some a \<Rightarrow> p\<lparr>ap_issued := AList.delete x (ap_issued p), ap_revoked := insert (aa_approval_id a) (ap_revoked p),
            ap_approvals := AList.delete (aa_intent_hash a) (ap_approvals p)\<rparr>
        | None \<Rightarrow> p\<lparr>ap_revoked := insert x (ap_revoked p)\<rparr>))"

definition check_activation_network :: "activation_policy \<Rightarrow> activation_intent \<Rightarrow> string option \<Rightarrow> activation_denial" where
  "check_activation_network p i runtime_mode =
     (if ap_forbid_testnet p \<and> ai_chain_id i = 46630 then Some (A_TESTNET_FORBIDDEN, ''Robinhood testnet has no deployed Orbio contracts'')
      else if ap_forbid_testnet p \<and> ai_chain_id i \<noteq> ap_allowed_chain_id p then Some (A_UNAUTHORIZED_NETWORK, ''chain_id not allowed'')
      else if py_lower (ai_network i) \<notin> {ap_allowed_network p, ''robinhood''} \<and> ai_chain_id i \<noteq> ap_allowed_chain_id p
      then Some (A_UNAUTHORIZED_NETWORK, ''network not allowed for activation'')
      else if ap_forbid_simulation p \<and> py_truthy runtime_mode \<and>
         py_lower (the runtime_mode) \<in> {''simulation'', ''simulated'', ''sim''}
      then Some (A_SIMULATION_FORBIDDEN, ''Mainnet activation cannot run under simulation runtime mode'')
      else if py_lower (ai_credit_contract i) \<noteq> ap_allowed_credit_contract p
      then Some (A_UNAUTHORIZED_CONTRACT, ''credit_contract not allowlisted'') else None)"

definition check_activation_bounds :: "activation_policy \<Rightarrow> activation_intent \<Rightarrow> rat \<Rightarrow> activation_denial" where
  "check_activation_bounds p i now =
     (if ai_amount i \<le> 0 then Some (A_AMOUNT_INVALID, ''amount must be positive'')
      else if ai_amount i > ap_max_activation_amount p then Some (A_AMOUNT_EXCEEDS_CEILING, ''amount exceeds ceiling'')
      else if ai_max_fee_per_gas i > ap_max_fee_per_gas p then Some (A_GAS_BOUND_EXCEEDED, ''max_fee_per_gas exceeds policy'')
      else if ai_max_priority_fee_per_gas i > ap_max_priority_fee_per_gas p
      then Some (A_GAS_BOUND_EXCEEDED, ''max_priority_fee_per_gas exceeds policy'')
      else if ai_gas_limit i > ap_max_gas_limit p then Some (A_GAS_BOUND_EXCEEDED, ''gas_limit exceeds policy'')
      else if (case ai_deadline i of None \<Rightarrow> False | Some d \<Rightarrow> now > of_int d)
      then Some (A_DEADLINE_EXPIRED, ''activation deadline expired'') else None)"

definition check_activation_approval ::
  "prims \<Rightarrow> activation_policy \<Rightarrow> activation_approval \<Rightarrow> activation_intent \<Rightarrow> rat \<Rightarrow> activation_denial" where
  "check_activation_approval P p a i now =
     (if aa_approval_id a \<in> ap_revoked p then Some (A_HUMAN_APPROVAL_REVOKED, ''Human approval was revoked'')
      else activation_approval_refusal P a i now)"

definition evaluate_activation ::
  "prims \<Rightarrow> env \<Rightarrow> rat \<Rightarrow> activation_policy \<Rightarrow> activation_intent \<Rightarrow> activation_approval option \<Rightarrow> string option \<Rightarrow>
     activation_decision" where
  "evaluate_activation P E now p i given runtime_mode =
     (let ih = compute_activation_intent_hash P i;
          outcome = (\<lambda>r reasons codes human. \<lparr>ad_result = r, ad_policy_version = activation_policy_version P p,
            ad_intent_hash = ih, ad_reasons = reasons, ad_denial_codes = codes, ad_evaluated_at = e_now E 0,
            ad_decision_id = e_uuid E 0, ad_requires_human_confirmation = human,
            ad_max_activation_amount = ap_max_activation_amount p\<rparr>);
          deny = (\<lambda>(c, m). outcome Activation_DENY [m] [c] False);
          allow = outcome Activation_ALLOW [''Activation within ceiling, mainnet allowlist, and human approval''] [] False
      in case check_activation_network p i runtime_mode of Some x \<Rightarrow> deny x
      | None \<Rightarrow> case check_activation_bounds p i now of Some x \<Rightarrow> deny x
      | None \<Rightarrow>
        if ap_require_human_approval p
        then case (case given of None \<Rightarrow> map_of (ap_approvals p) ih | Some a \<Rightarrow> Some a) of
            None \<Rightarrow> outcome Activation_HUMAN_CONFIRMATION_REQUIRED
              [''First mainnet activation requires explicit human approval''] [A_MISSING_HUMAN_APPROVAL] True
          | Some a \<Rightarrow> (case check_activation_approval P p a i now of Some x \<Rightarrow> deny x | None \<Rightarrow> allow)
        else allow)"

end
