(* ===== verification/ChainProvider.thy ===== *)
theory ChainProvider
  imports Chain
begin

text \<open>
  The blockchain settlement provider (\<open>src/settlement/blockchain/provider.py\<close>), the receipt evidence it builds
  (\<open>src/domain/blockchain.py\<close>), and the simulated node (\<open>src/settlement/blockchain/rpc_client.py\<close>).  The state of the node is
  the type \<open>'c\<close>; a live node is a parameter, the simulated one an instance.
\<close>

section \<open>The node\<close>

record 'c rpc_ops =
  rp_simulated :: bool
  rp_transaction_count :: "string \<Rightarrow> ('c, int) act"
  rp_send_raw :: "string \<Rightarrow> ('c, string) act"
  rp_receipt :: "string \<Rightarrow> ('c, (string \<times> json) list option) act"
  rp_transaction :: "string \<Rightarrow> ('c, (string \<times> json) list option) act"

record 'c chain_world =
  cv_nonces :: nonce_manager
  cv_op_tx_hashes :: "(string \<times> string) list"
  cv_chain :: 'c

record 'c chain_config =
  cc_rpc :: "'c rpc_ops"
  cc_signer :: signer_ops
  cc_default_chain_id :: int
  cc_network_name :: string

definition on_chain :: "('c, 'a) act \<Rightarrow> ('c chain_world, 'a) act" where
  "on_chain f w = (case f (cv_chain w) of (r, c) \<Rightarrow> (r, w\<lparr>cv_chain := c\<rparr>))"

section \<open>The intent of an operation\<close>

definition optional_text :: "json \<Rightarrow> string option result" where
  "optional_text v = (case v of JNull \<Rightarrow> Inr None | JStr s \<Rightarrow> Inr (Some s)
     | _ \<Rightarrow> raise ValidationError ''Input should be a valid string'')"

definition plain_text :: "json \<Rightarrow> string result" where
  "plain_text v = (case v of JStr s \<Rightarrow> Inr s | _ \<Rightarrow> raise ValidationError ''Input should be a valid string'')"

definition chain_recipient :: "consequential_operation \<Rightarrow> json" where
  "chain_recipient op = (let r = pget op ''recipient'' in
     if \<not> json_truthy r \<and> op_target op \<noteq> []
     then JStr (py_remove ''sepolia://'' (py_remove ''blockchain://'' (py_remove ''evm://'' (op_target op)))) else r)"

definition token_text :: "consequential_operation \<Rightarrow> string result" where
  "token_text op = (case dict_get (op_parameters op) ''authorization_token'' (JStr (op_id op)) of JStr s \<Rightarrow> Inr s
     | _ \<Rightarrow> raise AttributeError ''object has no attribute encode'')"

definition build_intent :: "prims \<Rightarrow> env \<Rightarrow> 'c chain_config \<Rightarrow> consequential_operation \<Rightarrow> blockchain_intent result" where
  "build_intent P E C op =
     (let par = dict_get (op_parameters op); recipient = chain_recipient op in
      if \<not> json_truthy recipient then raise ValueError ''Blockchain operation missing required recipient address''
      else
        bind_result (py_int (par ''chain_id'' (JInt (cc_default_chain_id C)))) (\<lambda>chain.
        bind_result (py_int (par ''amount_wei'' (JInt 0))) (\<lambda>wei.
        bind_result (py_int (par ''max_fee_per_gas'' (JInt 25000000000))) (\<lambda>fee.
        bind_result (py_int (par ''max_priority_fee_per_gas'' (JInt 1500000000))) (\<lambda>prio.
        bind_result (py_int (par ''gas_limit'' (JInt 21000))) (\<lambda>gas.
        bind_result (token_text op) (\<lambda>token.
        bind_result (optional_text (pget op ''mission_id'')) (\<lambda>mission.
        bind_result (plain_text (par ''network'' (JStr (cc_network_name C)))) (\<lambda>network.
        bind_result (plain_text recipient) (\<lambda>recipient.
        bind_result (plain_text (par ''asset'' (JStr ''ETH''))) (\<lambda>asset.
        bind_result (optional_text (pget op ''token_contract'')) (\<lambda>contract.
        bind_result (plain_text (par ''data_payload'' (JStr ''0x''))) (\<lambda>payload.
        mk_blockchain_intent
          \<lparr>bi_tenant_id = op_tenant_id op, bi_organisation_id = op_organisation_id op, bi_mission_id = mission,
           bi_operation_id = op_id op, bi_chain_id = chain, bi_network = network, bi_recipient = recipient,
           bi_amount_wei = wei, bi_amount_credits = op_amount op, bi_asset = asset, bi_token_contract = contract,
           bi_transaction_type = 2, bi_max_fee_per_gas = fee, bi_max_priority_fee_per_gas = prio, bi_gas_limit = gas,
           bi_data_payload = payload, bi_idempotency_key = op_idempotency_key op, bi_policy_decision_id = op_decision_id op,
           bi_authorization_token_hash = sha256 P token, bi_created_at = e_now E 0\<rparr>)))))))))))))"

definition chain_prepare :: "consequential_operation \<Rightarrow> bool" where
  "chain_prepare op \<longleftrightarrow> 0 \<le> op_amount op"

section \<open>Receipts\<close>

definition receipt_success :: "(string \<times> json) list \<Rightarrow> bool" where
  "receipt_success receipt = (let s = param_get receipt ''status'' in py_eq s (JInt 1) \<or> s = JStr ''0x1'' \<or> s = JStr ''1'')"

text \<open>A number of a receipt: hex text, or the value itself, which the evidence model reads as an integer or nothing.\<close>

definition receipt_number :: "json \<Rightarrow> int option result" where
  "receipt_number v = (case v of
       JStr s \<Rightarrow> map_sum id Some (py_int16 v)
     | JNull \<Rightarrow> Inr None
     | JInt n \<Rightarrow> Inr (Some n)
     | JBool b \<Rightarrow> Inr (Some (if b then 1 else 0))
     | JFloat r \<Rightarrow> if of_int \<lfloor>r\<rfloor> = r then Inr (Some \<lfloor>r\<rfloor>) else raise ValidationError ''Input should be a valid integer''
     | _ \<Rightarrow> raise ValidationError ''Input should be a valid integer'')"

record receipt_evidence =
  re_network :: string
  re_chain_id :: int
  re_transaction_hash :: string
  re_status :: string
  re_block_number :: "int option"
  re_block_hash :: "string option"
  re_gas_used :: "int option"
  re_effective_gas_price :: "int option"
  re_network_fee_wei :: "int option"
  re_sender :: string
  re_recipient :: string
  re_amount_wei :: int
  re_intent_hash :: string
  re_raw_receipt :: "(string \<times> json) list"
  re_timestamp :: string

definition mk_receipt_evidence :: "receipt_evidence \<Rightarrow> receipt_evidence result" where
  "mk_receipt_evidence v = (let h = py_strip (re_transaction_hash v) in
     if \<not> hex_pattern 64 h then raise ValidationError ''Invalid EVM transaction hash''
     else Inr (v\<lparr>re_transaction_hash := py_lower h\<rparr>))"

definition opt_int :: "int option \<Rightarrow> json" where
  "opt_int x = (case x of None \<Rightarrow> JNull | Some n \<Rightarrow> JInt n)"

definition receipt_evidence_hash :: "prims \<Rightarrow> receipt_evidence \<Rightarrow> string" where
  "receipt_evidence_hash P v = sha256 P (canonical_json P (JObj
     [(''provider'', JStr ''evm''), (''network'', JStr (re_network v)), (''chain_id'', JInt (re_chain_id v)),
      (''transaction_hash'', JStr (re_transaction_hash v)), (''status'', JStr (re_status v)),
      (''block_number'', opt_int (re_block_number v)), (''gas_used'', opt_int (re_gas_used v)),
      (''effective_gas_price'', opt_int (re_effective_gas_price v)), (''network_fee_wei'', opt_int (re_network_fee_wei v)),
      (''sender'', JStr (py_lower (re_sender v))), (''recipient'', JStr (py_lower (re_recipient v))),
      (''amount_wei'', JInt (re_amount_wei v)), (''intent_hash'', JStr (re_intent_hash v))]))"

definition evidence_dump :: "receipt_evidence \<Rightarrow> (string \<times> json) list" where
  "evidence_dump v =
     [(''provider'', JStr ''evm''), (''network'', JStr (re_network v)), (''chain_id'', JInt (re_chain_id v)),
      (''transaction_hash'', JStr (re_transaction_hash v)), (''status'', JStr (re_status v)),
      (''block_number'', opt_int (re_block_number v)), (''block_hash'', opt_json (re_block_hash v)),
      (''gas_used'', opt_int (re_gas_used v)), (''effective_gas_price'', opt_int (re_effective_gas_price v)),
      (''network_fee_wei'', opt_int (re_network_fee_wei v)), (''sender'', JStr (re_sender v)),
      (''recipient'', JStr (re_recipient v)), (''amount_wei'', JInt (re_amount_wei v)),
      (''intent_hash'', JStr (re_intent_hash v)), (''raw_receipt'', JObj (re_raw_receipt v)), (''timestamp'', JStr (re_timestamp v))]"

definition explorer_url :: "bool \<Rightarrow> int \<Rightarrow> string \<Rightarrow> json" where
  "explorer_url simulated chain ref =
     (if \<not> simulated \<and> chain = 11155111 then JStr (''https://sepolia.etherscan.io/tx/'' @ ref)
      else if \<not> simulated \<and> chain = 46630 then JStr (''https://explorer.testnet.chain.robinhood.com/tx/'' @ ref)
      else JNull)"

section \<open>Execution\<close>

definition confirmed_result ::
  "prims \<Rightarrow> env \<Rightarrow> 'c chain_config \<Rightarrow> blockchain_intent \<Rightarrow> string \<Rightarrow> (string \<times> json) list \<Rightarrow> provider_result result" where
  "confirmed_result P E C b ref receipt =
     bind_result (receipt_number (param_get receipt ''blockNumber'')) (\<lambda>block.
     bind_result (receipt_number (param_get receipt ''gasUsed'')) (\<lambda>gas.
     bind_result (receipt_number (param_get receipt ''effectiveGasPrice'')) (\<lambda>price.
     bind_result (optional_text (param_get receipt ''blockHash'')) (\<lambda>bhash.
     bind_result (mk_receipt_evidence
        \<lparr>re_network = bi_network b, re_chain_id = bi_chain_id b, re_transaction_hash = ref, re_status = ''confirmed'',
         re_block_number = block, re_block_hash = bhash, re_gas_used = gas, re_effective_gas_price = price,
         re_network_fee_wei = (case (gas, price) of (Some g, Some p) \<Rightarrow> Some (g * p) | _ \<Rightarrow> None),
         re_sender = sg_address (cc_signer C), re_recipient = bi_recipient b, re_amount_wei = bi_amount_wei b,
         re_intent_hash = compute_intent_hash P b, re_raw_receipt = receipt, re_timestamp = e_now E 0\<rparr>) (\<lambda>v.
     Inr \<lparr>px_outcome = Outcome_SUCCESS, px_reference = Some ref,
          px_raw = evidence_dump v @ [(''is_simulated'', JBool (rp_simulated (cc_rpc C))),
            (''explorer_url'', explorer_url (rp_simulated (cc_rpc C)) (bi_chain_id b) ref)],
          px_error = None, px_evidence = Some (receipt_evidence_hash P v)\<rparr>)))))"

definition chain_timeout :: "string option \<Rightarrow> (string \<times> json) list \<Rightarrow> string \<Rightarrow> provider_result" where
  "chain_timeout ref raw message = \<lparr>px_outcome = Outcome_TIMEOUT, px_reference = ref, px_raw = raw,
     px_error = Some message, px_evidence = None\<rparr>"

definition receipt_result ::
  "prims \<Rightarrow> env \<Rightarrow> 'c chain_config \<Rightarrow> blockchain_intent \<Rightarrow> string \<Rightarrow> (string \<times> json) list option \<Rightarrow> provider_result result" where
  "receipt_result P E C b ref receipt =
     (case receipt of
        None \<Rightarrow> Inr (chain_timeout (Some ref)
          [(''status'', JStr ''pending''), (''tx_hash'', JStr ref), (''sender'', JStr (sg_address (cc_signer C))),
           (''recipient'', JStr (bi_recipient b)), (''intent_hash'', JStr (compute_intent_hash P b))]
          ''Transaction submitted to mempool; pending on-chain confirmation'')
      | Some r \<Rightarrow> if receipt_success r then confirmed_result P E C b ref r
          else Inr \<lparr>px_outcome = Outcome_FAILURE, px_reference = Some ref,
            px_raw = [(''status'', JStr ''reverted''), (''tx_hash'', JStr ref), (''raw_receipt'', JObj r)],
            px_error = Some ''Transaction reverted on-chain (receipt status: 0)'',
            px_evidence = Some (sha256 P (canonical_json P (JObj r)))\<rparr>)"

text \<open>An exception of the broadcast is ambiguous; an exception of the receipt query counts as no receipt.\<close>

definition broadcast ::
  "prims \<Rightarrow> env \<Rightarrow> 'c chain_config \<Rightarrow> blockchain_intent \<Rightarrow> string \<Rightarrow> string \<Rightarrow> ('c, provider_result) act" where
  "broadcast P E C b raw tx_hash c =
     (case rp_send_raw (cc_rpc C) raw c of
        (Inl x, c1) \<Rightarrow> (Inr (chain_timeout (Some tx_hash)
          [(''error'', JStr (exc_msg x)), (''tx_hash'', JStr tx_hash), (''intent_hash'', JStr (compute_intent_hash P b))]
          ''Transport error during broadcast''), c1)
      | (Inr sent, c1) \<Rightarrow> (let ref = (if sent = [] then tx_hash else sent) in
          case rp_receipt (cc_rpc C) ref c1 of
            (Inl x, c2) \<Rightarrow> (receipt_result P E C b ref None, c2)
          | (Inr receipt, c2) \<Rightarrow> (receipt_result P E C b ref receipt, c2)))"

definition allocate_nonce :: "'c chain_config \<Rightarrow> blockchain_intent \<Rightarrow> consequential_operation \<Rightarrow> ('c chain_world, int) act" where
  "allocate_nonce C b op w =
     (case get_or_allocate_nonce (sg_address (cc_signer C)) (bi_chain_id b) (op_id op) (op_idempotency_key op)
         (rp_transaction_count (cc_rpc C) (sg_address (cc_signer C))) (cv_nonces w, cv_chain w) of
        (r, N, c) \<Rightarrow> (r, w\<lparr>cv_nonces := N, cv_chain := c\<rparr>))"

definition record_hash :: "consequential_operation \<Rightarrow> string \<Rightarrow> ('c chain_world, unit) act" where
  "record_hash op h w = (Inr (), w\<lparr>cv_op_tx_hashes :=
     AList.update (op_idempotency_key op) h (AList.update (op_id op) h (cv_op_tx_hashes w))\<rparr>)"

definition chain_execute ::
  "prims \<Rightarrow> env \<Rightarrow> 'c chain_config \<Rightarrow> consequential_operation \<Rightarrow> ('c chain_world, provider_result) act" where
  "chain_execute P E C op =
     act_bind (act_lift (build_intent P E C op)) (\<lambda>b.
     act_bind (allocate_nonce C b op) (\<lambda>nonce.
     act_bind (act_lift (sg_sign (cc_signer C) b nonce)) (\<lambda>(raw, tx_hash).
     act_bind (record_hash op tx_hash) (\<lambda>_.
     on_chain (broadcast P (env_skip 1 E) C b raw tx_hash)))))"

section \<open>Status\<close>

definition known_hash :: "'c chain_world \<Rightarrow> string \<Rightarrow> string \<Rightarrow> string option \<Rightarrow> string" where
  "known_hash w operation_id key ref =
     (let h = py_or ref (py_or (map_of (cv_op_tx_hashes w) operation_id)
        (if key = [] then [] else py_or (map_of (cv_op_tx_hashes w) key) []))
      in if h = [] \<and> prefix ''0x'' operation_id then operation_id else h)"

definition status_of_receipt :: "prims \<Rightarrow> string \<Rightarrow> (string \<times> json) list \<Rightarrow> provider_result" where
  "status_of_receipt P h r =
     (let ok = receipt_success r in
      \<lparr>px_outcome = (if ok then Outcome_SUCCESS else Outcome_FAILURE), px_reference = Some h,
       px_raw = [(''status'', JStr (if ok then ''confirmed'' else ''reverted'')), (''tx_hash'', JStr h), (''receipt'', JObj r)],
       px_error = (if ok then None else Some ''Transaction reverted on-chain''),
       px_evidence = Some (sha256 P (canonical_json P (JObj r)))\<rparr>)"

definition chain_status ::
  "prims \<Rightarrow> 'c chain_config \<Rightarrow> string \<Rightarrow> string \<Rightarrow> string option \<Rightarrow> ('c chain_world, provider_result) act" where
  "chain_status P C operation_id key ref w =
     (let h = known_hash w operation_id key ref; timeout = chain_timeout (Some h) in
      if h = [] then (Inr (chain_timeout None [(''error'', JStr ''No transaction hash recorded for operation'')]
        ''No transaction hash recorded for operation''), w)
      else case on_chain (rp_receipt (cc_rpc C) h) w of
        (Inl x, w1) \<Rightarrow> (Inr (timeout [(''error'', JStr (exc_msg x)), (''tx_hash'', JStr h)] ''RPC error during status check''), w1)
      | (Inr (Some r), w1) \<Rightarrow> (Inr (status_of_receipt P h r), w1)
      | (Inr None, w1) \<Rightarrow> act_bind (on_chain (rp_transaction (cc_rpc C) h)) (\<lambda>tx. act_return
          (if tx \<noteq> None \<and> tx \<noteq> Some []
           then timeout [(''status'', JStr ''pending_in_mempool''), (''tx_hash'', JStr h)] ''Transaction is pending confirmation in mempool''
           else timeout [(''status'', JStr ''unknown_on_chain''), (''tx_hash'', JStr h)] ''Transaction status unknown on-chain'')) w1)"

definition chain_ops :: "prims \<Rightarrow> env \<Rightarrow> 'c chain_config \<Rightarrow> 'c chain_world provider_ops" where
  "chain_ops P E C = \<lparr>po_name = ''blockchain'', po_execute = chain_execute P E C, po_status = chain_status P C\<rparr>"

definition get_network_identity :: "'c chain_config \<Rightarrow> json" where
  "get_network_identity C = JObj [(''provider'', JStr ''blockchain''), (''network'', JStr (cc_network_name C)),
     (''chain_id'', JInt (cc_default_chain_id C)), (''signer_address'', JStr (sg_address (cc_signer C)))]"

section \<open>The simulated node\<close>

record sim_node =
  sn_chain_id :: int
  sn_block_number :: int
  sn_balances :: "(string \<times> int) list"
  sn_nonces :: "(string \<times> int) list"
  sn_transactions :: "(string \<times> (string \<times> json) list) list"
  sn_receipts :: "(string \<times> (string \<times> json) list) list"
  sn_timeout_hashes :: "string set"
  sn_revert_hashes :: "string set"
  sn_pending_hashes :: "string set"
  sn_reject_hashes :: "string set"
  sn_timeout_all :: bool
  sn_revert_all :: bool
  sn_pending_all :: bool

definition new_sim_node :: "int \<Rightarrow> int \<Rightarrow> sim_node" where
  "new_sim_node chain block = \<lparr>sn_chain_id = chain, sn_block_number = block, sn_balances = [], sn_nonces = [],
     sn_transactions = [], sn_receipts = [], sn_timeout_hashes = {}, sn_revert_hashes = {}, sn_pending_hashes = {},
     sn_reject_hashes = {}, sn_timeout_all = False, sn_revert_all = False, sn_pending_all = False\<rparr>"

definition sim_node_balance :: "sim_node \<Rightarrow> string \<Rightarrow> int" where
  "sim_node_balance c a = dict_get (sn_balances c) (py_lower a) (10 ^ 18)"

definition sim_transaction_count :: "string \<Rightarrow> (sim_node, int) act" where
  "sim_transaction_count a c = (Inr (dict_get (sn_nonces c) (py_lower a) 0), c)"

definition block_hash :: "prims \<Rightarrow> int \<Rightarrow> string" where
  "block_hash P n = ''0x'' @ sha256 P (''block-'' @ str_int P n)"

definition sim_receipt :: "prims \<Rightarrow> string \<Rightarrow> int \<Rightarrow> bool \<Rightarrow> (string \<times> json) list" where
  "sim_receipt P h block reverted =
     [(''transactionHash'', JStr h), (''blockNumber'', JStr (py_hex block)), (''blockHash'', JStr (block_hash P block)),
      (''status'', JStr (if reverted then ''0x0'' else ''0x1'')), (''gasUsed'', JStr (py_hex 21000)),
      (''effectiveGasPrice'', JStr (py_hex 25000000000))]"

text \<open>The timeout is raised before anything is recorded.\<close>

definition sim_send_raw :: "prims \<Rightarrow> eth_lib \<Rightarrow> string \<Rightarrow> (sim_node, string) act" where
  "sim_send_raw P H raw c =
     (let k = bytes_hex (el_keccak H raw); h = (if prefix ''0x'' k then k else ''0x'' @ k); low = py_lower h;
          block = sn_block_number c + 1; reverted = sn_revert_all c \<or> low \<in> sn_revert_hashes c in
      if sn_timeout_all c \<or> low \<in> sn_timeout_hashes c then (raise ReadTimeout ''Simulated upstream transport timeout during eth_sendRawTransaction'', c)
      else if low \<in> sn_reject_hashes c then (raise RuntimeError ''Simulated RPC rejection: execution reverted'', c)
      else (Inr low, c\<lparr>sn_block_number := block,
        sn_transactions := AList.update low [(''hash'', JStr h), (''blockNumber'', JStr (py_hex block)),
          (''blockHash'', JStr (block_hash P block)), (''raw'', JStr (''0x'' @ bytes_hex raw))] (sn_transactions c),
        sn_receipts := (if sn_pending_all c \<or> low \<in> sn_pending_hashes c then sn_receipts c
          else AList.update low (sim_receipt P h block reverted) (sn_receipts c))\<rparr>))"

definition sim_get_receipt :: "prims \<Rightarrow> string \<Rightarrow> (sim_node, (string \<times> json) list option) act" where
  "sim_get_receipt P h c =
     (let low = py_lower h in
      if sn_timeout_all c \<or> low \<in> sn_timeout_hashes c then (raise ReadTimeout ''Simulated upstream transport timeout during eth_getTransactionReceipt'', c)
      else if sn_pending_all c \<or> low \<in> sn_pending_hashes c then (Inr None, c)
      else case map_of (sn_receipts c) low of
        Some r \<Rightarrow> (Inr (Some r), c)
      | None \<Rightarrow> (Inr (if sn_revert_all c \<or> low \<in> sn_revert_hashes c
          then Some (sim_receipt P h (sn_block_number c) True) else None), c))"

definition sim_get_transaction :: "string \<Rightarrow> (sim_node, (string \<times> json) list option) act" where
  "sim_get_transaction h c = (Inr (map_of (sn_transactions c) (py_lower h)), c)"

definition confirm_pending_transaction :: "prims \<Rightarrow> string \<Rightarrow> int \<Rightarrow> sim_node \<Rightarrow> sim_node" where
  "confirm_pending_transaction P h status c =
     (let low = py_lower h; block = sn_block_number c + 1 in
      c\<lparr>sn_pending_hashes := sn_pending_hashes c - {low}, sn_block_number := block,
        sn_receipts := AList.update low (sim_receipt P low block (status \<noteq> 1)) (sn_receipts c)\<rparr>)"

text \<open>The rules a test sets.\<close>

definition sim_set_balance :: "string \<Rightarrow> int \<Rightarrow> sim_node \<Rightarrow> sim_node" where
  "sim_set_balance a n c = c\<lparr>sn_balances := AList.update (py_lower a) n (sn_balances c)\<rparr>"

definition sim_timeout_rule :: "string \<Rightarrow> sim_node \<Rightarrow> sim_node" where
  "sim_timeout_rule h c = c\<lparr>sn_timeout_hashes := insert (py_lower h) (sn_timeout_hashes c)\<rparr>"

definition sim_revert_rule :: "string \<Rightarrow> sim_node \<Rightarrow> sim_node" where
  "sim_revert_rule h c = c\<lparr>sn_revert_hashes := insert (py_lower h) (sn_revert_hashes c)\<rparr>"

definition sim_pending_rule :: "string \<Rightarrow> sim_node \<Rightarrow> sim_node" where
  "sim_pending_rule h c = c\<lparr>sn_pending_hashes := insert (py_lower h) (sn_pending_hashes c)\<rparr>"

definition sim_reject_rule :: "string \<Rightarrow> sim_node \<Rightarrow> sim_node" where
  "sim_reject_rule h c = c\<lparr>sn_reject_hashes := insert (py_lower h) (sn_reject_hashes c)\<rparr>"

definition sim_revert_all :: "bool \<Rightarrow> sim_node \<Rightarrow> sim_node" where "sim_revert_all b c = c\<lparr>sn_revert_all := b\<rparr>"
definition sim_timeout_all :: "bool \<Rightarrow> sim_node \<Rightarrow> sim_node" where "sim_timeout_all b c = c\<lparr>sn_timeout_all := b\<rparr>"
definition sim_pending_all :: "bool \<Rightarrow> sim_node \<Rightarrow> sim_node" where "sim_pending_all b c = c\<lparr>sn_pending_all := b\<rparr>"

definition sim_rpc :: "prims \<Rightarrow> eth_lib \<Rightarrow> sim_node rpc_ops" where
  "sim_rpc P H = \<lparr>rp_simulated = True, rp_transaction_count = sim_transaction_count, rp_send_raw = sim_send_raw P H,
     rp_receipt = sim_get_receipt P, rp_transaction = sim_get_transaction\<rparr>"

end
