(* ===== verification/ActivationSettle.thy ===== *)
theory ActivationSettle
  imports Activation PurchaseSettle ChainProvider
begin

text \<open>
  From an activation intent to a settled operation: the bridge (\<open>src/execution/orbio_activation.py\<close>), the receipt verifier
  (\<open>src/settlement/orbio_activation_verifier.py\<close>), the verifier of the gateway balance (\<open>orbio_api_verifier.py\<close>) and the
  reconciliation (\<open>orbio_activation_reconciliation.py\<close>).  The answer of the gateway is a parameter.
\<close>

section \<open>The bridge\<close>

record activation_preparation =
  an_intent :: activation_intent
  an_intent_hash :: string
  an_decision :: activation_decision
  an_blockchain_intent :: "blockchain_intent option"
  an_parameters :: "(string \<times> json) list"

definition activation_is_authorized :: "activation_preparation \<Rightarrow> bool" where
  "activation_is_authorized n \<longleftrightarrow> ad_result (an_decision n) = Activation_ALLOW"

definition activation_prepare ::
  "prims \<Rightarrow> eth_lib \<Rightarrow> env \<Rightarrow> rat \<Rightarrow> activation_policy \<Rightarrow> activation_intent \<Rightarrow> activation_approval option \<Rightarrow>
     string option \<Rightarrow> activation_preparation result" where
  "activation_prepare P H E now p i approval mode =
     (let d = evaluate_activation P E now p i approval mode; ih = compute_activation_intent_hash P i in
      if ad_result d \<noteq> Activation_ALLOW
      then Inr \<lparr>an_intent = i, an_intent_hash = ih, an_decision = d, an_blockchain_intent = None, an_parameters = []\<rparr>
      else bind_result (activation_to_blockchain_intent H i) (\<lambda>b. bind_result (to_operation_parameters P H i) (\<lambda>params. Inr
        \<lparr>an_intent = i, an_intent_hash = ih, an_decision = d, an_blockchain_intent = Some b,
         an_parameters = AList.update ''policy_decision'' (activation_decision_audit d) params\<rparr>)))"

definition create_activation_operation ::
  "env \<Rightarrow> activation_preparation \<Rightarrow> organisation \<Rightarrow> string option \<Rightarrow> string option \<Rightarrow> string \<Rightarrow> string option \<Rightarrow>
     consequential_operation result" where
  "create_activation_operation E n g proposal_id decision_id pname key =
     (let i = an_intent n in
      if \<not> activation_is_authorized n then raise PolicyViolationError ''Orbio activation not authorized''
      else if an_blockchain_intent n = None then raise PolicyViolationError ''Missing blockchain intent after ALLOW''
      else if ai_amount_credits i < 0 then raise ValidationError ''amount must be greater than or equal to 0''
      else Inr \<lparr>op_id = ''cop-'' @ take 12 (e_uuid E 0), op_tenant_id = ai_tenant_id i, op_organisation_id = og_id g,
        op_proposal_id = py_or proposal_id (''prop-'' @ ai_operation_id i),
        op_decision_id = py_or decision_id (ad_decision_id (an_decision n)),
        op_idempotency_key = py_or key (ai_idempotency_key i), op_action_type = ORBIO_CREDIT_ACTIVATION,
        op_target = ''orbio://credit/'' @ ai_credit_contract i, op_parameters = an_parameters n,
        op_amount = ai_amount_credits i, op_provider_name = pname, op_provider_reference = None,
        op_state = Op_CREATED, op_error_message = None, op_created_at = e_now E 0, op_updated_at = e_now E 1\<rparr>)"

definition prepare_activation_operation ::
  "prims \<Rightarrow> eth_lib \<Rightarrow> env \<Rightarrow> rat \<Rightarrow> activation_policy \<Rightarrow> activation_intent \<Rightarrow> organisation \<Rightarrow> activation_approval option \<Rightarrow>
     string option \<Rightarrow> string \<Rightarrow> (activation_preparation \<times> consequential_operation) result" where
  "prepare_activation_operation P H E now p i g approval mode pname =
     (if ai_organisation_id i \<noteq> og_id g
      then raise UnauthorizedActionError ''Activation intent organisation does not match org''
      else if ai_tenant_id i \<noteq> og_tenant_id g
      then raise UnauthorizedActionError ''Activation intent tenant does not match organisation tenant''
      else bind_result (activation_prepare P H E now p i approval mode) (\<lambda>n.
        bind_result (create_activation_operation (env_skip 1 E) n g None None pname None) (\<lambda>op. Inr (n, op))))"

section \<open>The receipt verifier\<close>

datatype activation_status = Activation_VERIFIED | Activation_REJECTED | Activation_PENDING

record activation_report =
  ar_result :: activation_status
  ar_reasons :: "string list"
  ar_activation_id :: "int option"
  ar_burned_amount :: "int option"
  ar_fee_atoms :: "int option"
  ar_sender :: "string option"
  ar_beneficiary :: "string option"
  ar_tx_hash :: json

definition topic_addr :: "json \<Rightarrow> string result" where
  "topic_addr topic = bind_result (json_lower topic) (\<lambda>l. let t = py_remove ''0x'' l in Inr (''0x'' @ drop (length t - 40) t))"

text \<open>\<open>_data_uint(v or "0x")\<close>: an unreadable text is no amount.\<close>

definition data_uint :: "json \<Rightarrow> int option result" where
  "data_uint v = (if \<not> json_truthy v \<or> v = JStr ''0x'' \<or> v = JStr ''0x0'' then Inr None
     else case v of JStr s \<Rightarrow> Inr (int_of_hex s) | _ \<Rightarrow> raise TypeError ''int() cannot convert non-string with explicit base'')"

record activated_event =
  ae_activation_id :: int
  ae_from :: string
  ae_beneficiary :: string
  ae_amount :: int

text \<open>What the logs have shown so far: complaints, the last good event, the last fee.\<close>

record log_scan =
  ls_reasons :: "string list"
  ls_activated :: "activated_event option"
  ls_fee_atoms :: "int option"

definition complain :: "string \<Rightarrow> log_scan \<Rightarrow> log_scan" where
  "complain r s = s\<lparr>ls_reasons := ls_reasons s @ [r]\<rparr>"

definition topics_of :: "json \<Rightarrow> json list result" where
  "topics_of v = (if \<not> json_truthy v then Inr []
     else case v of JList xs \<Rightarrow> Inr xs | JStr s \<Rightarrow> Inr (map (\<lambda>c. JStr [c]) s) | JObj d \<Rightarrow> raise KeyError ''0''
     | _ \<Rightarrow> raise TypeError ''object is not subscriptable'')"

definition scan_activated :: "activation_intent \<Rightarrow> json \<Rightarrow> json list \<Rightarrow> log_scan \<Rightarrow> log_scan result" where
  "scan_activated i lg topics s =
     (if length topics < 4 then Inr (complain ''Activated event has fewer than 4 topics (malformed)'' s)
      else bind_result (obj_get lg ''address'') (\<lambda>a.
        bind_result (if json_truthy a then json_lower a else Inr []) (\<lambda>addr.
          if addr = [] then Inr (complain ''Activated log missing address'' s)
          else if addr \<noteq> ORBIO_CREDIT_ACTIVATION_CONTRACT then Inr (complain ''Activated log address is not the allowlisted CREDIT'' s)
          else if addr \<noteq> py_lower (ai_credit_contract i) then Inr (complain ''Activated log address is not intent.credit_contract'' s)
          else bind_result (obj_get lg ''data'') (\<lambda>data. bind_result (data_uint data) (\<lambda>amount. case amount of
            None \<Rightarrow> Inr (complain ''Activated event amount data missing or malformed'' s)
          | Some n \<Rightarrow>
              bind_result (py_int16 (topics ! 1)) (\<lambda>aid. bind_result (topic_addr (topics ! 2)) (\<lambda>from.
              bind_result (json_lower (topics ! 3)) (\<lambda>ben. Inr (s\<lparr>ls_activated := Some
                \<lparr>ae_activation_id = aid, ae_from = from, ae_beneficiary = ben, ae_amount = n\<rparr>\<rparr>)))))))))"

definition scan_log :: "eth_lib \<Rightarrow> activation_intent \<Rightarrow> json \<Rightarrow> log_scan \<Rightarrow> log_scan result" where
  "scan_log H i lg s =
     bind_result (obj_get lg ''topics'') (\<lambda>v. bind_result (topics_of v) (\<lambda>topics.
       case topics of [] \<Rightarrow> Inr s
       | t0 # rest \<Rightarrow> (case t0 of
           JStr t \<Rightarrow>
             if py_lower t = py_lower (ACTIVATED_EVENT_TOPIC0 H) then scan_activated i lg topics s
             else if py_lower t = py_lower (ACTIVATION_FEE_EVENT_TOPIC0 H)
             then bind_result (obj_get lg ''data'') (\<lambda>data. bind_result (data_uint data) (\<lambda>fee. Inr (s\<lparr>ls_fee_atoms := fee\<rparr>)))
             else Inr s
         | _ \<Rightarrow> Inr s)))"

fun scan_logs :: "eth_lib \<Rightarrow> activation_intent \<Rightarrow> json list \<Rightarrow> log_scan \<Rightarrow> log_scan result" where
  "scan_logs H i [] s = Inr s"
| "scan_logs H i (l # ls) s = bind_result (scan_log H i l s) (scan_logs H i ls)"

definition unless :: "bool \<Rightarrow> string \<Rightarrow> string list" where
  "unless b r = (if b then [] else [r])"

definition receipt_complaints ::
  "prims \<Rightarrow> activation_intent \<Rightarrow> int \<Rightarrow> (string \<times> json) list \<Rightarrow> string list" where
  "receipt_complaints P i chain receipt =
     (let t = param_get receipt ''to''; addr = py_lower (py_text P t) in
      unless (chain = ORBIO_ACTIVATION_CHAIN_ID) ''chain_id is not the activation chain'' @
      unless (receipt_success receipt) ''receipt status not success'' @
      (if t = JNull \<or> t = JStr [] then [''receipt.to is missing'']
       else unless (addr = ORBIO_CREDIT_ACTIVATION_CONTRACT) ''receipt.to is not the allowlisted CREDIT'' @
            unless (addr = py_lower (ai_credit_contract i)) ''receipt.to is not intent.credit_contract'') @
      unless (py_lower (ai_credit_contract i) = ORBIO_CREDIT_ACTIVATION_CONTRACT) ''intent credit_contract not mainnet allowlist'')"

definition event_complaints :: "activation_intent \<Rightarrow> string \<Rightarrow> activated_event \<Rightarrow> string list" where
  "event_complaints i expected ev =
     unless (ae_amount ev = ai_amount i) ''Activated.amount is not intent.amount'' @
     (if ae_from ev = [] then [''Activated.from missing'']
      else unless (py_lower (ae_from ev) = py_lower expected) ''Activated.from is not expected_sender'')"

definition report_on :: "activation_status \<Rightarrow> string list \<Rightarrow> activated_event option \<Rightarrow> int option \<Rightarrow> json \<Rightarrow> activation_report" where
  "report_on res reasons ev fee tx =
     \<lparr>ar_result = res, ar_reasons = reasons, ar_activation_id = map_option ae_activation_id ev,
      ar_burned_amount = map_option ae_amount ev, ar_fee_atoms = fee, ar_sender = map_option ae_from ev,
      ar_beneficiary = map_option ae_beneficiary ev, ar_tx_hash = tx\<rparr>"

definition verify_activation ::
  "prims \<Rightarrow> eth_lib \<Rightarrow> activation_intent \<Rightarrow> int \<Rightarrow> (string \<times> json) list \<Rightarrow> string option \<Rightarrow> activation_report result" where
  "verify_activation P H i chain receipt expected =
     (let tx = param_get receipt ''transactionHash''; logs = param_get receipt ''logs'' in
      if \<not> py_truthy expected
      then Inr (report_on Activation_REJECTED [''expected_sender is required for production activation verification''] None None tx)
      else bind_result (if json_truthy logs then iter_json logs else Inr []) (\<lambda>ls.
        bind_result (scan_logs H i ls \<lparr>ls_reasons = receipt_complaints P i chain receipt, ls_activated = None, ls_fee_atoms = None\<rparr>) (\<lambda>s.
          Inr (case ls_activated s of
            None \<Rightarrow> report_on Activation_REJECTED (ls_reasons s @ [''Activated event missing from receipt logs'']) None (ls_fee_atoms s) tx
          | Some ev \<Rightarrow> (let reasons = ls_reasons s @ event_complaints i (the expected) ev in
              if reasons \<noteq> [] then report_on Activation_REJECTED reasons (Some ev) (ls_fee_atoms s) tx
              else report_on Activation_VERIFIED [''receipt success + Activated event matches intent''] (Some ev) (ls_fee_atoms s) tx)))))"

section \<open>The gateway balance\<close>

datatype api_status = Api_VERIFIED | Api_PENDING | Api_REJECTED

record api_report =
  pr_status :: api_status
  pr_available :: "rat option"
  pr_used :: "rat option"
  pr_currency :: string
  pr_key_id :: "string option"
  pr_account_id :: "string option"
  pr_rate_limit :: json
  pr_error_message :: "string option"
  pr_verified_at :: string
  pr_raw_response :: json

text \<open>What a request to the gateway can give; the body is \<open>None\<close> when it is not JSON.\<close>

datatype gateway_answer = Answer_http_error | Answer_unreachable | Answer_failed | Answer int "json option"

definition api_failure :: "env \<Rightarrow> api_status \<Rightarrow> string \<Rightarrow> json \<Rightarrow> api_report" where
  "api_failure E st message raw = \<lparr>pr_status = st, pr_available = None, pr_used = None, pr_currency = ''USD'', pr_key_id = None,
     pr_account_id = None, pr_rate_limit = JNull, pr_error_message = Some message, pr_verified_at = e_now E 0, pr_raw_response = raw\<rparr>"

definition account_mismatch :: "prims \<Rightarrow> string option \<Rightarrow> json \<Rightarrow> bool" where
  "account_mismatch P expected account \<longleftrightarrow> py_truthy expected \<and> json_truthy account \<and>
     (let e = the expected; a = py_text P account in
      (prefix ''0x'' e \<and> prefix ''0x'' a \<or> \<not> prefix ''0x'' e) \<and> py_lower a \<noteq> py_lower e)"

definition opt_text :: "prims \<Rightarrow> json \<Rightarrow> string option" where
  "opt_text P v = (if json_truthy v then Some (py_text P v) else None)"

definition dict_or_null :: "json \<Rightarrow> json" where
  "dict_or_null v = (case v of JObj d \<Rightarrow> v | _ \<Rightarrow> JNull)"

text \<open>The balance is a dictionary of its own, or the fields of the payload.\<close>

definition balance_fields :: "(string \<times> json) list \<Rightarrow> json \<times> json \<times> json" where
  "balance_fields payload = (case param_get payload ''balance'' of
       JObj bal \<Rightarrow> (dict_get bal ''available'' (dict_get bal ''limit_remaining'' (JInt 0)),
         dict_get bal ''used'' (dict_get bal ''usage'' (JInt 0)), dict_get bal ''currency'' (JStr ''USD''))
     | _ \<Rightarrow> (dict_get payload ''available'' (JInt 0), dict_get payload ''used'' (JInt 0), dict_get payload ''currency'' (JStr ''USD'')))"

definition read_balance ::
  "prims \<Rightarrow> env \<Rightarrow> rat \<Rightarrow> string option \<Rightarrow> (string \<times> json) list \<Rightarrow> api_report" where
  "read_balance P E minimum expected payload =
     (case balance_fields payload of (av, us, cu) \<Rightarrow>
      case (py_float P av, py_float P us) of
        (Inr available, Inr used) \<Rightarrow>
          (let account = param_get payload ''account_id'';
               report = (\<lambda>st acc limit err. \<lparr>pr_status = st, pr_available = Some available, pr_used = Some used,
                 pr_currency = py_text P cu,
                 pr_key_id = opt_text P (json_or (param_get payload ''id'') (param_get payload ''key_id'')),
                 pr_account_id = acc, pr_rate_limit = limit, pr_error_message = err, pr_verified_at = e_now E 0,
                 pr_raw_response = JObj payload\<rparr>);
               limit = dict_or_null (param_get payload ''rate_limit'') in
           if account_mismatch P expected account
           then report Api_REJECTED (Some (py_text P account)) JNull (Some ''Account mismatch'')
           else if available < minimum
           then report Api_REJECTED (opt_text P account) limit (Some ''Available balance below the expected credits'')
           else report Api_VERIFIED (opt_text P account) limit None)
      | _ \<Rightarrow> api_failure E Api_REJECTED ''Unparseable balance values'' (JObj payload))"

definition verify_api ::
  "prims \<Rightarrow> env \<Rightarrow> string option \<Rightarrow> gateway_answer \<Rightarrow> rat \<Rightarrow> string option \<Rightarrow> api_report" where
  "verify_api P E api_key answer minimum expected =
     (if \<not> py_truthy api_key then api_failure E Api_PENDING ''ORBIO_API_KEY not configured in environment'' JNull
      else case answer of
        Answer_http_error \<Rightarrow> api_failure E Api_REJECTED ''Orbio API returned HTTP error'' JNull
      | Answer_unreachable \<Rightarrow> api_failure E Api_PENDING ''Transport error reaching Orbio API'' JNull
      | Answer_failed \<Rightarrow> api_failure E Api_REJECTED ''Unexpected error querying Orbio API'' JNull
      | Answer status body \<Rightarrow>
          if status \<noteq> 200 then api_failure E Api_REJECTED ''Unexpected status code'' JNull
          else case body of
            None \<Rightarrow> api_failure E Api_REJECTED ''Malformed JSON response from Orbio API'' JNull
          | Some (JObj payload) \<Rightarrow> read_balance P E minimum expected payload
          | Some _ \<Rightarrow> api_failure E Api_REJECTED ''Invalid payload structure from Orbio API'' JNull)"

definition api_is_confirmed :: "api_report \<Rightarrow> bool" where
  "api_is_confirmed r \<longleftrightarrow> pr_status r = Api_VERIFIED"

section \<open>Reconciliation\<close>

text \<open>The world is that of the purchase reconciliation; its provider and its verified references are not used.\<close>

record activation_outcome =
  ao_on_chain :: "activation_report option"
  ao_api :: "api_report option"
  ao_action :: economic_action
  ao_status :: activation_status

definition activation_event :: "prims \<Rightarrow> env \<Rightarrow> string \<Rightarrow> (string \<times> json) list \<Rightarrow> (('l, 'p) purchase_world, unit) act" where
  "activation_event P E ty extra w = on_cs (log_event P E ''ORBIO_ACTIVATION_RECONCILIATION'' ty (op_id (pw_op w))
     ((''operation_id'', JStr (op_id (pw_op w))) # extra)) w"

text \<open>The escrow of the operation moves unless an entry has the transaction id; the result says whether it moved.\<close>

definition activation_release ::
  "'l entry_ops \<Rightarrow> prims \<Rightarrow> env \<Rightarrow> string \<Rightarrow> string \<Rightarrow> string \<Rightarrow> (('l, 'p) purchase_world, bool) act" where
  "activation_release ops P E pre dest memo w =
     (let op = pw_op w; L = cs_ledger (pw_cs w); tx = rec_tx P pre op in
      if op_amount op > 0 \<and> \<not> (\<exists>e \<in> set (lo_get_entries ops L). le_transaction_id e = tx) \<and>
         lo_get_balance ops L ESCROW \<ge> op_amount op
      then act_bind (on_cs (act_bind (cons_move ops E ESCROW dest (op_amount op) (memo @ op_id op) tx) (\<lambda>_. refresh_treasury ops)))
             (\<lambda>_. act_return True) w
      else (Inr False, w))"

definition submit_escrowed :: "env \<Rightarrow> (('l, 'p) purchase_world, unit) act" where
  "submit_escrowed E w = (if op_state (pw_op w) = Op_ESCROWED then op_moves E Op_SUBMITTED None None w else (Inr (), w))"

text \<open>The hash of a transaction is text, or absent.\<close>

definition reference_of :: "json \<Rightarrow> string option" where
  "reference_of v = (case v of JStr s \<Rightarrow> Some s | _ \<Rightarrow> None)"

definition activation_moves_on :: "env \<Rightarrow> bool \<Rightarrow> string option \<Rightarrow> (('l, 'p) purchase_world, unit) act" where
  "activation_moves_on E api_ok ref =
     (if api_ok then op_moves E Op_SUCCEEDED None ref
      else act_bind (\<lambda>w. if op_state (pw_op w) \<noteq> Op_RECONCILING then op_moves E Op_RECONCILING None ref w else (Inr (), w))
        (\<lambda>_. op_moves (env_skip 1 E) Op_RECONCILED None ref))"

definition finalize_rejection ::
  "'l entry_ops \<Rightarrow> prims \<Rightarrow> env \<Rightarrow> activation_report \<Rightarrow> (('l, 'p) purchase_world, activation_outcome) act" where
  "finalize_rejection ops P E report =
     act_bind (activation_release ops P E ''rollback-act-rec-'' TREASURY ''Orbio activation refund for '') (\<lambda>moved.
     act_bind (submit_escrowed (env_skip 2 E)) (\<lambda>_.
     act_bind (op_moves (env_skip 3 E) Op_FAILED (Some (if ar_reasons report \<noteq> [] then py_join ''; '' (ar_reasons report)
        else ''On-chain activation rejected'')) None) (\<lambda>_.
     act_bind rec_save (\<lambda>_.
     act_bind (activation_event P (env_skip 4 E) ''ORBIO_ACTIVATION_RECONCILED_REJECTED''
        [(''reasons'', JList (map JStr (ar_reasons report))), (''economic_action'', JStr (if moved then ''refunded'' else ''none''))]) (\<lambda>_.
     act_return \<lparr>ao_on_chain = Some report, ao_api = None, ao_action = (if moved then Economy_refunded else Economy_none),
       ao_status = Activation_REJECTED\<rparr>)))))"

definition finalize_verified ::
  "'l entry_ops \<Rightarrow> prims \<Rightarrow> env \<Rightarrow> activation_report \<Rightarrow> api_report \<Rightarrow> (('l, 'p) purchase_world, activation_outcome) act" where
  "finalize_verified ops P E report api =
     act_bind (activation_release ops P E ''tx-act-rec-'' EXTERNAL_SINK ''Orbio activation settlement for '') (\<lambda>moved.
     act_bind (submit_escrowed (env_skip 2 E)) (\<lambda>_.
     act_bind (activation_moves_on (env_skip 3 E) (api_is_confirmed api) (reference_of (ar_tx_hash report))) (\<lambda>_.
     act_bind rec_save (\<lambda>_.
     act_bind (activation_event P (env_skip 5 E) ''ORBIO_ACTIVATION_RECONCILED_VERIFIED''
        [(''on_chain_verified'', JBool True), (''api_balance_confirmed'', JBool (api_is_confirmed api)), (''tx_hash'', ar_tx_hash report),
         (''activation_id'', (case ar_activation_id report of None \<Rightarrow> JNull | Some n \<Rightarrow> JInt n)),
         (''economic_action'', JStr (if moved then ''settled'' else ''none''))]) (\<lambda>_.
     act_return \<lparr>ao_on_chain = Some report, ao_api = Some api, ao_action = (if moved then Economy_settled else Economy_none),
       ao_status = Activation_VERIFIED\<rparr>)))))"

text \<open>What the caller supplies with the operation: the receipt, the chain it is from, the sender, the gateway.\<close>

record activation_query =
  aq_receipt :: "(string \<times> json) list option"
  aq_chain_id :: int
  aq_expected_sender :: "string option"
  aq_api_key :: "string option"
  aq_answer :: gateway_answer

definition query_api :: "prims \<Rightarrow> env \<Rightarrow> activation_query \<Rightarrow> api_report" where
  "query_api P E q = verify_api P E (aq_api_key q) (aq_answer q) (95 / 100) (aq_expected_sender q)"

definition reconcile_receipt ::
  "'l entry_ops \<Rightarrow> prims \<Rightarrow> env \<Rightarrow> activation_query \<Rightarrow> activation_report option \<Rightarrow> (('l, 'p) purchase_world, activation_outcome) act"
where
  "reconcile_receipt ops P E q report =
     (let api = query_api P E q in case report of
        Some r \<Rightarrow> if ar_result r = Activation_REJECTED then finalize_rejection ops P E r
          else if ar_result r = Activation_VERIFIED then finalize_verified ops P (env_skip 1 E) r api
          else act_return \<lparr>ao_on_chain = report, ao_api = Some api, ao_action = Economy_none, ao_status = Activation_PENDING\<rparr>
      | None \<Rightarrow> act_return \<lparr>ao_on_chain = None, ao_api = Some api, ao_action = Economy_none, ao_status = Activation_PENDING\<rparr>)"

definition reconcile_activation ::
  "'l entry_ops \<Rightarrow> prims \<Rightarrow> eth_lib \<Rightarrow> env \<Rightarrow> activation_intent \<Rightarrow> activation_query \<Rightarrow>
     (('l, 'p) purchase_world, activation_outcome) act" where
  "reconcile_activation ops P H E i q w =
     (let op = pw_op w; g = cs_org (pw_cs w) in
      if op_tenant_id op \<noteq> og_tenant_id g \<or> op_organisation_id op \<noteq> og_id g
      then (raise UnauthorizedActionError ''Isolation violation: Cannot reconcile operation belonging to a different tenant or organisation'', w)
      else if op_action_type op \<noteq> ORBIO_CREDIT_ACTIVATION
      then (raise ReconciliationError ''Invalid action_type: expected ORBIO_CREDIT_ACTIVATION'', w)
      else if op_state op \<in> {Op_SUCCEEDED, Op_RECONCILED}
      then (Inr \<lparr>ao_on_chain = None, ao_api = None, ao_action = Economy_none, ao_status = Activation_VERIFIED\<rparr>, w)
      else act_bind (act_lift (case aq_receipt q of None \<Rightarrow> Inr None
          | Some receipt \<Rightarrow> map_sum id Some (verify_activation P H i (aq_chain_id q) receipt (aq_expected_sender q))))
        (reconcile_receipt ops P E q) w)"

end
