(* ===== verification/ActivationPreflight.thy ===== *)
theory ActivationPreflight
  imports Activation
begin

text \<open>
  The runtime guard of the live activation (\<open>src/settlement/orbio_activation_runtime.py\<close>) and its read-only preflight
  (\<open>src/settlement/orbio_activation_preflight.py\<close>).  The node is a parameter whose every answer may be an exception.
\<close>

section \<open>The runtime guard\<close>

record activation_runtime =
  rt_chain_id :: int
  rt_credit_contract :: string
  rt_rpc_url :: string
  rt_signer_configured :: bool
  rt_mode :: string

definition mk_activation_runtime :: "activation_runtime \<Rightarrow> activation_runtime result" where
  "mk_activation_runtime r =
     (if py_lower (rt_mode r) \<noteq> ''mainnet'' then raise MainnetActivationConfigError ''mode must be mainnet (no simulation fallback)''
      else if rt_chain_id r \<noteq> ORBIO_ACTIVATION_CHAIN_ID then raise MainnetActivationConfigError ''chain_id must be the activation chain''
      else if py_lower (rt_credit_contract r) \<noteq> ORBIO_CREDIT_ACTIVATION_CONTRACT
      then raise MainnetActivationConfigError ''credit_contract must be the activation contract''
      else if rt_rpc_url r = [] \<or> \<not> prefix ''http'' (rt_rpc_url r) then raise MainnetActivationConfigError ''rpc_url missing or invalid''
      else if \<not> rt_signer_configured r then raise MainnetActivationConfigError ''signer not configured; fail closed''
      else Inr r)"

definition runtime_from_env ::
  "int option \<Rightarrow> string option \<Rightarrow> string option \<Rightarrow> bool \<Rightarrow> string \<Rightarrow> activation_runtime result" where
  "runtime_from_env chain contract url signer mode =
     (case (chain, contract, url) of
        (Some c, Some k, Some u) \<Rightarrow> mk_activation_runtime \<lparr>rt_chain_id = c, rt_credit_contract = k, rt_rpc_url = u,
          rt_signer_configured = signer, rt_mode = mode\<rparr>
      | _ \<Rightarrow> raise MainnetActivationConfigError ''missing configuration: chain_id, credit_contract, and rpc_url are required'')"

section \<open>The node\<close>

text \<open>A balance may also be reported as \<open>None\<close>.\<close>

record read_only_rpc =
  ro_get_chain_id :: "int result"
  ro_get_code :: "string \<Rightarrow> string result"
  ro_eth_call :: "string \<Rightarrow> string \<Rightarrow> string result"
  ro_get_transaction_count :: "string \<Rightarrow> string \<Rightarrow> int result"
  ro_estimate_gas :: "string \<Rightarrow> string \<Rightarrow> string \<Rightarrow> string \<Rightarrow> int result"
  ro_get_balance :: "string \<Rightarrow> int option result"

definition encode_balance_of :: "string \<Rightarrow> string" where
  "encode_balance_of owner = ''0x70a08231'' @ zfill64 (py_remove ''0x'' (py_lower owner))"

definition encode_preview :: "eth_lib \<Rightarrow> int \<Rightarrow> string result" where
  "encode_preview H amount = bind_result (el_encode_uint256 H amount) (\<lambda>args.
     Inr (''0x'' @ bytes_hex (take 4 (el_keccak H ''previewActivation(uint256)'') @ args)))"

definition encode_fee_bps :: "eth_lib \<Rightarrow> string" where
  "encode_fee_bps H = ''0x'' @ bytes_hex (take 4 (el_keccak H ''activationFeeBps()''))"

definition parse_hex_word :: "string \<Rightarrow> nat \<Rightarrow> int option" where
  "parse_hex_word data k =
     (if data = [] \<or> data = ''0x'' \<or> data = ''0x0'' then None
      else let body = (if prefix ''0x'' data then drop 2 data else data) in
        if length body < (k + 1) * 64 then None else int_of_hex (take 64 (drop (k * 64) body)))"

section \<open>The preflight\<close>

record preflight_result =
  pf_ok :: bool
  pf_requested_amount :: int
  pf_chain_id :: "int option"
  pf_contract_has_code :: bool
  pf_operator_credit_balance :: "int option"
  pf_preview_credited :: "int option"
  pf_preview_fee_atoms :: "int option"
  pf_activation_fee_bps :: "int option"
  pf_nonce :: "int option"
  pf_gas_estimate :: "int option"
  pf_operator_eth_balance :: "int option"
  pf_calldata :: string
  pf_errors :: "string list"

definition new_preflight :: "int \<Rightarrow> string \<Rightarrow> preflight_result" where
  "new_preflight amount calldata = \<lparr>pf_ok = False, pf_requested_amount = amount, pf_chain_id = None, pf_contract_has_code = False,
     pf_operator_credit_balance = None, pf_preview_credited = None, pf_preview_fee_atoms = None, pf_activation_fee_bps = None,
     pf_nonce = None, pf_gas_estimate = None, pf_operator_eth_balance = None, pf_calldata = calldata, pf_errors = []\<rparr>"

definition fail_preflight :: "string \<Rightarrow> preflight_result \<Rightarrow> preflight_result" where
  "fail_preflight e r = r\<lparr>pf_errors := pf_errors r @ [e]\<rparr>"

definition need :: "bool \<Rightarrow> string \<Rightarrow> preflight_result \<Rightarrow> preflight_result" where
  "need b e r = (if b then r else fail_preflight e r)"

text \<open>Each check: what it asks, what it records, what it complains about.\<close>

definition preflight_chain :: "read_only_rpc \<Rightarrow> preflight_result \<Rightarrow> preflight_result" where
  "preflight_chain R r = (case ro_get_chain_id R of
       Inl x \<Rightarrow> fail_preflight ''eth_chainId failed'' r
     | Inr c \<Rightarrow> need (c = ORBIO_ACTIVATION_CHAIN_ID) ''chain_id mismatch'' (r\<lparr>pf_chain_id := Some c\<rparr>))"

definition preflight_code :: "read_only_rpc \<Rightarrow> string \<Rightarrow> preflight_result \<Rightarrow> preflight_result" where
  "preflight_code R contract r = (case ro_get_code R contract of
       Inl x \<Rightarrow> fail_preflight ''eth_getCode failed'' r
     | Inr code \<Rightarrow> (let has = code \<notin> {[], ''0x'', ''0x0''} in
         need has ''CREDIT contract has no bytecode on this RPC'' (r\<lparr>pf_contract_has_code := has\<rparr>)))"

definition preflight_balance :: "read_only_rpc \<Rightarrow> string \<Rightarrow> string \<Rightarrow> int \<Rightarrow> preflight_result \<Rightarrow> preflight_result" where
  "preflight_balance R operator contract amount r = (case ro_eth_call R contract (encode_balance_of operator) of
       Inl x \<Rightarrow> fail_preflight ''balanceOf failed'' r
     | Inr hex \<Rightarrow> (case parse_hex_word hex 0 of
         None \<Rightarrow> fail_preflight ''balanceOf returned empty or malformed response'' r
       | Some bal \<Rightarrow> need (amount \<le> bal) ''insufficient CREDIT'' (r\<lparr>pf_operator_credit_balance := Some bal\<rparr>)))"

definition preflight_preview :: "eth_lib \<Rightarrow> read_only_rpc \<Rightarrow> string \<Rightarrow> int \<Rightarrow> preflight_result \<Rightarrow> preflight_result" where
  "preflight_preview H R contract amount r =
     (case bind_result (encode_preview H amount) (ro_eth_call R contract) of
        Inl x \<Rightarrow> fail_preflight ''previewActivation failed'' r
      | Inr hex \<Rightarrow> (case (parse_hex_word hex 0, parse_hex_word hex 1) of
          (Some credited, Some fee) \<Rightarrow>
            need (credited + fee = amount) ''preview conservation failed''
              (need (fee \<le> amount) ''preview feeAtoms exceeds requested amount''
                (r\<lparr>pf_preview_credited := Some credited, pf_preview_fee_atoms := Some fee\<rparr>))
        | _ \<Rightarrow> fail_preflight ''previewActivation returned empty or malformed response'' r))"

definition preflight_fee :: "eth_lib \<Rightarrow> read_only_rpc \<Rightarrow> string \<Rightarrow> preflight_result \<Rightarrow> preflight_result" where
  "preflight_fee H R contract r = (case ro_eth_call R contract (encode_fee_bps H) of
       Inl x \<Rightarrow> fail_preflight ''activationFeeBps failed'' r
     | Inr hex \<Rightarrow> (case parse_hex_word hex 0 of
         None \<Rightarrow> fail_preflight ''activationFeeBps returned empty or malformed response'' r
       | Some bps \<Rightarrow> r\<lparr>pf_activation_fee_bps := Some bps\<rparr>))"

definition preflight_nonce :: "read_only_rpc \<Rightarrow> string \<Rightarrow> preflight_result \<Rightarrow> preflight_result" where
  "preflight_nonce R operator r = (case ro_get_transaction_count R operator ''pending'' of
       Inl x \<Rightarrow> fail_preflight ''nonce failed'' r | Inr n \<Rightarrow> r\<lparr>pf_nonce := Some n\<rparr>)"

definition preflight_native :: "read_only_rpc \<Rightarrow> string \<Rightarrow> activation_intent \<Rightarrow> preflight_result \<Rightarrow> preflight_result" where
  "preflight_native R operator i r = (case ro_get_balance R operator of
       Inl x \<Rightarrow> fail_preflight ''get_balance failed'' r
     | Inr None \<Rightarrow> fail_preflight ''get_balance returned None'' (r\<lparr>pf_operator_eth_balance := None\<rparr>)
     | Inr (Some bal) \<Rightarrow> (let r1 = r\<lparr>pf_operator_eth_balance := Some bal\<rparr> in
         if bal = 0 then fail_preflight ''operator ETH balance is zero; cannot pay gas'' r1
         else need (ai_gas_limit i * ai_max_fee_per_gas i \<le> bal) ''insufficient ETH for max gas reserve'' r1))"

definition preflight_gas :: "read_only_rpc \<Rightarrow> string \<Rightarrow> string \<Rightarrow> activation_intent \<Rightarrow> preflight_result \<Rightarrow> preflight_result" where
  "preflight_gas R operator contract i r = (case ro_estimate_gas R operator contract (pf_calldata r) ''0x0'' of
       Inl x \<Rightarrow> fail_preflight ''estimate_gas failed'' r
     | Inr gas \<Rightarrow> need (gas \<le> ai_gas_limit i) ''gas estimate exceeds intent gas_limit'' (r\<lparr>pf_gas_estimate := Some gas\<rparr>))"

definition run_preflight :: "eth_lib \<Rightarrow> read_only_rpc \<Rightarrow> string \<Rightarrow> activation_intent \<Rightarrow> preflight_result result" where
  "run_preflight H R operator_address i = bind_result (encode_activation H i) (\<lambda>calldata.
     let operator = py_lower operator_address; contract = py_lower (ai_credit_contract i); amount = ai_amount i;
         r1 = preflight_chain R (new_preflight amount calldata);
         r2 = need (contract = ORBIO_CREDIT_ACTIVATION_CONTRACT) ''credit_contract not allowlisted'' r1;
         r3 = preflight_balance R operator contract amount (preflight_code R contract r2);
         r4 = preflight_fee H R contract (preflight_preview H R contract amount r3);
         r5 = preflight_gas R operator contract i (preflight_native R operator i (preflight_nonce R operator r4))
     in Inr (r5\<lparr>pf_ok := pf_errors r5 = []\<rparr>))"

section \<open>What a successful preflight shows\<close>

lemma need_errors [simp]: "pf_errors (need b e r) = [] \<longleftrightarrow> b \<and> pf_errors r = []"
  by (simp add: need_def fail_preflight_def)

lemma need_true [simp]: "need True e r = r"
  by (simp add: need_def)

lemma fail_errors [simp]: "pf_errors (fail_preflight e r) \<noteq> []"
  by (simp add: fail_preflight_def)

text \<open>A check without a complaint: what it recorded, and what it found.\<close>

lemma preflight_chain_ok: "pf_errors (preflight_chain R r) = [] \<Longrightarrow>
    pf_errors r = [] \<and> preflight_chain R r = r\<lparr>pf_chain_id := Some ORBIO_ACTIVATION_CHAIN_ID\<rparr>"
  by (auto simp: preflight_chain_def split: sum.splits)

lemma preflight_code_ok: "pf_errors (preflight_code R c r) = [] \<Longrightarrow> pf_errors r = [] \<and> preflight_code R c r = r\<lparr>pf_contract_has_code := True\<rparr>"
  by (auto simp: preflight_code_def Let_def split: sum.splits)

lemma preflight_balance_ok: "pf_errors (preflight_balance R op c n r) = [] \<Longrightarrow>
    pf_errors r = [] \<and> (\<exists>bal \<ge> n. preflight_balance R op c n r = r\<lparr>pf_operator_credit_balance := Some bal\<rparr>)"
  by (auto simp: preflight_balance_def split: sum.splits option.splits)

lemma preflight_preview_ok: "pf_errors (preflight_preview H R c n r) = [] \<Longrightarrow>
    pf_errors r = [] \<and> (\<exists>credited fee. credited + fee = n \<and> fee \<le> n \<and>
      preflight_preview H R c n r = r\<lparr>pf_preview_credited := Some credited, pf_preview_fee_atoms := Some fee\<rparr>)"
  by (auto simp: preflight_preview_def split: sum.splits option.splits) fastforce

lemma preflight_fee_ok: "pf_errors (preflight_fee H R c r) = [] \<Longrightarrow>
    pf_errors r = [] \<and> (\<exists>bps. preflight_fee H R c r = r\<lparr>pf_activation_fee_bps := Some bps\<rparr>)"
  by (auto simp: preflight_fee_def split: sum.splits option.splits)

lemma preflight_nonce_ok: "pf_errors (preflight_nonce R op r) = [] \<Longrightarrow>
    pf_errors r = [] \<and> (\<exists>n. preflight_nonce R op r = r\<lparr>pf_nonce := Some n\<rparr>)"
  by (auto simp: preflight_nonce_def split: sum.splits)

lemma preflight_native_ok: "pf_errors (preflight_native R op i r) = [] \<Longrightarrow>
    pf_errors r = [] \<and> (\<exists>bal. bal \<noteq> 0 \<and> ai_gas_limit i * ai_max_fee_per_gas i \<le> bal \<and>
      preflight_native R op i r = r\<lparr>pf_operator_eth_balance := Some bal\<rparr>)"
  by (auto simp: preflight_native_def Let_def split: sum.splits option.splits if_splits)

lemma preflight_gas_ok: "pf_errors (preflight_gas R op c i r) = [] \<Longrightarrow>
    pf_errors r = [] \<and> (\<exists>gas \<le> ai_gas_limit i. preflight_gas R op c i r = r\<lparr>pf_gas_estimate := Some gas\<rparr>)"
  by (auto simp: preflight_gas_def split: sum.splits)

text \<open>
  A preflight that succeeds has seen all it needs: the activation chain and contract with code, a credit balance that covers the amount, a
  preview that conserves it, a fee, a nonce, native funds for the whole gas reserve, and a gas estimate within the
  limit.
\<close>

theorem preflight_ok_exact:
  assumes "run_preflight H R operator i = Inr r" "pf_ok r"
  shows "\<exists>bal credited fee eth gas. pf_operator_credit_balance r = Some bal \<and> ai_amount i \<le> bal \<and>
    pf_preview_credited r = Some credited \<and> pf_preview_fee_atoms r = Some fee \<and> credited + fee = ai_amount i \<and> fee \<le> ai_amount i \<and>
    pf_operator_eth_balance r = Some eth \<and> ai_gas_limit i * ai_max_fee_per_gas i \<le> eth \<and> eth \<noteq> 0 \<and>
    pf_gas_estimate r = Some gas \<and> gas \<le> ai_gas_limit i \<and> pf_chain_id r = Some ORBIO_ACTIVATION_CHAIN_ID \<and>
    py_lower (ai_credit_contract i) = ORBIO_CREDIT_ACTIVATION_CONTRACT \<and> pf_contract_has_code r \<and>
    pf_nonce r \<noteq> None \<and> pf_activation_fee_bps r \<noteq> None \<and> encode_activation H i = Inr (pf_calldata r)"
proof -
  obtain calldata where c: "encode_activation H i = Inr calldata" using assms(1) by (auto simp: run_preflight_def)
  let ?op = "py_lower operator" and ?k = "py_lower (ai_credit_contract i)" and ?n = "ai_amount i"
  define r1 where "r1 = preflight_chain R (new_preflight ?n calldata)"
  define r2 where "r2 = need (?k = ORBIO_CREDIT_ACTIVATION_CONTRACT) ''credit_contract not allowlisted'' r1"
  define r3 where "r3 = preflight_code R ?k r2"
  define r4 where "r4 = preflight_balance R ?op ?k ?n r3"
  define r5 where "r5 = preflight_preview H R ?k ?n r4"
  define r6 where "r6 = preflight_fee H R ?k r5"
  define r7 where "r7 = preflight_nonce R ?op r6"
  define r8 where "r8 = preflight_native R ?op i r7"
  define r9 where "r9 = preflight_gas R ?op ?k i r8"
  have r: "r = r9\<lparr>pf_ok := pf_errors r9 = []\<rparr>" using assms(1) c
    by (simp add: run_preflight_def Let_def r1_def r2_def r3_def r4_def r5_def r6_def r7_def r8_def r9_def)
  have "pf_errors r9 = []" using assms(2) r by simp
  from preflight_gas_ok [OF this [unfolded r9_def], folded r9_def] obtain gas where 9: "pf_errors r8 = []" "gas \<le> ai_gas_limit i"
      "r9 = r8\<lparr>pf_gas_estimate := Some gas\<rparr>" by blast
  from preflight_native_ok [OF 9(1) [unfolded r8_def], folded r8_def] obtain eth where 8: "pf_errors r7 = []" "eth \<noteq> 0"
      "ai_gas_limit i * ai_max_fee_per_gas i \<le> eth" "r8 = r7\<lparr>pf_operator_eth_balance := Some eth\<rparr>" by blast
  from preflight_nonce_ok [OF 8(1) [unfolded r7_def], folded r7_def] obtain nonce where 7: "pf_errors r6 = []" "r7 = r6\<lparr>pf_nonce := Some nonce\<rparr>" by blast
  from preflight_fee_ok [OF 7(1) [unfolded r6_def], folded r6_def] obtain bps where 6: "pf_errors r5 = []" "r6 = r5\<lparr>pf_activation_fee_bps := Some bps\<rparr>" by blast
  from preflight_preview_ok [OF 6(1) [unfolded r5_def], folded r5_def] obtain credited fee where 5: "pf_errors r4 = []" "credited + fee = ?n" "fee \<le> ?n"
      "r5 = r4\<lparr>pf_preview_credited := Some credited, pf_preview_fee_atoms := Some fee\<rparr>" by blast
  from preflight_balance_ok [OF 5(1) [unfolded r4_def], folded r4_def] obtain bal where 4: "pf_errors r3 = []" "?n \<le> bal"
      "r4 = r3\<lparr>pf_operator_credit_balance := Some bal\<rparr>" by blast
  from preflight_code_ok [OF 4(1) [unfolded r3_def], folded r3_def] have 3: "pf_errors r2 = []" "r3 = r2\<lparr>pf_contract_has_code := True\<rparr>" by blast+
  then have 2: "?k = ORBIO_CREDIT_ACTIVATION_CONTRACT" "pf_errors r1 = []" "r2 = r1" by (simp_all add: r2_def)
  from preflight_chain_ok [OF 2(2) [unfolded r1_def], folded r1_def] have 1: "r1 = (new_preflight ?n calldata)\<lparr>pf_chain_id := Some ORBIO_ACTIVATION_CHAIN_ID\<rparr>" by blast
  show ?thesis unfolding r 9(3) 8(4) 7(2) 6(2) 5(4) 4(3) 3(2) 2(3) 1
    using 9(2) 8(2,3) 5(2,3) 4(2) 2(1) c by (simp add: new_preflight_def)
qed

end
