(* ===== verification/ActivationTrust.thy ===== *)
theory ActivationTrust
  imports ActivationSettle ActivationPreflight PurchaseBooks
begin

text \<open>
  What the activation of credits guarantees: which intents are allowed, what the authorised operation signs, what a
  verified receipt shows, and what the reconciliation does to the books.
\<close>

section \<open>The policy\<close>

definition simulated_mode :: "string option \<Rightarrow> bool" where
  "simulated_mode m \<longleftrightarrow> py_truthy m \<and> py_lower (the m) \<in> {''simulation'', ''simulated'', ''sim''}"

definition activation_target_ok :: "activation_policy \<Rightarrow> activation_intent \<Rightarrow> string option \<Rightarrow> bool" where
  "activation_target_ok p i mode \<longleftrightarrow>
     (ap_forbid_testnet p \<longrightarrow> ai_chain_id i = ap_allowed_chain_id p \<and> ai_chain_id i \<noteq> 46630) \<and>
     (py_lower (ai_network i) \<in> {ap_allowed_network p, ''robinhood''} \<or> ai_chain_id i = ap_allowed_chain_id p) \<and>
     (ap_forbid_simulation p \<longrightarrow> \<not> simulated_mode mode) \<and> py_lower (ai_credit_contract i) = ap_allowed_credit_contract p"

definition activation_within :: "activation_policy \<Rightarrow> activation_intent \<Rightarrow> rat \<Rightarrow> bool" where
  "activation_within p i now \<longleftrightarrow> 0 < ai_amount i \<and> ai_amount i \<le> ap_max_activation_amount p \<and>
     ai_max_fee_per_gas i \<le> ap_max_fee_per_gas p \<and> ai_max_priority_fee_per_gas i \<le> ap_max_priority_fee_per_gas p \<and>
     ai_gas_limit i \<le> ap_max_gas_limit p \<and> (\<forall>d \<in> set_option (ai_deadline i). now \<le> of_int d)"

lemma check_activation_network_None: "check_activation_network p i mode = None \<longleftrightarrow> activation_target_ok p i mode"
  unfolding check_activation_network_def activation_target_ok_def simulated_mode_def by (simp split: if_splits)

lemma check_activation_bounds_None: "check_activation_bounds p i now = None \<longleftrightarrow> activation_within p i now"
  unfolding check_activation_bounds_def activation_within_def by (auto split: option.splits)

lemma evaluate_activation_allows:
  "ad_result (evaluate_activation P E now p i given mode) = Activation_ALLOW \<longleftrightarrow>
     activation_target_ok p i mode \<and> activation_within p i now \<and>
     (ap_require_human_approval p \<longrightarrow> (case (case given of None \<Rightarrow> map_of (ap_approvals p) (compute_activation_intent_hash P i) | Some a \<Rightarrow> Some a) of
        None \<Rightarrow> False | Some a \<Rightarrow> check_activation_approval P p a i now = None))"
  unfolding evaluate_activation_def Let_def check_activation_network_None [symmetric] check_activation_bounds_None [symmetric]
  by (auto split: option.splits prod.splits)

definition approval_fits :: "prims \<Rightarrow> activation_approval \<Rightarrow> activation_intent \<Rightarrow> rat \<Rightarrow> bool" where
  "approval_fits P a i now \<longleftrightarrow> now \<le> aa_expires_at a \<and> aa_intent_hash a = compute_activation_intent_hash P i \<and>
     aa_tenant_id a = ai_tenant_id i \<and> aa_organisation_id a = ai_organisation_id i \<and> aa_chain_id a = ai_chain_id i \<and>
     py_lower (aa_credit_contract a) = py_lower (ai_credit_contract i) \<and> aa_activation_amount a = ai_amount i"

lemma check_activation_approval_None:
  "check_activation_approval P p a i now = None \<longleftrightarrow> aa_approval_id a \<notin> ap_revoked p \<and> approval_fits P a i now"
  unfolding check_activation_approval_def activation_approval_refusal_def approval_fits_def by auto

text \<open>
  With the human gate on, an activation is allowed exactly when its target and amounts are within the policy and there
  is an approval for this intent that is neither expired nor revoked.
\<close>

theorem activation_allowed_exact:
  assumes "ap_require_human_approval p"
  shows "ad_result (evaluate_activation P E now p i (Some a) mode) = Activation_ALLOW \<longleftrightarrow>
     activation_target_ok p i mode \<and> activation_within p i now \<and> aa_approval_id a \<notin> ap_revoked p \<and> approval_fits P a i now"
  using assms by (simp add: evaluate_activation_allows check_activation_approval_None)

text \<open>
  The issuance token of an approval is never looked at, nor whether the policy issued it: whoever can build the record
  approves.
\<close>

theorem forged_activation_approval_accepted:
  assumes "activation_target_ok p i mode" "activation_within p i now" "aid \<notin> ap_revoked p"
  shows "ad_result (evaluate_activation P E now p i (Some
     \<lparr>aa_approval_id = aid, aa_intent_hash = compute_activation_intent_hash P i, aa_tenant_id = ai_tenant_id i,
      aa_organisation_id = ai_organisation_id i, aa_operator_id = [], aa_chain_id = ai_chain_id i,
      aa_credit_contract = ai_credit_contract i, aa_activation_amount = ai_amount i, aa_issued_at = now, aa_expires_at = now,
      aa_notes = None, aa_issuance_token = None\<rparr>) mode) = Activation_ALLOW"
  using assms by (simp add: evaluate_activation_allows check_activation_approval_None approval_fits_def)

section \<open>What an authorised operation signs\<close>

text \<open>A cleaned address is clean.\<close>

lemma lower_char_idem: "lower_char (lower_char c) = lower_char c"
  unfolding lower_char_def Let_def by (auto simp: of_char_small)

lemma is_space_lower: "is_space (lower_char c) = is_space c"
  unfolding lower_char_def is_space_def Let_def by (auto simp: of_char_small)

lemma py_lower_idem: "py_lower (py_lower s) = py_lower s"
  by (simp add: py_lower_def lower_char_idem)

lemma py_strip_lower: "py_strip (py_lower s) = py_lower (py_strip s)"
  by (simp add: py_strip_def py_lower_def rev_map dropWhile_map comp_def is_space_lower)

lemma dropWhile_hd: "xs = [] \<or> \<not> Q (hd xs) \<Longrightarrow> dropWhile Q xs = xs"
  by (cases xs) auto

lemma py_strip_idem: "py_strip (py_strip s) = py_strip s"
proof -
  define a where "a = dropWhile is_space s"
  define b where "b = rev (dropWhile is_space (rev a))"
  have "prefix b a" using suffix_dropWhile [of is_space "rev a"] by (simp add: b_def suffix_to_prefix)
  moreover have "a = [] \<or> \<not> is_space (hd a)" unfolding a_def by (meson hd_dropWhile)
  ultimately have "b = [] \<or> \<not> is_space (hd b)" by (cases b) (auto simp: prefix_def)
  then have "dropWhile is_space b = b" by (rule dropWhile_hd)
  moreover have "py_strip s = b" by (simp add: py_strip_def a_def b_def)
  moreover have "rev (dropWhile is_space (rev b)) = b" by (simp add: b_def)
  ultimately show ?thesis by (simp add: py_strip_def)
qed

lemma py_clean_idem: "py_lower (py_strip (py_clean s)) = py_clean s"
  unfolding py_clean_def py_strip_lower py_strip_idem py_lower_idem ..

lemma address_nonempty: "ETH_ADDRESS_PATTERN a \<Longrightarrow> a \<noteq> []"
  by (auto simp: ETH_ADDRESS_PATTERN_def hex_pattern_def)

lemma mk_activation_intent_Inr:
  assumes "mk_activation_intent i0 = Inr i"
  shows "ETH_ADDRESS_PATTERN (ai_credit_contract i)" "py_lower (py_strip (ai_credit_contract i)) = ai_credit_contract i"
    "21000 \<le> ai_gas_limit i" "0 \<le> ai_amount_credits i" "1 \<le> ai_amount i"
  using assms by (auto simp: mk_activation_intent_def Let_def py_clean_idem split: if_splits)

lemma strip_clean: "py_lower (py_strip c) = c \<Longrightarrow> py_strip c = c"
  by (metis py_strip_lower py_strip_idem)

text \<open>
  C14: what is signed is what was authorised.  Take a validated activation intent that the bridge turned into an operation.
  The provider then builds from that operation a transaction intent whose locally signed transaction calls \<open>activate\<close> with the
  authorised amount on the authorised contract, sends no value, and keeps the authorised chain and gas bounds;
  and that intent was within the policy.
\<close>

theorem activation_signed_as_authorised:
  assumes "mk_activation_intent i0 = Inr i" "prepare_activation_operation P H E now p i g approval mode pname = Inr (n, op)"
  shows "activation_target_ok p i mode \<and> activation_within p i now \<and>
    (\<exists>b args. build_intent P E2 C op = Inr b \<and> el_encode_uint256 H (ai_amount i) = Inr args \<and> bi_tenant_id b = ai_tenant_id i \<and>
       bi_organisation_id b = ai_organisation_id i \<and> bi_amount_credits b = ai_amount_credits i \<and>
       local_tx H b nonce = Inr \<lparr>tx_chain_id = ai_chain_id i, tx_nonce = nonce, tx_max_fee_per_gas = ai_max_fee_per_gas i,
         tx_max_priority_fee_per_gas = ai_max_priority_fee_per_gas i, tx_gas = ai_gas_limit i,
         tx_to = el_checksum H (ai_credit_contract i), tx_value = 0, tx_data = ACTIVATE_SELECTOR H @ args\<rparr>)"
proof -
  note i = mk_activation_intent_Inr [OF assms(1)]
  define d where "d = evaluate_activation P E now p i approval mode"
  have allow: "ad_result d = Activation_ALLOW"
    using assms(2) by (auto simp: prepare_activation_operation_def activation_prepare_def create_activation_operation_def
        activation_is_authorized_def Let_def d_def split: if_splits)
  obtain calldata where c: "encode_activation H i = Inr calldata"
    and op: "op_parameters op = AList.update ''policy_decision'' (activation_decision_audit d) (case to_operation_parameters P H i of Inr ps \<Rightarrow> ps)"
      "op_tenant_id op = ai_tenant_id i" "op_organisation_id op = ai_organisation_id i" "op_amount op = ai_amount_credits i"
    using assms(2) allow unfolding d_def
    by (auto simp: prepare_activation_operation_def activation_prepare_def create_activation_operation_def to_operation_parameters_def
        Let_def split: if_splits)
  obtain args where args: "el_encode_uint256 H (ai_amount i) = Inr args" "calldata = ''0x'' @ bytes_hex (ACTIVATE_SELECTOR H @ args)"
    using c by (auto simp: encode_activation_def encode_activate_calldata_def split: if_splits)
  have ps: "to_operation_parameters P H i = Inr (case to_operation_parameters P H i of Inr ps \<Rightarrow> ps)"
    using c by (simp add: to_operation_parameters_def)
  have "\<exists>b. build_intent P E2 C op = Inr b \<and> bi_tenant_id b = ai_tenant_id i \<and> bi_organisation_id b = ai_organisation_id i \<and>
      bi_amount_credits b = ai_amount_credits i \<and> bi_chain_id b = ai_chain_id i \<and> bi_max_fee_per_gas b = ai_max_fee_per_gas i \<and>
      bi_max_priority_fee_per_gas b = ai_max_priority_fee_per_gas i \<and> bi_gas_limit b = ai_gas_limit i \<and>
      bi_recipient b = ai_credit_contract i \<and> bi_amount_wei b = 0 \<and> bi_data_payload b = calldata"
    using i c op strip_clean [OF i(2)] address_nonempty [OF i(1)]
    by (cases "ai_mission_id i") (simp_all add: build_intent_def chain_recipient_def pget_def param_get_def to_operation_parameters_def Let_def
        token_text_def optional_text_def plain_text_def mk_blockchain_intent_def opt_json_def)
  then obtain b where b: "build_intent P E2 C op = Inr b" "bi_tenant_id b = ai_tenant_id i" "bi_organisation_id b = ai_organisation_id i"
      "bi_amount_credits b = ai_amount_credits i" "bi_chain_id b = ai_chain_id i" "bi_max_fee_per_gas b = ai_max_fee_per_gas i"
      "bi_max_priority_fee_per_gas b = ai_max_priority_fee_per_gas i" "bi_gas_limit b = ai_gas_limit i"
      "bi_recipient b = ai_credit_contract i" "bi_amount_wei b = 0" "bi_data_payload b = calldata" by blast
  have "local_tx H b nonce = Inr \<lparr>tx_chain_id = ai_chain_id i, tx_nonce = nonce, tx_max_fee_per_gas = ai_max_fee_per_gas i,
         tx_max_priority_fee_per_gas = ai_max_priority_fee_per_gas i, tx_gas = ai_gas_limit i,
         tx_to = el_checksum H (ai_credit_contract i), tx_value = 0, tx_data = ACTIVATE_SELECTOR H @ args\<rparr>"
    using b args(2) by (simp add: local_tx_def)
  then show ?thesis using b(1-4) args(1) allow unfolding d_def evaluate_activation_allows by blast
qed

section \<open>What a verified receipt shows\<close>

text \<open>The log is an \<open>Activated\<close> event of the credit contract with these values.\<close>

definition log_shows :: "eth_lib \<Rightarrow> json \<Rightarrow> activated_event \<Rightarrow> bool" where
  "log_shows H l ev \<longleftrightarrow> (\<exists>d t rest addr data. l = JObj d \<and> topics_of (param_get d ''topics'') = Inr (JStr t # rest) \<and>
     3 \<le> length rest \<and> py_lower t = py_lower (ACTIVATED_EVENT_TOPIC0 H) \<and>
     param_get d ''address'' = JStr addr \<and> py_lower addr = ORBIO_CREDIT_ACTIVATION_CONTRACT \<and>
     param_get d ''data'' = JStr data \<and> int_of_hex data = Some (ae_amount ev) \<and>
     py_int16 (rest ! 0) = Inr (ae_activation_id ev) \<and> topic_addr (rest ! 1) = Inr (ae_from ev))"

lemma json_lower_Inr: "json_lower v = Inr s \<longleftrightarrow> (\<exists>x. v = JStr x \<and> s = py_lower x)"
  by (cases v) auto

lemma data_uint_Some: "data_uint v = Inr (Some n) \<Longrightarrow> \<exists>x. v = JStr x \<and> int_of_hex x = Some n"
  by (cases v) (auto simp: data_uint_def split: if_splits)

lemma obj_get_Inr: "obj_get l k = Inr v \<longleftrightarrow> (\<exists>d. l = JObj d \<and> v = param_get d k)"
  by (cases l) auto

lemma scan_activated_Inr:
  assumes "scan_activated i l topics s = Inr s'"
  shows "(\<exists>r. s' = complain r s) \<or> (\<exists>d addr data ev. s' = s\<lparr>ls_activated := Some ev\<rparr> \<and> 4 \<le> length topics \<and> l = JObj d \<and>
     param_get d ''address'' = JStr addr \<and> py_lower addr = ORBIO_CREDIT_ACTIVATION_CONTRACT \<and>
     param_get d ''data'' = JStr data \<and> int_of_hex data = Some (ae_amount ev) \<and>
     py_int16 (topics ! 1) = Inr (ae_activation_id ev) \<and> topic_addr (topics ! 2) = Inr (ae_from ev))"
proof (cases "\<exists>r. s' = complain r s")
  case False
  have n4: "4 \<le> length topics" using assms False by (auto simp: scan_activated_def split: if_splits)
  obtain a addr where a: "obj_get l ''address'' = Inr a" "(if json_truthy a then json_lower a else Inr []) = Inr addr" "addr \<noteq> []"
      "addr = ORBIO_CREDIT_ACTIVATION_CONTRACT"
    using assms False by (auto simp: scan_activated_def split: if_splits)
  obtain data n aid frm ben where e: "obj_get l ''data'' = Inr data" "data_uint data = Inr (Some n)" "py_int16 (topics ! 1) = Inr aid"
      "topic_addr (topics ! 2) = Inr frm" "s' = s\<lparr>ls_activated := Some \<lparr>ae_activation_id = aid, ae_from = frm, ae_beneficiary = ben, ae_amount = n\<rparr>\<rparr>"
    using assms False by (auto simp: scan_activated_def split: if_splits option.splits)
  obtain x where x: "a = JStr x" "addr = py_lower x" using a by (auto simp: json_lower_Inr split: if_splits)
  obtain d where d: "l = JObj d" "a = param_get d ''address''" "data = param_get d ''data''" using a(1) e(1) by (auto simp: obj_get_Inr)
  obtain t where t: "data = JStr t" "int_of_hex t = Some n" using data_uint_Some [OF e(2)] by blast
  let ?ev = "\<lparr>ae_activation_id = aid, ae_from = frm, ae_beneficiary = ben, ae_amount = n\<rparr>"
  have "s' = s\<lparr>ls_activated := Some ?ev\<rparr> \<and> 4 \<le> length topics \<and> l = JObj d \<and> param_get d ''address'' = JStr x \<and>
      py_lower x = ORBIO_CREDIT_ACTIVATION_CONTRACT \<and> param_get d ''data'' = JStr t \<and> int_of_hex t = Some (ae_amount ?ev) \<and>
      py_int16 (topics ! 1) = Inr (ae_activation_id ?ev) \<and> topic_addr (topics ! 2) = Inr (ae_from ?ev)"
    using n4 a(4) e x d t by simp
  then show ?thesis by blast
qed simp

lemma scan_log_Inr:
  assumes "scan_log H i l s = Inr s'"
  shows "prefix (ls_reasons s) (ls_reasons s') \<and> (ls_activated s' = ls_activated s \<or> (\<exists>ev. ls_activated s' = Some ev \<and> log_shows H l ev))"
proof -
  obtain d topics where l: "l = JObj d" "topics_of (param_get d ''topics'') = Inr topics"
    using assms by (auto simp: scan_log_def obj_get_Inr)
  show ?thesis
  proof (cases "\<exists>t rest. topics = JStr t # rest \<and> py_lower t = py_lower (ACTIVATED_EVENT_TOPIC0 H)")
    case True
    then obtain t rest where t: "topics = JStr t # rest" "py_lower t = py_lower (ACTIVATED_EVENT_TOPIC0 H)" by blast
    then have "scan_activated i l topics s = Inr s'" using assms l by (simp add: scan_log_def)
    from scan_activated_Inr [OF this] show ?thesis using l t by (auto simp: complain_def log_shows_def)
  next
    case False
    then show ?thesis using assms l by (auto simp: scan_log_def split: list.splits json.splits if_splits)
  qed
qed

lemma scan_logs_Inr:
  assumes "scan_logs H i ls s = Inr s'"
  shows "prefix (ls_reasons s) (ls_reasons s') \<and>
    (ls_activated s' = ls_activated s \<or> (\<exists>l \<in> set ls. \<exists>ev. ls_activated s' = Some ev \<and> log_shows H l ev))"
  using assms
proof (induction ls arbitrary: s)
  case (Cons l ls)
  then obtain s1 where 1: "scan_log H i l s = Inr s1" "scan_logs H i ls s1 = Inr s'" by auto
  show ?case using scan_log_Inr [OF 1(1)] Cons.IH [OF 1(2)] by (auto intro: prefix_order.trans)
qed simp

lemma unless_Nil [simp]: "unless b r = [] \<longleftrightarrow> b"
  by (simp add: unless_def)

text \<open>
  C16: a verified report shows an activation.  The receipt is a successful one of the activation chain, sent to the credit
  contract, and one of its logs is an \<open>Activated\<close> event of that contract for exactly the amount of the intent,
  from the expected sender.
\<close>

theorem verified_activation_matches:
  assumes "verify_activation P H i chain receipt expected = Inr r" "ar_result r = Activation_VERIFIED"
  shows "\<exists>sender ls l ev. expected = Some sender \<and> sender \<noteq> [] \<and> chain = ORBIO_ACTIVATION_CHAIN_ID \<and> receipt_success receipt \<and>
    py_lower (py_text P (param_get receipt ''to'')) = ORBIO_CREDIT_ACTIVATION_CONTRACT \<and>
    py_lower (ai_credit_contract i) = ORBIO_CREDIT_ACTIVATION_CONTRACT \<and>
    iter_json (param_get receipt ''logs'') = Inr ls \<and> l \<in> set ls \<and> log_shows H l ev \<and> ae_amount ev = ai_amount i \<and>
    py_lower (ae_from ev) = py_lower sender \<and> ar_activation_id r = Some (ae_activation_id ev)"
proof -
  let ?s0 = "\<lparr>ls_reasons = receipt_complaints P i chain receipt, ls_activated = None, ls_fee_atoms = None\<rparr>"
  have t: "py_truthy expected"
    using assms by (auto simp: verify_activation_def report_on_def Let_def split: if_splits)
  then obtain ls s where ls: "(if json_truthy (param_get receipt ''logs'') then iter_json (param_get receipt ''logs'') else Inr []) = Inr ls"
      and s: "scan_logs H i ls ?s0 = Inr s"
    using assms(1) by (auto simp: verify_activation_def Let_def)
  obtain ev where ev: "ls_activated s = Some ev" "ls_reasons s @ event_complaints i (the expected) ev = []"
      "ar_activation_id r = Some (ae_activation_id ev)"
    using assms t ls s by (auto simp: verify_activation_def report_on_def Let_def split: if_splits option.splits)
  obtain l where l: "l \<in> set ls" "log_shows H l ev" using scan_logs_Inr [OF s] ev(1) by auto
  have "receipt_complaints P i chain receipt = []" using scan_logs_Inr [OF s] ev(2) by simp
  then have c: "chain = ORBIO_ACTIVATION_CHAIN_ID" "receipt_success receipt" "py_lower (ai_credit_contract i) = ORBIO_CREDIT_ACTIVATION_CONTRACT"
      "py_lower (py_text P (param_get receipt ''to'')) = ORBIO_CREDIT_ACTIVATION_CONTRACT"
    by (auto simp: receipt_complaints_def Let_def split: if_splits)
  have e: "ae_amount ev = ai_amount i" "py_lower (ae_from ev) = py_lower (the expected)"
    using ev(2) by (auto simp: event_complaints_def split: if_splits)
  have "iter_json (param_get receipt ''logs'') = Inr ls" using ls l(1) by (auto split: if_splits)
  moreover obtain sender where "expected = Some sender" "sender \<noteq> []" using t by (cases expected) auto
  ultimately show ?thesis using c e l ev(3) by auto
qed

text \<open>The report depends on the amount and the contract of the intent only: one event verifies every operation of that amount.\<close>

lemma scan_activated_reusable:
  "py_lower (ai_credit_contract j) = py_lower (ai_credit_contract i) \<Longrightarrow> scan_activated j = scan_activated i"
  by (intro ext) (simp only: scan_activated_def)

lemma scan_logs_reusable:
  assumes "py_lower (ai_credit_contract j) = py_lower (ai_credit_contract i)"
  shows "scan_logs H j ls s = scan_logs H i ls s"
proof (induction ls arbitrary: s)
  case (Cons l ls)
  have "scan_log H j l = scan_log H i l" by (intro ext) (simp only: scan_log_def scan_activated_reusable [OF assms])
  then show ?case using Cons by (simp add: fun_eq_iff bind_result_def split: sum.split)
qed simp

theorem activation_receipt_reusable:
  assumes "ai_amount j = ai_amount i" "py_lower (ai_credit_contract j) = py_lower (ai_credit_contract i)"
  shows "verify_activation P H j chain receipt expected = verify_activation P H i chain receipt expected"
proof -
  have "receipt_complaints P j chain receipt = receipt_complaints P i chain receipt" unfolding receipt_complaints_def assms(2) ..
  moreover have "event_complaints j x = event_complaints i x" for x by (intro ext) (simp only: event_complaints_def assms(1))
  ultimately show ?thesis by (simp only: verify_activation_def scan_logs_reusable [OF assms(2)])
qed

end
