(* ===== verification/ActivationBooks.thy ===== *)
theory ActivationBooks
  imports ActivationTrust
begin

text \<open>What the reconciliation of an activation does to the books, on every ledger with the interface \<open>total_ledger\<close>.\<close>

section \<open>Steps\<close>

lemma activation_event_books: "books_kept (activation_event P E ty ex)"
  by (simp add: books_kept_def activation_event_def on_cs_def log_event_def split: option.split)

lemma submit_escrowed_Inr:
  assumes "submit_escrowed E w = (Inr u, w')"
  shows "pw_cs w' = pw_cs w \<and> same_identity (pw_op w) (pw_op w') \<and>
    op_state (pw_op w') = (if op_state (pw_op w) = Op_ESCROWED then Op_SUBMITTED else op_state (pw_op w))"
  using assms by (auto simp: submit_escrowed_def same_identity_def dest!: op_moves_Inr split: if_splits)

lemma activation_moves_on_Inr:
  assumes "activation_moves_on E api_ok ref w = (Inr u, w')"
  shows "pw_cs w' = pw_cs w \<and> same_identity (pw_op w) (pw_op w') \<and> op_state (pw_op w') = (if api_ok then Op_SUCCEEDED else Op_RECONCILED)"
proof (cases api_ok)
  case True
  then show ?thesis using assms op_moves_Inr [of E Op_SUCCEEDED None ref w u w'] by (simp add: activation_moves_on_def)
next
  case False
  then obtain a w1 where 1: "(if op_state (pw_op w) \<noteq> Op_RECONCILING then op_moves E Op_RECONCILING None ref w else (Inr (), w)) = (Inr a, w1)"
      and 2: "op_moves (env_skip 1 E) Op_RECONCILED None ref w1 = (Inr u, w')"
    using assms by (auto simp: activation_moves_on_def elim!: bind_Inr_elim)
  have "pw_cs w1 = pw_cs w \<and> same_identity (pw_op w) (pw_op w1)"
    using 1 op_moves_Inr [of E Op_RECONCILING None ref w a w1] by (auto simp: same_identity_def split: if_splits)
  then show ?thesis using op_moves_Inr [OF 2] False same_identity_trans by auto
qed

text \<open>The escrow of the operation goes to an account once: unless an entry has the transaction id, or the escrow does not hold it.\<close>

definition activation_paid ::
  "('l \<Rightarrow> string \<Rightarrow> int) \<Rightarrow> ('l \<Rightarrow> ledger_entry list) \<Rightarrow> string \<Rightarrow> string \<Rightarrow> consequential_operation \<Rightarrow> bool \<Rightarrow> 'l \<Rightarrow> 'l \<Rightarrow> bool"
where
  "activation_paid b g tx dest op paid L L' \<longleftrightarrow>
     (if 0 < op_amount op \<and> (\<forall>e \<in> set (g L). le_transaction_id e \<noteq> tx) \<and> op_amount op \<le> b L ESCROW
      then paid \<and> escrow_moved b (op_amount op) dest L L' else \<not> paid \<and> L' = L)"

definition activation_reconciled ::
  "('l \<Rightarrow> string \<Rightarrow> int) \<Rightarrow> ('l \<Rightarrow> ledger_entry list) \<Rightarrow> prims \<Rightarrow> activation_outcome \<Rightarrow>
     ('l, 'p) purchase_world \<Rightarrow> ('l, 'p) purchase_world \<Rightarrow> bool" where
  "activation_reconciled b g P out w w' \<longleftrightarrow> same_identity (pw_op w) (pw_op w') \<and>
     (let L = cs_ledger (pw_cs w); L' = cs_ledger (pw_cs w'); op = pw_op w in case ao_status out of
        Activation_VERIFIED \<Rightarrow> op_state (pw_op w') \<in> {Op_SUCCEEDED, Op_RECONCILED} \<and>
          activation_paid b g (rec_tx P ''tx-act-rec-'' op) EXTERNAL_SINK op (ao_action out = Economy_settled) L L'
      | Activation_REJECTED \<Rightarrow> op_state (pw_op w') = Op_FAILED \<and>
          activation_paid b g (rec_tx P ''rollback-act-rec-'' op) TREASURY op (ao_action out = Economy_refunded) L L'
      | Activation_PENDING \<Rightarrow> w' = w \<and> ao_action out = Economy_none)"

text \<open>The report a query leads to.\<close>

definition query_report :: "prims \<Rightarrow> eth_lib \<Rightarrow> activation_intent \<Rightarrow> activation_query \<Rightarrow> activation_report option result" where
  "query_report P H i q = (case aq_receipt q of None \<Rightarrow> Inr None
     | Some receipt \<Rightarrow> map_sum id Some (verify_activation P H i (aq_chain_id q) receipt (aq_expected_sender q)))"

context total_ledger
begin

lemma activation_release_pays:
  assumes "inv (cs_ledger (pw_cs w))" "\<not> known (cs_ledger (pw_cs w)) (rec_tx P pre (pw_op w))" "pre \<noteq> []" "dest \<noteq> ESCROW"
    and due: "0 < op_amount (pw_op w)" "\<forall>e \<in> set (g (cs_ledger (pw_cs w))). le_transaction_id e \<noteq> rec_tx P pre (pw_op w)"
      "op_amount (pw_op w) \<le> bal (cs_ledger (pw_cs w)) ESCROW"
  shows "\<exists>w'. activation_release (entry_ops_of bal post g) P E pre dest memo w = (Inr True, w') \<and> pw_op w' = pw_op w \<and>
    escrow_moved bal (op_amount (pw_op w)) dest (cs_ledger (pw_cs w)) (cs_ledger (pw_cs w'))"
proof -
  have n: "0 \<le> op_amount (pw_op w)" using due(1) by simp
  have tx: "rec_tx P pre (pw_op w) \<noteq> []" using assms(3) by (simp add: rec_tx_def)
  obtain s' where s': "settle_escrow (entry_ops_of bal post g) E (pw_op w) dest (memo @ op_id (pw_op w)) (rec_tx P pre (pw_op w)) (pw_cs w) = (Inr (), s')"
      "escrow_moved bal (op_amount (pw_op w)) dest (cs_ledger (pw_cs w)) (cs_ledger s')"
    using settle_escrow_moves [OF assms(1) tx assms(2) n due(3) assms(4), of g E "memo @ op_id (pw_op w)"] by blast
  then have "on_cs (act_bind (cons_move (entry_ops_of bal post g) E ESCROW dest (op_amount (pw_op w)) (memo @ op_id (pw_op w)) (rec_tx P pre (pw_op w)))
      (\<lambda>_. refresh_treasury (entry_ops_of bal post g))) w = (Inr (), w\<lparr>pw_cs := s'\<rparr>)"
    using due(1) by (simp add: on_cs_def settle_escrow_def)
  then have "activation_release (entry_ops_of bal post g) P E pre dest memo w = (Inr True, w\<lparr>pw_cs := s'\<rparr>)"
    using due by (auto simp: activation_release_def Let_def act_bind_def act_return_def)
  then show ?thesis using s'(2) by simp
qed

lemma activation_release_effect:
  assumes run: "activation_release (entry_ops_of bal post g) P E pre dest memo w = (Inr paid, w')"
    and pre: "inv (cs_ledger (pw_cs w))" "\<not> known (cs_ledger (pw_cs w)) (rec_tx P pre (pw_op w))" "pre \<noteq> []" "dest \<noteq> ESCROW"
  shows "pw_op w' = pw_op w \<and> activation_paid bal g (rec_tx P pre (pw_op w)) dest (pw_op w) paid (cs_ledger (pw_cs w)) (cs_ledger (pw_cs w'))"
proof (cases "0 < op_amount (pw_op w) \<and> (\<forall>e \<in> set (g (cs_ledger (pw_cs w))). le_transaction_id e \<noteq> rec_tx P pre (pw_op w)) \<and>
    op_amount (pw_op w) \<le> bal (cs_ledger (pw_cs w)) ESCROW")
  case True
  then show ?thesis using activation_release_pays [OF pre, of g E memo] run by (auto simp: activation_paid_def)
next
  case False
  then have "\<not> paid \<and> w' = w" using run by (auto simp: activation_release_def Let_def split: if_splits)
  then show ?thesis using False by (auto simp: activation_paid_def)
qed

lemma finalize_rejection_effect:
  assumes run: "finalize_rejection (entry_ops_of bal post g) P E report w = (Inr out, w')"
    and inv: "inv (cs_ledger (pw_cs w))" and new: "\<not> known (cs_ledger (pw_cs w)) (rec_tx P ''rollback-act-rec-'' (pw_op w))"
  shows "activation_reconciled bal g P out w w' \<and> ao_status out = Activation_REJECTED"
proof -
  obtain paid w1 u1 w2 u2 w3 u3 w4 u4 w5 where 1: "activation_release (entry_ops_of bal post g) P E ''rollback-act-rec-'' TREASURY ''Orbio activation refund for '' w = (Inr paid, w1)"
      and 2: "submit_escrowed (env_skip 2 E) w1 = (Inr u1, w2)"
      and 3: "op_moves (env_skip 3 E) Op_FAILED (Some (if ar_reasons report \<noteq> [] then py_join ''; '' (ar_reasons report)
        else ''On-chain activation rejected'')) None w2 = (Inr u2, w3)"
      and 4: "rec_save w3 = (Inr u3, w4)"
      and 5: "activation_event P (env_skip 4 E) ''ORBIO_ACTIVATION_RECONCILED_REJECTED''
        [(''reasons'', JList (map JStr (ar_reasons report))), (''economic_action'', JStr (if paid then ''refunded'' else ''none''))] w4 = (Inr u4, w5)"
      and 6: "w' = w5" "out = \<lparr>ao_on_chain = Some report, ao_api = None, ao_action = (if paid then Economy_refunded else Economy_none), ao_status = Activation_REJECTED\<rparr>"
    using run unfolding finalize_rejection_def by (auto elim!: bind_Inr_elim simp: act_return_def)
  have p: "pw_op w1 = pw_op w" "activation_paid bal g (rec_tx P ''rollback-act-rec-'' (pw_op w)) TREASURY (pw_op w) paid (cs_ledger (pw_cs w)) (cs_ledger (pw_cs w1))"
    using activation_release_effect [OF 1 inv new] by (simp_all add: TREASURY_def ESCROW_def)
  have "same_identity (pw_op w) (pw_op w3)" "op_state (pw_op w3) = Op_FAILED" "cs_ledger (pw_cs w3) = cs_ledger (pw_cs w1)"
    using submit_escrowed_Inr [OF 2] op_moves_Inr [OF 3] same_identity_trans p(1) by auto
  then show ?thesis using books_keptD [OF rec_save_books 4] books_keptD [OF activation_event_books 5] 6 p(2)
    by (cases paid) (simp_all add: activation_reconciled_def Let_def)
qed

lemma finalize_verified_effect:
  assumes run: "finalize_verified (entry_ops_of bal post g) P E report api w = (Inr out, w')"
    and inv: "inv (cs_ledger (pw_cs w))" and new: "\<not> known (cs_ledger (pw_cs w)) (rec_tx P ''tx-act-rec-'' (pw_op w))"
  shows "activation_reconciled bal g P out w w' \<and> ao_status out = Activation_VERIFIED \<and>
    op_state (pw_op w') = (if api_is_confirmed api then Op_SUCCEEDED else Op_RECONCILED)"
proof -
  obtain paid w1 u1 w2 u2 w3 u3 w4 u4 w5 where 1: "activation_release (entry_ops_of bal post g) P E ''tx-act-rec-'' EXTERNAL_SINK ''Orbio activation settlement for '' w = (Inr paid, w1)"
      and 2: "submit_escrowed (env_skip 2 E) w1 = (Inr u1, w2)"
      and 3: "activation_moves_on (env_skip 3 E) (api_is_confirmed api) (reference_of (ar_tx_hash report)) w2 = (Inr u2, w3)"
      and 4: "rec_save w3 = (Inr u3, w4)"
      and 5: "activation_event P (env_skip 5 E) ''ORBIO_ACTIVATION_RECONCILED_VERIFIED''
        [(''on_chain_verified'', JBool True), (''api_balance_confirmed'', JBool (api_is_confirmed api)), (''tx_hash'', ar_tx_hash report),
         (''activation_id'', (case ar_activation_id report of None \<Rightarrow> JNull | Some n \<Rightarrow> JInt n)),
         (''economic_action'', JStr (if paid then ''settled'' else ''none''))] w4 = (Inr u4, w5)"
      and 6: "w' = w5" "out = \<lparr>ao_on_chain = Some report, ao_api = Some api, ao_action = (if paid then Economy_settled else Economy_none), ao_status = Activation_VERIFIED\<rparr>"
    using run unfolding finalize_verified_def by (auto elim!: bind_Inr_elim simp: act_return_def)
  have p: "pw_op w1 = pw_op w" "activation_paid bal g (rec_tx P ''tx-act-rec-'' (pw_op w)) EXTERNAL_SINK (pw_op w) paid (cs_ledger (pw_cs w)) (cs_ledger (pw_cs w1))"
    using activation_release_effect [OF 1 inv new] by (simp_all add: EXTERNAL_SINK_def ESCROW_def)
  have "same_identity (pw_op w) (pw_op w3)" "cs_ledger (pw_cs w3) = cs_ledger (pw_cs w1)"
      "op_state (pw_op w3) = (if api_is_confirmed api then Op_SUCCEEDED else Op_RECONCILED)"
    using submit_escrowed_Inr [OF 2] activation_moves_on_Inr [OF 3] same_identity_trans p(1) by auto
  then show ?thesis using books_keptD [OF rec_save_books 4] books_keptD [OF activation_event_books 5] 6 p(2)
    by (cases paid) (simp_all add: activation_reconciled_def Let_def)
qed

lemma reconcile_activation_effect:
  assumes run: "reconcile_activation (entry_ops_of bal post g) P H E i q w = (Inr out, w')"
    and open_op: "op_state (pw_op w) \<notin> {Op_SUCCEEDED, Op_RECONCILED}" and inv: "inv (cs_ledger (pw_cs w))"
    and new: "\<not> known (cs_ledger (pw_cs w)) (rec_tx P ''tx-act-rec-'' (pw_op w))" "\<not> known (cs_ledger (pw_cs w)) (rec_tx P ''rollback-act-rec-'' (pw_op w))"
  shows "activation_reconciled bal g P out w w' \<and> (\<exists>report. query_report P H i q = Inr report \<and>
    (ao_status out = Activation_VERIFIED \<longleftrightarrow> map_option ar_result report = Some Activation_VERIFIED) \<and>
    (ao_status out = Activation_REJECTED \<longleftrightarrow> map_option ar_result report = Some Activation_REJECTED) \<and>
    (ao_status out = Activation_VERIFIED \<longrightarrow> (op_state (pw_op w') = Op_SUCCEEDED \<longleftrightarrow> api_is_confirmed (query_api P E q))))"
proof -
  have "act_bind (act_lift (query_report P H i q)) (reconcile_receipt (entry_ops_of bal post g) P E q) w = (Inr out, w')"
    using run open_op unfolding reconcile_activation_def Let_def query_report_def [symmetric] by (auto split: if_splits)
  then obtain report where rep: "query_report P H i q = Inr report" and tail: "reconcile_receipt (entry_ops_of bal post g) P E q report w = (Inr out, w')"
    by (auto elim!: bind_Inr_elim simp: act_lift_def)
  have pending: ?thesis if "out = \<lparr>ao_on_chain = report, ao_api = Some (query_api P E q), ao_action = Economy_none, ao_status = Activation_PENDING\<rparr>"
      "w' = w" "map_option ar_result report \<notin> {Some Activation_VERIFIED, Some Activation_REJECTED}"
    using that rep by (auto simp: activation_reconciled_def same_identity_def)
  show ?thesis
  proof (cases report)
    case None
    then show ?thesis using tail by (intro pending) (auto simp: reconcile_receipt_def Let_def act_return_def)
  next
    case (Some r)
    consider "ar_result r = Activation_REJECTED" | "ar_result r = Activation_VERIFIED" | "ar_result r = Activation_PENDING"
      by (cases "ar_result r")
    then show ?thesis
    proof cases
      case 1
      then have "finalize_rejection (entry_ops_of bal post g) P E r w = (Inr out, w')"
        using tail Some by (simp add: reconcile_receipt_def Let_def)
      from finalize_rejection_effect [OF this inv new(2)] show ?thesis using rep Some 1 by simp
    next
      case 2
      then have "finalize_verified (entry_ops_of bal post g) P (env_skip 1 E) r (query_api P E q) w = (Inr out, w')"
        using tail Some by (simp add: reconcile_receipt_def Let_def)
      from finalize_verified_effect [OF this inv new(1)] show ?thesis using rep Some 2 by simp
    next
      case 3
      then show ?thesis using tail Some by (intro pending) (auto simp: reconcile_receipt_def Let_def act_return_def)
    qed
  qed
qed

end

section \<open>The in-memory ledger\<close>


text \<open>
  FAILED does not end it.  When a rejected, already refunded activation is reconciled again with a verified receipt, the
  amount leaves the escrow a second time, from what other operations hold there, before the transition is refused.
\<close>

theorem failed_activation_pays_again:
  assumes "ledger_inv (cs_ledger (pw_cs w))" "op_state (pw_op w) = Op_FAILED" "op_action_type (pw_op w) = ORBIO_CREDIT_ACTIVATION"
    and "op_tenant_id (pw_op w) = og_tenant_id (cs_org (pw_cs w))" "op_organisation_id (pw_op w) = og_id (cs_org (pw_cs w))"
    and "query_report P H i q = Inr (Some r)" "ar_result r = Activation_VERIFIED"
    and "rec_tx P ''tx-act-rec-'' (pw_op w) \<notin> lg_recorded_tx_ids (cs_ledger (pw_cs w))"
    and "0 < op_amount (pw_op w)" "op_amount (pw_op w) \<le> get_balance (cs_ledger (pw_cs w)) ESCROW"
  shows "\<exists>m w'. reconcile_activation mem_entry_ops P H E i q w = (raise InvalidStateTransitionError m, w') \<and>
    escrow_moved get_balance (op_amount (pw_op w)) EXTERNAL_SINK (cs_ledger (pw_cs w)) (cs_ledger (pw_cs w'))"
proof -
  have unpaid: "\<forall>e \<in> set (get_entries (cs_ledger (pw_cs w)) None). le_transaction_id e \<noteq> rec_tx P ''tx-act-rec-'' (pw_op w)"
    using mem_entries_known [OF assms(1)] assms(8) by metis
  obtain w1 where w1: "activation_release mem_entry_ops P (env_skip 1 E) ''tx-act-rec-'' EXTERNAL_SINK ''Orbio activation settlement for '' w = (Inr True, w1)"
      "pw_op w1 = pw_op w" "escrow_moved get_balance (op_amount (pw_op w)) EXTERNAL_SINK (cs_ledger (pw_cs w)) (cs_ledger (pw_cs w1))"
    using mem_total.activation_release_pays [of w P "''tx-act-rec-''" EXTERNAL_SINK "\<lambda>L. get_entries L None", OF assms(1,8) _ _ assms(9) unpaid assms(10)]
    unfolding mem_entry_ops_def by (auto simp: ESCROW_def EXTERNAL_SINK_def)
  have stuck: "\<exists>m. activation_moves_on E' ok ref w1 = (raise InvalidStateTransitionError m, w1)" for E' ok ref
    using assms(2) w1(2) by (simp add: activation_moves_on_def op_moves_def transition_to_def act_bind_def)
  obtain m where m: "activation_moves_on (env_skip 3 (env_skip 1 E)) (api_is_confirmed (query_api P E q)) (reference_of (ar_tx_hash r)) w1
      = (raise InvalidStateTransitionError m, w1)" using stuck by blast
  have "submit_escrowed (env_skip 2 (env_skip 1 E)) w1 = (Inr (), w1)" using assms(2) w1(2) by (simp add: submit_escrowed_def)
  then have "finalize_verified mem_entry_ops P (env_skip 1 E) r (query_api P E q) w = (raise InvalidStateTransitionError m, w1)"
    unfolding finalize_verified_def using w1(1) m by (simp add: act_bind_Inr act_bind_Inl)
  then have "reconcile_receipt mem_entry_ops P E q (Some r) w = (raise InvalidStateTransitionError m, w1)"
    using assms(7) by (simp add: reconcile_receipt_def Let_def)
  then have "reconcile_activation mem_entry_ops P H E i q w = (raise InvalidStateTransitionError m, w1)"
    unfolding reconcile_activation_def Let_def query_report_def [symmetric] assms(6) using assms(2-5) by (simp add: act_bind_def act_lift_def)
  then show ?thesis using w1(3) by blast
qed

end
