(* ===== verification/ChainTrust.thy ===== *)
theory ChainTrust
  imports ChainProvider
begin

text \<open>
  What the chain client guarantees: operations of one account never share a nonce, a retried operation is the same
  transaction, and an outcome is reported as the receipt has it.
\<close>

section \<open>Nonces\<close>

text \<open>The allocations made by a manager so far, latest first: account, operation and idempotency key, nonce.  The node may
  change at any time.\<close>

type_synonym nonce_log = "((string \<times> int) \<times> (string \<times> string) \<times> int) list"

inductive nonce_history :: "nonce_manager \<times> 'c \<Rightarrow> nonce_log \<Rightarrow> bool" where
  history_start: "nonce_history (new_nonce_manager, x) []"
| history_node: "nonce_history (N, x) L \<Longrightarrow> nonce_history (N, y) L"
| history_again: "nonce_history S L \<Longrightarrow> k \<in> fst ` snd ` set L \<Longrightarrow>
    get_or_allocate_nonce s c (fst k) (snd k) fetch S = (r, S') \<Longrightarrow> nonce_history S' L"
| history_new: "nonce_history S L \<Longrightarrow> k \<notin> fst ` snd ` set L \<Longrightarrow>
    get_or_allocate_nonce s c (fst k) (snd k) fetch S = (Inr n, S') \<Longrightarrow> nonce_history S' ((account_key s c, k, n) # L)"
| history_failed: "nonce_history S L \<Longrightarrow>
    get_or_allocate_nonce s c (fst k) (snd k) fetch S = (Inl e, S') \<Longrightarrow> nonce_history S' L"

lemma allocate_known:
  "map_of (nm_assigned_nonces N) (i, k) = Some n \<Longrightarrow> get_or_allocate_nonce s c i k fetch (N, x) = (Inr n, N, x)"
  by (simp add: get_or_allocate_nonce_def)

lemma allocate_new:
  assumes "map_of (nm_assigned_nonces N) (i, k) = None" "fetch x = (Inr m, y)"
  shows "get_or_allocate_nonce s c i k fetch (N, x) = (let n = max m (dict_get (nm_next_nonces N) (account_key s c) 0) in
    (Inr n, N\<lparr>nm_assigned_nonces := AList.update (i, k) n (nm_assigned_nonces N),
       nm_next_nonces := AList.update (account_key s c) (n + 1) (nm_next_nonces N)\<rparr>, y))"
  using assms by (simp add: get_or_allocate_nonce_def Let_def)

lemma allocate_Inl: "get_or_allocate_nonce s c i k fetch (N, x) = (Inl e, N', x') \<Longrightarrow> N' = N"
  by (auto simp: get_or_allocate_nonce_def Let_def split: option.splits prod.splits sum.splits)

lemma allocate_new_Inr:
  assumes "get_or_allocate_nonce s c i k fetch (N, x) = (Inr n, N', x')" "map_of (nm_assigned_nonces N) (i, k) = None"
  shows "dict_get (nm_next_nonces N) (account_key s c) 0 \<le> n \<and>
    N' = N\<lparr>nm_assigned_nonces := AList.update (i, k) n (nm_assigned_nonces N),
       nm_next_nonces := AList.update (account_key s c) (n + 1) (nm_next_nonces N)\<rparr>"
  using assms by (auto simp: get_or_allocate_nonce_def Let_def split: prod.splits sum.splits)

text \<open>The manager remembers its log, and the next nonce of an account is above all of that account.\<close>

definition log_ok :: "nonce_manager \<Rightarrow> nonce_log \<Rightarrow> bool" where
  "log_ok N L \<longleftrightarrow> map_of (nm_assigned_nonces N) = map_of (map snd L) \<and> distinct (map (fst \<circ> snd) L) \<and>
     (\<forall>(a, k, n) \<in> set L. n < dict_get (nm_next_nonces N) a 0) \<and> distinct (map (\<lambda>(a, k, n). (a, n)) L)"

lemma log_ok_known: "log_ok N L \<Longrightarrow> (a, k, n) \<in> set L \<Longrightarrow> map_of (nm_assigned_nonces N) k = Some n"
  unfolding log_ok_def by (metis (no_types, lifting) image_eqI list.set_map map_map map_of_is_SomeI snd_conv)

lemma log_ok_new: "log_ok N L \<Longrightarrow> k \<notin> fst ` snd ` set L \<Longrightarrow> map_of (nm_assigned_nonces N) k = None"
  unfolding log_ok_def by (simp add: map_of_eq_None_iff image_image)

lemma nonce_history_ok: "nonce_history S L \<Longrightarrow> log_ok (fst S) L"
proof (induction rule: nonce_history.induct)
  case (history_start x)
  then show ?case by (simp add: log_ok_def new_nonce_manager_def)
next
  case (history_again S L k s c fetch r S')
  then obtain a n where "(a, k, n) \<in> set L" by force
  then have "map_of (nm_assigned_nonces (fst S)) (fst k, snd k) = Some n" using log_ok_known [OF history_again.IH] by simp
  from allocate_known [OF this, of s c fetch "snd S"] show ?case using history_again by auto
next
  case (history_new S L k s c fetch n S')
  let ?a = "account_key s c" and ?N = "fst S"
  have k: "map_of (nm_assigned_nonces ?N) (fst k, snd k) = None" using log_ok_new [OF history_new.IH history_new.hyps(2)] by simp
  have run: "get_or_allocate_nonce s c (fst k) (snd k) fetch (?N, snd S) = (Inr n, fst S', snd S')" using history_new.hyps(3) by simp
  note N' = allocate_new_Inr [OF run k]
  have ok: "map_of (nm_assigned_nonces ?N) = map_of (map snd L)" "distinct (map (fst \<circ> snd) L)" "distinct (map (\<lambda>(a, k, n). (a, n)) L)"
      and below: "\<And>a k n. (a, k, n) \<in> set L \<Longrightarrow> n < dict_get (nm_next_nonces ?N) a 0"
    using history_new.IH by (auto simp: log_ok_def)
  have "m < dict_get (nm_next_nonces (fst S')) a 0" if "(a, j, m) \<in> set L" for a j m
    using below [OF that] N' by auto
  moreover have "(?a, n) \<notin> (\<lambda>(a, k, n). (a, n)) ` set L" using below N' by force
  ultimately show ?case using ok history_new.hyps(2) N' by (auto simp: log_ok_def update_conv' image_image)
next
  case (history_failed S L s c k fetch e S')
  have "get_or_allocate_nonce s c (fst k) (snd k) fetch (fst S, snd S) = (Inl e, fst S', snd S')" using history_failed.hyps by simp
  from allocate_Inl [OF this] show ?case using history_failed.IH by simp
qed simp

text \<open>
  C17: nonces are never shared.  Over any sequence of allocations, failed ones included, two operations of one account
  never get the same nonce; asking again for an operation gives its nonce again, without asking the node and without
  changing anything; and a new operation of the account gets a nonce above all earlier ones of the account and not below the count the
  node reports.
\<close>

theorem nonces_never_shared:
  assumes "nonce_history (N, x) L" "(account_key s c, k, n) \<in> set L"
  shows "get_or_allocate_nonce s2 c2 (fst k) (snd k) fetch (N, x) = (Inr n, N, x) \<and>
    ((account_key s c, k2, n) \<in> set L \<longrightarrow> k2 = k) \<and>
    (k3 \<notin> fst ` snd ` set L \<and> fetch x = (Inr m, y) \<longrightarrow>
       (\<exists>n3 N3. get_or_allocate_nonce s c (fst k3) (snd k3) fetch (N, x) = (Inr n3, N3, y) \<and> n < n3 \<and> m \<le> n3))"
proof -
  have ok: "log_ok N L" using nonce_history_ok [OF assms(1)] by simp
  have "get_or_allocate_nonce s2 c2 (fst k) (snd k) fetch (N, x) = (Inr n, N, x)"
    using log_ok_known [OF ok assms(2)] by (simp add: allocate_known)
  moreover have "k2 = k" if "(account_key s c, k2, n) \<in> set L"
  proof -
    have "inj_on (\<lambda>(a, k, n). (a, n)) (set L)" using ok by (simp add: log_ok_def distinct_map)
    from inj_onD [OF this _ that assms(2)] show ?thesis by simp
  qed
  moreover have "\<exists>n3 N3. get_or_allocate_nonce s c (fst k3) (snd k3) fetch (N, x) = (Inr n3, N3, y) \<and> n < n3 \<and> m \<le> n3"
    if "k3 \<notin> fst ` snd ` set L" "fetch x = (Inr m, y)"
  proof -
    have "map_of (nm_assigned_nonces N) (fst k3, snd k3) = None" using log_ok_new [OF ok that(1)] by simp
    moreover have "n < dict_get (nm_next_nonces N) (account_key s c) 0" using ok assms(2) by (auto simp: log_ok_def)
    ultimately show ?thesis using allocate_new [of N "fst k3" "snd k3" fetch x m y s c] that(2) by (simp add: Let_def)
  qed
  ultimately show ?thesis by blast
qed

lemma demo_account: "account_key '' 0xA'' 1 = (''0xa'', 1)"
  by code_simp

definition demo_nonces :: nonce_manager where
  "demo_nonces = \<lparr>nm_next_nonces = [((''0xa'', 1), 8)], nm_assigned_nonces = [((''o'', ''i''), 7)]\<rparr>"

lemma demo_history: "nonce_history (demo_nonces, ()) [(account_key '' 0xA'' 1, (''o'', ''i''), 7)]"
proof (rule history_new [OF history_start])
  show "get_or_allocate_nonce '' 0xA'' 1 (fst (''o'', ''i'')) (snd (''o'', ''i'')) (\<lambda>c. (Inr 7, c)) (new_nonce_manager, ()) = (Inr 7, demo_nonces, ())"
    by (simp add: get_or_allocate_nonce_def new_nonce_manager_def demo_account demo_nonces_def)
qed simp

theorem nonces_never_shared_witness:
  "\<exists>n3 N3. get_or_allocate_nonce '' 0xA'' 1 ''o2'' ''i2'' (\<lambda>c. (Inr 3, c)) (demo_nonces, ()) = (Inr n3, N3, ()) \<and> 7 < n3"
  using nonces_never_shared [OF demo_history, where s = "'' 0xA''" and c = 1 and k = "(''o'', ''i'')" and n = 7
      and fetch = "\<lambda>c. (Inr 3, c)" and ?k3.0 = "(''o2'', ''i2'')" and m = 3 and y = "()"] by simp blast

section \<open>Retries\<close>

text \<open>Whatever the provider does, an assigned nonce stays assigned.\<close>

inductive chain_call :: "prims \<Rightarrow> 'c chain_config \<Rightarrow> 'c chain_world \<Rightarrow> 'c chain_world \<Rightarrow> bool"
  for P :: prims and C :: "'c chain_config" where
  call_execute: "chain_execute P E C op w = (r, w') \<Longrightarrow> chain_call P C w w'"
| call_status: "chain_status P C i k ref w = (r, w') \<Longrightarrow> chain_call P C w w'"

lemma on_chain_keeps: "on_chain f w = (r, w') \<Longrightarrow> cv_nonces w' = cv_nonces w \<and> cv_op_tx_hashes w' = cv_op_tx_hashes w"
  by (auto simp: on_chain_def split: prod.splits)

lemma allocate_nonce_result:
  assumes "allocate_nonce C b op w = (r, w')"
  shows "cv_op_tx_hashes w' = cv_op_tx_hashes w \<and>
    (\<forall>key n. map_of (nm_assigned_nonces (cv_nonces w)) key = Some n \<longrightarrow> map_of (nm_assigned_nonces (cv_nonces w')) key = Some n) \<and>
    (\<forall>n. r = Inr n \<longrightarrow> map_of (nm_assigned_nonces (cv_nonces w')) (op_id op, op_idempotency_key op) = Some n)"
  using assms unfolding allocate_nonce_def get_or_allocate_nonce_def Let_def
  by (auto simp: update_conv' split: prod.splits option.splits sum.splits)

lemma chain_execute_parts:
  assumes "chain_execute P E C op w = (r, w')"
  obtains "cv_nonces w' = cv_nonces w" "isl r"
  | b s1 s2 where "build_intent P E C op = Inr b" "allocate_nonce C b op w = (s1, s2)" "cv_nonces w' = cv_nonces s2"
    "\<And>x. s1 = Inl x \<Longrightarrow> isl r"
    "\<And>n. s1 = Inr n \<Longrightarrow> (isl (sg_sign (cc_signer C) b n) \<and> isl r) \<or> (\<exists>raw h. sg_sign (cc_signer C) b n = Inr (raw, h) \<and>
       cv_op_tx_hashes w' = AList.update (op_idempotency_key op) h (AList.update (op_id op) h (cv_op_tx_hashes s2)))"
proof (cases "build_intent P E C op")
  case (Inl x)
  then have "cv_nonces w' = cv_nonces w" "isl r" using assms by (auto simp: chain_execute_def act_bind_def act_lift_def)
  then show ?thesis by (rule that(1))
next
  case (Inr b)
  obtain s1 s2 where a: "allocate_nonce C b op w = (s1, s2)" by fastforce
  show ?thesis
  proof (cases s1)
    case (Inl x)
    then have "w' = s2" "isl r" using assms Inr a by (auto simp: chain_execute_def act_bind_def act_lift_def)
    then show ?thesis using that(2) [OF Inr a] Inl by simp
  next
    case n: (Inr n)
    show ?thesis
    proof (cases "sg_sign (cc_signer C) b n")
      case (Inl x)
      then have "w' = s2" "isl r" using assms Inr a n by (auto simp: chain_execute_def act_bind_def act_lift_def)
      then show ?thesis using that(2) [OF Inr a] Inl n by simp
    next
      case s: (Inr p)
      obtain raw h where p: "p = (raw, h)" by (cases p)
      let ?w = "s2\<lparr>cv_op_tx_hashes := AList.update (op_idempotency_key op) h (AList.update (op_id op) h (cv_op_tx_hashes s2))\<rparr>"
      have "on_chain (broadcast P (env_skip 1 E) C b raw h) ?w = (r, w')"
        using assms Inr a n s p by (simp add: chain_execute_def act_bind_def act_lift_def record_hash_def)
      from on_chain_keeps [OF this] show ?thesis using that(2) [OF Inr a] n s p by simp
    qed
  qed
qed

lemma chain_status_keeps: "chain_status P C i k ref w = (r, w') \<Longrightarrow> cv_nonces w' = cv_nonces w"
  unfolding chain_status_def Let_def
  by (auto simp: act_bind_def act_return_def dest!: on_chain_keeps split: if_splits prod.splits sum.splits option.splits)

lemma chain_call_keeps:
  "chain_call P C w w' \<Longrightarrow> map_of (nm_assigned_nonces (cv_nonces w)) key = Some n \<Longrightarrow>
     map_of (nm_assigned_nonces (cv_nonces w')) key = Some n"
proof (induction rule: chain_call.induct)
  case (call_execute E op w r w')
  show ?case using call_execute(1)
    by (rule chain_execute_parts) (use call_execute(2) allocate_nonce_result in \<open>auto dest: allocate_nonce_result\<close>)
next
  case (call_status i k ref w r w')
  then show ?case using chain_status_keeps by metis
qed

lemma chain_calls_keep:
  "(chain_call P C)\<^sup>*\<^sup>* w w' \<Longrightarrow> map_of (nm_assigned_nonces (cv_nonces w)) key = Some n \<Longrightarrow>
     map_of (nm_assigned_nonces (cv_nonces w')) key = Some n"
  by (induction rule: rtranclp_induct) (auto intro: chain_call_keeps)

text \<open>The signature does not depend on when the intent was built; the local signer is of this kind.\<close>

definition timeless :: "signer_ops \<Rightarrow> bool" where
  "timeless S \<longleftrightarrow> (\<forall>b t n. sg_sign S (b\<lparr>bi_created_at := t\<rparr>) n = sg_sign S b n)"

lemma local_signer_timeless: "local_signer H account sign key = Inr S \<Longrightarrow> timeless S"
  by (auto simp: local_signer_def timeless_def local_tx_def)

lemma external_signer_timeless:
  "xs_prompt_callback X = None \<Longrightarrow> timeless (external_signer_ops H X)"
  by (simp add: timeless_def external_signer_ops_def external_sign_def external_raw_hex_def build_transaction_payload_def)

lemma build_intent_time:
  assumes "build_intent P E C op = Inr b" "build_intent P E2 C op = Inr b2"
  shows "b2 = b\<lparr>bi_created_at := bi_created_at b2\<rparr>"
  using assms unfolding build_intent_def Let_def by (auto simp: mk_blockchain_intent_def Let_def split: if_splits)

text \<open>A returning execution has signed its intent under the nonce of the operation and recorded the hash.\<close>

lemma chain_execute_signed:
  assumes "chain_execute P E C op w = (Inr r, w')"
  obtains b n raw h where "build_intent P E C op = Inr b" "sg_sign (cc_signer C) b n = Inr (raw, h)"
    "map_of (nm_assigned_nonces (cv_nonces w')) (op_id op, op_idempotency_key op) = Some n"
    "map_of (nm_assigned_nonces (cv_nonces w)) (op_id op, op_idempotency_key op) \<in> {None, Some n}"
    "map_of (cv_op_tx_hashes w') (op_id op) = Some h"
  using assms
proof (rule chain_execute_parts)
  fix b s1 s2
  assume b: "build_intent P E C op = Inr b" and a: "allocate_nonce C b op w = (s1, s2)" "cv_nonces w' = cv_nonces s2"
    and l: "\<And>x. s1 = Inl x \<Longrightarrow> isl (Inr r :: provider_result result)"
    and s: "\<And>n. s1 = Inr n \<Longrightarrow> (isl (sg_sign (cc_signer C) b n) \<and> isl (Inr r :: provider_result result)) \<or>
       (\<exists>raw h. sg_sign (cc_signer C) b n = Inr (raw, h) \<and>
       cv_op_tx_hashes w' = AList.update (op_idempotency_key op) h (AList.update (op_id op) h (cv_op_tx_hashes s2)))"
  obtain n where n: "s1 = Inr n" using l by (cases s1) auto
  obtain raw h where h: "sg_sign (cc_signer C) b n = Inr (raw, h)"
      "cv_op_tx_hashes w' = AList.update (op_idempotency_key op) h (AList.update (op_id op) h (cv_op_tx_hashes s2))"
    using s [OF n] by auto
  note res = allocate_nonce_result [OF a(1)]
  have now: "map_of (nm_assigned_nonces (cv_nonces w')) (op_id op, op_idempotency_key op) = Some n" using res n a(2) by simp
  have "map_of (nm_assigned_nonces (cv_nonces w)) (op_id op, op_idempotency_key op) \<in> {None, Some n}"
  proof (cases "map_of (nm_assigned_nonces (cv_nonces w)) (op_id op, op_idempotency_key op)")
    case (Some m)
    then have "map_of (nm_assigned_nonces (cv_nonces w')) (op_id op, op_idempotency_key op) = Some m" using res a(2) by simp
    then show ?thesis using now Some by simp
  qed simp
  moreover have "map_of (cv_op_tx_hashes w') (op_id op) = Some h" by (simp add: h(2) update_conv')
  ultimately show ?thesis using that [OF b h(1) now] by blast
qed simp

text \<open>
  C18: a retry is the same transaction.  Once the provider has executed an operation, executing it again after any
  further calls, for this or other operations, signs the same transaction: the hash it records for the operation does not
  change, so that the chain can accept the operation at most once.
\<close>

theorem chain_retry_same_transaction:
  assumes "timeless (cc_signer C)" "chain_execute P E C op w = (Inr r, w1)" "(chain_call P C)\<^sup>*\<^sup>* w1 w2"
    and "chain_execute P E2 C op w2 = (Inr r2, w3)"
  shows "map_of (cv_op_tx_hashes w3) (op_id op) = map_of (cv_op_tx_hashes w1) (op_id op) \<and>
    map_of (cv_op_tx_hashes w3) (op_id op) \<noteq> None"
proof -
  let ?key = "(op_id op, op_idempotency_key op)"
  obtain b n raw h where 1: "build_intent P E C op = Inr b" "sg_sign (cc_signer C) b n = Inr (raw, h)"
      "map_of (nm_assigned_nonces (cv_nonces w1)) ?key = Some n" "map_of (cv_op_tx_hashes w1) (op_id op) = Some h"
    using chain_execute_signed [OF assms(2)] by metis
  obtain b2 n2 raw2 h2 where 2: "build_intent P E2 C op = Inr b2" "sg_sign (cc_signer C) b2 n2 = Inr (raw2, h2)"
      "map_of (nm_assigned_nonces (cv_nonces w2)) ?key \<in> {None, Some n2}" "map_of (cv_op_tx_hashes w3) (op_id op) = Some h2"
    using chain_execute_signed [OF assms(4)] by metis
  have "n2 = n" using 2(3) chain_calls_keep [OF assms(3) 1(3)] by simp
  moreover have "sg_sign (cc_signer C) b2 n2 = sg_sign (cc_signer C) b n2"
    using assms(1) build_intent_time [OF 1(1) 2(1)] unfolding timeless_def by metis
  ultimately show ?thesis using 1 2 by simp
qed

section \<open>Outcomes\<close>

text \<open>A status is decided exactly when the node has a receipt for the known hash, and then as the receipt has it.\<close>

theorem chain_status_exact:
  assumes "chain_status P C i key ref w = (Inr r, w')"
  shows "px_outcome r \<in> {Outcome_SUCCESS, Outcome_FAILURE, Outcome_TIMEOUT} \<and>
    (px_outcome r \<noteq> Outcome_TIMEOUT \<longleftrightarrow> known_hash w i key ref \<noteq> [] \<and>
      (\<exists>receipt c. rp_receipt (cc_rpc C) (known_hash w i key ref) (cv_chain w) = (Inr (Some receipt), c) \<and>
        px_outcome r = (if receipt_success receipt then Outcome_SUCCESS else Outcome_FAILURE)))"
  using assms unfolding chain_status_def Let_def on_chain_def
  by (auto simp: act_bind_def act_return_def chain_timeout_def status_of_receipt_def Let_def
      split: if_splits prod.splits sum.splits option.splits)

text \<open>
  The external signer does not look at what was signed: with a signed transaction set, every intent and every nonce get
  that transaction, as long as the operator signed it.
\<close>

theorem external_signature_unbound:
  assumes "py_truthy (xs_signed_raw_tx_hex S)"
  shows "external_sign H S b n = external_sign H S b2 n2"
  using assms by (simp add: external_sign_def external_raw_hex_def)

section \<open>A concrete operation\<close>

definition demo_lib :: eth_lib where
  "demo_lib = \<lparr>el_keccak = (\<lambda>s. take 32 (s @ replicate 32 (CHR ''k''))), el_checksum = id,
     el_encode_uint256 = (\<lambda>n. if 0 \<le> n \<and> n < 256 then Inr [char_of n] else raise ValueError ''value out of bounds''),
     el_recover = (\<lambda>raw. Inr ORBIO_CREDIT_MAINNET)\<rparr>"

definition demo_signer :: signer_ops where
  "demo_signer = \<lparr>sg_address = ORBIO_CREDIT_MAINNET, sg_sign = (\<lambda>b n. Inr (bi_data_payload b, hex0x (bytes_hex (replicate 32 (CHR ''s'')))))\<rparr>"

definition demo_chain_config :: "sim_node chain_config" where
  "demo_chain_config = \<lparr>cc_rpc = sim_rpc demo_prims demo_lib, cc_signer = demo_signer, cc_default_chain_id = 11155111,
     cc_network_name = ''sepolia''\<rparr>"

definition demo_chain_world :: "sim_node chain_world" where
  "demo_chain_world = \<lparr>cv_nonces = new_nonce_manager, cv_op_tx_hashes = [], cv_chain = (new_sim_node 11155111 5000000)\<lparr>sn_timeout_all := True\<rparr>\<rparr>"

definition demo_chain_op :: consequential_operation where
  "demo_chain_op = demo_op\<lparr>op_action_type := BLOCKCHAIN_TRANSACTION, op_parameters := [(''recipient'', JStr ORBIO_CREDIT_MAINNET)]\<rparr>"

abbreviation demo_send :: "sim_node chain_world \<Rightarrow> provider_result result \<times> sim_node chain_world" where
  "demo_send \<equiv> chain_execute demo_prims demo_env demo_chain_config demo_chain_op"

lemma demo_signer_timeless: "timeless (cc_signer demo_chain_config)"
  by (simp add: timeless_def demo_chain_config_def demo_signer_def)

lemma demo_send_returns: "case demo_send demo_chain_world of (Inr r, w) \<Rightarrow> (case demo_send w of (Inr r2, w2) \<Rightarrow> True | _ \<Rightarrow> False) | _ \<Rightarrow> False"
  by code_simp

theorem chain_retry_same_transaction_witness:
  "\<exists>r w r2 w2. demo_send demo_chain_world = (Inr r, w) \<and> demo_send w = (Inr r2, w2) \<and>
     map_of (cv_op_tx_hashes w2) ''cop-1'' = map_of (cv_op_tx_hashes w) ''cop-1''"
proof -
  obtain r w where 1: "demo_send demo_chain_world = (Inr r, w)"
    using demo_send_returns by (cases "demo_send demo_chain_world"; cases "fst (demo_send demo_chain_world)") auto
  then obtain r2 w2 where 2: "demo_send w = (Inr r2, w2)"
    using demo_send_returns by (cases "demo_send w"; cases "fst (demo_send w)") auto
  have "op_id demo_chain_op = ''cop-1''" by (simp add: demo_chain_op_def demo_op_def)
  then show ?thesis using chain_retry_same_transaction [OF demo_signer_timeless 1 rtranclp.rtrancl_refl 2] 1 2 by auto
qed

end
