(* ===== verification/ActivationDemo.thy ===== *)
theory ActivationDemo
  imports ActivationBooks ChainTrust
begin

text \<open>A concrete activation: the properties of \<open>ActivationTrust\<close> and \<open>ActivationBooks\<close> applied to it.\<close>

definition demo_activation_args :: activation_policy where
  "demo_activation_args = \<lparr>ap_max_activation_amount = MAX_ACTIVATION_AMOUNT, ap_allowed_chain_id = ORBIO_ACTIVATION_CHAIN_ID,
     ap_allowed_network = ORBIO_ACTIVATION_NETWORK, ap_allowed_credit_contract = ORBIO_CREDIT_ACTIVATION_CONTRACT,
     ap_max_fee_per_gas = 100000000000, ap_max_priority_fee_per_gas = 10000000000, ap_max_gas_limit = 500000,
     ap_require_human_approval = True, ap_human_approval_ttl_seconds = 3600, ap_forbid_testnet = True,
     ap_forbid_simulation = True, ap_secret = [], ap_approvals = [], ap_issued = [], ap_revoked = {}\<rparr>"

definition demo_activation_policy :: activation_policy where
  "demo_activation_policy = (case mk_activation_policy demo_env demo_activation_args (Some ''k'') of Inr p \<Rightarrow> p)"

text \<open>The contract is given with a capital letter and a space, which the constructor cleans.\<close>

definition raw_activation_intent :: activation_intent where
  "raw_activation_intent = \<lparr>ai_tenant_id = ''acme'', ai_organisation_id = ''org-1'', ai_mission_id = None, ai_operation_id = ''act-1'',
     ai_chain_id = ORBIO_ACTIVATION_CHAIN_ID, ai_network = ''Robinhood'', ai_credit_contract = '' 0xE33322da1380e61e5ae5dfb21e7f62924c73004c'',
     ai_amount = 65, ai_beneficiary = None, ai_max_fee_per_gas = 25000000000, ai_max_priority_fee_per_gas = 1500000000,
     ai_gas_limit = 150000, ai_amount_credits = 10, ai_idempotency_key = ''i'', ai_policy_decision_id = ''d'',
     ai_authorization_token_hash = ''h'', ai_deadline = None, ai_created_at = []\<rparr>"

definition demo_activation_intent :: activation_intent where
  "demo_activation_intent = raw_activation_intent\<lparr>ai_credit_contract := ORBIO_CREDIT_MAINNET\<rparr>"

lemma demo_activation_intent_ok: "mk_activation_intent raw_activation_intent = Inr demo_activation_intent"
  by code_simp

definition demo_activation_approval :: activation_approval where
  "demo_activation_approval = fst (issue_activation_approval demo_prims demo_env demo_activation_intent ''OP'' None None 0 demo_activation_policy)"

abbreviation demo_activation_run :: "(activation_preparation \<times> consequential_operation) result" where
  "demo_activation_run \<equiv> prepare_activation_operation demo_prims demo_lib demo_env 10 demo_activation_policy demo_activation_intent demo_org
     (Some demo_activation_approval) (Some ''mainnet'') ''blockchain''"

lemma demo_activation_runs: "case demo_activation_run of Inr (n, op) \<Rightarrow> op_amount op = 10 | _ \<Rightarrow> False"
  by code_simp

theorem activation_signed_as_authorised_witness:
  "\<exists>n op b tx. demo_activation_run = Inr (n, op) \<and> build_intent demo_prims demo_env demo_chain_config op = Inr b \<and>
     local_tx demo_lib b 7 = Inr tx \<and> tx_nonce tx = 7 \<and> tx_value tx = 0 \<and> tx_data tx = ''actiA''"
proof -
  obtain n op where run: "demo_activation_run = Inr (n, op)"
    using demo_activation_runs by (cases demo_activation_run) auto
  have "el_encode_uint256 demo_lib (ai_amount demo_activation_intent) = Inr ''A''" by code_simp
  then have "el_encode_uint256 demo_lib (ai_amount demo_activation_intent) = Inr args \<Longrightarrow> args = ''A''" for args by simp
  moreover have "ACTIVATE_SELECTOR demo_lib = ''acti''" by code_simp
  ultimately show ?thesis
    using activation_signed_as_authorised [OF demo_activation_intent_ok run, where ?E2.0 = demo_env and C = demo_chain_config and nonce = 7] run by fastforce
qed

section \<open>Its receipt\<close>

definition demo_activation_sender :: string where
  "demo_activation_sender = ''0x'' @ replicate 40 (CHR ''a'')"

definition demo_activation_receipt :: "(string \<times> json) list" where
  "demo_activation_receipt = [(''transactionHash'', JStr ''0xt''), (''status'', JStr ''0x1''), (''to'', JStr ORBIO_CREDIT_MAINNET),
     (''logs'', JList [JObj [(''address'', JStr ORBIO_CREDIT_MAINNET), (''data'', JStr ''0x41''),
        (''topics'', JList [JStr (ACTIVATED_EVENT_TOPIC0 demo_lib), JStr ''0x7'', JStr demo_activation_sender, JStr ''0x0''])]])]"

abbreviation demo_activation_report :: "activation_report result" where
  "demo_activation_report \<equiv> verify_activation demo_prims demo_lib demo_activation_intent 4663 demo_activation_receipt (Some demo_activation_sender)"

lemma demo_activation_verifies: "case demo_activation_report of Inr r \<Rightarrow> ar_result r = Activation_VERIFIED | _ \<Rightarrow> False"
  by code_simp

theorem verified_activation_matches_witness:
  "\<exists>r ls l ev. demo_activation_report = Inr r \<and> iter_json (param_get demo_activation_receipt ''logs'') = Inr ls \<and> l \<in> set ls \<and>
     log_shows demo_lib l ev \<and> ae_amount ev = 65 \<and> ar_activation_id r = Some (ae_activation_id ev)"
proof -
  obtain r where run: "demo_activation_report = Inr r" "ar_result r = Activation_VERIFIED"
    using demo_activation_verifies by (cases demo_activation_report) auto
  have "ai_amount demo_activation_intent = 65" by (simp add: demo_activation_intent_def raw_activation_intent_def)
  then show ?thesis using verified_activation_matches [OF run] run(1) by metis
qed

section \<open>Its reconciliation\<close>

definition demo_activation_query :: activation_query where
  "demo_activation_query = \<lparr>aq_receipt = Some demo_activation_receipt, aq_chain_id = 4663, aq_expected_sender = Some demo_activation_sender,
     aq_api_key = Some ''key'', aq_answer = Answer 200 (Some (JObj [(''balance'', JObj [(''available'', JInt 1)])]))\<rparr>"

definition demo_activation_world :: "(ledger, unit) purchase_world" where
  "demo_activation_world = \<lparr>pw_cs = \<lparr>cs_ledger = demo_locked_ledger, cs_repo = None, cs_tokens = None, cs_events = None,
     cs_provider = (), cs_org = demo_org\<rparr>, pw_verified = [], pw_op = demo_op\<lparr>op_tenant_id := ''acme'', op_organisation_id := ''org-1'',
       op_state := Op_SUBMITTED, op_action_type := ORBIO_CREDIT_ACTIVATION\<rparr>\<rparr>"

abbreviation demo_activation_rec :: "activation_outcome result \<times> (ledger, unit) purchase_world" where
  "demo_activation_rec \<equiv> reconcile_activation mem_entry_ops demo_prims demo_lib demo_env demo_activation_intent demo_activation_query demo_activation_world"

lemma demo_activation_settles: "case demo_activation_rec of (Inr out, w) \<Rightarrow> ao_status out = Activation_VERIFIED | _ \<Rightarrow> False"
  by code_simp


end
