(* ===== verification/Spec2Isabelle.thy ===== *)
theory Spec2Isabelle
  imports Outcomes Tenancy Governance WorkOrders Collateral MarketFlow PurchaseBooks LoopDemo MissionDemo AuditTrust Budgets ActivationDemo
begin

text \<open>
  The Kalyx engine runs organisations of software agents.  Agents propose actions, a policy engine decides,
  executors act, and every movement of credits goes through a double-entry ledger.  On top of that
  core, organisations earn credits: they execute paid work orders, trade them on a marketplace with escrow,
  and pledge credits as collateral.  This development models that core, written as the Python code is,
  and proves what makes it safe to run.

  \<^bold>\<open>Theories and the code they model\<close> (all paths under \<open>src/src/\<close>).

  \<^item> \<open>Prelude\<close>: results (\<open>Inl\<close> an exception), actions (a result and the state left behind, so that a
    raise keeps what was already done), the environment of fresh ids and clock readings, the primitive functions of
    the standard library that are parameters (SHA-256, HMAC, JSON, number formatting), shared lemmas.
    \<open>Python\<close>: string and number helpers.  \<open>Tables\<close>: SQL tables as lists of rows with the laws of a keyed store.
  \<^item> \<open>Ledger\<close>: \<open>economy/ledger.py\<close>.  \<open>SqlLedger\<close>: the SQLite, atomic and Postgres ledgers
    (\<open>persistence/repositories.py\<close>, \<open>security/atomic_ledger.py\<close>, \<open>persistence/postgres_ledger.py\<close>).
    \<open>Tenancy\<close>: \<open>tenancy/\<close>.
  \<^item> \<open>Domain\<close>: \<open>domain/entities.py\<close>, \<open>domain/enums.py\<close>, \<open>orchestration/state_machine.py\<close>.
    \<open>EventStore\<close>: the hash-chained audit log in memory and in SQLite.
  \<^item> \<open>Rules\<close>, \<open>PolicyEngine\<close>: the policy rules of \<open>governance/\<close>, their evaluation, and the signed
    authorization tokens.  \<open>Governance\<close>: administrator quorum, circuit breaker, execution approvals, human gate.
  \<^item> \<open>Journals\<close>, \<open>Executor\<close>: token consumption, idempotency, the sandbox, external and durable executors.
  \<^item> \<open>Consequential\<close>, \<open>Provider\<close>, \<open>Settlement\<close>, \<open>Outcomes\<close>: the operation life cycle
    (\<open>execution/consequential.py\<close>), the settlement adapter and simulated provider, reconciliation, and what they do together.
  \<^item> \<open>WorkOrders\<close>, \<open>WorkRepo\<close>: paid work, its verifier, the surplus reconciler and their repository.
  \<^item> \<open>Collateral\<close>: \<open>domain/collateral.py\<close>, its vault and coordinator.
  \<^item> \<open>Marketplace\<close>, \<open>MarketFlow\<close>: orders, escrows, capability grants, and the coordinator of
    \<open>agents/b2b_marketplace_coordinator.py\<close>.
  \<^item> \<open>Purchase\<close>: typed purchase intents and the purchase policy with its human approvals (\<open>domain/blockchain.py\<close>,
    \<open>governance/orbio_purchase_rules.py\<close>).  \<open>Exchange\<close>: the simulated exchange.  \<open>PurchaseSettle\<close>: the purchase
    bridge, verifier and reconciliation.  \<open>PurchaseLoop\<close>: the governed purchase loop of \<open>agents/orbio_purchase_loop.py\<close>.
    \<open>LoopBounds\<close>, \<open>LoopDemo\<close>, \<open>PurchaseBooks\<close>: its budget machine, its termination, the books it leaves.
  \<^item> \<open>Rounding\<close>, \<open>Missions\<close>: unit economics, the choice of an order, the self-sustaining mission, the coordinator and
    the daemon (\<open>agents/roles/\<close>, \<open>agents/self_sustaining_loop.py\<close>, \<open>agents/work_order_coordinator.py\<close>,
    \<open>orchestration/autonomous_daemon.py\<close>).  \<open>MissionBooks\<close>, \<open>MissionChoice\<close>, \<open>MissionDemo\<close>: what they do with the
    books, which orders run, and concrete missions.
  \<^item> \<open>Auditor\<close>, \<open>AuditTrust\<close>: \<open>audit/auditor.py\<close> and what an audit establishes.
  \<^item> \<open>Reputation\<close>, \<open>Lifecycle\<close>: the performance records of \<open>domain/economy.py\<close>, their repository, the reputation
    engine and the life cycle of agents (\<open>economy/reputation.py\<close>).  \<open>Allocation\<close>, \<open>Budgets\<close>: the allocation of the
    treasury and the assignment of tasks (\<open>economy/allocator.py\<close>, \<open>orchestration/assignment.py\<close>).
  \<^item> \<open>Bytes\<close>: hex text and the helpers for JSON values from outside.  \<open>Chain\<close>: nonces, signers and the execution authority
    (\<open>settlement/blockchain/nonce_manager.py\<close>, \<open>signer.py\<close>, \<open>execution/authority.py\<close>).  \<open>ChainProvider\<close>: the
    settlement provider and the simulated node (\<open>provider.py\<close>, \<open>rpc_client.py\<close>).  \<open>ChainTrust\<close>: nonces, retries, outcomes.
  \<^item> \<open>Activation\<close>: the intent and policy of a credit activation (\<open>domain/orbio_activation.py\<close>,
    \<open>governance/orbio_activation_rules.py\<close>).  \<open>ActivationSettle\<close>: its bridge, receipt and balance verifiers and
    reconciliation (\<open>execution/orbio_activation.py\<close>, \<open>settlement/orbio_activation_verifier.py\<close>, \<open>orbio_api_verifier.py\<close>,
    \<open>orbio_activation_reconciliation.py\<close>).  \<open>ActivationPreflight\<close>: the preflight and the runtime guard.
    \<open>ActivationTrust\<close>, \<open>ActivationBooks\<close>, \<open>ActivationDemo\<close>: what is signed, what a receipt shows, the books, concrete activations.

  \<^bold>\<open>Interfaces\<close> are locales: what a ledger promises its users, what a provider promises the execution manager,
  what a keyed table promises a repository, what a vault promises the coordinator, that a resource is taken once.
  Each is interpreted on the models of the code that provide it, and the users' lemmas are proved under its laws.

  \<^bold>\<open>What is shown.\<close>  Ledgers conserve credits, never overdraw, never apply a transaction id twice; the
  SQL ledger refines the one in memory; tenants and organisations cannot touch each other's accounts or rows.
  An approval is exactly what the rules and threshold say, its token authorises exactly one execution of exactly
  that proposal.  A consequential operation escrows, calls its provider at most once and settles by its answer,
  now or at reconciliation.  The audit log is tamper evident.  A pause lasts until two administrators lift it.
  Paid work is verified before it is paid and paid once, also after a restart; escrows and collateral leave
  their account once, to the right side.  The purchase loop terminates, keeps its limits and settles each purchase by
  verified evidence.  A mission spends only on the best profitable order, distributes its bounty exactly and once; a
  daemon in STANDBY spends nothing.  The auditor agrees with the engine about tokens, raises exactly on a discrepancy,
  and passes what was executed.  Reputation scores stay in range, retirement is final, a permission taken away never
  returns; an allocation stays within the treasury and the ceilings, and a task goes to the fittest candidate.  On the chain
  nonces are never shared and a retry is the same transaction; what is signed for a credit activation is what was
  authorised, a verified receipt shows the activation, and its reconciliation moves the escrow by it.
  Some theorems show where the code does less than it means to.

  \<^bold>\<open>Choices.\<close>  Python integers are \<open>int\<close>.  Floating point numbers are exact rationals, and where a float product is
  floored (\<open>int(surplus * ratio)\<close>) the floored product is a parameter with the bounds it has below \<open>2 ^ 53\<close>.
  Error messages leave out interpolated values.  JSON and timestamp columns hold the value they encode; rows that
  foreign keys point to exist; SQL rows that tie in an ORDER BY keep the table's order.
  Fuel bounds three loops, as the source does: the redirects of \<open>dispatch\<close> by its redirect limit, \<open>run_until_terminal\<close>
  by \<open>max_steps\<close> (the default of three times the iterations is shown to be enough), \<open>run_cycles\<close> by \<open>max_cycles\<close>.
  Locks make the guarded sections sequential; interleavings are sequences of whole operations.

  \<^bold>\<open>Not modelled.\<close>  The HTTP API, database drivers and migrations, the language-model adapters and agent roles,
  the live RPC client and its DNS resolver, the gateway adapter and the HTTP clients of external services: they are input
  and output, or call services whose code is not here.  Signing, key derivation, Keccak-256 and ABI encoding are
  parameters (\<open>eth_lib\<close>).  The economic experiments and the mission engine are glue over modelled parts.
\<close>

end
